(* ===== verification/Prelude.thy ===== *)
theory Prelude
  imports Main "HOL-Library.Word" "HOL-Library.Char_ord" "HOL-Library.List_Lexorder"
    "HOL-Library.Product_Lexorder" "HOL-Library.Multiset"
begin

text \<open>
  What the components share: the machine integers of the Rust code, results
  with the \<open>?\<close> operator, with and without a state, and the two kinds of map.

  A Rust \<open>String\<close> is the list of its UTF-8 bytes, one \<^typ>\<open>char\<close> for a byte, so
  \<open>length\<close> is \<open>str::len\<close> and the order of \<^theory_text>\<open>List_Lexorder\<close> is \<open>Ord for str\<close>.
\<close>

section \<open>Machine integers\<close>

type_synonym u16 = "16 word"
type_synonym u32 = "32 word"
type_synonym u64 = "64 word"
type_synonym u128 = "128 word"

text \<open>\<open>saturating_sub\<close> and \<open>saturating_mul\<close> of the unsigned integers.\<close>

definition saturating_sub :: "'a::len word \<Rightarrow> 'a word \<Rightarrow> 'a word" where
  "saturating_sub a b = (if b \<le> a then a - b else 0)"

definition saturating_mul :: "'a::len word \<Rightarrow> 'a word \<Rightarrow> 'a word" where
  "saturating_mul a b = (if unat a * unat b < 2 ^ LENGTH('a) then a * b else - 1)"

lemma unat_saturating_sub: "unat (saturating_sub a b) = unat a - unat b"
  by (simp add: saturating_sub_def unat_sub word_le_nat_alt)

lemma unat_saturating_mul:
  fixes a b :: "'a::len word"
  shows "unat (saturating_mul a b) = min (unat a * unat b) (2 ^ LENGTH('a) - 1)"
proof (cases "unat a * unat b < 2 ^ LENGTH('a)")
  case True
  then show ?thesis by (simp add: saturating_mul_def unat_mult_lem [THEN iffD1])
next
  case False
  then show ?thesis by (simp add: saturating_mul_def unsigned_minus_1_eq_mask mask_eq_exp_minus_1)
qed

section \<open>Results\<close>

text \<open>The \<open>?\<close> operator: an error returns from the function at once.\<close>

definition and_then :: "'e + 'a \<Rightarrow> ('a \<Rightarrow> 'e + 'b) \<Rightarrow> 'e + 'b" where
  "and_then r f = (case r of Inl e \<Rightarrow> Inl e | Inr a \<Rightarrow> f a)"

lemma and_then_simps [simp]:
  "and_then (Inl e) f = Inl e"
  "and_then (Inr a) f = f a"
  by (simp_all add: and_then_def)

lemma and_then_Inr_iff: "and_then r f = Inr b \<longleftrightarrow> (\<exists>a. r = Inr a \<and> f a = Inr b)"
  by (cases r) auto

lemma and_then_Inl_iff: "and_then r f = Inl e \<longleftrightarrow> r = Inl e \<or> (\<exists>a. r = Inr a \<and> f a = Inl e)"
  by (cases r) auto

text \<open>\<open>ok_or\<close> and \<open>collect::<Result<Vec<_>, _>>()\<close>.\<close>

definition ok_or :: "'a option \<Rightarrow> 'e \<Rightarrow> 'e + 'a" where
  "ok_or x e = (case x of None \<Rightarrow> Inl e | Some a \<Rightarrow> Inr a)"

lemma ok_or_simps [simp]: "ok_or None e = Inl e" "ok_or (Some a) e = Inr a"
  by (simp_all add: ok_or_def)

fun collect_results :: "('e + 'a) list \<Rightarrow> 'e + 'a list" where
  "collect_results [] = Inr []"
| "collect_results (r # rs) = and_then r (\<lambda>a. and_then (collect_results rs) (\<lambda>xs. Inr (a # xs)))"

fun collect_options :: "'a option list \<Rightarrow> 'a list option" where
  "collect_options [] = Some []"
| "collect_options (None # xs) = None"
| "collect_options (Some a # xs) = map_option ((#) a) (collect_options xs)"

lemma collect_results_Inr: "collect_results rs = Inr xs \<longleftrightarrow> rs = map Inr xs"
  by (induction rs arbitrary: xs) (auto simp: and_then_Inr_iff)

lemma collect_options_Some: "collect_options rs = Some xs \<longleftrightarrow> rs = map Some xs"
  by (induction rs arbitrary: xs rule: collect_options.induct) auto

lemma length_collect_options: "collect_options rs = Some xs \<Longrightarrow> length xs = length rs"
  by (simp add: collect_options_Some)

text \<open>The same for functions that also pass a state on: an error keeps the state reached.\<close>

definition st_then :: "('e + 'a) \<times> 's \<Rightarrow> ('a \<Rightarrow> 's \<Rightarrow> ('e + 'b) \<times> 's) \<Rightarrow> ('e + 'b) \<times> 's" where
  "st_then r f = (case r of (Inl e, s) \<Rightarrow> (Inl e, s) | (Inr a, s) \<Rightarrow> f a s)"

lemma st_then_simps [simp]:
  "st_then (Inl e, s) f = (Inl e, s)"
  "st_then (Inr a, s) f = f a s"
  by (simp_all add: st_then_def)

lemma st_then_Inr_iff:
  "st_then r f = (Inr b, s') \<longleftrightarrow> (\<exists>a s. r = (Inr a, s) \<and> f a s = (Inr b, s'))"
  by (cases r; cases "fst r") auto

fun collect_st :: "('a \<Rightarrow> 's \<Rightarrow> ('e + 'b) \<times> 's) \<Rightarrow> 'a list \<Rightarrow> 's \<Rightarrow> ('e + 'b list) \<times> 's" where
  "collect_st f [] s = (Inr [], s)"
| "collect_st f (x # xs) s =
     st_then (f x s) (\<lambda>y s. st_then (collect_st f xs s) (\<lambda>ys s. (Inr (y # ys), s)))"

definition unwrap_or :: "'a option \<Rightarrow> 'a \<Rightarrow> 'a" where
  "unwrap_or x d = (case x of Some a \<Rightarrow> a | None \<Rightarrow> d)"

lemma unwrap_or_simps [simp]: "unwrap_or None d = d" "unwrap_or (Some a) d = a"
  by (simp_all add: unwrap_or_def)

text \<open>An option that is absent, or whose value satisfies the predicate (\<open>map_or(true, _)\<close>).\<close>

definition map_or_true :: "'a option \<Rightarrow> ('a \<Rightarrow> bool) \<Rightarrow> bool" where
  "map_or_true x p = (case x of None \<Rightarrow> True | Some a \<Rightarrow> p a)"

definition is_some_and :: "'a option \<Rightarrow> ('a \<Rightarrow> bool) \<Rightarrow> bool" where
  "is_some_and x p = (case x of None \<Rightarrow> False | Some a \<Rightarrow> p a)"

lemma map_or_true_simps [simp]: "map_or_true None p" "map_or_true (Some a) p = p a"
  by (simp_all add: map_or_true_def)

lemma is_some_and_simps [simp]: "\<not> is_some_and None p" "is_some_and (Some a) p = p a"
  by (simp_all add: is_some_and_def)

lemma is_some_and_iff: "is_some_and x p \<longleftrightarrow> (\<exists>a. x = Some a \<and> p a)"
  by (cases x) auto

section \<open>Maps\<close>

text \<open>
  A \<open>HashMap\<close> is an association list: what the code can observe of its iteration
  order is the order of the list, which no theorem fixes. A \<open>BTreeMap\<close> is an association
  list kept in key order by \<open>bt_insert\<close>. \<^const>\<open>map_of\<close> looks both up.
\<close>

type_synonym ('k, 'v) hash_map = "('k \<times> 'v) list"
type_synonym ('k, 'v) btree_map = "('k \<times> 'v) list"

fun hm_insert :: "'k \<Rightarrow> 'v \<Rightarrow> ('k, 'v) hash_map \<Rightarrow> ('k, 'v) hash_map" where
  "hm_insert k v [] = [(k, v)]"
| "hm_insert k v ((k', v') # m) = (if k = k' then (k, v) # m else (k', v') # hm_insert k v m)"

fun hm_remove :: "'k \<Rightarrow> ('k, 'v) hash_map \<Rightarrow> ('k, 'v) hash_map" where
  "hm_remove k [] = []"
| "hm_remove k ((k', v') # m) = (if k = k' then m else (k', v') # hm_remove k m)"

fun bt_insert :: "'k::linorder \<Rightarrow> 'v \<Rightarrow> ('k, 'v) btree_map \<Rightarrow> ('k, 'v) btree_map" where
  "bt_insert k v [] = [(k, v)]"
| "bt_insert k v ((k', v') # m) =
     (if k < k' then (k, v) # (k', v') # m
      else if k = k' then (k, v) # m
      else (k', v') # bt_insert k v m)"

abbreviation hm_values :: "('k \<times> 'v) list \<Rightarrow> 'v list" where
  "hm_values m \<equiv> map snd m"

abbreviation hm_keys :: "('k \<times> 'v) list \<Rightarrow> 'k list" where
  "hm_keys m \<equiv> map fst m"

lemma map_of_hm_insert [simp]: "map_of (hm_insert k v m) = (map_of m)(k \<mapsto> v)"
  by (induction m rule: hm_insert.induct) (auto simp: fun_eq_iff)

lemma set_keys_hm_insert [simp]: "fst ` set (hm_insert k v m) = insert k (fst ` set m)"
  by (induction k v m rule: hm_insert.induct) auto

lemma distinct_hm_insert [simp]: "distinct (hm_keys m) \<Longrightarrow> distinct (hm_keys (hm_insert k v m))"
  by (induction k v m rule: hm_insert.induct) (auto simp flip: image_set)

lemma map_of_hm_remove [simp]:
  "distinct (hm_keys m) \<Longrightarrow> map_of (hm_remove k m) = (map_of m)(k := None)"
  by (induction k m rule: hm_remove.induct)
     (auto simp: fun_eq_iff map_of_eq_None_iff fun_upd_twist)

lemma set_hm_remove_subset: "set (hm_remove k m) \<subseteq> set m"
  by (induction k m rule: hm_remove.induct) auto

lemma distinct_hm_remove [simp]: "distinct (hm_keys m) \<Longrightarrow> distinct (hm_keys (hm_remove k m))"
  by (induction k m rule: hm_remove.induct) (auto dest: set_hm_remove_subset [THEN subsetD])

lemma map_of_bt_insert [simp]: "map_of (bt_insert k v m) = (map_of m)(k \<mapsto> v)"
  by (induction k v m rule: bt_insert.induct) (auto simp: fun_eq_iff)

lemma set_keys_bt_insert [simp]: "fst ` set (bt_insert k v m) = insert k (fst ` set m)"
  by (induction k v m rule: bt_insert.induct) auto

lemma sorted_bt_insert [simp]:
  "sorted_wrt (<) (hm_keys m) \<Longrightarrow> sorted_wrt (<) (hm_keys (bt_insert k v m))"
proof (induction k v m rule: bt_insert.induct)
  case (2 k v k' v' m)
  have "\<forall>x \<in> set (bt_insert k v m). fst x \<in> insert k (fst ` set m)"
    using set_keys_bt_insert [of k v m] by blast
  with 2 show ?case by fastforce
qed simp

lemma sorted_hm_remove [simp]:
  "sorted_wrt (<) (hm_keys m) \<Longrightarrow> sorted_wrt (<) (hm_keys (hm_remove (k::'k::linorder) m))"
  by (induction k m rule: hm_remove.induct) (auto dest: set_hm_remove_subset [THEN subsetD])

lemma sorted_wrt_less_distinct:
  "sorted_wrt (<) (xs :: 'a::linorder list) \<Longrightarrow> distinct xs"
  by (induction xs) auto

lemma mset_hm_insert_new:
  "k \<notin> set (hm_keys m) \<Longrightarrow> mset (hm_insert k v m) = add_mset (k, v) (mset m)"
  by (induction k v m rule: hm_insert.induct) auto

lemma mset_hm_remove:
  "map_of m k = Some v \<Longrightarrow> mset m = add_mset (k, v) (mset (hm_remove k m))"
  by (induction k m rule: hm_remove.induct) (auto split: if_splits)

lemma hm_remove_absent: "map_of m k = None \<Longrightarrow> hm_remove k m = m"
  by (induction k m rule: hm_remove.induct) (auto split: if_splits)

lemma hm_insert_present:
  "map_of m k = Some w \<Longrightarrow> mset (hm_insert k v m) = add_mset (k, v) (mset (hm_remove k m))"
  by (induction k v m rule: hm_insert.induct) (auto split: if_splits)

lemma mset_bt_insert_new:
  "k \<notin> set (hm_keys m) \<Longrightarrow> mset (bt_insert k v m) = add_mset (k, v) (mset m)"
  by (induction k v m rule: bt_insert.induct) auto

lemma mset_bt_insert_present:
  "sorted_wrt (<) (hm_keys m) \<Longrightarrow> map_of m k = Some w \<Longrightarrow>
     mset (bt_insert k v m) = add_mset (k, v) (mset (hm_remove k m))"
proof (induction k v m rule: bt_insert.induct)
  case (2 k v k' v' m)
  then show ?case
    by (auto split: if_splits dest!: map_of_SomeD)
qed simp

lemma hm_insert_entries: "x \<in> set (hm_insert k v m) \<Longrightarrow> x = (k, v) \<or> x \<in> set m"
  by (induction k v m rule: hm_insert.induct) (auto split: if_splits)

lemma key_known: "map_of m k = Some v \<Longrightarrow> k \<in> fst ` set m"
  by (metis domI dom_map_of_conv_image_fst)

section \<open>Lists\<close>

lemma filter_by_key:
  "distinct (map f xs) \<Longrightarrow> x \<in> set xs \<Longrightarrow> filter (\<lambda>y. f y = f x) xs = [x]"
  by (induction xs) (auto simp: filter_empty_conv image_iff)

text \<open>Slices of a list, one after the other.\<close>

lemma concat_slices: "concat (map (\<lambda>k. take n (drop (k * n) xs)) [0..<m]) = take (m * n) xs"
proof (induction m)
  case (Suc m)
  then show ?case by (simp add: add.commute [of n] take_add)
qed simp

lemma enough_slices: "length xs \<le> Suc (length xs div Suc e) * Suc e"
proof -
  have "length xs = length xs div Suc e * Suc e + length xs mod Suc e"
    by (rule div_mult_mod_eq [symmetric])
  moreover have "length xs mod Suc e < Suc e" by simp
  ultimately show ?thesis by (metis add.commute mult_Suc nat_add_left_cancel_le less_imp_le)
qed

end
