(* ===== verification/Rust_Strings.thy ===== *)
theory Rust_Strings
  imports Prelude
begin

text \<open>
  The functions on \<open>str\<close> that the code calls, on UTF-8 bytes: white space and \<open>trim\<close>,
  \<open>split_whitespace\<close>, \<open>split\<close>, \<open>split_once\<close>, searching, prefixes, \<open>join\<close>, \<open>sort\<close> with
  \<open>dedup\<close>, printing of unsigned integers and \<open>parse\<close>. The lemmas give what the components
  need: a trimmed or split text holds no white space at its ends, printing is injective
  and parsing inverts it.
\<close>

section \<open>White space\<close>

text \<open>
  \<open>ws_len s\<close> is the number of bytes of the white-space character that \<open>s\<close> starts with,
  0 where it starts with another character. One byte: U+0009 to U+000D and U+0020. Two:
  U+0085, U+00A0. Three: U+1680, U+2000 to U+200A, U+2028, U+2029, U+202F, U+205F, U+3000.
\<close>

definition byte :: "char \<Rightarrow> nat" where
  "byte c = of_char c"

definition ws1 :: "char \<Rightarrow> bool" where
  "ws1 a \<longleftrightarrow> byte a = 32 \<or> 9 \<le> byte a \<and> byte a \<le> 13"

definition ws2 :: "char \<Rightarrow> char \<Rightarrow> bool" where
  "ws2 a b \<longleftrightarrow> byte a = 194 \<and> (byte b = 133 \<or> byte b = 160)"

definition ws3 :: "char \<Rightarrow> char \<Rightarrow> char \<Rightarrow> bool" where
  "ws3 a b c \<longleftrightarrow>
     byte a = 225 \<and> byte b = 154 \<and> byte c = 128
     \<or> byte a = 226 \<and> byte b = 128 \<and>
         (128 \<le> byte c \<and> byte c \<le> 138 \<or> byte c = 168 \<or> byte c = 169 \<or> byte c = 175)
     \<or> byte a = 226 \<and> byte b = 129 \<and> byte c = 159
     \<or> byte a = 227 \<and> byte b = 128 \<and> byte c = 128"

fun ws_len :: "string \<Rightarrow> nat" where
  "ws_len [] = 0"
| "ws_len [a] = (if ws1 a then 1 else 0)"
| "ws_len [a, b] = (if ws1 a then 1 else if ws2 a b then 2 else 0)"
| "ws_len (a # b # c # s) =
     (if ws1 a then 1 else if ws2 a b then 2 else if ws3 a b c then 3 else 0)"

text \<open>The same for the last character, read on the reversed bytes.\<close>

fun rws_len :: "string \<Rightarrow> nat" where
  "rws_len [] = 0"
| "rws_len [a] = (if ws1 a then 1 else 0)"
| "rws_len [b, a] = (if ws1 b then 1 else if ws2 a b then 2 else 0)"
| "rws_len (c # b # a # s) =
     (if ws1 c then 1 else if ws2 b c then 2 else if ws3 a b c then 3 else 0)"

lemma ws_len_le: "ws_len s \<le> length s"
  by (cases s rule: ws_len.cases) auto

lemma rws_len_le: "rws_len s \<le> length s"
  by (cases s rule: rws_len.cases) auto

function skip_ws :: "(string \<Rightarrow> nat) \<Rightarrow> string \<Rightarrow> string" where
  "skip_ws w s = (if w s = 0 \<or> s = [] then s else skip_ws w (drop (w s) s))"
  by pat_completeness auto
termination
  by (relation "measure (\<lambda>(w, s). length s)") auto

declare skip_ws.simps [simp del]

definition trim_start :: "string \<Rightarrow> string" where
  "trim_start s = skip_ws ws_len s"

definition trim_end :: "string \<Rightarrow> string" where
  "trim_end s = rev (skip_ws rws_len (rev s))"

definition trim :: "string \<Rightarrow> string" where
  "trim s = trim_end (trim_start s)"

definition blank :: "string \<Rightarrow> bool" where
  "blank s \<longleftrightarrow> trim s = []"

lemma skip_ws_stop: "w (skip_ws w s) = 0 \<or> skip_ws w s = []"
proof (induction w s rule: skip_ws.induct)
  case (1 w s)
  then show ?case by (auto simp: skip_ws.simps [of w s])
qed

lemma skip_ws_suffix: "\<exists>k. skip_ws w s = drop k s"
proof (induction w s rule: skip_ws.induct)
  case (1 w s)
  show ?case
  proof (cases "w s = 0 \<or> s = []")
    case True
    then have "skip_ws w s = drop 0 s" by (simp add: skip_ws.simps [of w s])
    then show ?thesis by blast
  next
    case False
    with 1 obtain k where "skip_ws w (drop (w s) s) = drop k (drop (w s) s)" by auto
    with False have "skip_ws w s = drop (k + w s) s" by (simp add: skip_ws.simps [of w s])
    then show ?thesis by blast
  qed
qed

lemma skip_ws_idem: "w s = 0 \<Longrightarrow> skip_ws w s = s"
  by (simp add: skip_ws.simps [of w s])

lemma trim_Nil [simp]: "trim [] = []"
  by (simp add: trim_def trim_start_def trim_end_def skip_ws.simps)

lemma blank_Nil [simp]: "blank []"
  by (simp add: blank_def)

text \<open>A text that starts and ends with a character that is not white space is its own trim.\<close>

lemma trim_id: "ws_len s = 0 \<Longrightarrow> rws_len (rev s) = 0 \<Longrightarrow> trim s = s"
  by (simp add: trim_def trim_start_def trim_end_def skip_ws_idem)

lemma trim_end_rws: "rws_len (rev (trim_end s)) = 0 \<or> trim_end s = []"
  using skip_ws_stop [of rws_len "rev s"] by (auto simp: trim_end_def)

lemma trim_end_prefix: "\<exists>k. trim_end s = take k s"
proof -
  obtain k where "skip_ws rws_len (rev s) = drop k (rev s)"
    using skip_ws_suffix [of rws_len "rev s"] by blast
  then have "trim_end s = take (length s - k) s"
    by (simp add: trim_end_def rev_drop)
  then show ?thesis by blast
qed

lemma length_trim_le: "length (trim s) \<le> length s"
proof -
  obtain k j where "trim_end (trim_start s) = take k (trim_start s)"
    and "trim_start s = drop j s"
    using trim_end_prefix skip_ws_suffix unfolding trim_start_def by meson
  then show ?thesis by (simp add: trim_def)
qed

section \<open>Splitting\<close>

text \<open>\<open>split_whitespace\<close>: \<open>cur\<close> is the token being read, reversed.\<close>

function split_ws :: "string \<Rightarrow> string \<Rightarrow> string list" where
  "split_ws cur [] = (if cur = [] then [] else [rev cur])"
| "split_ws cur (c # s) =
     (let k = ws_len (c # s)
      in if k = 0 then split_ws (c # cur) s
         else (if cur = [] then [] else [rev cur]) @ split_ws [] (drop k (c # s)))"
  by pat_completeness auto
termination
  by (relation "measure (\<lambda>(cur, s). length s)") (auto split: if_splits)

definition split_whitespace :: "string \<Rightarrow> string list" where
  "split_whitespace s = split_ws [] s"

lemma split_ws_nonempty: "t \<in> set (split_ws cur s) \<Longrightarrow> t \<noteq> []"
  by (induction cur s rule: split_ws.induct) (auto simp: Let_def split: if_splits)

text \<open>
  Two texts that differ only in white space have the same tokens: a leading run of white
  space is skipped, and a separator ends a token.
\<close>

lemma split_ws_skip:
  "ws_len s \<noteq> 0 \<Longrightarrow> split_ws [] s = split_ws [] (drop (ws_len s) s)"
  by (cases s) (auto simp: Let_def)

fun split_on :: "char \<Rightarrow> string \<Rightarrow> string list" where
  "split_on d [] = [[]]"
| "split_on d (c # s) =
     (if c = d then [] # split_on d s
      else (case split_on d s of [] \<Rightarrow> [[c]] | t # ts \<Rightarrow> (c # t) # ts))"

fun split_once :: "char \<Rightarrow> string \<Rightarrow> (string \<times> string) option" where
  "split_once d [] = None"
| "split_once d (c # s) =
     (if c = d then Some ([], s) else map_option (\<lambda>(a, b). (c # a, b)) (split_once d s))"

lemma split_on_not_Nil [simp]: "split_on d s \<noteq> []"
  by (induction d s rule: split_on.induct) (auto split: list.splits)

lemma split_on_no_sep: "d \<notin> set s \<Longrightarrow> split_on d s = [s]"
  by (induction d s rule: split_on.induct) auto

lemma split_on_append:
  "d \<notin> set a \<Longrightarrow> split_on d (a @ d # b) = a # split_on d b"
  by (induction a) auto

lemma split_on_parts: "t \<in> set (split_on d s) \<Longrightarrow> d \<notin> set t"
  by (induction d s arbitrary: t rule: split_on.induct) (auto split: if_splits list.splits)

lemma split_once_Some:
  "split_once d s = Some (a, b) \<longleftrightarrow> s = a @ d # b \<and> d \<notin> set a"
proof (induction d s arbitrary: a rule: split_once.induct)
  case (2 d c s)
  then show ?case by (cases a) auto
qed simp

lemma split_once_append: "d \<notin> set a \<Longrightarrow> split_once d (a @ d # b) = Some (a, b)"
  by (simp add: split_once_Some)

section \<open>Searching and prefixes\<close>

definition starts_with :: "string \<Rightarrow> string \<Rightarrow> bool" where
  "starts_with p s \<longleftrightarrow> take (length p) s = p"

definition strip_prefix :: "string \<Rightarrow> string \<Rightarrow> string option" where
  "strip_prefix p s = (if starts_with p s then Some (drop (length p) s) else None)"

fun find_sub :: "string \<Rightarrow> string \<Rightarrow> nat option" where
  "find_sub p [] = (if p = [] then Some 0 else None)"
| "find_sub p (c # s) =
     (if starts_with p (c # s) then Some 0 else map_option Suc (find_sub p s))"

definition contains :: "string \<Rightarrow> string \<Rightarrow> bool" where
  "contains s p \<longleftrightarrow> find_sub p s \<noteq> None"

lemma starts_with_append [simp]: "starts_with p (p @ s)"
  by (simp add: starts_with_def)

lemma starts_with_iff: "starts_with p s \<longleftrightarrow> (\<exists>t. s = p @ t)"
  by (metis append_eq_conv_conj append_take_drop_id starts_with_def)

lemma strip_prefix_append [simp]: "strip_prefix p (p @ s) = Some s"
  by (simp add: strip_prefix_def)

lemma strip_prefix_Some: "strip_prefix p s = Some t \<longleftrightarrow> s = p @ t"
  by (auto simp: strip_prefix_def starts_with_iff)

lemma find_sub_Some: "find_sub p s = Some i \<Longrightarrow> \<exists>a b. s = a @ p @ b \<and> length a = i"
proof (induction p s arbitrary: i rule: find_sub.induct)
  case (2 p c s)
  show ?case
  proof (cases "starts_with p (c # s)")
    case True
    with 2 show ?thesis by (auto simp: starts_with_iff)
  next
    case False
    with 2 obtain j a b where "i = Suc j" "s = a @ p @ b" "length a = j" by force
    then have "c # s = (c # a) @ p @ b" "length (c # a) = i" by auto
    then show ?thesis by blast
  qed
qed (auto split: if_splits)

lemma find_sub_append: "find_sub p (a @ p @ b) \<noteq> None"
proof (induction a)
  case Nil
  have "starts_with p (p @ b)" by simp
  then show ?case by (cases "p @ b") auto
qed auto

lemma contains_iff: "contains s p \<longleftrightarrow> (\<exists>a b. s = a @ p @ b)"
  using find_sub_Some [of p s] find_sub_append [of p] by (fastforce simp: contains_def)

lemma contains_append: "contains (a @ p @ b) p"
  by (auto simp: contains_iff)

lemma contains_mono: "contains s p \<Longrightarrow> contains (a @ s @ b) p"
  by (metis append.assoc contains_iff)

section \<open>Joining, sorting, removing duplicates\<close>

fun join :: "string \<Rightarrow> string list \<Rightarrow> string" where
  "join sep [] = []"
| "join sep [x] = x"
| "join sep (x # y # xs) = x @ sep @ join sep (y # xs)"

text \<open>\<open>sort\<close> then \<open>dedup\<close>: strictly ascending, with the same elements.\<close>

definition sort_dedup :: "'a::linorder list \<Rightarrow> 'a list" where
  "sort_dedup xs = remdups_adj (sort xs)"

lemma set_sort_dedup [simp]: "set (sort_dedup xs) = set xs"
  by (simp add: sort_dedup_def)

lemma sorted_sort_dedup: "sorted_wrt (<) (sort_dedup xs)"
proof -
  have "sorted_wrt (<) (remdups_adj ys)" if "sorted ys" for ys :: "'a list"
    using that
  proof (induction ys rule: remdups_adj.induct)
    case (3 x y xs)
    then show ?case by (auto simp: order_less_le)
  qed auto
  then show ?thesis by (simp add: sort_dedup_def)
qed

lemma sort_dedup_eq_iff: "sort_dedup xs = sort_dedup ys \<longleftrightarrow> set xs = set ys"
proof
  assume "set xs = set ys"
  then have "set (sort_dedup xs) = set (sort_dedup ys)" by simp
  then show "sort_dedup xs = sort_dedup ys"
    by (intro strict_sorted_equal sorted_sort_dedup)
qed (metis set_sort_dedup)

lemma sort_dedup_id: "sorted_wrt (<) xs \<Longrightarrow> sort_dedup xs = xs"
  by (rule strict_sorted_equal) (simp_all add: sorted_sort_dedup)

section \<open>Printing and parsing unsigned integers\<close>

text \<open>\<open>{}\<close> of an unsigned integer, and \<open>{:0w}\<close>, which pads with zeros on the left to \<open>w\<close> digits.\<close>

definition digit :: "nat \<Rightarrow> char" where
  "digit d = char_of (48 + d)"

fun show_nat :: "nat \<Rightarrow> string" where
  "show_nat n = (if n < 10 then [digit n] else show_nat (n div 10) @ [digit (n mod 10)])"

declare show_nat.simps [simp del]

definition show_word :: "'a::len word \<Rightarrow> string" where
  "show_word w = show_nat (unat w)"

definition zero_pad :: "nat \<Rightarrow> string \<Rightarrow> string" where
  "zero_pad w s = replicate (w - length s) (CHR ''0'') @ s"

text \<open>
  \<open>str::parse\<close> for an unsigned integer of the given range: an optional \<open>+\<close>, then one
  or more decimal digits, and no overflow.
\<close>

definition digit_val :: "char \<Rightarrow> nat option" where
  "digit_val c = (if 48 \<le> byte c \<and> byte c \<le> 57 then Some (byte c - 48) else None)"

fun parse_digits :: "nat \<Rightarrow> string \<Rightarrow> nat option" where
  "parse_digits acc [] = Some acc"
| "parse_digits acc (c # s) =
     (case digit_val c of None \<Rightarrow> None | Some d \<Rightarrow> parse_digits (10 * acc + d) s)"

definition parse_unsigned :: "nat \<Rightarrow> string \<Rightarrow> nat option" where
  "parse_unsigned bound s =
     (let body = (case s of c # s' \<Rightarrow> if c = CHR ''+'' then s' else s | [] \<Rightarrow> [])
      in if body = [] then None
         else case parse_digits 0 body of
           None \<Rightarrow> None
         | Some n \<Rightarrow> if n < bound then Some n else None)"

definition parse_word :: "string \<Rightarrow> 'a::len word option" where
  "parse_word s = map_option of_nat (parse_unsigned (2 ^ LENGTH('a)) s)"

lemma byte_digit [simp]: "d < 10 \<Longrightarrow> byte (digit d) = 48 + d"
  by (simp add: byte_def digit_def)

lemma digit_val_digit [simp]: "d < 10 \<Longrightarrow> digit_val (digit d) = Some d"
  by (simp add: digit_val_def)

lemma digit_not_plus: "d < 10 \<Longrightarrow> digit d \<noteq> CHR ''+''"
proof
  assume "d < 10" "digit d = CHR ''+''"
  then have "48 + d = byte (CHR ''+'')" by (metis byte_digit)
  then show False by (simp add: byte_def)
qed

lemma show_nat_not_Nil [simp]: "show_nat n \<noteq> []"
  by (subst show_nat.simps) simp

lemma set_show_nat: "c \<in> set (show_nat n) \<Longrightarrow> \<exists>d < 10. c = digit d"
proof (induction n rule: show_nat.induct)
  case (1 n)
  show ?case
  proof (cases "n < 10")
    case True
    with 1 show ?thesis by (auto simp: show_nat.simps [of n])
  next
    case False
    with 1 have "c \<in> set (show_nat (n div 10)) \<or> c = digit (n mod 10)"
      by (auto simp: show_nat.simps [of n])
    with 1 False show ?thesis by (metis mod_less_divisor zero_less_numeral)
  qed
qed

lemma parse_digits_append:
  "parse_digits acc (xs @ ys) =
     (case parse_digits acc xs of None \<Rightarrow> None | Some n \<Rightarrow> parse_digits n ys)"
  by (induction acc xs rule: parse_digits.induct) (auto split: option.splits)

lemma parse_digits_show_nat: "parse_digits 0 (show_nat n) = Some n"
proof (induction n rule: show_nat.induct)
  case (1 n)
  then show ?case
    by (cases "n < 10") (auto simp: show_nat.simps [of n] parse_digits_append)
qed

lemma parse_digits_zeros: "parse_digits 0 (replicate k (CHR ''0'') @ s) = parse_digits 0 s"
  by (induction k) (simp_all add: digit_val_def byte_def)

lemma show_nat_inject [simp]: "show_nat m = show_nat n \<longleftrightarrow> m = n"
  by (metis option.inject parse_digits_show_nat)

lemma hd_show_nat_not_plus: "hd (show_nat n) \<noteq> CHR ''+''"
  using set_show_nat [of "hd (show_nat n)" n] digit_not_plus by (metis hd_in_set show_nat_not_Nil)

lemma parse_unsigned_show_nat: "n < bound \<Longrightarrow> parse_unsigned bound (show_nat n) = Some n"
proof -
  assume "n < bound"
  obtain c s where cs: "show_nat n = c # s" by (cases "show_nat n") auto
  with hd_show_nat_not_plus [of n] have "c \<noteq> CHR ''+''" by simp
  moreover have "parse_digits 0 (c # s) = Some n" using parse_digits_show_nat [of n] cs by simp
  ultimately show ?thesis
    using cs \<open>n < bound\<close> by (simp add: parse_unsigned_def del: parse_digits.simps)
qed

theorem parse_word_show_word [simp]: "parse_word (show_word w) = Some w"
  by (simp add: parse_word_def show_word_def parse_unsigned_show_nat)

lemma show_word_inject [simp]: "show_word v = show_word w \<longleftrightarrow> v = w"
  by (simp add: show_word_def word_unat_eq_iff)

lemma zero_pad_inject: "zero_pad k (show_nat m) = zero_pad k (show_nat n) \<longleftrightarrow> m = n"
  unfolding zero_pad_def by (metis option.inject parse_digits_show_nat parse_digits_zeros)

end
