(* ===== verification/Shared.thy ===== *)
theory Shared
  imports Rust_Strings
begin

text \<open>
  The crate nexus-shared: the application error with its message and its HTTP answer, and
  the string identifiers.
\<close>

section \<open>Errors (crates/nexus-shared/src/error.rs)\<close>

datatype app_error =
    BadRequest string
  | Database string
  | InvalidConfig string
  | Unauthorized
  | NotFound string
  | Internal

type_synonym 'a app_result = "app_error + 'a"

text \<open>\<open>Display\<close>, which \<^theory_text>\<open>thiserror\<close> derives from the attributes.\<close>

fun app_error_to_string :: "app_error \<Rightarrow> string" where
  "app_error_to_string (BadRequest m) = m"
| "app_error_to_string (Database m) = ''database error: '' @ m"
| "app_error_to_string (InvalidConfig m) = ''invalid configuration: '' @ m"
| "app_error_to_string Unauthorized = ''unauthorized''"
| "app_error_to_string (NotFound m) = ''not found: '' @ m"
| "app_error_to_string Internal = ''internal error''"

record error_body =
  eb_code :: string
  eb_message :: string

text \<open>The status code and the JSON body of an error answer.\<close>

fun error_status :: "app_error \<Rightarrow> nat \<times> string" where
  "error_status (BadRequest _) = (400, ''BAD_REQUEST'')"
| "error_status (Database _) = (500, ''DATABASE_ERROR'')"
| "error_status (InvalidConfig _) = (400, ''INVALID_CONFIG'')"
| "error_status Unauthorized = (401, ''UNAUTHORIZED'')"
| "error_status (NotFound _) = (404, ''NOT_FOUND'')"
| "error_status Internal = (500, ''INTERNAL_ERROR'')"

definition into_response :: "app_error \<Rightarrow> nat \<times> error_body" where
  "into_response e =
     (case error_status e of (status, code) \<Rightarrow>
        (status, \<lparr>eb_code = code, eb_message = app_error_to_string e\<rparr>))"

section \<open>Identifiers (crates/nexus-shared/src/ids.rs)\<close>

datatype user_id = UserId (user_id_0: string)
datatype submission_id = SubmissionId (submission_id_0: string)
datatype problem_id = ProblemId (problem_id_0: string)

record health_status =
  hs_service :: string
  hs_version :: string
  hs_status :: string

definition health_ok :: "string \<Rightarrow> string \<Rightarrow> health_status" where
  "health_ok service version = \<lparr>hs_service = service, hs_version = version, hs_status = ''ok''\<rparr>"

end
