(* ===== verification/Float64.thy ===== *)
theory Float64
  imports Complex_Main Rust_Strings
begin

text \<open>
  The binary64 numbers (\<open>f64\<close>) of the validator: the value of a double is a rational
  number, an infinity or NaN. The two zeros are one value, which no operation used here
  tells apart. Arithmetic rounds to nearest, ties to even, with gradual underflow and
  overflow to infinity; \<open>str::parse\<close> reads the grammar of \<open>f64::from_str\<close>.
\<close>

datatype f64 = NaN | PosInf | NegInf | Fin rat

section \<open>Rounding\<close>

function ilog2 :: "int \<Rightarrow> int" where
  "ilog2 n = (if n < 2 then 0 else 1 + ilog2 (n div 2))"
  by pat_completeness auto
termination
  by (relation "measure nat") auto

declare ilog2.simps [simp del]

definition pow2 :: "int \<Rightarrow> rat" where
  "pow2 i = (if 0 \<le> i then 2 ^ nat i else 1 / 2 ^ nat (- i))"

text \<open>The exponent \<open>e\<close> with \<open>2 ^ e \<le> x < 2 ^ (e + 1)\<close>, for positive \<open>x\<close>.\<close>

definition exponent :: "rat \<Rightarrow> int" where
  "exponent x =
     (case quotient_of x of (p, q) \<Rightarrow>
        let e = ilog2 p - ilog2 q
        in if pow2 e \<le> x then e else e - 1)"

definition round_half_even :: "rat \<Rightarrow> int" where
  "round_half_even x =
     (let f = \<lfloor>x\<rfloor>; d = x - of_int f
      in if d < 1 / 2 then f else if 1 / 2 < d then f + 1 else if even f then f else f + 1)"

definition f64_max :: rat where
  "f64_max = (2 ^ 53 - 1) * 2 ^ 971"

definition round_f64 :: "rat \<Rightarrow> f64" where
  "round_f64 x =
     (if x = 0 then Fin 0
      else let a = \<bar>x\<bar>;
               q = max (exponent a - 52) (- 1074);
               r = of_int (round_half_even (a / pow2 q)) * pow2 q
           in if r \<le> f64_max then Fin (if x < 0 then - r else r)
              else if x < 0 then NegInf else PosInf)"

lemma round_f64_0 [simp]: "round_f64 0 = Fin 0"
  by (simp add: round_f64_def)

section \<open>The operations the code uses\<close>

fun f64_neg :: "f64 \<Rightarrow> f64" where
  "f64_neg NaN = NaN"
| "f64_neg PosInf = NegInf"
| "f64_neg NegInf = PosInf"
| "f64_neg (Fin x) = Fin (- x)"

fun f64_sub :: "f64 \<Rightarrow> f64 \<Rightarrow> f64" where
  "f64_sub NaN _ = NaN"
| "f64_sub _ NaN = NaN"
| "f64_sub PosInf PosInf = NaN"
| "f64_sub NegInf NegInf = NaN"
| "f64_sub PosInf _ = PosInf"
| "f64_sub NegInf _ = NegInf"
| "f64_sub _ PosInf = NegInf"
| "f64_sub _ NegInf = PosInf"
| "f64_sub (Fin x) (Fin y) = round_f64 (x - y)"

fun f64_abs :: "f64 \<Rightarrow> f64" where
  "f64_abs NaN = NaN"
| "f64_abs (Fin x) = Fin \<bar>x\<bar>"
| "f64_abs _ = PosInf"

text \<open>\<open>partial_cmp\<close>: \<^const>\<open>None\<close> exactly where an operand is NaN.\<close>

datatype ordering = Less | Equal | Greater

fun f64_partial_cmp :: "f64 \<Rightarrow> f64 \<Rightarrow> ordering option" where
  "f64_partial_cmp NaN _ = None"
| "f64_partial_cmp _ NaN = None"
| "f64_partial_cmp NegInf NegInf = Some Equal"
| "f64_partial_cmp NegInf _ = Some Less"
| "f64_partial_cmp _ NegInf = Some Greater"
| "f64_partial_cmp PosInf PosInf = Some Equal"
| "f64_partial_cmp PosInf _ = Some Greater"
| "f64_partial_cmp _ PosInf = Some Less"
| "f64_partial_cmp (Fin x) (Fin y) =
     Some (if x < y then Less else if x = y then Equal else Greater)"

definition f64_le :: "f64 \<Rightarrow> f64 \<Rightarrow> bool" where
  "f64_le a b \<longleftrightarrow> f64_partial_cmp a b = Some Less \<or> f64_partial_cmp a b = Some Equal"

definition f64_lt :: "f64 \<Rightarrow> f64 \<Rightarrow> bool" where
  "f64_lt a b \<longleftrightarrow> f64_partial_cmp a b = Some Less"

lemma round_f64_minus: "round_f64 (- x) = f64_neg (round_f64 x)"
  by (auto simp: round_f64_def Let_def)

lemma f64_abs_neg [simp]: "f64_abs (f64_neg a) = f64_abs a"
  by (cases a) auto

lemma f64_sub_swap: "f64_sub b a = f64_neg (f64_sub a b)"
proof (cases a; cases b)
  fix x y
  assume "a = Fin x" "b = Fin y"
  then show ?thesis using round_f64_minus [of "x - y"] by simp
qed auto

lemma f64_abs_sub_commute: "f64_abs (f64_sub a b) = f64_abs (f64_sub b a)"
  by (simp add: f64_sub_swap [of b a])

lemma f64_sub_self: "f64_sub (Fin x) (Fin x) = Fin 0"
  by simp

lemma f64_le_NaN [simp]: "\<not> f64_le NaN b" "\<not> f64_le a NaN"
  by (cases a; simp add: f64_le_def)+

lemma f64_le_Fin [simp]: "f64_le (Fin x) (Fin y) \<longleftrightarrow> x \<le> y"
  by (auto simp: f64_le_def)

section \<open>Reading a decimal number\<close>

definition is_digit :: "char \<Rightarrow> bool" where
  "is_digit c \<longleftrightarrow> digit_val c \<noteq> None"

definition digits_value :: "string \<Rightarrow> int" where
  "digits_value s = foldl (\<lambda>acc c. 10 * acc + (int (byte c) - 48)) 0 s"

definition ascii_lower_char :: "char \<Rightarrow> char" where
  "ascii_lower_char c = (if 65 \<le> byte c \<and> byte c \<le> 90 then char_of (byte c + 32) else c)"

definition ascii_upper_char :: "char \<Rightarrow> char" where
  "ascii_upper_char c = (if 97 \<le> byte c \<and> byte c \<le> 122 then char_of (byte c - 32) else c)"

definition parse_sign :: "string \<Rightarrow> bool \<times> string" where
  "parse_sign s =
     (case s of
        [] \<Rightarrow> (False, [])
      | c # s' \<Rightarrow> if c = CHR ''-'' then (True, s') else if c = CHR ''+'' then (False, s') else (False, s))"

text \<open>The exponent part: nothing, or \<open>e\<close> or \<open>E\<close>, a sign and digits up to the end.\<close>

definition parse_exp :: "string \<Rightarrow> int option" where
  "parse_exp s =
     (case s of
        [] \<Rightarrow> Some 0
      | c # s' \<Rightarrow>
          if ascii_lower_char c = CHR ''e'' then
            (case parse_sign s' of (neg, ds) \<Rightarrow>
               if ds \<noteq> [] \<and> list_all is_digit ds
               then Some (if neg then - digits_value ds else digits_value ds)
               else None)
          else None)"

definition pow10 :: "int \<Rightarrow> rat" where
  "pow10 i = (if 0 \<le> i then 10 ^ nat i else 1 / 10 ^ nat (- i))"

definition parse_number :: "string \<Rightarrow> rat option" where
  "parse_number s =
     (let d1 = takeWhile is_digit s; r1 = dropWhile is_digit s;
          has_dot = (case r1 of [] \<Rightarrow> False | c # _ \<Rightarrow> c = CHR ''.'');
          d2 = (if has_dot then takeWhile is_digit (tl r1) else []);
          r2 = (if has_dot then dropWhile is_digit (tl r1) else r1)
      in if d1 = [] \<and> d2 = [] then None
         else map_option
           (\<lambda>e. of_int (digits_value (d1 @ d2)) * pow10 (e - int (length d2)))
           (parse_exp r2))"

definition parse_f64 :: "string \<Rightarrow> f64 option" where
  "parse_f64 s =
     (case parse_sign s of (neg, body) \<Rightarrow>
        let low = map ascii_lower_char body
        in if low = ''inf'' \<or> low = ''infinity'' then Some (if neg then NegInf else PosInf)
           else if low = ''nan'' then Some NaN
           else map_option (\<lambda>x. round_f64 (if neg then - x else x)) (parse_number body))"

lemma round_f64_not_NaN [simp]: "round_f64 x \<noteq> NaN"
  by (simp add: round_f64_def Let_def)

text \<open>Only the literal \<open>nan\<close> reads as NaN.\<close>

lemma parse_f64_NaN_iff:
  "parse_f64 s = Some NaN \<longleftrightarrow> map ascii_lower_char (snd (parse_sign s)) = ''nan''"
  by (auto simp: parse_f64_def Let_def split: prod.splits if_splits)

end
