(* ===== verification/Protocol.thy ===== *)
theory Protocol
  imports Shared Float64
begin

text \<open>
  The wire types of the runtime (crates/nexus-runtime/src/protocol.rs): a task, its retry
  policy and the judge payload. A field carries a prefix for its struct, because the fields
  of two records of one theory share a name space.
\<close>

datatype runtime_task_type = RtOjJudge

datatype runtime_judge_mode = RtAcm | RtFunctional

datatype runtime_sandbox_kind = RtNsjail | RtWasm | RtNsjailWasm

record runtime_retry_policy =
  rp_max_attempts :: u32
  rp_retry_delay_ms :: u64

record runtime_limits =
  lim_time_limit_ms :: u64
  lim_memory_limit_kb :: u64

record runtime_testcase =
  tc_case_no :: u32
  tc_input :: string
  tc_expected_output :: string
  tc_score :: u32

datatype runtime_judge_method = RtValidator | RtSpj

record runtime_validator_config =
  vc_ignore_whitespace :: bool
  vc_ignore_case :: bool
  vc_is_unordered :: bool
  vc_is_token_mode :: bool
  vc_is_float :: bool
  vc_float_epsilon :: f64

record runtime_spj_config =
  spj_language :: string
  spj_source_code :: string

record runtime_function_parameter =
  fp_name :: string
  fp_ty :: string

record runtime_function_signature =
  fs_function_name :: string
  fs_return_type :: string
  fs_params :: "runtime_function_parameter list"

record runtime_judge_config =
  jc_judge_method :: runtime_judge_method
  jc_validator :: "runtime_validator_config option"
  jc_spj :: "runtime_spj_config option"
  jc_function_signature :: "runtime_function_signature option"

record oj_judge_task =
  oj_submission_id :: submission_id
  oj_problem_id :: problem_id
  oj_user_id :: user_id
  oj_language :: string
  oj_judge_mode :: runtime_judge_mode
  oj_sandbox_kind :: runtime_sandbox_kind
  oj_source_code :: string
  oj_limits :: runtime_limits
  oj_testcases :: "runtime_testcase list"
  oj_judge_config :: "runtime_judge_config option"

datatype runtime_task_payload = PayloadOjJudge oj_judge_task

record runtime_task =
  rt_task_id :: string
  rt_task_type :: runtime_task_type
  rt_source_domain :: string
  rt_source_entity_id :: string
  rt_queue :: string
  rt_lane :: string
  rt_retry_policy :: runtime_retry_policy
  rt_payload :: runtime_task_payload

definition default_sandbox_kind :: runtime_sandbox_kind where
  "default_sandbox_kind = RtNsjail"

end
