(* ===== verification/Runtime_Types.thy ===== *)
theory Runtime_Types
  imports Protocol
begin

text \<open>
  The data of the runtime (the type declarations of crates/nexus-runtime/src/executor.rs and
  the capability profiles of broker/mod.rs). A field or a constructor carries a prefix for
  its type. Exit codes and signals (\<open>i32\<close>) are integers no code computes with.
\<close>

section \<open>Prepared work\<close>

datatype task_lifecycle_status =
    LcQueued | LcRetrying | LcPreparing | LcPrepared | LcCompiling | LcRunning
  | LcCompleted | LcFailed | LcDeadLettered

record prepared_stage =
  ps_stage_name :: string
  ps_score :: u32
  ps_command :: "string list"
  ps_working_directory :: string
  ps_stdin_path :: "string option"
  ps_time_limit_ms :: u64
  ps_memory_limit_kb :: "u64 option"
  ps_output_limit_bytes :: u64
  ps_stdout_path :: string
  ps_stderr_path :: string
  ps_readonly_mounts :: "string list"

record direct_command_limits =
  dl_time_limit_sec :: u64
  dl_memory_limit_bytes :: "u64 option"
  dl_pids_limit :: "u32 option"
  dl_file_size_bytes :: u64

record prepared_case_dir =
  cd_case_no :: u32
  cd_score :: u32
  cd_directory :: string
  cd_input_path :: string
  cd_answer_path :: string
  cd_output_path :: string
  cd_stderr_path :: string

record prepared_spj_artifacts =
  sa_language :: string
  sa_source_path :: string
  sa_readonly_mounts :: "string list"
  sa_compile_stage :: "prepared_stage option"
  sa_run_command :: "string list"

record prepared_artifacts =
  pa_execution_id :: string
  pa_task_id :: string
  pa_status :: task_lifecycle_status
  pa_work_dir :: string
  pa_source_path :: string
  pa_manifest_path :: string
  pa_judge_config :: "runtime_judge_config option"
  pa_cases :: "prepared_case_dir list"
  pa_spj_artifacts :: "prepared_spj_artifacts option"
  pa_compile_stage :: "prepared_stage option"
  pa_run_stages :: "prepared_stage list"

section \<open>Outcomes\<close>

datatype stage_status = StSucceeded | StFailed | StSkipped

datatype failure_kind =
    FkTimeLimitExceeded | FkMemoryLimitExceeded | FkOutputLimitExceeded
  | FkSecurityViolation | FkRuntimeError

record stage_outcome =
  so_stage_name :: string
  so_status :: stage_status
  so_exit_code :: "int option"
  so_signal :: "int option"
  so_failure_kind :: "failure_kind option"
  so_duration_ms :: u128
  so_memory_used_kb :: u64
  so_stdout_size_bytes :: u64
  so_stderr_size_bytes :: u64
  so_stdout_path :: string
  so_stderr_path :: string
  so_stdout_excerpt :: string
  so_stderr_excerpt :: string

datatype case_final_status =
    CsAccepted | CsWrongAnswer | CsTimeLimitExceeded | CsMemoryLimitExceeded
  | CsOutputLimitExceeded | CsSecurityViolation | CsRuntimeError

record case_outcome =
  co_case_no :: u32
  co_score :: u32
  co_status :: case_final_status
  co_exit_code :: "int option"
  co_duration_ms :: u128
  co_memory_used_kb :: u64
  co_stdout_path :: string
  co_stderr_path :: string
  co_stdout_excerpt :: string
  co_stderr_excerpt :: string

record execution_outcome =
  eo_compile :: "stage_outcome option"
  eo_judge_compile :: "stage_outcome option"
  eo_cases :: "case_outcome list"
  eo_final_status :: task_lifecycle_status

record task_snapshot =
  sn_task_id :: string
  sn_source_domain :: string
  sn_queue :: string
  sn_lane :: string
  sn_status :: task_lifecycle_status
  sn_message :: string
  sn_artifacts :: "prepared_artifacts option"
  sn_outcome :: "execution_outcome option"
  sn_error :: "string option"

section \<open>Queue values\<close>

record queue_receipt =
  qr_task_id :: string
  qr_queue :: string
  qr_lane :: string
  qr_status :: task_lifecycle_status

record task_delivery =
  dv_delivery_id :: string
  dv_attempt :: u32
  dv_leased_until :: "u64 option"
  dv_last_error :: "string option"
  dv_task :: runtime_task

datatype retry_disposition = RdRequeued | RdDeadLettered

record queue_stats =
  qs_queue :: string
  qs_lane :: string
  qs_queued :: nat
  qs_leased :: nat
  qs_dead_lettered :: nat

record dead_letter_record =
  dr_delivery_id :: string
  dr_task_id :: string
  dr_queue :: string
  dr_lane :: string
  dr_attempt :: u32
  dr_error :: string
  dr_dead_lettered_at :: u64
  dr_task :: runtime_task

record task_event =
  te_task_id :: string
  te_source_domain :: string
  te_queue :: string
  te_lane :: string
  te_attempt :: u32
  te_submission_id :: "string option"
  te_problem_id :: "string option"
  te_user_id :: "string option"
  te_language :: "string option"
  te_status :: task_lifecycle_status
  te_message :: string
  te_execution_id :: "string option"
  te_outcome :: "execution_outcome option"

text \<open>A route binding. The code derives \<open>Ord\<close>: lexicographic, the queue first.\<close>

type_synonym route = "string \<times> string"

datatype route_binding = RouteBinding (rb_queue: string) (rb_lane: string)

definition route_of :: "route_binding \<Rightarrow> route" where
  "route_of b = (rb_queue b, rb_lane b)"

instantiation route_binding :: linorder
begin

definition less_eq_route_binding :: "route_binding \<Rightarrow> route_binding \<Rightarrow> bool" where
  "less_eq_route_binding a b \<longleftrightarrow> route_of a \<le> route_of b"

definition less_route_binding :: "route_binding \<Rightarrow> route_binding \<Rightarrow> bool" where
  "less_route_binding a b \<longleftrightarrow> route_of a < route_of b"

instance
  by standard
    (auto simp: less_eq_route_binding_def less_route_binding_def route_of_def less_le_not_le
      intro: route_binding.expand)

end

record worker_group =
  wg_name :: string
  wg_bindings :: "route_binding list"

section \<open>Broker capabilities and management values\<close>

record required_capabilities =
  rc_enqueue :: bool
  rc_reserve :: bool
  rc_ack :: bool
  rc_retry :: bool
  rc_reject :: bool

record enhanced_capabilities =
  ec_stats :: bool
  ec_dead_letter_store :: bool
  ec_dead_letter_replay :: bool
  ec_route_fairness :: bool
  ec_crash_reclaim :: bool

record capability_profile =
  cp_broker :: string
  cp_required :: required_capabilities
  cp_enhanced :: enhanced_capabilities

definition required_broker_capabilities :: required_capabilities where
  "required_broker_capabilities =
     \<lparr>rc_enqueue = True, rc_reserve = True, rc_ack = True, rc_retry = True, rc_reject = True\<rparr>"

definition memory_broker_capabilities :: capability_profile where
  "memory_broker_capabilities =
     \<lparr>cp_broker = ''memory'', cp_required = required_broker_capabilities,
      cp_enhanced = \<lparr>ec_stats = True, ec_dead_letter_store = True, ec_dead_letter_replay = True,
        ec_route_fairness = True, ec_crash_reclaim = False\<rparr>\<rparr>"

definition rabbitmq_broker_capabilities :: capability_profile where
  "rabbitmq_broker_capabilities =
     \<lparr>cp_broker = ''rabbitmq'', cp_required = required_broker_capabilities,
      cp_enhanced = \<lparr>ec_stats = True, ec_dead_letter_store = True, ec_dead_letter_replay = True,
        ec_route_fairness = True, ec_crash_reclaim = True\<rparr>\<rparr>"

definition nats_broker_capabilities :: capability_profile where
  "nats_broker_capabilities =
     \<lparr>cp_broker = ''nats'', cp_required = required_broker_capabilities,
      cp_enhanced = \<lparr>ec_stats = True, ec_dead_letter_store = True, ec_dead_letter_replay = True,
        ec_route_fairness = True, ec_crash_reclaim = True\<rparr>\<rparr>"

definition redis_streams_broker_capabilities :: capability_profile where
  "redis_streams_broker_capabilities =
     \<lparr>cp_broker = ''redis_streams'', cp_required = required_broker_capabilities,
      cp_enhanced = \<lparr>ec_stats = True, ec_dead_letter_store = True, ec_dead_letter_replay = True,
        ec_route_fairness = True, ec_crash_reclaim = True\<rparr>\<rparr>"

record broker_observability_status =
  bo_broker :: string
  bo_required_capabilities :: required_capabilities
  bo_enhanced_capabilities :: enhanced_capabilities
  bo_ack_wait_ms :: "u64 option"
  bo_pending_reclaim_idle_ms :: "u64 option"

definition from_capability_profile ::
    "string \<Rightarrow> required_capabilities \<Rightarrow> enhanced_capabilities \<Rightarrow> broker_observability_status" where
  "from_capability_profile broker req enh =
     \<lparr>bo_broker = broker, bo_required_capabilities = req, bo_enhanced_capabilities = enh,
      bo_ack_wait_ms = None, bo_pending_reclaim_idle_ms = None\<rparr>"

definition with_ack_wait_ms ::
    "u64 option \<Rightarrow> broker_observability_status \<Rightarrow> broker_observability_status" where
  "with_ack_wait_ms ms s = s\<lparr>bo_ack_wait_ms := ms\<rparr>"

definition with_pending_reclaim_idle_ms ::
    "u64 option \<Rightarrow> broker_observability_status \<Rightarrow> broker_observability_status" where
  "with_pending_reclaim_idle_ms ms s = s\<lparr>bo_pending_reclaim_idle_ms := ms\<rparr>"

definition memory_observability_status :: broker_observability_status where
  "memory_observability_status =
     from_capability_profile (cp_broker memory_broker_capabilities)
       (cp_required memory_broker_capabilities) (cp_enhanced memory_broker_capabilities)"

datatype node_health_status = NodeHealthy | NodeStale

record node_status =
  ns_node_id :: string
  ns_started_at_ms :: u64
  ns_last_heartbeat_ms :: u64
  ns_node_status :: node_health_status
  ns_worker_groups :: "worker_group list"
  ns_broker :: broker_observability_status

record dead_letter_replay_record =
  rr_delivery_id :: string
  rr_task_id :: string
  rr_queue :: string
  rr_lane :: string
  rr_replayed_at_ms :: u64
  rr_status :: task_lifecycle_status

record management_summary =
  ms_queue_count :: nat
  ms_queued :: nat
  ms_leased :: nat
  ms_dead_lettered :: nat
  ms_replayed :: nat
  ms_dead_letter_records_total :: nat
  ms_replay_history_total :: nat

datatype broker_health_state = BrokerHealthy | BrokerDegraded
datatype degradation_reason = RecoveryWindowActive | PersistentFailuresDetected
datatype alert_severity = SevWarning | SevCritical
datatype action_kind =
  ObserveRecovery | InspectBrokerLogs | CheckBrokerConnectivity | OpenRunbook

record runbook_link =
  rl_runbook_ref :: string
  rl_title :: string
  rl_doc_path :: string
  rl_section_ref :: string

record recommended_action =
  ra_label :: string
  ra_action_kind :: action_kind
  ra_runbook_ref :: "string option"
  ra_runbook :: "runbook_link option"

record management_alert =
  al_code :: string
  al_severity :: alert_severity
  al_reason :: degradation_reason
  al_message :: string
  al_recommended_action :: "recommended_action option"

record management_health =
  bh_status :: broker_health_state
  bh_degradation_reasons :: "degradation_reason list"
  bh_alerts :: "management_alert list"
  bh_recovery_window_active :: bool
  bh_persistent_failures_detected :: bool
  bh_last_failure_at_ms :: "u64 option"
  bh_recent_failure_count :: u64

record management_view =
  bv_node :: node_status
  bv_broker :: broker_observability_status
  bv_health :: management_health
  bv_runbooks :: "runbook_link list"
  bv_worker_groups :: "worker_group list"
  bv_queue_stats :: "queue_stats list"
  bv_dead_letters :: "dead_letter_record list"
  bv_replay_history :: "dead_letter_replay_record list"
  bv_summary :: management_summary

section \<open>Time\<close>

text \<open>
  A \<open>SystemTime\<close> is the number of nanoseconds since the epoch; its seconds are an \<open>i64\<close>.
  A clock reading is a parameter of the operation that makes it.
\<close>

type_synonym system_time = int

definition secs :: "int \<Rightarrow> int" where
  "secs n = n * 10 ^ 9"

definition millis :: "u64 \<Rightarrow> int" where
  "millis n = uint n * 10 ^ 6"

definition checked_add :: "system_time \<Rightarrow> int \<Rightarrow> system_time option" where
  "checked_add t d = (if (t + d) div 10 ^ 9 < 2 ^ 63 then Some (t + d) else None)"

text \<open>\<open>duration_since(UNIX_EPOCH)\<close> in milliseconds, cut to 64 bits; zero before the epoch.\<close>

definition epoch_ms :: "system_time \<Rightarrow> u64" where
  "epoch_ms t = (if 0 \<le> t then word_of_int (t div 10 ^ 6) else 0)"

end
