(* ===== verification/Metrics.thy ===== *)
theory Metrics
  imports Runtime_Types
begin

text \<open>
  The broker metrics (crates/nexus-runtime/src/metrics.rs): the process-wide counters, and
  the window of recent failures per broker that the health report reads. The counters of the
  metrics library are unsigned 64-bit numbers that start at zero.
\<close>

record metrics =
  mt_counters :: "(string \<times> string list, u64) hash_map"
  mt_failure_windows :: "(string, u64 list) hash_map"

definition empty_metrics :: metrics where
  "empty_metrics = \<lparr>mt_counters = [], mt_failure_windows = []\<rparr>"

definition counter :: "metrics \<Rightarrow> string \<Rightarrow> string list \<Rightarrow> u64" where
  "counter m family labels =
     (case map_of (mt_counters m) (family, labels) of None \<Rightarrow> 0 | Some n \<Rightarrow> n)"

definition inc_by :: "string \<Rightarrow> string list \<Rightarrow> u64 \<Rightarrow> metrics \<Rightarrow> metrics" where
  "inc_by family labels n m =
     m\<lparr>mt_counters := hm_insert (family, labels) (counter m family labels + n) (mt_counters m)\<rparr>"

definition broker_failure_window_ms :: u64 where
  "broker_failure_window_ms = 5 * 60 * 1000"

definition broker_recovery_window_ms :: u64 where
  "broker_recovery_window_ms = 60 * 1000"

record failure_health_snapshot =
  fh_last_failure_at_ms :: "u64 option"
  fh_recent_failure_count :: u64
  fh_recovery_window_active :: bool
  fh_persistent_failures_detected :: bool

definition default_failure_health :: failure_health_snapshot where
  "default_failure_health =
     \<lparr>fh_last_failure_at_ms = None, fh_recent_failure_count = 0,
      fh_recovery_window_active = False, fh_persistent_failures_detected = False\<rparr>"

definition observe_broker_reclaim :: "string \<Rightarrow> string \<Rightarrow> string \<Rightarrow> metrics \<Rightarrow> metrics" where
  "observe_broker_reclaim broker queue lane =
     inc_by ''nexus_runtime_broker_reclaim_total'' [broker, queue, lane] 1"

definition observe_broker_operation ::
    "string \<Rightarrow> string \<Rightarrow> string \<Rightarrow> string \<Rightarrow> metrics \<Rightarrow> metrics" where
  "observe_broker_operation broker queue lane operation =
     inc_by ''nexus_runtime_broker_operation_total'' [broker, queue, lane, operation] 1"

text \<open>\<open>while entries.front().is_some_and(|value| *value < cutoff_ms)\<close>: drop the front.\<close>

fun prune_failure_window :: "u64 \<Rightarrow> u64 list \<Rightarrow> u64 list" where
  "prune_failure_window cutoff [] = []"
| "prune_failure_window cutoff (x # xs) =
     (if x < cutoff then prune_failure_window cutoff xs else x # xs)"

definition record_broker_failure :: "system_time \<Rightarrow> string \<Rightarrow> metrics \<Rightarrow> metrics" where
  "record_broker_failure now broker m =
     (let now_ms = epoch_ms now;
          cutoff = saturating_sub now_ms broker_failure_window_ms;
          entries = (case map_of (mt_failure_windows m) broker of None \<Rightarrow> [] | Some es \<Rightarrow> es)
      in m\<lparr>mt_failure_windows :=
             hm_insert broker (prune_failure_window cutoff (entries @ [now_ms]))
               (mt_failure_windows m)\<rparr>)"

definition observe_broker_operation_failure ::
    "system_time \<Rightarrow> string \<Rightarrow> string \<Rightarrow> string \<Rightarrow> string \<Rightarrow> metrics \<Rightarrow> metrics" where
  "observe_broker_operation_failure now broker queue lane operation m =
     record_broker_failure now broker
       (inc_by ''nexus_runtime_broker_operation_failure_total''
          [broker, queue, lane, operation] 1 m)"

definition observe_broker_retry ::
    "string \<Rightarrow> string \<Rightarrow> string \<Rightarrow> string \<Rightarrow> metrics \<Rightarrow> metrics" where
  "observe_broker_retry broker queue lane disposition =
     inc_by ''nexus_runtime_broker_retry_total'' [broker, queue, lane, disposition] 1"

definition observe_broker_dead_letter ::
    "string \<Rightarrow> string \<Rightarrow> string \<Rightarrow> string \<Rightarrow> metrics \<Rightarrow> metrics" where
  "observe_broker_dead_letter broker queue lane reason =
     inc_by ''nexus_runtime_broker_dead_letter_total'' [broker, queue, lane, reason] 1"

definition observe_broker_replay :: "string \<Rightarrow> string \<Rightarrow> string \<Rightarrow> metrics \<Rightarrow> metrics" where
  "observe_broker_replay broker queue lane =
     inc_by ''nexus_runtime_broker_replay_total'' [broker, queue, lane] 1"

definition observe_broker_reclaim_orphan_cleanup ::
    "string \<Rightarrow> string \<Rightarrow> string \<Rightarrow> u64 \<Rightarrow> metrics \<Rightarrow> metrics" where
  "observe_broker_reclaim_orphan_cleanup broker queue lane orphan_count m =
     (if orphan_count = 0 then m
      else inc_by ''nexus_runtime_broker_reclaim_orphan_cleanup_total''
             [broker, queue, lane] orphan_count m)"

definition broker_failure_health_snapshot ::
    "system_time \<Rightarrow> string \<Rightarrow> metrics \<Rightarrow> failure_health_snapshot \<times> metrics" where
  "broker_failure_health_snapshot now broker m =
     (let now_ms = epoch_ms now;
          cutoff = saturating_sub now_ms broker_failure_window_ms
      in case map_of (mt_failure_windows m) broker of
           None \<Rightarrow> (default_failure_health, m)
         | Some es \<Rightarrow>
             let entries = prune_failure_window cutoff es;
                 last_failure = (if entries = [] then None else Some (last entries));
                 recent = of_nat (length entries)
             in (\<lparr>fh_last_failure_at_ms = last_failure,
                  fh_recent_failure_count = recent,
                  fh_recovery_window_active =
                    is_some_and last_failure
                      (\<lambda>ts. saturating_sub now_ms ts \<le> broker_recovery_window_ms),
                  fh_persistent_failures_detected = (3 \<le> recent)\<rparr>,
                 m\<lparr>mt_failure_windows := hm_insert broker entries (mt_failure_windows m)\<rparr>))"

section \<open>What the window holds\<close>

lemma counter_inc_by:
  "counter (inc_by family labels n m) family' labels' =
     (if family' = family \<and> labels' = labels then counter m family labels + n
      else counter m family' labels')"
  by (simp add: counter_def inc_by_def)

lemma saturating_sub_mono: "a \<le> b \<Longrightarrow> saturating_sub a w \<le> saturating_sub b w"
  by (simp add: word_le_nat_alt unat_saturating_sub diff_le_mono)

lemma saturating_sub_le: "saturating_sub a w \<le> a"
  by (simp add: word_le_nat_alt unat_saturating_sub)

lemma prune_failure_window_filter:
  "sorted xs \<Longrightarrow> prune_failure_window c xs = filter (\<lambda>x. c \<le> x) xs"
proof (induction xs)
  case (Cons x xs)
  show ?case
  proof (cases "x < c")
    case False
    with Cons.prems have "\<forall>y \<in> set (x # xs). c \<le> y" by (auto simp: not_less)
    then show ?thesis using False by (simp add: filter_id_conv)
  qed (use Cons in simp)
qed simp

text \<open>The failures of one broker, in a run of recorded failures.\<close>

definition failure_times :: "string \<Rightarrow> (system_time \<times> string) list \<Rightarrow> u64 list" where
  "failure_times broker evs = [epoch_ms t. (t, b) \<leftarrow> evs, b = broker]"

definition record_failures :: "(system_time \<times> string) list \<Rightarrow> metrics \<Rightarrow> metrics" where
  "record_failures evs m = fold (\<lambda>(t, b). record_broker_failure t b) evs m"

lemma failure_times_snoc:
  "failure_times broker (evs @ [(t, b)]) =
     failure_times broker evs @ (if b = broker then [epoch_ms t] else [])"
  by (simp add: failure_times_def)

lemma failure_times_le:
  "\<forall>ev \<in> set evs. epoch_ms (fst ev) \<le> u \<Longrightarrow> x \<in> set (failure_times broker evs) \<Longrightarrow> x \<le> u"
  by (auto simp: failure_times_def split: if_splits)

lemma sorted_failure_times:
  "sorted (map (\<lambda>ev. epoch_ms (fst ev)) evs) \<Longrightarrow> sorted (failure_times broker evs)"
proof (induction evs rule: rev_induct)
  case (snoc ev evs)
  then have "\<forall>e \<in> set evs. epoch_ms (fst e) \<le> epoch_ms (fst ev)"
    by (auto simp: sorted_append)
  with snoc failure_times_le [of evs "epoch_ms (fst ev)" _ broker] show ?case
    by (cases ev) (auto simp: failure_times_snoc sorted_append)
qed (simp add: failure_times_def)

lemma failure_window_contents:
  assumes "sorted (map (\<lambda>ev. epoch_ms (fst ev)) evs)"
  shows "map_of (mt_failure_windows (record_failures evs empty_metrics)) broker =
     (let ts = failure_times broker evs
      in if ts = [] then None
         else Some (filter (\<lambda>x. saturating_sub (last ts) broker_failure_window_ms \<le> x) ts))"
  using assms
proof (induction evs rule: rev_induct)
  case Nil
  then show ?case by (simp add: record_failures_def failure_times_def empty_metrics_def)
next
  case (snoc ev evs)
  obtain t b where ev: "ev = (t, b)" by (cases ev)
  let ?m = "record_failures evs empty_metrics"
  let ?ts = "failure_times broker evs"
  let ?c = "saturating_sub (epoch_ms t) broker_failure_window_ms"
  have srt: "sorted (map (\<lambda>ev. epoch_ms (fst ev)) evs)"
    and le: "\<forall>e \<in> set evs. epoch_ms (fst e) \<le> epoch_ms t"
    using snoc.prems by (auto simp: sorted_append ev)
  note IH = snoc.IH [OF srt]
  have rf: "record_failures (evs @ [(t, b)]) empty_metrics = record_broker_failure t b ?m"
    by (simp add: record_failures_def)
  show ?case
  proof (cases "b = broker")
    case False
    then show ?thesis using IH
      by (simp add: rf ev record_broker_failure_def failure_times_snoc Let_def)
  next
    case True
    define es where
      "es = (case map_of (mt_failure_windows ?m) broker of None \<Rightarrow> [] | Some es \<Rightarrow> es)"
    have es: "es = (if ?ts = [] then []
        else filter (\<lambda>x. saturating_sub (last ?ts) broker_failure_window_ms \<le> x) ?ts)"
      using IH by (simp add: es_def Let_def)
    have tsle: "\<forall>x \<in> set ?ts. x \<le> epoch_ms t" using failure_times_le le by blast
    then have "sorted (es @ [epoch_ms t])"
      using sorted_failure_times [OF srt, of broker]
      by (auto simp: es sorted_append sorted_filter [of id, simplified])
    then have pr: "prune_failure_window ?c (es @ [epoch_ms t]) =
        filter (\<lambda>x. ?c \<le> x) (es @ [epoch_ms t])"
      by (rule prune_failure_window_filter)
    have "filter (\<lambda>x. ?c \<le> x) es = filter (\<lambda>x. ?c \<le> x) ?ts"
    proof (cases "?ts = []")
      case False
      then have "last ?ts \<le> epoch_ms t" using tsle by simp
      then have "saturating_sub (last ?ts) broker_failure_window_ms \<le> ?c"
        by (rule saturating_sub_mono)
      then show ?thesis using False by (auto simp: es intro!: filter_cong)
    qed (simp add: es)
    moreover have "map_of (mt_failure_windows (record_broker_failure t broker ?m)) broker =
        Some (prune_failure_window ?c (es @ [epoch_ms t]))"
      by (simp add: record_broker_failure_def Let_def es_def)
    ultimately show ?thesis using rf pr unfolding True ev
      by (simp add: failure_times_snoc Let_def)
  qed
qed

text \<open>The health report sees exactly the failures of its broker in the last five minutes:
  after any run of failures recorded by a clock that does not go back, its count, its last
  failure and its persistent flag are those of the failure times at or after the cutoff.\<close>

theorem failure_health_exact:
  assumes "sorted (map (\<lambda>ev. epoch_ms (fst ev)) evs)"
    and "\<forall>ev \<in> set evs. epoch_ms (fst ev) \<le> epoch_ms now"
  shows "fst (broker_failure_health_snapshot now broker (record_failures evs empty_metrics)) =
    (let recent = filter
           (\<lambda>x. saturating_sub (epoch_ms now) broker_failure_window_ms \<le> x)
           (failure_times broker evs);
         last_failure = (if recent = [] then None else Some (last recent))
     in \<lparr>fh_last_failure_at_ms = last_failure,
         fh_recent_failure_count = of_nat (length recent),
         fh_recovery_window_active = is_some_and last_failure
           (\<lambda>ts. unat (epoch_ms now) \<le> unat ts + 60000),
         fh_persistent_failures_detected = (3 \<le> (of_nat (length recent) :: u64))\<rparr>)"
proof -
  let ?ts = "failure_times broker evs"
  let ?c = "saturating_sub (epoch_ms now) broker_failure_window_ms"
  note win = failure_window_contents [OF assms(1), of broker]
  have srt: "sorted ?ts" by (rule sorted_failure_times [OF assms(1)])
  have rec: "saturating_sub (epoch_ms now) x \<le> broker_recovery_window_ms \<longleftrightarrow>
      unat (epoch_ms now) \<le> unat x + 60000" for x
    by (simp add: word_le_nat_alt unat_saturating_sub broker_recovery_window_ms_def) arith
  show ?thesis
  proof (cases "?ts = []")
    case True
    then show ?thesis using win
      by (simp add: broker_failure_health_snapshot_def default_failure_health_def)
  next
    case False
    let ?w = "filter (\<lambda>x. saturating_sub (last ?ts) broker_failure_window_ms \<le> x) ?ts"
    have "last ?ts \<le> epoch_ms now"
      using failure_times_le [OF assms(2)] False by (metis last_in_set)
    then have "saturating_sub (last ?ts) broker_failure_window_ms \<le> ?c"
      by (rule saturating_sub_mono)
    then have "filter (\<lambda>x. ?c \<le> x) ?w = filter (\<lambda>x. ?c \<le> x) ?ts"
      by (auto intro!: filter_cong)
    moreover have "prune_failure_window ?c ?w = filter (\<lambda>x. ?c \<le> x) ?w"
      using srt by (intro prune_failure_window_filter) (simp add: sorted_filter [of id, simplified])
    ultimately have "prune_failure_window ?c ?w = filter (\<lambda>x. ?c \<le> x) ?ts" by simp
    then show ?thesis using win False
      by (simp add: broker_failure_health_snapshot_def Let_def rec)
  qed
qed

theorem failure_health_exact_witness:
  "fh_recent_failure_count
     (fst (broker_failure_health_snapshot (secs 400) ''memory''
        (record_failures [(secs 10, ''memory''), (secs 200, ''memory''), (secs 250, ''redis'')]
           empty_metrics))) = 1"
  by (subst failure_health_exact)
    (auto simp: failure_times_def secs_def epoch_ms_def saturating_sub_def
      broker_failure_window_ms_def Let_def)

end
