(* ===== verification/Queue.thy ===== *)
theory Queue
  imports Metrics
begin

text \<open>
  The in-memory task queue (\<open>InMemoryRuntimeTaskQueue\<close>, executor.rs): tasks wait in one FIFO
  bucket per route (queue, lane); the routes that have tasks are polled in the order of
  \<open>route_order\<close>, which rotates; a reserved task is leased until it is acknowledged, retried
  or rejected; a task out of attempts, or rejected, is a dead letter that can be replayed.

  An operation returns its result and the next state; it takes the clock readings it makes.
  The state also holds the process-wide metrics the operations write. Poisoned locks are not
  modelled: no code panics while it holds one.

  A critical section is a definition of its own (\<open>enqueue_bucket\<close>, \<open>push_route\<close>,
  \<open>reserve_section\<close>, \<open>remove_route\<close>, \<open>rotate_route\<close>, \<open>lease\<close>), because the lock is
  dropped between them; here an operation runs its sections in a row.
\<close>

section \<open>State\<close>

record queued_task =
  qt_task :: runtime_task
  qt_attempt :: u32
  qt_available_at :: system_time
  qt_last_error :: "string option"

record mem_queue =
  mq_buckets :: "(route, queued_task list) btree_map"
  mq_route_order :: "route list"
  mq_leased :: "(string, task_delivery) hash_map"
  mq_dead_letters :: "dead_letter_record list"
  mq_metrics :: metrics

definition default_mem_queue :: "metrics \<Rightarrow> mem_queue" where
  "default_mem_queue m =
     \<lparr>mq_buckets = [], mq_route_order = [], mq_leased = [], mq_dead_letters = [], mq_metrics = m\<rparr>"

abbreviation task_route :: "runtime_task \<Rightarrow> route" where
  "task_route t \<equiv> (rt_queue t, rt_lane t)"

definition observing :: "(metrics \<Rightarrow> metrics) \<Rightarrow> mem_queue \<Rightarrow> mem_queue" where
  "observing f q = q\<lparr>mq_metrics := f (mq_metrics q)\<rparr>"

section \<open>Critical sections\<close>

definition enqueue_bucket :: "queued_task \<Rightarrow> mem_queue \<Rightarrow> bool \<times> mem_queue" where
  "enqueue_bucket queued q =
     (let route = task_route (qt_task queued);
          bucket = (case map_of (mq_buckets q) route of None \<Rightarrow> [] | Some b \<Rightarrow> b)
      in (bucket = [], q\<lparr>mq_buckets := bt_insert route (bucket @ [queued]) (mq_buckets q)\<rparr>))"

definition push_route :: "route \<Rightarrow> mem_queue \<Rightarrow> mem_queue" where
  "push_route route q = q\<lparr>mq_route_order := mq_route_order q @ [route]\<rparr>"

definition enqueue_internal :: "queued_task \<Rightarrow> mem_queue \<Rightarrow> mem_queue" where
  "enqueue_internal queued q =
     (case enqueue_bucket queued q of (was_empty, q') \<Rightarrow>
        if was_empty then push_route (task_route (qt_task queued)) q' else q')"

text \<open>\<open>remove1\<close> removes at the first position of the item, if there is one.\<close>

definition rotate_route :: "route \<Rightarrow> mem_queue \<Rightarrow> mem_queue" where
  "rotate_route route q =
     (if route \<in> set (mq_route_order q)
      then q\<lparr>mq_route_order := remove1 route (mq_route_order q) @ [route]\<rparr> else q)"

definition remove_route :: "route \<Rightarrow> mem_queue \<Rightarrow> mem_queue" where
  "remove_route route q = q\<lparr>mq_route_order := remove1 route (mq_route_order q)\<rparr>"

definition filtered_routes :: "route_binding list \<Rightarrow> mem_queue \<Rightarrow> route list" where
  "filtered_routes bindings q =
     (if bindings = [] then mq_route_order q
      else let allowed = map route_of bindings
           in filter (\<lambda>route. route \<in> set allowed) (mq_route_order q))"

text \<open>
  One round of the loop of \<open>reserve\<close> under the bucket lock: no bucket (the \<open>?\<close> returns),
  nothing due (\<open>continue\<close>), or the head popped and whether its bucket went with it.
\<close>

datatype reserve_round =
  NoBucket | NothingDue | Popped queued_task bool mem_queue

definition reserve_section :: "system_time \<Rightarrow> route \<Rightarrow> mem_queue \<Rightarrow> reserve_round" where
  "reserve_section now route q =
     (case map_of (mq_buckets q) route of
        None \<Rightarrow> NoBucket
      | Some [] \<Rightarrow> NothingDue
      | Some (front # rest) \<Rightarrow>
          if now < qt_available_at front then NothingDue
          else if rest = [] then
            Popped front True (q\<lparr>mq_buckets := hm_remove route (mq_buckets q)\<rparr>)
          else Popped front False (q\<lparr>mq_buckets := bt_insert route rest (mq_buckets q)\<rparr>))"

definition make_delivery :: "system_time \<Rightarrow> queued_task \<Rightarrow> task_delivery" where
  "make_delivery later queued =
     \<lparr>dv_delivery_id = ''dlv-'' @ rt_task_id (qt_task queued),
      dv_attempt = qt_attempt queued,
      dv_leased_until = Some
        (case checked_add later (secs 30) of
           None \<Rightarrow> 0
         | Some deadline \<Rightarrow> epoch_ms deadline),
      dv_last_error = qt_last_error queued,
      dv_task = qt_task queued\<rparr>"

definition lease :: "task_delivery \<Rightarrow> mem_queue \<Rightarrow> mem_queue" where
  "lease delivery q =
     observing (observe_broker_operation ''memory'' (rt_queue (dv_task delivery))
         (rt_lane (dv_task delivery)) ''reserve'')
       (q\<lparr>mq_leased := hm_insert (dv_delivery_id delivery) delivery (mq_leased q)\<rparr>)"

section \<open>Operations\<close>

definition enqueue :: "system_time \<Rightarrow> runtime_task \<Rightarrow> mem_queue \<Rightarrow> unit app_result \<times> mem_queue" where
  "enqueue now task q =
     (Inr (), observing (observe_broker_operation ''memory'' (rt_queue task) (rt_lane task) ''enqueue'')
        (enqueue_internal
          \<lparr>qt_task = task, qt_attempt = 1, qt_available_at = now, qt_last_error = None\<rparr> q))"

fun reserve_loop ::
    "system_time \<Rightarrow> system_time \<Rightarrow> route list \<Rightarrow> mem_queue \<Rightarrow> task_delivery option \<times> mem_queue" where
  "reserve_loop now later [] q = (None, q)"
| "reserve_loop now later (route # routes) q =
     (case reserve_section now route q of
        NoBucket \<Rightarrow> (None, q)
      | NothingDue \<Rightarrow> reserve_loop now later routes q
      | Popped queued emptied q' \<Rightarrow>
          let q' = (if emptied then remove_route route q' else rotate_route route q');
              delivery = make_delivery later queued
          in (Some delivery, lease delivery q'))"

definition reserve ::
    "system_time \<Rightarrow> system_time \<Rightarrow> route_binding list \<Rightarrow> mem_queue \<Rightarrow>
       task_delivery option \<times> mem_queue" where
  "reserve now later bindings q = reserve_loop now later (filtered_routes bindings q) q"

definition ack :: "string \<Rightarrow> mem_queue \<Rightarrow> unit app_result \<times> mem_queue" where
  "ack delivery_id q =
     (let removed = map_of (mq_leased q) delivery_id;
          q' = q\<lparr>mq_leased := hm_remove delivery_id (mq_leased q)\<rparr>
      in (Inr (),
          case removed of
            None \<Rightarrow> q'
          | Some delivery \<Rightarrow>
              observing (observe_broker_operation ''memory'' (rt_queue (dv_task delivery))
                (rt_lane (dv_task delivery)) ''ack'') q'))"

definition dead_letter_of :: "system_time \<Rightarrow> task_delivery \<Rightarrow> string \<Rightarrow> dead_letter_record" where
  "dead_letter_of now delivery error =
     (let task = dv_task delivery
      in \<lparr>dr_delivery_id = dv_delivery_id delivery, dr_task_id = rt_task_id task,
          dr_queue = rt_queue task, dr_lane = rt_lane task, dr_attempt = dv_attempt delivery,
          dr_error = error, dr_dead_lettered_at = epoch_ms now, dr_task = task\<rparr>)"

definition retry ::
    "system_time \<Rightarrow> string \<Rightarrow> string \<Rightarrow> u64 \<Rightarrow> mem_queue \<Rightarrow>
       retry_disposition app_result \<times> mem_queue" where
  "retry now delivery_id error delay_ms q =
     (case map_of (mq_leased q) delivery_id of
        None \<Rightarrow>
          (Inl Internal,
           observing (observe_broker_operation_failure now ''memory'' ''*'' ''*'' ''retry'') q)
      | Some delivery \<Rightarrow>
          let q' = q\<lparr>mq_leased := hm_remove delivery_id (mq_leased q)\<rparr>;
              task = dv_task delivery
          in if rp_max_attempts (rt_retry_policy task) \<le> dv_attempt delivery then
               (Inr RdDeadLettered,
                (observing (observe_broker_dead_letter ''memory'' (rt_queue task) (rt_lane task)
                    ''retry_exhausted'')
                 (observing (observe_broker_retry ''memory'' (rt_queue task) (rt_lane task)
                    ''dead_lettered'') q'))
                \<lparr>mq_dead_letters := mq_dead_letters q' @ [dead_letter_of now delivery error]\<rparr>)
             else
               (Inr RdRequeued,
                observing (observe_broker_retry ''memory'' (rt_queue task) (rt_lane task) ''requeued'')
                  (enqueue_internal
                    \<lparr>qt_task = task, qt_attempt = dv_attempt delivery + 1,
                     qt_available_at =
                       (case checked_add now (millis delay_ms) of None \<Rightarrow> now | Some t \<Rightarrow> t),
                     qt_last_error = Some error\<rparr> q')))"

definition reject :: "system_time \<Rightarrow> string \<Rightarrow> string \<Rightarrow> mem_queue \<Rightarrow> unit app_result \<times> mem_queue" where
  "reject now delivery_id error q =
     (let q' = q\<lparr>mq_leased := hm_remove delivery_id (mq_leased q)\<rparr>
      in (Inr (),
          case map_of (mq_leased q) delivery_id of
            None \<Rightarrow> q'
          | Some delivery \<Rightarrow>
              (observing (observe_broker_dead_letter ''memory'' (rt_queue (dv_task delivery))
                 (rt_lane (dv_task delivery)) ''rejected'') q')
              \<lparr>mq_dead_letters := mq_dead_letters q' @ [dead_letter_of now delivery error]\<rparr>))"

text \<open>\<open>stats.entry(key).or_insert(zeros)\<close>, then the update of the entry.\<close>

definition stats_entry ::
    "route \<Rightarrow> (queue_stats \<Rightarrow> queue_stats) \<Rightarrow> (route, queue_stats) btree_map \<Rightarrow>
       (route, queue_stats) btree_map" where
  "stats_entry key f st =
     bt_insert key
       (f (case map_of st key of
             Some e \<Rightarrow> e
           | None \<Rightarrow> \<lparr>qs_queue = fst key, qs_lane = snd key, qs_queued = 0, qs_leased = 0,
                     qs_dead_lettered = 0\<rparr>)) st"

definition stats :: "mem_queue \<Rightarrow> queue_stats list app_result" where
  "stats q =
     (let st = fold (\<lambda>(route, items). bt_insert route
                 \<lparr>qs_queue = fst route, qs_lane = snd route, qs_queued = length items,
                  qs_leased = 0, qs_dead_lettered = 0\<rparr>) (mq_buckets q) [];
          st = fold (\<lambda>delivery. stats_entry (task_route (dv_task delivery))
                 (\<lambda>e. e\<lparr>qs_leased := qs_leased e + 1\<rparr>)) (hm_values (mq_leased q)) st;
          st = fold (\<lambda>record. stats_entry (dr_queue record, dr_lane record)
                 (\<lambda>e. e\<lparr>qs_dead_lettered := qs_dead_lettered e + 1\<rparr>)) (mq_dead_letters q) st
      in Inr (hm_values st))"

definition dead_letters :: "mem_queue \<Rightarrow> dead_letter_record list app_result" where
  "dead_letters q = Inr (mq_dead_letters q)"

fun position :: "('a \<Rightarrow> bool) \<Rightarrow> 'a list \<Rightarrow> nat option" where
  "position p [] = None"
| "position p (x # xs) = (if p x then Some 0 else map_option Suc (position p xs))"

definition remove_at :: "nat \<Rightarrow> 'a list \<Rightarrow> 'a list" where
  "remove_at i xs = take i xs @ drop (Suc i) xs"

definition replay_dead_letter ::
    "system_time \<Rightarrow> string \<Rightarrow> mem_queue \<Rightarrow> queue_receipt app_result \<times> mem_queue" where
  "replay_dead_letter now delivery_id q =
     (case position (\<lambda>r. dr_delivery_id r = delivery_id) (mq_dead_letters q) of
        None \<Rightarrow>
          (Inl (NotFound (''dead letter not found: '' @ delivery_id)),
           observing (observe_broker_operation_failure now ''memory'' ''*'' ''*'' ''replay'') q)
      | Some i \<Rightarrow>
          let record = mq_dead_letters q ! i;
              task = dr_task record;
              q' = q\<lparr>mq_dead_letters := remove_at i (mq_dead_letters q)\<rparr>
          in (Inr \<lparr>qr_task_id = rt_task_id task, qr_queue = rt_queue task, qr_lane = rt_lane task,
                   qr_status = LcQueued\<rparr>,
              observing (observe_broker_replay ''memory'' (rt_queue task) (rt_lane task))
                (enqueue_internal
                  \<lparr>qt_task = task, qt_attempt = 1, qt_available_at = now,
                   qt_last_error = Some (''replayed from dead letter: '' @ dr_error record)\<rparr> q')))"

end
