(* ===== verification/Queue_Inv.thy ===== *)
theory Queue_Inv
  imports Queue
begin

text \<open>
  The invariant of the in-memory queue, and what each operation does to it and to the three
  places a task can be in: the waiting tasks, the leases and the dead letters.
\<close>

section \<open>Abstraction and invariant\<close>

definition waiting :: "mem_queue \<Rightarrow> queued_task multiset" where
  "waiting q = mset (concat (hm_values (mq_buckets q)))"

abbreviation bucket_of :: "mem_queue \<Rightarrow> route \<Rightarrow> queued_task list option" where
  "bucket_of q \<equiv> map_of (mq_buckets q)"

abbreviation leased_of :: "mem_queue \<Rightarrow> string \<Rightarrow> task_delivery option" where
  "leased_of q \<equiv> map_of (mq_leased q)"

text \<open>
  The buckets are in key order, none is empty and each holds its route's tasks only; the
  polling order lists exactly the routes that have a bucket, each once; a lease is kept under
  its delivery id, which is that of its task.
\<close>

definition buckets_ok :: "mem_queue \<Rightarrow> bool" where
  "buckets_ok q \<longleftrightarrow> sorted_wrt (<) (hm_keys (mq_buckets q)) \<and>
     (\<forall>r b. bucket_of q r = Some b \<longrightarrow> b \<noteq> [] \<and> (\<forall>x \<in> set b. task_route (qt_task x) = r))"

definition order_ok :: "mem_queue \<Rightarrow> bool" where
  "order_ok q \<longleftrightarrow> distinct (mq_route_order q) \<and> set (mq_route_order q) = dom (bucket_of q)"

definition leases_ok :: "mem_queue \<Rightarrow> bool" where
  "leases_ok q \<longleftrightarrow> distinct (hm_keys (mq_leased q)) \<and>
     (\<forall>k d. leased_of q k = Some d \<longrightarrow>
        dv_delivery_id d = k \<and> k = ''dlv-'' @ rt_task_id (dv_task d))"

definition queue_inv :: "mem_queue \<Rightarrow> bool" where
  "queue_inv q \<longleftrightarrow> buckets_ok q \<and> order_ok q \<and> leases_ok q"

lemmas queue_inv_defs = queue_inv_def buckets_ok_def order_ok_def leases_ok_def

lemma bucket_route:
  "queue_inv q \<Longrightarrow> bucket_of q r = Some b \<Longrightarrow> x \<in> set b \<Longrightarrow> task_route (qt_task x) = r"
  unfolding queue_inv_defs by blast

lemma bucket_nonempty: "queue_inv q \<Longrightarrow> bucket_of q r = Some b \<Longrightarrow> b \<noteq> []"
  unfolding queue_inv_defs by blast

section \<open>Buckets as one multiset\<close>

lemma concat_hm_remove:
  "map_of m r = Some b \<Longrightarrow>
     mset (concat (hm_values m)) = mset b + mset (concat (hm_values (hm_remove r m)))"
  by (induction r m rule: hm_remove.induct) (auto split: if_splits)

lemma concat_bt_insert_new:
  "map_of m r = None \<Longrightarrow>
     mset (concat (hm_values (bt_insert r b m))) = mset b + mset (concat (hm_values m))"
  by (induction r b m rule: bt_insert.induct) (auto split: if_splits)

lemma concat_bt_insert_present:
  "sorted_wrt (<) (hm_keys m) \<Longrightarrow> map_of m r = Some b' \<Longrightarrow>
     mset (concat (hm_values (bt_insert r b m))) + mset b' =
       mset b + mset (concat (hm_values m))"
proof (induction r b m rule: bt_insert.induct)
  case (2 k v k' v' m)
  have "\<not> k < k'"
  proof
    assume "k < k'"
    with 2(3) have "k \<in> fst ` set m" by (auto dest: map_of_SomeD split: if_splits intro: rev_image_eqI)
    with 2(2) \<open>k < k'\<close> show False by auto
  qed
  with 2 show ?case by (auto simp: ac_simps split: if_splits)
qed simp

lemma keys_dom: "set (hm_keys m) = dom (map_of m)"
  by (simp add: dom_map_of_conv_image_fst)

section \<open>Sections\<close>

lemma observing_simps [simp]:
  "mq_buckets (observing f q) = mq_buckets q"
  "mq_route_order (observing f q) = mq_route_order q"
  "mq_leased (observing f q) = mq_leased q"
  "mq_dead_letters (observing f q) = mq_dead_letters q"
  "mq_metrics (observing f q) = f (mq_metrics q)"
  by (simp_all add: observing_def)

lemma push_route_simps [simp]:
  "mq_buckets (push_route r q) = mq_buckets q"
  "mq_route_order (push_route r q) = mq_route_order q @ [r]"
  "mq_leased (push_route r q) = mq_leased q"
  "mq_dead_letters (push_route r q) = mq_dead_letters q"
  "mq_metrics (push_route r q) = mq_metrics q"
  by (simp_all add: push_route_def)

lemma remove_route_simps [simp]:
  "mq_buckets (remove_route r q) = mq_buckets q"
  "mq_route_order (remove_route r q) = remove1 r (mq_route_order q)"
  "mq_leased (remove_route r q) = mq_leased q"
  "mq_dead_letters (remove_route r q) = mq_dead_letters q"
  "mq_metrics (remove_route r q) = mq_metrics q"
  by (simp_all add: remove_route_def)

lemma rotate_route_simps [simp]:
  "mq_buckets (rotate_route r q) = mq_buckets q"
  "mq_leased (rotate_route r q) = mq_leased q"
  "mq_dead_letters (rotate_route r q) = mq_dead_letters q"
  "mq_metrics (rotate_route r q) = mq_metrics q"
  by (simp_all add: rotate_route_def)

lemma rotate_route_order:
  "mq_route_order (rotate_route r q) =
     (if r \<in> set (mq_route_order q) then remove1 r (mq_route_order q) @ [r]
      else mq_route_order q)"
  by (simp add: rotate_route_def)

lemma lease_simps [simp]:
  "mq_buckets (lease d q) = mq_buckets q"
  "mq_route_order (lease d q) = mq_route_order q"
  "mq_leased (lease d q) = hm_insert (dv_delivery_id d) d (mq_leased q)"
  "mq_dead_letters (lease d q) = mq_dead_letters q"
  by (simp_all add: lease_def)

lemma enqueue_internal_simps [simp]:
  "mq_leased (enqueue_internal x q) = mq_leased q"
  "mq_dead_letters (enqueue_internal x q) = mq_dead_letters q"
  "mq_metrics (enqueue_internal x q) = mq_metrics q"
  by (simp_all add: enqueue_internal_def enqueue_bucket_def Let_def)

lemma waiting_cong: "mq_buckets q = mq_buckets q' \<Longrightarrow> waiting q = waiting q'"
  by (simp add: waiting_def)

lemma bucket_enqueue_internal:
  "bucket_of (enqueue_internal x q) =
     (bucket_of q)(task_route (qt_task x) \<mapsto>
        (case bucket_of q (task_route (qt_task x)) of None \<Rightarrow> [] | Some b \<Rightarrow> b) @ [x])"
  by (simp add: enqueue_internal_def enqueue_bucket_def Let_def)

lemma order_enqueue_internal:
  "mq_route_order (enqueue_internal x q) = mq_route_order q @
     (if (case bucket_of q (task_route (qt_task x)) of None \<Rightarrow> [] | Some b \<Rightarrow> b) = []
      then [task_route (qt_task x)] else [])"
  by (simp add: enqueue_internal_def enqueue_bucket_def Let_def)

lemma waiting_enqueue_internal:
  assumes "sorted_wrt (<) (hm_keys (mq_buckets q))"
  shows "waiting (enqueue_internal x q) = add_mset x (waiting q)"
proof (cases "bucket_of q (task_route (qt_task x))")
  case None
  then show ?thesis
    by (simp add: waiting_def enqueue_internal_def enqueue_bucket_def Let_def
        concat_bt_insert_new)
next
  case (Some b)
  from concat_bt_insert_present [OF assms Some, of "b @ [x]"] Some show ?thesis
    by (cases "b = []") (simp_all add: waiting_def enqueue_internal_def enqueue_bucket_def Let_def)
qed

lemma buckets_ok_cong: "mq_buckets q = mq_buckets q' \<Longrightarrow> buckets_ok q = buckets_ok q'"
  by (simp add: buckets_ok_def)

lemma buckets_ok_enqueue_internal:
  assumes inv: "buckets_ok q"
  shows "buckets_ok (enqueue_internal x q)"
proof -
  let ?r = "task_route (qt_task x)"
  define b0 where "b0 = (case bucket_of q ?r of None \<Rightarrow> [] | Some b \<Rightarrow> b)"
  have b0: "\<forall>y \<in> set b0. task_route (qt_task y) = ?r"
    using inv by (cases "bucket_of q ?r"; force simp: b0_def buckets_ok_def)+
  have bucket: "bucket_of (enqueue_internal x q) = (bucket_of q)(?r \<mapsto> b0 @ [x])"
    by (simp only: bucket_enqueue_internal b0_def)
  have "sorted_wrt (<) (hm_keys (mq_buckets (enqueue_internal x q)))"
    using inv by (simp add: buckets_ok_def enqueue_internal_def enqueue_bucket_def Let_def)
  moreover have "\<forall>r b. bucket_of (enqueue_internal x q) r = Some b \<longrightarrow>
      b \<noteq> [] \<and> (\<forall>y \<in> set b. task_route (qt_task y) = r)"
    using inv b0 unfolding bucket by (auto simp: buckets_ok_def)
  ultimately show ?thesis by (simp add: buckets_ok_def)
qed

lemma order_ok_enqueue_internal:
  assumes "buckets_ok q" and "order_ok q"
  shows "order_ok (enqueue_internal x q)"
proof -
  let ?r = "task_route (qt_task x)"
  define b0 where "b0 = (case bucket_of q ?r of None \<Rightarrow> [] | Some b \<Rightarrow> b)"
  have empty: "b0 = [] \<longleftrightarrow> bucket_of q ?r = None"
    using assms(1) by (cases "bucket_of q ?r"; force simp: b0_def buckets_ok_def)+
  have "bucket_of (enqueue_internal x q) = (bucket_of q)(?r \<mapsto> b0 @ [x])"
    and "mq_route_order (enqueue_internal x q) =
      mq_route_order q @ (if b0 = [] then [?r] else [])"
    by (simp_all only: bucket_enqueue_internal order_enqueue_internal b0_def)
  then show ?thesis using assms(2) empty unfolding order_ok_def by auto
qed

lemma queue_inv_enqueue_internal: "queue_inv q \<Longrightarrow> queue_inv (enqueue_internal x q)"
  by (simp add: queue_inv_def buckets_ok_enqueue_internal order_ok_enqueue_internal leases_ok_def)

lemma queue_inv_observing [simp]: "queue_inv (observing f q) \<longleftrightarrow> queue_inv q"
  by (simp add: queue_inv_defs)

section \<open>Popping a bucket\<close>

lemma reserve_section_Popped:
  assumes "reserve_section now r q = Popped x emptied q'"
  obtains rest where
    "bucket_of q r = Some (x # rest)" and "qt_available_at x \<le> now"
    and "emptied \<longleftrightarrow> rest = []"
    and "q' = q\<lparr>mq_buckets := (if rest = [] then hm_remove r (mq_buckets q)
                               else bt_insert r rest (mq_buckets q))\<rparr>"
  using assms by (auto simp: reserve_section_def split: option.splits list.splits if_splits)

lemma reserve_section_NoBucket: "reserve_section now r q = NoBucket \<longleftrightarrow> bucket_of q r = None"
  by (simp add: reserve_section_def split: option.splits list.splits)

lemma reserve_section_NothingDue:
  "reserve_section now r q = NothingDue \<longleftrightarrow>
     (\<exists>b. bucket_of q r = Some b \<and> (b = [] \<or> now < qt_available_at (hd b)))"
  by (auto simp: reserve_section_def split: option.splits list.splits)

text \<open>The state after a pop of \<open>r\<close>, before the lease is written.\<close>

definition popped :: "route \<Rightarrow> queued_task list \<Rightarrow> mem_queue \<Rightarrow> mem_queue" where
  "popped r rest q =
     (if rest = [] then remove_route r (q\<lparr>mq_buckets := hm_remove r (mq_buckets q)\<rparr>)
      else rotate_route r (q\<lparr>mq_buckets := bt_insert r rest (mq_buckets q)\<rparr>))"

lemma popped_simps [simp]:
  "mq_leased (popped r rest q) = mq_leased q"
  "mq_dead_letters (popped r rest q) = mq_dead_letters q"
  by (simp_all add: popped_def)

lemma queue_inv_popped:
  assumes inv: "queue_inv q" and b: "bucket_of q r = Some (x # rest)"
  shows "queue_inv (popped r rest q)"
proof -
  have srt: "sorted_wrt (<) (hm_keys (mq_buckets q))"
    and ord: "distinct (mq_route_order q)" "set (mq_route_order q) = dom (bucket_of q)"
    using inv by (simp_all add: queue_inv_defs)
  note dist = sorted_wrt_less_distinct [OF srt]
  have r: "r \<in> set (mq_route_order q)" using ord b by auto
  have "buckets_ok (popped r rest q)"
    using inv b dist by (auto simp: popped_def queue_inv_def buckets_ok_def split: if_splits)
  moreover have "order_ok (popped r rest q)"
  proof (cases "rest = []")
    case True
    then show ?thesis using ord dist by (simp add: popped_def order_ok_def distinct_remove1)
  next
    case False
    then show ?thesis using ord r b by (auto simp: popped_def order_ok_def rotate_route_order)
  qed
  ultimately show ?thesis using inv by (simp add: queue_inv_def leases_ok_def)
qed

lemma waiting_popped:
  assumes inv: "queue_inv q" and b: "bucket_of q r = Some (x # rest)"
  shows "waiting q = add_mset x (waiting (popped r rest q))"
proof (cases "rest = []")
  case True
  with concat_hm_remove [OF b] show ?thesis by (simp add: waiting_def popped_def)
next
  case False
  have "sorted_wrt (<) (hm_keys (mq_buckets q))" using inv by (simp add: queue_inv_defs)
  from concat_bt_insert_present [OF this b, of rest]
  have "mset rest + mset (concat (hm_values (mq_buckets q))) =
      mset rest + add_mset x (mset (concat (hm_values (bt_insert r rest (mq_buckets q)))))"
    by (simp add: ac_simps)
  with False show ?thesis by (simp add: waiting_def popped_def)
qed

section \<open>The loop of reserve\<close>

text \<open>A route is ready when the head of its bucket is due.\<close>

definition ready :: "system_time \<Rightarrow> mem_queue \<Rightarrow> route \<Rightarrow> bool" where
  "ready now q r \<longleftrightarrow>
     is_some_and (bucket_of q r) (\<lambda>b. b \<noteq> [] \<and> qt_available_at (hd b) \<le> now)"

lemma reserve_loop_find:
  assumes "\<forall>r \<in> set routes. bucket_of q r \<noteq> None"
  shows "reserve_loop now later routes q =
    (case find (ready now q) routes of
       None \<Rightarrow> (None, q)
     | Some r \<Rightarrow>
         let b = the (bucket_of q r); delivery = make_delivery later (hd b)
         in (Some delivery, lease delivery (popped r (tl b) q)))"
  using assms
proof (induction routes)
  case (Cons r routes)
  then obtain b where b: "bucket_of q r = Some b" by auto
  show ?case
  proof (cases "ready now q r")
    case True
    with b obtain x rest where "b = x # rest" "qt_available_at x \<le> now"
      by (cases b) (auto simp: ready_def)
    with b True show ?thesis
      by (auto simp: reserve_section_def popped_def Let_def)
  next
    case False
    with b have "reserve_section now r q = NothingDue"
      by (auto simp: ready_def reserve_section_NothingDue)
    with Cons False show ?thesis by simp
  qed
qed simp

lemma filtered_routes_subset: "set (filtered_routes bindings q) \<subseteq> set (mq_route_order q)"
  by (auto simp: filtered_routes_def Let_def)

lemma reserve_find:
  assumes "queue_inv q"
  shows "reserve now later bindings q =
    (case find (ready now q) (filtered_routes bindings q) of
       None \<Rightarrow> (None, q)
     | Some r \<Rightarrow>
         let b = the (bucket_of q r); delivery = make_delivery later (hd b)
         in (Some delivery, lease delivery (popped r (tl b) q)))"
  unfolding reserve_def
  using assms filtered_routes_subset [of bindings q]
  by (intro reserve_loop_find) (auto simp: queue_inv_defs)

lemma reserve_Some:
  assumes "queue_inv q" and "reserve now later bindings q = (Some d, q')"
  obtains r x rest where
    "find (ready now q) (filtered_routes bindings q) = Some r"
    and "bucket_of q r = Some (x # rest)" and "qt_available_at x \<le> now"
    and "d = make_delivery later x" and "q' = lease d (popped r rest q)"
proof -
  from assms obtain r where f: "find (ready now q) (filtered_routes bindings q) = Some r"
    and e: "d = make_delivery later (hd (the (bucket_of q r)))"
      "q' = lease d (popped r (tl (the (bucket_of q r))) q)"
    by (auto simp: reserve_find Let_def split: option.splits)
  from f have "ready now q r" by (auto simp: find_Some_iff)
  then obtain x rest where "bucket_of q r = Some (x # rest)" "qt_available_at x \<le> now"
    by (auto simp: ready_def is_some_and_iff neq_Nil_conv)
  with f e that show thesis by simp
qed

lemma reserve_None:
  "queue_inv q \<Longrightarrow> reserve now later bindings q = (None, q') \<Longrightarrow>
     q' = q \<and> find (ready now q) (filtered_routes bindings q) = None"
  by (auto simp: reserve_find Let_def split: option.splits)

section \<open>Preservation\<close>

lemma make_delivery_simps [simp]:
  "dv_delivery_id (make_delivery later x) = ''dlv-'' @ rt_task_id (qt_task x)"
  "dv_attempt (make_delivery later x) = qt_attempt x"
  "dv_task (make_delivery later x) = qt_task x"
  "dv_last_error (make_delivery later x) = qt_last_error x"
  by (simp_all add: make_delivery_def)

lemma queue_inv_lease:
  "queue_inv q \<Longrightarrow> dv_delivery_id d = ''dlv-'' @ rt_task_id (dv_task d) \<Longrightarrow> queue_inv (lease d q)"
  by (auto simp: queue_inv_defs)

lemma queue_inv_unlease:
  "queue_inv q \<Longrightarrow> queue_inv (q\<lparr>mq_leased := hm_remove k (mq_leased q)\<rparr>)"
  by (auto simp: queue_inv_defs)

lemma queue_inv_dead [simp]: "queue_inv (q\<lparr>mq_dead_letters := ds\<rparr>) \<longleftrightarrow> queue_inv q"
  by (simp add: queue_inv_defs)

lemma queue_inv_default: "queue_inv (default_mem_queue m)"
  by (simp add: queue_inv_defs default_mem_queue_def)

lemma queue_inv_enqueue: "queue_inv q \<Longrightarrow> queue_inv (snd (enqueue now t q))"
  by (simp add: enqueue_def queue_inv_enqueue_internal)

lemma queue_inv_reserve: "queue_inv q \<Longrightarrow> queue_inv (snd (reserve now later bs q))"
proof (cases "reserve now later bs q")
  case (Pair r q')
  assume inv: "queue_inv q"
  show ?thesis
  proof (cases r)
    case None
    with Pair inv show ?thesis by (auto dest: reserve_None)
  next
    case (Some d)
    with Pair have "reserve now later bs q = (Some d, q')" by simp
    from reserve_Some [OF inv this] show ?thesis
      using inv Pair by (metis queue_inv_popped queue_inv_lease make_delivery_simps(1,3) snd_conv)
  qed
qed

lemma queue_inv_ack: "queue_inv q \<Longrightarrow> queue_inv (snd (ack k q))"
  by (simp add: ack_def Let_def queue_inv_unlease split: option.splits)

lemma queue_inv_retry: "queue_inv q \<Longrightarrow> queue_inv (snd (retry now k e ms q))"
  by (simp add: retry_def Let_def queue_inv_unlease queue_inv_enqueue_internal
      split: option.splits)

lemma queue_inv_reject: "queue_inv q \<Longrightarrow> queue_inv (snd (reject now k e q))"
  by (simp add: reject_def Let_def queue_inv_unlease split: option.splits)

lemma queue_inv_replay: "queue_inv q \<Longrightarrow> queue_inv (snd (replay_dead_letter now k q))"
  by (simp add: replay_dead_letter_def Let_def queue_inv_enqueue_internal split: option.splits)

lemmas queue_inv_intros =
  queue_inv_enqueue queue_inv_reserve queue_inv_ack queue_inv_retry queue_inv_reject
  queue_inv_replay

end
