(* ===== verification/Task_Queue.thy ===== *)
theory Task_Queue
  imports Runtime_Types
begin

text \<open>
  The interface of a task queue: the trait \<open>RuntimeTaskQueue\<close> (executor.rs) as a record of
  operations over the queue's own state, runs of operations, and the locale of the laws the
  rest of the runtime relies on, with what follows from them.
\<close>

section \<open>The trait\<close>

record 'q task_queue_ops =
  op_enqueue :: "system_time \<Rightarrow> runtime_task \<Rightarrow> 'q \<Rightarrow> unit app_result \<times> 'q"
  op_reserve :: "system_time \<Rightarrow> system_time \<Rightarrow> route_binding list \<Rightarrow> 'q \<Rightarrow> task_delivery option \<times> 'q"
  op_ack :: "string \<Rightarrow> 'q \<Rightarrow> unit app_result \<times> 'q"
  op_retry :: "system_time \<Rightarrow> string \<Rightarrow> string \<Rightarrow> u64 \<Rightarrow> 'q \<Rightarrow> retry_disposition app_result \<times> 'q"
  op_reject :: "system_time \<Rightarrow> string \<Rightarrow> string \<Rightarrow> 'q \<Rightarrow> unit app_result \<times> 'q"
  op_stats :: "'q \<Rightarrow> queue_stats list app_result \<times> 'q"
  op_dead_letters :: "'q \<Rightarrow> dead_letter_record list app_result \<times> 'q"
  op_replay_dead_letter :: "system_time \<Rightarrow> string \<Rightarrow> 'q \<Rightarrow> queue_receipt app_result \<times> 'q"

section \<open>Runs of operations\<close>

datatype queue_call =
    CallEnqueue system_time runtime_task
  | CallReserve system_time system_time "route_binding list"
  | CallAck string
  | CallRetry system_time string string u64
  | CallReject system_time string string
  | CallStats
  | CallDeadLetters
  | CallReplay system_time string

fun call :: "'q task_queue_ops \<Rightarrow> queue_call \<Rightarrow> 'q \<Rightarrow> 'q" where
  "call ops (CallEnqueue now t) q = snd (op_enqueue ops now t q)"
| "call ops (CallReserve now later bs) q = snd (op_reserve ops now later bs q)"
| "call ops (CallAck k) q = snd (op_ack ops k q)"
| "call ops (CallRetry now k e ms) q = snd (op_retry ops now k e ms q)"
| "call ops (CallReject now k e) q = snd (op_reject ops now k e q)"
| "call ops CallStats q = snd (op_stats ops q)"
| "call ops CallDeadLetters q = snd (op_dead_letters ops q)"
| "call ops (CallReplay now k) q = snd (op_replay_dead_letter ops now k q)"

definition calls :: "'q task_queue_ops \<Rightarrow> queue_call list \<Rightarrow> 'q \<Rightarrow> 'q" where
  "calls ops cs q = fold (call ops) cs q"

text \<open>The tasks a run puts in, and the tasks whose lease it acknowledges.\<close>

fun enqueued :: "queue_call list \<Rightarrow> runtime_task multiset" where
  "enqueued [] = {#}"
| "enqueued (CallEnqueue now t # cs) = add_mset t (enqueued cs)"
| "enqueued (_ # cs) = enqueued cs"

fun acked ::
    "'q task_queue_ops \<Rightarrow> ('q \<Rightarrow> string \<Rightarrow> task_delivery option) \<Rightarrow> queue_call list \<Rightarrow> 'q \<Rightarrow>
       runtime_task multiset" where
  "acked ops held [] q = {#}"
| "acked ops held (c # cs) q =
     (case c of
        CallAck k \<Rightarrow> (case held q k of None \<Rightarrow> {#} | Some d \<Rightarrow> {#dv_task d#})
      | _ \<Rightarrow> {#}) + acked ops held cs (call ops c q)"

text \<open>No two of the tasks have the same id.\<close>

definition distinct_ids :: "runtime_task multiset \<Rightarrow> bool" where
  "distinct_ids M \<longleftrightarrow> (\<forall>i. count (image_mset rt_task_id M) i \<le> 1)"

lemma distinct_ids_mono: "distinct_ids M \<Longrightarrow> N \<subseteq># M \<Longrightarrow> distinct_ids N"
  unfolding distinct_ids_def by (meson image_mset_subseteq_mono mset_subset_eq_count order_trans)

lemma distinct_ids_two:
  assumes "distinct_ids (add_mset t (add_mset u M))"
  shows "rt_task_id t \<noteq> rt_task_id u"
proof
  assume "rt_task_id t = rt_task_id u"
  then have "2 \<le> count (image_mset rt_task_id (add_mset t (add_mset u M))) (rt_task_id t)" by simp
  with assms show False unfolding distinct_ids_def by (metis Suc_1 not_less_eq_eq)
qed

text \<open>An attempt number of a task: from one up to its maximum, or one if that is zero.\<close>

definition attempt_ok :: "runtime_task \<Rightarrow> u32 \<Rightarrow> bool" where
  "attempt_ok task a \<longleftrightarrow>
     1 \<le> unat a \<and> unat a \<le> max 1 (unat (rp_max_attempts (rt_retry_policy task)))"

lemma attempt_ok_1 [simp]: "attempt_ok task 1"
  by (simp add: attempt_ok_def)

lemma attempt_ok_Suc:
  assumes "a < rp_max_attempts (rt_retry_policy task)"
  shows "attempt_ok task (a + 1)"
proof -
  have "unat a + unat (1 :: u32) < 2 ^ LENGTH(32)"
    using assms unsigned_less [of "rp_max_attempts (rt_retry_policy task)", where 'a = nat]
    by (simp add: word_less_nat_alt)
  then have "unat (a + 1) = unat a + 1" using unat_add_lem [of a 1] by simp
  with assms show ?thesis by (simp add: attempt_ok_def word_less_nat_alt)
qed

section \<open>The laws\<close>

text \<open>
  \<open>wait\<close>, \<open>held\<close> and \<open>dead\<close> are the tasks that wait (with their attempt), the leases by
  delivery id and the dead letters.
\<close>

locale task_queue =
  fixes ops :: "'q task_queue_ops"
    and inv :: "'q \<Rightarrow> bool"
    and wait :: "'q \<Rightarrow> (runtime_task \<times> u32) multiset"
    and held :: "'q \<Rightarrow> string \<Rightarrow> task_delivery option"
    and dead :: "'q \<Rightarrow> dead_letter_record list"
  assumes call_inv: "inv q \<Longrightarrow> inv (call ops c q)"
    and held_finite: "inv q \<Longrightarrow> finite (dom (held q))"
    and held_id: "inv q \<Longrightarrow> held q k = Some d \<Longrightarrow>
      dv_delivery_id d = k \<and> k = ''dlv-'' @ rt_task_id (dv_task d)"
    and enqueue_law: "inv q \<Longrightarrow> op_enqueue ops now t q = (r, q') \<Longrightarrow>
      r = Inr () \<and> wait q' = add_mset (t, 1) (wait q) \<and> held q' = held q \<and> dead q' = dead q"
    and reserve_none: "inv q \<Longrightarrow> op_reserve ops now later bs q = (None, q') \<Longrightarrow>
      wait q' = wait q \<and> held q' = held q \<and> dead q' = dead q"
    and reserve_some: "inv q \<Longrightarrow> op_reserve ops now later bs q = (Some d, q') \<Longrightarrow>
      wait q = add_mset (dv_task d, dv_attempt d) (wait q') \<and>
      dv_delivery_id d = ''dlv-'' @ rt_task_id (dv_task d) \<and>
      held q' = (held q)(dv_delivery_id d \<mapsto> d) \<and> dead q' = dead q \<and>
      (bs = [] \<or> (rt_queue (dv_task d), rt_lane (dv_task d)) \<in> route_of ` set bs)"
    and ack_law: "inv q \<Longrightarrow> op_ack ops k q = (r, q') \<Longrightarrow>
      r = Inr () \<and> wait q' = wait q \<and> held q' = (held q)(k := None) \<and> dead q' = dead q"
    and retry_unknown: "inv q \<Longrightarrow> op_retry ops now k e ms q = (rr, q') \<Longrightarrow> held q k = None \<Longrightarrow>
      rr = Inl Internal \<and> wait q' = wait q \<and> held q' = held q \<and> dead q' = dead q"
    and retry_again: "inv q \<Longrightarrow> op_retry ops now k e ms q = (rr, q') \<Longrightarrow> held q k = Some d \<Longrightarrow>
      dv_attempt d < rp_max_attempts (rt_retry_policy (dv_task d)) \<Longrightarrow>
      rr = Inr RdRequeued \<and> wait q' = add_mset (dv_task d, dv_attempt d + 1) (wait q) \<and>
      held q' = (held q)(k := None) \<and> dead q' = dead q"
    and retry_over: "inv q \<Longrightarrow> op_retry ops now k e ms q = (rr, q') \<Longrightarrow> held q k = Some d \<Longrightarrow>
      rp_max_attempts (rt_retry_policy (dv_task d)) \<le> dv_attempt d \<Longrightarrow>
      rr = Inr RdDeadLettered \<and> wait q' = wait q \<and> held q' = (held q)(k := None) \<and>
      (\<exists>rec. dead q' = dead q @ [rec] \<and> dr_task rec = dv_task d \<and>
         dr_attempt rec = dv_attempt d \<and> dr_error rec = e \<and> dr_delivery_id rec = k)"
    and reject_law: "inv q \<Longrightarrow> op_reject ops now k e q = (r, q') \<Longrightarrow>
      r = Inr () \<and> wait q' = wait q \<and> held q' = (held q)(k := None) \<and>
      (case held q k of
         None \<Rightarrow> dead q' = dead q
       | Some d \<Rightarrow> (\<exists>rec. dead q' = dead q @ [rec] \<and> dr_task rec = dv_task d \<and>
           dr_attempt rec = dv_attempt d \<and> dr_error rec = e \<and> dr_delivery_id rec = k))"
    and stats_law: "inv q \<Longrightarrow> op_stats ops q = (rs, q') \<Longrightarrow>
      wait q' = wait q \<and> held q' = held q \<and> dead q' = dead q"
    and dead_letters_law: "inv q \<Longrightarrow> op_dead_letters ops q = (rl, q') \<Longrightarrow>
      rl = Inr (dead q) \<and> wait q' = wait q \<and> held q' = held q \<and> dead q' = dead q"
    and replay_law: "inv q \<Longrightarrow> op_replay_dead_letter ops now k q = (rq, q') \<Longrightarrow>
      held q' = held q \<and>
      (case rq of
         Inl err \<Rightarrow> wait q' = wait q \<and> dead q' = dead q
       | Inr receipt \<Rightarrow>
           (\<exists>rec. mset (dead q) = add_mset rec (mset (dead q')) \<and> dr_delivery_id rec = k \<and>
              wait q' = add_mset (dr_task rec, 1) (wait q) \<and>
              qr_task_id receipt = rt_task_id (dr_task rec)))"
begin

text \<open>Every task the queue knows, wherever it is.\<close>

definition tasks :: "'q \<Rightarrow> runtime_task multiset" where
  "tasks q = image_mset fst (wait q) +
     image_mset (\<lambda>k. dv_task (the (held q k))) (mset_set (dom (held q))) +
     image_mset dr_task (mset (dead q))"

definition held_tasks :: "'q \<Rightarrow> runtime_task multiset" where
  "held_tasks q = image_mset (\<lambda>k. dv_task (the (held q k))) (mset_set (dom (held q)))"

lemma tasks_eq:
  "tasks q = image_mset fst (wait q) + held_tasks q + image_mset dr_task (mset (dead q))"
  by (simp add: tasks_def held_tasks_def)

lemma held_tasks_upd:
  assumes "finite (dom (held q))" and "held q k = None" and "held q' = (held q)(k \<mapsto> d)"
  shows "held_tasks q' = add_mset (dv_task d) (held_tasks q)"
proof -
  have "image_mset (\<lambda>k'. dv_task (the (held q' k'))) (mset_set (dom (held q))) = held_tasks q"
    unfolding held_tasks_def using assms by (intro image_mset_cong) auto
  with assms show ?thesis by (simp add: held_tasks_def domIff)
qed

lemma held_tasks_del:
  assumes "finite (dom (held q))" and "held q' = (held q)(k := None)"
  shows "held_tasks q =
    (case held q k of None \<Rightarrow> {#} | Some d \<Rightarrow> {#dv_task d#}) + held_tasks q'"
proof (cases "held q k")
  case None
  then have "held q' = held q" using assms(2) by auto
  with None show ?thesis by (simp add: held_tasks_def)
next
  case (Some d)
  then have "held q = (held q')(k \<mapsto> d)" and "held q' k = None" using assms(2) by auto
  moreover have "finite (dom (held q'))" using assms by simp
  ultimately have "held_tasks q = add_mset (dv_task d) (held_tasks q')"
    by (intro held_tasks_upd) simp_all
  with Some show ?thesis by simp
qed

lemma held_fresh:
  assumes "inv q" and "op_reserve ops now later bs q = (Some d, q')"
    and "distinct_ids (tasks q)"
  shows "held q (dv_delivery_id d) = None"
proof (rule ccontr)
  assume "held q (dv_delivery_id d) \<noteq> None"
  then obtain d' where d': "held q (dv_delivery_id d) = Some d'" by auto
  from held_id [OF assms(1) d'] reserve_some [OF assms(1,2)]
  have id: "rt_task_id (dv_task d') = rt_task_id (dv_task d)" by simp
  have "dv_task d' \<in># held_tasks q"
    using d' held_finite [OF assms(1)] by (force simp: held_tasks_def)
  then obtain H where "held_tasks q = add_mset (dv_task d') H" by (metis multi_member_split)
  moreover have "wait q = add_mset (dv_task d, dv_attempt d) (wait q')"
    using reserve_some [OF assms(1,2)] by simp
  ultimately have "\<exists>M. tasks q = add_mset (dv_task d) (add_mset (dv_task d') M)"
    by (simp add: tasks_eq)
  with assms(3) id show False using distinct_ids_two by metis
qed

text \<open>One call moves the tasks: what it puts in, less what it acknowledges.\<close>

lemma call_tasks:
  assumes "inv q" and "distinct_ids (tasks q)"
  shows "tasks (call ops c q) + acked ops held [c] q = enqueued [c] + tasks q"
proof (cases c)
  case (CallEnqueue now t)
  then show ?thesis using enqueue_law [OF assms(1)]
    by (cases "op_enqueue ops now t q") (auto simp: tasks_def)
next
  case (CallReserve now later bs)
  obtain r q' where q': "op_reserve ops now later bs q = (r, q')" by fastforce
  show ?thesis
  proof (cases r)
    case None
    with q' reserve_none [OF assms(1)] CallReserve show ?thesis by (simp add: tasks_def)
  next
    case (Some d)
    with q' have res: "op_reserve ops now later bs q = (Some d, q')" by simp
    note law = reserve_some [OF assms(1) res]
    have "held_tasks q' = add_mset (dv_task d) (held_tasks q)"
      using held_tasks_upd [OF held_finite [OF assms(1)]] held_fresh [OF assms(1) res assms(2)] law
      by blast
    with law res CallReserve show ?thesis by (simp add: tasks_eq)
  qed
next
  case (CallAck k)
  obtain r q' where q': "op_ack ops k q = (r, q')" by fastforce
  have "held_tasks q = (case held q k of None \<Rightarrow> {#} | Some d \<Rightarrow> {#dv_task d#}) + held_tasks q'"
    using ack_law [OF assms(1) q'] by (intro held_tasks_del held_finite assms) simp
  with ack_law [OF assms(1) q'] q' CallAck show ?thesis
    by (simp add: tasks_eq split: option.splits)
next
  case (CallRetry now k e ms)
  obtain r q' where q': "op_retry ops now k e ms q = (r, q')" by fastforce
  show ?thesis
  proof (cases "held q k")
    case None
    with retry_unknown [OF assms(1) q'] q' CallRetry show ?thesis by (simp add: tasks_def)
  next
    case (Some d)
    have del: "held q' = (held q)(k := None) \<Longrightarrow> held_tasks q = {#dv_task d#} + held_tasks q'"
      using held_tasks_del [OF held_finite [OF assms(1)], of q' k] Some by simp
    show ?thesis
      using retry_again [OF assms(1) q' Some] retry_over [OF assms(1) q' Some] del q' CallRetry
      by (cases "dv_attempt d < rp_max_attempts (rt_retry_policy (dv_task d))")
        (auto simp: tasks_eq not_less)
  qed
next
  case (CallReject now k e)
  obtain r q' where q': "op_reject ops now k e q = (r, q')" by fastforce
  have "held_tasks q = (case held q k of None \<Rightarrow> {#} | Some d \<Rightarrow> {#dv_task d#}) + held_tasks q'"
    using reject_law [OF assms(1) q'] by (intro held_tasks_del held_finite assms) simp
  with reject_law [OF assms(1) q'] q' CallReject show ?thesis
    by (auto simp: tasks_eq split: option.splits)
next
  case CallStats
  then show ?thesis using stats_law [OF assms(1)]
    by (cases "op_stats ops q") (auto simp: tasks_def)
next
  case CallDeadLetters
  then show ?thesis using dead_letters_law [OF assms(1)]
    by (cases "op_dead_letters ops q") (auto simp: tasks_def)
next
  case (CallReplay now k)
  obtain r q' where q': "op_replay_dead_letter ops now k q = (r, q')" by fastforce
  with replay_law [OF assms(1) q'] CallReplay show ?thesis
    by (auto simp: tasks_def split: sum.splits)
qed

lemma enqueued_Cons: "enqueued (c # cs) = enqueued [c] + enqueued cs"
  by (cases c) simp_all

lemma acked_Cons: "acked ops held (c # cs) q = acked ops held [c] q + acked ops held cs (call ops c q)"
  by simp

text \<open>
  No task is lost and none appears: after any run of calls the tasks in the queue and the
  acknowledged ones are those that were there and those put in, as long as their ids differ.
\<close>

lemma calls_tasks:
  assumes "inv q" and "distinct_ids (tasks q + enqueued cs)"
  shows "inv (calls ops cs q)"
    and "tasks (calls ops cs q) + acked ops held cs q = tasks q + enqueued cs"
proof -
  have "inv (calls ops cs q) \<and> tasks (calls ops cs q) + acked ops held cs q = tasks q + enqueued cs"
    using assms
  proof (induction cs arbitrary: q)
    case (Cons c cs)
    let ?q = "call ops c q"
    have dist: "distinct_ids (tasks q)"
      using Cons.prems(2) by (rule distinct_ids_mono) simp
    note one = call_tasks [OF Cons.prems(1) dist, of c]
    have "tasks ?q + enqueued cs \<subseteq># tasks q + enqueued (c # cs)"
      using one by (subst enqueued_Cons) (metis add.assoc add.commute mset_subset_eq_add_left
          subset_mset.add_right_mono)
    with Cons.prems(2) have "distinct_ids (tasks ?q + enqueued cs)"
      by (rule distinct_ids_mono)
    note IH = Cons.IH [OF call_inv [OF Cons.prems(1)] this]
    have cs: "calls ops (c # cs) q = calls ops cs ?q" by (simp add: calls_def)
    have eq: "tasks (calls ops cs ?q) + acked ops held cs ?q = tasks ?q + enqueued cs"
      using IH by (rule conjunct2)
    have "tasks (calls ops cs ?q) + (acked ops held [c] q + acked ops held cs ?q) =
        (tasks (calls ops cs ?q) + acked ops held cs ?q) + acked ops held [c] q"
      by (simp only: ac_simps)
    also have "\<dots> = (tasks ?q + acked ops held [c] q) + enqueued cs"
      unfolding eq by (simp only: ac_simps)
    also have "\<dots> = tasks q + (enqueued [c] + enqueued cs)"
      unfolding one by (simp only: ac_simps)
    finally have "tasks (calls ops cs ?q) + (acked ops held [c] q + acked ops held cs ?q) =
        tasks q + (enqueued [c] + enqueued cs)" .
    with conjunct1 [OF IH] show ?case
      unfolding cs acked_Cons [of c cs q] enqueued_Cons [of c cs] by (rule conjI)
  qed (simp add: calls_def)
  then show "inv (calls ops cs q)"
    and "tasks (calls ops cs q) + acked ops held cs q = tasks q + enqueued cs" by auto
qed

text \<open>Attempt numbers stay between one and the maximum, in every place a task can be.\<close>

definition attempts_ok :: "'q \<Rightarrow> bool" where
  "attempts_ok q \<longleftrightarrow> (\<forall>x \<in># wait q. attempt_ok (fst x) (snd x)) \<and>
     (\<forall>k d. held q k = Some d \<longrightarrow> attempt_ok (dv_task d) (dv_attempt d)) \<and>
     (\<forall>rec \<in> set (dead q). attempt_ok (dr_task rec) (dr_attempt rec))"

lemma attempts_okI:
  assumes "attempts_ok q" and "\<forall>x \<in># wait q'. x \<in># wait q \<or> attempt_ok (fst x) (snd x)"
    and "\<forall>k d. held q' k = Some d \<longrightarrow> held q k = Some d \<or> attempt_ok (dv_task d) (dv_attempt d)"
    and "\<forall>rec \<in> set (dead q'). rec \<in> set (dead q) \<or> attempt_ok (dr_task rec) (dr_attempt rec)"
  shows "attempts_ok q'"
  using assms unfolding attempts_ok_def by blast

lemma call_attempts:
  assumes inv: "inv q" and ok: "attempts_ok q"
  shows "attempts_ok (call ops c q)"
proof (cases c)
  case (CallEnqueue now t)
  then show ?thesis using enqueue_law [OF inv]
    by (cases "op_enqueue ops now t q") (auto intro!: attempts_okI [OF ok])
next
  case (CallReserve now later bs)
  obtain r q' where q': "op_reserve ops now later bs q = (r, q')" by fastforce
  show ?thesis
  proof (cases r)
    case None
    with q' reserve_none [OF inv] CallReserve show ?thesis
      by (auto intro!: attempts_okI [OF ok])
  next
    case (Some d)
    with q' have law: "wait q = add_mset (dv_task d, dv_attempt d) (wait q')"
      "held q' = (held q)(dv_delivery_id d \<mapsto> d)" "dead q' = dead q"
      using reserve_some [OF inv] by blast+
    then have "attempt_ok (dv_task d) (dv_attempt d)"
      using ok by (simp add: attempts_ok_def)
    with law q' CallReserve show ?thesis by (auto intro!: attempts_okI [OF ok] split: if_splits)
  qed
next
  case (CallAck k)
  then show ?thesis using ack_law [OF inv]
    by (cases "op_ack ops k q") (auto intro!: attempts_okI [OF ok] split: if_splits)
next
  case (CallRetry now k e ms)
  obtain r q' where q': "op_retry ops now k e ms q = (r, q')" by fastforce
  show ?thesis
  proof (cases "held q k")
    case None
    with retry_unknown [OF inv q'] q' CallRetry show ?thesis
      by (auto intro!: attempts_okI [OF ok])
  next
    case (Some d)
    with ok have att: "attempt_ok (dv_task d) (dv_attempt d)" by (auto simp: attempts_ok_def)
    show ?thesis
    proof (cases "dv_attempt d < rp_max_attempts (rt_retry_policy (dv_task d))")
      case True
      with retry_again [OF inv q' Some] attempt_ok_Suc [OF True] q' CallRetry show ?thesis
        by (auto intro!: attempts_okI [OF ok] split: if_splits)
    next
      case False
      with retry_over [OF inv q' Some] att q' CallRetry show ?thesis
        by (auto intro!: attempts_okI [OF ok] simp: not_less split: if_splits)
    qed
  qed
next
  case (CallReject now k e)
  obtain r q' where q': "op_reject ops now k e q = (r, q')" by fastforce
  have att: "held q k = Some d \<Longrightarrow> attempt_ok (dv_task d) (dv_attempt d)" for d
    using ok by (auto simp: attempts_ok_def)
  with reject_law [OF inv q'] q' CallReject show ?thesis
    by (auto intro!: attempts_okI [OF ok] split: option.splits if_splits)
next
  case CallStats
  then show ?thesis using stats_law [OF inv]
    by (cases "op_stats ops q") (auto intro!: attempts_okI [OF ok])
next
  case CallDeadLetters
  then show ?thesis using dead_letters_law [OF inv]
    by (cases "op_dead_letters ops q") (auto intro!: attempts_okI [OF ok])
next
  case (CallReplay now k)
  obtain r q' where q': "op_replay_dead_letter ops now k q = (r, q')" by fastforce
  have "set (dead q') \<subseteq> set (dead q)"
    using replay_law [OF inv q'] by (auto split: sum.splits dest: arg_cong [of _ _ set_mset])
  with replay_law [OF inv q'] q' CallReplay show ?thesis
    by (auto intro!: attempts_okI [OF ok] split: sum.splits)
qed

lemma calls_attempts:
  "inv q \<Longrightarrow> attempts_ok q \<Longrightarrow> inv (calls ops cs q) \<and> attempts_ok (calls ops cs q)"
proof (induction cs arbitrary: q)
  case (Cons c cs)
  then show ?case using call_inv call_attempts by (simp add: calls_def)
qed (simp add: calls_def)

end

end
