(* ===== verification/Memory_Queue.thy ===== *)
theory Memory_Queue
  imports Queue_Inv Task_Queue
begin

text \<open>
  The in-memory queue as an implementation of the task queue interface, and its properties:
  which task a poll hands out, that tasks are conserved, attempts bounded, routes served in
  turn, retries delayed, and that the statistics count what is there.
\<close>

section \<open>The implementation of the trait\<close>

definition memory_queue_ops :: "mem_queue task_queue_ops" where
  "memory_queue_ops =
     \<lparr>op_enqueue = enqueue, op_reserve = reserve, op_ack = ack, op_retry = retry,
      op_reject = reject, op_stats = (\<lambda>q. (stats q, q)),
      op_dead_letters = (\<lambda>q. (dead_letters q, q)),
      op_replay_dead_letter = replay_dead_letter\<rparr>"

definition wait_of :: "mem_queue \<Rightarrow> (runtime_task \<times> u32) multiset" where
  "wait_of q = image_mset (\<lambda>x. (qt_task x, qt_attempt x)) (waiting q)"

lemma wait_of_observing [simp]: "wait_of (observing f q) = wait_of q"
  by (simp add: wait_of_def waiting_def)

lemma wait_of_cong: "mq_buckets q = mq_buckets q' \<Longrightarrow> wait_of q = wait_of q'"
  by (simp add: wait_of_def waiting_def)

lemma wait_of_enqueue_internal:
  "queue_inv q \<Longrightarrow>
     wait_of (enqueue_internal x q) = add_mset (qt_task x, qt_attempt x) (wait_of q)"
  by (simp add: wait_of_def waiting_enqueue_internal queue_inv_def buckets_ok_def)

lemma wait_of_lease [simp]: "wait_of (lease d q) = wait_of q"
  by (rule wait_of_cong) simp

lemma wait_of_popped:
  "queue_inv q \<Longrightarrow> bucket_of q r = Some (x # rest) \<Longrightarrow>
     wait_of q = add_mset (qt_task x, qt_attempt x) (wait_of (popped r rest q))"
  by (simp add: wait_of_def waiting_popped)

lemma wait_of_simps [simp]:
  "wait_of (q\<lparr>mq_leased := ls\<rparr>) = wait_of q"
  "wait_of (q\<lparr>mq_dead_letters := ds\<rparr>) = wait_of q"
  by (rule wait_of_cong, simp)+

lemma queue_inv_distinct_leases: "queue_inv q \<Longrightarrow> distinct (hm_keys (mq_leased q))"
  by (simp add: queue_inv_defs)

lemma position_Some:
  "position p xs = Some i \<longleftrightarrow> i < length xs \<and> p (xs ! i) \<and> (\<forall>j < i. \<not> p (xs ! j))"
proof (induction xs arbitrary: i)
  case (Cons x xs)
  show ?case
  proof (cases i)
    case 0
    then show ?thesis by auto
  next
    case (Suc k)
    then show ?thesis using Cons [of k]
      by (auto simp: less_Suc_eq_0_disj)
  qed
qed simp

lemma position_None: "position p xs = None \<longleftrightarrow> (\<forall>x \<in> set xs. \<not> p x)"
  by (induction xs) auto

lemma mset_remove_at:
  assumes "i < length xs"
  shows "mset xs = add_mset (xs ! i) (mset (remove_at i xs))"
proof -
  have "mset xs = mset (take i xs @ xs ! i # drop (Suc i) xs)"
    using id_take_nth_drop [OF assms] by simp
  then show ?thesis by (simp add: remove_at_def)
qed

lemma replay_cases:
  assumes "replay_dead_letter now k q = (r, q')"
  obtains (missing) "r = Inl (NotFound (''dead letter not found: '' @ k))"
      and "\<forall>rec \<in> set (mq_dead_letters q). dr_delivery_id rec \<noteq> k"
      and "q' = observing (observe_broker_operation_failure now ''memory'' ''*'' ''*'' ''replay'') q"
    | (found) i rec where "i < length (mq_dead_letters q)" and "rec = mq_dead_letters q ! i"
      and "dr_delivery_id rec = k" and "\<forall>j < i. dr_delivery_id (mq_dead_letters q ! j) \<noteq> k"
      and "r = Inr \<lparr>qr_task_id = rt_task_id (dr_task rec), qr_queue = rt_queue (dr_task rec),
                    qr_lane = rt_lane (dr_task rec), qr_status = LcQueued\<rparr>"
      and "q' = observing (observe_broker_replay ''memory'' (rt_queue (dr_task rec))
             (rt_lane (dr_task rec)))
           (enqueue_internal
             \<lparr>qt_task = dr_task rec, qt_attempt = 1, qt_available_at = now,
              qt_last_error = Some (''replayed from dead letter: '' @ dr_error rec)\<rparr>
             (q\<lparr>mq_dead_letters := remove_at i (mq_dead_letters q)\<rparr>))"
proof (cases "position (\<lambda>r. dr_delivery_id r = k) (mq_dead_letters q)")
  case None
  with assms missing show ?thesis by (auto simp: replay_dead_letter_def position_None)
next
  case (Some i)
  then have "i < length (mq_dead_letters q)" "dr_delivery_id (mq_dead_letters q ! i) = k"
    "\<forall>j < i. dr_delivery_id (mq_dead_letters q ! j) \<noteq> k"
    by (simp_all add: position_Some)
  with assms Some found [OF _ refl] show ?thesis
    by (simp add: replay_dead_letter_def Let_def)
qed

lemma reserve_route:
  assumes "queue_inv q" and "reserve now later bs q = (Some d, q')"
  shows "bs = [] \<or> task_route (dv_task d) \<in> route_of ` set bs"
proof -
  from reserve_Some [OF assms] obtain r x rest where
    f: "find (ready now q) (filtered_routes bs q) = Some r"
    and b: "bucket_of q r = Some (x # rest)" and d: "d = make_delivery later x" by metis
  from f have "r \<in> set (filtered_routes bs q)" by (auto simp: find_Some_iff)
  moreover have "task_route (qt_task x) = r"
    by (rule bucket_route [OF assms(1) b]) simp
  ultimately show ?thesis using d by (auto simp: filtered_routes_def Let_def split: if_splits)
qed

section \<open>The laws hold\<close>

lemma memory_call_inv: "queue_inv q \<Longrightarrow> queue_inv (call memory_queue_ops c q)"
  by (cases c) (simp_all add: memory_queue_ops_def queue_inv_intros)

lemma reserve_law:
  assumes "queue_inv q" and "reserve now later bs q = (Some d, q')"
  shows "wait_of q = add_mset (dv_task d, dv_attempt d) (wait_of q') \<and>
    dv_delivery_id d = ''dlv-'' @ rt_task_id (dv_task d) \<and>
    leased_of q' = (leased_of q)(dv_delivery_id d \<mapsto> d) \<and> mq_dead_letters q' = mq_dead_letters q"
proof -
  from reserve_Some [OF assms] obtain r x rest where "bucket_of q r = Some (x # rest)"
    and "d = make_delivery later x" and "q' = lease d (popped r rest q)" by metis
  with wait_of_popped [OF assms(1)] show ?thesis by simp
qed

lemma retry_law:
  assumes "queue_inv q" and "retry now k e ms q = (r, q')"
  shows "leased_of q k = None \<Longrightarrow> r = Inl Internal \<and> wait_of q' = wait_of q \<and>
      leased_of q' = leased_of q \<and> mq_dead_letters q' = mq_dead_letters q"
    and "leased_of q k = Some d \<Longrightarrow> dv_attempt d < rp_max_attempts (rt_retry_policy (dv_task d)) \<Longrightarrow>
      r = Inr RdRequeued \<and> wait_of q' = add_mset (dv_task d, dv_attempt d + 1) (wait_of q) \<and>
      leased_of q' = (leased_of q)(k := None) \<and> mq_dead_letters q' = mq_dead_letters q"
    and "leased_of q k = Some d \<Longrightarrow> rp_max_attempts (rt_retry_policy (dv_task d)) \<le> dv_attempt d \<Longrightarrow>
      r = Inr RdDeadLettered \<and> wait_of q' = wait_of q \<and>
      leased_of q' = (leased_of q)(k := None) \<and>
      mq_dead_letters q' = mq_dead_letters q @ [dead_letter_of now d e]"
  using assms queue_inv_distinct_leases [OF assms(1)]
  by (auto simp: retry_def Let_def not_le wait_of_enqueue_internal queue_inv_unlease
      simp flip: not_less)

lemma dead_letter_of_simps [simp]:
  "dr_task (dead_letter_of now d e) = dv_task d"
  "dr_attempt (dead_letter_of now d e) = dv_attempt d"
  "dr_error (dead_letter_of now d e) = e"
  "dr_delivery_id (dead_letter_of now d e) = dv_delivery_id d"
  by (simp_all add: dead_letter_of_def Let_def)

lemma queue_inv_lease_id:
  "queue_inv q \<Longrightarrow> leased_of q k = Some d \<Longrightarrow>
     dv_delivery_id d = k \<and> k = ''dlv-'' @ rt_task_id (dv_task d)"
  unfolding queue_inv_defs by blast

interpretation mq: task_queue memory_queue_ops queue_inv wait_of leased_of mq_dead_letters
proof
  fix q c assume "queue_inv q"
  then show "queue_inv (call memory_queue_ops c q)" by (rule memory_call_inv)
next
  fix q k d assume "queue_inv q" and "leased_of q k = Some d"
  then show "dv_delivery_id d = k \<and> k = ''dlv-'' @ rt_task_id (dv_task d)"
    by (rule queue_inv_lease_id)
next
  fix q now later bs d q'
  assume "queue_inv q" and "op_reserve memory_queue_ops now later bs q = (Some d, q')"
  then show "wait_of q = add_mset (dv_task d, dv_attempt d) (wait_of q') \<and>
      dv_delivery_id d = ''dlv-'' @ rt_task_id (dv_task d) \<and>
      leased_of q' = (leased_of q)(dv_delivery_id d \<mapsto> d) \<and>
      mq_dead_letters q' = mq_dead_letters q \<and>
      (bs = [] \<or> task_route (dv_task d) \<in> route_of ` set bs)"
    using reserve_law reserve_route by (simp add: memory_queue_ops_def)
next
  fix q now k e ms rr q' d
  assume "queue_inv q" and "op_retry memory_queue_ops now k e ms q = (rr, q')"
    and "leased_of q k = Some d"
    and "rp_max_attempts (rt_retry_policy (dv_task d)) \<le> dv_attempt d"
  with retry_law(3) [of q now k e ms rr q' d] queue_inv_lease_id [of q k d]
  show "rr = Inr RdDeadLettered \<and> wait_of q' = wait_of q \<and>
      leased_of q' = (leased_of q)(k := None) \<and>
      (\<exists>rec. mq_dead_letters q' = mq_dead_letters q @ [rec] \<and> dr_task rec = dv_task d \<and>
         dr_attempt rec = dv_attempt d \<and> dr_error rec = e \<and> dr_delivery_id rec = k)"
    by (simp add: memory_queue_ops_def)
next
  fix q now k e r q'
  assume inv: "queue_inv q" and "op_reject memory_queue_ops now k e q = (r, q')"
  then show "r = Inr () \<and> wait_of q' = wait_of q \<and> leased_of q' = (leased_of q)(k := None) \<and>
      (case leased_of q k of
         None \<Rightarrow> mq_dead_letters q' = mq_dead_letters q
       | Some d \<Rightarrow> (\<exists>rec. mq_dead_letters q' = mq_dead_letters q @ [rec] \<and> dr_task rec = dv_task d \<and>
           dr_attempt rec = dv_attempt d \<and> dr_error rec = e \<and> dr_delivery_id rec = k))"
    using queue_inv_distinct_leases [OF inv] queue_inv_lease_id [OF inv, of k]
    by (cases "leased_of q k") (auto simp: memory_queue_ops_def reject_def Let_def)
next
  fix q now k rq q'
  assume inv: "queue_inv q" and "op_replay_dead_letter memory_queue_ops now k q = (rq, q')"
  then have "replay_dead_letter now k q = (rq, q')" by (simp add: memory_queue_ops_def)
  then show "leased_of q' = leased_of q \<and>
      (case rq of
         Inl err \<Rightarrow> wait_of q' = wait_of q \<and> mq_dead_letters q' = mq_dead_letters q
       | Inr receipt \<Rightarrow>
           (\<exists>rec. mset (mq_dead_letters q) = add_mset rec (mset (mq_dead_letters q')) \<and>
              dr_delivery_id rec = k \<and> wait_of q' = add_mset (dr_task rec, 1) (wait_of q) \<and>
              qr_task_id receipt = rt_task_id (dr_task rec)))"
  proof (cases rule: replay_cases)
    case missing
    then show ?thesis by simp
  next
    case (found i rec)
    with mset_remove_at [OF found(1)] inv show ?thesis
      by (auto simp: wait_of_enqueue_internal)
  qed
qed (auto simp: memory_queue_ops_def finite_dom_map_of enqueue_def wait_of_enqueue_internal
    ack_def Let_def dead_letters_def retry_law queue_inv_distinct_leases
    dest: reserve_None split: option.splits)

end
