(* ===== verification/Queue_Stats.thy ===== *)
theory Queue_Stats
  imports Queue_Inv
begin

text \<open>
  The statistics of the queue count, per route, exactly the waiting, leased and dead tasks.
\<close>

definition zero_stats :: "route \<Rightarrow> queue_stats" where
  "zero_stats key = \<lparr>qs_queue = fst key, qs_lane = snd key, qs_queued = 0, qs_leased = 0,
                     qs_dead_lettered = 0\<rparr>"

definition entry_at :: "(route, queue_stats) btree_map \<Rightarrow> route \<Rightarrow> queue_stats" where
  "entry_at st key = (case map_of st key of Some e \<Rightarrow> e | None \<Rightarrow> zero_stats key)"

lemma map_of_stats_entry:
  "map_of (stats_entry key f st) = (map_of st)(key \<mapsto> f (entry_at st key))"
  by (simp add: stats_entry_def entry_at_def zero_stats_def split: option.splits)

lemma sorted_stats_entry:
  "sorted_wrt (<) (hm_keys st) \<Longrightarrow> sorted_wrt (<) (hm_keys (stats_entry key f st))"
  by (simp add: stats_entry_def)

lemma fold_stats_entry:
  shows "entry_at (fold (\<lambda>x. stats_entry (key x) f) xs st) k =
      (f ^^ length (filter (\<lambda>x. key x = k) xs)) (entry_at st k)"
    and "dom (map_of (fold (\<lambda>x. stats_entry (key x) f) xs st)) = dom (map_of st) \<union> key ` set xs"
    and "sorted_wrt (<) (hm_keys st) \<Longrightarrow>
      sorted_wrt (<) (hm_keys (fold (\<lambda>x. stats_entry (key x) f) xs st))"
proof (induction xs arbitrary: st)
  case (Cons x xs)
  { case 1
    have "entry_at (stats_entry (key x) f st) k =
        (if key x = k then f (entry_at st k) else entry_at st k)"
      by (auto simp: entry_at_def map_of_stats_entry)
    then show ?case by (simp add: Cons.IH(1) funpow_swap1)
  next
    case 2
    show ?case by (auto simp: Cons.IH(2) map_of_stats_entry)
  next
    case 3
    then show ?case by (simp add: Cons.IH(3) sorted_stats_entry)
  }
qed simp_all

definition bucket_entry :: "route \<Rightarrow> queued_task list \<Rightarrow> queue_stats" where
  "bucket_entry r items = \<lparr>qs_queue = fst r, qs_lane = snd r, qs_queued = length items,
                           qs_leased = 0, qs_dead_lettered = 0\<rparr>"

lemma fold_bucket_entries:
  assumes "distinct (hm_keys bs)"
  shows "map_of (fold (\<lambda>(r, items). bt_insert r (bucket_entry r items)) bs st) k =
      (case map_of bs k of Some items \<Rightarrow> Some (bucket_entry k items) | None \<Rightarrow> map_of st k)"
    and "sorted_wrt (<) (hm_keys st) \<Longrightarrow>
      sorted_wrt (<) (hm_keys (fold (\<lambda>(r, items). bt_insert r (bucket_entry r items)) bs st))"
  using assms
proof (induction bs arbitrary: st)
  case (Cons b bs)
  { case 1
    then have notin: "map_of bs (fst b) = None" and dist: "distinct (hm_keys bs)"
      by (auto simp: map_of_eq_None_iff)
    have m: "map_of (b # bs) k = (if k = fst b then Some (snd b) else map_of bs k)"
      by (cases b) simp
    show ?case
      using notin Cons.IH(1) [OF dist, of "bt_insert (fst b) (bucket_entry (fst b) (snd b)) st"]
      unfolding m by (cases "k = fst b") (simp_all add: split_beta split: option.split)
  next
    case 2
    then show ?case using Cons.IH(2) by (simp add: split_beta)
  }
qed simp_all

lemma funpow_leased:
  "((\<lambda>e. e\<lparr>qs_leased := Suc (qs_leased e)\<rparr>) ^^ n) e = e\<lparr>qs_leased := qs_leased e + n\<rparr>"
  by (induction n) simp_all

lemma funpow_dead:
  "((\<lambda>e. e\<lparr>qs_dead_lettered := Suc (qs_dead_lettered e)\<rparr>) ^^ n) e =
     e\<lparr>qs_dead_lettered := qs_dead_lettered e + n\<rparr>"
  by (induction n) simp_all

text \<open>What the entry of a route must say.\<close>

definition queued_at :: "mem_queue \<Rightarrow> route \<Rightarrow> nat" where
  "queued_at q r = (case bucket_of q r of None \<Rightarrow> 0 | Some b \<Rightarrow> length b)"

definition leased_at :: "mem_queue \<Rightarrow> route \<Rightarrow> nat" where
  "leased_at q r =
     length (filter (\<lambda>d. task_route (dv_task d) = r) (hm_values (mq_leased q)))"

definition dead_at :: "mem_queue \<Rightarrow> route \<Rightarrow> nat" where
  "dead_at q r = length (filter (\<lambda>x. (dr_queue x, dr_lane x) = r) (mq_dead_letters q))"

definition stats_of_route :: "mem_queue \<Rightarrow> route \<Rightarrow> queue_stats" where
  "stats_of_route q r =
     \<lparr>qs_queue = fst r, qs_lane = snd r, qs_queued = queued_at q r,
      qs_leased = leased_at q r, qs_dead_lettered = dead_at q r\<rparr>"

definition used_routes :: "mem_queue \<Rightarrow> route set" where
  "used_routes q = dom (bucket_of q) \<union>
     (\<lambda>d. task_route (dv_task d)) ` set (hm_values (mq_leased q)) \<union>
     (\<lambda>x. (dr_queue x, dr_lane x)) ` set (mq_dead_letters q)"

lemma stats_eq:
  assumes "queue_inv q"
  shows "\<exists>st. stats q = Inr (hm_values st) \<and> sorted_wrt (<) (hm_keys st) \<and>
    dom (map_of st) = used_routes q \<and> (\<forall>r. entry_at st r = stats_of_route q r)"
proof -
  define s1 where "s1 = fold (\<lambda>(r, items). bt_insert r (bucket_entry r items)) (mq_buckets q) []"
  define s2 where "s2 = fold (\<lambda>d. stats_entry (task_route (dv_task d))
    (\<lambda>e. e\<lparr>qs_leased := qs_leased e + 1\<rparr>)) (hm_values (mq_leased q)) s1"
  define s3 where "s3 = fold (\<lambda>x. stats_entry (dr_queue x, dr_lane x)
    (\<lambda>e. e\<lparr>qs_dead_lettered := qs_dead_lettered e + 1\<rparr>)) (mq_dead_letters q) s2"
  have dist: "distinct (hm_keys (mq_buckets q))"
    using assms by (intro sorted_wrt_less_distinct) (simp add: queue_inv_defs)
  have "stats q = Inr (hm_values s3)"
    by (simp add: stats_def s1_def s2_def s3_def bucket_entry_def Let_def)
  moreover have "sorted_wrt (<) (hm_keys s3)"
    unfolding s1_def s2_def s3_def by (intro fold_stats_entry(3) fold_bucket_entries(2) dist) simp
  moreover have m1: "map_of s1 r = map_option (bucket_entry r) (bucket_of q r)" for r
    unfolding s1_def by (simp add: fold_bucket_entries(1) [OF dist] split: option.splits)
  have "dom (map_of s1) = dom (bucket_of q)" by (auto simp: m1)
  then have "dom (map_of s3) = used_routes q"
    unfolding s3_def s2_def used_routes_def by (simp add: fold_stats_entry(2))
  moreover have "entry_at s1 r = \<lparr>qs_queue = fst r, qs_lane = snd r, qs_queued = queued_at q r,
      qs_leased = 0, qs_dead_lettered = 0\<rparr>" for r
    by (simp add: entry_at_def m1 bucket_entry_def zero_stats_def queued_at_def split: option.splits)
  then have "entry_at s3 r = stats_of_route q r" for r
    unfolding s3_def s2_def stats_of_route_def
    by (simp add: fold_stats_entry(1) funpow_leased funpow_dead leased_at_def dead_at_def)
  ultimately show ?thesis by blast
qed

lemma stats_listing:
  assumes "queue_inv q"
  shows "stats q = Inr (map (stats_of_route q) (sorted_list_of_set (used_routes q)))"
proof -
  from stats_eq [OF assms] obtain st where st: "stats q = Inr (hm_values st)"
    and srt: "sorted_wrt (<) (hm_keys st)" and dom: "dom (map_of st) = used_routes q"
    and entry: "\<And>r. entry_at st r = stats_of_route q r" by blast
  have dist: "distinct (hm_keys st)" by (rule sorted_wrt_less_distinct [OF srt])
  have "hm_keys st = sorted_list_of_set (used_routes q)"
    using srt dist dom by (metis keys_dom sorted_list_of_set.idem_if_sorted_distinct
        strict_sorted_iff)
  moreover have "hm_values st = map (stats_of_route q) (hm_keys st)"
  proof -
    have "snd x = stats_of_route q (fst x)" if "x \<in> set st" for x
      using entry [of "fst x"] map_of_is_SomeI [OF dist, of "fst x" "snd x"] that
      by (simp add: entry_at_def)
    then show ?thesis by simp
  qed
  ultimately show ?thesis using st by simp
qed

end
