(* ===== verification/Queue_Props.thy ===== *)
theory Queue_Props
  imports Memory_Queue Queue_Stats
begin

text \<open>
  The properties of the in-memory queue over every run of its operations.
\<close>

lemma default_attempts: "mq.attempts_ok (default_mem_queue m)"
  by (simp add: mq.attempts_ok_def default_mem_queue_def wait_of_def waiting_def)

lemma tasks_default: "mq.tasks (default_mem_queue m) = {#}"
  by (simp add: mq.tasks_def default_mem_queue_def wait_of_def waiting_def)

lemma calls_inv: "queue_inv (calls memory_queue_ops cs (default_mem_queue m))"
  using mq.calls_attempts [OF queue_inv_default default_attempts] by blast

section \<open>Invariant\<close>

text \<open>C2: After any run of queue operations, in any order and with any arguments, the buckets
  are sorted by route and none is empty, each holds its own route's tasks only, the polling
  order lists each route that has tasks exactly once and no other, and every lease is filed
  under its own delivery id.\<close>

theorem queue_invariant: "queue_inv (calls memory_queue_ops cs (default_mem_queue m))"
  by (rule calls_inv)

section \<open>Conservation\<close>

text \<open>The tasks that wait, are leased or are dead.\<close>

definition queue_tasks :: "mem_queue \<Rightarrow> runtime_task multiset" where
  "queue_tasks q = mset (map qt_task (concat (hm_values (mq_buckets q)))) +
     mset (map dv_task (hm_values (mq_leased q))) + mset (map dr_task (mq_dead_letters q))"

lemma mset_values_dom:
  "distinct (hm_keys m) \<Longrightarrow>
     image_mset (\<lambda>k. the (map_of m k)) (mset_set (dom (map_of m))) = mset (hm_values m)"
proof (induction m)
  case (Cons x m)
  have "image_mset (\<lambda>k. the (map_of (x # m) k)) (mset_set (dom (map_of m))) =
      image_mset (\<lambda>k. the (map_of m k)) (mset_set (dom (map_of m)))"
    using Cons.prems by (intro image_mset_cong) (auto simp: dom_map_of_conv_image_fst rev_image_eqI)
  moreover have "fst x \<notin> dom (map_of m)"
    using Cons.prems by (auto simp: dom_map_of_conv_image_fst)
  moreover have "dom (map_of (x # m)) = insert (fst x) (dom (map_of m))"
    by (cases x) auto
  moreover have "the (map_of (x # m) (fst x)) = snd x"
    by (cases x) simp
  ultimately show ?case using Cons by (simp add: finite_dom_map_of del: map_of.simps)
qed simp

lemma queue_tasks_eq: "queue_inv q \<Longrightarrow> mq.tasks q = queue_tasks q"
proof -
  assume inv: "queue_inv q"
  have "image_mset (\<lambda>k. dv_task (the (leased_of q k))) (mset_set (dom (leased_of q))) =
      image_mset dv_task (mset (hm_values (mq_leased q)))"
    using mset_values_dom [OF queue_inv_distinct_leases [OF inv]]
    by (metis (no_types, lifting) image_mset.compositionality comp_apply image_mset_cong)
  then show ?thesis
    by (simp add: mq.tasks_def queue_tasks_def wait_of_def waiting_def image_mset.compositionality
        comp_def)
qed

text \<open>C1: No task is lost and none is duplicated: after any run, the tasks that wait, are leased
  or are dead, together with the tasks whose lease was acknowledged, are exactly the tasks the
  run put in, provided no two of those have the same id.\<close>

theorem tasks_conserved:
  assumes "distinct_ids (enqueued cs)"
  shows "queue_tasks (calls memory_queue_ops cs (default_mem_queue m)) +
     acked memory_queue_ops leased_of cs (default_mem_queue m) = enqueued cs"
  using mq.calls_tasks [OF queue_inv_default, of m cs] assms tasks_default
    queue_tasks_eq [OF calls_inv]
  by simp

definition sample_task :: "string \<Rightarrow> string \<Rightarrow> u32 \<Rightarrow> runtime_task" where
  "sample_task task_id lane attempts =
     \<lparr>rt_task_id = task_id, rt_task_type = RtOjJudge, rt_source_domain = ''oj'',
      rt_source_entity_id = task_id, rt_queue = ''oj_judge'', rt_lane = lane,
      rt_retry_policy = \<lparr>rp_max_attempts = attempts, rp_retry_delay_ms = 1000\<rparr>,
      rt_payload = PayloadOjJudge
        \<lparr>oj_submission_id = SubmissionId task_id, oj_problem_id = ProblemId ''p'',
         oj_user_id = UserId ''u'', oj_language = ''cpp'', oj_judge_mode = RtAcm,
         oj_sandbox_kind = RtNsjail, oj_source_code = ''int main(){}'',
         oj_limits = \<lparr>lim_time_limit_ms = 1000, lim_memory_limit_kb = 65536\<rparr>,
         oj_testcases = [], oj_judge_config = None\<rparr>\<rparr>"

definition sample_run :: "queue_call list" where
  "sample_run =
     [CallEnqueue 0 (sample_task ''a'' ''fast'' 2), CallEnqueue 0 (sample_task ''b'' ''slow'' 2),
      CallReserve 1 1 [], CallRetry 2 ''dlv-a'' ''boom'' 0, CallReserve 3 3 [],
      CallAck ''dlv-b'']"

theorem tasks_conserved_witness:
  "queue_tasks (calls memory_queue_ops sample_run (default_mem_queue empty_metrics)) +
     acked memory_queue_ops leased_of sample_run (default_mem_queue empty_metrics) =
   {#sample_task ''a'' ''fast'' 2, sample_task ''b'' ''slow'' 2#}"
proof -
  have "enqueued sample_run = {#sample_task ''a'' ''fast'' 2, sample_task ''b'' ''slow'' 2#}"
    by (simp add: sample_run_def)
  then show ?thesis
    using tasks_conserved [of sample_run empty_metrics]
    by (simp add: distinct_ids_def sample_task_def)
qed

text \<open>The provision is needed: a delivery id is made of the task id alone, so two queued
  tasks with one id get one lease, and a task is lost when both are reserved.\<close>

theorem duplicate_id_loses_a_task:
  "queue_tasks (calls memory_queue_ops
       [CallEnqueue 0 (sample_task ''a'' lane 3), CallEnqueue 0 (sample_task ''a'' lane 3),
        CallReserve 1 1 [], CallReserve 1 1 []] (default_mem_queue m)) =
     {#sample_task ''a'' lane 3#}"
  by (simp add: calls_def memory_queue_ops_def enqueue_def reserve_def default_mem_queue_def
      enqueue_internal_def enqueue_bucket_def Let_def filtered_routes_def push_route_def
      observing_def reserve_section_def rotate_route_def remove_route_def make_delivery_def
      lease_def sample_task_def queue_tasks_def)

section \<open>Attempts\<close>

definition attempts_bounded :: "mem_queue \<Rightarrow> bool" where
  "attempts_bounded q \<longleftrightarrow>
     list_all (\<lambda>x. attempt_ok (qt_task x) (qt_attempt x)) (concat (hm_values (mq_buckets q))) \<and>
     list_all (\<lambda>d. attempt_ok (dv_task d) (dv_attempt d)) (hm_values (mq_leased q)) \<and>
     list_all (\<lambda>r. attempt_ok (dr_task r) (dr_attempt r)) (mq_dead_letters q)"

text \<open>C6: In every place a task can be, its attempt number is at least one and at most the
  maximum of its retry policy (one, if the maximum is zero): a retry never runs a task too
  often, and the counter never wraps.\<close>

theorem attempts_are_bounded:
  "attempts_bounded (calls memory_queue_ops cs (default_mem_queue m))"
proof -
  let ?q = "calls memory_queue_ops cs (default_mem_queue m)"
  have inv: "queue_inv ?q" and ok: "mq.attempts_ok ?q"
    using mq.calls_attempts [OF queue_inv_default default_attempts] by blast+
  have "attempt_ok (dv_task d) (dv_attempt d)" if "(k, d) \<in> set (mq_leased ?q)" for k d
    using ok map_of_is_SomeI [OF queue_inv_distinct_leases [OF inv] that]
    unfolding mq.attempts_ok_def by blast
  with ok show ?thesis
    unfolding attempts_bounded_def mq.attempts_ok_def list_all_iff wait_of_def waiting_def
    by fastforce
qed

section \<open>What a poll hands out\<close>

text \<open>The routes a poll may look at, in polling order, and the first whose head is due.\<close>

definition allowed_route :: "route_binding list \<Rightarrow> route \<Rightarrow> bool" where
  "allowed_route bs r \<longleftrightarrow> bs = [] \<or> r \<in> route_of ` set bs"

lemma filtered_routes_filter:
  "filtered_routes bs q = filter (allowed_route bs) (mq_route_order q)"
  by (auto simp: filtered_routes_def allowed_route_def Let_def intro!: filter_cong)

lemma find_filter: "find P (filter Q xs) = find (\<lambda>x. Q x \<and> P x) xs"
  by (induction xs) auto

lemma find_only: "set xs = {x} \<Longrightarrow> P x \<Longrightarrow> find P xs = Some x"
  by (cases xs) auto

lemma find_split:
  "find P xs = Some x \<Longrightarrow> \<exists>ys zs. xs = ys @ x # zs \<and> P x \<and> (\<forall>y \<in> set ys. \<not> P y)"
proof (induction xs)
  case (Cons a xs)
  show ?case
  proof (cases "P a")
    case True
    with Cons.prems have "a # xs = [] @ x # xs" "P x" by simp_all
    then show ?thesis by fastforce
  next
    case False
    with Cons obtain ys zs where "xs = ys @ x # zs" "P x" "\<forall>y \<in> set ys. \<not> P y" by auto
    with False have "a # xs = (a # ys) @ x # zs" "\<forall>y \<in> set (a # ys). \<not> P y" by simp_all
    with \<open>P x\<close> show ?thesis by blast
  qed
qed simp

text \<open>C3: A poll hands out the head of the first route in polling order that is
  bound and whose head is due; it leases that very task with its attempt and last error, takes
  it off its bucket, and changes no other bucket. When no bound route has a due head it hands
  out nothing and changes nothing.\<close>

theorem reserve_picks_first_due:
  assumes "queue_inv q"
  shows "case find (\<lambda>r. allowed_route bs r \<and> ready now q r) (mq_route_order q) of
    None \<Rightarrow> reserve now later bs q = (None, q)
  | Some r \<Rightarrow>
      (case reserve now later bs q of
         (None, _) \<Rightarrow> False
       | (Some d, q') \<Rightarrow>
           (let x = hd (the (bucket_of q r)); rest = tl (the (bucket_of q r))
            in bucket_of q r = Some (x # rest) \<and> qt_available_at x \<le> now \<and>
               dv_task d = qt_task x \<and> dv_attempt d = qt_attempt x \<and>
               dv_last_error d = qt_last_error x \<and>
               bucket_of q' = (bucket_of q)(r := (if rest = [] then None else Some rest)) \<and>
               mq_route_order q' = remove1 r (mq_route_order q) @ (if rest = [] then [] else [r]) \<and>
               leased_of q' = (leased_of q)(dv_delivery_id d \<mapsto> d) \<and>
               mq_dead_letters q' = mq_dead_letters q))"
proof (cases "find (\<lambda>r. allowed_route bs r \<and> ready now q r) (mq_route_order q)")
  case None
  then show ?thesis
    using reserve_find [OF assms, of now later bs] by (simp add: filtered_routes_filter find_filter)
next
  case (Some r)
  then have f: "find (ready now q) (filtered_routes bs q) = Some r"
    by (simp add: filtered_routes_filter find_filter)
  then have "ready now q r" and r: "r \<in> set (mq_route_order q)"
    using filtered_routes_subset [of bs q] find_split [OF f] by auto
  then obtain x rest where b: "bucket_of q r = Some (x # rest)" "qt_available_at x \<le> now"
    by (auto simp: ready_def is_some_and_iff neq_Nil_conv)
  have "distinct (hm_keys (mq_buckets q))"
    using assms by (auto simp: queue_inv_defs intro: sorted_wrt_less_distinct)
  then have "bucket_of (popped r rest q) =
      (bucket_of q)(r := (if rest = [] then None else Some rest))"
    by (simp add: popped_def)
  moreover have "mq_route_order (popped r rest q) =
      remove1 r (mq_route_order q) @ (if rest = [] then [] else [r])"
    using r by (simp add: popped_def rotate_route_order)
  moreover have "reserve now later bs q =
      (Some (make_delivery later x), lease (make_delivery later x) (popped r rest q))"
    using reserve_find [OF assms, of now later bs] f b by (simp add: Let_def)
  ultimately show ?thesis using Some b by simp
qed

theorem reserve_picks_first_due_witness:
  "case reserve 5 5 [RouteBinding ''oj_judge'' ''slow'']
      (snd (enqueue 1 (sample_task ''b'' ''slow'' 2)
        (snd (enqueue 0 (sample_task ''a'' ''fast'' 2) (default_mem_queue empty_metrics))))) of
    (None, q') \<Rightarrow> False
  | (Some d, q') \<Rightarrow> dv_task d = sample_task ''b'' ''slow'' 2"
proof -
  let ?q = "snd (enqueue 1 (sample_task ''b'' ''slow'' 2)
        (snd (enqueue 0 (sample_task ''a'' ''fast'' 2) (default_mem_queue empty_metrics))))"
  let ?bs = "[RouteBinding ''oj_judge'' ''slow'']"
  have inv: "queue_inv ?q" by (intro queue_inv_enqueue queue_inv_default)
  have q: "mq_route_order ?q = [(''oj_judge'', ''fast''), (''oj_judge'', ''slow'')]"
    "bucket_of ?q (''oj_judge'', ''slow'') =
       Some [\<lparr>qt_task = sample_task ''b'' ''slow'' 2, qt_attempt = 1, qt_available_at = 1,
              qt_last_error = None\<rparr>]"
    by (simp_all add: enqueue_def enqueue_internal_def enqueue_bucket_def push_route_def
        observing_def default_mem_queue_def sample_task_def Let_def)
  have al: "allowed_route ?bs r \<longleftrightarrow> r = (''oj_judge'', ''slow'')" for r
    by (auto simp: allowed_route_def route_of_def)
  have "ready 5 ?q (''oj_judge'', ''slow'')" unfolding ready_def q by simp
  then have "find (\<lambda>r. allowed_route ?bs r \<and> ready 5 ?q r) (mq_route_order ?q) =
      Some (''oj_judge'', ''slow'')"
    unfolding q al by simp
  with reserve_picks_first_due [OF inv, where now = 5 and later = 5 and bs = ?bs]
  show ?thesis unfolding q(2)
    by (cases "reserve 5 5 ?bs ?q") (simp add: q(2) split: option.splits prod.splits)
qed

section \<open>Routes are served in turn\<close>

text \<open>A run of polls with the same bindings, and the routes they serve.\<close>

fun polls ::
    "route_binding list \<Rightarrow> system_time list \<Rightarrow> mem_queue \<Rightarrow> route option list \<times> mem_queue" where
  "polls bs [] q = ([], q)"
| "polls bs (now # nows) q =
     (case reserve now now bs q of (d, q') \<Rightarrow>
        (case polls bs nows q' of (rs, q'') \<Rightarrow>
           (map_option (\<lambda>d. task_route (dv_task d)) d # rs, q'')))"

lemma polls_serve:
  assumes "queue_inv q" and "filtered_routes bs q = pre @ r # post"
    and "bucket_of q r = Some b" and "qt_available_at (hd b) \<le> t"
    and "\<forall>now \<in> set nows. t \<le> now" and "length pre < length nows"
  shows "Some r \<in> set (fst (polls bs nows q))"
  using assms
proof (induction nows arbitrary: q pre post)
  case (Cons now nows)
  have b: "b \<noteq> []" using bucket_nonempty Cons.prems(1,3) by blast
  have rdy: "ready now q r" using Cons.prems(3-5) b by (auto simp: ready_def)
  obtain res q' where res: "reserve now now bs q = (res, q')" by fastforce
  have "find (ready now q) (filtered_routes bs q) \<noteq> None"
    using rdy Cons.prems(2) by (metis find_None_iff in_set_conv_decomp)
  then obtain d where d: "res = Some d"
    using reserve_None [OF Cons.prems(1), of now now bs q'] res by (cases res) auto
  from reserve_Some [OF Cons.prems(1) res [unfolded d]] obtain r' x rest where
    f: "find (ready now q) (filtered_routes bs q) = Some r'"
    and b': "bucket_of q r' = Some (x # rest)"
    and dx: "d = make_delivery now x" and q': "q' = lease d (popped r' rest q)" by metis
  have route: "task_route (dv_task d) = r'"
    using bucket_route [OF Cons.prems(1) b'] dx by simp
  show ?case
  proof (cases "r' = r")
    case True
    with res d route show ?thesis by (simp split: prod.splits)
  next
    case False
    have dist: "distinct (mq_route_order q)" "distinct (hm_keys (mq_buckets q))"
      using Cons.prems(1) by (auto simp: queue_inv_defs intro: sorted_wrt_less_distinct)
    from find_split [OF f] obtain ys zs where ys: "filtered_routes bs q = ys @ r' # zs"
      and nr: "\<forall>y \<in> set ys. \<not> ready now q y" by blast
    have "r' \<in> set pre"
    proof (rule ccontr)
      assume "r' \<notin> set pre"
      then have "r \<in> set ys"
        using ys Cons.prems(2) False by (auto simp: append_eq_append_conv2 append_eq_Cons_conv Cons_eq_append_conv)
      with nr rdy show False by blast
    qed
    then obtain p1 p2 where p: "pre = p1 @ r' # p2" by (meson split_list)
    have "r' \<in> set (filtered_routes bs q)" using ys by simp
    then have al: "allowed_route bs r'" by (simp add: filtered_routes_filter)
    have "filtered_routes bs q' = remove1 r' (filtered_routes bs q) @ (if rest = [] then [] else [r'])"
    proof -
      have "r' \<in> set (mq_route_order q)" using ys filtered_routes_subset [of bs q] by auto
      then have "mq_route_order q' =
          remove1 r' (mq_route_order q) @ (if rest = [] then [] else [r'])"
        by (simp add: q' popped_def rotate_route_order)
      then show ?thesis using al dist(1)
        by (simp add: filtered_routes_filter filter_remove1)
    qed
    moreover have "r' \<notin> set p1"
      using dist(1) Cons.prems(2) p by (metis distinct_append filtered_routes_filter
          distinct_filter append_assoc append_Cons not_distinct_conv_prefix in_set_conv_decomp distinct.simps(2) disjoint_iff list.set_intros(1))
    ultimately have fr: "filtered_routes bs q' = (p1 @ p2) @ r # (post @ (if rest = [] then [] else [r']))"
      using Cons.prems(2) p False by (simp add: remove1_append)
    have inv': "queue_inv q'" using queue_inv_reserve [OF Cons.prems(1), of now now bs] res by simp
    have "bucket_of q' r = Some b"
      using Cons.prems(3) False dist(2) by (simp add: q' popped_def)
    from Cons.IH [OF inv' fr this Cons.prems(4)] Cons.prems(5,6) p
    have "Some r \<in> set (fst (polls bs nows q'))" by simp
    then show ?thesis using res by (cases "polls bs nows q'") simp
  qed
qed simp

text \<open>C4: No bound route starves: a route with a due head and \<open>n\<close> bound routes before it in the
  polling order is served within the next \<open>n + 1\<close> polls, however many tasks the other routes
  have.\<close>

theorem routes_do_not_starve:
  assumes "queue_inv q" and "ready t q r" and "allowed_route bs r"
    and "\<forall>now \<in> set nows. t \<le> now"
    and "length (filter (allowed_route bs) (takeWhile (\<lambda>x. x \<noteq> r) (mq_route_order q))) < length nows"
  shows "Some r \<in> set (fst (polls bs nows q))"
proof -
  from assms(2) obtain b where b: "bucket_of q r = Some b" "b \<noteq> []" "qt_available_at (hd b) \<le> t"
    by (auto simp: ready_def is_some_and_iff)
  then have "r \<in> set (mq_route_order q)" using assms(1) by (auto simp: queue_inv_defs)
  then obtain pre post where "mq_route_order q = pre @ r # post" and "r \<notin> set pre"
    by (meson split_list_first)
  then have "takeWhile (\<lambda>x. x \<noteq> r) (mq_route_order q) = pre"
    by (subst \<open>mq_route_order q = pre @ r # post\<close>, subst takeWhile_append2) auto
  moreover have "filtered_routes bs q =
      filter (allowed_route bs) pre @ r # filter (allowed_route bs) post"
    using assms(3) \<open>mq_route_order q = pre @ r # post\<close> by (simp add: filtered_routes_filter)
  ultimately show ?thesis using polls_serve [OF assms(1) _ b(1,3) assms(4)] assms(5) by simp
qed

theorem routes_do_not_starve_witness:
  "Some (''oj_judge'', ''slow'') \<in> set (fst (polls [] [5, 6]
      (snd (enqueue 2 (sample_task ''c'' ''fast'' 2)
        (snd (enqueue 1 (sample_task ''b'' ''slow'' 2)
          (snd (enqueue 0 (sample_task ''a'' ''fast'' 2) (default_mem_queue empty_metrics)))))))))"
proof (rule routes_do_not_starve [where t = 5])
  let ?q = "snd (enqueue 2 (sample_task ''c'' ''fast'' 2)
        (snd (enqueue 1 (sample_task ''b'' ''slow'' 2)
          (snd (enqueue 0 (sample_task ''a'' ''fast'' 2) (default_mem_queue empty_metrics))))))"
  show "queue_inv ?q" by (intro queue_inv_enqueue queue_inv_default)
  have q: "mq_route_order ?q = [(''oj_judge'', ''fast''), (''oj_judge'', ''slow'')]"
    "bucket_of ?q (''oj_judge'', ''slow'') =
       Some [\<lparr>qt_task = sample_task ''b'' ''slow'' 2, qt_attempt = 1, qt_available_at = 1,
              qt_last_error = None\<rparr>]"
    by (simp_all add: enqueue_def enqueue_internal_def enqueue_bucket_def push_route_def
        observing_def default_mem_queue_def sample_task_def Let_def)
  show "ready 5 ?q (''oj_judge'', ''slow'')" unfolding ready_def q by simp
  show "length (filter (allowed_route []) (takeWhile (\<lambda>x. x \<noteq> (''oj_judge'', ''slow''))
      (mq_route_order ?q))) < length [5, 6 :: system_time]"
    unfolding q by (simp add: allowed_route_def)
qed (simp_all add: allowed_route_def)

section \<open>Retry and replay\<close>

text \<open>C5: A retry under the attempt limit of a leased task queues it at the end of its route's
  bucket, with the next attempt number and the error of the retry, to be due at the end of the
  delay (at once, if the clock cannot hold that time). A bucket is first in first out whatever
  its entries' due times: a poll of the route hands out the head of the bucket if that is due,
  and nothing otherwise, so a task is also held back by the entries ahead of it. When nothing
  waits ahead, the poll hands the task out again, under the same delivery id, exactly from the
  end of its delay.\<close>

theorem retry_comes_back_after_delay:
  assumes "queue_inv q" and "leased_of q k = Some d"
    and "dv_attempt d < rp_max_attempts (rt_retry_policy (dv_task d))"
  shows "let r = task_route (dv_task d);
    due = (case checked_add now (millis delay_ms) of None \<Rightarrow> now | Some t \<Rightarrow> t);
    ahead = (case bucket_of q r of None \<Rightarrow> [] | Some xs \<Rightarrow> xs);
    x = \<lparr>qt_task = dv_task d, qt_attempt = dv_attempt d + 1, qt_available_at = due,
         qt_last_error = Some e\<rparr>;
    q' = snd (retry now k e delay_ms q);
    poll = fst (reserve t t [RouteBinding (rt_queue (dv_task d)) (rt_lane (dv_task d))] q')
   in bucket_of q' r = Some (ahead @ [x]) \<and>
      poll = (if qt_available_at (hd (ahead @ [x])) \<le> t
              then Some (make_delivery t (hd (ahead @ [x]))) else None) \<and>
      (ahead = [] \<longrightarrow>
       (case poll of
          None \<Rightarrow> t < due
        | Some d' \<Rightarrow> due \<le> t \<and> dv_task d' = dv_task d \<and> dv_attempt d' = dv_attempt d + 1 \<and>
            dv_last_error d' = Some e \<and> dv_delivery_id d' = k))"
proof -
  let ?r = "task_route (dv_task d)"
  let ?bs = "[RouteBinding (rt_queue (dv_task d)) (rt_lane (dv_task d))]"
  let ?q = "snd (retry now k e delay_ms q)"
  define due where "due = (case checked_add now (millis delay_ms) of None \<Rightarrow> now | Some t \<Rightarrow> t)"
  define ahead where "ahead = (case bucket_of q ?r of None \<Rightarrow> [] | Some xs \<Rightarrow> xs)"
  define x where "x = \<lparr>qt_task = dv_task d, qt_attempt = dv_attempt d + 1, qt_available_at = due,
             qt_last_error = Some e\<rparr>"
  let ?h = "hd (ahead @ [x])"
  have inv: "queue_inv ?q" by (rule queue_inv_retry [OF assms(1)])
  have b: "bucket_of ?q ?r = Some (ahead @ [x])"
    using assms(2,3)
    by (auto simp: retry_def Let_def bucket_enqueue_internal ahead_def x_def due_def
        split: option.splits)
  have r: "?r \<in> set (mq_route_order ?q)" using inv b by (auto simp: queue_inv_defs)
  have routes: "set (filtered_routes ?bs ?q) = {?r}"
    using r by (auto simp: filtered_routes_filter allowed_route_def route_of_def)
  have rdy: "ready t ?q ?r \<longleftrightarrow> qt_available_at ?h \<le> t" using b by (simp add: ready_def)
  have poll: "fst (reserve t t ?bs ?q) =
      (if qt_available_at ?h \<le> t then Some (make_delivery t ?h) else None)"
  proof (cases "qt_available_at ?h \<le> t")
    case True
    then have "find (ready t ?q) (filtered_routes ?bs ?q) = Some ?r"
      using rdy by (intro find_only [OF routes]) simp
    then show ?thesis
      using True reserve_find [OF inv, of t t ?bs] b by (simp add: Let_def)
  next
    case False
    then have "find (ready t ?q) (filtered_routes ?bs ?q) = None"
      using rdy routes by (auto simp: find_None_iff)
    then show ?thesis
      using False reserve_find [OF inv, of t t ?bs] by simp
  qed
  have "ahead = [] \<Longrightarrow> poll_id" if "poll_id = (case fst (reserve t t ?bs ?q) of
      None \<Rightarrow> t < due
    | Some d' \<Rightarrow> due \<le> t \<and> dv_task d' = dv_task d \<and> dv_attempt d' = dv_attempt d + 1 \<and>
        dv_last_error d' = Some e \<and> dv_delivery_id d' = k)" for poll_id
    unfolding that poll using queue_inv_lease_id [OF assms(1,2)] by (simp add: x_def)
  with b poll show ?thesis
    unfolding Let_def ahead_def [symmetric] due_def [symmetric] x_def [symmetric] by simp
qed

definition leased_sample :: mem_queue where
  "leased_sample =
     snd (reserve 5 5 [] (snd (enqueue 0 (sample_task ''a'' ''fast'' 2)
       (default_mem_queue empty_metrics))))"

lemma leased_sample_simps:
  "leased_of leased_sample ''dlv-a'' = Some (make_delivery 5
     \<lparr>qt_task = sample_task ''a'' ''fast'' 2, qt_attempt = 1, qt_available_at = 0,
      qt_last_error = None\<rparr>)"
  "mq_buckets leased_sample = []"
  by (simp_all add: leased_sample_def enqueue_def reserve_def default_mem_queue_def
      enqueue_internal_def enqueue_bucket_def Let_def filtered_routes_def push_route_def
      observing_def reserve_section_def remove_route_def lease_def sample_task_def make_delivery_def)

theorem retry_comes_back_after_delay_witness:
  "(case fst (reserve (secs 2) (secs 2) [RouteBinding ''oj_judge'' ''fast'']
         (snd (retry 7 ''dlv-a'' ''boom'' 1000 leased_sample))) of
     None \<Rightarrow> False
   | Some d' \<Rightarrow> dv_attempt d' = 2 \<and> dv_last_error d' = Some ''boom'')"
proof -
  let ?d = "make_delivery 5
     \<lparr>qt_task = sample_task ''a'' ''fast'' 2, qt_attempt = 1, qt_available_at = 0,
      qt_last_error = None\<rparr>"
  have inv: "queue_inv leased_sample"
    unfolding leased_sample_def by (intro queue_inv_intros queue_inv_default)
  have "dv_attempt ?d < rp_max_attempts (rt_retry_policy (dv_task ?d))"
    by (simp add: sample_task_def)
  note main = retry_comes_back_after_delay [OF inv leased_sample_simps(1) this,
      where now = 7 and delay_ms = 1000 and e = "''boom''" and t = "secs 2"]
  have "checked_add 7 (millis 1000) = Some 1000000007"
    by (simp add: checked_add_def millis_def)
  with main show ?thesis
    by (simp add: leased_sample_simps Let_def sample_task_def secs_def split: option.splits)
qed

text \<open>Replaying a dead letter takes the first record with that delivery id out of the store
  and queues its task again as a first attempt that is due at once, with the old error in its
  note; an unknown id is reported as not found and moves no task.\<close>

theorem replay_requeues_first_match:
  "case find (\<lambda>r. dr_delivery_id r = k) (mq_dead_letters q) of
     None \<Rightarrow>
       (case replay_dead_letter now k q of (r, q') \<Rightarrow>
          r = Inl (NotFound (''dead letter not found: '' @ k)) \<and>
          mq_buckets q' = mq_buckets q \<and> mq_dead_letters q' = mq_dead_letters q)
   | Some rec \<Rightarrow>
       (case replay_dead_letter now k q of (r, q') \<Rightarrow>
          r = Inr \<lparr>qr_task_id = rt_task_id (dr_task rec), qr_queue = rt_queue (dr_task rec),
                   qr_lane = rt_lane (dr_task rec), qr_status = LcQueued\<rparr> \<and>
          mq_dead_letters q' = remove1 rec (mq_dead_letters q) \<and>
          bucket_of q' (task_route (dr_task rec)) =
            Some ((case bucket_of q (task_route (dr_task rec)) of None \<Rightarrow> [] | Some b \<Rightarrow> b) @
              [\<lparr>qt_task = dr_task rec, qt_attempt = 1, qt_available_at = now,
                qt_last_error = Some (''replayed from dead letter: '' @ dr_error rec)\<rparr>]) \<and>
          leased_of q' = leased_of q)"
proof (cases "find (\<lambda>r. dr_delivery_id r = k) (mq_dead_letters q)")
  case None
  then have "position (\<lambda>r. dr_delivery_id r = k) (mq_dead_letters q) = None"
    by (auto simp: position_None find_None_iff)
  with None show ?thesis by (simp add: replay_dead_letter_def)
next
  case (Some rec)
  from find_split [OF Some] obtain ys zs where
    ds: "mq_dead_letters q = ys @ rec # zs" and k: "dr_delivery_id rec = k"
    and ys: "\<forall>y \<in> set ys. dr_delivery_id y \<noteq> k" by blast
  have pos: "position (\<lambda>r. dr_delivery_id r = k) (mq_dead_letters q) = Some (length ys)"
    using ds k ys by (auto simp: position_Some nth_append)
  have "remove_at (length ys) (mq_dead_letters q) = remove1 rec (mq_dead_letters q)"
    using ds k ys by (auto simp: remove_at_def remove1_append)
  then show ?thesis using Some pos ds
    by (simp add: replay_dead_letter_def Let_def bucket_enqueue_internal)
qed

section \<open>Statistics\<close>

text \<open>C9: After any run the statistics list each route that has a waiting, leased or dead task
  exactly once, in route order, with the number of its waiting, leased and dead tasks.\<close>

theorem stats_exact:
  "stats (calls memory_queue_ops cs (default_mem_queue m)) =
     Inr (map (stats_of_route (calls memory_queue_ops cs (default_mem_queue m)))
       (sorted_list_of_set (used_routes (calls memory_queue_ops cs (default_mem_queue m)))))"
  by (rule stats_listing [OF calls_inv])

end
