(* ===== verification/Queue_Steps.thy ===== *)
theory Queue_Steps
  imports Queue_Props
begin

text \<open>
  The in-memory queue under threads. An operation of the queue takes several locks in a row
  and drops each before the next, so operations of different threads interleave between their
  critical sections. A thread is what it still has to do; a step runs one critical section of
  one thread. The record keeps, as ghosts, the tasks put in and the tasks acknowledged.
\<close>

datatype thread =
    PushRoute route                              \<comment> \<open>\<open>enqueue_internal\<close>: the bucket is written\<close>
  | Requeue queued_task                          \<comment> \<open>\<open>retry\<close>: the lease is removed\<close>
  | Bury dead_letter_record                      \<comment> \<open>\<open>retry\<close> or \<open>reject\<close>: the lease is removed\<close>
  | Scan system_time "route list"                \<comment> \<open>\<open>reserve\<close>: in its loop\<close>
  | OrderUpdate queued_task bool route           \<comment> \<open>\<open>reserve\<close>: the head is popped\<close>
  | Lease task_delivery                          \<comment> \<open>\<open>reserve\<close>: the order is updated\<close>

record threads_state =
  ts_queue :: mem_queue
  ts_threads :: "thread multiset"
  ts_put :: "runtime_task multiset"
  ts_acked :: "runtime_task multiset"

definition unlease :: "string \<Rightarrow> mem_queue \<Rightarrow> mem_queue" where
  "unlease k q = q\<lparr>mq_leased := hm_remove k (mq_leased q)\<rparr>"

text \<open>The thread that goes on after the bucket section of \<open>enqueue_internal\<close>.\<close>

definition after_bucket :: "queued_task \<Rightarrow> bool \<Rightarrow> thread multiset" where
  "after_bucket x was_empty =
     (if was_empty then {#PushRoute (task_route (qt_task x))#} else {#})"

inductive qstep :: "threads_state \<Rightarrow> threads_state \<Rightarrow> bool" where
  enqueue_start:
    "x = \<lparr>qt_task = t, qt_attempt = 1, qt_available_at = now, qt_last_error = None\<rparr> \<Longrightarrow>
     enqueue_bucket x (ts_queue s) = (was_empty, q) \<Longrightarrow>
     qstep s (s\<lparr>ts_queue := q, ts_threads := ts_threads s + after_bucket x was_empty,
                ts_put := add_mset t (ts_put s)\<rparr>)"
| push_route:
    "ts_threads s = add_mset (PushRoute r) T \<Longrightarrow>
     qstep s (s\<lparr>ts_queue := push_route r (ts_queue s), ts_threads := T\<rparr>)"
| reserve_start:
    "qstep s (s\<lparr>ts_threads := add_mset (Scan now (filtered_routes bs (ts_queue s))) (ts_threads s)\<rparr>)"
| scan_end:
    "ts_threads s = add_mset (Scan now []) T \<Longrightarrow> qstep s (s\<lparr>ts_threads := T\<rparr>)"
| scan_no_bucket:
    "ts_threads s = add_mset (Scan now (r # rs)) T \<Longrightarrow>
     reserve_section now r (ts_queue s) = NoBucket \<Longrightarrow>
     qstep s (s\<lparr>ts_threads := T\<rparr>)"
| scan_next:
    "ts_threads s = add_mset (Scan now (r # rs)) T \<Longrightarrow>
     reserve_section now r (ts_queue s) = NothingDue \<Longrightarrow>
     qstep s (s\<lparr>ts_threads := add_mset (Scan now rs) T\<rparr>)"
| scan_pop:
    "ts_threads s = add_mset (Scan now (r # rs)) T \<Longrightarrow>
     reserve_section now r (ts_queue s) = Popped x emptied q \<Longrightarrow>
     qstep s (s\<lparr>ts_queue := q, ts_threads := add_mset (OrderUpdate x emptied r) T\<rparr>)"
| order_update:
    "ts_threads s = add_mset (OrderUpdate x emptied r) T \<Longrightarrow>
     qstep s (s\<lparr>ts_queue := (if emptied then remove_route r (ts_queue s)
                             else rotate_route r (ts_queue s)),
                ts_threads := add_mset (Lease (make_delivery later x)) T\<rparr>)"
| lease_end:
    "ts_threads s = add_mset (Lease d) T \<Longrightarrow>
     qstep s (s\<lparr>ts_queue := lease d (ts_queue s), ts_threads := T\<rparr>)"
| ack:
    "leased_of (ts_queue s) k = Some d \<Longrightarrow>
     qstep s (s\<lparr>ts_queue := unlease k (ts_queue s), ts_acked := add_mset (dv_task d) (ts_acked s)\<rparr>)"
| retry_start:
    "leased_of (ts_queue s) k = Some d \<Longrightarrow>
     dv_attempt d < rp_max_attempts (rt_retry_policy (dv_task d)) \<Longrightarrow>
     x = \<lparr>qt_task = dv_task d, qt_attempt = dv_attempt d + 1, qt_available_at = due,
          qt_last_error = Some e\<rparr> \<Longrightarrow>
     qstep s (s\<lparr>ts_queue := unlease k (ts_queue s),
                ts_threads := add_mset (Requeue x) (ts_threads s)\<rparr>)"
| requeue:
    "ts_threads s = add_mset (Requeue x) T \<Longrightarrow>
     enqueue_bucket x (ts_queue s) = (was_empty, q) \<Longrightarrow>
     qstep s (s\<lparr>ts_queue := q, ts_threads := T + after_bucket x was_empty\<rparr>)"
| bury_start:
    "leased_of (ts_queue s) k = Some d \<Longrightarrow>
     qstep s (s\<lparr>ts_queue := unlease k (ts_queue s),
                ts_threads := add_mset (Bury (dead_letter_of now d e)) (ts_threads s)\<rparr>)"
| bury:
    "ts_threads s = add_mset (Bury rec) T \<Longrightarrow>
     qstep s (s\<lparr>ts_queue := (ts_queue s)\<lparr>mq_dead_letters := mq_dead_letters (ts_queue s) @ [rec]\<rparr>,
                ts_threads := T\<rparr>)"
| replay_start:
    "position (\<lambda>r. dr_delivery_id r = k) (mq_dead_letters (ts_queue s)) = Some i \<Longrightarrow>
     rec = mq_dead_letters (ts_queue s) ! i \<Longrightarrow>
     x = \<lparr>qt_task = dr_task rec, qt_attempt = 1, qt_available_at = now,
          qt_last_error = Some (''replayed from dead letter: '' @ dr_error rec)\<rparr> \<Longrightarrow>
     qstep s (s\<lparr>ts_queue := (ts_queue s)\<lparr>mq_dead_letters := remove_at i (mq_dead_letters (ts_queue s))\<rparr>,
                ts_threads := add_mset (Requeue x) (ts_threads s)\<rparr>)"

inductive qreachable :: "metrics \<Rightarrow> threads_state \<Rightarrow> bool" for m where
  init: "qreachable m \<lparr>ts_queue = default_mem_queue m, ts_threads = {#}, ts_put = {#},
                       ts_acked = {#}\<rparr>"
| step: "qreachable m s \<Longrightarrow> qstep s s' \<Longrightarrow> qreachable m s'"

section \<open>No interleaving loses a task\<close>

text \<open>The task a thread holds between two critical sections.\<close>

fun in_hand :: "thread \<Rightarrow> runtime_task multiset" where
  "in_hand (Requeue x) = {#qt_task x#}"
| "in_hand (Bury rec) = {#dr_task rec#}"
| "in_hand (OrderUpdate x _ _) = {#qt_task x#}"
| "in_hand (Lease d) = {#dv_task d#}"
| "in_hand _ = {#}"

definition hands :: "thread multiset \<Rightarrow> runtime_task multiset" where
  "hands T = (\<Sum>t\<in>#T. in_hand t)"

lemma hands_simps [simp]:
  "hands {#} = {#}"
  "hands (add_mset t T) = in_hand t + hands T"
  "hands (T + T') = hands T + hands T'"
  by (simp_all add: hands_def)

lemma hands_after_bucket [simp]: "hands (after_bucket x e) = {#}"
  by (simp add: after_bucket_def)

definition all_tasks :: "threads_state \<Rightarrow> runtime_task multiset" where
  "all_tasks s = queue_tasks (ts_queue s) + hands (ts_threads s) + ts_acked s"

fun thread_ok :: "thread \<Rightarrow> bool" where
  "thread_ok (Lease d) \<longleftrightarrow> dv_delivery_id d = ''dlv-'' @ rt_task_id (dv_task d)"
| "thread_ok _ \<longleftrightarrow> True"

definition conc_inv :: "threads_state \<Rightarrow> bool" where
  "conc_inv s \<longleftrightarrow> buckets_ok (ts_queue s) \<and> leases_ok (ts_queue s) \<and>
     (\<forall>t \<in># ts_threads s. thread_ok t)"

lemma queue_tasks_waiting:
  "queue_tasks q = image_mset qt_task (waiting q) + mset (map dv_task (hm_values (mq_leased q))) +
     mset (map dr_task (mq_dead_letters q))"
  by (simp add: queue_tasks_def waiting_def)

lemma queue_tasks_cong:
  "mq_buckets q = mq_buckets q' \<Longrightarrow> mq_leased q = mq_leased q' \<Longrightarrow>
     mq_dead_letters q = mq_dead_letters q' \<Longrightarrow> queue_tasks q = queue_tasks q'"
  by (simp add: queue_tasks_def)

lemma enqueue_bucket_simps:
  assumes "enqueue_bucket x q = (e, q')"
  shows "mq_leased q' = mq_leased q" "mq_dead_letters q' = mq_dead_letters q"
    and "mq_route_order q' = mq_route_order q"
  using assms by (auto simp: enqueue_bucket_def Let_def)

lemma enqueue_bucket_buckets:
  assumes "enqueue_bucket x q = (e, q')"
  shows "mq_buckets q' = mq_buckets (enqueue_internal x q)"
  using assms by (auto simp: enqueue_internal_def enqueue_bucket_def Let_def)

lemma enqueue_bucket_tasks:
  assumes "enqueue_bucket x q = (e, q')" and "buckets_ok q"
  shows "queue_tasks q' = add_mset (qt_task x) (queue_tasks q)" and "buckets_ok q'"
proof -
  have "waiting q' = add_mset x (waiting q)"
    using waiting_enqueue_internal [of q x] enqueue_bucket_buckets [OF assms(1)] assms(2)
    by (simp add: waiting_def buckets_ok_def)
  then show "queue_tasks q' = add_mset (qt_task x) (queue_tasks q)"
    using enqueue_bucket_simps [OF assms(1)] by (simp add: queue_tasks_waiting)
  show "buckets_ok q'"
    using buckets_ok_enqueue_internal [OF assms(2), of x]
      buckets_ok_cong [OF enqueue_bucket_buckets [OF assms(1)]] by simp
qed

lemma pop_tasks:
  assumes "reserve_section now r q = Popped x emptied q'" and "buckets_ok q"
  shows "queue_tasks q = add_mset (qt_task x) (queue_tasks q')" and "buckets_ok q'"
    and "mq_leased q' = mq_leased q"
proof -
  from reserve_section_Popped [OF assms(1)] obtain rest where
    b: "bucket_of q r = Some (x # rest)" and q': "q' = q\<lparr>mq_buckets :=
      (if rest = [] then hm_remove r (mq_buckets q) else bt_insert r rest (mq_buckets q))\<rparr>"
    by metis
  have srt: "sorted_wrt (<) (hm_keys (mq_buckets q))" using assms(2) by (simp add: buckets_ok_def)
  note dist = sorted_wrt_less_distinct [OF srt]
  have "waiting q = add_mset x (waiting q')"
  proof (cases "rest = []")
    case True
    with concat_hm_remove [OF b] show ?thesis by (simp add: waiting_def q')
  next
    case False
    from concat_bt_insert_present [OF srt b, of rest]
    have "mset rest + mset (concat (hm_values (mq_buckets q))) =
        mset rest + add_mset x (mset (concat (hm_values (bt_insert r rest (mq_buckets q)))))"
      by (simp add: ac_simps)
    with False show ?thesis by (simp add: waiting_def q')
  qed
  then show "queue_tasks q = add_mset (qt_task x) (queue_tasks q')"
    by (simp add: queue_tasks_waiting q')
  show "buckets_ok q'"
    using assms(2) b dist by (auto simp: buckets_ok_def q' split: if_splits)
  show "mq_leased q' = mq_leased q" by (simp add: q')
qed

lemma unlease_tasks:
  assumes "leased_of q k = Some d"
  shows "queue_tasks q = add_mset (dv_task d) (queue_tasks (unlease k q))"
  using mset_hm_remove [OF assms]
  by (simp add: queue_tasks_def unlease_def)

lemma unlease_ok: "leases_ok q \<Longrightarrow> leases_ok (unlease k q)"
  by (auto simp: leases_ok_def unlease_def)

lemma lease_tasks:
  assumes "leased_of q (dv_delivery_id d) = None"
  shows "queue_tasks (lease d q) = add_mset (dv_task d) (queue_tasks q)"
  using mset_hm_insert_new [of "dv_delivery_id d" "mq_leased q" d] assms
  by (simp add: queue_tasks_def map_of_eq_None_iff)

lemma lease_ok:
  "leases_ok q \<Longrightarrow> dv_delivery_id d = ''dlv-'' @ rt_task_id (dv_task d) \<Longrightarrow> leases_ok (lease d q)"
  by (auto simp: leases_ok_def)

lemma lease_free:
  assumes "leases_ok q" and "dv_delivery_id d = ''dlv-'' @ rt_task_id (dv_task d)"
    and "distinct_ids (queue_tasks q + add_mset (dv_task d) M)"
  shows "leased_of q (dv_delivery_id d) = None"
proof (rule ccontr)
  assume "leased_of q (dv_delivery_id d) \<noteq> None"
  then obtain d' where d': "leased_of q (dv_delivery_id d) = Some d'" by auto
  then have id: "rt_task_id (dv_task d') = rt_task_id (dv_task d)"
    using assms(1,2) unfolding leases_ok_def by (metis same_append_eq)
  have "queue_tasks q = add_mset (dv_task d') (queue_tasks (unlease (dv_delivery_id d) q))"
    by (rule unlease_tasks [OF d'])
  with assms(3) id show False using distinct_ids_two by (metis union_mset_add_mset_left
      union_mset_add_mset_right add_mset_commute)
qed

lemma conc_inv_init: "conc_inv \<lparr>ts_queue = default_mem_queue m, ts_threads = {#}, ts_put = {#},
     ts_acked = {#}\<rparr>"
  using queue_inv_default [of m] by (simp add: conc_inv_def queue_inv_def)

lemma remove_at_tasks:
  assumes "position p (mq_dead_letters q) = Some i"
  shows "queue_tasks q = add_mset (dr_task (mq_dead_letters q ! i))
     (queue_tasks (q\<lparr>mq_dead_letters := remove_at i (mq_dead_letters q)\<rparr>))"
proof -
  have "i < length (mq_dead_letters q)" using assms by (simp add: position_Some)
  from mset_remove_at [OF this] show ?thesis by (simp add: queue_tasks_def)
qed

lemma put_grows: "qstep s s' \<Longrightarrow> ts_put s \<subseteq># ts_put s'"
  by (induction rule: qstep.induct) simp_all

text \<open>One step keeps the invariant and moves the tasks: only a new task is added.\<close>

lemma qstep_tasks:
  assumes "qstep s s'" and inv: "conc_inv s" and "all_tasks s = ts_put s"
    and "distinct_ids (ts_put s)"
  shows "conc_inv s' \<and> all_tasks s' = ts_put s'"
  using assms(1,2,3,4)
proof (cases rule: qstep.cases)
  case (enqueue_start x t now was_empty q)
  then show ?thesis
    using enqueue_bucket_tasks [of x "ts_queue s" was_empty q]
      enqueue_bucket_simps [of x "ts_queue s" was_empty q] inv assms(3)
    by (auto simp: all_tasks_def conc_inv_def leases_ok_def after_bucket_def split: if_splits)
next
  case (push_route r T)
  then show ?thesis using inv assms(3)
    by (simp add: all_tasks_def conc_inv_def leases_ok_def buckets_ok_def queue_tasks_def)
next
  case (scan_pop now r rs T x emptied q)
  then show ?thesis using pop_tasks [of now r "ts_queue s" x emptied q] inv assms(3)
    by (auto simp: all_tasks_def conc_inv_def leases_ok_def)
next
  case (order_update x emptied r T later)
  then show ?thesis using inv assms(3)
    by (simp add: all_tasks_def conc_inv_def leases_ok_def buckets_ok_def queue_tasks_def)
next
  case (lease_end d T)
  have d: "dv_delivery_id d = ''dlv-'' @ rt_task_id (dv_task d)" and ok: "leases_ok (ts_queue s)"
    using inv lease_end by (auto simp: conc_inv_def)
  have "all_tasks s = queue_tasks (ts_queue s) + add_mset (dv_task d) (hands T + ts_acked s)"
    using lease_end by (simp add: all_tasks_def)
  then have "leased_of (ts_queue s) (dv_delivery_id d) = None"
    using lease_free [OF ok d] assms(3,4) by metis
  then show ?thesis using lease_end inv assms(3) lease_tasks lease_ok [OF ok d]
    by (simp add: all_tasks_def conc_inv_def buckets_ok_def)
next
  case (ack k d)
  then show ?thesis using unlease_tasks [of "ts_queue s" k d] inv assms(3) unlease_ok
    by (simp add: all_tasks_def conc_inv_def buckets_ok_def unlease_def)
next
  case (retry_start k d x due e)
  then show ?thesis using unlease_tasks [of "ts_queue s" k d] inv assms(3) unlease_ok
    by (simp add: all_tasks_def conc_inv_def buckets_ok_def unlease_def)
next
  case (requeue x T was_empty q)
  then show ?thesis
    using enqueue_bucket_tasks [of x "ts_queue s" was_empty q]
      enqueue_bucket_simps [of x "ts_queue s" was_empty q] inv assms(3)
    by (auto simp: all_tasks_def conc_inv_def leases_ok_def after_bucket_def split: if_splits)
next
  case (bury_start k d now e)
  then show ?thesis using unlease_tasks [of "ts_queue s" k d] inv assms(3) unlease_ok
    by (simp add: all_tasks_def conc_inv_def buckets_ok_def unlease_def)
next
  case (bury rec T)
  then show ?thesis using inv assms(3)
    by (simp add: all_tasks_def conc_inv_def buckets_ok_def leases_ok_def queue_tasks_def)
next
  case (replay_start k i rec x now)
  then show ?thesis using remove_at_tasks [OF replay_start(2)] inv assms(3)
    by (simp add: all_tasks_def conc_inv_def buckets_ok_def leases_ok_def)
qed (auto simp: all_tasks_def conc_inv_def)

lemma qreachable_tasks:
  "qreachable m s \<Longrightarrow> distinct_ids (ts_put s) \<Longrightarrow> conc_inv s \<and> all_tasks s = ts_put s"
proof (induction rule: qreachable.induct)
  case init
  then show ?case
    using conc_inv_init by (simp add: all_tasks_def queue_tasks_def default_mem_queue_def)
next
  case (step s s')
  then have "distinct_ids (ts_put s)" using distinct_ids_mono put_grows by blast
  with step qstep_tasks show ?case by blast
qed

text \<open>C7: No interleaving of the critical sections of concurrent calls loses or duplicates a
  task: at every moment the tasks in the buckets, leases and dead letters, those in the hands
  of a thread between two sections, and the acknowledged ones are exactly the tasks put in,
  provided those have different ids.\<close>

theorem interleavings_conserve_tasks:
  assumes "qreachable m s" and "distinct_ids (ts_put s)"
  shows "queue_tasks (ts_queue s) + hands (ts_threads s) + ts_acked s = ts_put s"
  using qreachable_tasks [OF assms] by (simp add: all_tasks_def)

section \<open>An interleaving that stops the queue\<close>

definition st :: "mem_queue \<Rightarrow> thread multiset \<Rightarrow> runtime_task multiset \<Rightarrow> threads_state" where
  "st q T P = \<lparr>ts_queue = q, ts_threads = T, ts_put = P, ts_acked = {#}\<rparr>"

lemma st_simps [simp]:
  "ts_queue (st q T P) = q" "ts_threads (st q T P) = T" "ts_put (st q T P) = P"
  by (simp_all add: st_def)

lemma st_enqueue:
  assumes "qreachable m (st q T P)" and "enqueue_bucket \<lparr>qt_task = t, qt_attempt = 1,
      qt_available_at = 0, qt_last_error = None\<rparr> q = (True, q')"
  shows "qreachable m (st q' (add_mset (PushRoute (task_route t)) T) (add_mset t P))"
  using qreachable.step [OF assms(1) enqueue_start [OF refl, of t 0 "st q T P"]] assms(2)
  by (simp add: st_def after_bucket_def)

lemma st_push:
  "qreachable m (st q (add_mset (PushRoute r) T) P) \<Longrightarrow> qreachable m (st (push_route r q) T P)"
  using qreachable.step [OF _ push_route [of "st q (add_mset (PushRoute r) T) P" r T]]
  by (simp add: st_def)

abbreviation fast_route :: route where "fast_route \<equiv> (''oj_judge'', ''fast'')"
abbreviation slow_route :: route where "slow_route \<equiv> (''oj_judge'', ''slow'')"

text \<open>The polls are those of a worker group that is bound to both routes.\<close>

definition both_routes :: "route_binding list" where
  "both_routes = [RouteBinding ''oj_judge'' ''fast'', RouteBinding ''oj_judge'' ''slow'']"

lemma st_pop:
  assumes "qreachable m (st q T P)" and "mq_route_order q = [fast_route]"
    and "reserve_section 1 fast_route q = Popped x e q'"
  shows "qreachable m (st q' (add_mset (OrderUpdate x e fast_route) T) P)"
proof -
  have "qreachable m (st q (add_mset (Scan 1 [fast_route]) T) P)"
    using qreachable.step [OF assms(1) reserve_start [of _ 1 both_routes]] assms(2)
    by (simp add: st_def filtered_routes_def both_routes_def route_of_def)
  from qreachable.step [OF this scan_pop [of _ 1 fast_route "[]" T x e q']] assms(3) show ?thesis
    by (simp add: st_def)
qed

lemma st_finish:
  assumes "qreachable m (st q (add_mset (OrderUpdate x True r) T) P)"
  shows "qreachable m (st (lease (make_delivery 1 x) (remove_route r q)) T P)"
proof -
  have "qreachable m (st (remove_route r q) (add_mset (Lease (make_delivery 1 x)) T) P)"
    using qreachable.step [OF assms order_update [of _ x True r T 1]] by (simp add: st_def)
  from qreachable.step [OF this lease_end [of _ "make_delivery 1 x" T]] show ?thesis
    by (simp add: st_def)
qed

definition first_attempt :: "runtime_task \<Rightarrow> queued_task" where
  "first_attempt t = \<lparr>qt_task = t, qt_attempt = 1, qt_available_at = 0, qt_last_error = None\<rparr>"

text \<open>
  Two polls and an enqueue on one route: the first poll has taken the last task and its bucket
  but not the route; the enqueue makes a new bucket; the second poll takes that one too; both
  polls remove the route; the enqueue then lists it. The route is listed and has no bucket, and
  the \<open>?\<close> on the missing bucket ends every later poll that meets it.
\<close>

lemma stale_route_reachable:
  "\<exists>q P. qreachable m (st q {#} P) \<and> mq_route_order q = [fast_route, slow_route] \<and>
     mq_buckets q = [(slow_route, [first_attempt (sample_task ''c'' ''slow'' 2)])] \<and>
     distinct_ids P \<and> size P = 3"
proof -
  let ?a = "sample_task ''a'' ''fast'' 2" and ?b = "sample_task ''b'' ''fast'' 2"
  let ?c = "sample_task ''c'' ''slow'' 2"
  let ?q0 = "default_mem_queue m"
  have route: "task_route ?a = fast_route" "task_route ?b = fast_route" "task_route ?c = slow_route"
    by (simp_all add: sample_task_def)
  define q1 where "q1 = push_route fast_route (?q0\<lparr>mq_buckets := [(fast_route, [first_attempt ?a])]\<rparr>)"
  define q2 where "q2 = q1\<lparr>mq_buckets := []\<rparr>"
  define q3 where "q3 = q2\<lparr>mq_buckets := [(fast_route, [first_attempt ?b])]\<rparr>"
  define q4 where "q4 = lease (make_delivery 1 (first_attempt ?a)) (remove_route fast_route q2)"
  define q5 where "q5 = push_route fast_route
    (lease (make_delivery 1 (first_attempt ?b)) (remove_route fast_route q4))"
  define q6 where "q6 = push_route slow_route
    (q5\<lparr>mq_buckets := [(slow_route, [first_attempt ?c])]\<rparr>)"
  have b0: "mq_buckets ?q0 = []" "mq_route_order ?q0 = []" by (simp_all add: default_mem_queue_def)
  have r0: "qreachable m (st ?q0 {#} {#})" using qreachable.init by (simp add: st_def)
  have "qreachable m (st (?q0\<lparr>mq_buckets := [(fast_route, [first_attempt ?a])]\<rparr>)
      {#PushRoute fast_route#} {#?a#})"
    using st_enqueue [OF r0, of ?a] route b0
    by (simp add: enqueue_bucket_def Let_def first_attempt_def)
  from st_push [OF this] have r1: "qreachable m (st q1 {#} {#?a#})" by (simp add: q1_def)
  have s1: "reserve_section 1 fast_route q1 = Popped (first_attempt ?a) True q2"
    by (simp add: reserve_section_def q1_def q2_def first_attempt_def push_route_def)
  have o1: "mq_route_order q1 = [fast_route]" by (simp add: q1_def b0)
  note r2 = st_pop [OF r1 o1 s1]
  have r3: "qreachable m (st q3 (add_mset (PushRoute fast_route)
      {#OrderUpdate (first_attempt ?a) True fast_route#}) {#?b, ?a#})"
    using st_enqueue [OF r2, of ?b q3] route
    by (simp add: enqueue_bucket_def Let_def first_attempt_def q2_def q3_def)
  have s3: "reserve_section 1 fast_route q3 = Popped (first_attempt ?b) True q2"
    by (simp add: reserve_section_def q3_def q2_def first_attempt_def)
  have o3: "mq_route_order q3 = [fast_route]" by (simp add: q3_def q2_def o1)
  have r4: "qreachable m (st q2 (add_mset (OrderUpdate (first_attempt ?a) True fast_route)
      {#OrderUpdate (first_attempt ?b) True fast_route, PushRoute fast_route#}) {#?b, ?a#})"
    using st_pop [OF r3 o3 s3] by (simp add: add_mset_commute)
  have r5: "qreachable m (st q4 (add_mset (OrderUpdate (first_attempt ?b) True fast_route)
      {#PushRoute fast_route#}) {#?b, ?a#})"
    using st_finish [OF r4] by (simp add: q4_def)
  have r6: "qreachable m (st q5 {#} {#?b, ?a#})"
    using st_push [OF st_finish [OF r5]] by (simp add: q5_def)
  have b5: "mq_buckets q5 = []" "mq_route_order q5 = [fast_route]"
    by (simp_all add: q5_def q4_def q2_def o1)
  have "qreachable m (st (q5\<lparr>mq_buckets := [(slow_route, [first_attempt ?c])]\<rparr>)
      {#PushRoute slow_route#} {#?c, ?b, ?a#})"
    using st_enqueue [OF r6, of ?c] route b5
    by (simp add: enqueue_bucket_def Let_def first_attempt_def)
  from st_push [OF this] have "qreachable m (st q6 {#} {#?c, ?b, ?a#})" by (simp add: q6_def)
  moreover have "distinct_ids {#?c, ?b, ?a#}" by (auto simp: distinct_ids_def sample_task_def)
  ultimately show ?thesis by (intro exI [of _ q6] exI [of _ "{#?c, ?b, ?a#}"]) (simp add: q6_def b5)
qed

lemma no_bucket_ends_poll:
  assumes "mq_route_order q = fast_route # rs" and "bucket_of q fast_route = None"
  shows "reserve now later (bs @ RouteBinding ''oj_judge'' ''fast'' # bs') q = (None, q)"
  using assms by (simp add: reserve_def filtered_routes_filter allowed_route_def route_of_def
      reserve_section_def)

text \<open>C8: There is an interleaving of two polls of a worker group bound to two routes and an
  enqueue after which, with no call in progress, a due task waits on the second route and every
  poll whose bindings name the first route, at any time, hands out nothing and changes nothing:
  the route order names the first route, which has no bucket, before the route of the task, and
  the missing bucket ends the poll. A poll bound to the second route alone hands the task out,
  and so do the polls of the group after the next enqueue on the first route.\<close>

theorem polls_can_pass_over_a_due_task:
  "\<exists>s. qreachable m s \<and> ts_threads s = {#} \<and> ready 0 (ts_queue s) slow_route \<and>
     (\<forall>now later bs bs'.
        reserve now later (bs @ RouteBinding ''oj_judge'' ''fast'' # bs') (ts_queue s) =
          (None, ts_queue s)) \<and>
     fst (polls [RouteBinding ''oj_judge'' ''slow''] [0] (ts_queue s)) = [Some slow_route] \<and>
     (\<forall>i n. fst (polls both_routes [0, 0]
        (snd (enqueue 0 (sample_task i ''fast'' n) (ts_queue s)))) =
          [Some fast_route, Some slow_route])"
proof -
  obtain q P where r: "qreachable m (st q {#} P)"
    and o: "mq_route_order q = [fast_route, slow_route]"
    and b: "mq_buckets q = [(slow_route, [first_attempt (sample_task ''c'' ''slow'' 2)])]"
    using stale_route_reachable by blast
  have "reserve now later (bs @ RouteBinding ''oj_judge'' ''fast'' # bs') q = (None, q)"
    for now later bs bs' by (rule no_bucket_ends_poll [OF o]) (simp add: b)
  moreover have "ready 0 q slow_route"
    using b by (simp add: ready_def first_attempt_def)
  moreover have "fst (polls [RouteBinding ''oj_judge'' ''slow''] [0] q) = [Some slow_route]"
    using o b by (simp add: reserve_def filtered_routes_filter allowed_route_def route_of_def
      reserve_section_def first_attempt_def make_delivery_def sample_task_def Let_def lease_def
      observing_def)
  moreover have "fst (polls both_routes [0, 0] (snd (enqueue 0 (sample_task i ''fast'' n) q))) =
      [Some fast_route, Some slow_route]" for i n
    using o b by (simp add: reserve_def filtered_routes_filter allowed_route_def route_of_def
      reserve_section_def first_attempt_def make_delivery_def sample_task_def both_routes_def
      enqueue_def enqueue_internal_def enqueue_bucket_def push_route_def observing_def Let_def
      remove_route_def lease_def bt_insert.simps)
  ultimately show ?thesis using r by (intro exI [of _ "st q {#} P"]) simp
qed

theorem interleavings_conserve_tasks_witness:
  "\<exists>s. qreachable empty_metrics s \<and> size (ts_put s) = 3 \<and>
     queue_tasks (ts_queue s) + hands (ts_threads s) + ts_acked s = ts_put s"
proof -
  obtain q P where r: "qreachable empty_metrics (st q {#} P)" and "distinct_ids P" and "size P = 3"
    using stale_route_reachable by blast
  with interleavings_conserve_tasks [OF r] show ?thesis
    by (intro exI [of _ "st q {#} P"]) simp
qed

end
