(* ===== verification/Seccomp.thy ===== *)
theory Seccomp
  imports Runtime_Types
begin

text \<open>
  The seccomp policies of the runtime (executor.rs): which system calls a stage may make,
  by policy, host flavour and architecture, and the policy text handed to the sandbox. The
  host (the text of /etc/os-release, the name of the architecture) is a parameter.
\<close>

section \<open>Types\<close>

datatype seccomp_mode = SmLog | SmKill

datatype syscall_flavor = FlAuto | FlGeneric | FlDebianUbuntu | FlArch | FlRhelLike

datatype syscall_arch = ArAuto | ArX86_64 | ArAarch64 | ArOther

record syscall_profile =
  sy_flavor :: syscall_flavor
  sy_arch :: syscall_arch

datatype seccomp_profile =
  CppNativeRuntime | RustNativeRuntime | PythonRuntime | WasmtimeRuntime | Compiler

datatype syscall_group =
    RuntimeCore
  | RuntimeClock
  | CompilerClock
  | RuntimePositionalRead
  | CompilerPositionalRead
  | RuntimeVectorIo
  | CompilerVectorIo
  | RuntimeFileStatCompat
  | CompilerFileStatCompat
  | FileOpenCompat
  | RuntimeProcessLifecycleCompat
  | CompilerProcessLifecycleCompat
  | RuntimeThreadCompat
  | CompilerThreadCompat
  | SignalCompat
  | CppRuntimeExtras
  | RustRuntimeExtras
  | PythonRuntimeExtras
  | WasmtimeRuntimeExtras
  | CompilerExec
  | CompilerExtras

section \<open>Groups\<close>

definition retain_not :: "string list \<Rightarrow> string list \<Rightarrow> string list" where
  "retain_not bad xs = filter (\<lambda>s. s \<notin> set bad) xs"

definition runtime_core :: "syscall_flavor \<Rightarrow> string list" where
  "runtime_core flavor =
     (case flavor of
       FlDebianUbuntu \<Rightarrow>
         [''access'', ''arch_prctl'', ''brk'', ''close'', ''exit_group'', ''faccessat'',
          ''futex'', ''getrandom'', ''lseek'', ''mmap'', ''mprotect'', ''munmap'', ''prlimit64'',
          ''read'', ''readlink'', ''rseq'', ''set_robust_list'', ''set_tid_address'', ''write'']
     | FlArch \<Rightarrow>
         [''access'', ''arch_prctl'', ''brk'', ''close'', ''exit_group'', ''faccessat'',
          ''futex'', ''getrandom'', ''lseek'', ''mmap'', ''mprotect'', ''munmap'', ''prlimit64'',
          ''read'', ''readlink'', ''rseq'', ''set_robust_list'', ''set_tid_address'', ''write'']
     | FlRhelLike \<Rightarrow>
         [''access'', ''arch_prctl'', ''brk'', ''close'', ''exit_group'', ''faccessat'',
          ''futex'', ''getrandom'', ''lseek'', ''mmap'', ''mprotect'', ''munmap'', ''prlimit64'',
          ''read'', ''readlink'', ''rseq'', ''set_robust_list'', ''set_tid_address'', ''write'']
     | FlGeneric \<Rightarrow>
         [''access'', ''arch_prctl'', ''brk'', ''close'', ''exit_group'', ''faccessat'',
          ''futex'', ''getrandom'', ''lseek'', ''mmap'', ''mprotect'', ''munmap'', ''prlimit64'',
          ''read'', ''readlink'', ''rseq'', ''set_robust_list'', ''set_tid_address'', ''write'']
     | FlAuto \<Rightarrow>
         [''access'', ''arch_prctl'', ''brk'', ''close'', ''exit_group'', ''faccessat'',
          ''futex'', ''getrandom'', ''lseek'', ''mmap'', ''mprotect'', ''munmap'', ''prlimit64'',
          ''read'', ''readlink'', ''rseq'', ''set_robust_list'', ''set_tid_address'', ''write''])"

definition runtime_clock :: "syscall_flavor \<Rightarrow> string list" where
  "runtime_clock flavor =
     (case flavor of
       FlDebianUbuntu \<Rightarrow>
         []
     | FlArch \<Rightarrow>
         [''clock_gettime'']
     | FlRhelLike \<Rightarrow>
         [''clock_gettime'']
     | FlGeneric \<Rightarrow>
         [''clock_gettime'']
     | FlAuto \<Rightarrow>
         [''clock_gettime''])"

definition compiler_clock :: "syscall_flavor \<Rightarrow> string list" where
  "compiler_clock flavor =
     (case flavor of
       FlDebianUbuntu \<Rightarrow>
         [''clock_gettime'']
     | FlArch \<Rightarrow>
         [''clock_gettime'']
     | FlRhelLike \<Rightarrow>
         [''clock_gettime'']
     | FlGeneric \<Rightarrow>
         [''clock_gettime'']
     | FlAuto \<Rightarrow>
         [''clock_gettime''])"

definition runtime_positional_read :: "syscall_flavor \<Rightarrow> string list" where
  "runtime_positional_read flavor =
     (case flavor of
       FlDebianUbuntu \<Rightarrow>
         []
     | FlArch \<Rightarrow>
         [''pread64'']
     | FlRhelLike \<Rightarrow>
         []
     | FlGeneric \<Rightarrow>
         [''pread64'']
     | FlAuto \<Rightarrow>
         [''pread64''])"

definition compiler_positional_read :: "syscall_flavor \<Rightarrow> string list" where
  "compiler_positional_read flavor =
     (case flavor of
       FlDebianUbuntu \<Rightarrow>
         [''pread64'']
     | FlArch \<Rightarrow>
         [''pread64'']
     | FlRhelLike \<Rightarrow>
         []
     | FlGeneric \<Rightarrow>
         [''pread64'']
     | FlAuto \<Rightarrow>
         [''pread64''])"

definition runtime_vector_io :: "syscall_flavor \<Rightarrow> string list" where
  "runtime_vector_io flavor =
     (case flavor of
       FlDebianUbuntu \<Rightarrow>
         []
     | FlArch \<Rightarrow>
         [''readv'', ''writev'']
     | FlRhelLike \<Rightarrow>
         []
     | FlGeneric \<Rightarrow>
         [''readv'', ''writev'']
     | FlAuto \<Rightarrow>
         [''readv'', ''writev''])"

definition compiler_vector_io :: "syscall_flavor \<Rightarrow> string list" where
  "compiler_vector_io flavor =
     (case flavor of
       FlDebianUbuntu \<Rightarrow>
         [''readv'', ''writev'']
     | FlArch \<Rightarrow>
         [''readv'', ''writev'']
     | FlRhelLike \<Rightarrow>
         []
     | FlGeneric \<Rightarrow>
         [''readv'', ''writev'']
     | FlAuto \<Rightarrow>
         [''readv'', ''writev''])"

definition runtime_file_stat_compat :: "syscall_flavor \<Rightarrow> string list" where
  "runtime_file_stat_compat flavor =
     (case flavor of
       FlDebianUbuntu \<Rightarrow>
         [''fstat'', ''newfstatat'', ''statx'']
     | FlArch \<Rightarrow>
         [''fstat'', ''newfstatat'', ''statx'']
     | FlRhelLike \<Rightarrow>
         [''newfstat'', ''newfstatat'', ''statx'']
     | FlGeneric \<Rightarrow>
         [''newfstat'', ''newfstatat'']
     | FlAuto \<Rightarrow>
         [''newfstat'', ''newfstatat''])"

definition compiler_file_stat_compat :: "syscall_flavor \<Rightarrow> string list" where
  "compiler_file_stat_compat flavor =
     (case flavor of
       FlDebianUbuntu \<Rightarrow>
         [''fstat'', ''newfstat'', ''newfstatat'', ''statx'']
     | FlArch \<Rightarrow>
         [''fstat'', ''newfstatat'', ''statx'']
     | FlRhelLike \<Rightarrow>
         [''newfstat'', ''newfstatat'', ''statx'']
     | FlGeneric \<Rightarrow>
         [''newfstat'', ''newfstatat'']
     | FlAuto \<Rightarrow>
         [''newfstat'', ''newfstatat''])"

definition file_open_compat :: "syscall_flavor \<Rightarrow> string list" where
  "file_open_compat flavor =
     (case flavor of
       FlDebianUbuntu \<Rightarrow>
         [''open'', ''openat'', ''readlink'', ''readlinkat'', ''unlink'']
     | FlArch \<Rightarrow>
         [''open'', ''openat'', ''readlinkat'', ''unlink'']
     | FlRhelLike \<Rightarrow>
         [''openat'', ''readlinkat'', ''unlink'']
     | FlGeneric \<Rightarrow>
         [''open'', ''openat'', ''readlinkat'', ''unlink'']
     | FlAuto \<Rightarrow>
         [''open'', ''openat'', ''readlinkat'', ''unlink''])"

definition runtime_process_lifecycle_compat :: "syscall_flavor \<Rightarrow> string list" where
  "runtime_process_lifecycle_compat flavor =
     (case flavor of
       FlDebianUbuntu \<Rightarrow>
         []
     | FlArch \<Rightarrow>
         [''wait4'']
     | FlRhelLike \<Rightarrow>
         [''wait4'', ''waitid'']
     | FlGeneric \<Rightarrow>
         [''wait4'']
     | FlAuto \<Rightarrow>
         [''wait4''])"

definition compiler_process_lifecycle_compat :: "syscall_flavor \<Rightarrow> string list" where
  "compiler_process_lifecycle_compat flavor =
     (case flavor of
       FlDebianUbuntu \<Rightarrow>
         [''wait4'', ''waitid'']
     | FlArch \<Rightarrow>
         [''wait4'']
     | FlRhelLike \<Rightarrow>
         [''wait4'', ''waitid'']
     | FlGeneric \<Rightarrow>
         [''wait4'']
     | FlAuto \<Rightarrow>
         [''wait4''])"

definition runtime_thread_compat :: "syscall_flavor \<Rightarrow> string list" where
  "runtime_thread_compat flavor =
     (case flavor of
       FlDebianUbuntu \<Rightarrow>
         [''clone'']
     | FlArch \<Rightarrow>
         [''clone'', ''clone3'']
     | FlRhelLike \<Rightarrow>
         [''clone3'']
     | FlGeneric \<Rightarrow>
         [''clone'', ''clone3'']
     | FlAuto \<Rightarrow>
         [''clone'', ''clone3''])"

definition compiler_thread_compat :: "syscall_flavor \<Rightarrow> string list" where
  "compiler_thread_compat flavor =
     (case flavor of
       FlDebianUbuntu \<Rightarrow>
         [''clone'', ''clone3'']
     | FlArch \<Rightarrow>
         [''clone'', ''clone3'']
     | FlRhelLike \<Rightarrow>
         [''clone3'']
     | FlGeneric \<Rightarrow>
         [''clone'', ''clone3'']
     | FlAuto \<Rightarrow>
         [''clone'', ''clone3''])"

definition signal_compat :: "syscall_flavor \<Rightarrow> string list" where
  "signal_compat flavor =
     (case flavor of
       FlDebianUbuntu \<Rightarrow>
         [''rt_sigaction'', ''rt_sigprocmask'', ''sigaltstack'', ''rt_sigreturn'']
     | FlArch \<Rightarrow>
         [''rt_sigaction'', ''rt_sigprocmask'', ''sigaltstack'']
     | FlRhelLike \<Rightarrow>
         [''rt_sigaction'', ''rt_sigprocmask'']
     | FlGeneric \<Rightarrow>
         [''rt_sigaction'', ''rt_sigprocmask'', ''sigaltstack'']
     | FlAuto \<Rightarrow>
         [''rt_sigaction'', ''rt_sigprocmask'', ''sigaltstack''])"

definition cpp_runtime_extras :: "syscall_flavor \<Rightarrow> string list" where
  "cpp_runtime_extras flavor =
     (case flavor of
       FlDebianUbuntu \<Rightarrow>
         [''ioctl'']
     | FlArch \<Rightarrow>
         [''ioctl'']
     | FlRhelLike \<Rightarrow>
         []
     | FlGeneric \<Rightarrow>
         [''ioctl'']
     | FlAuto \<Rightarrow>
         [''ioctl''])"

definition rust_runtime_extras :: "syscall_flavor \<Rightarrow> syscall_arch \<Rightarrow> string list" where
  "rust_runtime_extras flavor arch =
     (let syscalls = (case flavor of
         FlDebianUbuntu \<Rightarrow>
           [''gettid'', ''poll'', ''sched_getaffinity'']
       | FlArch \<Rightarrow>
           [''gettid'', ''poll'', ''sched_getaffinity'']
       | FlRhelLike \<Rightarrow>
           [''gettid'', ''poll'']
       | FlGeneric \<Rightarrow>
           [''gettid'', ''poll'', ''sched_getaffinity'']
       | FlAuto \<Rightarrow>
           [''gettid'', ''poll'', ''sched_getaffinity''])
      in if arch = ArAarch64 then syscalls @ [''ppoll''] else syscalls)"

definition python_runtime_extras :: "syscall_flavor \<Rightarrow> syscall_arch \<Rightarrow> string list" where
  "python_runtime_extras flavor arch =
     (case flavor of
       FlDebianUbuntu \<Rightarrow>
         (let syscalls =
         [''dup'', ''dup2'', ''getcwd'', ''getdents64'', ''getegid'', ''geteuid'', ''getgid'',
          ''gettid'', ''getuid'', ''pipe2'', ''readlink'', ''sysinfo'']
          in if arch = ArAarch64 then retain_not [''getdents64'', ''pipe2''] syscalls else syscalls)
     | FlArch \<Rightarrow>
         [''dup'', ''dup2'', ''getcwd'', ''getdents64'', ''getegid'', ''geteuid'', ''getgid'',
          ''gettid'', ''getuid'', ''pipe2'', ''sysinfo'']
     | FlRhelLike \<Rightarrow>
         [''dup'', ''dup2'', ''getcwd'', ''getdents64'', ''getegid'', ''geteuid'', ''getgid'',
          ''gettid'', ''getuid'', ''pipe2'']
     | FlGeneric \<Rightarrow>
         [''dup'', ''dup2'', ''getcwd'', ''getdents64'', ''getegid'', ''geteuid'', ''getgid'',
          ''gettid'', ''getuid'', ''pipe2'', ''sysinfo'']
     | FlAuto \<Rightarrow>
         [''dup'', ''dup2'', ''getcwd'', ''getdents64'', ''getegid'', ''geteuid'', ''getgid'',
          ''gettid'', ''getuid'', ''pipe2'', ''sysinfo''])"

definition wasmtime_runtime_extras :: "syscall_flavor \<Rightarrow> syscall_arch \<Rightarrow> string list" where
  "wasmtime_runtime_extras flavor arch =
     (let syscalls = (case flavor of
         FlDebianUbuntu \<Rightarrow>
           [''clock_nanosleep'', ''dup'', ''dup2'', ''epoll_create1'', ''epoll_ctl'',
            ''epoll_wait'', ''eventfd2'', ''exit'', ''fcntl'', ''getdents64'', ''getpriority'',
            ''gettid'', ''ioctl'', ''madvise'', ''memfd_create'', ''mkdir'', ''pipe2'', ''poll'',
            ''prctl'', ''rename'', ''sched_getaffinity'', ''sched_yield'', ''setpriority'',
            ''socketpair'', ''sysinfo'']
       | FlArch \<Rightarrow>
           [''clock_nanosleep'', ''dup'', ''dup2'', ''epoll_create1'', ''epoll_ctl'',
            ''epoll_wait'', ''eventfd2'', ''exit'', ''fcntl'', ''getdents64'', ''getpriority'',
            ''gettid'', ''ioctl'', ''madvise'', ''memfd_create'', ''mkdir'', ''pipe2'', ''poll'',
            ''prctl'', ''rename'', ''sched_getaffinity'', ''sched_yield'', ''setpriority'',
            ''socketpair'', ''sysinfo'']
       | FlRhelLike \<Rightarrow>
           [''clock_nanosleep'', ''dup'', ''dup2'', ''epoll_create1'', ''epoll_ctl'',
            ''epoll_wait'', ''eventfd2'', ''exit'', ''fcntl'', ''getdents64'', ''getpriority'',
            ''gettid'', ''ioctl'', ''madvise'', ''mkdir'', ''pipe2'', ''poll'', ''prctl'',
            ''rename'', ''sched_getaffinity'', ''setpriority'', ''socketpair'', ''sysinfo'']
       | FlGeneric \<Rightarrow>
           [''clock_nanosleep'', ''dup'', ''dup2'', ''epoll_create1'', ''epoll_ctl'',
            ''epoll_wait'', ''eventfd2'', ''exit'', ''fcntl'', ''getdents64'', ''getpriority'',
            ''gettid'', ''ioctl'', ''madvise'', ''memfd_create'', ''mkdir'', ''pipe2'', ''poll'',
            ''prctl'', ''rename'', ''sched_getaffinity'', ''sched_yield'', ''setpriority'',
            ''socketpair'', ''sysinfo'']
       | FlAuto \<Rightarrow>
           [''clock_nanosleep'', ''dup'', ''dup2'', ''epoll_create1'', ''epoll_ctl'',
            ''epoll_wait'', ''eventfd2'', ''exit'', ''fcntl'', ''getdents64'', ''getpriority'',
            ''gettid'', ''ioctl'', ''madvise'', ''memfd_create'', ''mkdir'', ''pipe2'', ''poll'',
            ''prctl'', ''rename'', ''sched_getaffinity'', ''sched_yield'', ''setpriority'',
            ''socketpair'', ''sysinfo'']);
          syscalls = (if flavor = FlDebianUbuntu \<and> arch = ArAarch64
            then retain_not [''dup'', ''getdents64'', ''getpid'', ''pipe2'', ''sched_yield'', ''sysinfo'']
                   syscalls
            else syscalls);
          syscalls = (if arch = ArAarch64
            then syscalls @ [''epoll_pwait'', ''getpid'', ''membarrier'', ''mkdirat'', ''mremap'',
                             ''ppoll'', ''renameat'']
            else syscalls)
      in if flavor = FlDebianUbuntu \<and> arch = ArAarch64 then retain_not [''getpid''] syscalls
         else syscalls)"

definition compiler_exec :: "syscall_flavor \<Rightarrow> string list" where
  "compiler_exec flavor =
     (case flavor of
       FlDebianUbuntu \<Rightarrow>
         [''execve'', ''execveat'']
     | FlArch \<Rightarrow>
         [''execve'', ''execveat'']
     | FlRhelLike \<Rightarrow>
         [''execve'']
     | FlGeneric \<Rightarrow>
         [''execve'']
     | FlAuto \<Rightarrow>
         [''execve''])"

definition compiler_extras :: "syscall_flavor \<Rightarrow> string list" where
  "compiler_extras flavor =
     (case flavor of
       FlDebianUbuntu \<Rightarrow>
         [''dup'', ''dup2'', ''getcwd'', ''getegid'', ''geteuid'', ''getgid'', ''gettid'',
          ''getuid'', ''ioctl'', ''pipe2'', ''sysinfo'']
     | FlArch \<Rightarrow>
         [''dup'', ''dup2'', ''getcwd'', ''getegid'', ''geteuid'', ''getgid'', ''gettid'',
          ''getuid'', ''ioctl'', ''pipe2'', ''sysinfo'']
     | FlRhelLike \<Rightarrow>
         [''dup'', ''dup2'', ''getcwd'', ''getegid'', ''geteuid'', ''getgid'', ''gettid'',
          ''getuid'', ''ioctl'', ''pipe2'']
     | FlGeneric \<Rightarrow>
         [''dup'', ''dup2'', ''getcwd'', ''getegid'', ''geteuid'', ''getgid'', ''gettid'',
          ''getuid'', ''ioctl'', ''pipe2'', ''sysinfo'']
     | FlAuto \<Rightarrow>
         [''dup'', ''dup2'', ''getcwd'', ''getegid'', ''geteuid'', ''getgid'', ''gettid'',
          ''getuid'', ''ioctl'', ''pipe2'', ''sysinfo''])"

definition aarch64_absent :: "string list" where
  "aarch64_absent =
     [''access'', ''arch_prctl'', ''dup2'', ''epoll_wait'', ''fstat'', ''mkdir'', ''open'',
      ''poll'', ''readlink'', ''rename'', ''unlink'']"

definition group_syscalls :: "syscall_group \<Rightarrow> syscall_flavor \<Rightarrow> syscall_arch \<Rightarrow> string list" where
  "group_syscalls grp flavor arch =
     (case grp of
        RuntimeCore \<Rightarrow> runtime_core flavor
      | RuntimeClock \<Rightarrow> runtime_clock flavor
      | CompilerClock \<Rightarrow> compiler_clock flavor
      | RuntimePositionalRead \<Rightarrow> runtime_positional_read flavor
      | CompilerPositionalRead \<Rightarrow> compiler_positional_read flavor
      | RuntimeVectorIo \<Rightarrow> runtime_vector_io flavor
      | CompilerVectorIo \<Rightarrow> compiler_vector_io flavor
      | RuntimeFileStatCompat \<Rightarrow> runtime_file_stat_compat flavor
      | CompilerFileStatCompat \<Rightarrow> compiler_file_stat_compat flavor
      | FileOpenCompat \<Rightarrow> file_open_compat flavor
      | RuntimeProcessLifecycleCompat \<Rightarrow> runtime_process_lifecycle_compat flavor
      | CompilerProcessLifecycleCompat \<Rightarrow> compiler_process_lifecycle_compat flavor
      | RuntimeThreadCompat \<Rightarrow> runtime_thread_compat flavor
      | CompilerThreadCompat \<Rightarrow> compiler_thread_compat flavor
      | SignalCompat \<Rightarrow> signal_compat flavor
      | CppRuntimeExtras \<Rightarrow> cpp_runtime_extras flavor
      | RustRuntimeExtras \<Rightarrow> rust_runtime_extras flavor arch
      | PythonRuntimeExtras \<Rightarrow> python_runtime_extras flavor arch
      | WasmtimeRuntimeExtras \<Rightarrow> wasmtime_runtime_extras flavor arch
      | CompilerExec \<Rightarrow> compiler_exec flavor
      | CompilerExtras \<Rightarrow> compiler_extras flavor)"

definition syscall_group_expansion :: "syscall_group \<Rightarrow> syscall_profile \<Rightarrow> string list" where
  "syscall_group_expansion grp sp =
     (let allowed = group_syscalls grp (sy_flavor sp) (sy_arch sp)
      in if sy_arch sp = ArAarch64 then retain_not aarch64_absent allowed else allowed)"

definition syscall_group_name :: "syscall_group \<Rightarrow> string" where
  "syscall_group_name grp =
     (case grp of
        RuntimeCore \<Rightarrow> ''runtime_core''
      | RuntimeClock \<Rightarrow> ''runtime_clock''
      | CompilerClock \<Rightarrow> ''compiler_clock''
      | RuntimePositionalRead \<Rightarrow> ''runtime_positional_read''
      | CompilerPositionalRead \<Rightarrow> ''compiler_positional_read''
      | RuntimeVectorIo \<Rightarrow> ''runtime_vector_io''
      | CompilerVectorIo \<Rightarrow> ''compiler_vector_io''
      | RuntimeFileStatCompat \<Rightarrow> ''runtime_file_stat_compat''
      | CompilerFileStatCompat \<Rightarrow> ''compiler_file_stat_compat''
      | FileOpenCompat \<Rightarrow> ''file_open_compat''
      | RuntimeProcessLifecycleCompat \<Rightarrow> ''runtime_process_lifecycle_compat''
      | CompilerProcessLifecycleCompat \<Rightarrow> ''compiler_process_lifecycle_compat''
      | RuntimeThreadCompat \<Rightarrow> ''runtime_thread_compat''
      | CompilerThreadCompat \<Rightarrow> ''compiler_thread_compat''
      | SignalCompat \<Rightarrow> ''signal_compat''
      | CppRuntimeExtras \<Rightarrow> ''cpp_runtime_extras''
      | RustRuntimeExtras \<Rightarrow> ''rust_runtime_extras''
      | PythonRuntimeExtras \<Rightarrow> ''python_runtime_extras''
      | WasmtimeRuntimeExtras \<Rightarrow> ''wasmtime_runtime_extras''
      | CompilerExec \<Rightarrow> ''compiler_exec''
      | CompilerExtras \<Rightarrow> ''compiler_extras'')"

section \<open>Profiles\<close>

definition seccomp_profile_for_policy :: "string \<Rightarrow> seccomp_profile" where
  "seccomp_profile_for_policy policy =
     (if policy = ''python_default'' then PythonRuntime
      else if policy = ''wasm_default'' then WasmtimeRuntime
      else if policy = ''rust_native_default'' then RustNativeRuntime
      else if policy = ''cpp_native_default'' \<or> policy = ''cpp_default'' then CppNativeRuntime
      else if policy = ''compiler'' then Compiler
      else CppNativeRuntime)"

definition seccomp_profile_groups :: "seccomp_profile \<Rightarrow> syscall_group list" where
  "seccomp_profile_groups profile =
     (case profile of
        CppNativeRuntime \<Rightarrow>
          [RuntimeCore, RuntimeClock, RuntimePositionalRead, RuntimeVectorIo,
           RuntimeFileStatCompat, FileOpenCompat, RuntimeProcessLifecycleCompat, SignalCompat,
           CppRuntimeExtras]
      | RustNativeRuntime \<Rightarrow>
          [RuntimeCore, RuntimeClock, RuntimePositionalRead, RuntimeVectorIo,
           RuntimeFileStatCompat, FileOpenCompat, RuntimeProcessLifecycleCompat, SignalCompat,
           RustRuntimeExtras]
      | PythonRuntime \<Rightarrow>
          [RuntimeCore, RuntimeClock, RuntimePositionalRead, RuntimeVectorIo,
           RuntimeFileStatCompat, FileOpenCompat, RuntimeProcessLifecycleCompat,
           RuntimeThreadCompat, SignalCompat, PythonRuntimeExtras]
      | WasmtimeRuntime \<Rightarrow>
          [RuntimeCore, RuntimeClock, RuntimePositionalRead, RuntimeVectorIo,
           RuntimeFileStatCompat, FileOpenCompat, RuntimeProcessLifecycleCompat,
           RuntimeThreadCompat, SignalCompat, RustRuntimeExtras, WasmtimeRuntimeExtras]
      | Compiler \<Rightarrow>
          [RuntimeCore, CompilerClock, CompilerPositionalRead, CompilerVectorIo,
           CompilerFileStatCompat, FileOpenCompat, CompilerProcessLifecycleCompat,
           CompilerThreadCompat, SignalCompat, CompilerExec, CompilerExtras])"

definition seccomp_profile_syscalls :: "seccomp_profile \<Rightarrow> syscall_profile \<Rightarrow> string list" where
  "seccomp_profile_syscalls profile sp =
     sort_dedup (concat (map (\<lambda>grp. syscall_group_expansion grp sp) (seccomp_profile_groups profile)))"

definition build_seccomp_policy :: "seccomp_profile \<Rightarrow> seccomp_mode \<Rightarrow> syscall_profile \<Rightarrow> string" where
  "build_seccomp_policy profile mode sp =
     (let syscalls = seccomp_profile_syscalls profile sp;
          default_action = (case mode of SmLog \<Rightarrow> ''LOG'' | SmKill \<Rightarrow> ''KILL'')
      in ''POLICY def { ALLOW { '' @ join '', '' syscalls @ '' } } USE def DEFAULT '' @ default_action)"

definition seccomp_policy_string_with_mode_for_profile ::
    "string \<Rightarrow> seccomp_mode \<Rightarrow> syscall_profile \<Rightarrow> string" where
  "seccomp_policy_string_with_mode_for_profile policy mode sp =
     build_seccomp_policy (seccomp_profile_for_policy policy) mode sp"

definition compiler_seccomp_policy_string :: "syscall_profile \<Rightarrow> string" where
  "compiler_seccomp_policy_string sp = build_seccomp_policy Compiler SmLog sp"

definition normalize_syscall_name :: "string \<Rightarrow> string" where
  "normalize_syscall_name syscall =
     (if syscall \<in> set [''fstat'', ''newfstat'', ''newfstatat'', ''statx''] then ''file_stat''
      else if syscall \<in> set [''clone'', ''clone3'', ''vfork''] then ''process_clone''
      else if syscall \<in> set [''rt_sigaction'', ''rt_sigprocmask'', ''sigaltstack'', ''rt_sigreturn'']
        then ''signal_runtime''
      else if syscall \<in> set [''sched_getaffinity'', ''sched_yield''] then ''scheduler_affinity''
      else syscall)"

section \<open>The host\<close>

text \<open>\<open>/etc/os-release\<close> (if it can be read), \<open>std::env::consts::ARCH\<close> and \<open>str::to_lowercase\<close>.\<close>

record host_platform =
  hp_os_release :: "string option"
  hp_arch :: string
  hp_lowercase :: "string \<Rightarrow> string"

definition detect_runtime_syscall_flavor :: "host_platform \<Rightarrow> syscall_flavor" where
  "detect_runtime_syscall_flavor host =
     (case hp_os_release host of
        None \<Rightarrow> FlGeneric
      | Some os_release \<Rightarrow>
          let lower = hp_lowercase host os_release
          in if contains lower ''id=ubuntu'' \<or> contains lower ''id=debian''
                \<or> contains lower ''id_like=ubuntu'' \<or> contains lower ''id_like=debian''
             then FlDebianUbuntu
             else if contains lower ''id=arch'' \<or> contains lower ''id=manjaro''
                \<or> contains lower ''id_like=arch''
             then FlArch
             else if contains lower ''id=fedora'' \<or> contains lower ''id=centos''
                \<or> contains lower ''id=rhel'' \<or> contains lower ''id=rocky''
                \<or> contains lower ''id=almalinux''
                \<or> contains lower (''id_like='' @ [CHR 0x22] @ ''rhel fedora'' @ [CHR 0x22])
                \<or> contains lower ''id_like=rhel'' \<or> contains lower ''id_like=fedora''
             then FlRhelLike
             else FlGeneric)"

definition detect_runtime_syscall_arch :: "host_platform \<Rightarrow> syscall_arch" where
  "detect_runtime_syscall_arch host =
     (if hp_arch host = ''x86_64'' then ArX86_64
      else if hp_arch host = ''aarch64'' then ArAarch64 else ArOther)"

definition resolve_runtime_syscall_flavor :: "host_platform \<Rightarrow> syscall_flavor \<Rightarrow> syscall_flavor" where
  "resolve_runtime_syscall_flavor host flavor =
     (if flavor = FlAuto then detect_runtime_syscall_flavor host else flavor)"

definition resolve_runtime_syscall_arch :: "host_platform \<Rightarrow> syscall_arch \<Rightarrow> syscall_arch" where
  "resolve_runtime_syscall_arch host arch =
     (if arch = ArAuto then detect_runtime_syscall_arch host else arch)"

definition resolve_runtime_syscall_profile ::
    "host_platform \<Rightarrow> syscall_flavor \<Rightarrow> syscall_arch \<Rightarrow> syscall_profile" where
  "resolve_runtime_syscall_profile host flavor arch =
     \<lparr>sy_flavor = resolve_runtime_syscall_flavor host flavor,
      sy_arch = resolve_runtime_syscall_arch host arch\<rparr>"

section \<open>Listings for inspection\<close>

definition debug_seccomp_profile_group_names :: "string \<Rightarrow> string list" where
  "debug_seccomp_profile_group_names policy =
     sort_dedup (map syscall_group_name (seccomp_profile_groups (seccomp_profile_for_policy policy)))"

definition debug_seccomp_profile_syscalls_for_target ::
    "host_platform \<Rightarrow> string \<Rightarrow> syscall_flavor \<Rightarrow> syscall_arch \<Rightarrow> string list" where
  "debug_seccomp_profile_syscalls_for_target host policy flavor arch =
     seccomp_profile_syscalls (seccomp_profile_for_policy policy)
       (resolve_runtime_syscall_profile host flavor arch)"

definition debug_seccomp_profile_normalized_syscalls_for_target ::
    "host_platform \<Rightarrow> string \<Rightarrow> syscall_flavor \<Rightarrow> syscall_arch \<Rightarrow> string list" where
  "debug_seccomp_profile_normalized_syscalls_for_target host policy flavor arch =
     sort_dedup (map normalize_syscall_name
       (debug_seccomp_profile_syscalls_for_target host policy flavor arch))"

definition debug_seccomp_profile_syscalls :: "host_platform \<Rightarrow> string \<Rightarrow> string list" where
  "debug_seccomp_profile_syscalls host policy =
     debug_seccomp_profile_syscalls_for_target host policy FlAuto ArAuto"

definition debug_seccomp_profile_normalized_syscalls :: "host_platform \<Rightarrow> string \<Rightarrow> string list" where
  "debug_seccomp_profile_normalized_syscalls host policy =
     debug_seccomp_profile_normalized_syscalls_for_target host policy FlAuto ArAuto"

definition debug_seccomp_profile_syscalls_for_flavor ::
    "host_platform \<Rightarrow> string \<Rightarrow> syscall_flavor \<Rightarrow> string list" where
  "debug_seccomp_profile_syscalls_for_flavor host policy flavor =
     debug_seccomp_profile_syscalls_for_target host policy flavor ArAuto"

definition debug_seccomp_profile_normalized_syscalls_for_flavor ::
    "host_platform \<Rightarrow> string \<Rightarrow> syscall_flavor \<Rightarrow> string list" where
  "debug_seccomp_profile_normalized_syscalls_for_flavor host policy flavor =
     debug_seccomp_profile_normalized_syscalls_for_target host policy flavor ArAuto"

definition debug_detected_runtime_syscall_profile :: "host_platform \<Rightarrow> syscall_profile" where
  "debug_detected_runtime_syscall_profile host = resolve_runtime_syscall_profile host FlAuto ArAuto"

section \<open>What the policies allow\<close>

lemma in_seccomp_profile_syscalls:
  "s \<in> set (seccomp_profile_syscalls p sp) \<longleftrightarrow>
     (\<exists>g \<in> set (seccomp_profile_groups p). s \<in> set (syscall_group_expansion g sp))"
  by (auto simp: seccomp_profile_syscalls_def)

lemma syscall_group_expansion_subset:
  "set (syscall_group_expansion g sp) \<subseteq> set (group_syscalls g (sy_flavor sp) (sy_arch sp))"
  by (auto simp: syscall_group_expansion_def retain_not_def Let_def)

text \<open>
  Calls that start other programs or processes, make threads or namespaces, trace or signal a
  process, reach the network or another process through a socket, change the file system's
  layout or the user, or change the kernel.
\<close>

definition escape_syscalls :: "string list" where
  "escape_syscalls =
     [''execve'', ''execveat'', ''fork'', ''vfork'', ''clone'', ''clone3'', ''unshare'', ''setns'',
      ''ptrace'', ''process_vm_readv'', ''process_vm_writev'', ''pidfd_open'', ''pidfd_getfd'',
      ''kill'', ''tkill'', ''tgkill'',
      ''socket'', ''socketpair'', ''connect'', ''bind'', ''listen'', ''accept'', ''accept4'',
      ''sendto'', ''sendmsg'', ''sendmmsg'', ''recvfrom'', ''recvmsg'', ''recvmmsg'',
      ''mount'', ''umount2'', ''chroot'', ''pivot_root'', ''open_by_handle_at'',
      ''setuid'', ''setgid'', ''setreuid'', ''setregid'', ''setresuid'', ''setresgid'',
      ''setgroups'', ''capset'', ''keyctl'',
      ''bpf'', ''perf_event_open'', ''io_uring_setup'', ''userfaultfd'', ''init_module'',
      ''finit_module'', ''delete_module'', ''kexec_load'', ''reboot'']"

definition process_syscalls :: "string list" where
  "process_syscalls = [''clone'', ''clone3'', ''fork'', ''vfork'']"

definition all_flavors :: "syscall_flavor list" where
  "all_flavors = [FlAuto, FlGeneric, FlDebianUbuntu, FlArch, FlRhelLike]"

definition all_arches :: "syscall_arch list" where
  "all_arches = [ArAuto, ArX86_64, ArAarch64, ArOther]"

lemma all_flavors [simp]: "fl \<in> set all_flavors"
  by (cases fl) (simp_all add: all_flavors_def)

lemma all_arches [simp]: "ar \<in> set all_arches"
  by (cases ar) (simp_all add: all_arches_def)

text \<open>A check of one group on every host; most groups do not look at the architecture.\<close>

definition arches_of :: "syscall_group \<Rightarrow> syscall_arch list" where
  "arches_of g =
     (if List.member [RustRuntimeExtras, PythonRuntimeExtras, WasmtimeRuntimeExtras] g
      then all_arches else [ArAuto])"

definition every_host :: "(string list \<Rightarrow> bool) \<Rightarrow> syscall_group \<Rightarrow> bool" where
  "every_host p g \<longleftrightarrow>
     list_all (\<lambda>fl. list_all (\<lambda>ar. p (group_syscalls g fl ar)) (arches_of g)) all_flavors"

lemma group_syscalls_arch: "\<exists>ar' \<in> set (arches_of g). group_syscalls g fl ar = group_syscalls g fl ar'"
  by (cases g) (auto simp: arches_of_def group_syscalls_def)

lemma every_hostD: "every_host p g \<Longrightarrow> p (group_syscalls g fl ar)"
  using group_syscalls_arch [of g fl ar] by (auto simp: every_host_def list_all_iff)

lemma thread_group_clones:
  "list_all (\<lambda>g. every_host (\<lambda>xs. List.member xs ''clone'' \<or> List.member xs ''clone3'') g)
     [RuntimeThreadCompat, CompilerThreadCompat]"
  by code_simp

lemma syscall_group_expansion_kept:
  "s \<notin> set aarch64_absent \<Longrightarrow>
     s \<in> set (syscall_group_expansion g sp) \<longleftrightarrow> s \<in> set (group_syscalls g (sy_flavor sp) (sy_arch sp))"
  by (auto simp: syscall_group_expansion_def retain_not_def Let_def)

text \<open>Which of these calls a group lists, and with it a profile.\<close>

definition group_exceptions :: "syscall_group \<Rightarrow> string list" where
  "group_exceptions g =
     (case g of
        RuntimeThreadCompat \<Rightarrow> [''clone'', ''clone3'']
      | CompilerThreadCompat \<Rightarrow> [''clone'', ''clone3'']
      | WasmtimeRuntimeExtras \<Rightarrow> [''socketpair'']
      | CompilerExec \<Rightarrow> [''execve'', ''execveat'']
      | _ \<Rightarrow> [])"

definition profile_exceptions :: "seccomp_profile \<Rightarrow> string list" where
  "profile_exceptions p =
     (case p of
        CppNativeRuntime \<Rightarrow> []
      | RustNativeRuntime \<Rightarrow> []
      | PythonRuntime \<Rightarrow> [''clone'', ''clone3'']
      | WasmtimeRuntime \<Rightarrow> [''clone'', ''clone3'', ''socketpair'']
      | Compiler \<Rightarrow> [''clone'', ''clone3'', ''execve'', ''execveat''])"

definition flat_groups :: "syscall_group list" where
  "flat_groups =
     [RuntimeCore, RuntimeClock, CompilerClock, RuntimePositionalRead, CompilerPositionalRead,
      RuntimeVectorIo, CompilerVectorIo, RuntimeFileStatCompat, CompilerFileStatCompat,
      FileOpenCompat, RuntimeProcessLifecycleCompat, CompilerProcessLifecycleCompat,
      RuntimeThreadCompat, CompilerThreadCompat, SignalCompat]"

definition extra_groups :: "syscall_group list" where
  "extra_groups = [CppRuntimeExtras, RustRuntimeExtras, PythonRuntimeExtras,
     WasmtimeRuntimeExtras, CompilerExec, CompilerExtras]"

lemma all_groups: "g \<in> set flat_groups \<or> g \<in> set extra_groups"
  by (cases g) (simp_all add: flat_groups_def extra_groups_def)

text \<open>All calls a group lists on any host.\<close>

definition host_calls :: "syscall_group \<Rightarrow> string list" where
  "host_calls g =
     fold (\<lambda>fl. fold (\<lambda>ar. fold List.insert (group_syscalls g fl ar)) (arches_of g)) all_flavors []"

lemma fold_insert_set: "set (fold List.insert xs acc) = set xs \<union> set acc"
  by (induction xs arbitrary: acc) auto

lemma fold_inserts_set:
  "set (fold (\<lambda>x. fold List.insert (f x)) xs acc) = (\<Union>x \<in> set xs. set (f x)) \<union> set acc"
  by (induction xs arbitrary: acc) (auto simp: fold_insert_set)

lemma set_host_calls: "set (host_calls g) = (\<Union>fl. \<Union>ar \<in> set (arches_of g). set (group_syscalls g fl ar))"
proof -
  have "set (fold (\<lambda>fl. fold (\<lambda>ar. fold List.insert (group_syscalls g fl ar)) (arches_of g)) fls acc) =
      (\<Union>fl \<in> set fls. \<Union>ar \<in> set (arches_of g). set (group_syscalls g fl ar)) \<union> set acc" for fls acc
    by (induction fls arbitrary: acc) (auto simp: fold_inserts_set)
  then show ?thesis using all_flavors by (auto simp: host_calls_def)
qed

lemma group_syscalls_host_calls: "set (group_syscalls g fl ar) \<subseteq> set (host_calls g)"
  using group_syscalls_arch [of g fl ar] by (force simp: set_host_calls)

text \<open>A name as the policy language wants it.\<close>

definition call_char :: "char \<Rightarrow> bool" where
  "call_char c \<longleftrightarrow> CHR ''0'' \<le> c \<and> c \<le> CHR ''z''"

definition call_name :: "string \<Rightarrow> bool" where
  "call_name s \<longleftrightarrow> s \<noteq> [] \<and> list_all call_char s"

definition calm_group :: "syscall_group \<Rightarrow> bool" where
  "calm_group g \<longleftrightarrow>
     list_all (\<lambda>s. (List.member escape_syscalls s \<longrightarrow> List.member (group_exceptions g) s) \<and> call_name s)
       (host_calls g)"

lemma flat_groups_calm: "list_all calm_group flat_groups"
  by code_simp

lemma extra_groups_calm: "list_all calm_group extra_groups"
  by code_simp

lemma calm_group: "calm_group g"
  using all_groups [of g] flat_groups_calm extra_groups_calm by (auto simp: list_all_iff)

lemma group_escapes:
  assumes "s \<in> set (syscall_group_expansion g sp)"
  shows "s \<in> set escape_syscalls \<Longrightarrow> s \<in> set (group_exceptions g)" and "call_name s"
proof -
  have "s \<in> set (host_calls g)"
    using assms syscall_group_expansion_subset group_syscalls_host_calls by blast
  moreover have "calm_group g" by (rule calm_group)
  ultimately show "s \<in> set escape_syscalls \<Longrightarrow> s \<in> set (group_exceptions g)" and "call_name s"
    by (simp_all add: calm_group_def list_all_iff)
qed

lemma group_no_process:
  assumes "g \<notin> set [RuntimeThreadCompat, CompilerThreadCompat, CompilerExec]"
    and "s \<in> set process_syscalls"
  shows "s \<notin> set (syscall_group_expansion g sp)"
proof -
  have "s \<in> set escape_syscalls" using assms(2) by (auto simp: process_syscalls_def escape_syscalls_def)
  moreover have "s \<notin> set (group_exceptions g)"
    using assms by (cases g) (auto simp: group_exceptions_def process_syscalls_def)
  ultimately show ?thesis using group_escapes(1) by blast
qed

lemma profile_escapes:
  assumes "s \<in> set escape_syscalls" and "s \<in> set (seccomp_profile_syscalls p sp)"
  shows "s \<in> set (profile_exceptions p)"
proof -
  obtain g where g: "g \<in> set (seccomp_profile_groups p)" and "s \<in> set (group_exceptions g)"
    using group_escapes(1) assms by (auto simp: in_seccomp_profile_syscalls)
  then show ?thesis
    by (cases p) (auto simp: seccomp_profile_groups_def group_exceptions_def profile_exceptions_def)
qed

lemma call_names: "list_all call_name (seccomp_profile_syscalls p sp)"
  using group_escapes(2) by (auto simp: list_all_iff in_seccomp_profile_syscalls)

lemma runtime_core_read: "every_host (\<lambda>xs. List.member xs ''read'') RuntimeCore"
  by code_simp

lemma profile_calls_nonempty: "seccomp_profile_syscalls p sp \<noteq> []"
proof -
  have "''read'' \<in> set (group_syscalls RuntimeCore (sy_flavor sp) (sy_arch sp))"
    using every_hostD [OF runtime_core_read] by simp
  then have "''read'' \<in> set (syscall_group_expansion RuntimeCore sp)"
    by (subst syscall_group_expansion_kept) (simp_all add: aarch64_absent_def)
  then have "''read'' \<in> set (seccomp_profile_syscalls p sp)"
    by (cases p) (auto simp: in_seccomp_profile_syscalls seccomp_profile_groups_def)
  then show ?thesis by auto
qed

text \<open>
  What the policy language of nsjail (Kafel) documents of a text of the worker's shape: a listed
  call is made, any other call gets the default action. \<open>LOG\<close> records the call and makes it;
  \<open>KILL\<close> ends the process.
\<close>

datatype call_verdict = VerdictAllow | VerdictLog | VerdictKill

definition documented_kafel :: "(string \<Rightarrow> string \<Rightarrow> call_verdict) \<Rightarrow> bool" where
  "documented_kafel verdict \<longleftrightarrow>
     (\<forall>calls s. calls \<noteq> [] \<and> list_all call_name calls \<longrightarrow>
        verdict (''POLICY def { ALLOW { '' @ join '', '' calls @ '' } } USE def DEFAULT LOG'') s =
          (if s \<in> set calls then VerdictAllow else VerdictLog) \<and>
        verdict (''POLICY def { ALLOW { '' @ join '', '' calls @ '' } } USE def DEFAULT KILL'') s =
          (if s \<in> set calls then VerdictAllow else VerdictKill))"

lemma policy_verdict:
  assumes "documented_kafel verdict"
  shows "verdict (build_seccomp_policy p mode sp) s =
    (if s \<in> set (seccomp_profile_syscalls p sp) then VerdictAllow
     else case mode of SmLog \<Rightarrow> VerdictLog | SmKill \<Rightarrow> VerdictKill)"
  using assms profile_calls_nonempty [of p sp] call_names [of p sp]
  by (cases mode) (simp_all add: documented_kafel_def build_seccomp_policy_def Let_def)

section \<open>Properties\<close>

text \<open>C15: A program runs under a policy that lists calls and gives every other call a default
  action, which is \<open>LOG\<close> or \<open>KILL\<close> as the worker is configured; \<open>LOG\<close> is the default of the
  configuration and the fixed mode of the compiler. When the policy language does what it
  documents: in mode \<open>KILL\<close>, on every host, a call that starts a program or process, traces or
  signals one, opens or uses a socket, changes the file system's layout or the user, or changes
  the kernel ends the program, but for \<open>clone\<close> and \<open>clone3\<close> (all policies but the two native
  ones), \<open>socketpair\<close> (the policy of wasmtime) and the two \<open>exec\<close> calls (the compiler's). In mode
  \<open>LOG\<close> no call of any kind ends a program.\<close>

theorem escapes_end_in_kill_mode_only:
  assumes "documented_kafel verdict"
  shows "list_all (\<lambda>s. verdict (build_seccomp_policy p SmKill sp) s = VerdictKill)
           (filter (\<lambda>s. s \<notin> set (profile_exceptions p)) escape_syscalls) \<and>
         verdict (build_seccomp_policy p SmLog sp) s \<noteq> VerdictKill \<and>
         verdict (compiler_seccomp_policy_string sp) s \<noteq> VerdictKill"
  using profile_escapes by (auto simp: policy_verdict [OF assms] list_all_iff compiler_seccomp_policy_string_def)

text \<open>A reader of such texts.\<close>

fun call_names_of :: "string \<Rightarrow> string \<Rightarrow> string list \<times> string" where
  "call_names_of acc [] = ([rev acc], [])"
| "call_names_of acc (c # cs) =
     (if c = CHR '','' then (case call_names_of [] (tl cs) of (xs, r) \<Rightarrow> (rev acc # xs, r))
      else if c = CHR '' '' then ([rev acc], c # cs)
      else call_names_of (c # acc) cs)"

definition kafel_reader :: "string \<Rightarrow> string \<Rightarrow> call_verdict" where
  "kafel_reader policy s =
     (case call_names_of [] (drop (length ''POLICY def { ALLOW { '') policy) of (calls, rest) \<Rightarrow>
        if List.member calls s then VerdictAllow
        else if rest = '' } } USE def DEFAULT LOG'' then VerdictLog else VerdictKill)"

lemma call_names_of_name:
  "list_all (\<lambda>c. c \<noteq> CHR '','' \<and> c \<noteq> CHR '' '') x \<Longrightarrow>
     call_names_of acc (x @ cs) = call_names_of (rev x @ acc) cs"
  by (induction x arbitrary: acc) auto

lemma call_char_plain: "\<not> call_char CHR '',''" "\<not> call_char CHR '' ''"
  by code_simp+

lemma call_name_plain: "call_name x \<Longrightarrow> list_all (\<lambda>c. c \<noteq> CHR '','' \<and> c \<noteq> CHR '' '') x"
  using call_char_plain unfolding call_name_def list_all_iff by metis

lemma call_names_of_join:
  "calls \<noteq> [] \<Longrightarrow> list_all call_name calls \<Longrightarrow>
     call_names_of [] (join '', '' calls @ CHR '' '' # r) = (calls, CHR '' '' # r)"
proof (induction "'', '' :: string" calls rule: join.induct)
  case (2 x)
  then show ?case using call_names_of_name [OF call_name_plain, of x "[]"] by simp
next
  case (3 x y xs)
  then show ?case using call_names_of_name [OF call_name_plain, of x "[]"] by simp
qed simp

lemma kafel_reader_reads:
  assumes "calls \<noteq> []" and "list_all call_name calls"
  shows "kafel_reader (''POLICY def { ALLOW { '' @ join '', '' calls @ CHR '' '' # r) s =
    (if s \<in> set calls then VerdictAllow
     else if CHR '' '' # r = '' } } USE def DEFAULT LOG'' then VerdictLog else VerdictKill)"
proof -
  have "drop (length pre) (pre @ x) = x" for pre x :: string by simp
  then show ?thesis
    unfolding kafel_reader_def using call_names_of_join [OF assms, of r] by (simp only: prod.case List.member_iff)
qed

lemma kafel_reader_documented: "documented_kafel kafel_reader"
  using kafel_reader_reads [of _ "''} } USE def DEFAULT LOG''"]
    kafel_reader_reads [of _ "''} } USE def DEFAULT KILL''"]
  by (simp add: documented_kafel_def)

theorem escapes_end_in_kill_mode_only_witness:
  "kafel_reader (build_seccomp_policy PythonRuntime SmKill \<lparr>sy_flavor = FlArch, sy_arch = ArX86_64\<rparr>)
     ''socket'' = VerdictKill \<and>
   kafel_reader (build_seccomp_policy PythonRuntime SmLog \<lparr>sy_flavor = FlArch, sy_arch = ArX86_64\<rparr>)
     ''socket'' \<noteq> VerdictKill"
  using escapes_end_in_kill_mode_only [OF kafel_reader_documented,
      of PythonRuntime "\<lparr>sy_flavor = FlArch, sy_arch = ArX86_64\<rparr>" "''socket''"]
  by (simp add: list_all_iff escape_syscalls_def profile_exceptions_def)

text \<open>On every host the native C++ and Rust policies, and only those two, allow no call
  that makes a process or thread.\<close>

theorem native_policies_make_no_processes:
  "filter (\<lambda>s. s \<in> set process_syscalls) (seccomp_profile_syscalls p sp) = [] \<longleftrightarrow>
     p = CppNativeRuntime \<or> p = RustNativeRuntime"
proof
  assume none: "filter (\<lambda>s. s \<in> set process_syscalls) (seccomp_profile_syscalls p sp) = []"
  show "p = CppNativeRuntime \<or> p = RustNativeRuntime"
  proof (rule ccontr)
    assume "\<not> (p = CppNativeRuntime \<or> p = RustNativeRuntime)"
    then obtain g where g: "g \<in> set (seccomp_profile_groups p)"
      and "g \<in> set [RuntimeThreadCompat, CompilerThreadCompat]"
      by (cases p) (auto simp: seccomp_profile_groups_def)
    then have "every_host (\<lambda>xs. List.member xs ''clone'' \<or> List.member xs ''clone3'') g"
      using thread_group_clones by (auto simp: list_all_iff)
    from every_hostD [OF this, of "sy_flavor sp" "sy_arch sp"]
    obtain s where "s = ''clone'' \<or> s = ''clone3''"
      and "s \<in> set (group_syscalls g (sy_flavor sp) (sy_arch sp))"
      by auto
    moreover then have "s \<notin> set aarch64_absent" by (auto simp: aarch64_absent_def)
    ultimately have "s \<in> set (seccomp_profile_syscalls p sp)" "s \<in> set process_syscalls"
      using g syscall_group_expansion_kept
      by (auto simp: in_seccomp_profile_syscalls process_syscalls_def)
    with none show False by (auto simp: filter_empty_conv)
  qed
next
  assume "p = CppNativeRuntime \<or> p = RustNativeRuntime"
  then have "g \<notin> set [RuntimeThreadCompat, CompilerThreadCompat, CompilerExec]"
    if "g \<in> set (seccomp_profile_groups p)" for g
    using that by (auto simp: seccomp_profile_groups_def)
  then show "filter (\<lambda>s. s \<in> set process_syscalls) (seccomp_profile_syscalls p sp) = []"
    using group_no_process by (auto simp: filter_empty_conv in_seccomp_profile_syscalls)
qed

text \<open>A policy lists the calls of its groups, each once, in order; on a 64-bit ARM host
  it names none of the calls that architecture does not have (the sandbox would reject the
  whole policy text).\<close>

theorem policy_lists_its_groups:
  "sorted_wrt (<) (seccomp_profile_syscalls p sp) \<and>
   set (seccomp_profile_syscalls p sp) =
     (\<Union>g \<in> set (seccomp_profile_groups p). set (syscall_group_expansion g sp)) \<and>
   filter (\<lambda>s. s \<in> set aarch64_absent) (seccomp_profile_syscalls p (sp\<lparr>sy_arch := ArAarch64\<rparr>)) = []"
proof -
  have "sorted_wrt (<) (seccomp_profile_syscalls p sp)"
    unfolding seccomp_profile_syscalls_def by (rule sorted_sort_dedup)
  moreover have "set (seccomp_profile_syscalls p sp) =
      (\<Union>g \<in> set (seccomp_profile_groups p). set (syscall_group_expansion g sp))"
    by (auto simp: in_seccomp_profile_syscalls)
  moreover have "s \<notin> set aarch64_absent"
    if "s \<in> set (syscall_group_expansion g (sp\<lparr>sy_arch := ArAarch64\<rparr>))" for s g
    using that by (auto simp: syscall_group_expansion_def retain_not_def Let_def)
  ultimately show ?thesis by (auto simp: filter_empty_conv in_seccomp_profile_syscalls)
qed

text \<open>A resolved host profile is concrete: neither its flavour nor its architecture is
  left to be detected, whatever the host's release file says.\<close>

lemma resolved_profile_is_concrete:
  "sy_flavor (resolve_runtime_syscall_profile host flavor arch) \<noteq> FlAuto \<and>
   sy_arch (resolve_runtime_syscall_profile host flavor arch) \<noteq> ArAuto"
  by (simp add: resolve_runtime_syscall_profile_def resolve_runtime_syscall_flavor_def
      resolve_runtime_syscall_arch_def detect_runtime_syscall_flavor_def
      detect_runtime_syscall_arch_def Let_def split: option.split)

end
