(* ===== verification/Host.thy ===== *)
theory Host
  imports Shared
begin

text \<open>
  What the runtime sees of its host: Unix paths as \<open>std::path\<close> treats them, UTF-8 validity
  of bytes read from files, environment variables, and the file system. The answers of the
  host (variables, existing paths, directory listings, failing operations) are parameters;
  the contents of files are state. Paths are valid UTF-8, so \<open>display\<close> does not change them.
\<close>

section \<open>Paths\<close>

abbreviation sep :: char where "sep \<equiv> CHR ''/''"

definition has_root :: "string \<Rightarrow> bool" where
  "has_root p = (case p of [] \<Rightarrow> False | c # _ \<Rightarrow> c = sep)"

text \<open>\<open>Path::join\<close>.\<close>

definition path_join :: "string \<Rightarrow> string \<Rightarrow> string" where
  "path_join base p =
     (if has_root p then p
      else if base = [] then p
      else if last base = sep then base @ p
      else base @ sep # p)"

text \<open>
  Components: an empty component and a \<open>.\<close> are skipped, but for a \<open>.\<close> at the very start of a
  relative path. \<open>path_body\<close> is what follows the root or that first \<open>.\<close>.
\<close>

definition starts_cur_dir :: "string \<Rightarrow> bool" where
  "starts_cur_dir p = (case p of
     [] \<Rightarrow> False
   | c # q \<Rightarrow> c = CHR ''.'' \<and> (q = [] \<or> hd q = sep))"

definition path_body :: "string \<Rightarrow> string" where
  "path_body p = (if has_root p \<or> starts_cur_dir p then tl p else p)"

function trim_left_comps :: "string \<Rightarrow> string" where
  "trim_left_comps s =
     (case s of
        [] \<Rightarrow> []
      | c # q \<Rightarrow> if c = sep then trim_left_comps q
                 else if starts_cur_dir s then trim_left_comps q else s)"
  by pat_completeness auto
termination by (relation "measure length") auto

declare trim_left_comps.simps [simp del]

definition is_skipped :: "string \<Rightarrow> bool" where
  "is_skipped name \<longleftrightarrow> name = [] \<or> name = ''.''"

text \<open>The last component of a body and what is before it, the separator dropped.\<close>

definition split_last :: "string \<Rightarrow> string \<times> string" where
  "split_last s =
     (let name = rev (takeWhile (\<lambda>c. c \<noteq> sep) (rev s)); pre = take (length s - length name) s
      in (if pre = [] then [] else butlast pre, name))"

text \<open>\<open>trim_right\<close> on a body: drop skipped components at the end.\<close>

function trim_right_comps :: "string \<Rightarrow> string" where
  "trim_right_comps s =
     (if s \<noteq> [] \<and> is_skipped (snd (split_last s)) then trim_right_comps (fst (split_last s)) else s)"
  by pat_completeness auto
termination
  by (relation "measure length")
    (auto simp: split_last_def Let_def length_takeWhile_le)

declare trim_right_comps.simps [simp del]

text \<open>\<open>Path::parent\<close>: nothing for an empty path and for the root.\<close>

definition path_parent :: "string \<Rightarrow> string option" where
  "path_parent p =
     (let head = take (length p - length (path_body p)) p;
          body = trim_right_comps (path_body p)
      in if body = [] then (if starts_cur_dir p then Some [] else None)
         else Some (head @ trim_right_comps (fst (split_last body))))"

text \<open>The names of a body, and the rest of a body after some names.\<close>

function body_names :: "string \<Rightarrow> string list" where
  "body_names s =
     (let s' = trim_left_comps s
      in if s' = [] then []
         else takeWhile (\<lambda>c. c \<noteq> sep) s' # body_names (dropWhile (\<lambda>c. c \<noteq> sep) s'))"
  by pat_completeness auto

lemma trim_left_comps_cases:
  "trim_left_comps s = [] \<or> (hd (trim_left_comps s) \<noteq> sep \<and> (\<exists>k. trim_left_comps s = drop k s))"
proof (induction s rule: trim_left_comps.induct)
  case (1 s)
  show ?case
  proof (cases s)
    case Nil
    then show ?thesis by (subst trim_left_comps.simps) simp
  next
    case (Cons c q)
    have q: "\<exists>k. drop j q = drop k s" for j using Cons by (intro exI [of _ "Suc j"]) simp
    show ?thesis
    proof (cases "c = sep \<or> starts_cur_dir s")
      case True
      then have "trim_left_comps s = trim_left_comps q"
        using Cons by (subst trim_left_comps.simps) auto
      then show ?thesis using 1 [OF Cons] True q by metis
    next
      case False
      then have "trim_left_comps s = s" using Cons by (subst trim_left_comps.simps) simp
      then show ?thesis using Cons False by (metis drop0 list.sel(1))
    qed
  qed
qed

lemma trim_left_comps_length: "length (trim_left_comps s) \<le> length s"
  using trim_left_comps_cases [of s] by auto

termination body_names
proof (relation "measure length")
  fix s s' assume "s' = trim_left_comps s" "s' \<noteq> []"
  then have "hd s' \<noteq> sep" "length s' \<le> length s"
    using trim_left_comps_cases [of s] trim_left_comps_length [of s] by auto
  then have "length (dropWhile (\<lambda>c. c \<noteq> sep) s') < length s"
    using \<open>s' \<noteq> []\<close> length_dropWhile_le [of "\<lambda>c. c \<noteq> sep" "tl s'"]
    by (cases s') (auto simp: less_Suc_eq_le intro: le_trans)
  then show "(dropWhile (\<lambda>c. c \<noteq> sep) s', s) \<in> measure length" by simp
qed simp

declare body_names.simps [simp del]

fun strip_names :: "string list \<Rightarrow> string \<Rightarrow> string option" where
  "strip_names [] s = Some s"
| "strip_names (n # ns) s =
     (let s' = trim_left_comps s
      in if s' \<noteq> [] \<and> takeWhile (\<lambda>c. c \<noteq> sep) s' = n
         then strip_names ns (dropWhile (\<lambda>c. c \<noteq> sep) s') else None)"

text \<open>\<open>Path::strip_prefix\<close>, component by component.\<close>

definition path_strip_prefix :: "string \<Rightarrow> string \<Rightarrow> string option" where
  "path_strip_prefix p base =
     (if has_root p = has_root base \<and> (starts_cur_dir base \<longrightarrow> starts_cur_dir p)
         \<and> (base \<noteq> [] \<and> starts_cur_dir p \<longrightarrow> starts_cur_dir base)
      then map_option (\<lambda>s. trim_right_comps (trim_left_comps s))
             (strip_names (body_names (path_body base)) (path_body p))
      else None)"

section \<open>UTF-8\<close>

definition cont :: "char \<Rightarrow> bool" where
  "cont c \<longleftrightarrow> 128 \<le> byte c \<and> byte c < 192"

text \<open>Well-formed UTF-8: no overlong form, no surrogate, nothing above U+10FFFF.\<close>

fun valid_utf8 :: "string \<Rightarrow> bool" where
  "valid_utf8 [] = True"
| "valid_utf8 (a # s) =
     (if byte a < 128 then valid_utf8 s
      else if 194 \<le> byte a \<and> byte a < 224 then
        (case s of b # s' \<Rightarrow> cont b \<and> valid_utf8 s' | _ \<Rightarrow> False)
      else if 224 \<le> byte a \<and> byte a < 240 then
        (case s of
           b # c # s' \<Rightarrow> cont b \<and> cont c \<and> (byte a = 224 \<longrightarrow> 160 \<le> byte b)
             \<and> (byte a = 237 \<longrightarrow> byte b < 160) \<and> valid_utf8 s'
         | _ \<Rightarrow> False)
      else if 240 \<le> byte a \<and> byte a < 245 then
        (case s of
           b # c # d # s' \<Rightarrow> cont b \<and> cont c \<and> cont d \<and> (byte a = 240 \<longrightarrow> 144 \<le> byte b)
             \<and> (byte a = 244 \<longrightarrow> byte b < 144) \<and> valid_utf8 s'
         | _ \<Rightarrow> False)
      else False)"

text \<open>\<open>str::is_char_boundary\<close>, and slicing: \<^const>\<open>None\<close> is a panic.\<close>

definition char_boundary :: "string \<Rightarrow> nat \<Rightarrow> bool" where
  "char_boundary s i \<longleftrightarrow> i = length s \<or> (i < length s \<and> \<not> cont (s ! i))"

definition slice :: "string \<Rightarrow> nat \<Rightarrow> nat \<Rightarrow> string option" where
  "slice s i j =
     (if i \<le> j \<and> j \<le> length s \<and> char_boundary s i \<and> char_boundary s j
      then Some (take (j - i) (drop i s)) else None)"

section \<open>Environment and files\<close>

record host_env =
  he_env :: "string \<Rightarrow> string option"
  he_exists :: "string \<Rightarrow> bool"
  he_read_dir :: "string \<Rightarrow> string list option"
  he_run_rustup :: "string \<Rightarrow> (bool \<times> string) option"

text \<open>\<open>env::var\<close>: a value that is not UTF-8 is an error.\<close>

definition env_var :: "host_env \<Rightarrow> string \<Rightarrow> string option" where
  "env_var h k = (case he_env h k of Some v \<Rightarrow> if valid_utf8 v then Some v else None | None \<Rightarrow> None)"

type_synonym files = "(string, string) hash_map"

datatype fs_op = CreateDirAll string | WriteFile string | CreateFile string | OpenFile string

text \<open>
  Whether the host refuses an operation, with the text of its error. \<open>fs::write\<close> and
  \<open>File::create\<close> set the whole content of a file.
\<close>

type_synonym io_errors = "fs_op \<Rightarrow> string option"

definition create_dir_all :: "io_errors \<Rightarrow> string \<Rightarrow> unit app_result" where
  "create_dir_all io p = (case io (CreateDirAll p) of None \<Rightarrow> Inr () | Some _ \<Rightarrow> Inl Internal)"

definition write_file :: "io_errors \<Rightarrow> string \<Rightarrow> string \<Rightarrow> files \<Rightarrow> unit app_result \<times> files" where
  "write_file io p content fs =
     (case io (WriteFile p) of None \<Rightarrow> (Inr (), hm_insert p content fs) | Some _ \<Rightarrow> (Inl Internal, fs))"

definition read_to_string :: "files \<Rightarrow> string \<Rightarrow> string option" where
  "read_to_string fs p =
     (case map_of fs p of Some s \<Rightarrow> if valid_utf8 s then Some s else None | None \<Rightarrow> None)"

definition file_size_bytes :: "files \<Rightarrow> string \<Rightarrow> 64 word" where
  "file_size_bytes fs p = (case map_of fs p of Some s \<Rightarrow> of_nat (length s) | None \<Rightarrow> 0)"

end
