(* ===== verification/Planning.thy ===== *)
theory Planning
  imports Protocol Host
begin

text \<open>
  Execution plans (crates/nexus-runtime/src/planning.rs): a toolchain per language makes a
  recipe of commands for a sandbox kind, the sandbox backend finishes it to a plan, and a
  catalog finds the planner of a language. The host's variables, files and tools are the
  parameter \<open>h\<close>.
\<close>

section \<open>Types\<close>

datatype execution_backend = BkNsjailNative | BkWasmWasi | BkNsjailWasm

record execution_plan =
  pl_language :: string
  pl_execution_backend :: execution_backend
  pl_compile_required :: bool
  pl_source_filename :: string
  pl_executable_filename :: "string option"
  pl_compile_command :: "string list"
  pl_run_command :: "string list"
  pl_sandbox_profile :: string
  pl_seccomp_policy :: string
  pl_readonly_mounts :: "string list"

record command_recipe =
  re_language :: string
  re_compile_required :: bool
  re_source_filename :: string
  re_executable_filename :: "string option"
  re_compile_command :: "string list"
  re_run_command :: "string list"
  re_seccomp_policy :: string
  re_readonly_mounts :: "string list"

text \<open>The traits \<open>LanguageRuntimeSpec\<close>, \<open>LanguageToolchain\<close> and \<open>SandboxBackend\<close>.\<close>

record language_spec =
  ls_key :: string
  ls_build_plan :: "oj_judge_task \<Rightarrow> execution_plan app_result"

record toolchain =
  tl_key :: string
  tl_build_recipe :: "oj_judge_task \<Rightarrow> runtime_sandbox_kind \<Rightarrow> command_recipe app_result"

record sandbox_backend =
  sb_kind :: runtime_sandbox_kind
  sb_profile_name :: string
  sb_execution_backend :: execution_backend

section \<open>Catalog\<close>

type_synonym language_catalog = "(string, language_spec) hash_map"

definition catalog_new :: "language_spec list \<Rightarrow> language_catalog" where
  "catalog_new specs = fold (\<lambda>spec. hm_insert (ls_key spec) spec) specs []"

definition catalog_resolve :: "language_catalog \<Rightarrow> string \<Rightarrow> language_spec option" where
  "catalog_resolve catalog language = map_of catalog language"

section \<open>Backends\<close>

definition finalize_plan :: "sandbox_backend \<Rightarrow> command_recipe \<Rightarrow> execution_plan" where
  "finalize_plan backend recipe =
     \<lparr>pl_language = re_language recipe,
      pl_execution_backend = sb_execution_backend backend,
      pl_compile_required = re_compile_required recipe,
      pl_source_filename = re_source_filename recipe,
      pl_executable_filename = re_executable_filename recipe,
      pl_compile_command = re_compile_command recipe,
      pl_run_command = re_run_command recipe,
      pl_sandbox_profile = sb_profile_name backend,
      pl_seccomp_policy = re_seccomp_policy recipe,
      pl_readonly_mounts = re_readonly_mounts recipe\<rparr>"

definition nsjail_backend :: sandbox_backend where
  "nsjail_backend = \<lparr>sb_kind = RtNsjail, sb_profile_name = ''nsjail'',
     sb_execution_backend = BkNsjailNative\<rparr>"

definition wasm_backend :: sandbox_backend where
  "wasm_backend = \<lparr>sb_kind = RtWasm, sb_profile_name = ''wasm'',
     sb_execution_backend = BkWasmWasi\<rparr>"

definition nsjail_wasm_backend :: sandbox_backend where
  "nsjail_wasm_backend = \<lparr>sb_kind = RtNsjailWasm, sb_profile_name = ''nsjail_wasm'',
     sb_execution_backend = BkNsjailWasm\<rparr>"

text \<open>\<open>RuntimeExecutionPlanner\<close>: its sandboxes, and its plan of a task.\<close>

definition planner_sandboxes :: "(runtime_sandbox_kind, sandbox_backend) hash_map" where
  "planner_sandboxes =
     fold (\<lambda>backend. hm_insert (sb_kind backend) backend)
       [nsjail_backend, wasm_backend, nsjail_wasm_backend] []"

definition planner_build_plan :: "toolchain \<Rightarrow> oj_judge_task \<Rightarrow> execution_plan app_result" where
  "planner_build_plan toolchain task =
     and_then (ok_or (map_of planner_sandboxes (oj_sandbox_kind task))
                (BadRequest ''unsupported sandbox backend'')) (\<lambda>backend.
     and_then (tl_build_recipe toolchain task (oj_sandbox_kind task)) (\<lambda>recipe.
     Inr (finalize_plan backend recipe)))"

definition planner :: "toolchain \<Rightarrow> language_spec" where
  "planner toolchain =
     \<lparr>ls_key = tl_key toolchain, ls_build_plan = planner_build_plan toolchain\<rparr>"

section \<open>Tools of the host\<close>

definition resolve_existing_path :: "host_env \<Rightarrow> string list \<Rightarrow> string option" where
  "resolve_existing_path h candidates = find (he_exists h) candidates"

text \<open>The value of a variable that is set and not blank.\<close>

definition env_override :: "host_env \<Rightarrow> string \<Rightarrow> string option" where
  "env_override h k =
     (case env_var h k of Some value \<Rightarrow> if trim value \<noteq> [] then Some value else None | None \<Rightarrow> None)"

definition resolve_native_cpp_compiler :: "host_env \<Rightarrow> string" where
  "resolve_native_cpp_compiler h =
     (case env_override h ''NEXUS_RUNTIME_CPP_COMPILER'' of
        Some value \<Rightarrow> value
      | None \<Rightarrow> unwrap_or (resolve_existing_path h [''/usr/bin/g++'', ''/bin/g++'']) ''g++'')"

definition resolve_wasi_cpp_compiler :: "host_env \<Rightarrow> string" where
  "resolve_wasi_cpp_compiler h =
     (case env_override h ''NEXUS_RUNTIME_WASI_CXX'' of
        Some value \<Rightarrow> value
      | None \<Rightarrow>
          unwrap_or (resolve_existing_path h
            [''/usr/bin/clang++-17'', ''/bin/clang++-17'', ''/usr/bin/clang++'', ''/bin/clang++''])
            ''clang++'')"

definition resolve_python_runtime :: "host_env \<Rightarrow> string" where
  "resolve_python_runtime h =
     unwrap_or (resolve_existing_path h [''/usr/bin/python3'', ''/bin/python3'']) ''python3''"

definition resolve_rustc_binary :: "host_env \<Rightarrow> string" where
  "resolve_rustc_binary h =
     (case env_override h ''NEXUS_RUNTIME_RUSTC'' of
        Some value \<Rightarrow> value
      | None \<Rightarrow>
          (case he_env h ''HOME'' of
             None \<Rightarrow> ''rustc''
           | Some home \<Rightarrow>
               let candidates =
                 (case he_read_dir h (path_join home ''.rustup/toolchains'') of
                    None \<Rightarrow> []
                  | Some entries \<Rightarrow> map (\<lambda>entry. path_join entry ''bin/rustc'') entries)
               in case find (he_exists h) candidates of
                    Some candidate \<Rightarrow> candidate
                  | None \<Rightarrow>
                      let rustup = path_join home ''.cargo/bin/rustup''
                      in if he_exists h rustup then
                           (case he_run_rustup h rustup of
                              Some (success, stdout) \<Rightarrow>
                                if success \<and> trim stdout \<noteq> [] then trim stdout else ''rustc''
                            | None \<Rightarrow> ''rustc'')
                         else ''rustc''))"

definition resolve_wasi_rust_target :: "host_env \<Rightarrow> string" where
  "resolve_wasi_rust_target h =
     unwrap_or (env_override h ''NEXUS_RUNTIME_WASI_RUST_TARGET'') ''wasm32-wasip1''"

definition resolve_wasmtime_runtime :: "host_env \<Rightarrow> string" where
  "resolve_wasmtime_runtime h =
     (case env_override h ''NEXUS_RUNTIME_WASMTIME'' of
        Some value \<Rightarrow> value
      | None \<Rightarrow>
          let at_home =
            (case he_env h ''HOME'' of
               None \<Rightarrow> None
             | Some home \<Rightarrow>
                 let candidate = path_join home ''.wasmtime/bin/wasmtime''
                 in if he_exists h candidate then Some candidate else None)
          in case at_home of
               Some candidate \<Rightarrow> candidate
             | None \<Rightarrow>
                 unwrap_or (resolve_existing_path h
                   [''/usr/local/bin/wasmtime'', ''/usr/bin/wasmtime'', ''/bin/wasmtime''])
                   ''wasmtime'')"

definition wasi_runtime_mounts :: "host_env \<Rightarrow> string list" where
  "wasi_runtime_mounts h =
     (let wasmtime = resolve_wasmtime_runtime h
      in if \<not> has_root wasmtime then []
         else case path_parent wasmtime of Some parent \<Rightarrow> [parent] | None \<Rightarrow> [])"

definition build_wasmtime_run_command :: "host_env \<Rightarrow> oj_judge_task \<Rightarrow> string list" where
  "build_wasmtime_run_command h task =
     [resolve_wasmtime_runtime h, ''run'', ''-W'',
      ''max-memory-size='' @ show_word (lim_memory_limit_kb (oj_limits task) * 1024),
      ''-W'',
      ''timeout='' @ show_word (max (lim_time_limit_ms (oj_limits task)) 1) @ ''ms'',
      ''main.wasm'']"

definition rustc_mounts :: "host_env \<Rightarrow> string \<Rightarrow> string list" where
  "rustc_mounts h rustc =
     (if \<not> has_root rustc then []
      else
        let root = (case path_parent rustc of Some p \<Rightarrow> path_parent p | None \<Rightarrow> None);
            mounts = (case root of Some toolchain_root \<Rightarrow> [toolchain_root] | None \<Rightarrow> []);
            cargo = (case he_env h ''HOME'' of
                       None \<Rightarrow> []
                     | Some home \<Rightarrow>
                         let cargo_bin = path_join home ''.cargo/bin''
                         in if he_exists h cargo_bin then [cargo_bin] else [])
        in sort_dedup (mounts @ cargo))"

section \<open>Toolchains\<close>

definition cpp_build_recipe ::
    "host_env \<Rightarrow> oj_judge_task \<Rightarrow> runtime_sandbox_kind \<Rightarrow> command_recipe app_result" where
  "cpp_build_recipe h task kind =
     Inr (case kind of
       RtNsjail \<Rightarrow>
         \<lparr>re_language = ''cpp'', re_compile_required = True, re_source_filename = ''main.cpp'',
          re_executable_filename = Some ''main'',
          re_compile_command = [resolve_native_cpp_compiler h, ''-std=c++20'', ''-O2'', ''-pipe'',
            ''-o'', ''main'', ''main.cpp''],
          re_run_command = [''./main''],
          re_seccomp_policy = ''cpp_native_default'', re_readonly_mounts = []\<rparr>
     | _ \<Rightarrow>
         \<lparr>re_language = ''cpp'', re_compile_required = True, re_source_filename = ''main.cpp'',
          re_executable_filename = Some ''main.wasm'',
          re_compile_command = [resolve_wasi_cpp_compiler h, ''--target=wasm32-wasi'',
            ''-std=c++20'', ''-O2'', ''-fno-exceptions'', ''-D_LIBCPP_NO_EXCEPTIONS'', ''-o'',
            ''main.wasm'', ''main.cpp''],
          re_run_command = build_wasmtime_run_command h task,
          re_seccomp_policy = ''wasm_default'', re_readonly_mounts = wasi_runtime_mounts h\<rparr>)"

definition python_build_recipe ::
    "host_env \<Rightarrow> oj_judge_task \<Rightarrow> runtime_sandbox_kind \<Rightarrow> command_recipe app_result" where
  "python_build_recipe h task kind =
     (if kind = RtWasm \<or> kind = RtNsjailWasm
      then Inl (BadRequest ''python does not support wasm sandbox'')
      else Inr
        \<lparr>re_language = ''python'', re_compile_required = False, re_source_filename = ''main.py'',
         re_executable_filename = None, re_compile_command = [],
         re_run_command = [resolve_python_runtime h, ''main.py''],
         re_seccomp_policy = ''python_default'', re_readonly_mounts = []\<rparr>)"

definition rust_build_recipe ::
    "host_env \<Rightarrow> oj_judge_task \<Rightarrow> runtime_sandbox_kind \<Rightarrow> command_recipe app_result" where
  "rust_build_recipe h task kind =
     Inr (let rustc = resolve_rustc_binary h
          in case kind of
       RtNsjail \<Rightarrow>
         \<lparr>re_language = ''rust'', re_compile_required = True, re_source_filename = ''main.rs'',
          re_executable_filename = Some ''main'',
          re_compile_command = [rustc, ''-O'', ''-C'', ''linker=/usr/bin/cc'', ''-C'',
            ''link-arg=-fuse-ld=bfd'', ''-o'', ''main'', ''main.rs''],
          re_run_command = [''./main''],
          re_seccomp_policy = ''rust_native_default'', re_readonly_mounts = rustc_mounts h rustc\<rparr>
     | _ \<Rightarrow>
         \<lparr>re_language = ''rust'', re_compile_required = True, re_source_filename = ''main.rs'',
          re_executable_filename = Some ''main.wasm'',
          re_compile_command = [rustc, ''--target'', resolve_wasi_rust_target h, ''-O'', ''-o'',
            ''main.wasm'', ''main.rs''],
          re_run_command = build_wasmtime_run_command h task,
          re_seccomp_policy = ''wasm_default'',
          re_readonly_mounts = sort_dedup (rustc_mounts h rustc @ wasi_runtime_mounts h)\<rparr>)"

definition cpp_toolchain :: "host_env \<Rightarrow> toolchain" where
  "cpp_toolchain h = \<lparr>tl_key = ''cpp'', tl_build_recipe = cpp_build_recipe h\<rparr>"

definition python_toolchain :: "host_env \<Rightarrow> toolchain" where
  "python_toolchain h = \<lparr>tl_key = ''python'', tl_build_recipe = python_build_recipe h\<rparr>"

definition rust_toolchain :: "host_env \<Rightarrow> toolchain" where
  "rust_toolchain h = \<lparr>tl_key = ''rust'', tl_build_recipe = rust_build_recipe h\<rparr>"

definition build_default_runtime_catalog :: "host_env \<Rightarrow> language_catalog" where
  "build_default_runtime_catalog h =
     catalog_new [planner (cpp_toolchain h), planner (python_toolchain h), planner (rust_toolchain h)]"

section \<open>Plans\<close>

lemma planner_sandboxes_simps:
  "map_of planner_sandboxes k = Some
     (case k of RtNsjail \<Rightarrow> nsjail_backend | RtWasm \<Rightarrow> wasm_backend | RtNsjailWasm \<Rightarrow> nsjail_wasm_backend)"
  by (cases k) (simp_all add: planner_sandboxes_def nsjail_backend_def wasm_backend_def
      nsjail_wasm_backend_def)

lemmas recipe_defs = cpp_build_recipe_def python_build_recipe_def rust_build_recipe_def

lemma default_catalog:
  "catalog_resolve (build_default_runtime_catalog h) l =
     (if l = ''cpp'' then Some (planner (cpp_toolchain h))
      else if l = ''python'' then Some (planner (python_toolchain h))
      else if l = ''rust'' then Some (planner (rust_toolchain h)) else None)"
  by (simp add: catalog_resolve_def build_default_runtime_catalog_def catalog_new_def planner_def
      cpp_toolchain_def python_toolchain_def rust_toolchain_def)

text \<open>The sandbox a plan must run in, and the policy that goes with it.\<close>

definition kind_backend :: "runtime_sandbox_kind \<Rightarrow> execution_backend" where
  "kind_backend k = (case k of RtNsjail \<Rightarrow> BkNsjailNative | RtWasm \<Rightarrow> BkWasmWasi | RtNsjailWasm \<Rightarrow> BkNsjailWasm)"

definition plan_ok :: "string \<Rightarrow> runtime_sandbox_kind \<Rightarrow> execution_plan \<Rightarrow> bool" where
  "plan_ok language kind p \<longleftrightarrow>
     pl_language p = language \<and>
     pl_execution_backend p = kind_backend kind \<and>
     pl_run_command p \<noteq> [] \<and>
     (pl_compile_required p = (pl_compile_command p \<noteq> [])) \<and>
     (pl_compile_required p = (pl_executable_filename p \<noteq> None)) \<and>
     (case pl_executable_filename p of
        None \<Rightarrow> last (pl_run_command p) = pl_source_filename p
      | Some exe \<Rightarrow> (last (pl_run_command p) = exe \<or> last (pl_run_command p) = ''./'' @ exe) \<and>
          exe \<in> set (pl_compile_command p) \<and> last (pl_compile_command p) = pl_source_filename p) \<and>
     pl_seccomp_policy p =
       (if kind \<noteq> RtNsjail then ''wasm_default''
        else if language = ''python'' then ''python_default'' else language @ ''_native_default'')"

lemma planner_plan_ok:
  assumes "tool \<in> set [cpp_toolchain h, python_toolchain h, rust_toolchain h]"
    and "planner_build_plan tool task = Inr p"
  shows "plan_ok (tl_key tool) (oj_sandbox_kind task) p"
  using assms
  by (cases "oj_sandbox_kind task")
    (auto simp: planner_build_plan_def planner_sandboxes_simps finalize_plan_def plan_ok_def
      cpp_toolchain_def python_toolchain_def rust_toolchain_def recipe_defs kind_backend_def
      nsjail_backend_def wasm_backend_def nsjail_wasm_backend_def build_wasmtime_run_command_def
      Let_def)

lemma planner_error:
  assumes "tool \<in> set [cpp_toolchain h, python_toolchain h, rust_toolchain h]"
    and "planner_build_plan tool task = Inl e"
  shows "tl_key tool = ''python'' \<and> oj_sandbox_kind task \<noteq> RtNsjail \<and>
    e = BadRequest ''python does not support wasm sandbox''"
  using assms
  by (cases "oj_sandbox_kind task")
    (auto simp: planner_build_plan_def planner_sandboxes_simps and_then_Inl_iff
      cpp_toolchain_def python_toolchain_def rust_toolchain_def recipe_defs split: if_splits)

text \<open>The default catalog knows exactly C++, Python and Rust. A plan it makes runs what it
  compiles (or the source itself, when nothing is compiled), in the sandbox the task asks for
  and under the policy of its language; the only plan it refuses is Python in a wasm sandbox.\<close>

theorem default_catalog_plans:
  "case catalog_resolve (build_default_runtime_catalog h) (oj_language task) of
     None \<Rightarrow> oj_language task \<notin> {''cpp'', ''python'', ''rust''}
   | Some spec \<Rightarrow>
       (case ls_build_plan spec task of
          Inr p \<Rightarrow> plan_ok (oj_language task) (oj_sandbox_kind task) p
        | Inl e \<Rightarrow> oj_language task = ''python'' \<and> oj_sandbox_kind task \<noteq> RtNsjail \<and>
            e = BadRequest ''python does not support wasm sandbox'')"
proof -
  have plan: "case ls_build_plan (planner tool) task of
      Inr p \<Rightarrow> plan_ok (tl_key tool) (oj_sandbox_kind task) p
    | Inl e \<Rightarrow> tl_key tool = ''python'' \<and> oj_sandbox_kind task \<noteq> RtNsjail \<and>
        e = BadRequest ''python does not support wasm sandbox''"
    if "tool \<in> set [cpp_toolchain h, python_toolchain h, rust_toolchain h]" for tool
    using planner_plan_ok [OF that] planner_error [OF that]
    by (simp add: planner_def split: sum.split)
  have keys: "tl_key (cpp_toolchain h) = ''cpp''" "tl_key (python_toolchain h) = ''python''"
    "tl_key (rust_toolchain h) = ''rust''"
    by (simp_all add: cpp_toolchain_def python_toolchain_def rust_toolchain_def)
  show ?thesis
    using plan [of "cpp_toolchain h", unfolded keys] plan [of "python_toolchain h", unfolded keys]
      plan [of "rust_toolchain h", unfolded keys]
    by (auto simp: default_catalog split: option.splits if_splits sum.splits)
qed

end
