(* ===== verification/Sandbox.thy ===== *)
theory Sandbox
  imports Seccomp Planning
begin

text \<open>
  The command lines of a stage (executor.rs): inside nsjail, or direct under \<open>timeout\<close> and
  \<open>prlimit\<close>. Paths under the work directory are named as the jail sees them.
\<close>

definition path_in_jail :: "string \<Rightarrow> string \<Rightarrow> string" where
  "path_in_jail work_dir path =
     (if has_root path then
        (case path_strip_prefix path work_dir of Some relative \<Rightarrow> sep # relative | None \<Rightarrow> path)
      else path)"

text \<open>Multiplication and addition of \<open>u64\<close> wrap in a release build.\<close>

definition wasm_runtime_host_memory_bytes :: "u64 \<Rightarrow> u64" where
  "wasm_runtime_host_memory_bytes memory_limit_kb =
     max (memory_limit_kb * 1024 * 8) (8 * 1024 * 1024 * 1024)"

definition jail_mounts :: "host_env \<Rightarrow> string list \<Rightarrow> string list" where
  "jail_mounts h mounts = concat (map (\<lambda>m. [''-R'', m]) (filter (he_exists h) mounts))"

definition wrap_with_nsjail ::
    "host_env \<Rightarrow> string \<Rightarrow> string \<Rightarrow> string list \<Rightarrow> string \<Rightarrow> seccomp_mode \<Rightarrow> u64 \<Rightarrow> u64 \<Rightarrow> u32 \<Rightarrow>
       string list \<Rightarrow> string list" where
  "wrap_with_nsjail h nsjail_path work_dir command seccomp_string seccomp_mode time_limit_sec
       memory_limit_bytes pids_limit extra_ro_mounts =
     [nsjail_path, ''-Mo'', ''-Q'', ''--chroot'', work_dir, ''--user'', ''65534'', ''--group'',
      ''65534'', ''--rw'', ''--cwd'', ''/''] @
     jail_mounts h [''/lib'', ''/lib64'', ''/usr'', ''/bin'', ''/etc/alternatives''] @
     jail_mounts h extra_ro_mounts @
     [''-T'', ''/dev'', ''-T'', ''/tmp'', ''--use_cgroupv2'',
      ''--time_limit'', show_word time_limit_sec,
      ''--cgroup_mem_max'', show_word memory_limit_bytes,
      ''--rlimit_as'', show_word (max (memory_limit_bytes div 1024 div 1024) 1),
      ''--cgroup_pids_max'', show_word pids_limit,
      ''--rlimit_stack'', ''64'', ''--rlimit_fsize'', ''32'',
      ''--seccomp_string'', seccomp_string] @
     (if seccomp_mode = SmLog then [''--seccomp_log''] else []) @
     [''--'', ''/usr/bin/env'', ''-i'', ''PATH=/usr/bin:/bin:/usr/sbin:/sbin'', ''HOME=/tmp'',
      ''TMPDIR=/tmp''] @
     map (path_in_jail work_dir) command"

definition wrap_direct_command :: "string list \<Rightarrow> direct_command_limits \<Rightarrow> string list" where
  "wrap_direct_command command limits =
     [''/usr/bin/timeout'', ''--signal=KILL'', show_word (dl_time_limit_sec limits) @ ''s'',
      ''/usr/bin/prlimit'', ''--cpu='' @ show_word (dl_time_limit_sec limits)] @
     (case dl_memory_limit_bytes limits of Some b \<Rightarrow> [''--as='' @ show_word b] | None \<Rightarrow> []) @
     (case dl_pids_limit limits of Some p \<Rightarrow> [''--nproc='' @ show_word p] | None \<Rightarrow> []) @
     [''--fsize='' @ show_word (dl_file_size_bytes limits), ''--''] @
     command"

text \<open>\<open>div_ceil\<close>, and the seconds a run may take.\<close>

definition div_ceil :: "u64 \<Rightarrow> u64 \<Rightarrow> u64" where
  "div_ceil a b = (if a mod b = 0 then a div b else a div b + 1)"

definition run_time_limit_sec :: "u64 \<Rightarrow> u64" where
  "run_time_limit_sec time_limit_ms = max (div_ceil time_limit_ms 1000) 1 + 1"

section \<open>Lemmas\<close>

lemma nat_div_ceil_1000:
  "((n :: nat) + 999) div 1000 = (if n mod 1000 = 0 then n div 1000 else n div 1000 + 1)"
proof -
  define q r where "q = n div 1000" and "r = n mod 1000"
  have n: "n = 1000 * q + r" and r: "r < 1000" by (simp_all add: q_def r_def)
  show ?thesis
  proof (cases "r = 0")
    case True
    then have "(n + 999) div 1000 = q" unfolding n by (intro div_nat_eqI) simp_all
    with True show ?thesis by (simp add: q_def r_def)
  next
    case False
    then have "(n + 999) div 1000 = q + 1" unfolding n using r by (intro div_nat_eqI) simp_all
    with False show ?thesis by (simp add: q_def r_def)
  qed
qed

lemma unat_div_ceil_1000: "unat (div_ceil a 1000) = (unat a + 999) div 1000"
proof -
  have a: "unat a < 2 ^ 64" using unsigned_less [of a, where 'a = nat] by simp
  have d: "unat (a div 1000) = unat a div 1000" by (simp add: unat_div)
  have "unat (a div 1000) + unat (1 :: u64) < 2 ^ LENGTH(64)"
    unfolding d using a div_le_dividend [of "unat a" 1000] by simp
  then have s: "unat (a div 1000 + 1) = unat a div 1000 + 1"
    using unat_add_lem [of "a div 1000" 1] d by simp
  have m: "a mod 1000 = 0 \<longleftrightarrow> unat a mod 1000 = 0"
    by (simp add: word_unat_eq_iff unat_mod)
  show ?thesis unfolding nat_div_ceil_1000 div_ceil_def m using s d by simp
qed

lemma takeWhile_stop: "\<not> P y \<Longrightarrow> takeWhile P (xs @ y # ys) = takeWhile P xs"
  by (induction xs) auto

lemma dropWhile_stop: "\<not> P y \<Longrightarrow> dropWhile P (xs @ y # ys) = dropWhile P xs @ y # ys"
  by (induction xs) auto

lemma trim_left_comps_Cons:
  "trim_left_comps (c # q) = (if c = sep \<or> starts_cur_dir (c # q) then trim_left_comps q else c # q)"
  by (subst trim_left_comps.simps) simp

lemma trim_left_comps_Nil [simp]: "trim_left_comps [] = []"
  by (subst trim_left_comps.simps) simp

lemma starts_cur_dir_append:
  "s \<noteq> [] \<Longrightarrow> starts_cur_dir (s @ sep # t) = starts_cur_dir s"
  by (cases s) (auto simp: starts_cur_dir_def hd_append)

text \<open>Skipped components before a separator do not matter.\<close>

lemma trim_left_comps_skipped:
  "trim_left_comps u = [] \<Longrightarrow> trim_left_comps (u @ sep # t) = trim_left_comps t"
proof (induction u)
  case (Cons c q)
  then show ?case using starts_cur_dir_append [of "c # q" t]
    by (auto simp: trim_left_comps_Cons split: if_splits)
qed (simp add: trim_left_comps_Cons)

lemma trim_left_comps_append:
  "trim_left_comps s \<noteq> [] \<Longrightarrow> trim_left_comps (s @ sep # t) = trim_left_comps s @ sep # t"
proof (induction s)
  case (Cons c q)
  then show ?case using starts_cur_dir_append [of "c # q" t]
    by (auto simp: trim_left_comps_Cons split: if_splits)
qed simp

lemma strip_names_append:
  "\<exists>u. trim_left_comps u = [] \<and> strip_names (body_names s) (s @ sep # t) = Some (u @ sep # t)"
proof (induction s rule: body_names.induct)
  case (1 s)
  show ?case
  proof (cases "trim_left_comps s = []")
    case True
    then show ?thesis by (subst body_names.simps) auto
  next
    case False
    let ?s = "trim_left_comps s"
    have names: "body_names s = takeWhile (\<lambda>c. c \<noteq> sep) ?s # body_names (dropWhile (\<lambda>c. c \<noteq> sep) ?s)"
      using False by (subst body_names.simps) (simp add: Let_def)
    have "trim_left_comps (s @ sep # t) = ?s @ sep # t"
      by (rule trim_left_comps_append [OF False])
    then show ?thesis
      using 1 [OF refl False] False unfolding names
      by (simp add: Let_def takeWhile_stop dropWhile_stop)
  qed
qed

text \<open>A path that \<open>trim_left\<close> and \<open>trim_right\<close> leave alone.\<close>

definition clean :: "string \<Rightarrow> bool" where
  "clean t \<longleftrightarrow> t \<noteq> [] \<and> trim_left_comps t = t \<and> trim_right_comps t = t"

lemma path_in_jail_below:
  assumes "has_root w" and "clean t"
  shows "path_in_jail w (w @ sep # t) = sep # t"
proof -
  from assms(1) obtain v where w: "w = sep # v" by (auto simp: has_root_def split: list.splits)
  have root: "has_root w" "has_root (w @ sep # t)" "path_body w = v"
    "path_body (w @ sep # t) = v @ sep # t" "\<not> starts_cur_dir w" "\<not> starts_cur_dir (w @ sep # t)"
    by (simp_all add: w has_root_def path_body_def starts_cur_dir_def)
  obtain u where u: "trim_left_comps u = []"
    "strip_names (body_names v) (v @ sep # t) = Some (u @ sep # t)"
    using strip_names_append by blast
  have "trim_right_comps (trim_left_comps (u @ sep # t)) = t"
    using trim_left_comps_skipped [OF u(1), of t] assms(2) by (simp add: clean_def)
  then have "path_strip_prefix (w @ sep # t) w = Some t"
    using root u(2) by (simp add: path_strip_prefix_def)
  then show ?thesis using root by (simp add: path_in_jail_def)
qed

lemma split_last_append:
  assumes "sep \<notin> set n"
  shows "split_last (x @ sep # n) = (x, n)"
proof -
  have "takeWhile (\<lambda>c. c \<noteq> sep) (rev (x @ sep # n)) = rev n"
    using assms by (auto simp: takeWhile_stop takeWhile_eq_all_conv)
  then show ?thesis by (simp add: split_last_def)
qed

lemma trim_right_comps_append:
  "sep \<notin> set n \<Longrightarrow> \<not> is_skipped n \<Longrightarrow> trim_right_comps (x @ sep # n) = x @ sep # n"
  by (subst trim_right_comps.simps) (simp add: split_last_append)

lemma trim_left_comps_first:
  "s \<noteq> [] \<Longrightarrow> hd s \<noteq> sep \<Longrightarrow> hd s \<noteq> CHR ''.'' \<Longrightarrow> trim_left_comps s = s"
  by (subst trim_left_comps.simps) (auto simp: starts_cur_dir_def split: list.splits)

lemma clean_append:
  "x \<noteq> [] \<Longrightarrow> hd x \<noteq> sep \<Longrightarrow> hd x \<noteq> CHR ''.'' \<Longrightarrow> sep \<notin> set n \<Longrightarrow> \<not> is_skipped n \<Longrightarrow>
     clean (x @ sep # n)"
  by (simp add: clean_def trim_left_comps_first trim_right_comps_append)

section \<open>Properties\<close>

text \<open>The jail's wall clock never ends a run before the task's own limit does: its whole
  seconds exceed the limit in milliseconds by at least one second and at most two, for every
  64-bit limit and without wrap-around.\<close>

theorem jail_clock_outlasts_limit:
  "unat limit_ms + 1000 \<le> 1000 * unat (run_time_limit_sec limit_ms) \<and>
   1000 * unat (run_time_limit_sec limit_ms) \<le> unat limit_ms + 2000"
proof -
  have a: "unat limit_ms < 2 ^ 64" using unsigned_less [of limit_ms, where 'a = nat] by simp
  let ?m = "max (div_ceil limit_ms 1000) 1"
  have m: "unat ?m = max ((unat limit_ms + 999) div 1000) 1"
    by (simp add: max_def word_le_nat_alt unat_div_ceil_1000)
  then have "unat ?m + unat (1 :: u64) < 2 ^ LENGTH(64)" using a by simp
  then have "unat (run_time_limit_sec limit_ms) = max ((unat limit_ms + 999) div 1000) 1 + 1"
    using unat_add_lem [of ?m 1] m by (simp add: run_time_limit_sec_def)
  then show ?thesis by (simp add: max_def) arith
qed

end
