(* ===== verification/Prepare.thy ===== *)
theory Prepare
  imports Sandbox
begin

text \<open>
  The worker's preparation of a task (executor.rs): validation, simulation, and the work
  directory with the source, the test cases, the stages and the manifest. The file contents
  are the state; the id generator (Ulid) and the JSON printer are parameters.
\<close>

section \<open>Types\<close>

record runtime_worker =
  wk_catalog :: language_catalog
  wk_work_root :: string
  wk_nsjail_path :: string
  wk_seccomp_mode :: seccomp_mode
  wk_syscall_profile :: syscall_profile

definition runtime_worker_new ::
    "host_platform \<Rightarrow> language_catalog \<Rightarrow> string \<Rightarrow> string \<Rightarrow> seccomp_mode \<Rightarrow> syscall_flavor \<Rightarrow>
       syscall_arch \<Rightarrow> runtime_worker" where
  "runtime_worker_new host catalog work_root nsjail_path mode flavor arch =
     \<lparr>wk_catalog = catalog, wk_work_root = work_root, wk_nsjail_path = nsjail_path,
      wk_seccomp_mode = mode,
      wk_syscall_profile = resolve_runtime_syscall_profile host flavor arch\<rparr>"

datatype execution_status = ExSimulated
datatype case_execution_status = CeQueued

record execution_profile =
  ep_language :: string
  ep_judge_mode :: string
  ep_testcase_count :: nat
  ep_total_score :: u32
  ep_time_limit_ms :: u64
  ep_memory_limit_kb :: u64

record case_simulation_result =
  cr_case_no :: u32
  cr_status :: case_execution_status
  cr_score :: u32
  cr_message :: string

record simulation_report =
  sr_execution_id :: string
  sr_task_id :: string
  sr_status :: execution_status
  sr_profile :: execution_profile
  sr_plan :: execution_plan
  sr_case_results :: "case_simulation_result list"
  sr_message :: string

text \<open>The host as the worker sees it, and the values it draws from libraries.\<close>

datatype json = JNull | JBool bool | JNum nat | JStr string | JArr "json list"
  | JObj "(string \<times> json) list"

record worker_host =
  wh_env :: host_env
  wh_io :: io_errors
  wh_ulid :: string
  wh_to_vec_pretty :: "json \<Rightarrow> string option"

section \<open>Validation\<close>

fun check_case_nos :: "u32 list \<Rightarrow> runtime_testcase list \<Rightarrow> unit app_result" where
  "check_case_nos seen [] = Inr ()"
| "check_case_nos seen (testcase # rest) =
     (if tc_case_no testcase \<in> set seen
      then Inl (BadRequest (''duplicate runtime testcase case_no: '' @ show_word (tc_case_no testcase)))
      else check_case_nos (tc_case_no testcase # seen) rest)"

definition fail_if :: "bool \<Rightarrow> string \<Rightarrow> unit app_result" where
  "fail_if c message = (if c then Inl (BadRequest message) else Inr ())"

definition validate_oj_task :: "oj_judge_task \<Rightarrow> unit app_result" where
  "validate_oj_task payload =
     and_then (fail_if (trim (oj_source_code payload) = [])
       ''runtime task source_code must not be empty'') (\<lambda>_.
     and_then (fail_if (lim_time_limit_ms (oj_limits payload) = 0)
       ''runtime task time_limit_ms must be greater than zero'') (\<lambda>_.
     and_then (fail_if (lim_memory_limit_kb (oj_limits payload) = 0)
       ''runtime task memory_limit_kb must be greater than zero'') (\<lambda>_.
     and_then (fail_if (oj_testcases payload = [])
       ''runtime task must contain at least one testcase'') (\<lambda>_.
     and_then (check_case_nos [] (oj_testcases payload)) (\<lambda>_.
     and_then (fail_if (oj_judge_mode payload = RtFunctional
         \<and> \<not> is_some_and (oj_judge_config payload) (\<lambda>c. jc_function_signature c \<noteq> None))
       ''functional runtime task requires function_signature'') (\<lambda>_.
     fail_if ((oj_sandbox_kind payload = RtWasm \<or> oj_sandbox_kind payload = RtNsjailWasm)
         \<and> is_some_and (oj_judge_config payload) (\<lambda>c. jc_judge_method c = RtSpj))
       ''wasm sandbox currently supports validator-based judging only''))))))"

section \<open>Simulation\<close>

definition judge_mode_name :: "runtime_judge_mode \<Rightarrow> string" where
  "judge_mode_name m = (case m of RtAcm \<Rightarrow> ''acm'' | RtFunctional \<Rightarrow> ''functional'')"

definition build_task_plan :: "runtime_worker \<Rightarrow> oj_judge_task \<Rightarrow> execution_plan app_result" where
  "build_task_plan w payload =
     and_then (ok_or (catalog_resolve (wk_catalog w) (oj_language payload))
       (BadRequest (''unsupported runtime language: '' @ oj_language payload))) (\<lambda>spec.
     ls_build_plan spec payload)"

definition simulate_oj_task ::
    "runtime_worker \<Rightarrow> worker_host \<Rightarrow> string \<Rightarrow> oj_judge_task \<Rightarrow> simulation_report app_result" where
  "simulate_oj_task w h task_id payload =
     and_then (validate_oj_task payload) (\<lambda>_.
     and_then (build_task_plan w payload) (\<lambda>plan.
     Inr \<lparr>sr_execution_id = ''rt-'' @ wh_ulid h, sr_task_id = task_id, sr_status = ExSimulated,
          sr_profile =
            \<lparr>ep_language = oj_language payload,
             ep_judge_mode = judge_mode_name (oj_judge_mode payload),
             ep_testcase_count = length (oj_testcases payload),
             ep_total_score = sum_list (map tc_score (oj_testcases payload)),
             ep_time_limit_ms = lim_time_limit_ms (oj_limits payload),
             ep_memory_limit_kb = lim_memory_limit_kb (oj_limits payload)\<rparr>,
          sr_plan = plan,
          sr_case_results = map (\<lambda>testcase.
            \<lparr>cr_case_no = tc_case_no testcase, cr_status = CeQueued, cr_score = tc_score testcase,
             cr_message = ''testcase #'' @ show_word (tc_case_no testcase) @
               '' queued for simulated execution''\<rparr>) (oj_testcases payload),
          sr_message = ''runtime simulation completed; task is ready for real execution''\<rparr>))"

definition simulate ::
    "runtime_worker \<Rightarrow> worker_host \<Rightarrow> runtime_task \<Rightarrow> simulation_report app_result" where
  "simulate w h task =
     (case rt_payload task of PayloadOjJudge payload \<Rightarrow> simulate_oj_task w h (rt_task_id task) payload)"

section \<open>Test case directories\<close>

definition prepare_testcase_dir ::
    "worker_host \<Rightarrow> string \<Rightarrow> runtime_testcase \<Rightarrow> files \<Rightarrow> prepared_case_dir app_result \<times> files" where
  "prepare_testcase_dir h work_dir testcase fs =
     (let case_dir = path_join (path_join work_dir ''cases'')
            (''case_'' @ zero_pad 3 (show_word (tc_case_no testcase)));
          input_path = path_join case_dir ''input.txt'';
          answer_path = path_join case_dir ''answer.txt'';
          output_path = path_join case_dir ''output.txt'';
          err_path = path_join case_dir ''err.txt''
      in st_then (create_dir_all (wh_io h) case_dir, fs) (\<lambda>_ fs.
         st_then (write_file (wh_io h) input_path (tc_input testcase) fs) (\<lambda>_ fs.
         st_then (write_file (wh_io h) answer_path (tc_expected_output testcase) fs) (\<lambda>_ fs.
         st_then (write_file (wh_io h) output_path [] fs) (\<lambda>_ fs.
         st_then (write_file (wh_io h) err_path [] fs) (\<lambda>_ fs.
         (Inr \<lparr>cd_case_no = tc_case_no testcase, cd_score = tc_score testcase,
               cd_directory = case_dir, cd_input_path = input_path, cd_answer_path = answer_path,
               cd_output_path = output_path, cd_stderr_path = err_path\<rparr>, fs)))))))"

section \<open>Stages\<close>

definition build_compile_stage ::
    "runtime_worker \<Rightarrow> host_env \<Rightarrow> string \<Rightarrow> execution_plan \<Rightarrow> prepared_stage" where
  "build_compile_stage w h work_dir plan =
     (let seccomp = compiler_seccomp_policy_string (wk_syscall_profile w);
          command =
            (case pl_execution_backend plan of
               BkNsjailNative \<Rightarrow>
                 wrap_with_nsjail h (wk_nsjail_path w) work_dir (pl_compile_command plan) seccomp
                   SmLog 30 (1024 * 1024 * 1024) 1024 (pl_readonly_mounts plan)
             | BkWasmWasi \<Rightarrow>
                 wrap_direct_command (pl_compile_command plan)
                   \<lparr>dl_time_limit_sec = 30, dl_memory_limit_bytes = Some (1024 * 1024 * 1024),
                    dl_pids_limit = Some 1024, dl_file_size_bytes = 32 * 1024 * 1024\<rparr>
             | BkNsjailWasm \<Rightarrow>
                 wrap_with_nsjail h (wk_nsjail_path w) work_dir (pl_compile_command plan) seccomp
                   SmLog 30 (2 * 1024 * 1024 * 1024) 4096 (pl_readonly_mounts plan))
      in \<lparr>ps_stage_name = ''compile'', ps_score = 0, ps_command = command,
          ps_working_directory = work_dir, ps_stdin_path = None, ps_time_limit_ms = 30000,
          ps_memory_limit_kb = Some
            (if pl_execution_backend plan = BkNsjailWasm then 2 * 1024 * 1024 else 1024 * 1024),
          ps_output_limit_bytes = 32 * 1024 * 1024,
          ps_stdout_path = path_join work_dir ''compile.stdout'',
          ps_stderr_path = path_join work_dir ''compile.stderr'',
          ps_readonly_mounts = pl_readonly_mounts plan\<rparr>)"

definition build_run_stage ::
    "runtime_worker \<Rightarrow> host_env \<Rightarrow> string \<Rightarrow> execution_plan \<Rightarrow> oj_judge_task \<Rightarrow> prepared_case_dir \<Rightarrow>
       prepared_stage" where
  "build_run_stage w h work_dir plan payload case_dir =
     (let seccomp = seccomp_policy_string_with_mode_for_profile (pl_seccomp_policy plan)
            (wk_seccomp_mode w) (wk_syscall_profile w);
          time_sec = run_time_limit_sec (lim_time_limit_ms (oj_limits payload));
          memory_kb = lim_memory_limit_kb (oj_limits payload);
          command =
            (case pl_execution_backend plan of
               BkNsjailNative \<Rightarrow>
                 wrap_with_nsjail h (wk_nsjail_path w) work_dir (pl_run_command plan) seccomp
                   (wk_seccomp_mode w) time_sec (memory_kb * 1024) 64 []
             | BkWasmWasi \<Rightarrow>
                 wrap_direct_command (pl_run_command plan)
                   \<lparr>dl_time_limit_sec = time_sec, dl_memory_limit_bytes = None,
                    dl_pids_limit = None, dl_file_size_bytes = 32 * 1024 * 1024\<rparr>
             | BkNsjailWasm \<Rightarrow>
                 wrap_with_nsjail h (wk_nsjail_path w) work_dir (pl_run_command plan) seccomp
                   (wk_seccomp_mode w) time_sec (wasm_runtime_host_memory_bytes memory_kb) 1024
                   (pl_readonly_mounts plan))
      in \<lparr>ps_stage_name = ''run_case_'' @ show_word (cd_case_no case_dir),
          ps_score = cd_score case_dir, ps_command = command, ps_working_directory = work_dir,
          ps_stdin_path = Some (cd_input_path case_dir),
          ps_time_limit_ms = lim_time_limit_ms (oj_limits payload),
          ps_memory_limit_kb = Some memory_kb,
          ps_output_limit_bytes = 32 * 1024 * 1024,
          ps_stdout_path = cd_output_path case_dir, ps_stderr_path = cd_stderr_path case_dir,
          ps_readonly_mounts = []\<rparr>)"

section \<open>Special judge\<close>

record spj_execution_spec =
  sx_language :: string
  sx_source_filename :: string
  sx_compile_command :: "string list option"
  sx_run_command :: "string list"
  sx_readonly_mounts :: "string list"

definition build_spj_execution_spec ::
    "host_env \<Rightarrow> runtime_spj_config \<Rightarrow> spj_execution_spec app_result" where
  "build_spj_execution_spec h spj =
     (let l = spj_language spj
      in if l = ''python'' \<or> l = ''python3'' then
        Inr \<lparr>sx_language = ''python'', sx_source_filename = ''spj.py'', sx_compile_command = None,
             sx_run_command = [resolve_python_runtime h, ''spj.py''], sx_readonly_mounts = []\<rparr>
      else if l = ''rust'' then
        let rustc = resolve_rustc_binary h
        in Inr \<lparr>sx_language = ''rust'', sx_source_filename = ''spj.rs'',
                sx_compile_command = Some [rustc, ''-O'', ''-C'', ''linker=/usr/bin/cc'', ''-C'',
                  ''link-arg=-fuse-ld=bfd'', ''-o'', ''spj.exe'', ''spj.rs''],
                sx_run_command = [''./spj.exe''], sx_readonly_mounts = rustc_mounts h rustc\<rparr>
      else if l = ''cpp'' \<or> l = ''c++'' then
        Inr \<lparr>sx_language = ''cpp'', sx_source_filename = ''spj.cpp'',
             sx_compile_command = Some [resolve_native_cpp_compiler h, ''-std=c++20'', ''-O2'',
               ''-pipe'', ''-o'', ''spj.exe'', ''spj.cpp''],
             sx_run_command = [''./spj.exe''], sx_readonly_mounts = []\<rparr>
      else Inl (BadRequest (''unsupported spj language: '' @ l)))"

definition spj_compile_stage ::
    "runtime_worker \<Rightarrow> host_env \<Rightarrow> string \<Rightarrow> spj_execution_spec \<Rightarrow> string list \<Rightarrow> prepared_stage" where
  "spj_compile_stage w h work_dir spec command =
     \<lparr>ps_stage_name = ''spj_compile'', ps_score = 0,
      ps_command = wrap_with_nsjail h (wk_nsjail_path w) work_dir command
        (compiler_seccomp_policy_string (wk_syscall_profile w)) SmLog 30 (1024 * 1024 * 1024) 1024
        (sx_readonly_mounts spec),
      ps_working_directory = work_dir, ps_stdin_path = None, ps_time_limit_ms = 30000,
      ps_memory_limit_kb = Some (1024 * 1024), ps_output_limit_bytes = 32 * 1024 * 1024,
      ps_stdout_path = path_join work_dir ''spj_compile.stdout'',
      ps_stderr_path = path_join work_dir ''spj_compile.stderr'',
      ps_readonly_mounts = sx_readonly_mounts spec\<rparr>"

definition build_spj_artifacts ::
    "runtime_worker \<Rightarrow> worker_host \<Rightarrow> string \<Rightarrow> runtime_judge_config option \<Rightarrow> files \<Rightarrow>
       prepared_spj_artifacts option app_result \<times> files" where
  "build_spj_artifacts w h work_dir judge_config fs =
     (case judge_config of
        None \<Rightarrow> (Inr None, fs)
      | Some config \<Rightarrow>
          if jc_judge_method config \<noteq> RtSpj then (Inr None, fs)
          else
            st_then (ok_or (jc_spj config) (BadRequest ''spj judge requires spj config''), fs)
              (\<lambda>spj fs.
            st_then (build_spj_execution_spec (wh_env h) spj, fs) (\<lambda>spec fs.
            let source_path = path_join work_dir (sx_source_filename spec)
            in st_then (write_file (wh_io h) source_path (spj_source_code spj) fs) (\<lambda>_ fs.
               (Inr (Some
                 \<lparr>sa_language = sx_language spec, sa_source_path = source_path,
                  sa_readonly_mounts = sx_readonly_mounts spec,
                  sa_compile_stage = map_option (spj_compile_stage w (wh_env h) work_dir spec)
                    (sx_compile_command spec),
                  sa_run_command = sx_run_command spec\<rparr>), fs)))))"

section \<open>The manifest\<close>

definition json_strings :: "string list \<Rightarrow> json" where
  "json_strings xs = JArr (map JStr xs)"

definition json_word :: "'a::len word \<Rightarrow> json" where
  "json_word n = JNum (unat n)"

definition json_backend :: "execution_backend \<Rightarrow> json" where
  "json_backend b = JStr (case b of
     BkNsjailNative \<Rightarrow> ''nsjail_native'' | BkWasmWasi \<Rightarrow> ''wasm_wasi'' | BkNsjailWasm \<Rightarrow> ''nsjail_wasm'')"

definition json_plan :: "execution_plan \<Rightarrow> json" where
  "json_plan p = JObj
     [(''language'', JStr (pl_language p)),
      (''execution_backend'', json_backend (pl_execution_backend p)),
      (''compile_required'', JBool (pl_compile_required p)),
      (''source_filename'', JStr (pl_source_filename p)),
      (''executable_filename'', case pl_executable_filename p of None \<Rightarrow> JNull | Some e \<Rightarrow> JStr e),
      (''compile_command'', json_strings (pl_compile_command p)),
      (''run_command'', json_strings (pl_run_command p)),
      (''sandbox_profile'', JStr (pl_sandbox_profile p)),
      (''seccomp_policy'', JStr (pl_seccomp_policy p)),
      (''readonly_mounts'', json_strings (pl_readonly_mounts p))]"

definition json_case_dir :: "prepared_case_dir \<Rightarrow> json" where
  "json_case_dir c = JObj
     [(''case_no'', json_word (cd_case_no c)), (''score'', json_word (cd_score c)),
      (''directory'', JStr (cd_directory c)), (''input_path'', JStr (cd_input_path c)),
      (''answer_path'', JStr (cd_answer_path c)), (''output_path'', JStr (cd_output_path c)),
      (''stderr_path'', JStr (cd_stderr_path c))]"

definition json_manifest ::
    "string \<Rightarrow> string \<Rightarrow> oj_judge_task \<Rightarrow> execution_plan \<Rightarrow> prepared_case_dir list \<Rightarrow> json" where
  "json_manifest task_id execution_id payload plan case_dirs = JObj
     [(''task_id'', JStr task_id), (''execution_id'', JStr execution_id),
      (''profile'', JObj
        [(''language'', JStr (oj_language payload)),
         (''judge_mode'', JStr (judge_mode_name (oj_judge_mode payload))),
         (''testcase_count'', JNum (length (oj_testcases payload))),
         (''time_limit_ms'', json_word (lim_time_limit_ms (oj_limits payload))),
         (''memory_limit_kb'', json_word (lim_memory_limit_kb (oj_limits payload)))]),
      (''plan'', json_plan plan), (''testcases'', JArr (map json_case_dir case_dirs))]"

section \<open>Preparation\<close>

definition prepare_oj_task ::
    "runtime_worker \<Rightarrow> worker_host \<Rightarrow> string \<Rightarrow> oj_judge_task \<Rightarrow> files \<Rightarrow>
       prepared_artifacts app_result \<times> files" where
  "prepare_oj_task w h task_id payload fs =
     st_then (validate_oj_task payload, fs) (\<lambda>_ fs.
     st_then (build_task_plan w payload, fs) (\<lambda>plan fs.
     let execution_id = ''rt-'' @ wh_ulid h;
         work_dir = path_join (wk_work_root w) execution_id;
         source_path = path_join work_dir (pl_source_filename plan);
         manifest_path = path_join work_dir ''manifest.json''
     in
     st_then (create_dir_all (wh_io h) work_dir, fs) (\<lambda>_ fs.
     st_then (write_file (wh_io h) source_path (oj_source_code payload) fs) (\<lambda>_ fs.
     st_then (collect_st (prepare_testcase_dir h work_dir) (oj_testcases payload) fs)
       (\<lambda>testcase_dirs fs.
     st_then (build_spj_artifacts w h work_dir (oj_judge_config payload) fs) (\<lambda>spj_artifacts fs.
     st_then (ok_or (wh_to_vec_pretty h
         (json_manifest task_id execution_id payload plan testcase_dirs)) Internal, fs)
       (\<lambda>manifest fs.
     st_then (write_file (wh_io h) manifest_path manifest fs) (\<lambda>_ fs.
     (Inr \<lparr>pa_execution_id = execution_id, pa_task_id = task_id, pa_status = LcPrepared,
           pa_work_dir = work_dir, pa_source_path = source_path,
           pa_manifest_path = manifest_path, pa_judge_config = oj_judge_config payload,
           pa_cases = testcase_dirs, pa_spj_artifacts = spj_artifacts,
           pa_compile_stage = (if pl_compile_required plan
             then Some (build_compile_stage w (wh_env h) work_dir plan) else None),
           pa_run_stages = map (build_run_stage w (wh_env h) work_dir plan payload) testcase_dirs\<rparr>,
      fs)))))))))"

definition prepare ::
    "runtime_worker \<Rightarrow> worker_host \<Rightarrow> runtime_task \<Rightarrow> files \<Rightarrow> prepared_artifacts app_result \<times> files" where
  "prepare w h task fs =
     (case rt_payload task of PayloadOjJudge payload \<Rightarrow>
        prepare_oj_task w h (rt_task_id task) payload fs)"

end
