(* ===== verification/Judge.thy ===== *)
theory Judge
  imports Protocol
begin

text \<open>
  The output validator (crates/nexus-runtime/src/judge.rs). Two texts are compared exactly,
  or as lists of tokens, or as lists of numbers within a tolerance; tokens may be compared
  without regard to order or case.

  \<open>str::to_lowercase\<close> is given by the Unicode tables, which are data of the toolchain: it is the
  parameter \<open>lc\<close>, and every theorem holds for any function in its place.
\<close>

datatype case_judge_status = JudgeAccepted | JudgeWrongAnswer

definition default_validator_config :: runtime_validator_config where
  "default_validator_config =
     \<lparr>vc_ignore_whitespace = True, vc_ignore_case = False, vc_is_unordered = False,
      vc_is_token_mode = False, vc_is_float = False, vc_float_epsilon = Fin 0\<rparr>"

definition effective_validator_config ::
    "runtime_judge_config option \<Rightarrow> runtime_validator_config" where
  "effective_validator_config config =
     (case config of
        Some c \<Rightarrow>
          (case jc_judge_method c of
             RtValidator \<Rightarrow>
               (case jc_validator c of Some v \<Rightarrow> v | None \<Rightarrow> default_validator_config)
           | RtSpj \<Rightarrow> default_validator_config)
      | None \<Rightarrow> default_validator_config)"

definition tokenize :: "string \<Rightarrow> string list" where
  "tokenize s = split_whitespace s"

definition parse_floats :: "string list \<Rightarrow> f64 list option" where
  "parse_floats tokens = collect_options (map parse_f64 tokens)"

definition float_ordering :: "f64 \<Rightarrow> f64 \<Rightarrow> ordering" where
  "float_ordering lhs rhs = (case f64_partial_cmp lhs rhs of None \<Rightarrow> Equal | Some r \<Rightarrow> r)"

text \<open>
  \<open>sort_by\<close>: the stable insertion sort. On numbers that hold no NaN the comparison is a total
  preorder, and every stable sort gives this list.
\<close>

fun insert_by :: "('a \<Rightarrow> 'a \<Rightarrow> ordering) \<Rightarrow> 'a \<Rightarrow> 'a list \<Rightarrow> 'a list" where
  "insert_by cmp x [] = [x]"
| "insert_by cmp x (y # ys) = (if cmp x y = Greater then y # insert_by cmp x ys else x # y # ys)"

fun sort_by :: "('a \<Rightarrow> 'a \<Rightarrow> ordering) \<Rightarrow> 'a list \<Rightarrow> 'a list" where
  "sort_by cmp [] = []"
| "sort_by cmp (x # xs) = insert_by cmp x (sort_by cmp xs)"

definition compare_float_tokens ::
    "string list \<Rightarrow> string list \<Rightarrow> runtime_validator_config \<Rightarrow> bool" where
  "compare_float_tokens user_tokens expected_tokens config =
     (if length user_tokens \<noteq> length expected_tokens then False
      else case parse_floats user_tokens of
        None \<Rightarrow> False
      | Some us \<Rightarrow>
          (case parse_floats expected_tokens of
             None \<Rightarrow> False
           | Some es \<Rightarrow>
               (let us' = (if vc_is_unordered config then sort_by float_ordering us else us);
                    es' = (if vc_is_unordered config then sort_by float_ordering es else es)
                in list_all (\<lambda>(lhs, rhs). f64_le (f64_abs (f64_sub lhs rhs)) (vc_float_epsilon config))
                     (zip us' es'))))"

definition compare_outputs ::
    "(string \<Rightarrow> string) \<Rightarrow> string \<Rightarrow> string \<Rightarrow> runtime_validator_config \<Rightarrow> bool" where
  "compare_outputs lc user_output expected_output config =
     (if \<not> vc_ignore_whitespace config \<and> \<not> vc_is_float config
         \<and> \<not> vc_is_unordered config \<and> \<not> vc_is_token_mode config
      then (if vc_ignore_case config then lc user_output = lc expected_output
            else user_output = expected_output)
      else
        let user_tokens = tokenize user_output;
            expected_tokens = tokenize expected_output;
            user_tokens = (if vc_ignore_case config then map lc user_tokens else user_tokens);
            expected_tokens =
              (if vc_ignore_case config then map lc expected_tokens else expected_tokens)
        in if vc_is_float config then compare_float_tokens user_tokens expected_tokens config
           else
             let user_tokens = (if vc_is_unordered config then sort user_tokens else user_tokens);
                 expected_tokens =
                   (if vc_is_unordered config then sort expected_tokens else expected_tokens)
             in user_tokens = expected_tokens)"

definition validate_output ::
    "(string \<Rightarrow> string) \<Rightarrow> string \<Rightarrow> string \<Rightarrow> runtime_judge_config option \<Rightarrow> case_judge_status" where
  "validate_output lc user_output expected_output judge_config =
     (if compare_outputs lc user_output expected_output (effective_validator_config judge_config)
      then JudgeAccepted else JudgeWrongAnswer)"

section \<open>Sorting numbers\<close>

text \<open>A rank that orders the numbers other than NaN as \<open>partial_cmp\<close> does.\<close>

definition f64_key :: "f64 \<Rightarrow> int \<times> rat" where
  "f64_key a = (case a of NegInf \<Rightarrow> (- 1, 0) | Fin x \<Rightarrow> (0, x) | PosInf \<Rightarrow> (1, 0) | NaN \<Rightarrow> (2, 0))"

lemma f64_key_inject: "f64_key a = f64_key b \<longleftrightarrow> a = b"
  by (cases a; cases b) (auto simp: f64_key_def)

lemma float_ordering_Greater:
  "a \<noteq> NaN \<Longrightarrow> b \<noteq> NaN \<Longrightarrow> float_ordering a b = Greater \<longleftrightarrow> f64_key b < f64_key a"
  by (cases a; cases b) (auto simp: float_ordering_def f64_key_def less_prod_def)

lemma set_insert_by [simp]: "set (insert_by cmp x xs) = insert x (set xs)"
  by (induction cmp x xs rule: insert_by.induct) auto

lemma set_sort_by [simp]: "set (sort_by cmp xs) = set xs"
  by (induction xs) auto

lemma mset_insert_by [simp]: "mset (insert_by cmp x xs) = add_mset x (mset xs)"
  by (induction cmp x xs rule: insert_by.induct) auto

lemma mset_sort_by [simp]: "mset (sort_by cmp xs) = mset xs"
  by (induction xs) auto

lemma length_sort_by [simp]: "length (sort_by cmp xs) = length xs"
  by (metis mset_sort_by size_mset)

lemma insert_by_insort:
  "x \<noteq> NaN \<Longrightarrow> NaN \<notin> set xs \<Longrightarrow> insert_by float_ordering x xs = insort_key f64_key x xs"
proof (induction xs)
  case (Cons y ys)
  then show ?case using float_ordering_Greater [of x y] by (auto simp: not_le)
qed simp

lemma sort_by_sort_key:
  "NaN \<notin> set xs \<Longrightarrow> sort_by float_ordering xs = sort_key f64_key xs"
proof (induction xs)
  case (Cons x xs)
  then have "x \<noteq> NaN" and "NaN \<notin> set (sort_key f64_key xs)"
    and IH: "sort_by float_ordering xs = sort_key f64_key xs"
    by (auto simp: set_sort)
  then have "insert_by float_ordering x (sort_key f64_key xs) =
      insort_key f64_key x (sort_key f64_key xs)"
    by (intro insert_by_insort)
  with IH show ?case by (simp only: sort_by.simps sort_key_simps)
qed simp

lemma sort_by_perm:
  assumes "mset xs = mset ys" and "NaN \<notin> set xs"
  shows "sort_by float_ordering xs = sort_by float_ordering ys"
proof -
  have inj: "inj f64_key" by (simp add: inj_on_def f64_key_inject)
  have sorted: "map f64_key (sort_key f64_key zs) = sort (map f64_key zs)" for zs
    by (rule properties_for_sort [symmetric]) simp_all
  have "mset (map f64_key xs) = mset (map f64_key ys)"
    using assms(1) by simp
  then have "sort (map f64_key xs) = sort (map f64_key ys)"
    by (intro properties_for_sort) simp_all
  then have "map f64_key (sort_key f64_key xs) = map f64_key (sort_key f64_key ys)"
    by (simp only: sorted)
  then have eq: "sort_key f64_key xs = sort_key f64_key ys"
    by (rule injD [OF inj_mapI [OF inj]])
  have "NaN \<notin> set ys" using assms by (metis set_mset_mset)
  with assms(2) eq show ?thesis by (simp add: sort_by_sort_key)
qed

section \<open>The verdict on tokens\<close>

text \<open>The tokens the comparison works on: white space gone, letter case folded when asked.\<close>

definition judge_tokens :: "(string \<Rightarrow> string) \<Rightarrow> runtime_validator_config \<Rightarrow> string \<Rightarrow> string list" where
  "judge_tokens lc config s =
     (if vc_ignore_case config then map lc (tokenize s) else tokenize s)"

definition raw_mode :: "runtime_validator_config \<Rightarrow> bool" where
  "raw_mode config \<longleftrightarrow> \<not> vc_ignore_whitespace config \<and> \<not> vc_is_float config
     \<and> \<not> vc_is_unordered config \<and> \<not> vc_is_token_mode config"

lemma compare_outputs_raw:
  "raw_mode config \<Longrightarrow> compare_outputs lc u e config \<longleftrightarrow>
     (if vc_ignore_case config then lc u = lc e else u = e)"
  by (simp add: compare_outputs_def raw_mode_def)

lemma sort_eq_iff_mset: "sort xs = sort ys \<longleftrightarrow> mset xs = mset (ys :: 'a::linorder list)"
  by (metis mset_sort properties_for_sort sorted_sort)

lemma compare_outputs_tokens:
  "\<not> raw_mode config \<Longrightarrow> \<not> vc_is_float config \<Longrightarrow> compare_outputs lc u e config \<longleftrightarrow>
     (if vc_is_unordered config
      then mset (judge_tokens lc config u) = mset (judge_tokens lc config e)
      else judge_tokens lc config u = judge_tokens lc config e)"
  by (simp add: compare_outputs_def raw_mode_def judge_tokens_def Let_def sort_eq_iff_mset
      flip: de_Morgan_conj del: de_Morgan_conj)

lemma compare_outputs_float:
  "vc_is_float config \<Longrightarrow> compare_outputs lc u e config \<longleftrightarrow>
     compare_float_tokens (judge_tokens lc config u) (judge_tokens lc config e) config"
  by (simp add: compare_outputs_def judge_tokens_def Let_def)

definition float_order :: "runtime_validator_config \<Rightarrow> f64 list \<Rightarrow> f64 list" where
  "float_order config xs = (if vc_is_unordered config then sort_by float_ordering xs else xs)"

lemma length_float_order [simp]: "length (float_order config xs) = length xs"
  and set_float_order [simp]: "set (float_order config xs) = set xs"
  by (simp_all add: float_order_def)

lemma parse_floats_Some:
  "parse_floats ts = Some xs \<longleftrightarrow>
     (\<forall>t \<in> set ts. parse_f64 t \<noteq> None) \<and> xs = map (\<lambda>t. the (parse_f64 t)) ts"
proof -
  have "map parse_f64 ts = map Some xs \<longleftrightarrow>
      (\<forall>t \<in> set ts. parse_f64 t \<noteq> None) \<and> xs = map (\<lambda>t. the (parse_f64 t)) ts"
    by (induction ts arbitrary: xs) (auto simp: Cons_eq_map_conv)
  then show ?thesis by (simp add: parse_floats_def collect_options_Some)
qed

lemma compare_float_tokens_iff:
  "compare_float_tokens us es config \<longleftrightarrow>
     (\<exists>xs ys. parse_floats us = Some xs \<and> parse_floats es = Some ys \<and>
        list_all2 (\<lambda>x y. f64_le (f64_abs (f64_sub x y)) (vc_float_epsilon config))
          (float_order config xs) (float_order config ys))"
proof -
  have len: "parse_floats us = Some xs \<Longrightarrow> length xs = length us" for us xs
    by (simp add: parse_floats_Some)
  show ?thesis
    by (auto simp: compare_float_tokens_def float_order_def list_all2_iff list_all_iff Let_def
        len split: option.splits dest: len)
qed

lemma compare_float_tokens_commute:
  "compare_float_tokens us es config \<longleftrightarrow> compare_float_tokens es us config"
proof -
  have "compare_float_tokens us es config \<Longrightarrow> compare_float_tokens es us config" for us es
    by (auto simp: compare_float_tokens_iff list_all2_conv_all_nth f64_abs_sub_commute)
  then show ?thesis by blast
qed

definition finite_token :: "string \<Rightarrow> bool" where
  "finite_token t = (case parse_f64 t of Some (Fin _) \<Rightarrow> True | _ \<Rightarrow> False)"

lemma parse_floats_perm:
  assumes "mset us = mset vs" and "parse_floats us = Some xs"
  shows "\<exists>ys. parse_floats vs = Some ys \<and> mset xs = mset ys"
proof -
  have "set us = set vs" using assms(1) by (metis set_mset_mset)
  with assms show ?thesis by (auto simp: parse_floats_Some)
qed

lemma compare_float_tokens_perm:
  assumes "vc_is_unordered config" and "mset us = mset vs"
    and "\<forall>t \<in> set us. parse_f64 t \<noteq> Some NaN" and "compare_float_tokens us es config"
  shows "compare_float_tokens vs es config"
proof -
  from assms(4) obtain xs ys where xs: "parse_floats us = Some xs" "parse_floats es = Some ys"
    and P: "list_all2 (\<lambda>x y. f64_le (f64_abs (f64_sub x y)) (vc_float_epsilon config))
      (float_order config xs) (float_order config ys)"
    by (auto simp: compare_float_tokens_iff)
  from parse_floats_perm [OF assms(2) xs(1)] obtain zs
    where zs: "parse_floats vs = Some zs" and m: "mset xs = mset zs" by blast
  have "NaN \<notin> set xs"
    using assms(3) xs(1) by (force simp: parse_floats_Some)
  then have "float_order config xs = float_order config zs"
    using assms(1) m by (simp add: float_order_def sort_by_perm)
  with P zs xs(2) show ?thesis by (auto simp: compare_float_tokens_iff)
qed

section \<open>Properties\<close>

text \<open>A text is accepted against itself in every mode but the numeric one; there it is
  accepted exactly when each of its tokens reads as a finite number and the tolerance is not
  negative (the difference of an infinity with itself is NaN, which is within no tolerance).\<close>

theorem validate_output_self:
  "validate_output lc s s cfg =
     (if vc_is_float (effective_validator_config cfg)
         \<and> \<not> list_all (\<lambda>t. finite_token t
                \<and> f64_le (Fin 0) (vc_float_epsilon (effective_validator_config cfg)))
             (judge_tokens lc (effective_validator_config cfg) s)
      then JudgeWrongAnswer else JudgeAccepted)"
proof (cases "vc_is_float (effective_validator_config cfg)")
  case False
  then show ?thesis
    using compare_outputs_raw [of "effective_validator_config cfg" lc s s]
      compare_outputs_tokens [of "effective_validator_config cfg" lc s s]
    by (cases "raw_mode (effective_validator_config cfg)") (simp_all add: validate_output_def)
next
  case True
  let ?c = "effective_validator_config cfg"
  let ?ts = "judge_tokens lc ?c s"
  let ?P = "\<lambda>x. f64_le (f64_abs (f64_sub x x)) (vc_float_epsilon ?c)"
  have P: "?P x \<longleftrightarrow> (\<exists>r. x = Fin r) \<and> f64_le (Fin 0) (vc_float_epsilon ?c)" for x
    by (cases x) auto
  have "compare_float_tokens ?ts ?ts ?c \<longleftrightarrow> (\<exists>xs. parse_floats ?ts = Some xs \<and> (\<forall>x \<in> set xs. ?P x))"
    by (auto simp: compare_float_tokens_iff list_all2_same)
  also have "\<dots> \<longleftrightarrow> (\<forall>t \<in> set ?ts. \<exists>x. parse_f64 t = Some x \<and> ?P x)"
    by (fastforce simp: parse_floats_Some)
  also have "\<dots> \<longleftrightarrow> (\<forall>t \<in> set ?ts. finite_token t \<and> f64_le (Fin 0) (vc_float_epsilon ?c))"
    using P by (intro ball_cong) (auto simp: finite_token_def split: option.splits f64.splits)
  finally show ?thesis
    using True by (simp add: validate_output_def compare_outputs_float list_all_iff)
qed

text \<open>The verdict does not depend on which text is the user's and which is expected.\<close>

theorem validate_output_commute:
  "validate_output lc u e cfg = validate_output lc e u cfg"
proof -
  have "compare_outputs lc u e config \<longleftrightarrow> compare_outputs lc e u config" for config
    using compare_outputs_float [of config lc] compare_float_tokens_commute
      compare_outputs_raw [of config lc] compare_outputs_tokens [of config lc]
    by (cases "vc_is_float config"; cases "raw_mode config") auto
  then show ?thesis by (simp add: validate_output_def)
qed

text \<open>C10: Where order does not count, texts with the same multiset of tokens get the same
  verdict against every expected text, numeric mode included unless a token reads as NaN.\<close>

theorem validate_output_unordered:
  assumes "vc_is_unordered (effective_validator_config cfg)"
    and "mset (tokenize u) = mset (tokenize v)"
    and "\<forall>t \<in> set (judge_tokens lc (effective_validator_config cfg) u). parse_f64 t \<noteq> Some NaN"
  shows "validate_output lc u e cfg = validate_output lc v e cfg"
proof -
  let ?c = "effective_validator_config cfg"
  have perm: "mset (judge_tokens lc ?c u) = mset (judge_tokens lc ?c v)"
    using assms(2) by (simp add: judge_tokens_def)
  have nonraw: "\<not> raw_mode ?c" using assms(1) by (simp add: raw_mode_def)
  have "\<forall>t \<in> set (judge_tokens lc ?c v). parse_f64 t \<noteq> Some NaN"
    using assms(3) perm by (metis set_mset_mset)
  then have "compare_float_tokens (judge_tokens lc ?c u) es ?c \<longleftrightarrow>
      compare_float_tokens (judge_tokens lc ?c v) es ?c" for es
    using compare_float_tokens_perm [OF assms(1)] perm assms(3) by metis
  moreover have "compare_outputs lc u e ?c \<longleftrightarrow> compare_outputs lc v e ?c" if "\<not> vc_is_float ?c"
    using compare_outputs_tokens [OF nonraw that] assms(1) perm by simp
  ultimately have "compare_outputs lc u e ?c \<longleftrightarrow> compare_outputs lc v e ?c"
    by (cases "vc_is_float ?c") (simp_all add: compare_outputs_float)
  then show ?thesis by (simp add: validate_output_def)
qed

definition unordered_float_config :: runtime_judge_config where
  "unordered_float_config =
     \<lparr>jc_judge_method = RtValidator,
      jc_validator = Some \<lparr>vc_ignore_whitespace = True, vc_ignore_case = False,
        vc_is_unordered = True, vc_is_token_mode = False, vc_is_float = True,
        vc_float_epsilon = Fin (1 / 128)\<rparr>,
      jc_spj = None, jc_function_signature = None\<rparr>"

theorem validate_output_unordered_witness:
  "validate_output (map ascii_lower_char) ''2 1'' ''1.001 2'' (Some unordered_float_config) =
     validate_output (map ascii_lower_char) ''1 2'' ''1.001 2'' (Some unordered_float_config)"
proof (rule validate_output_unordered)
  show "vc_is_unordered (effective_validator_config (Some unordered_float_config))"
    by code_simp
  have t: "tokenize ''2 1'' = [''2'', ''1'']" "tokenize ''1 2'' = [''1'', ''2'']"
    by code_simp+
  then show "mset (tokenize ''2 1'') = mset (tokenize ''1 2'')" by simp
  have "judge_tokens (map ascii_lower_char)
      (effective_validator_config (Some unordered_float_config)) ''2 1'' = [''2'', ''1'']"
    by code_simp
  moreover have "parse_f64 ''2'' \<noteq> Some NaN" "parse_f64 ''1'' \<noteq> Some NaN"
    unfolding parse_f64_NaN_iff by code_simp+
  ultimately show "\<forall>t \<in> set (judge_tokens (map ascii_lower_char)
      (effective_validator_config (Some unordered_float_config)) ''2 1'').
      parse_f64 t \<noteq> Some NaN" by simp
qed

end
