(* ===== verification/Execute.thy ===== *)
theory Execute
  imports Prepare Judge
begin

text \<open>
  The worker's execution of prepared artifacts (executor.rs): one stage is one process, its
  failure is classified from its status, sizes and output, and the cases run in order until
  one is not accepted. What a process does is a parameter: given the stage and the files it
  returns how it ended and the files it leaves. \<^const>\<open>None\<close> is a panic (slicing a text inside
  a character).
\<close>

section \<open>Processes\<close>

record exit_status =
  es_code :: "int option"
  es_signal :: "int option"

text \<open>
  A spawned process ends with a status after some time; \<open>px_polls\<close> are the texts of its
  \<open>/proc\<close> status file at the polls of the memory monitor (\<^const>\<open>None\<close>: not readable).
\<close>

record process_exit =
  px_status :: exit_status
  px_duration_ms :: u128
  px_polls :: "string option list"

datatype process_result = SpawnFailed string | WaitFailed string | Exited process_exit

type_synonym process = "prepared_stage \<Rightarrow> files \<Rightarrow> process_result \<times> files"

definition status_success :: "exit_status \<Rightarrow> bool" where
  "status_success s \<longleftrightarrow> es_code s = Some 0"

text \<open>\<open>str::lines\<close>, \<open>strip_suffix\<close>.\<close>

definition lines_of :: "string \<Rightarrow> string list" where
  "lines_of s =
     (let ls = split_on (CHR 0x0A) s;
          ls = (if last ls = [] then butlast ls else ls)
      in map (\<lambda>l. if l \<noteq> [] \<and> last l = CHR 0x0D then butlast l else l) ls)"

definition strip_suffix :: "string \<Rightarrow> string \<Rightarrow> string option" where
  "strip_suffix suffix s = map_option rev (strip_prefix (rev suffix) (rev s))"

fun find_map :: "('a \<Rightarrow> 'b option) \<Rightarrow> 'a list \<Rightarrow> 'b option" where
  "find_map f [] = None"
| "find_map f (x # xs) = (case f x of Some y \<Rightarrow> Some y | None \<Rightarrow> find_map f xs)"

definition read_process_rss_kb :: "string option \<Rightarrow> u64" where
  "read_process_rss_kb status =
     (case status of
        None \<Rightarrow> 0
      | Some text \<Rightarrow>
          unwrap_or (find_map (\<lambda>line.
            case strip_prefix ''VmRSS:'' line of
              None \<Rightarrow> None
            | Some rest \<Rightarrow>
                let value = trim rest;
                    kb = trim (unwrap_or (strip_suffix '' kB'' value) value)
                in parse_word kb) (lines_of text)) 0)"

definition monitor_peak_rss_kb :: "string option list \<Rightarrow> u64" where
  "monitor_peak_rss_kb polls = fold (\<lambda>p peak. max peak (read_process_rss_kb p)) polls 0"

section \<open>Excerpts\<close>

definition excerpt_markers :: "string list" where
  "excerpt_markers =
     [''/etc/'', ''/proc/'', ''../'', ''include_bytes!'', ''read-only file system'',
      ''network is unreachable'', ''permission denied'', ''operation not permitted'',
      ''file too large'', ''out of memory'', ''cannot allocate memory'']"

definition excerpt_of :: "string \<Rightarrow> string option" where
  "excerpt_of trimmed =
     (if length trimmed \<le> 400 then Some trimmed
      else
        (case find_map (\<lambda>marker. map_option (Pair marker) (find_sub marker trimmed)) excerpt_markers of
           Some (marker, index) \<Rightarrow>
             let start = index - 180;
                 end = min (index + length marker + 180) (length trimmed)
             in map_option
                  (\<lambda>snippet. if 0 < start \<or> end < length trimmed
                             then ''...'' @ snippet @ ''...'' else snippet)
                  (slice trimmed start end)
         | None \<Rightarrow>
             (case (slice trimmed 0 200, slice trimmed (length trimmed - 200) (length trimmed)) of
                (Some head, Some tail) \<Rightarrow>
                  Some (head @ [CHR 0x0A] @ ''...'' @ [CHR 0x0A] @ tail)
              | _ \<Rightarrow> None)))"

definition read_excerpt :: "files \<Rightarrow> string \<Rightarrow> string option" where
  "read_excerpt fs path =
     (case read_to_string fs path of None \<Rightarrow> Some [] | Some content \<Rightarrow> excerpt_of (trim content))"

section \<open>Classification of failures\<close>

definition mentions_any :: "string \<Rightarrow> string list \<Rightarrow> bool" where
  "mentions_any text words \<longleftrightarrow> list_ex (contains text) words"

definition suspicious_host_path_probe :: "prepared_stage \<Rightarrow> string \<Rightarrow> bool" where
  "suspicious_host_path_probe stage combined \<longleftrightarrow>
     contains (ps_stage_name stage) ''compile''
     \<and> mentions_any combined [''/etc/'', ''/proc/'', ''../'']
     \<and> mentions_any combined [''no such file'', ''permission denied'', ''operation not permitted'']"

definition classify_stage_failure ::
    "(string \<Rightarrow> string) \<Rightarrow> prepared_stage \<Rightarrow> int option \<Rightarrow> int option \<Rightarrow> u128 \<Rightarrow> u64 \<Rightarrow> u64 \<Rightarrow> u64 \<Rightarrow>
       string \<Rightarrow> string \<Rightarrow> failure_kind option" where
  "classify_stage_failure lc stage exit_code signal duration_ms memory_used_kb stdout_size_bytes
       stderr_size_bytes stdout_excerpt stderr_excerpt =
     (let combined = lc stdout_excerpt @ [CHR 0x0A] @ lc stderr_excerpt
      in if mentions_any combined
             [''seccomp'', ''operation not permitted'', ''permission denied'',
              ''network is unreachable'', ''read-only file system'', ''bad system call'']
            \<or> signal = Some 31 \<or> exit_code = Some 159 \<or> suspicious_host_path_probe stage combined
         then Some FkSecurityViolation
         else if signal = Some 25 \<or> exit_code = Some 153
            \<or> ps_output_limit_bytes stage \<le> stdout_size_bytes
            \<or> ps_output_limit_bytes stage \<le> stderr_size_bytes
            \<or> contains combined ''file too large''
         then Some FkOutputLimitExceeded
         else if ucast (ps_time_limit_ms stage) \<le> duration_ms \<or> exit_code = Some 124
            \<or> contains combined ''timed out'' \<or> contains combined ''timeout''
         then Some FkTimeLimitExceeded
         else if is_some_and (ps_memory_limit_kb stage)
              (\<lambda>limit. saturating_mul limit 95 div 100 \<le> memory_used_kb)
            \<or> signal = Some 11 \<or> exit_code = Some 139
            \<or> mentions_any combined
                [''out of memory'', ''cannot allocate memory'', ''memory allocation'', ''memory limit'']
         then Some FkMemoryLimitExceeded
         else Some FkRuntimeError)"

definition map_stage_failure_to_case_status :: "failure_kind option \<Rightarrow> case_final_status" where
  "map_stage_failure_to_case_status failure_kind =
     (case unwrap_or failure_kind FkRuntimeError of
        FkTimeLimitExceeded \<Rightarrow> CsTimeLimitExceeded
      | FkMemoryLimitExceeded \<Rightarrow> CsMemoryLimitExceeded
      | FkOutputLimitExceeded \<Rightarrow> CsOutputLimitExceeded
      | FkSecurityViolation \<Rightarrow> CsSecurityViolation
      | FkRuntimeError \<Rightarrow> CsRuntimeError)"

section \<open>One stage\<close>

text \<open>The libraries and the host, as the execution sees them.\<close>

record exec_host =
  xh_io :: io_errors
  xh_process :: process
  xh_lowercase :: "string \<Rightarrow> string"

text \<open>A file to read from: the host may refuse it, and it must exist.\<close>

definition open_file :: "io_errors \<Rightarrow> string \<Rightarrow> files \<Rightarrow> string option" where
  "open_file io p fs =
     (case io (OpenFile p) of
        Some err \<Rightarrow> Some err
      | None \<Rightarrow> if map_of fs p = None then Some ''No such file or directory (os error 2)'' else None)"

definition stage_error :: "string \<Rightarrow> prepared_stage \<Rightarrow> string \<Rightarrow> app_error" where
  "stage_error what stage err =
     BadRequest (''failed to '' @ what @ '' stage '' @ ps_stage_name stage @ '': '' @ err)"

text \<open>What becomes of an ended process; \<^const>\<open>None\<close> where reading an excerpt panics.\<close>

definition stage_outcome_of ::
    "(string \<Rightarrow> string) \<Rightarrow> prepared_stage \<Rightarrow> process_exit \<Rightarrow> files \<Rightarrow> stage_outcome option" where
  "stage_outcome_of lc stage p fs =
     (let memory_used_kb = monitor_peak_rss_kb (px_polls p);
          status = px_status p;
          out_size = file_size_bytes fs (ps_stdout_path stage);
          err_size = file_size_bytes fs (ps_stderr_path stage)
      in case read_excerpt fs (ps_stdout_path stage) of
           None \<Rightarrow> None
         | Some out \<Rightarrow>
             (case read_excerpt fs (ps_stderr_path stage) of
                None \<Rightarrow> None
              | Some err \<Rightarrow>
                  Some \<lparr>so_stage_name = ps_stage_name stage,
                    so_status = (if status_success status then StSucceeded else StFailed),
                    so_exit_code = es_code status, so_signal = es_signal status,
                    so_failure_kind =
                      (if status_success status then None
                       else classify_stage_failure lc stage (es_code status) (es_signal status)
                         (px_duration_ms p) memory_used_kb out_size err_size out err),
                    so_duration_ms = px_duration_ms p, so_memory_used_kb = memory_used_kb,
                    so_stdout_size_bytes = out_size, so_stderr_size_bytes = err_size,
                    so_stdout_path = ps_stdout_path stage, so_stderr_path = ps_stderr_path stage,
                    so_stdout_excerpt = out, so_stderr_excerpt = err\<rparr>))"

definition execute_stage ::
    "exec_host \<Rightarrow> prepared_stage \<Rightarrow> files \<Rightarrow> stage_outcome app_result option \<times> files" where
  "execute_stage h stage fs =
     (if ps_command stage = [] then (Some (Inl (BadRequest ''runtime stage command is empty'')), fs)
      else case xh_io h (CreateFile (ps_stdout_path stage)) of
        Some err \<Rightarrow> (Some (Inl (stage_error ''prepare stdout for'' stage err)), fs)
      | None \<Rightarrow>
      let fs = hm_insert (ps_stdout_path stage) [] fs in
      case xh_io h (CreateFile (ps_stderr_path stage)) of
        Some err \<Rightarrow> (Some (Inl (stage_error ''prepare stderr for'' stage err)), fs)
      | None \<Rightarrow>
      let fs = hm_insert (ps_stderr_path stage) [] fs in
      case (case ps_stdin_path stage of None \<Rightarrow> None | Some p \<Rightarrow> open_file (xh_io h) p fs) of
        Some err \<Rightarrow> (Some (Inl (stage_error ''open stdin for'' stage err)), fs)
      | None \<Rightarrow>
      (case xh_process h stage fs of
         (SpawnFailed err, fs) \<Rightarrow> (Some (Inl (stage_error ''execute'' stage err)), fs)
       | (WaitFailed err, fs) \<Rightarrow> (Some (Inl (stage_error ''wait for'' stage err)), fs)
       | (Exited p, fs) \<Rightarrow> (map_option Inr (stage_outcome_of (xh_lowercase h) stage p fs), fs)))"

section \<open>Cases\<close>

text \<open>An error or a panic ends the execution.\<close>

definition run_then ::
    "'a app_result option \<times> 's \<Rightarrow> ('a \<Rightarrow> 's \<Rightarrow> 'b app_result option \<times> 's) \<Rightarrow> 'b app_result option \<times> 's" where
  "run_then r f =
     (case r of
        (None, s) \<Rightarrow> (None, s)
      | (Some (Inl e), s) \<Rightarrow> (Some (Inl e), s)
      | (Some (Inr a), s) \<Rightarrow> f a s)"

lemma run_then_simps [simp]:
  "run_then (None, s) f = (None, s)"
  "run_then (Some (Inl e), s) f = (Some (Inl e), s)"
  "run_then (Some (Inr a), s) f = f a s"
  by (simp_all add: run_then_def)

definition spj_case_stage ::
    "runtime_worker \<Rightarrow> host_env \<Rightarrow> prepared_artifacts \<Rightarrow> prepared_spj_artifacts \<Rightarrow> prepared_case_dir \<Rightarrow>
       prepared_stage" where
  "spj_case_stage w env artifacts spj case_dir =
     (let args = sa_run_command spj @
            map (path_in_jail (pa_work_dir artifacts))
              [cd_input_path case_dir, cd_output_path case_dir, cd_answer_path case_dir];
          seccomp = seccomp_policy_string_with_mode_for_profile
            (if sa_language spj = ''python'' then ''python_default'' else ''cpp_default'')
            (wk_seccomp_mode w) (wk_syscall_profile w)
      in \<lparr>ps_stage_name = ''spj_case_'' @ show_word (cd_case_no case_dir), ps_score = 0,
          ps_command = wrap_with_nsjail env (wk_nsjail_path w) (pa_work_dir artifacts) args seccomp
            (wk_seccomp_mode w) 10 (256 * 1024 * 1024) 128 (sa_readonly_mounts spj),
          ps_working_directory = pa_work_dir artifacts, ps_stdin_path = None,
          ps_time_limit_ms = 10000, ps_memory_limit_kb = Some (256 * 1024),
          ps_output_limit_bytes = 32 * 1024 * 1024,
          ps_stdout_path = path_join (cd_directory case_dir) ''spj.stdout'',
          ps_stderr_path = path_join (cd_directory case_dir) ''spj.stderr'',
          ps_readonly_mounts = sa_readonly_mounts spj\<rparr>)"

definition execute_spj_case ::
    "runtime_worker \<Rightarrow> host_env \<Rightarrow> exec_host \<Rightarrow> prepared_artifacts \<Rightarrow> prepared_spj_artifacts \<Rightarrow>
       prepared_case_dir \<Rightarrow> files \<Rightarrow> case_final_status app_result option \<times> files" where
  "execute_spj_case w env h artifacts spj case_dir fs =
     run_then (execute_stage h (spj_case_stage w env artifacts spj case_dir) fs) (\<lambda>outcome fs.
       (Some (Inr
          (if so_exit_code outcome = Some 0 then CsAccepted
           else if so_exit_code outcome = Some 1 then CsWrongAnswer
           else map_stage_failure_to_case_status (so_failure_kind outcome))), fs))"

definition judge_case_output ::
    "exec_host \<Rightarrow> prepared_artifacts \<Rightarrow> prepared_case_dir \<Rightarrow> files \<Rightarrow> case_final_status app_result" where
  "judge_case_output h artifacts prepared_case fs =
     and_then (ok_or (read_to_string fs (cd_output_path prepared_case)) Internal) (\<lambda>user_output.
     and_then (ok_or (read_to_string fs (cd_answer_path prepared_case)) Internal) (\<lambda>answer.
     Inr (case validate_output (xh_lowercase h) user_output answer (pa_judge_config artifacts) of
            JudgeAccepted \<Rightarrow> CsAccepted
          | JudgeWrongAnswer \<Rightarrow> CsWrongAnswer)))"

definition run_case_no :: "prepared_stage \<Rightarrow> u32" where
  "run_case_no stage =
     unwrap_or (case strip_prefix ''run_case_'' (ps_stage_name stage) of
                  None \<Rightarrow> None | Some value \<Rightarrow> parse_word value) 0"

text \<open>One round of the loop over the run stages.\<close>

definition execute_case ::
    "runtime_worker \<Rightarrow> host_env \<Rightarrow> exec_host \<Rightarrow> prepared_artifacts \<Rightarrow> prepared_stage \<Rightarrow> files \<Rightarrow>
       case_outcome app_result option \<times> files" where
  "execute_case w env h artifacts stage fs =
     run_then (execute_stage h stage fs) (\<lambda>outcome fs.
     let case_no = run_case_no stage
     in run_then (Some (ok_or (find (\<lambda>c. cd_case_no c = case_no) (pa_cases artifacts)) Internal), fs)
       (\<lambda>prepared_case fs.
     run_then
       (if so_status outcome \<noteq> StSucceeded then
          (Some (Inr (map_stage_failure_to_case_status (so_failure_kind outcome))), fs)
        else (case pa_spj_artifacts artifacts of
            Some spj \<Rightarrow> execute_spj_case w env h artifacts spj prepared_case fs
          | None \<Rightarrow> (Some (judge_case_output h artifacts prepared_case fs), fs)))
       (\<lambda>case_status fs.
       (Some (Inr
         \<lparr>co_case_no = case_no, co_score = ps_score stage, co_status = case_status,
          co_exit_code = so_exit_code outcome, co_duration_ms = so_duration_ms outcome,
          co_memory_used_kb = so_memory_used_kb outcome, co_stdout_path = so_stdout_path outcome,
          co_stderr_path = so_stderr_path outcome, co_stdout_excerpt = so_stdout_excerpt outcome,
          co_stderr_excerpt = so_stderr_excerpt outcome\<rparr>), fs))))"

text \<open>The cases in order, up to the first that is not accepted.\<close>

fun execute_cases ::
    "runtime_worker \<Rightarrow> host_env \<Rightarrow> exec_host \<Rightarrow> prepared_artifacts \<Rightarrow> case_outcome list \<Rightarrow>
       prepared_stage list \<Rightarrow> files \<Rightarrow> (case_outcome list \<times> task_lifecycle_status) app_result option \<times> files" where
  "execute_cases w env h artifacts done [] fs = (Some (Inr (done, LcCompleted)), fs)"
| "execute_cases w env h artifacts done (stage # stages) fs =
     run_then (execute_case w env h artifacts stage fs) (\<lambda>case_outcome fs.
       if co_status case_outcome \<noteq> CsAccepted then (Some (Inr (done @ [case_outcome], LcFailed)), fs)
       else execute_cases w env h artifacts (done @ [case_outcome]) stages fs)"

text \<open>An optional compile stage.\<close>

definition execute_optional_stage ::
    "exec_host \<Rightarrow> prepared_stage option \<Rightarrow> files \<Rightarrow> stage_outcome option app_result option \<times> files" where
  "execute_optional_stage h stage fs =
     (case stage of
        None \<Rightarrow> (Some (Inr None), fs)
      | Some s \<Rightarrow> run_then (execute_stage h s fs) (\<lambda>outcome fs. (Some (Inr (Some outcome)), fs)))"

definition stage_failed :: "stage_outcome option \<Rightarrow> bool" where
  "stage_failed o1 \<longleftrightarrow> is_some_and o1 (\<lambda>out. so_status out \<noteq> StSucceeded)"

definition execute ::
    "runtime_worker \<Rightarrow> host_env \<Rightarrow> exec_host \<Rightarrow> prepared_artifacts \<Rightarrow> files \<Rightarrow>
       execution_outcome app_result option \<times> files" where
  "execute w env h artifacts fs =
     run_then (execute_optional_stage h (pa_compile_stage artifacts) fs) (\<lambda>compile fs.
     if stage_failed compile then
       (Some (Inr \<lparr>eo_compile = compile, eo_judge_compile = None, eo_cases = [],
                   eo_final_status = LcFailed\<rparr>), fs)
     else
     run_then (execute_optional_stage h
         (case pa_spj_artifacts artifacts of None \<Rightarrow> None | Some spj \<Rightarrow> sa_compile_stage spj) fs)
       (\<lambda>judge_compile fs.
     if stage_failed judge_compile then
       (Some (Inr \<lparr>eo_compile = compile, eo_judge_compile = judge_compile, eo_cases = [],
                   eo_final_status = LcFailed\<rparr>), fs)
     else
     run_then (execute_cases w env h artifacts [] (pa_run_stages artifacts) fs) (\<lambda>r fs.
     (Some (Inr \<lparr>eo_compile = compile, eo_judge_compile = judge_compile, eo_cases = fst r,
                 eo_final_status = snd r\<rparr>), fs))))"

end
