(* ===== verification/Task_Service.thy ===== *)
theory Task_Service
  imports Task_Queue Metrics Execute
begin

text \<open>
  The task service (\<open>RuntimeTaskService\<close>, executor.rs): it schedules tasks on a queue, its worker
  groups serve deliveries, and it keeps a snapshot per task and reports every change to an
  observer. The queue and the observer are trait objects: records of operations over a state
  of their own. The event that \<open>schedule\<close> reports from a spawned task waits in \<open>sv_spawned\<close> until
  \<open>deliver_spawned\<close> runs it. The files of the worker are part of the state.
\<close>

section \<open>State\<close>

record ('q, 'obs) service_parts =
  se_worker :: runtime_worker
  se_ops :: "'q task_queue_ops"
  se_health :: "system_time \<Rightarrow> string \<Rightarrow> 'q \<Rightarrow> failure_health_snapshot \<times> 'q"
  se_on_event :: "task_event \<Rightarrow> 'obs \<Rightarrow> unit app_result \<times> 'obs"

record ('q, 'obs) task_service =
  sv_queue :: 'q
  sv_broker :: broker_observability_status
  sv_snapshots :: "(string, task_snapshot) hash_map"
  sv_observer :: 'obs
  sv_worker_groups :: "worker_group list"
  sv_node_id :: string
  sv_replay_history :: "dead_letter_replay_record list"
  sv_started_at_ms :: u64
  sv_spawned :: "task_event list"
  sv_files :: files

definition with_queue_and_broker ::
    "system_time \<Rightarrow> 'q \<Rightarrow> broker_observability_status \<Rightarrow> 'obs \<Rightarrow> files \<Rightarrow> ('q, 'obs) task_service" where
  "with_queue_and_broker now q broker obs fs =
     \<lparr>sv_queue = q, sv_broker = broker, sv_snapshots = [], sv_observer = obs,
      sv_worker_groups = [], sv_node_id = ''runtime-node'', sv_replay_history = [],
      sv_started_at_ms = epoch_ms now, sv_spawned = [], sv_files = fs\<rparr>"

definition with_queue ::
    "system_time \<Rightarrow> 'q \<Rightarrow> 'obs \<Rightarrow> files \<Rightarrow> ('q, 'obs) task_service" where
  "with_queue now q obs fs = with_queue_and_broker now q memory_observability_status obs fs"

definition register_node :: "string \<Rightarrow> ('q, 'obs) task_service \<Rightarrow> ('q, 'obs) task_service" where
  "register_node node_id s = s\<lparr>sv_node_id := node_id\<rparr>"

definition start_background_workers ::
    "worker_group list \<Rightarrow> ('q, 'obs) task_service \<Rightarrow> ('q, 'obs) task_service" where
  "start_background_workers groups s = s\<lparr>sv_worker_groups := groups\<rparr>"

definition runtime_worker_group :: "string \<Rightarrow> (string \<times> string) list \<Rightarrow> worker_group" where
  "runtime_worker_group name bindings =
     \<lparr>wg_name = name, wg_bindings = map (\<lambda>(queue, lane). RouteBinding queue lane) bindings\<rparr>"

definition default_runtime_worker_groups :: "worker_group list" where
  "default_runtime_worker_groups =
     [runtime_worker_group ''oj-fast'' [(''oj_judge'', ''fast'')],
      runtime_worker_group ''oj-normal'' [(''oj_judge'', ''normal'')],
      runtime_worker_group ''oj-heavy'' [(''oj_judge'', ''heavy'')],
      runtime_worker_group ''oj-special'' [(''oj_judge'', ''special'')]]"

definition start_background_worker :: "('q, 'obs) task_service \<Rightarrow> ('q, 'obs) task_service" where
  "start_background_worker s = start_background_workers default_runtime_worker_groups s"

section \<open>Snapshots and events\<close>

definition extract_submission_id :: "runtime_task \<Rightarrow> string option" where
  "extract_submission_id task =
     (case rt_payload task of PayloadOjJudge p \<Rightarrow> Some (submission_id_0 (oj_submission_id p)))"

definition extract_problem_id :: "runtime_task \<Rightarrow> string option" where
  "extract_problem_id task =
     (case rt_payload task of PayloadOjJudge p \<Rightarrow> Some (problem_id_0 (oj_problem_id p)))"

definition extract_user_id :: "runtime_task \<Rightarrow> string option" where
  "extract_user_id task =
     (case rt_payload task of PayloadOjJudge p \<Rightarrow> Some (user_id_0 (oj_user_id p)))"

definition extract_language :: "runtime_task \<Rightarrow> string option" where
  "extract_language task = (case rt_payload task of PayloadOjJudge p \<Rightarrow> Some (oj_language p))"

definition update_snapshot ::
    "task_snapshot \<Rightarrow> ('q, 'obs) task_service \<Rightarrow> ('q, 'obs) task_service" where
  "update_snapshot sn s = s\<lparr>sv_snapshots := hm_insert (sn_task_id sn) sn (sv_snapshots s)\<rparr>"

text \<open>An error of the observer is logged only.\<close>

definition observe_event ::
    "('q, 'obs) service_parts \<Rightarrow> task_event \<Rightarrow> ('q, 'obs) task_service \<Rightarrow> ('q, 'obs) task_service" where
  "observe_event e ev s = s\<lparr>sv_observer := snd (se_on_event e ev (sv_observer s))\<rparr>"

definition snapshot_event ::
    "runtime_task \<Rightarrow> u32 \<Rightarrow> task_snapshot \<Rightarrow> prepared_artifacts option \<Rightarrow> execution_outcome option \<Rightarrow>
       task_event" where
  "snapshot_event task attempt sn artifacts outcome =
     \<lparr>te_task_id = sn_task_id sn, te_source_domain = sn_source_domain sn, te_queue = sn_queue sn,
      te_lane = sn_lane sn, te_attempt = attempt, te_submission_id = extract_submission_id task,
      te_problem_id = extract_problem_id task, te_user_id = extract_user_id task,
      te_language = extract_language task, te_status = sn_status sn, te_message = sn_message sn,
      te_execution_id = map_option pa_execution_id artifacts, te_outcome = outcome\<rparr>"

text \<open>The snapshot of a task, its fields as at every place that makes one.\<close>

definition snapshot_of ::
    "runtime_task \<Rightarrow> task_lifecycle_status \<Rightarrow> string \<Rightarrow> prepared_artifacts option \<Rightarrow>
       execution_outcome option \<Rightarrow> string option \<Rightarrow> task_snapshot" where
  "snapshot_of task status message artifacts outcome error =
     \<lparr>sn_task_id = rt_task_id task, sn_source_domain = rt_source_domain task,
      sn_queue = rt_queue task, sn_lane = rt_lane task, sn_status = status, sn_message = message,
      sn_artifacts = artifacts, sn_outcome = outcome, sn_error = error\<rparr>"

text \<open>A new snapshot, and the event that reports it.\<close>

definition report ::
    "('q, 'obs) service_parts \<Rightarrow> runtime_task \<Rightarrow> u32 \<Rightarrow> task_snapshot \<Rightarrow> ('q, 'obs) task_service \<Rightarrow>
       ('q, 'obs) task_service" where
  "report e task attempt sn s =
     observe_event e (snapshot_event task attempt sn (sn_artifacts sn) (sn_outcome sn))
       (update_snapshot sn s)"

section \<open>Serving a delivery\<close>

definition handle_delivery_failure ::
    "('q, 'obs) service_parts \<Rightarrow> system_time \<Rightarrow> runtime_task \<Rightarrow> u32 \<Rightarrow> string \<Rightarrow>
       prepared_artifacts option \<Rightarrow> string \<Rightarrow> ('q, 'obs) task_service \<Rightarrow> ('q, 'obs) task_service" where
  "handle_delivery_failure e now task attempt delivery_id artifacts error_message s =
     (case op_retry (se_ops e) now delivery_id error_message
             (rp_retry_delay_ms (rt_retry_policy task)) (sv_queue s) of
        (r, q) \<Rightarrow>
          let s = s\<lparr>sv_queue := q\<rparr>;
              disposition = (case r of Inr d \<Rightarrow> d | Inl _ \<Rightarrow> RdDeadLettered);
              sn = (case disposition of
                RdRequeued \<Rightarrow> snapshot_of task LcRetrying
                  (''runtime task retry scheduled: '' @ error_message) artifacts None (Some error_message)
              | RdDeadLettered \<Rightarrow> snapshot_of task LcDeadLettered
                  (''runtime task moved to dead letter: '' @ error_message) artifacts None
                  (Some error_message))
          in report e task attempt sn s)"

text \<open>What a round of a worker group takes from the world.\<close>

record round_inputs =
  ri_now :: system_time
  ri_later :: system_time
  ri_retry_now :: system_time
  ri_prepare :: worker_host
  ri_exec :: exec_host

datatype round_result = Idle | Served | WorkerDied

definition preparing_snapshot :: "runtime_task \<Rightarrow> task_snapshot" where
  "preparing_snapshot task = snapshot_of task LcPreparing
     ''runtime task is preparing execution artifacts'' None None None"

definition prepared_snapshot :: "runtime_task \<Rightarrow> prepared_artifacts \<Rightarrow> task_snapshot" where
  "prepared_snapshot task a = snapshot_of task LcPrepared
     ''runtime artifacts prepared successfully'' (Some a) None None"

definition started_snapshot :: "runtime_task \<Rightarrow> prepared_artifacts \<Rightarrow> task_snapshot" where
  "started_snapshot task a =
     (if pa_compile_stage a \<noteq> None
      then snapshot_of task LcCompiling ''compilation stage started'' (Some a) None None
      else snapshot_of task LcRunning ''interpreter task started'' (Some a) None None)"

definition final_message :: "task_lifecycle_status \<Rightarrow> string" where
  "final_message status = (case status of
     LcCompleted \<Rightarrow> ''runtime execution completed successfully''
   | LcFailed \<Rightarrow> ''runtime execution failed''
   | _ \<Rightarrow> ''runtime execution finished'')"

definition final_snapshot ::
    "runtime_task \<Rightarrow> prepared_artifacts \<Rightarrow> execution_outcome \<Rightarrow> task_snapshot" where
  "final_snapshot task a out =
     snapshot_of task (eo_final_status out) (final_message (eo_final_status out)) (Some a) (Some out) None"

text \<open>The execution of prepared artifacts; a panic ends the worker group's loop.\<close>

definition run_prepared ::
    "('q, 'obs) service_parts \<Rightarrow> round_inputs \<Rightarrow> task_delivery \<Rightarrow> prepared_artifacts \<Rightarrow>
       ('q, 'obs) task_service \<Rightarrow> round_result \<times> ('q, 'obs) task_service" where
  "run_prepared e i d a s =
     (let task = dv_task d
      in case execute (se_worker e) (wh_env (ri_prepare i)) (ri_exec i) a (sv_files s) of
           (r, fs) \<Rightarrow>
             let s = s\<lparr>sv_files := fs\<rparr>
             in case r of
                  None \<Rightarrow> (WorkerDied, s)
                | Some (Inl err) \<Rightarrow>
                    (Served, handle_delivery_failure e (ri_retry_now i) task (dv_attempt d)
                       (dv_delivery_id d) (Some a)
                       (''runtime execution failed: '' @ app_error_to_string err) s)
                | Some (Inr out) \<Rightarrow>
                    let s = report e task (dv_attempt d) (final_snapshot task a out) s
                    in (Served, s\<lparr>sv_queue :=
                         snd (op_ack (se_ops e) (dv_delivery_id d) (sv_queue s))\<rparr>))"

definition serve_delivery ::
    "('q, 'obs) service_parts \<Rightarrow> round_inputs \<Rightarrow> task_delivery \<Rightarrow> ('q, 'obs) task_service \<Rightarrow>
       round_result \<times> ('q, 'obs) task_service" where
  "serve_delivery e i d s =
     (let task = dv_task d;
          s = report e task (dv_attempt d) (preparing_snapshot task) s
      in case prepare (se_worker e) (ri_prepare i) task (sv_files s) of
           (Inl err, fs) \<Rightarrow>
             (Served, handle_delivery_failure e (ri_retry_now i) task (dv_attempt d)
                (dv_delivery_id d) None
                (''runtime artifact preparation failed: '' @ app_error_to_string err)
                (s\<lparr>sv_files := fs\<rparr>))
         | (Inr a, fs) \<Rightarrow>
             run_prepared e i d a
               (report e task (dv_attempt d) (started_snapshot task a)
                 (report e task (dv_attempt d) (prepared_snapshot task a) (s\<lparr>sv_files := fs\<rparr>))))"

text \<open>One round of a worker group's loop.\<close>

definition worker_round ::
    "('q, 'obs) service_parts \<Rightarrow> round_inputs \<Rightarrow> route_binding list \<Rightarrow> ('q, 'obs) task_service \<Rightarrow>
       round_result \<times> ('q, 'obs) task_service" where
  "worker_round e i bindings s =
     (case op_reserve (se_ops e) (ri_now i) (ri_later i) bindings (sv_queue s) of
        (None, q) \<Rightarrow> (Idle, s\<lparr>sv_queue := q\<rparr>)
      | (Some d, q) \<Rightarrow> serve_delivery e i d (s\<lparr>sv_queue := q\<rparr>))"

section \<open>Requests\<close>

definition queued_event :: "runtime_task \<Rightarrow> task_event" where
  "queued_event task =
     \<lparr>te_task_id = rt_task_id task, te_source_domain = rt_source_domain task,
      te_queue = rt_queue task, te_lane = rt_lane task, te_attempt = 1,
      te_submission_id = extract_submission_id task, te_problem_id = extract_problem_id task,
      te_user_id = extract_user_id task, te_language = extract_language task,
      te_status = LcQueued, te_message = ''runtime task queued'', te_execution_id = None,
      te_outcome = None\<rparr>"

definition schedule ::
    "('q, 'obs) service_parts \<Rightarrow> system_time \<Rightarrow> runtime_task \<Rightarrow> ('q, 'obs) task_service \<Rightarrow>
       queue_receipt app_result \<times> ('q, 'obs) task_service" where
  "schedule e now task s =
     (let s = update_snapshot (snapshot_of task LcQueued ''runtime task queued'' None None None) s
      in case op_enqueue (se_ops e) now task (sv_queue s) of
           (Inl err, q) \<Rightarrow> (Inl err, s\<lparr>sv_queue := q\<rparr>)
         | (Inr _, q) \<Rightarrow>
             (Inr \<lparr>qr_task_id = rt_task_id task, qr_queue = rt_queue task, qr_lane = rt_lane task,
                   qr_status = LcQueued\<rparr>,
              s\<lparr>sv_queue := q, sv_spawned := sv_spawned s @ [queued_event task]\<rparr>))"

text \<open>The scheduler of the async runtime runs a spawned task, in any order.\<close>

definition deliver_spawned ::
    "('q, 'obs) service_parts \<Rightarrow> nat \<Rightarrow> ('q, 'obs) task_service \<Rightarrow> ('q, 'obs) task_service" where
  "deliver_spawned e i s =
     (if i < length (sv_spawned s)
      then observe_event e (sv_spawned s ! i)
             (s\<lparr>sv_spawned := take i (sv_spawned s) @ drop (Suc i) (sv_spawned s)\<rparr>)
      else s)"

definition get_task :: "string \<Rightarrow> ('q, 'obs) task_service \<Rightarrow> task_snapshot app_result" where
  "get_task task_id s =
     ok_or (map_of (sv_snapshots s) task_id) (NotFound (''runtime task not found: '' @ task_id))"

definition queue_stats_of ::
    "('q, 'obs) service_parts \<Rightarrow> ('q, 'obs) task_service \<Rightarrow>
       queue_stats list app_result \<times> ('q, 'obs) task_service" where
  "queue_stats_of e s =
     (case op_stats (se_ops e) (sv_queue s) of (r, q) \<Rightarrow> (r, s\<lparr>sv_queue := q\<rparr>))"

definition dead_letters_of ::
    "('q, 'obs) service_parts \<Rightarrow> ('q, 'obs) task_service \<Rightarrow>
       dead_letter_record list app_result \<times> ('q, 'obs) task_service" where
  "dead_letters_of e s =
     (case op_dead_letters (se_ops e) (sv_queue s) of (r, q) \<Rightarrow> (r, s\<lparr>sv_queue := q\<rparr>))"

text \<open>\<open>while history.len() > 100 { history.pop_front(); }\<close>\<close>

function pop_to_cap :: "'a list \<Rightarrow> 'a list" where
  "pop_to_cap h = (if 100 < length h then pop_to_cap (tl h) else h)"
  by pat_completeness auto
termination by (relation "measure length") auto

declare pop_to_cap.simps [simp del]

definition service_replay_dead_letter ::
    "('q, 'obs) service_parts \<Rightarrow> system_time \<Rightarrow> system_time \<Rightarrow> string \<Rightarrow> ('q, 'obs) task_service \<Rightarrow>
       queue_receipt app_result \<times> ('q, 'obs) task_service" where
  "service_replay_dead_letter e now later delivery_id s =
     (case op_replay_dead_letter (se_ops e) now delivery_id (sv_queue s) of
        (Inl err, q) \<Rightarrow> (Inl err, s\<lparr>sv_queue := q\<rparr>)
      | (Inr receipt, q) \<Rightarrow>
          (Inr receipt,
           s\<lparr>sv_queue := q,
             sv_replay_history := pop_to_cap (sv_replay_history s @
               [\<lparr>rr_delivery_id = delivery_id, rr_task_id = qr_task_id receipt,
                 rr_queue = qr_queue receipt, rr_lane = qr_lane receipt,
                 rr_replayed_at_ms = epoch_ms later, rr_status = qr_status receipt\<rparr>])\<rparr>))"

definition node_status_of :: "system_time \<Rightarrow> ('q, 'obs) task_service \<Rightarrow> node_status" where
  "node_status_of now s =
     \<lparr>ns_node_id = sv_node_id s, ns_started_at_ms = sv_started_at_ms s,
      ns_last_heartbeat_ms = (if 0 \<le> now then epoch_ms now else sv_started_at_ms s),
      ns_node_status = NodeHealthy, ns_worker_groups = sv_worker_groups s, ns_broker = sv_broker s\<rparr>"

section \<open>Management\<close>

definition runbook_doc_path :: string where
  "runbook_doc_path =
     ''P0_'' @
     [CHR 0xE7, CHR 0x94, CHR 0x9F, CHR 0xE4, CHR 0xBA, CHR 0xA7, CHR 0xE7, CHR 0xA8, CHR
      0xB3, CHR 0xE5, CHR 0xAE, CHR 0x9A, CHR 0xE6, CHR 0x80, CHR 0xA7, CHR 0xE4, CHR 0xB8,
      CHR 0x8E, CHR 0xE8, CHR 0xBF, CHR 0x90, CHR 0xE7, CHR 0xBB, CHR 0xB4, CHR 0xE9, CHR
      0x97, CHR 0xAD, CHR 0xE7, CHR 0x8E, CHR 0xAF] @
     ''_Runbook.md''"

definition runtime_management_runbooks :: "runbook_link list" where
  "runtime_management_runbooks =
     [\<lparr>rl_runbook_ref = ''p0.broker-recovery-window'', rl_title = ''Broker recovery window handling'',
       rl_doc_path = runbook_doc_path, rl_section_ref = ''broker-recovery-window''\<rparr>,
      \<lparr>rl_runbook_ref = ''p0.broker-persistent-failures'',
       rl_title = ''Broker persistent failure handling'',
       rl_doc_path = runbook_doc_path, rl_section_ref = ''broker-persistent-failures''\<rparr>]"

definition runtime_management_runbook :: "string \<Rightarrow> runbook_link option" where
  "runtime_management_runbook runbook_ref =
     find (\<lambda>item. rl_runbook_ref item = runbook_ref) runtime_management_runbooks"

definition recovery_alert :: management_alert where
  "recovery_alert =
     \<lparr>al_code = ''broker_recovery_window_active'', al_severity = SevWarning,
      al_reason = RecoveryWindowActive,
      al_message = ''broker is still inside the recent recovery window after an operation failure'',
      al_recommended_action = Some
        \<lparr>ra_label = ''Watch broker recovery and confirm failures stop increasing'',
         ra_action_kind = ObserveRecovery, ra_runbook_ref = Some ''p0.broker-recovery-window'',
         ra_runbook = runtime_management_runbook ''p0.broker-recovery-window''\<rparr>\<rparr>"

definition persistent_alert :: "u64 \<Rightarrow> management_alert" where
  "persistent_alert n =
     \<lparr>al_code = ''broker_persistent_failures_detected'', al_severity = SevCritical,
      al_reason = PersistentFailuresDetected,
      al_message = ''broker observed '' @ show_word n @ '' failures inside the recent health window'',
      al_recommended_action = Some
        \<lparr>ra_label = ''Inspect broker logs and connectivity, then review dead-letter replay after recovery'',
         ra_action_kind = InspectBrokerLogs, ra_runbook_ref = Some ''p0.broker-persistent-failures'',
         ra_runbook = runtime_management_runbook ''p0.broker-persistent-failures''\<rparr>\<rparr>"

definition build_broker_management_health :: "failure_health_snapshot \<Rightarrow> management_health" where
  "build_broker_management_health h =
     (let reasons = (if fh_recovery_window_active h then [RecoveryWindowActive] else []) @
            (if fh_persistent_failures_detected h then [PersistentFailuresDetected] else []);
          alerts = (if fh_recovery_window_active h then [recovery_alert] else []) @
            (if fh_persistent_failures_detected h
             then [persistent_alert (fh_recent_failure_count h)] else [])
      in \<lparr>bh_status = (if reasons = [] then BrokerHealthy else BrokerDegraded),
          bh_degradation_reasons = reasons, bh_alerts = alerts,
          bh_recovery_window_active = fh_recovery_window_active h,
          bh_persistent_failures_detected = fh_persistent_failures_detected h,
          bh_last_failure_at_ms = fh_last_failure_at_ms h,
          bh_recent_failure_count = fh_recent_failure_count h\<rparr>)"

definition broker_management_view ::
    "('q, 'obs) service_parts \<Rightarrow> system_time \<Rightarrow> system_time \<Rightarrow> ('q, 'obs) task_service \<Rightarrow>
       management_view app_result \<times> ('q, 'obs) task_service" where
  "broker_management_view e now later s =
     st_then (queue_stats_of e s) (\<lambda>stats s.
     st_then (dead_letters_of e s) (\<lambda>letters s.
     case se_health e now (bo_broker (sv_broker s)) (sv_queue s) of
       (snapshot, q) \<Rightarrow>
         let s = s\<lparr>sv_queue := q\<rparr>; history = sv_replay_history s
         in (Inr
           \<lparr>bv_node = node_status_of later s, bv_broker = sv_broker s,
            bv_health = build_broker_management_health snapshot,
            bv_runbooks = runtime_management_runbooks, bv_worker_groups = sv_worker_groups s,
            bv_queue_stats = stats, bv_dead_letters = letters, bv_replay_history = history,
            bv_summary =
              \<lparr>ms_queue_count = length stats, ms_queued = sum_list (map qs_queued stats),
               ms_leased = sum_list (map qs_leased stats),
               ms_dead_lettered = sum_list (map qs_dead_lettered stats),
               ms_replayed = length history, ms_dead_letter_records_total = length letters,
               ms_replay_history_total = length history\<rparr>\<rparr>, s)))"

end
