(* ===== verification/Prepare_Props.thy ===== *)
theory Prepare_Props
  imports Prepare
begin

text \<open>
  What preparation establishes: exactly the tasks it accepts, the files of every test case,
  and the stage that runs each case.
\<close>

section \<open>Validation\<close>

lemma check_case_nos_ok:
  "check_case_nos seen ts = Inr () \<longleftrightarrow>
     distinct (map tc_case_no ts) \<and> set (map tc_case_no ts) \<inter> set seen = {}"
  by (induction seen ts rule: check_case_nos.induct) auto

lemma fail_if_ok [simp]: "fail_if c m = Inr () \<longleftrightarrow> \<not> c"
  by (simp add: fail_if_def)

lemma validates_iff:
  "validate_oj_task payload = Inr () \<longleftrightarrow>
     trim (oj_source_code payload) \<noteq> [] \<and>
     lim_time_limit_ms (oj_limits payload) \<noteq> 0 \<and> lim_memory_limit_kb (oj_limits payload) \<noteq> 0 \<and>
     oj_testcases payload \<noteq> [] \<and> distinct (map tc_case_no (oj_testcases payload)) \<and>
     \<not> (oj_judge_mode payload = RtFunctional
        \<and> \<not> is_some_and (oj_judge_config payload) (\<lambda>c. jc_function_signature c \<noteq> None)) \<and>
     \<not> ((oj_sandbox_kind payload = RtWasm \<or> oj_sandbox_kind payload = RtNsjailWasm)
        \<and> is_some_and (oj_judge_config payload) (\<lambda>c. jc_judge_method c = RtSpj))"
  unfolding validate_oj_task_def by (auto simp: and_then_Inr_iff check_case_nos_ok)

text \<open>C13: A task is accepted exactly when its source is not blank, both limits are positive, it
  has test cases with pairwise different numbers, a functional task has a signature, and a
  wasm task is judged by the validator.\<close>

theorem validate_oj_task_accepts:
  "validate_oj_task payload = Inr () \<longleftrightarrow>
     trim (oj_source_code payload) \<noteq> [] \<and>
     0 < lim_time_limit_ms (oj_limits payload) \<and> 0 < lim_memory_limit_kb (oj_limits payload) \<and>
     oj_testcases payload \<noteq> [] \<and> distinct (map tc_case_no (oj_testcases payload)) \<and>
     (if oj_judge_mode payload = RtFunctional
      then is_some_and (oj_judge_config payload) (\<lambda>c. jc_function_signature c \<noteq> None) else True) \<and>
     (if oj_sandbox_kind payload \<noteq> RtNsjail
      then map_or_true (oj_judge_config payload) (\<lambda>c. jc_judge_method c = RtValidator) else True)"
proof -
  have k: "oj_sandbox_kind payload = RtWasm \<or> oj_sandbox_kind payload = RtNsjailWasm \<longleftrightarrow>
      oj_sandbox_kind payload \<noteq> RtNsjail"
    by (cases "oj_sandbox_kind payload") simp_all
  have m: "\<not> is_some_and c (\<lambda>c. jc_judge_method c = RtSpj) \<longleftrightarrow>
      map_or_true c (\<lambda>c. jc_judge_method c = RtValidator)" for c :: "runtime_judge_config option"
    by (cases c) (auto intro: runtime_judge_method.exhaust)
  show ?thesis
    unfolding validates_iff k by (auto simp: word_neq_0_conv m split: if_splits)
qed

section \<open>Files of the cases\<close>

lemma path_join_inject [simp]:
  "\<not> has_root m \<Longrightarrow> \<not> has_root n \<Longrightarrow> path_join b m = path_join b n \<longleftrightarrow> m = n"
  by (simp add: path_join_def)

lemma split_last_no_sep:
  assumes "sep \<notin> set n"
  shows "split_last n = ([], n)"
proof -
  have "takeWhile (\<lambda>c. c \<noteq> sep) (rev n) = rev n"
    unfolding takeWhile_eq_all_conv using assms by auto
  then show ?thesis unfolding split_last_def Let_def by (simp only:) simp
qed

text \<open>The last component of a joined path.\<close>

lemma split_last_join:
  assumes "sep \<notin> set n" and "\<not> has_root n"
  shows "snd (split_last (path_join b n)) = n"
proof (cases "b \<noteq> [] \<and> last b = sep")
  case True
  then obtain b' where "b = b' @ [sep]" by (metis append_butlast_last_id)
  then show ?thesis using assms split_last_append [of n b'] by (simp add: path_join_def)
next
  case False
  then show ?thesis using assms split_last_append [of n b] split_last_no_sep [of n]
    by (auto simp: path_join_def)
qed

lemma path_join_file_neq:
  "sep \<notin> set m \<Longrightarrow> sep \<notin> set n \<Longrightarrow> \<not> has_root m \<Longrightarrow> \<not> has_root n \<Longrightarrow> m \<noteq> n \<Longrightarrow>
     path_join b m \<noteq> path_join c n"
  using split_last_join by metis

definition case_directory :: "string \<Rightarrow> u32 \<Rightarrow> string" where
  "case_directory work_dir case_no =
     path_join (path_join work_dir ''cases'') (''case_'' @ zero_pad 3 (show_word case_no))"

lemma zero_pad_no_sep: "sep \<notin> set (zero_pad k (show_word (n :: 'a::len word)))"
proof
  assume "sep \<in> set (zero_pad k (show_word n))"
  then have "sep = CHR ''0'' \<or> sep \<in> set (show_nat (unat n))"
    by (auto simp: zero_pad_def show_word_def split: if_splits)
  then obtain d where "d < 10" and "sep = digit d" using set_show_nat by fastforce
  moreover have "byte sep = 47" by (simp add: byte_def)
  ultimately show False by (simp add: byte_digit)
qed

text \<open>The directory of a test case, and its files.\<close>

definition case_dir_of :: "string \<Rightarrow> runtime_testcase \<Rightarrow> prepared_case_dir" where
  "case_dir_of work_dir t =
     (let d = case_directory work_dir (tc_case_no t)
      in \<lparr>cd_case_no = tc_case_no t, cd_score = tc_score t, cd_directory = d,
          cd_input_path = path_join d ''input.txt'', cd_answer_path = path_join d ''answer.txt'',
          cd_output_path = path_join d ''output.txt'', cd_stderr_path = path_join d ''err.txt''\<rparr>)"

definition case_paths :: "prepared_case_dir \<Rightarrow> string list" where
  "case_paths c = [cd_input_path c, cd_answer_path c, cd_output_path c, cd_stderr_path c]"

definition case_file_names :: "string list" where
  "case_file_names = [''input.txt'', ''answer.txt'', ''output.txt'', ''err.txt'']"

lemma case_dir_of_simps [simp]:
  "cd_case_no (case_dir_of w t) = tc_case_no t" "cd_score (case_dir_of w t) = tc_score t"
  by (simp_all add: case_dir_of_def Let_def)

lemma case_paths_of:
  "case_paths (case_dir_of w t) = map (path_join (case_directory w (tc_case_no t))) case_file_names"
  by (simp add: case_paths_def case_dir_of_def case_file_names_def Let_def)

lemma case_directory_name:
  "sep \<notin> set (''case_'' @ zero_pad 3 (show_word n))" "\<not> has_root (''case_'' @ zero_pad 3 (show_word n))"
  using zero_pad_no_sep [of 3 n] by (auto simp: has_root_def)

lemma case_directory_last:
  "case_directory w n \<noteq> []" "last (case_directory w n) \<noteq> sep"
proof -
  let ?m = "''case_'' @ zero_pad 3 (show_word n)"
  have "\<exists>pre. case_directory w n = pre @ ?m"
    unfolding case_directory_def path_join_def [of _ ?m] using case_directory_name(2) [of n] by auto
  then obtain pre where pre: "case_directory w n = pre @ ?m" by blast
  then show "case_directory w n \<noteq> []" by simp
  have "last (case_directory w n) = last ?m" unfolding pre by (subst last_appendR) simp_all
  moreover have "last ?m \<in> set ?m" by (rule last_in_set) simp
  ultimately show "last (case_directory w n) \<noteq> sep" using case_directory_name(1) [of n] by (auto simp only:)
qed

lemma case_directory_inject [simp]: "case_directory w m = case_directory w n \<longleftrightarrow> m = n"
  using case_directory_name(2) [of m] case_directory_name(2) [of n]
  by (simp add: case_directory_def show_word_def zero_pad_inject word_unat_eq_iff)

lemma split_last_case_file:
  assumes "f \<in> set case_file_names"
  shows "split_last (path_join (case_directory w n) f) = (case_directory w n, f)"
proof -
  have "\<not> has_root f" "sep \<notin> set f"
    using assms by (auto simp: case_file_names_def has_root_def)
  then show ?thesis
    using case_directory_last [of w n] split_last_append [of f "case_directory w n"]
    by (simp add: path_join_def)
qed

text \<open>Files of different cases, or with different names, are different files.\<close>

lemma case_file_eq:
  "f \<in> set case_file_names \<Longrightarrow> g \<in> set case_file_names \<Longrightarrow>
     path_join (case_directory w m) f = path_join (case_directory w n) g \<longleftrightarrow> m = n \<and> f = g"
  by (metis case_directory_inject prod.inject split_last_case_file)

lemma case_paths_disjoint:
  "m \<noteq> tc_case_no t \<Longrightarrow> f \<in> set case_file_names \<Longrightarrow>
     path_join (case_directory w m) f \<notin> set (case_paths (case_dir_of w t))"
  by (auto simp: case_paths_of case_file_eq)

lemma case_paths_distinct: "distinct (case_paths (case_dir_of w t))"
  unfolding case_paths_of distinct_map by (auto simp: inj_on_def case_file_eq case_file_names_def)

lemma work_file_not_case:
  assumes "f \<notin> set case_file_names" "sep \<notin> set f" "\<not> has_root f"
  shows "path_join w f \<notin> set (case_paths (case_dir_of w' t))"
proof
  assume "path_join w f \<in> set (case_paths (case_dir_of w' t))"
  then obtain g where g: "g \<in> set case_file_names"
    and eq: "path_join w f = path_join (case_directory w' (tc_case_no t)) g"
    by (auto simp: case_paths_of)
  have "f = g"
    using split_last_join [OF assms(2,3), of w] split_last_case_file [OF g] unfolding eq by simp
  with g assms(1) show False by simp
qed

section \<open>Preparing the cases\<close>

definition case_ready :: "files \<Rightarrow> runtime_testcase \<Rightarrow> prepared_case_dir \<Rightarrow> bool" where
  "case_ready fs t c \<longleftrightarrow>
     map_of fs (cd_input_path c) = Some (tc_input t) \<and>
     map_of fs (cd_answer_path c) = Some (tc_expected_output t) \<and>
     map_of fs (cd_output_path c) = Some [] \<and> map_of fs (cd_stderr_path c) = Some []"

lemma case_ready_cong:
  "case_ready fs t c \<Longrightarrow> (\<And>p. p \<in> set (case_paths c) \<Longrightarrow> map_of fs' p = map_of fs p) \<Longrightarrow>
     case_ready fs' t c"
  by (simp add: case_ready_def case_paths_def)

lemma write_file_Inr:
  "write_file io p s fs = (Inr (), fs') \<longleftrightarrow> io (WriteFile p) = None \<and> fs' = hm_insert p s fs"
  by (auto simp: write_file_def split: option.splits)

lemma prepare_testcase_dir_ok:
  assumes "prepare_testcase_dir h w t fs = (Inr c, fs')"
  shows "c = case_dir_of w t" and "case_ready fs' t c"
    and "p \<notin> set (case_paths c) \<Longrightarrow> map_of fs' p = map_of fs p"
proof -
  have c: "c = case_dir_of w t \<and>
      fs' = hm_insert (cd_stderr_path c) [] (hm_insert (cd_output_path c) []
        (hm_insert (cd_answer_path c) (tc_expected_output t) (hm_insert (cd_input_path c) (tc_input t) fs)))"
    using assms unfolding prepare_testcase_dir_def Let_def case_dir_of_def case_directory_def
    by (auto simp: st_then_Inr_iff write_file_Inr)
  then show "c = case_dir_of w t" by blast
  then show "case_ready fs' t c" "p \<notin> set (case_paths c) \<Longrightarrow> map_of fs' p = map_of fs p"
    using c case_paths_distinct [of w t] by (auto simp: case_ready_def case_paths_def)
qed

lemma prepare_cases_ok:
  "collect_st (prepare_testcase_dir h w) ts fs = (Inr cs, fs') \<Longrightarrow> distinct (map tc_case_no ts) \<Longrightarrow>
     cs = map (case_dir_of w) ts \<and> list_all (\<lambda>t. case_ready fs' t (case_dir_of w t)) ts \<and>
     (\<forall>p. list_all (\<lambda>t. p \<notin> set (case_paths (case_dir_of w t))) ts \<longrightarrow> map_of fs' p = map_of fs p)"
proof (induction ts arbitrary: fs cs)
  case (Cons t ts)
  then obtain c fs1 cs1 where 1: "prepare_testcase_dir h w t fs = (Inr c, fs1)"
    and 2: "collect_st (prepare_testcase_dir h w) ts fs1 = (Inr cs1, fs')" and cs: "cs = c # cs1"
    by (auto simp: st_then_Inr_iff)
  note t = prepare_testcase_dir_ok [OF 1] and ih = Cons.IH [OF 2]
  have "map_of fs' p = map_of fs1 p" if "p \<in> set (case_paths (case_dir_of w t))" for p
    using ih Cons.prems(2) that case_paths_disjoint [of "tc_case_no t" _ _ w]
    by (fastforce simp: case_paths_of list_all_iff)
  with t have "case_ready fs' t (case_dir_of w t)" using case_ready_cong by blast
  with t ih Cons.prems(2) show ?case unfolding cs by simp
qed simp

section \<open>Preparing the task\<close>

text \<open>Names of files the preparation writes beside the cases.\<close>

definition spj_file_names :: "string list" where
  "spj_file_names = [''spj.py'', ''spj.rs'', ''spj.cpp'']"

definition own_file_names :: "string list" where
  "own_file_names = case_file_names @ spj_file_names @ [''manifest.json'']"

definition plain_name :: "string \<Rightarrow> bool" where
  "plain_name f \<longleftrightarrow> sep \<notin> set f \<and> \<not> has_root f"

lemma plain_own_names: "f \<in> set own_file_names \<Longrightarrow> plain_name f"
  by (auto simp: own_file_names_def case_file_names_def spj_file_names_def plain_name_def has_root_def)

lemma join_plain_eq: "plain_name f \<Longrightarrow> plain_name g \<Longrightarrow> path_join w f = path_join w g \<longleftrightarrow> f = g"
  by (simp add: plain_name_def)

lemma spj_spec_name:
  "build_spj_execution_spec e spj = Inr spec \<Longrightarrow> sx_source_filename spec \<in> set spj_file_names"
  by (auto simp: build_spj_execution_spec_def spj_file_names_def Let_def split: if_splits)

lemma build_spj_artifacts_ok:
  assumes "build_spj_artifacts w h wd c fs = (Inr s, fs')"
  shows "s = None \<longleftrightarrow> \<not> is_some_and c (\<lambda>c. jc_judge_method c = RtSpj)"
    and "p \<notin> path_join wd ` set spj_file_names \<Longrightarrow> map_of fs' p = map_of fs p"
  using assms spj_spec_name
  by (fastforce simp: build_spj_artifacts_def st_then_Inr_iff write_file_Inr Let_def
      split: option.splits if_splits)+

text \<open>What a successful preparation returns and leaves.\<close>

definition work_dir_of :: "runtime_worker \<Rightarrow> worker_host \<Rightarrow> string" where
  "work_dir_of w h = path_join (wk_work_root w) (''rt-'' @ wh_ulid h)"

lemma prepare_oj_task_Inr:
  assumes "prepare_oj_task w h task_id payload fs = (Inr a, fs')"
  obtains plan fs1 fs2 fs3 m where "validate_oj_task payload = Inr ()"
    "build_task_plan w payload = Inr plan"
    "fs1 = hm_insert (pa_source_path a) (oj_source_code payload) fs"
    "collect_st (prepare_testcase_dir h (work_dir_of w h)) (oj_testcases payload) fs1 = (Inr (pa_cases a), fs2)"
    "build_spj_artifacts w h (work_dir_of w h) (oj_judge_config payload) fs2 = (Inr (pa_spj_artifacts a), fs3)"
    "fs' = hm_insert (path_join (work_dir_of w h) ''manifest.json'') m fs3"
    "pa_work_dir a = work_dir_of w h" "pa_judge_config a = oj_judge_config payload"
    "pa_source_path a = path_join (work_dir_of w h) (pl_source_filename plan)"
    "pa_compile_stage a = (if pl_compile_required plan
       then Some (build_compile_stage w (wh_env h) (work_dir_of w h) plan) else None)"
    "pa_run_stages a = map (build_run_stage w (wh_env h) (work_dir_of w h) plan payload) (pa_cases a)"
  using assms unfolding prepare_oj_task_def Let_def work_dir_of_def [symmetric]
  by (auto simp: st_then_Inr_iff write_file_Inr)

lemma path_join_plain_not_case:
  "plain_name f \<Longrightarrow> f \<notin> set case_file_names \<Longrightarrow> path_join w f \<notin> set (case_paths (case_dir_of w' t))"
  by (simp add: plain_name_def work_file_not_case)

lemma prepare_oj_task_files:
  assumes ok: "prepare_oj_task w h task_id payload fs = (Inr a, fs')"
  shows "pa_cases a = map (case_dir_of (work_dir_of w h)) (oj_testcases payload)"
    and "list_all (\<lambda>t. case_ready fs' t (case_dir_of (work_dir_of w h) t)) (oj_testcases payload)"
    and "pa_source_path a = path_join (work_dir_of w h) f \<Longrightarrow> plain_name f \<Longrightarrow>
      f \<notin> set own_file_names \<Longrightarrow> map_of fs' (pa_source_path a) = Some (oj_source_code payload)"
proof -
  let ?wd = "work_dir_of w h"
  obtain plan fs1 fs2 fs3 m where v: "validate_oj_task payload = Inr ()"
    and fs1: "fs1 = hm_insert (pa_source_path a) (oj_source_code payload) fs"
    and c: "collect_st (prepare_testcase_dir h ?wd) (oj_testcases payload) fs1 = (Inr (pa_cases a), fs2)"
    and s: "build_spj_artifacts w h ?wd (oj_judge_config payload) fs2 = (Inr (pa_spj_artifacts a), fs3)"
    and m: "fs' = hm_insert (path_join ?wd ''manifest.json'') m fs3"
    using prepare_oj_task_Inr [OF ok] by metis
  have "distinct (map tc_case_no (oj_testcases payload))"
    using v unfolding validate_oj_task_def by (auto simp: and_then_Inr_iff check_case_nos_ok)
  note cases = prepare_cases_ok [OF c this]
  then show "pa_cases a = map (case_dir_of ?wd) (oj_testcases payload)" by blast
  have "map_of fs' p = map_of fs2 p" if "p \<in> set (case_paths (case_dir_of ?wd t))" for p t
  proof -
    have "p \<noteq> path_join ?wd f" if "f \<in> set (spj_file_names @ [''manifest.json''])" for f
      using that path_join_plain_not_case [of f ?wd ?wd t] plain_own_names [of f]
        \<open>p \<in> set (case_paths (case_dir_of ?wd t))\<close>
      by (auto simp: own_file_names_def case_file_names_def spj_file_names_def)
    then show ?thesis using build_spj_artifacts_ok(2) [OF s, of p] unfolding m by auto
  qed
  then show "list_all (\<lambda>t. case_ready fs' t (case_dir_of ?wd t)) (oj_testcases payload)"
    using cases case_ready_cong unfolding list_all_iff by blast
  assume src: "pa_source_path a = path_join ?wd f" and f: "plain_name f" "f \<notin> set own_file_names"
  have "pa_source_path a \<noteq> path_join ?wd g" if "g \<in> set own_file_names" for g
    using that f plain_own_names join_plain_eq unfolding src by metis
  then have ne: "pa_source_path a \<noteq> path_join ?wd ''manifest.json''"
      "pa_source_path a \<notin> path_join ?wd ` set spj_file_names"
    by (auto simp: own_file_names_def)
  have "map_of fs2 (pa_source_path a) = map_of fs1 (pa_source_path a)"
    using cases path_join_plain_not_case [of f ?wd ?wd] f unfolding src
    by (auto simp: own_file_names_def list_all_iff)
  then show "map_of fs' (pa_source_path a) = Some (oj_source_code payload)"
    using ne build_spj_artifacts_ok(2) [OF s] by (simp add: m fs1)
qed

text \<open>When the host refuses nothing, only the task itself can be refused.\<close>

definition spj_ok :: "host_env \<Rightarrow> runtime_judge_config option \<Rightarrow> bool" where
  "spj_ok e c \<longleftrightarrow> (if is_some_and c (\<lambda>c. jc_judge_method c = RtSpj)
     then is_some_and c (\<lambda>c. is_some_and (jc_spj c) (\<lambda>spj. \<exists>x. build_spj_execution_spec e spj = Inr x))
     else True)"

lemma prepare_testcase_dir_succeeds:
  "wh_io h = (\<lambda>_. None) \<Longrightarrow> \<exists>c fs'. prepare_testcase_dir h wd t fs = (Inr c, fs')"
  by (simp add: prepare_testcase_dir_def Let_def create_dir_all_def write_file_def)

lemma prepare_cases_succeed:
  "wh_io h = (\<lambda>_. None) \<Longrightarrow> \<exists>cs fs'. collect_st (prepare_testcase_dir h wd) ts fs = (Inr cs, fs')"
proof (induction ts arbitrary: fs)
  case (Cons t ts)
  obtain c fs1 where 1: "prepare_testcase_dir h wd t fs = (Inr c, fs1)"
    using prepare_testcase_dir_succeeds [OF Cons.prems] by blast
  with Cons.IH [OF Cons.prems, of fs1] show ?case by auto
qed simp

lemma build_spj_artifacts_succeeds:
  "wh_io h = (\<lambda>_. None) \<Longrightarrow> spj_ok (wh_env h) c \<Longrightarrow>
     \<exists>s fs'. build_spj_artifacts w h wd c fs = (Inr s, fs')"
  by (auto simp: build_spj_artifacts_def spj_ok_def is_some_and_iff write_file_def Let_def
      split: option.splits if_splits)

lemma prepare_oj_task_succeeds:
  assumes "wh_io h = (\<lambda>_. None)" and "\<And>j. wh_to_vec_pretty h j \<noteq> None"
    and "validate_oj_task payload = Inr ()" and "build_task_plan w payload = Inr plan"
    and "spj_ok (wh_env h) (oj_judge_config payload)"
  shows "\<exists>a fs'. prepare_oj_task w h task_id payload fs = (Inr a, fs')"
proof -
  let ?wd = "work_dir_of w h"
  let ?fs1 = "hm_insert (path_join ?wd (pl_source_filename plan)) (oj_source_code payload) fs"
  obtain cs fs2 where c: "collect_st (prepare_testcase_dir h ?wd) (oj_testcases payload) ?fs1 = (Inr cs, fs2)"
    using prepare_cases_succeed [OF assms(1)] by blast
  obtain s fs3 where s: "build_spj_artifacts w h ?wd (oj_judge_config payload) fs2 = (Inr s, fs3)"
    using build_spj_artifacts_succeeds [OF assms(1,5)] by blast
  obtain m where m: "wh_to_vec_pretty h
      (json_manifest task_id (''rt-'' @ wh_ulid h) payload plan cs) = Some m"
    using assms(2) by blast
  have w: "write_file (wh_io h) p x fs = (Inr (), hm_insert p x fs)" for p x fs
    using assms(1) by (simp add: write_file_def)
  have d: "create_dir_all (wh_io h) p = Inr ()" for p using assms(1) by (simp add: create_dir_all_def)
  show ?thesis
    unfolding prepare_oj_task_def Let_def work_dir_of_def [symmetric]
    by (simp add: assms(3,4) c s m [simplified] w d)
qed

section \<open>Properties\<close>

lemma default_plan_source:
  assumes "wk_catalog w = build_default_runtime_catalog e" and "build_task_plan w payload = Inr plan"
  shows "pl_source_filename plan \<in> {''main.cpp'', ''main.py'', ''main.rs''}"
    and "pl_execution_backend plan = kind_backend (oj_sandbox_kind payload)"
proof -
  obtain tool where t: "tool \<in> set [cpp_toolchain e, python_toolchain e, rust_toolchain e]"
    and p: "planner_build_plan tool payload = Inr plan"
    using assms by (auto simp: build_task_plan_def and_then_Inr_iff default_catalog planner_def ok_or_def
        split: if_splits)
  show "pl_execution_backend plan = kind_backend (oj_sandbox_kind payload)"
    using planner_plan_ok [OF t p] by (simp add: plan_ok_def)
  show "pl_source_filename plan \<in> {''main.cpp'', ''main.py'', ''main.rs''}"
    using t p by (cases "oj_sandbox_kind payload")
      (auto simp: planner_build_plan_def planner_sandboxes_simps finalize_plan_def
        cpp_toolchain_def python_toolchain_def rust_toolchain_def recipe_defs
        nsjail_backend_def wasm_backend_def nsjail_wasm_backend_def Let_def)
qed

lemma default_source_name:
  "f \<in> {''main.cpp'', ''main.py'', ''main.rs''} \<Longrightarrow> plain_name f \<and> f \<notin> set own_file_names"
  by (auto simp: plain_name_def has_root_def own_file_names_def case_file_names_def spj_file_names_def)

lemma build_run_stage_fields [simp]:
  "ps_stdin_path (build_run_stage w e wd plan p c) = Some (cd_input_path c)"
  "ps_stdout_path (build_run_stage w e wd plan p c) = cd_output_path c"
  "ps_stderr_path (build_run_stage w e wd plan p c) = cd_stderr_path c"
  "ps_score (build_run_stage w e wd plan p c) = cd_score c"
  "ps_stage_name (build_run_stage w e wd plan p c) = ''run_case_'' @ show_word (cd_case_no c)"
  "ps_time_limit_ms (build_run_stage w e wd plan p c) = lim_time_limit_ms (oj_limits p)"
  by (simp_all add: build_run_stage_def Let_def)

lemma case_paths_all_distinct:
  "distinct (map tc_case_no ts) \<Longrightarrow> distinct (concat (map (\<lambda>t. case_paths (case_dir_of w t)) ts))"
proof (induction ts)
  case (Cons t ts)
  moreover have "set (case_paths (case_dir_of w t)) \<inter> set (case_paths (case_dir_of w u)) = {}"
    if "tc_case_no t \<noteq> tc_case_no u" for u
    using that case_paths_disjoint [of "tc_case_no t" u _ w] by (auto simp: case_paths_of [of w t])
  ultimately show ?case using case_paths_distinct [of w t] by fastforce
qed simp

text \<open>With the default catalog, a successful preparation leaves the source under the name the
  plan compiles or runs, and for every test case, in order and in a directory of its own, the
  input, the expected answer and empty output and error files, no file shared by two cases. The
  run stages read and write exactly these files, with the score of their case.\<close>

theorem prepare_lays_out_the_task:
  "case prepare_oj_task (w\<lparr>wk_catalog := build_default_runtime_catalog (wh_env h)\<rparr>) h task_id payload fs of
     (Inl e, fs') \<Rightarrow> True
   | (Inr a, fs') \<Rightarrow>
       map_of fs' (pa_source_path a) = Some (oj_source_code payload) \<and>
       map cd_case_no (pa_cases a) = map tc_case_no (oj_testcases payload) \<and>
       list_all2 (case_ready fs') (oj_testcases payload) (pa_cases a) \<and>
       distinct (concat (map case_paths (pa_cases a))) \<and>
       map (\<lambda>s. (ps_stdin_path s, ps_stdout_path s, ps_stderr_path s, ps_score s)) (pa_run_stages a) =
       map (\<lambda>c. (Some (cd_input_path c), cd_output_path c, cd_stderr_path c, cd_score c)) (pa_cases a)"
proof -
  let ?w = "w\<lparr>wk_catalog := build_default_runtime_catalog (wh_env h)\<rparr>"
  have "map_of fs' (pa_source_path a) = Some (oj_source_code payload) \<and>
       map cd_case_no (pa_cases a) = map tc_case_no (oj_testcases payload) \<and>
       list_all2 (case_ready fs') (oj_testcases payload) (pa_cases a) \<and>
       distinct (concat (map case_paths (pa_cases a))) \<and>
       map (\<lambda>s. (ps_stdin_path s, ps_stdout_path s, ps_stderr_path s, ps_score s)) (pa_run_stages a) =
       map (\<lambda>c. (Some (cd_input_path c), cd_output_path c, cd_stderr_path c, cd_score c)) (pa_cases a)"
    if ok: "prepare_oj_task ?w h task_id payload fs = (Inr a, fs')" for a fs'
  proof -
    obtain plan where v: "validate_oj_task payload = Inr ()" and p: "build_task_plan ?w payload = Inr plan"
      and src: "pa_source_path a = path_join (work_dir_of ?w h) (pl_source_filename plan)"
      and runs: "pa_run_stages a = map (build_run_stage ?w (wh_env h) (work_dir_of ?w h) plan payload) (pa_cases a)"
      using prepare_oj_task_Inr [OF ok] by metis
    note files = prepare_oj_task_files [OF ok]
    have d: "distinct (map tc_case_no (oj_testcases payload))"
      using v unfolding validate_oj_task_def by (auto simp: and_then_Inr_iff check_case_nos_ok)
    have "plain_name (pl_source_filename plan) \<and> pl_source_filename plan \<notin> set own_file_names"
      using default_source_name default_plan_source(1) [OF _ p] by simp
    then have 1: "map_of fs' (pa_source_path a) = Some (oj_source_code payload)"
      using files(3) [OF src] by blast
    have 2: "list_all2 (case_ready fs') (oj_testcases payload) (pa_cases a)"
      using files(2) unfolding files(1) by (simp add: list_all2_conv_all_nth list_all_length)
    have 3: "distinct (concat (map case_paths (pa_cases a)))"
      using case_paths_all_distinct [OF d] unfolding files(1) by (simp add: comp_def)
    show ?thesis using 1 2 3 unfolding runs by (simp add: files(1) comp_def)
  qed
  then show ?thesis by (auto split: prod.split sum.split)
qed

text \<open>The path of an answer as the jail sees it.\<close>

definition answer_in_jail :: "runtime_testcase \<Rightarrow> string" where
  "answer_in_jail t = ''/cases/case_'' @ zero_pad 3 (show_word (tc_case_no t)) @ ''/answer.txt''"

lemma path_join_below: "b \<noteq> [] \<Longrightarrow> last b \<noteq> sep \<Longrightarrow> \<not> has_root n \<Longrightarrow> path_join b n = b @ sep # n"
  by (simp add: path_join_def)

lemma cd_answer_path_below:
  assumes "w \<noteq> []" "last w \<noteq> sep"
  shows "cd_answer_path (case_dir_of w t) = w @ answer_in_jail t"
proof -
  have "case_directory w (tc_case_no t) = w @ ''/cases'' @ ''/case_'' @ zero_pad 3 (show_word (tc_case_no t))"
    using assms case_directory_name(2) [of "tc_case_no t"]
    unfolding case_directory_def by (simp add: path_join_def has_root_def)
  then show ?thesis
    using case_directory_last [of w "tc_case_no t"]
    by (simp add: case_dir_of_def Let_def path_join_below has_root_def answer_in_jail_def)
qed

lemma work_dir_of_shape:
  assumes "has_root (wk_work_root w)" "sep \<notin> set (wh_ulid h)"
  shows "has_root (work_dir_of w h)" "work_dir_of w h \<noteq> []" "last (work_dir_of w h) \<noteq> sep"
proof -
  have n: "\<not> has_root (''rt-'' @ wh_ulid h)" by (simp add: has_root_def)
  have "wk_work_root w \<noteq> []" using assms(1) by (auto simp: has_root_def)
  then obtain pre where pre: "work_dir_of w h = wk_work_root w @ pre @ ''rt-'' @ wh_ulid h"
    using n unfolding work_dir_of_def path_join_def by (metis append_Cons append_Nil)
  show "has_root (work_dir_of w h)" "work_dir_of w h \<noteq> []"
    using assms(1) unfolding pre by (auto simp: has_root_def split: list.splits)
  have "last (''rt-'' @ wh_ulid h) \<in> set (''rt-'' @ wh_ulid h)" by (rule last_in_set) simp
  moreover have "sep \<notin> set (''rt-'' @ wh_ulid h)" using assms(2) by simp
  moreover have "last (work_dir_of w h) = last (''rt-'' @ wh_ulid h)" unfolding pre by simp
  ultimately show "last (work_dir_of w h) \<noteq> sep" by metis
qed

section \<open>What the jail shows\<close>

text \<open>
  What nsjail documents of its command line. The options stand before \<open>--\<close>; five of those the
  worker passes are flags, the others take a value. The root of the jail is the directory after
  \<open>--chroot\<close>; over it come the mounts: \<open>-R\<close> binds a host path (at itself, or after a colon at
  another place), \<open>-T\<close> makes an empty directory, and the process file system is at \<open>/proc\<close>.
\<close>

definition jail_flags :: "string list" where
  "jail_flags = [''-Mo'', ''-Q'', ''--rw'', ''--use_cgroupv2'', ''--seccomp_log'']"

fun jail_options :: "string list \<Rightarrow> (string \<times> string) list" where
  "jail_options (opt # v # rest) =
     (if opt = ''--'' then []
      else if opt \<in> set jail_flags then (opt, []) # jail_options (v # rest)
      else (opt, v) # jail_options rest)"
| "jail_options _ = []"

definition known_options :: "string list" where
  "known_options = jail_flags @
     [''--chroot'', ''--user'', ''--group'', ''--cwd'', ''-R'', ''-T'', ''--time_limit'',
      ''--cgroup_mem_max'', ''--rlimit_as'', ''--cgroup_pids_max'', ''--rlimit_stack'',
      ''--rlimit_fsize'', ''--seccomp_string'']"

definition option_values :: "string \<Rightarrow> (string \<times> string) list \<Rightarrow> string list" where
  "option_values opt opts = map snd (filter (\<lambda>(o', _). o' = opt) opts)"

definition bind_target :: "string \<Rightarrow> string" where
  "bind_target v = (if CHR '':'' \<in> set v then tl (dropWhile (\<lambda>c. c \<noteq> CHR '':'') v) else v)"

definition at_or_below :: "string \<Rightarrow> string \<Rightarrow> bool" where
  "at_or_below d p \<longleftrightarrow> p = d \<or> take (length d + 1) p = d @ [sep]"

definition mounted_over :: "(string \<times> string) list \<Rightarrow> string \<Rightarrow> bool" where
  "mounted_over opts p \<longleftrightarrow>
     list_ex (\<lambda>d. at_or_below d p)
       (''/proc'' # map bind_target (option_values ''-R'' opts) @ option_values ''-T'' opts)"

text \<open>
  \<open>sees command fs p\<close> is what a program that nsjail runs by the command reads at the path \<open>p\<close>,
  when \<open>fs\<close> are the files of the host that the user of the jail may read.
\<close>

type_synonym jail_view = "string list \<Rightarrow> (string \<Rightarrow> string option) \<Rightarrow> string \<Rightarrow> string option"

definition documented_nsjail :: "jail_view \<Rightarrow> bool" where
  "documented_nsjail sees \<longleftrightarrow>
     (\<forall>nsjail args fs root p.
        (\<forall>opt \<in> set (map fst (jail_options args)). opt \<in> set known_options) \<and>
        option_values ''--chroot'' (jail_options args) = [root] \<and>
        has_root p \<and> \<not> mounted_over (jail_options args) p \<longrightarrow>
        sees (nsjail # args) fs p = fs (root @ p))"

lemma jail_options_simps:
  "jail_options (''--'' # v # rest) = []"
  "opt \<in> set jail_flags \<Longrightarrow> jail_options (opt # v # rest) = (opt, []) # jail_options (v # rest)"
  "opt \<noteq> ''--'' \<Longrightarrow> opt \<notin> set jail_flags \<Longrightarrow> jail_options (opt # v # rest) = (opt, v) # jail_options rest"
  by (auto simp: jail_flags_def)

lemma jail_options_mounts:
  "jail_options (jail_mounts h ms @ rest) = map (\<lambda>m. (''-R'', m)) (filter (he_exists h) ms) @ jail_options rest"
  by (induction ms) (simp_all add: jail_mounts_def jail_flags_def)

text \<open>The options of a wrapped command that mounts nothing of its own.\<close>

lemma jail_options_wrap:
  "jail_options (tl (wrap_with_nsjail h nsjail wd args policy mode t_sec m_bytes pids [])) =
     [(''-Mo'', []), (''-Q'', []), (''--chroot'', wd), (''--user'', ''65534''), (''--group'', ''65534''),
      (''--rw'', []), (''--cwd'', ''/'')] @
     map (\<lambda>m. (''-R'', m)) (filter (he_exists h) [''/lib'', ''/lib64'', ''/usr'', ''/bin'', ''/etc/alternatives'']) @
     [(''-T'', ''/dev''), (''-T'', ''/tmp''), (''--use_cgroupv2'', []),
      (''--time_limit'', show_word t_sec), (''--cgroup_mem_max'', show_word m_bytes),
      (''--rlimit_as'', show_word (max (m_bytes div 1024 div 1024) 1)),
      (''--cgroup_pids_max'', show_word pids), (''--rlimit_stack'', ''64''), (''--rlimit_fsize'', ''32''),
      (''--seccomp_string'', policy)] @
     (if mode = SmLog then [(''--seccomp_log'', [])] else [])"
  (is "_ = ?a @ _")
proof -
  have nil: "jail_mounts h [] = []" by (simp add: jail_mounts_def)
  show ?thesis
    unfolding wrap_with_nsjail_def nil
    by (simp add: jail_options_mounts jail_flags_def del: filter.simps list.map)
qed

definition jail_targets :: "string list" where
  "jail_targets = [''/proc'', ''/lib'', ''/lib64'', ''/usr'', ''/bin'', ''/etc/alternatives'', ''/dev'', ''/tmp'']"

lemma bind_targets:
  "map bind_target [''/lib'', ''/lib64'', ''/usr'', ''/bin'', ''/etc/alternatives''] =
     [''/lib'', ''/lib64'', ''/usr'', ''/bin'', ''/etc/alternatives'']"
  by (simp add: bind_target_def)

lemma jail_view_wrap:
  assumes "documented_nsjail sees" and "has_root p" and "list_all (\<lambda>d. \<not> at_or_below d p) jail_targets"
  shows "sees (wrap_with_nsjail h nsjail wd args policy mode t_sec m_bytes pids []) fs p = fs (wd @ p)"
proof -
  let ?cmd = "wrap_with_nsjail h nsjail wd args policy mode t_sec m_bytes pids []"
  have split: "?cmd = nsjail # tl ?cmd" by (simp add: wrap_with_nsjail_def)
  have "\<forall>opt \<in> set (map fst (jail_options (tl ?cmd))). opt \<in> set known_options"
    unfolding jail_options_wrap by (auto simp: known_options_def jail_flags_def)
  moreover have "option_values ''--chroot'' (jail_options (tl ?cmd)) = [wd]"
    unfolding jail_options_wrap option_values_def by (simp add: filter_map comp_def)
  moreover have "set (option_values ''-R'' (jail_options (tl ?cmd))) \<subseteq>
      {''/lib'', ''/lib64'', ''/usr'', ''/bin'', ''/etc/alternatives''}"
    unfolding jail_options_wrap option_values_def by (auto simp: filter_map comp_def)
  moreover have "option_values ''-T'' (jail_options (tl ?cmd)) = [''/dev'', ''/tmp'']"
    unfolding jail_options_wrap option_values_def by (simp add: filter_map comp_def)
  moreover have "\<not> mounted_over (jail_options (tl ?cmd)) p"
    using assms(3) calculation(3) bind_targets
    unfolding mounted_over_def calculation(4) list_ex_iff list_all_iff jail_targets_def by auto
  ultimately show ?thesis
    using assms(1,2) split unfolding documented_nsjail_def by metis
qed

lemma answer_not_mounted:
  "has_root (answer_in_jail t)"
  "list_all (\<lambda>d. \<not> at_or_below d (answer_in_jail t)) jail_targets"
  by (simp_all add: answer_in_jail_def has_root_def jail_targets_def at_or_below_def)

lemma build_run_stage_native:
  "pl_execution_backend plan = BkNsjailNative \<Longrightarrow>
     \<exists>h args policy mode t_sec m_bytes pids.
       ps_command (build_run_stage w e wd plan p c) =
         wrap_with_nsjail h (wk_nsjail_path w) wd args policy mode t_sec m_bytes pids []"
  by (simp add: build_run_stage_def Let_def) blast

text \<open>C14: A program that runs in the native sandbox (a task of kind \<open>RtNsjail\<close>, not the two
  kinds that run wasmtime) can read the expected answer of every test case, its own included,
  under \<open>/cases/case_NNN/answer.txt\<close>: the root of its jail is the whole work directory and no
  mount covers the answers. This holds for a work root that is an absolute path, identifiers
  without a slash, the default catalog, an nsjail that does what it documents, and a process mask
  under which the files of the worker are readable for the user of the jail.\<close>

theorem answers_are_readable_in_the_jail:
  assumes "documented_nsjail sees" and "has_root (wk_work_root w)" and "sep \<notin> set (wh_ulid h)"
    and "wk_catalog w = build_default_runtime_catalog e" and "oj_sandbox_kind payload = RtNsjail"
    and "prepare_oj_task w h task_id payload fs = (Inr a, fs')"
  shows "list_all (\<lambda>s. list_all (\<lambda>t.
           sees (ps_command s) (map_of fs') (answer_in_jail t) = Some (tc_expected_output t))
           (oj_testcases payload)) (pa_run_stages a)"
proof -
  obtain plan where p: "build_task_plan w payload = Inr plan" and wd: "pa_work_dir a = work_dir_of w h"
    and runs: "pa_run_stages a = map (build_run_stage w (wh_env h) (work_dir_of w h) plan payload) (pa_cases a)"
    using prepare_oj_task_Inr [OF assms(6)] by metis
  note shape = work_dir_of_shape [OF assms(2,3)]
  have native: "pl_execution_backend plan = BkNsjailNative"
    using default_plan_source(2) [OF assms(4) p] assms(5) by (simp add: kind_backend_def)
  have stored: "map_of fs' (work_dir_of w h @ answer_in_jail t) = Some (tc_expected_output t)"
    if "t \<in> set (oj_testcases payload)" for t
    using prepare_oj_task_files(2) [OF assms(6)] that cd_answer_path_below [OF shape(2,3)]
    by (simp add: list_all_iff case_ready_def)
  have "sees (ps_command (build_run_stage w (wh_env h) (work_dir_of w h) plan payload c)) (map_of fs')
      (answer_in_jail t) = map_of fs' (work_dir_of w h @ answer_in_jail t)" for c t
    using build_run_stage_native [OF native] jail_view_wrap [OF assms(1) answer_not_mounted] by metis
  then show ?thesis
    unfolding runs by (simp add: list_all_iff stored)
qed

section \<open>A concrete task\<close>

definition sample_env :: host_env where
  "sample_env = \<lparr>he_env = (\<lambda>_. None), he_exists = (\<lambda>_. False), he_read_dir = (\<lambda>_. None),
     he_run_rustup = (\<lambda>_. None)\<rparr>"

definition sample_host :: worker_host where
  "sample_host = \<lparr>wh_env = sample_env, wh_io = (\<lambda>_. None), wh_ulid = ''01J'', wh_to_vec_pretty = (\<lambda>_. Some [])\<rparr>"

definition sample_worker :: runtime_worker where
  "sample_worker = \<lparr>wk_catalog = build_default_runtime_catalog sample_env, wk_work_root = ''/work'',
     wk_nsjail_path = ''/usr/bin/nsjail'', wk_seccomp_mode = SmLog,
     wk_syscall_profile = \<lparr>sy_flavor = FlGeneric, sy_arch = ArX86_64\<rparr>\<rparr>"

definition sample_oj_task :: oj_judge_task where
  "sample_oj_task = \<lparr>oj_submission_id = SubmissionId ''s1'', oj_problem_id = ProblemId ''p1'',
     oj_user_id = UserId ''u1'', oj_language = ''python'', oj_judge_mode = RtAcm,
     oj_sandbox_kind = RtNsjail, oj_source_code = ''print(input())'',
     oj_limits = \<lparr>lim_time_limit_ms = 1000, lim_memory_limit_kb = 65536\<rparr>,
     oj_testcases = [\<lparr>tc_case_no = 1, tc_input = ''7'', tc_expected_output = ''7'', tc_score = 100\<rparr>],
     oj_judge_config = None\<rparr>"

lemma sample_prepares:
  "\<exists>a fs'. prepare_oj_task sample_worker sample_host ''t1'' sample_oj_task [] = (Inr a, fs')"
proof -
  have "validate_oj_task sample_oj_task = Inr ()"
    by (simp add: validate_oj_task_def sample_oj_task_def fail_if_def) code_simp
  moreover have "\<exists>plan. build_task_plan sample_worker sample_oj_task = Inr plan"
    by (simp add: build_task_plan_def sample_worker_def sample_oj_task_def default_catalog planner_def
        planner_build_plan_def python_toolchain_def python_build_recipe_def planner_sandboxes_simps
        Let_def)
  ultimately show ?thesis
    by (auto intro!: prepare_oj_task_succeeds simp: sample_host_def spj_ok_def sample_oj_task_def)
qed

text \<open>A jail in which bound paths show the host and the other mounts nothing.\<close>

definition plain_jail :: jail_view where
  "plain_jail command fs p =
     (let opts = jail_options (tl command)
      in if list_ex (\<lambda>v. at_or_below (bind_target v) p) (option_values ''-R'' opts) then fs p
         else if mounted_over opts p then None
         else case option_values ''--chroot'' opts of [base] \<Rightarrow> fs (base @ p) | _ \<Rightarrow> fs p)"

lemma plain_jail_documented: "documented_nsjail plain_jail"
  by (auto simp: documented_nsjail_def plain_jail_def Let_def mounted_over_def list_ex_iff)

theorem answers_are_readable_in_the_jail_witness:
  "\<exists>a fs'. prepare_oj_task sample_worker sample_host ''t1'' sample_oj_task [] = (Inr a, fs') \<and>
     list_all (\<lambda>s. list_all (\<lambda>t.
       plain_jail (ps_command s) (map_of fs') (answer_in_jail t) = Some (tc_expected_output t))
       (oj_testcases sample_oj_task)) (pa_run_stages a)"
proof -
  obtain a fs' where ok: "prepare_oj_task sample_worker sample_host ''t1'' sample_oj_task [] = (Inr a, fs')"
    using sample_prepares by blast
  show ?thesis
    using ok answers_are_readable_in_the_jail [OF plain_jail_documented _ _ _ _ ok, of sample_env]
    by (intro exI) (simp add: sample_worker_def sample_host_def sample_oj_task_def has_root_def)
qed

end
