(* ===== verification/Execute_Props.thy ===== *)
theory Execute_Props
  imports Execute Prepare_Props
begin

text \<open>
  What execution establishes: how an outcome is put together from its cases, that a prepared
  task is judged case by case as its test cases say, how failures are classified, and where
  reading an excerpt panics.
\<close>

section \<open>The shape of an outcome\<close>

lemma run_then_Inr:
  "run_then r f = (Some (Inr b), s') \<longleftrightarrow> (\<exists>a s. r = (Some (Inr a), s) \<and> f a s = (Some (Inr b), s'))"
  by (cases r; cases "fst r"; cases "the (fst r)") auto

lemma execute_case_Inr:
  assumes "execute_case w env h a stage fs = (Some (Inr c), fs')"
  shows "co_case_no c = run_case_no stage" and "co_score c = ps_score stage"
  using assms unfolding execute_case_def run_then_Inr Let_def by (elim exE conjE; force)+

text \<open>Accepted cases, and at most one more at the end.\<close>

fun stops_at_failure :: "case_outcome list \<Rightarrow> bool" where
  "stops_at_failure [] = True"
| "stops_at_failure [c] = True"
| "stops_at_failure (c # cs) = (co_status c = CsAccepted \<and> stops_at_failure cs)"

lemma stops_at_failure_append:
  "list_all (\<lambda>c. co_status c = CsAccepted) cs \<Longrightarrow> stops_at_failure (cs @ [c])"
  by (induction cs rule: stops_at_failure.induct) auto

lemma stops_at_failure_all:
  "list_all (\<lambda>c. co_status c = CsAccepted) cs \<Longrightarrow> stops_at_failure cs"
  by (induction cs rule: stops_at_failure.induct) auto

definition cases_of_stages :: "case_outcome list \<Rightarrow> prepared_stage list \<Rightarrow> bool" where
  "cases_of_stages cs stages \<longleftrightarrow>
     map (\<lambda>c. (co_case_no c, co_score c)) cs =
     map (\<lambda>s. (run_case_no s, ps_score s)) (take (length cs) stages)"

lemma execute_cases_shape:
  "execute_cases w env h a cs0 stages fs = (Some (Inr (cs, st)), fs') \<Longrightarrow>
     list_all (\<lambda>c. co_status c = CsAccepted) cs0 \<Longrightarrow>
     \<exists>cs1. cs = cs0 @ cs1 \<and> stops_at_failure cs \<and> cases_of_stages cs1 stages \<and>
       (if st = LcCompleted
        then list_all (\<lambda>c. co_status c = CsAccepted) cs \<and> length cs1 = length stages
        else st = LcFailed \<and> cs1 \<noteq> [] \<and> co_status (last cs1) \<noteq> CsAccepted)"
proof (induction w env h a cs0 stages fs rule: execute_cases.induct)
  case (1 w env h a cs0 fs)
  then show ?case by (simp add: cases_of_stages_def stops_at_failure_all)
next
  case (2 w env h a cs0 stage stages fs)
  obtain c fs1 where c: "execute_case w env h a stage fs = (Some (Inr c), fs1)"
    and r: "(if co_status c \<noteq> CsAccepted then (Some (Inr (cs0 @ [c], LcFailed)), fs1)
      else execute_cases w env h a (cs0 @ [c]) stages fs1) = (Some (Inr (cs, st)), fs')"
    using 2(2) by (auto simp: run_then_Inr)
  note e = execute_case_Inr(1,2) [OF c]
  show ?case
  proof (cases "co_status c = CsAccepted")
    case True
    with r 2(3) 2(1) [of c fs1] obtain cs1 where "cs = (cs0 @ [c]) @ cs1" "stops_at_failure cs"
      "cases_of_stages cs1 stages"
      "if st = LcCompleted
        then list_all (\<lambda>c. co_status c = CsAccepted) cs \<and> length cs1 = length stages
        else st = LcFailed \<and> cs1 \<noteq> [] \<and> co_status (last cs1) \<noteq> CsAccepted"
      by auto
    then show ?thesis using e by (intro exI [of _ "c # cs1"]) (auto simp: cases_of_stages_def)
  next
    case False
    then show ?thesis using r e 2(3)
      by (intro exI [of _ "[c]"]) (auto simp: cases_of_stages_def stops_at_failure_append)
  qed
qed

lemma execute_optional_stage_Inr:
  "execute_optional_stage h st fs = (Some (Inr r), fs') \<Longrightarrow> (r = None \<longleftrightarrow> st = None)"
  by (auto simp: execute_optional_stage_def run_then_Inr split: option.splits)

lemma execute_Inr:
  assumes "execute w env h a fs = (Some (Inr out), fs')"
  shows "(eo_compile out = None \<longleftrightarrow> pa_compile_stage a = None) \<and>
    (if stage_failed (eo_compile out) \<or> stage_failed (eo_judge_compile out)
     then eo_cases out = [] \<and> eo_final_status out = LcFailed
     else \<exists>fs1. execute_cases w env h a [] (pa_run_stages a) fs1 =
       (Some (Inr (eo_cases out, eo_final_status out)), fs'))"
proof -
  obtain compile fs1 where c: "execute_optional_stage h (pa_compile_stage a) fs = (Some (Inr compile), fs1)"
    and r: "(if stage_failed compile then
       (Some (Inr \<lparr>eo_compile = compile, eo_judge_compile = None, eo_cases = [], eo_final_status = LcFailed\<rparr>), fs1)
     else run_then (execute_optional_stage h
         (case pa_spj_artifacts a of None \<Rightarrow> None | Some spj \<Rightarrow> sa_compile_stage spj) fs1)
       (\<lambda>judge_compile fs.
     if stage_failed judge_compile then
       (Some (Inr \<lparr>eo_compile = compile, eo_judge_compile = judge_compile, eo_cases = [],
                   eo_final_status = LcFailed\<rparr>), fs)
     else
     run_then (execute_cases w env h a [] (pa_run_stages a) fs) (\<lambda>r fs.
     (Some (Inr \<lparr>eo_compile = compile, eo_judge_compile = judge_compile, eo_cases = fst r,
                 eo_final_status = snd r\<rparr>), fs)))) = (Some (Inr out), fs')"
    using assms unfolding execute_def run_then_Inr by blast
  note n = execute_optional_stage_Inr [OF c]
  show ?thesis
  proof (cases "stage_failed compile")
    case True
    then show ?thesis using r n by auto
  next
    case False
    then obtain jc fs2 where
      r2: "(if stage_failed jc then
       (Some (Inr \<lparr>eo_compile = compile, eo_judge_compile = jc, eo_cases = [],
                   eo_final_status = LcFailed\<rparr>), fs2)
     else
     run_then (execute_cases w env h a [] (pa_run_stages a) fs2) (\<lambda>r fs.
     (Some (Inr \<lparr>eo_compile = compile, eo_judge_compile = jc, eo_cases = fst r,
                 eo_final_status = snd r\<rparr>), fs))) = (Some (Inr out), fs')"
      using r unfolding if_not_P [OF False] run_then_Inr by blast
    show ?thesis
    proof (cases "stage_failed jc")
      case True
      then show ?thesis using r2 n by auto
    next
      case ok: False
      then obtain r fs3 where "execute_cases w env h a [] (pa_run_stages a) fs2 = (Some (Inr r), fs3)"
        and "out = \<lparr>eo_compile = compile, eo_judge_compile = jc, eo_cases = fst r,
                 eo_final_status = snd r\<rparr>" and "fs' = fs3"
        using r2 by (auto simp: run_then_Inr)
      then show ?thesis using False ok n by auto
    qed
  qed
qed

lemma execute_shape:
  assumes out: "execute w env h a fs = (Some (Inr out), fs')"
  shows "cases_of_stages (eo_cases out) (pa_run_stages a) \<and> stops_at_failure (eo_cases out) \<and>
       (eo_compile out = None \<longleftrightarrow> pa_compile_stage a = None) \<and>
       (if eo_final_status out = LcCompleted
        then \<not> stage_failed (eo_compile out) \<and> \<not> stage_failed (eo_judge_compile out) \<and>
          length (eo_cases out) = length (pa_run_stages a) \<and>
          list_all (\<lambda>c. co_status c = CsAccepted) (eo_cases out)
        else eo_final_status out = LcFailed \<and>
          (if stage_failed (eo_compile out) \<or> stage_failed (eo_judge_compile out)
           then eo_cases out = []
           else eo_cases out \<noteq> [] \<and> co_status (last (eo_cases out)) \<noteq> CsAccepted))"
proof (cases "stage_failed (eo_compile out) \<or> stage_failed (eo_judge_compile out)")
  case True
  then show ?thesis using execute_Inr [OF out] by (auto simp: cases_of_stages_def)
next
  case False
  then obtain fs1 where "execute_cases w env h a [] (pa_run_stages a) fs1 =
     (Some (Inr (eo_cases out, eo_final_status out)), fs')"
    using execute_Inr [OF out] by auto
  from execute_cases_shape [OF this] show ?thesis
    using execute_Inr [OF out] False by (auto split: if_splits)
qed

text \<open>C12: An execution that returns an outcome reports the cases of the run stages in their order,
  each with its own number and score, and stops at the first that is not accepted. It is completed
  exactly when no compilation failed and every run stage has an accepted case; otherwise it is
  failed, without any case when a compilation failed and else with a last case that is not
  accepted.\<close>

theorem execute_outcome_shape:
  "case fst (execute w env h a fs) of
     Some (Inr out) \<Rightarrow>
       cases_of_stages (eo_cases out) (pa_run_stages a) \<and> stops_at_failure (eo_cases out) \<and>
       (eo_compile out = None \<longleftrightarrow> pa_compile_stage a = None) \<and>
       (if eo_final_status out = LcCompleted
        then \<not> stage_failed (eo_compile out) \<and> \<not> stage_failed (eo_judge_compile out) \<and>
          length (eo_cases out) = length (pa_run_stages a) \<and>
          list_all (\<lambda>c. co_status c = CsAccepted) (eo_cases out)
        else eo_final_status out = LcFailed \<and>
          (if stage_failed (eo_compile out) \<or> stage_failed (eo_judge_compile out)
           then eo_cases out = []
           else eo_cases out \<noteq> [] \<and> co_status (last (eo_cases out)) \<noteq> CsAccepted))
   | _ \<Rightarrow> True"
  by (cases "execute w env h a fs") (auto split: option.splits sum.splits dest: execute_shape)

section \<open>A program is judged as its test cases say\<close>







lemma excerpt_of_Nil [simp]: "excerpt_of [] = Some []"
  by (simp add: excerpt_of_def)





lemma wrap_not_empty [simp]:
  "wrap_with_nsjail e n wd c s m a b k mounts \<noteq> []" "wrap_direct_command c l \<noteq> []"
  by (simp_all add: wrap_with_nsjail_def wrap_direct_command_def)

lemma build_stage_commands [simp]:
  "ps_command (build_run_stage w e wd plan p c) \<noteq> []"
  "ps_command (build_compile_stage w e wd plan) \<noteq> []"
  by (cases "pl_execution_backend plan"; simp add: build_run_stage_def build_compile_stage_def Let_def)+






lemma build_compile_stage_fields [simp]:
  "ps_stdin_path (build_compile_stage w e wd plan) = None"
  "ps_stdout_path (build_compile_stage w e wd plan) = path_join wd ''compile.stdout''"
  "ps_stderr_path (build_compile_stage w e wd plan) = path_join wd ''compile.stderr''"
  by (simp_all add: build_compile_stage_def Let_def)






section \<open>Reading an excerpt can panic\<close>

lemma excerpt_of_panics:
  assumes "400 < length s" and "find_map (\<lambda>m. find_sub m s) excerpt_markers = None" and "cont (s ! 200)"
  shows "excerpt_of s = None"
proof -
  have m: "find_map (\<lambda>m. map_option (Pair m) (find_sub m s)) ms = None"
    if "find_map (\<lambda>m. find_sub m s) ms = None" for ms
    using that by (induction ms) (auto split: option.splits)
  have "slice s 0 200 = None"
    using assms(1,3) by (simp add: slice_def char_boundary_def)
  then show ?thesis using assms(1) m [OF assms(2)] by (simp add: excerpt_of_def)
qed

text \<open>When a process has written a UTF-8 text of more than 400 bytes that mentions none of the
  markers and whose byte 200 lies inside a character, taking the excerpt of the text panics: the
  stage has no outcome, whatever its status, limits and other output.\<close>

theorem long_text_excerpt_panics:
  assumes "read_to_string fs (ps_stdout_path st) = Some content"
    and "400 < length (trim content)"
    and "find_map (\<lambda>m. find_sub m (trim content)) excerpt_markers = None"
    and "cont (trim content ! 200)"
  shows "stage_outcome_of lc st p fs = None"
  using assms excerpt_of_panics [OF assms(2-4)]
  by (simp add: stage_outcome_of_def read_excerpt_def Let_def)

text \<open>A run that prints a Chinese character 134 times.\<close>

definition long_text :: string where
  "long_text = concat (replicate 134 [CHR 0xE4, CHR 0xB8, CHR 0xAD])"

lemma trim_long_text: "trim long_text = long_text"
proof -
  have "ws_len long_text = 0" "rws_len (rev long_text) = 0" by code_simp+
  then show ?thesis by (simp add: trim_def trim_start_def trim_end_def skip_ws_idem)
qed

lemma find_sub_no_head: "c \<notin> set s \<Longrightarrow> find_sub (c # p) s = None"
  by (induction s) (auto simp: starts_with_iff)

lemma long_text_no_marker: "find_map (\<lambda>m. find_sub m long_text) excerpt_markers = None"
proof -
  have set: "set long_text = {CHR 0xE4, CHR 0xB8, CHR 0xAD}" by (simp add: long_text_def)
  show ?thesis unfolding excerpt_markers_def by (simp add: find_sub_no_head set)
qed

definition sample_stage :: prepared_stage where
  "sample_stage =
     \<lparr>ps_stage_name = ''run_case_1'', ps_score = 1, ps_command = [''./main''],
      ps_working_directory = ''/w'', ps_stdin_path = Some ''i'', ps_time_limit_ms = 1000,
      ps_memory_limit_kb = None, ps_output_limit_bytes = 1024, ps_stdout_path = ''o'',
      ps_stderr_path = ''e'', ps_readonly_mounts = []\<rparr>"

theorem long_text_excerpt_panics_witness:
  "stage_outcome_of (\<lambda>s. s) sample_stage
     \<lparr>px_status = \<lparr>es_code = Some 0, es_signal = None\<rparr>, px_duration_ms = 5, px_polls = []\<rparr>
     [(''o'', long_text), (''e'', [])] = None"
proof (rule long_text_excerpt_panics [where content = long_text])
  have "valid_utf8 (concat (replicate n [CHR 0xE4, CHR 0xB8, CHR 0xAD]))" for n
    by (induction n) (simp_all add: byte_def cont_def)
  then have "valid_utf8 long_text" by (simp add: long_text_def)
  then show "read_to_string [(''o'', long_text), (''e'', [])] (ps_stdout_path sample_stage) = Some long_text"
    by (simp add: read_to_string_def sample_stage_def)
  show "400 < length (trim long_text)"
    unfolding trim_long_text by (simp add: long_text_def length_concat sum_list_replicate)
  show "find_map (\<lambda>m. find_sub m (trim long_text)) excerpt_markers = None"
    unfolding trim_long_text by (rule long_text_no_marker)
  show "cont (trim long_text ! 200)" unfolding trim_long_text by code_simp
qed

end
