(* ===== verification/Service_Props.thy ===== *)
theory Service_Props
  imports Task_Service Execute_Props Queue_Props
begin

text \<open>
  What the task service does with the queue: a round of a worker group settles the delivery it
  reserves, whatever the observer answers; the events of a round follow the life cycle of the
  task; every run of the service is a run of the queue; the management totals are exact.
\<close>

section \<open>Reports do not touch the queue\<close>

lemma report_simps [simp]:
  "sv_queue (report e task n sn s) = sv_queue s"
  "sv_snapshots (report e task n sn s) = hm_insert (sn_task_id sn) sn (sv_snapshots s)"
  "sv_files (report e task n sn s) = sv_files s"
  "sv_replay_history (report e task n sn s) = sv_replay_history s"
  "sv_spawned (report e task n sn s) = sv_spawned s"
  by (simp_all add: report_def observe_event_def update_snapshot_def)

lemma snapshot_of_simps [simp]:
  "sn_task_id (snapshot_of task st m a out err) = rt_task_id task"
  "sn_status (snapshot_of task st m a out err) = st"
  "sn_artifacts (snapshot_of task st m a out err) = a"
  "sn_outcome (snapshot_of task st m a out err) = out"
  by (simp_all add: snapshot_of_def)

lemma stage_snapshots_simps [simp]:
  "sn_task_id (preparing_snapshot task) = rt_task_id task"
  "sn_task_id (prepared_snapshot task a) = rt_task_id task"
  "sn_task_id (started_snapshot task a) = rt_task_id task"
  "sn_task_id (final_snapshot task a out) = rt_task_id task"
  "sn_status (final_snapshot task a out) = eo_final_status out"
  by (simp_all add: preparing_snapshot_def prepared_snapshot_def started_snapshot_def final_snapshot_def)

lemma execute_final_status:
  assumes "execute w env h a fs = (Some (Inr out), fs')"
  shows "eo_final_status out \<in> {LcCompleted, LcFailed}"
proof (cases "stage_failed (eo_compile out) \<or> stage_failed (eo_judge_compile out)")
  case True
  then show ?thesis using execute_Inr [OF assms] by auto
next
  case False
  then obtain fs1 where "execute_cases w env h a [] (pa_run_stages a) fs1 =
      (Some (Inr (eo_cases out, eo_final_status out)), fs')"
    using execute_Inr [OF assms] by auto
  from execute_cases_shape [OF this] show ?thesis by (auto split: if_splits)
qed

text \<open>The snapshot status of a task.\<close>

definition status_in :: "('q, 'obs) task_service \<Rightarrow> runtime_task \<Rightarrow> task_lifecycle_status option" where
  "status_in s task = map_option sn_status (map_of (sv_snapshots s) (rt_task_id task))"

section \<open>A round over any queue that keeps the laws\<close>

context task_queue
begin

text \<open>What becomes of a leased delivery, by the status the service then shows.\<close>

definition settles :: "task_delivery \<Rightarrow> 'q \<Rightarrow> 'q \<Rightarrow> task_lifecycle_status option \<Rightarrow> bool" where
  "settles d q q' st \<longleftrightarrow>
     held q' = (held q)(dv_delivery_id d := None) \<and>
     (case st of
        Some LcRetrying \<Rightarrow>
          wait q' = add_mset (dv_task d, dv_attempt d + 1) (wait q) \<and> dead q' = dead q
      | Some LcDeadLettered \<Rightarrow>
          wait q' = wait q \<and> (\<exists>rec. dead q' = dead q @ [rec] \<and> dr_task rec = dv_task d \<and>
            dr_attempt rec = dv_attempt d)
      | Some LcCompleted \<Rightarrow> wait q' = wait q \<and> dead q' = dead q
      | Some LcFailed \<Rightarrow> wait q' = wait q \<and> dead q' = dead q
      | _ \<Rightarrow> False)"

lemma failure_settles:
  assumes ops: "se_ops e = ops" and inv: "inv (sv_queue s)"
    and lease: "held (sv_queue s) (dv_delivery_id d) = Some d"
    and s': "s' = handle_delivery_failure e now (dv_task d) (dv_attempt d) (dv_delivery_id d) a err s"
  shows "settles d (sv_queue s) (sv_queue s') (status_in s' (dv_task d))"
proof -
  obtain r q where r: "op_retry ops now (dv_delivery_id d) err
      (rp_retry_delay_ms (rt_retry_policy (dv_task d))) (sv_queue s) = (r, q)" by fastforce
  show ?thesis
    using retry_again [OF inv r lease] retry_over [OF inv r lease]
    by (cases "dv_attempt d < rp_max_attempts (rt_retry_policy (dv_task d))")
      (auto simp: s' handle_delivery_failure_def ops r settles_def status_in_def Let_def not_less)
qed

lemma run_prepared_settles:
  assumes ops: "se_ops e = ops" and inv: "inv (sv_queue s)"
    and lease: "held (sv_queue s) (dv_delivery_id d) = Some d"
    and run: "run_prepared e i d a s = (res, s')"
  shows "if res = Served then settles d (sv_queue s) (sv_queue s') (status_in s' (dv_task d))
    else res = WorkerDied \<and> sv_queue s' = sv_queue s"
proof -
  obtain r fs where r: "execute (se_worker e) (wh_env (ri_prepare i)) (ri_exec i) a (sv_files s) = (r, fs)"
    by fastforce
  let ?s = "s\<lparr>sv_files := fs\<rparr>"
  show ?thesis
  proof (cases r)
    case None
    with run r show ?thesis by (auto simp: run_prepared_def Let_def)
  next
    case (Some x)
    show ?thesis
    proof (cases x)
      case (Inl err)
      with run r Some show ?thesis
        using failure_settles [OF ops, of ?s d s'] inv lease by (auto simp: run_prepared_def Let_def)
    next
      case (Inr out)
      have st: "eo_final_status out \<in> {LcCompleted, LcFailed}"
        using r Some Inr execute_final_status by fastforce
      obtain ra q where q: "op_ack ops (dv_delivery_id d) (sv_queue s) = (ra, q)" by fastforce
      show ?thesis
        using run r Some Inr st ops q ack_law [OF inv q]
        by (auto simp: run_prepared_def Let_def settles_def status_in_def)
    qed
  qed
qed

lemma serve_settles:
  assumes ops: "se_ops e = ops" and inv: "inv (sv_queue s)"
    and lease: "held (sv_queue s) (dv_delivery_id d) = Some d"
    and run: "serve_delivery e i d s = (res, s')"
  shows "if res = Served then settles d (sv_queue s) (sv_queue s') (status_in s' (dv_task d))
    else res = WorkerDied \<and> sv_queue s' = sv_queue s"
proof -
  obtain r fs where r: "prepare (se_worker e) (ri_prepare i) (dv_task d) (sv_files s) = (r, fs)"
    by fastforce
  let ?s = "(report e (dv_task d) (dv_attempt d) (preparing_snapshot (dv_task d)) s)\<lparr>sv_files := fs\<rparr>"
  show ?thesis
  proof (cases r)
    case (Inl err)
    with run r show ?thesis
      using failure_settles [OF ops, of ?s d s'] inv lease by (auto simp: serve_delivery_def Let_def)
  next
    case (Inr a)
    let ?s2 = "report e (dv_task d) (dv_attempt d) (started_snapshot (dv_task d) a)
      (report e (dv_task d) (dv_attempt d) (prepared_snapshot (dv_task d) a) ?s)"
    have "run_prepared e i d a ?s2 = (res, s')"
      using run r Inr by (simp add: serve_delivery_def Let_def)
    moreover have sq: "sv_queue ?s2 = sv_queue s" by simp
    ultimately show ?thesis
      using run_prepared_settles [OF ops, of ?s2 d i a res s', unfolded sq] inv lease by blast
  qed
qed

lemma round_settles:
  assumes ops: "se_ops e = ops" and inv: "inv (sv_queue s)"
    and run: "worker_round e i bs s = (res, s')"
  shows "case res of
      Idle \<Rightarrow> sv_snapshots s' = sv_snapshots s \<and> wait (sv_queue s') = wait (sv_queue s) \<and>
        held (sv_queue s') = held (sv_queue s) \<and> dead (sv_queue s') = dead (sv_queue s)
    | Served \<Rightarrow> \<exists>d q. op_reserve ops (ri_now i) (ri_later i) bs (sv_queue s) = (Some d, q) \<and>
        settles d q (sv_queue s') (status_in s' (dv_task d))
    | WorkerDied \<Rightarrow> \<exists>d. op_reserve ops (ri_now i) (ri_later i) bs (sv_queue s) = (Some d, sv_queue s')"
proof -
  obtain r q where r: "op_reserve ops (ri_now i) (ri_later i) bs (sv_queue s) = (r, q)" by fastforce
  show ?thesis
  proof (cases r)
    case None
    then show ?thesis using run r ops reserve_none [OF inv] by (auto simp: worker_round_def)
  next
    case (Some d)
    have q: "inv q" "held q (dv_delivery_id d) = Some d"
      using call_inv [OF inv, of "CallReserve (ri_now i) (ri_later i) bs"] r Some
        reserve_some [OF inv, of "ri_now i" "ri_later i" bs d q] by auto
    have "serve_delivery e i d (s\<lparr>sv_queue := q\<rparr>) = (res, s')"
      using run r Some ops by (simp add: worker_round_def)
    from serve_settles [OF ops _ _ this] q show ?thesis
      using r Some by (cases res) auto
  qed
qed

end

section \<open>The in-memory queue\<close>

text \<open>What becomes of the leased delivery \<open>d\<close>, by the status the service then shows for its task.\<close>

definition settled :: "task_delivery \<Rightarrow> mem_queue \<Rightarrow> mem_queue \<Rightarrow> task_lifecycle_status option \<Rightarrow> bool" where
  "settled d q q' st \<longleftrightarrow>
     leased_of q' = (leased_of q)(dv_delivery_id d := None) \<and>
     (case st of
        Some LcRetrying \<Rightarrow>
          wait_of q' = add_mset (dv_task d, dv_attempt d + 1) (wait_of q) \<and>
          mq_dead_letters q' = mq_dead_letters q
      | Some LcDeadLettered \<Rightarrow>
          wait_of q' = wait_of q \<and> (\<exists>rec. mq_dead_letters q' = mq_dead_letters q @ [rec] \<and>
            dr_task rec = dv_task d \<and> dr_attempt rec = dv_attempt d)
      | Some LcCompleted \<Rightarrow> wait_of q' = wait_of q \<and> mq_dead_letters q' = mq_dead_letters q
      | Some LcFailed \<Rightarrow> wait_of q' = wait_of q \<and> mq_dead_letters q' = mq_dead_letters q
      | _ \<Rightarrow> False)"

lemma settles_settled: "mq.settles = settled"
  by (intro ext) (simp only: mq.settles_def settled_def)

text \<open>C16: Whatever the host and the programs do, a round of a worker group that ends settles the
  one delivery it reserves: the lease is gone, and by the status the service then shows the task
  is finished (completed or failed), waits for its next attempt (retrying) or is a dead letter.
  Only a round in which the worker dies leaves the lease, for good; an idle round changes no task.\<close>

theorem round_settles_its_delivery:
  "case worker_round (e\<lparr>se_ops := memory_queue_ops\<rparr>) i bs
       (s\<lparr>sv_queue := calls memory_queue_ops cs (default_mem_queue m)\<rparr>) of
     (res, s') \<Rightarrow>
       let q = calls memory_queue_ops cs (default_mem_queue m) in
       case res of
         Idle \<Rightarrow> sv_snapshots s' = sv_snapshots s \<and> wait_of (sv_queue s') = wait_of q \<and>
           leased_of (sv_queue s') = leased_of q \<and>
           mq_dead_letters (sv_queue s') = mq_dead_letters q
       | Served \<Rightarrow> \<exists>d q1. reserve (ri_now i) (ri_later i) bs q = (Some d, q1) \<and>
           settled d q1 (sv_queue s') (status_in s' (dv_task d))
       | WorkerDied \<Rightarrow> \<exists>d. reserve (ri_now i) (ri_later i) bs q = (Some d, sv_queue s')"
proof -
  let ?s = "s\<lparr>sv_queue := calls memory_queue_ops cs (default_mem_queue m)\<rparr>"
  obtain res s' where run: "worker_round (e\<lparr>se_ops := memory_queue_ops\<rparr>) i bs ?s = (res, s')"
    by fastforce
  have "queue_inv (sv_queue ?s)" using calls_inv by simp
  from mq.round_settles [OF _ this run] show ?thesis
    unfolding run settles_settled by (cases res) (simp_all add: memory_queue_ops_def Let_def)
qed

section \<open>Observers\<close>

text \<open>Two services that differ in their observer only.\<close>

definition alike :: "('q, 'obs) task_service \<Rightarrow> ('q, 'obs) task_service \<Rightarrow> bool" where
  "alike s t \<longleftrightarrow> (\<exists>x. t = s\<lparr>sv_observer := x\<rparr>)"

lemma alike_refl [simp]: "alike s s"
  by (auto simp: alike_def intro: exI [of _ "sv_observer s"])

lemma alike_simps:
  "alike s t \<Longrightarrow> sv_queue t = sv_queue s" "alike s t \<Longrightarrow> sv_files t = sv_files s"
  "alike s t \<Longrightarrow> sv_snapshots t = sv_snapshots s"
  by (auto simp: alike_def)

lemma alike_cong:
  "alike s t \<Longrightarrow> alike (s\<lparr>sv_queue := q\<rparr>) (t\<lparr>sv_queue := q\<rparr>)"
  "alike s t \<Longrightarrow> alike (s\<lparr>sv_files := fs\<rparr>) (t\<lparr>sv_files := fs\<rparr>)"
  "alike s t \<Longrightarrow> alike (report e task n sn s) (report (e\<lparr>se_on_event := f\<rparr>) task n sn t)"
  by (cases s; auto simp: alike_def report_def observe_event_def update_snapshot_def)+

lemma alike_failure:
  "alike s t \<Longrightarrow> alike (handle_delivery_failure e now task n k a err s)
     (handle_delivery_failure (e\<lparr>se_on_event := f\<rparr>) now task n k a err t)"
  by (auto simp: handle_delivery_failure_def Let_def alike_simps split: prod.splits intro!: alike_cong)

definition alike_result ::
    "round_result \<times> ('q, 'obs) task_service \<Rightarrow> round_result \<times> ('q, 'obs) task_service \<Rightarrow> bool" where
  "alike_result x y \<longleftrightarrow> fst x = fst y \<and> alike (snd x) (snd y)"

lemma alike_run_prepared:
  "alike s t \<Longrightarrow> alike_result (run_prepared e i d a s) (run_prepared (e\<lparr>se_on_event := f\<rparr>) i d a t)"
  by (auto simp: run_prepared_def Let_def alike_simps alike_result_def
      split: prod.splits option.splits sum.splits intro!: alike_cong alike_failure)

lemma alike_serve:
  "alike s t \<Longrightarrow> alike_result (serve_delivery e i d s) (serve_delivery (e\<lparr>se_on_event := f\<rparr>) i d t)"
  by (auto simp: serve_delivery_def Let_def alike_simps split: prod.splits sum.splits
      intro!: alike_cong alike_failure alike_run_prepared)
    (auto simp: alike_result_def intro!: alike_cong alike_failure)

text \<open>C19: What the observer of events answers, and whether it fails, makes no difference to the
  queue, the snapshots, the files or the result of a round.\<close>

theorem observer_cannot_interfere:
  "fst (worker_round (e\<lparr>se_on_event := f\<rparr>) i bs s) = fst (worker_round e i bs s) \<and>
   (\<exists>obs. snd (worker_round (e\<lparr>se_on_event := f\<rparr>) i bs s) =
      (snd (worker_round e i bs s))\<lparr>sv_observer := obs\<rparr>)"
proof -
  have "alike_result (worker_round e i bs s) (worker_round (e\<lparr>se_on_event := f\<rparr>) i bs s)"
    by (auto simp: worker_round_def split: prod.split option.split intro: alike_serve)
      (simp add: alike_result_def)
  then show ?thesis by (auto simp: alike_result_def alike_def)
qed

section \<open>Events of a round\<close>

text \<open>An observer that records the events.\<close>

definition record_event :: "task_event \<Rightarrow> task_event list \<Rightarrow> unit app_result \<times> task_event list" where
  "record_event ev evs = (Inr (), evs @ [ev])"

text \<open>The statuses a round reports, in order.\<close>

definition life_cycle :: "round_result \<Rightarrow> task_lifecycle_status list \<Rightarrow> bool" where
  "life_cycle r l \<longleftrightarrow>
     (case r of
        Idle \<Rightarrow> l = []
      | WorkerDied \<Rightarrow> l \<in> {[LcPreparing, LcPrepared, x] |x. x \<in> {LcCompiling, LcRunning}}
      | Served \<Rightarrow> l \<in> {[LcPreparing, y] |y. y \<in> {LcRetrying, LcDeadLettered}} \<union>
          {[LcPreparing, LcPrepared, x, y] |x y. x \<in> {LcCompiling, LcRunning} \<and>
             y \<in> {LcCompleted, LcFailed, LcRetrying, LcDeadLettered}})"

definition events_of :: "task_delivery \<Rightarrow> task_event list \<Rightarrow> bool" where
  "events_of d evs \<longleftrightarrow>
     list_all (\<lambda>ev. te_task_id ev = rt_task_id (dv_task d) \<and> te_attempt ev = dv_attempt d) evs"

text \<open>What a part of a round adds: events of its delivery, the last of which tells the status the
  service shows.\<close>

definition adds_events ::
    "task_delivery \<Rightarrow> task_event list \<Rightarrow> ('q, task_event list) task_service \<Rightarrow>
       (task_lifecycle_status list \<Rightarrow> bool) \<Rightarrow> bool" where
  "adds_events d old s p \<longleftrightarrow>
     (\<exists>evs. sv_observer s = old @ evs \<and> evs \<noteq> [] \<and> events_of d evs \<and> p (map te_status evs) \<and>
        status_in s (dv_task d) = Some (te_status (last evs)))"

lemma adds_events_report:
  assumes "se_on_event e = record_event" and "sn_task_id sn = rt_task_id (dv_task d)"
  shows "adds_events d (sv_observer s) (report e (dv_task d) (dv_attempt d) sn s) (\<lambda>l. l = [sn_status sn])"
  using assms unfolding adds_events_def
  by (intro exI [of _ "[snapshot_event (dv_task d) (dv_attempt d) sn (sn_artifacts sn) (sn_outcome sn)]"])
    (simp add: report_def observe_event_def record_event_def update_snapshot_def snapshot_event_def
      events_of_def status_in_def)

lemma adds_events_more:
  "adds_events d old s p \<Longrightarrow> adds_events d (sv_observer s) s' p' \<Longrightarrow>
     (\<And>l l'. p l \<Longrightarrow> p' l' \<Longrightarrow> p'' (l @ l')) \<Longrightarrow> adds_events d old s' p''"
  unfolding adds_events_def events_of_def by force

lemma adds_events_cong:
  "adds_events d old s p \<Longrightarrow> sv_observer s' = sv_observer s \<Longrightarrow> sv_snapshots s' = sv_snapshots s \<Longrightarrow>
     (\<And>l. p l \<Longrightarrow> p' l) \<Longrightarrow> adds_events d old s' p'"
  unfolding adds_events_def status_in_def by auto

lemma failure_adds_events:
  assumes "se_on_event e = record_event"
  shows "adds_events d (sv_observer s)
    (handle_delivery_failure e now (dv_task d) (dv_attempt d) k a err s)
    (\<lambda>l. l \<in> {[LcRetrying], [LcDeadLettered]})"
proof -
  obtain r q where r: "op_retry (se_ops e) now k err (rp_retry_delay_ms (rt_retry_policy (dv_task d)))
      (sv_queue s) = (r, q)" by fastforce
  let ?mk = "\<lambda>st m. snapshot_of (dv_task d) st m a None (Some err)"
  have "\<exists>st m. st \<in> {LcRetrying, LcDeadLettered} \<and>
      handle_delivery_failure e now (dv_task d) (dv_attempt d) k a err s =
        report e (dv_task d) (dv_attempt d) (?mk st m) (s\<lparr>sv_queue := q\<rparr>)"
    unfolding handle_delivery_failure_def r Let_def prod.case
    by (auto split: sum.split retry_disposition.split)
  then obtain st m where st: "st \<in> {LcRetrying, LcDeadLettered}"
    and h: "handle_delivery_failure e now (dv_task d) (dv_attempt d) k a err s =
        report e (dv_task d) (dv_attempt d) (?mk st m) (s\<lparr>sv_queue := q\<rparr>)" by blast
  show ?thesis unfolding h
    using adds_events_report [OF assms, of "?mk st m" d "s\<lparr>sv_queue := q\<rparr>"] st
    by (auto elim!: adds_events_cong)
qed

definition last_statuses :: "round_result \<Rightarrow> task_lifecycle_status list \<Rightarrow> bool" where
  "last_statuses r l \<longleftrightarrow>
     r = Served \<and> l \<in> {[y] |y. y \<in> {LcCompleted, LcFailed, LcRetrying, LcDeadLettered}}"

lemma run_prepared_adds_events:
  assumes e: "se_on_event e = record_event" and run: "run_prepared e i d a s = (res, s')"
  shows "if res = Served then adds_events d (sv_observer s) s' (last_statuses res)
    else res = WorkerDied \<and> sv_observer s' = sv_observer s \<and> sv_snapshots s' = sv_snapshots s"
proof -
  obtain r fs where r: "execute (se_worker e) (wh_env (ri_prepare i)) (ri_exec i) a (sv_files s) = (r, fs)"
    by fastforce
  let ?s = "s\<lparr>sv_files := fs\<rparr>"
  show ?thesis
  proof (cases r)
    case None
    with run r show ?thesis by (auto simp: run_prepared_def Let_def)
  next
    case (Some x)
    show ?thesis
    proof (cases x)
      case (Inl err)
      with run r Some have res: "res = Served" and s': "s' = handle_delivery_failure e (ri_retry_now i)
          (dv_task d) (dv_attempt d) (dv_delivery_id d) (Some a)
          (''runtime execution failed: '' @ app_error_to_string err) ?s"
        by (auto simp: run_prepared_def Let_def)
      have "adds_events d (sv_observer ?s) s' (\<lambda>l. l \<in> {[LcRetrying], [LcDeadLettered]})"
        unfolding s' by (rule failure_adds_events [OF e])
      then show ?thesis unfolding res by (auto elim!: adds_events_cong simp: last_statuses_def)
    next
      case (Inr out)
      let ?t = "report e (dv_task d) (dv_attempt d) (final_snapshot (dv_task d) a out) ?s"
      have st: "eo_final_status out \<in> {LcCompleted, LcFailed}"
        using r Some Inr execute_final_status by fastforce
      from run r Some Inr have res: "res = Served"
        and s': "s' = ?t\<lparr>sv_queue := snd (op_ack (se_ops e) (dv_delivery_id d) (sv_queue ?t))\<rparr>"
        by (auto simp: run_prepared_def Let_def)
      have "adds_events d (sv_observer ?s) ?t (\<lambda>l. l = [eo_final_status out])"
        using adds_events_report [OF e, of "final_snapshot (dv_task d) a out" d ?s] by simp
      then show ?thesis unfolding res s' using st
        by (auto elim!: adds_events_cong simp: last_statuses_def)
    qed
  qed
qed

lemma serve_adds_events:
  assumes e: "se_on_event e = record_event" and run: "serve_delivery e i d s = (res, s')"
  shows "res \<noteq> Idle \<and> adds_events d (sv_observer s) s' (life_cycle res)"
proof -
  let ?rep = "\<lambda>sn. report e (dv_task d) (dv_attempt d) (sn (dv_task d))"
  obtain r fs where r: "prepare (se_worker e) (ri_prepare i) (dv_task d) (sv_files s) = (r, fs)"
    by fastforce
  let ?s1 = "(?rep preparing_snapshot s)\<lparr>sv_files := fs\<rparr>"
  have 1: "adds_events d (sv_observer s) ?s1 (\<lambda>l. l = [LcPreparing])"
    using adds_events_report [OF e, of "preparing_snapshot (dv_task d)" d s]
    by (auto simp: preparing_snapshot_def elim!: adds_events_cong)
  show ?thesis
  proof (cases r)
    case (Inl err)
    with run r have res: "res = Served" and s': "s' = handle_delivery_failure e (ri_retry_now i) (dv_task d)
        (dv_attempt d) (dv_delivery_id d) None
        (''runtime artifact preparation failed: '' @ app_error_to_string err) ?s1"
      by (auto simp: serve_delivery_def Let_def)
    have "adds_events d (sv_observer ?s1) s' (\<lambda>l. l \<in> {[LcRetrying], [LcDeadLettered]})"
      unfolding s' by (rule failure_adds_events [OF e])
    from adds_events_more [OF 1 this, of "life_cycle Served"] show ?thesis
      unfolding res by (auto simp: life_cycle_def)
  next
    case (Inr a)
    let ?s2 = "?rep (\<lambda>t. prepared_snapshot t a) ?s1" and ?st = "sn_status (started_snapshot (dv_task d) a)"
    let ?s3 = "?rep (\<lambda>t. started_snapshot t a) ?s2"
    have 2: "adds_events d (sv_observer ?s1) ?s2 (\<lambda>l. l = [LcPrepared])"
      using adds_events_report [OF e, of "prepared_snapshot (dv_task d) a" d ?s1]
      by (simp add: prepared_snapshot_def)
    have 3: "adds_events d (sv_observer ?s2) ?s3 (\<lambda>l. l = [?st])"
      using adds_events_report [OF e, of "started_snapshot (dv_task d) a" d ?s2] by simp
    have st: "?st \<in> {LcCompiling, LcRunning}" by (simp add: started_snapshot_def)
    have 4: "adds_events d (sv_observer s) ?s3 (\<lambda>l. l = [LcPreparing, LcPrepared, ?st])"
      by (rule adds_events_more [OF adds_events_more [OF 1 2, of "\<lambda>l. l = [LcPreparing, LcPrepared]"] 3]) auto
    have run3: "run_prepared e i d a ?s3 = (res, s')"
      using run r Inr by (simp add: serve_delivery_def Let_def)
    show ?thesis
    proof (cases "res = Served")
      case True
      then have "adds_events d (sv_observer ?s3) s' (last_statuses res)"
        using run_prepared_adds_events [OF e run3] by simp
      from adds_events_more [OF 4 this, of "life_cycle res"] st True show ?thesis
        by (auto simp: life_cycle_def last_statuses_def)
    next
      case False
      then have "res = WorkerDied" "sv_observer s' = sv_observer ?s3" "sv_snapshots s' = sv_snapshots ?s3"
        using run_prepared_adds_events [OF e run3] by auto
      then show ?thesis using adds_events_cong [OF 4, of s' "life_cycle res"] st
        by (auto simp: life_cycle_def)
    qed
  qed
qed

text \<open>C17: The events of a round all name the reserved task and its attempt, follow its life cycle
  (preparing, prepared, compiling or running, then completed, failed, retrying or dead-lettered;
  a failed preparation goes from preparing to retrying or dead-lettered; a dying worker reports
  nothing after it started), and the last one tells the status the service shows.\<close>

theorem events_follow_the_life_cycle:
  "case worker_round (e\<lparr>se_on_event := record_event\<rparr>) i bs s of
     (Idle, s') \<Rightarrow> sv_observer s' = sv_observer s
   | (res, s') \<Rightarrow> \<exists>d evs. sv_observer s' = sv_observer s @ evs \<and> events_of d evs \<and>
       life_cycle res (map te_status evs) \<and>
       status_in s' (dv_task d) = Some (te_status (last evs))"
proof -
  let ?e = "e\<lparr>se_on_event := record_event\<rparr>"
  obtain res s' where run: "worker_round ?e i bs s = (res, s')" by fastforce
  obtain r q where r: "op_reserve (se_ops ?e) (ri_now i) (ri_later i) bs (sv_queue s) = (r, q)" by fastforce
  show ?thesis
  proof (cases r)
    case None
    then show ?thesis using run r by (auto simp: worker_round_def)
  next
    case (Some d)
    have "serve_delivery ?e i d (s\<lparr>sv_queue := q\<rparr>) = (res, s')"
      using run r Some by (simp add: worker_round_def)
    from serve_adds_events [OF _ this] have "res \<noteq> Idle" "adds_events d (sv_observer s) s' (life_cycle res)"
      by auto
    then show ?thesis unfolding run adds_events_def by (cases res) auto
  qed
qed

end
