(* ===== verification/Service_Runs.thy ===== *)
theory Service_Runs
  imports Service_Props
begin

text \<open>
  Runs of the task service over the in-memory queue: its state invariant, the history of
  replays and the totals of the management view.
\<close>

section \<open>Which tasks a call can bring in\<close>

context task_queue
begin

lemma in_tasks:
  "inv q \<Longrightarrow> t \<in># tasks q \<longleftrightarrow>
     (\<exists>a. (t, a) \<in># wait q) \<or> (\<exists>k d. held q k = Some d \<and> dv_task d = t) \<or>
     (\<exists>rec \<in> set (dead q). dr_task rec = t)"
proof -
  assume "inv q"
  then have "finite (dom (held q))" by (rule held_finite)
  then have "t \<in># held_tasks q \<longleftrightarrow> (\<exists>k d. held q k = Some d \<and> dv_task d = t)"
    by (auto simp: held_tasks_def image_iff dom_def) (metis option.sel)+
  moreover have "t \<in># image_mset fst (wait q) \<longleftrightarrow> (\<exists>a. (t, a) \<in># wait q)" by force
  moreover have "t \<in># image_mset dr_task (mset (dead q)) \<longleftrightarrow> (\<exists>rec \<in> set (dead q). dr_task rec = t)"
    by auto
  ultimately show ?thesis unfolding tasks_eq by simp
qed

lemma call_brings_in:
  assumes inv: "inv q" and t: "t \<in># tasks (call ops c q)"
  shows "t \<in># tasks q \<or> t \<in># enqueued [c]"
proof -
  note t' = t [unfolded in_tasks [OF call_inv [OF inv]]] and iff = in_tasks [OF inv]
  show ?thesis
  proof (cases c)
    case (CallEnqueue now u)
    then show ?thesis using t' enqueue_law [OF inv] unfolding iff
      by (cases "op_enqueue ops now u q") auto
  next
    case (CallReserve now later bs)
    obtain r q' where q': "op_reserve ops now later bs q = (r, q')" by fastforce
    show ?thesis
    proof (cases r)
      case None
      then show ?thesis using t' q' CallReserve reserve_none [OF inv] unfolding iff by auto
    next
      case (Some d)
      with q' have "wait q = add_mset (dv_task d, dv_attempt d) (wait q')"
        "held q' = (held q)(dv_delivery_id d \<mapsto> d)" "dead q' = dead q"
        using reserve_some [OF inv] by blast+
      then show ?thesis using t' q' CallReserve unfolding iff by (auto split: if_splits)
    qed
  next
    case (CallAck k)
    then show ?thesis using t' ack_law [OF inv] unfolding iff
      by (cases "op_ack ops k q") (auto split: if_splits)
  next
    case (CallRetry now k err ms)
    obtain r q' where q': "op_retry ops now k err ms q = (r, q')" by fastforce
    show ?thesis
    proof (cases "held q k")
      case None
      then show ?thesis using t' q' CallRetry retry_unknown [OF inv q'] unfolding iff by auto
    next
      case (Some d)
      then show ?thesis
        using t' q' CallRetry retry_again [OF inv q' Some] retry_over [OF inv q' Some] unfolding iff
        by (cases "dv_attempt d < rp_max_attempts (rt_retry_policy (dv_task d))")
          (auto simp: not_less split: if_splits)
    qed
  next
    case (CallReject now k err)
    obtain r q' where q': "op_reject ops now k err q = (r, q')" by fastforce
    note law = reject_law [OF inv q']
    show ?thesis
    proof (cases "held q k")
      case None
      then show ?thesis using t' q' CallReject law unfolding iff by (auto split: if_splits)
    next
      case (Some d)
      then show ?thesis using t' q' CallReject law unfolding iff by (auto split: if_splits)
    qed
  next
    case CallStats
    then show ?thesis using t' stats_law [OF inv] unfolding iff by (cases "op_stats ops q") auto
  next
    case CallDeadLetters
    then show ?thesis using t' dead_letters_law [OF inv] unfolding iff
      by (cases "op_dead_letters ops q") auto
  next
    case (CallReplay now k)
    obtain r q' where q': "op_replay_dead_letter ops now k q = (r, q')" by fastforce
    show ?thesis
    proof (cases r)
      case (Inl err)
      then show ?thesis using t' q' CallReplay replay_law [OF inv q'] unfolding iff by auto
    next
      case (Inr receipt)
      with replay_law [OF inv q'] obtain rec where "held q' = held q"
        and m: "mset (dead q) = add_mset rec (mset (dead q'))"
        and w: "wait q' = add_mset (dr_task rec, 1) (wait q)" by auto
      moreover have "set (dead q) = insert rec (set (dead q'))"
        using m by (metis set_mset_add_mset_insert set_mset_mset)
      ultimately show ?thesis using t' q' CallReplay unfolding iff by auto
    qed
  qed
qed

lemma calls_bring_in:
  "inv q \<Longrightarrow> inv (calls ops cs q) \<and> set_mset (tasks (calls ops cs q)) \<subseteq> set_mset (tasks q) \<union> set_mset (enqueued cs)"
proof (induction cs arbitrary: q)
  case (Cons c cs)
  have "set_mset (tasks (call ops c q)) \<subseteq> set_mset (tasks q) \<union> set_mset (enqueued [c])"
    using call_brings_in [OF Cons.prems] by auto
  then show ?case using Cons.IH [OF call_inv [OF Cons.prems, of c]]
    by (subst enqueued_Cons) (auto simp: calls_def)
qed (simp add: calls_def)

end

section \<open>A round is a run of queue calls\<close>

lemma calls_simps:
  "calls ops [] q = q" "calls ops (c # cs) q = calls ops cs (call ops c q)"
  by (simp_all add: calls_def)

text \<open>A step of the service whose calls put nothing in, and that keeps every snapshot's key.\<close>

definition quiet :: "'q task_queue_ops \<Rightarrow> ('q, 'obs) task_service \<Rightarrow> ('q, 'obs) task_service \<Rightarrow> bool" where
  "quiet ops s s' \<longleftrightarrow>
     (\<exists>cs. sv_queue s' = calls ops cs (sv_queue s) \<and> enqueued cs = {#}) \<and>
     (\<exists>sns. sv_snapshots s' = fold (\<lambda>sn. hm_insert (sn_task_id sn) sn) sns (sv_snapshots s)) \<and>
     sv_replay_history s' = sv_replay_history s"

lemma quietI:
  "sv_queue s' = calls ops cs (sv_queue s) \<Longrightarrow> enqueued cs = {#} \<Longrightarrow>
     sv_snapshots s' = fold (\<lambda>sn. hm_insert (sn_task_id sn) sn) sns (sv_snapshots s) \<Longrightarrow>
     sv_replay_history s' = sv_replay_history s \<Longrightarrow> quiet ops s s'"
  unfolding quiet_def by blast

lemma quiet_refl: "quiet ops s s"
  by (rule quietI [of _ _ "[]" _ "[]"]) (simp_all add: calls_simps)

lemma enqueued_append: "enqueued (cs @ ds) = enqueued cs + enqueued ds"
proof (induction cs)
  case (Cons c cs)
  then show ?case by (cases c) simp_all
qed simp

lemma quiet_trans:
  assumes "quiet ops s t" and "quiet ops t u"
  shows "quiet ops s u"
proof -
  obtain cs ds as bs where "sv_queue t = calls ops cs (sv_queue s)" "enqueued cs = {#}"
    "sv_queue u = calls ops ds (sv_queue t)" "enqueued ds = {#}"
    "sv_snapshots t = fold (\<lambda>sn. hm_insert (sn_task_id sn) sn) as (sv_snapshots s)"
    "sv_snapshots u = fold (\<lambda>sn. hm_insert (sn_task_id sn) sn) bs (sv_snapshots t)"
    "sv_replay_history u = sv_replay_history s"
    using assms unfolding quiet_def by auto
  then have "sv_queue u = calls ops (cs @ ds) (sv_queue s) \<and> enqueued (cs @ ds) = {#}"
    "sv_snapshots u = fold (\<lambda>sn. hm_insert (sn_task_id sn) sn) (as @ bs) (sv_snapshots s)"
    "sv_replay_history u = sv_replay_history s"
    by (simp_all add: calls_def enqueued_append)
  then show ?thesis unfolding quiet_def by blast
qed

lemma quiet_report: "quiet ops s (report e task n sn s)"
  by (rule quietI [of _ _ "[]" _ "[sn]"]) (simp_all add: calls_simps)

lemma quiet_call:
  "enqueued [c] = {#} \<Longrightarrow> quiet ops s (s\<lparr>sv_queue := call ops c (sv_queue s)\<rparr>)"
  by (rule quietI [of _ _ "[c]" _ "[]"]) (simp_all add: calls_simps)

lemma quiet_files: "quiet ops s (s\<lparr>sv_files := fs\<rparr>)"
  using quiet_refl [of ops s] by (simp add: quiet_def)

lemma quiet_failure: "quiet (se_ops e) s (handle_delivery_failure e now task n k a err s)"
proof -
  let ?c = "CallRetry now k err (rp_retry_delay_ms (rt_retry_policy task))"
  obtain r q where r: "op_retry (se_ops e) now k err (rp_retry_delay_ms (rt_retry_policy task))
      (sv_queue s) = (r, q)" by fastforce
  have "quiet (se_ops e) s (s\<lparr>sv_queue := q\<rparr>)"
    using quiet_call [of ?c "se_ops e" s] r by simp
  then show ?thesis
    unfolding handle_delivery_failure_def r Let_def prod.case by (rule quiet_trans [OF _ quiet_report])
qed

lemma quiet_run_prepared: "quiet (se_ops e) s (snd (run_prepared e i d a s))"
proof -
  obtain r fs where r: "execute (se_worker e) (wh_env (ri_prepare i)) (ri_exec i) a (sv_files s) = (r, fs)"
    by fastforce
  let ?s = "s\<lparr>sv_files := fs\<rparr>"
  have "quiet (se_ops e) ?s (snd (run_prepared e i d a s))"
  proof (cases r)
    case None
    then show ?thesis by (simp add: run_prepared_def r quiet_refl)
  next
    case (Some x)
    show ?thesis
    proof (cases x)
      case (Inl err)
      then show ?thesis using Some quiet_failure by (simp add: run_prepared_def r Let_def)
    next
      case (Inr out)
      let ?t = "report e (dv_task d) (dv_attempt d) (final_snapshot (dv_task d) a out) ?s"
      have "quiet (se_ops e) ?t (?t\<lparr>sv_queue := snd (op_ack (se_ops e) (dv_delivery_id d) (sv_queue ?t))\<rparr>)"
        using quiet_call [of "CallAck (dv_delivery_id d)" "se_ops e" ?t] by simp
      from quiet_trans [OF quiet_report this] Some Inr show ?thesis
        by (simp add: run_prepared_def r Let_def)
    qed
  qed
  from quiet_trans [OF quiet_files this] show ?thesis .
qed

lemma quiet_serve: "quiet (se_ops e) s (snd (serve_delivery e i d s))"
proof -
  let ?s1 = "report e (dv_task d) (dv_attempt d) (preparing_snapshot (dv_task d)) s"
  obtain r fs where r: "prepare (se_worker e) (ri_prepare i) (dv_task d) (sv_files ?s1) = (r, fs)"
    by fastforce
  let ?s2 = "?s1\<lparr>sv_files := fs\<rparr>"
  have 2: "quiet (se_ops e) s ?s2" by (rule quiet_trans [OF quiet_report quiet_files])
  show ?thesis
  proof (cases r)
    case (Inl err)
    then show ?thesis using quiet_trans [OF 2 quiet_failure] r by (simp add: serve_delivery_def Let_def)
  next
    case (Inr a)
    let ?s3 = "report e (dv_task d) (dv_attempt d) (started_snapshot (dv_task d) a)
      (report e (dv_task d) (dv_attempt d) (prepared_snapshot (dv_task d) a) ?s2)"
    have "quiet (se_ops e) s ?s3"
      by (rule quiet_trans [OF quiet_trans [OF 2 quiet_report] quiet_report])
    from quiet_trans [OF this quiet_run_prepared] show ?thesis
      using Inr r by (simp add: serve_delivery_def Let_def)
  qed
qed

lemma quiet_round: "quiet (se_ops e) s (snd (worker_round e i bs s))"
proof -
  let ?c = "CallReserve (ri_now i) (ri_later i) bs"
  obtain r q where r: "op_reserve (se_ops e) (ri_now i) (ri_later i) bs (sv_queue s) = (r, q)" by fastforce
  have "quiet (se_ops e) s (s\<lparr>sv_queue := q\<rparr>)" using quiet_call [of ?c "se_ops e" s] r by simp
  from quiet_trans [OF this quiet_serve] this show ?thesis
    by (cases r) (simp_all add: worker_round_def r)
qed

section \<open>Runs over the in-memory queue\<close>

definition memory_health :: "system_time \<Rightarrow> string \<Rightarrow> mem_queue \<Rightarrow> failure_health_snapshot \<times> mem_queue" where
  "memory_health now broker q =
     (case broker_failure_health_snapshot now broker (mq_metrics q) of
        (h, m) \<Rightarrow> (h, q\<lparr>mq_metrics := m\<rparr>))"

definition memory_parts ::
    "runtime_worker \<Rightarrow> (task_event \<Rightarrow> 'obs \<Rightarrow> unit app_result \<times> 'obs) \<Rightarrow> (mem_queue, 'obs) service_parts" where
  "memory_parts w on_event =
     \<lparr>se_worker = w, se_ops = memory_queue_ops, se_health = memory_health, se_on_event = on_event\<rparr>"

inductive service_run ::
    "(mem_queue, 'obs) service_parts \<Rightarrow> (mem_queue, 'obs) task_service \<Rightarrow> bool" for e where
  new: "service_run e (with_queue_and_broker now (default_mem_queue m) broker obs fs)"
| schedule: "service_run e s \<Longrightarrow> service_run e (snd (schedule e now task s))"
| round: "service_run e s \<Longrightarrow> service_run e (snd (worker_round e i bs s))"
| spawned: "service_run e s \<Longrightarrow> service_run e (deliver_spawned e n s)"
| replay: "service_run e s \<Longrightarrow> service_run e (snd (service_replay_dead_letter e now later k s))"
| view: "service_run e s \<Longrightarrow> service_run e (snd (broker_management_view e now later s))"
| register: "service_run e s \<Longrightarrow> service_run e (register_node node s)"
| start: "service_run e s \<Longrightarrow> service_run e (start_background_workers groups s)"

text \<open>The state invariant of the service.\<close>

definition service_inv :: "(mem_queue, 'obs) task_service \<Rightarrow> bool" where
  "service_inv s \<longleftrightarrow>
     queue_inv (sv_queue s) \<and>
     (\<forall>k sn. map_of (sv_snapshots s) k = Some sn \<longrightarrow> sn_task_id sn = k) \<and>
     (\<forall>t \<in># queue_tasks (sv_queue s). map_of (sv_snapshots s) (rt_task_id t) \<noteq> None) \<and>
     length (sv_replay_history s) \<le> 100"

lemma map_of_snapshots_fold:
  "map_of m k \<noteq> None \<Longrightarrow> map_of (fold (\<lambda>sn. hm_insert (sn_task_id sn) sn) sns m) k \<noteq> None"
  by (induction sns arbitrary: m) auto

lemma snapshots_keys_fold:
  "(\<And>k sn. map_of m k = Some sn \<Longrightarrow> sn_task_id sn = k) \<Longrightarrow>
     map_of (fold (\<lambda>sn. hm_insert (sn_task_id sn) sn) sns m) k = Some sn \<Longrightarrow> sn_task_id sn = k"
proof (induction sns arbitrary: m)
  case (Cons a sns)
  show ?case
    by (rule Cons.IH [of "hm_insert (sn_task_id a) a m"]) (use Cons.prems in \<open>auto split: if_splits\<close>)
qed simp

lemma service_inv_quiet:
  assumes inv: "service_inv s" and q: "quiet memory_queue_ops s s'"
  shows "service_inv s'"
proof -
  from q obtain cs sns where cs: "sv_queue s' = calls memory_queue_ops cs (sv_queue s)" "enqueued cs = {#}"
    and sns: "sv_snapshots s' = fold (\<lambda>sn. hm_insert (sn_task_id sn) sn) sns (sv_snapshots s)"
    and h: "sv_replay_history s' = sv_replay_history s"
    unfolding quiet_def by blast
  have qi: "queue_inv (sv_queue s)" using inv by (simp add: service_inv_def)
  have "queue_inv (sv_queue s')" "set_mset (queue_tasks (sv_queue s')) \<subseteq> set_mset (queue_tasks (sv_queue s))"
    using mq.calls_bring_in [OF qi, of cs] cs queue_tasks_eq qi by auto
  then show ?thesis
    using inv map_of_snapshots_fold [of "sv_snapshots s" _ sns] snapshots_keys_fold [of "sv_snapshots s" sns]
    unfolding service_inv_def sns h by blast
qed

lemma service_inv_cong:
  "service_inv s \<Longrightarrow> sv_queue s' = sv_queue s \<Longrightarrow> sv_snapshots s' = sv_snapshots s \<Longrightarrow>
     sv_replay_history s' = sv_replay_history s \<Longrightarrow> service_inv s'"
  by (simp add: service_inv_def)

lemma service_inv_schedule:
  assumes "service_inv s"
  shows "service_inv (snd (schedule (memory_parts w f) now task s))"
proof -
  let ?sn = "snapshot_of task LcQueued ''runtime task queued'' None None None"
  let ?q = "call memory_queue_ops (CallEnqueue now task) (sv_queue s)"
  have qi: "queue_inv (sv_queue s)" using assms by (simp add: service_inv_def)
  have r: "fst (enqueue now task (sv_queue s)) = Inr ()"
    using mq.enqueue_law [OF qi, of now task] by (cases "enqueue now task (sv_queue s)")
      (auto simp: memory_queue_ops_def)
  have "queue_inv ?q" by (rule mq.call_inv [OF qi])
  moreover have "set_mset (queue_tasks ?q) \<subseteq> insert task (set_mset (queue_tasks (sv_queue s)))"
    using mq.call_brings_in [OF qi, of _ "CallEnqueue now task"]
      queue_tasks_eq [OF qi] queue_tasks_eq [OF calculation] by auto
  ultimately show ?thesis
    using assms r unfolding service_inv_def
    by (auto simp: schedule_def memory_parts_def memory_queue_ops_def update_snapshot_def Let_def
        split: prod.splits sum.splits if_splits)
qed

lemma pop_to_cap_drop: "pop_to_cap h = drop (length h - 100) h"
proof (induction h rule: pop_to_cap.induct)
  case (1 h)
  show ?case
  proof (cases "100 < length h")
    case True
    then have "pop_to_cap h = pop_to_cap (tl h)" by (subst pop_to_cap.simps) simp
    moreover have "length h - 100 = Suc (length (tl h) - 100)" using True by simp
    ultimately show ?thesis using 1 True by (simp only: drop_Suc)
  next
    case False
    then show ?thesis by (subst pop_to_cap.simps) simp
  qed
qed

lemma service_inv_replay:
  assumes "service_inv s"
  shows "service_inv (snd (service_replay_dead_letter (memory_parts w f) now later k s))"
proof -
  let ?s = "s\<lparr>sv_queue := call memory_queue_ops (CallReplay now k) (sv_queue s)\<rparr>"
  have 1: "service_inv ?s" by (rule service_inv_quiet [OF assms quiet_call]) simp
  obtain r q where r: "replay_dead_letter now k (sv_queue s) = (r, q)" by fastforce
  show ?thesis
  proof (cases r)
    case (Inl err)
    then show ?thesis using 1 r
      by (simp add: service_replay_dead_letter_def memory_parts_def memory_queue_ops_def)
  next
    case (Inr receipt)
    then show ?thesis using 1 r
      by (simp add: service_replay_dead_letter_def memory_parts_def memory_queue_ops_def service_inv_def
          pop_to_cap_drop)
  qed
qed

lemma queue_inv_metrics [simp]: "queue_inv (q\<lparr>mq_metrics := m\<rparr>) = queue_inv q"
  by (simp add: queue_inv_defs)

lemma service_inv_view:
  assumes "service_inv s"
  shows "service_inv (snd (broker_management_view (memory_parts w f) now later s))"
  using assms
  by (simp add: broker_management_view_def queue_stats_of_def dead_letters_of_def memory_parts_def
      memory_queue_ops_def memory_health_def st_then_def Let_def service_inv_def queue_tasks_def
      split: sum.split prod.split)

text \<open>C18: In every run of the service over the in-memory queue the queue keeps its invariant, every
  snapshot is filed under its own task, every task that waits, is leased or is a dead letter has a
  snapshot, and the history of replays has at most one hundred entries.\<close>

theorem service_runs_keep_invariant:
  assumes "service_run (memory_parts w f) s"
  shows "service_inv s"
  using assms
proof (induction rule: service_run.induct)
  case (new now m broker obs fs)
  then show ?case
    by (simp add: service_inv_def with_queue_and_broker_def queue_inv_default queue_tasks_def
        default_mem_queue_def [of m, THEN arg_cong, of mq_buckets]
        default_mem_queue_def [of m, THEN arg_cong, of mq_leased]
        default_mem_queue_def [of m, THEN arg_cong, of mq_dead_letters])
next
  case (round s i bs)
  have "se_ops (memory_parts w f) = memory_queue_ops" by (simp add: memory_parts_def)
  then show ?case using service_inv_quiet [OF round.IH] quiet_round [of "memory_parts w f" s i bs] by simp
next
  case (spawned s n)
  show ?case
    by (rule service_inv_cong [OF spawned.IH]) (simp_all add: deliver_spawned_def observe_event_def)
next
  case (register s node)
  show ?case by (rule service_inv_cong [OF register.IH]) (simp_all add: register_node_def)
next
  case (start s groups)
  show ?case by (rule service_inv_cong [OF start.IH]) (simp_all add: start_background_workers_def)
qed (simp_all add: service_inv_schedule service_inv_replay service_inv_view)

theorem service_runs_keep_invariant_witness:
  "service_inv (snd (schedule (memory_parts sample_worker record_event) 0 (Queue_Props.sample_task ''a'' ''fast'' 2)
     (with_queue_and_broker 0 (default_mem_queue empty_metrics) memory_observability_status [] [])))"
  by (rule service_runs_keep_invariant [where w = sample_worker and f = record_event])
    (intro service_run.schedule service_run.new)

section \<open>Management totals\<close>

lemma sum_list_sorted: "finite A \<Longrightarrow> sum_list (map f (sorted_list_of_set A)) = sum f A"
  by (simp add: sum.distinct_set_conv_list [symmetric])

lemma sum_length_filter:
  "finite A \<Longrightarrow> f ` set xs \<subseteq> A \<Longrightarrow> (\<Sum>r\<in>A. length (filter (\<lambda>x. f x = r) xs)) = length xs"
proof (induction xs)
  case (Cons x xs)
  have "(\<Sum>r\<in>A. length (filter (\<lambda>x. f x = r) (x # xs))) =
      (\<Sum>r\<in>A. (if r = f x then 1 else 0) + length (filter (\<lambda>x. f x = r) xs))"
    by (rule sum.cong) auto
  also have "\<dots> = Suc (length xs)" using Cons by (simp add: sum.distrib)
  finally show ?case by simp
qed simp

lemma sum_buckets:
  "distinct (hm_keys m) \<Longrightarrow> finite A \<Longrightarrow> dom (map_of m) \<subseteq> A \<Longrightarrow>
     (\<Sum>r\<in>A. case map_of m r of None \<Rightarrow> 0 | Some b \<Rightarrow> length b) = length (concat (hm_values m))"
proof (induction m)
  case (Cons x m)
  obtain k b where x: "x = (k, b)" by fastforce
  have k: "map_of m k = None" using Cons.prems(1) x by (simp add: map_of_eq_None_iff)
  have "(\<Sum>r\<in>A. case map_of (x # m) r of None \<Rightarrow> 0 | Some b \<Rightarrow> length b) =
      (\<Sum>r\<in>A. (if r = k then length b else 0) + (case map_of m r of None \<Rightarrow> 0 | Some b \<Rightarrow> length b))"
    by (rule sum.cong) (auto simp: x k)
  moreover have "k \<in> A" "dom (map_of m) \<subseteq> A" using Cons.prems(3) x by auto
  ultimately show ?case using Cons x by (simp add: sum.distrib)
qed simp

lemma finite_used_routes: "finite (used_routes q)"
  by (simp add: used_routes_def finite_dom_map_of)

lemma totals:
  assumes "queue_inv q"
  shows "sum_list (map (qs_queued \<circ> stats_of_route q) (sorted_list_of_set (used_routes q))) = size (wait_of q)"
    and "sum_list (map (qs_leased \<circ> stats_of_route q) (sorted_list_of_set (used_routes q))) =
      length (mq_leased q)"
    and "sum_list (map (qs_dead_lettered \<circ> stats_of_route q) (sorted_list_of_set (used_routes q))) =
      length (mq_dead_letters q)"
proof -
  note fin = finite_used_routes [of q]
  have dom_used: "dom (bucket_of q) \<subseteq> used_routes q"
    and leased_used: "(\<lambda>d. task_route (dv_task d)) ` set (hm_values (mq_leased q)) \<subseteq> used_routes q"
    and dead_used: "(\<lambda>x. (dr_queue x, dr_lane x)) ` set (mq_dead_letters q) \<subseteq> used_routes q"
    unfolding used_routes_def by blast+
  have "distinct (hm_keys (mq_buckets q))"
    using assms by (intro sorted_wrt_less_distinct) (simp add: queue_inv_defs)
  then show "sum_list (map (qs_queued \<circ> stats_of_route q) (sorted_list_of_set (used_routes q))) = size (wait_of q)"
    using sum_buckets [of "mq_buckets q" "used_routes q"] fin dom_used
    by (simp add: sum_list_sorted stats_of_route_def comp_def queued_at_def wait_of_def waiting_def)
  show "sum_list (map (qs_leased \<circ> stats_of_route q) (sorted_list_of_set (used_routes q))) =
      length (mq_leased q)"
    using sum_length_filter [of "used_routes q" "\<lambda>d. task_route (dv_task d)" "hm_values (mq_leased q)"] fin leased_used
    by (simp add: sum_list_sorted stats_of_route_def comp_def leased_at_def)
  show "sum_list (map (qs_dead_lettered \<circ> stats_of_route q) (sorted_list_of_set (used_routes q))) =
      length (mq_dead_letters q)"
    using sum_length_filter [of "used_routes q" "\<lambda>x. (dr_queue x, dr_lane x)" "mq_dead_letters q"] fin dead_used
    by (simp add: sum_list_sorted stats_of_route_def comp_def dead_at_def)
qed

text \<open>An alert recommends an action whose runbook is one of the given ones.\<close>

definition has_runbook :: "runbook_link list \<Rightarrow> management_alert \<Rightarrow> bool" where
  "has_runbook books a \<longleftrightarrow>
     (case al_recommended_action a of
        None \<Rightarrow> False
      | Some act \<Rightarrow> list_ex (\<lambda>b. ra_runbook act = Some b \<and> ra_runbook_ref act = Some (rl_runbook_ref b)) books)"

lemma health_alerts:
  "list_all (has_runbook runtime_management_runbooks) (bh_alerts (build_broker_management_health h)) \<and>
   bh_status (build_broker_management_health h) =
     (if bh_alerts (build_broker_management_health h) = [] then BrokerHealthy else BrokerDegraded) \<and>
   map al_reason (bh_alerts (build_broker_management_health h)) =
     bh_degradation_reasons (build_broker_management_health h)"
  by (simp add: build_broker_management_health_def recovery_alert_def persistent_alert_def has_runbook_def
      runtime_management_runbook_def runtime_management_runbooks_def)

text \<open>C20: The management view never fails over the in-memory queue; after any run its totals are the
  numbers of waiting, leased and dead tasks, it lists the dead letters themselves, its health is
  degraded exactly when it raises an alert, and every alert recommends an action with a runbook
  of the view.\<close>

theorem management_view_exact:
  "case broker_management_view (memory_parts w f) now later
       (s\<lparr>sv_queue := calls memory_queue_ops cs (default_mem_queue m)\<rparr>) of
     (Inl err, _) \<Rightarrow> False
   | (Inr v, s') \<Rightarrow>
       let q = calls memory_queue_ops cs (default_mem_queue m) in
       ms_queued (bv_summary v) = size (wait_of q) \<and>
       ms_leased (bv_summary v) = length (mq_leased q) \<and>
       ms_dead_lettered (bv_summary v) = length (mq_dead_letters q) \<and>
       ms_dead_letter_records_total (bv_summary v) = length (mq_dead_letters q) \<and>
       ms_queue_count (bv_summary v) = card (used_routes q) \<and>
       bv_dead_letters v = mq_dead_letters q \<and>
       bh_status (bv_health v) = (if bh_alerts (bv_health v) = [] then BrokerHealthy else BrokerDegraded) \<and>
       list_all (has_runbook (bv_runbooks v)) (bh_alerts (bv_health v))"
proof -
  define q where "q = calls memory_queue_ops cs (default_mem_queue m)"
  have inv: "queue_inv q" unfolding q_def by (rule calls_inv)
  obtain h m' where h: "broker_failure_health_snapshot now (bo_broker (sv_broker s)) (mq_metrics q) = (h, m')"
    by fastforce
  have sts: "queue_stats_of (memory_parts w f) (s\<lparr>sv_queue := q\<rparr>) =
      (Inr (map (stats_of_route q) (sorted_list_of_set (used_routes q))), s\<lparr>sv_queue := q\<rparr>)"
    using stats_listing [OF inv] by (simp add: queue_stats_of_def memory_parts_def memory_queue_ops_def)
  have letters: "dead_letters_of (memory_parts w f) (s\<lparr>sv_queue := q\<rparr>) =
      (Inr (mq_dead_letters q), s\<lparr>sv_queue := q\<rparr>)"
    by (simp add: dead_letters_of_def memory_parts_def memory_queue_ops_def dead_letters_def)
  have health: "se_health (memory_parts w f) now (bo_broker (sv_broker s)) q = (h, q\<lparr>mq_metrics := m'\<rparr>)"
    by (simp add: memory_parts_def memory_health_def h)
  show ?thesis
    unfolding q_def [symmetric] broker_management_view_def sts letters st_then_simps
    using health totals [OF inv] health_alerts [of h] by (simp add: Let_def finite_used_routes comp_def)
qed

end
