(* ===== verification/Runtime_Router.thy ===== *)
theory Runtime_Router
  imports Service_Runs
begin

text \<open>
  The HTTP handlers of the runtime (router.rs): filters by route, identity and group, pages, and
  the handlers over the task service. The decoding of requests and the encoding of answers are
  the web framework's.
\<close>

section \<open>Filters and pages\<close>

record route_filter_query =
  rq_queue :: "string option"
  rq_lane :: "string option"
  rq_group :: "string option"
  rq_task_id :: "string option"
  rq_delivery_id :: "string option"
  rq_limit :: "nat option"
  rq_offset :: "nat option"

definition default_filter :: route_filter_query where
  "default_filter =
     \<lparr>rq_queue = None, rq_lane = None, rq_group = None, rq_task_id = None, rq_delivery_id = None,
      rq_limit = None, rq_offset = None\<rparr>"

definition matches_route :: "string \<Rightarrow> string \<Rightarrow> route_filter_query \<Rightarrow> bool" where
  "matches_route queue lane f \<longleftrightarrow>
     map_or_true (rq_queue f) (\<lambda>v. v = queue) \<and> map_or_true (rq_lane f) (\<lambda>v. v = lane)"

definition matches_group_filter :: "worker_group \<Rightarrow> route_filter_query \<Rightarrow> bool" where
  "matches_group_filter wg f \<longleftrightarrow>
     map_or_true (rq_group f) (\<lambda>v. v = wg_name wg) \<and>
     (if rq_queue f = None \<and> rq_lane f = None then True
      else list_ex (\<lambda>b. matches_route (rb_queue b) (rb_lane b) f) (wg_bindings wg))"

definition matches_record_identity :: "string \<Rightarrow> string \<Rightarrow> route_filter_query \<Rightarrow> bool" where
  "matches_record_identity delivery_id task_id f \<longleftrightarrow>
     map_or_true (rq_delivery_id f) (\<lambda>v. v = delivery_id) \<and>
     map_or_true (rq_task_id f) (\<lambda>v. v = task_id)"

definition paginate :: "'a list \<Rightarrow> route_filter_query \<Rightarrow> 'a list" where
  "paginate items f = take (unwrap_or (rq_limit f) 50) (drop (unwrap_or (rq_offset f) 0) items)"

definition keep_stats :: "route_filter_query \<Rightarrow> queue_stats list \<Rightarrow> queue_stats list" where
  "keep_stats f rows = filter (\<lambda>s. matches_route (qs_queue s) (qs_lane s) f) rows"

definition keep_dead_letters :: "route_filter_query \<Rightarrow> dead_letter_record list \<Rightarrow> dead_letter_record list" where
  "keep_dead_letters f rs = filter (\<lambda>r. matches_route (dr_queue r) (dr_lane r) f \<and>
     matches_record_identity (dr_delivery_id r) (dr_task_id r) f) rs"

definition keep_replays ::
    "route_filter_query \<Rightarrow> dead_letter_replay_record list \<Rightarrow> dead_letter_replay_record list" where
  "keep_replays f rs = filter (\<lambda>r. matches_route (rr_queue r) (rr_lane r) f \<and>
     matches_record_identity (rr_delivery_id r) (rr_task_id r) f) rs"

section \<open>Handlers\<close>

definition simulate_task ::
    "('q, 'obs) service_parts \<Rightarrow> worker_host \<Rightarrow> runtime_task \<Rightarrow> simulation_report app_result" where
  "simulate_task e h task = simulate (se_worker e) h task"

definition schedule_task ::
    "('q, 'obs) service_parts \<Rightarrow> system_time \<Rightarrow> runtime_task \<Rightarrow> ('q, 'obs) task_service \<Rightarrow>
       queue_receipt app_result \<times> ('q, 'obs) task_service" where
  "schedule_task e now task s = schedule e now task s"

definition get_queue_stats ::
    "('q, 'obs) service_parts \<Rightarrow> route_filter_query \<Rightarrow> ('q, 'obs) task_service \<Rightarrow>
       queue_stats list app_result \<times> ('q, 'obs) task_service" where
  "get_queue_stats e f s = st_then (queue_stats_of e s) (\<lambda>stats s. (Inr (keep_stats f stats), s))"

definition get_runtime_node :: "system_time \<Rightarrow> ('q, 'obs) task_service \<Rightarrow> node_status" where
  "get_runtime_node now s = node_status_of now s"

definition get_runtime_broker :: "('q, 'obs) task_service \<Rightarrow> broker_observability_status" where
  "get_runtime_broker s = sv_broker s"

definition get_runtime_broker_management ::
    "('q, 'obs) service_parts \<Rightarrow> system_time \<Rightarrow> system_time \<Rightarrow> route_filter_query \<Rightarrow>
       ('q, 'obs) task_service \<Rightarrow> management_view app_result \<times> ('q, 'obs) task_service" where
  "get_runtime_broker_management e now later f s =
     st_then (broker_management_view e now later s) (\<lambda>view s.
       let stats = keep_stats f (bv_queue_stats view);
           letters = keep_dead_letters f (bv_dead_letters view);
           replays = keep_replays f (bv_replay_history view)
       in (Inr (view
            \<lparr>bv_queue_stats := stats, bv_dead_letters := paginate letters f,
             bv_replay_history := paginate replays f,
             bv_worker_groups := filter (\<lambda>g. matches_group_filter g f) (bv_worker_groups view),
             bv_summary := (bv_summary view)
               \<lparr>ms_queue_count := length stats, ms_queued := sum_list (map qs_queued stats),
                ms_leased := sum_list (map qs_leased stats),
                ms_dead_lettered := sum_list (map qs_dead_lettered stats),
                ms_dead_letter_records_total := length letters,
                ms_replay_history_total := length replays, ms_replayed := length replays\<rparr>\<rparr>), s))"

definition get_worker_groups ::
    "route_filter_query \<Rightarrow> ('q, 'obs) task_service \<Rightarrow> worker_group list" where
  "get_worker_groups f s = filter (\<lambda>g. matches_group_filter g f) (sv_worker_groups s)"

definition get_dead_letters ::
    "('q, 'obs) service_parts \<Rightarrow> route_filter_query \<Rightarrow> ('q, 'obs) task_service \<Rightarrow>
       dead_letter_record list app_result \<times> ('q, 'obs) task_service" where
  "get_dead_letters e f s =
     st_then (dead_letters_of e s) (\<lambda>letters s. (Inr (keep_dead_letters f letters), s))"

definition newest_first :: "dead_letter_replay_record \<Rightarrow> dead_letter_replay_record \<Rightarrow> ordering" where
  "newest_first l r =
     (if rr_replayed_at_ms r < rr_replayed_at_ms l then Less
      else if rr_replayed_at_ms r = rr_replayed_at_ms l then Equal else Greater)"

definition get_dead_letter_replays ::
    "route_filter_query \<Rightarrow> ('q, 'obs) task_service \<Rightarrow> dead_letter_replay_record list" where
  "get_dead_letter_replays f s =
     paginate (sort_by newest_first (keep_replays f (sv_replay_history s))) f"

section \<open>Properties\<close>

text \<open>Page number \<open>k\<close> of size \<open>n\<close>.\<close>

definition page :: "route_filter_query \<Rightarrow> nat \<Rightarrow> nat \<Rightarrow> route_filter_query" where
  "page f n k = f\<lparr>rq_limit := Some n, rq_offset := Some (k * n)\<rparr>"

lemma pages_take: "concat (map (\<lambda>k. paginate xs (page f n k)) [0..<m]) = take (m * n) xs"
  unfolding paginate_def page_def by (simp add: concat_slices)

lemma filters_page [simp]: "keep_replays (page f n k) rs = keep_replays f rs"
  by (simp add: keep_replays_def page_def matches_route_def matches_record_identity_def)

lemma insert_by_newest:
  "sorted_wrt (\<lambda>a b. rr_replayed_at_ms b \<le> rr_replayed_at_ms a) xs \<Longrightarrow>
     sorted_wrt (\<lambda>a b. rr_replayed_at_ms b \<le> rr_replayed_at_ms a) (insert_by newest_first x xs)"
  by (induction newest_first x xs rule: insert_by.induct) (auto simp: newest_first_def split: if_splits)

lemma sort_by_newest:
  "sorted_wrt (\<lambda>a b. rr_replayed_at_ms b \<le> rr_replayed_at_ms a) (sort_by newest_first xs)"
  by (induction xs) (simp_all add: insert_by_newest)

text \<open>The pages of the replay history that a client reads one after the other, with any page
  size above zero and enough pages, are together the matching replays, each once and the newest
  first.\<close>

theorem replay_pages_cover_the_history:
  "let n = Suc extra;
       pages = concat (map (\<lambda>k. get_dead_letter_replays (page f n k) s)
         [0..<Suc (length (sv_replay_history s) div n)])
   in mset pages = mset (keep_replays f (sv_replay_history s)) \<and>
      sorted_wrt (\<lambda>a b. rr_replayed_at_ms b \<le> rr_replayed_at_ms a) pages"
proof -
  let ?h = "sv_replay_history s" and ?n = "Suc extra"
  let ?xs = "sort_by newest_first (keep_replays f ?h)"
  have len: "length ?xs \<le> length ?h" by (simp add: keep_replays_def)
  have "length ?h \<le> Suc (length ?h div ?n) * ?n" by (rule enough_slices)
  with len have "take (Suc (length ?h div ?n) * ?n) ?xs = ?xs" by simp
  moreover have "concat (map (\<lambda>k. get_dead_letter_replays (page f ?n k) s) [0..<Suc (length ?h div ?n)]) =
      take (Suc (length ?h div ?n) * ?n) ?xs"
    unfolding get_dead_letter_replays_def filters_page by (rule pages_take)
  ultimately show ?thesis using sort_by_newest by (simp only: Let_def mset_sort_by)
qed

lemma keep_all [simp]:
  "keep_stats default_filter xs = xs" "keep_dead_letters default_filter ys = ys"
  "keep_replays default_filter zs = zs" "filter (\<lambda>g. matches_group_filter g default_filter) gs = gs"
  by (simp_all add: keep_stats_def keep_dead_letters_def keep_replays_def matches_route_def
      matches_record_identity_def matches_group_filter_def default_filter_def)

lemma view_summary:
  assumes "broker_management_view e now later s = (Inr v, s')"
  shows "bv_summary v =
    \<lparr>ms_queue_count = length (bv_queue_stats v), ms_queued = sum_list (map qs_queued (bv_queue_stats v)),
     ms_leased = sum_list (map qs_leased (bv_queue_stats v)),
     ms_dead_lettered = sum_list (map qs_dead_lettered (bv_queue_stats v)),
     ms_replayed = length (bv_replay_history v),
     ms_dead_letter_records_total = length (bv_dead_letters v),
     ms_replay_history_total = length (bv_replay_history v)\<rparr>"
proof -
  obtain rows s1 letters s2 where "queue_stats_of e s = (Inr rows, s1)" "dead_letters_of e s1 = (Inr letters, s2)"
    using assms unfolding broker_management_view_def st_then_Inr_iff by blast
  moreover obtain x q where "se_health e now (bo_broker (sv_broker s2)) (sv_queue s2) = (x, q)" by fastforce
  ultimately show ?thesis using assms by (auto simp: broker_management_view_def Let_def)
qed

text \<open>Without a filter the management handler answers the service's view with its totals
  unchanged, its dead letters and its replays cut to the first fifty, and it fails only when the
  service fails.\<close>

theorem unfiltered_management_is_the_view:
  "fst (get_runtime_broker_management e now later default_filter s) =
     (case fst (broker_management_view e now later s) of
        Inl err \<Rightarrow> Inl err
      | Inr v \<Rightarrow> Inr (v\<lparr>bv_dead_letters := take 50 (bv_dead_letters v),
                       bv_replay_history := take 50 (bv_replay_history v)\<rparr>))"
proof -
  obtain r s' where r: "broker_management_view e now later s = (r, s')" by fastforce
  have page: "paginate xs default_filter = take 50 xs" for xs :: "'x list"
    by (simp add: paginate_def default_filter_def unwrap_or_def)
  show ?thesis
  proof (cases r)
    case (Inr v)
    have "(bv_summary v)\<lparr>ms_queue_count := length (bv_queue_stats v),
        ms_queued := sum_list (map qs_queued (bv_queue_stats v)),
        ms_leased := sum_list (map qs_leased (bv_queue_stats v)),
        ms_dead_lettered := sum_list (map qs_dead_lettered (bv_queue_stats v)),
        ms_dead_letter_records_total := length (bv_dead_letters v),
        ms_replay_history_total := length (bv_replay_history v),
        ms_replayed := length (bv_replay_history v)\<rparr> = bv_summary v"
      using view_summary [of e now later s v s'] r Inr by simp
    then show ?thesis using r Inr by (simp add: get_runtime_broker_management_def Let_def page)
  qed (simp add: get_runtime_broker_management_def r)
qed

end
