(* ===== verification/Rust_Chars.thy ===== *)
theory Rust_Chars
  imports Rust_Strings
begin

text \<open>
  The characters of a string, each as its own UTF-8 bytes (\<^theory_text>\<open>str::chars\<close>): the first
  byte of a character tells its length.
\<close>

definition char_width :: "char \<Rightarrow> nat" where
  "char_width c = (if byte c < 128 then 1 else if byte c < 224 then 2 else if byte c < 240 then 3 else 4)"

function chars :: "string \<Rightarrow> string list" where
  "chars [] = []"
| "chars (c # s) = (c # take (char_width c - 1) s) # chars (drop (char_width c - 1) s)"
  by pat_completeness auto
termination by (relation "measure length") auto

lemma concat_chars: "concat (chars s) = s"
  by (induction s rule: chars.induct) auto

lemma chars_nonempty: "ch \<in> set (chars s) \<Longrightarrow> ch \<noteq> []"
  by (induction s rule: chars.induct) auto

lemma chars_ascii: "list_all (\<lambda>c. byte c < 128) s \<Longrightarrow> chars s = map (\<lambda>c. [c]) s"
  by (induction s rule: chars.induct) (simp_all add: char_width_def)

end
