(* ===== verification/Broker_Shared.thy ===== *)
theory Broker_Shared
  imports Metrics Queue Rust_Chars
begin

text \<open>
  What the brokers over RabbitMQ, NATS and Redis share (crates/nexus-runtime/src/broker/mod.rs):
  the catalog of declared routes, the names of a route on each broker, and the replay of a dead
  letter. The transports themselves are client libraries; a store of dead letters is a trait
  object, a record of operations on a state of its own.
\<close>

section \<open>Configurations and envelopes\<close>

record rabbitmq_queue_config =
  rqc_url :: string
  rqc_exchange :: string
  rqc_queue_prefix :: string

record nats_queue_config =
  nqc_url :: string
  nqc_stream_name :: string
  nqc_subject_prefix :: string
  nqc_consumer_prefix :: string
  nqc_ack_wait_ms :: u64

record redis_queue_config =
  sqc_url :: string
  sqc_stream_prefix :: string
  sqc_consumer_group_prefix :: string
  sqc_consumer_name_prefix :: string
  sqc_pending_reclaim_idle_ms :: u64

record rabbitmq_envelope =
  re_task :: runtime_task
  re_attempt :: u32
  re_last_error :: "string option"

record nats_envelope =
  ne_task :: runtime_task
  ne_last_error :: "string option"

definition build_rabbitmq_replay_envelope :: "dead_letter_record \<Rightarrow> rabbitmq_envelope" where
  "build_rabbitmq_replay_envelope rec =
     \<lparr>re_task = dr_task rec, re_attempt = 1,
      re_last_error = Some (''replayed from dead letter: '' @ dr_error rec)\<rparr>"

definition build_nats_replay_envelope :: "dead_letter_record \<Rightarrow> nats_envelope" where
  "build_nats_replay_envelope rec =
     \<lparr>ne_task = dr_task rec,
      ne_last_error = Some (''replayed from dead letter: '' @ dr_error rec)\<rparr>"

definition build_dead_letter_record :: "system_time \<Rightarrow> task_delivery \<Rightarrow> string \<Rightarrow> dead_letter_record" where
  "build_dead_letter_record now delivery error =
     \<lparr>dr_delivery_id = dv_delivery_id delivery, dr_task_id = rt_task_id (dv_task delivery),
      dr_queue = rt_queue (dv_task delivery), dr_lane = rt_lane (dv_task delivery),
      dr_attempt = dv_attempt delivery, dr_error = error, dr_dead_lettered_at = epoch_ms now,
      dr_task = dv_task delivery\<rparr>"

definition build_replay_receipt :: "dead_letter_record \<Rightarrow> queue_receipt" where
  "build_replay_receipt rec =
     \<lparr>qr_task_id = rt_task_id (dr_task rec), qr_queue = rt_queue (dr_task rec),
      qr_lane = rt_lane (dr_task rec), qr_status = LcQueued\<rparr>"

definition dead_letter_not_found :: "string \<Rightarrow> app_error" where
  "dead_letter_not_found delivery_id = NotFound (''dead letter not found: '' @ delivery_id)"

section \<open>Names of a route\<close>

definition ascii_alphanumeric :: "char \<Rightarrow> bool" where
  "ascii_alphanumeric c \<longleftrightarrow>
     48 \<le> byte c \<and> byte c \<le> 57 \<or> 65 \<le> byte c \<and> byte c \<le> 90 \<or> 97 \<le> byte c \<and> byte c \<le> 122"

definition replace_chars :: "(char \<Rightarrow> bool) \<Rightarrow> string \<Rightarrow> string" where
  "replace_chars keep value =
     concat (map (\<lambda>ch. case ch of [c] \<Rightarrow> (if keep c then [c] else ''_'') | _ \<Rightarrow> ''_'') (chars value))"

definition segment_char :: "char \<Rightarrow> bool" where
  "segment_char c \<longleftrightarrow> ascii_alphanumeric c \<or> c = CHR ''_'' \<or> c = CHR ''-'' \<or> c = CHR ''.''"

definition consumer_char :: "char \<Rightarrow> bool" where
  "consumer_char c \<longleftrightarrow> ascii_alphanumeric c \<or> c = CHR ''_'' \<or> c = CHR ''-''"

definition sanitize_segment :: "string \<Rightarrow> string" where
  "sanitize_segment value = replace_chars segment_char value"

definition sanitize_consumer_name :: "string \<Rightarrow> string" where
  "sanitize_consumer_name value = replace_chars consumer_char value"

record rabbitmq_topology =
  rq_topo_queue :: string
  rq_topo_lane :: string
  rq_topo_exchange :: string
  rq_topo_routing_key :: string
  rq_topo_queue_name :: string
  rq_topo_retry_exchange :: string
  rq_topo_retry_queue_name :: string
  rq_topo_retry_routing_key :: string
  rq_topo_dead_letter_exchange :: string
  rq_topo_dead_letter_queue_name :: string
  rq_topo_dead_letter_routing_key :: string

definition build_route_topology :: "rabbitmq_queue_config \<Rightarrow> string \<Rightarrow> string \<Rightarrow> rabbitmq_topology" where
  "build_route_topology c queue lane =
     (let route_name = sanitize_segment queue @ ''.'' @ sanitize_segment lane
      in \<lparr>rq_topo_queue = queue, rq_topo_lane = lane, rq_topo_exchange = rqc_exchange c,
          rq_topo_routing_key = route_name,
          rq_topo_queue_name = rqc_queue_prefix c @ ''.'' @ route_name,
          rq_topo_retry_exchange = rqc_exchange c @ ''.retry'',
          rq_topo_retry_queue_name = rqc_queue_prefix c @ ''.'' @ route_name @ ''.retry'',
          rq_topo_retry_routing_key = route_name @ ''.retry'',
          rq_topo_dead_letter_exchange = rqc_exchange c @ ''.dead'',
          rq_topo_dead_letter_queue_name = rqc_queue_prefix c @ ''.'' @ route_name @ ''.dead'',
          rq_topo_dead_letter_routing_key = route_name @ ''.dead''\<rparr>)"

record nats_topology =
  nt_topo_queue :: string
  nt_topo_lane :: string
  nt_topo_subject :: string
  nt_topo_consumer_name :: string
  nt_topo_dead_letter_subject :: string

definition nats_dead_letter_subject_prefix :: "nats_queue_config \<Rightarrow> string" where
  "nats_dead_letter_subject_prefix c = ''dlq.'' @ nqc_subject_prefix c"

definition nats_dead_letter_stream_name :: "nats_queue_config \<Rightarrow> string" where
  "nats_dead_letter_stream_name c = nqc_stream_name c @ ''_DLQ''"

definition build_nats_route_topology :: "nats_queue_config \<Rightarrow> string \<Rightarrow> string \<Rightarrow> nats_topology" where
  "build_nats_route_topology c queue lane =
     (let route_name = sanitize_segment queue @ ''.'' @ sanitize_segment lane
      in \<lparr>nt_topo_queue = queue, nt_topo_lane = lane,
          nt_topo_subject = nqc_subject_prefix c @ ''.'' @ route_name,
          nt_topo_consumer_name = sanitize_consumer_name (nqc_consumer_prefix c) @ ''_'' @
            sanitize_consumer_name route_name,
          nt_topo_dead_letter_subject = nats_dead_letter_subject_prefix c @ ''.'' @ route_name\<rparr>)"

record redis_topology =
  rd_topo_queue :: string
  rd_topo_lane :: string
  rd_topo_stream_key :: string
  rd_topo_consumer_group :: string
  rd_topo_dead_letter_stream_key :: string
  rd_topo_delayed_key :: string

definition build_redis_route_topology :: "redis_queue_config \<Rightarrow> string \<Rightarrow> string \<Rightarrow> redis_topology" where
  "build_redis_route_topology c queue lane =
     (let route_name = sanitize_segment queue @ ''.'' @ sanitize_segment lane
      in \<lparr>rd_topo_queue = queue, rd_topo_lane = lane,
          rd_topo_stream_key = sqc_stream_prefix c @ ''.'' @ route_name,
          rd_topo_consumer_group = sanitize_consumer_name (sqc_consumer_group_prefix c) @ '':'' @
            sanitize_consumer_name route_name,
          rd_topo_dead_letter_stream_key = sqc_stream_prefix c @ ''.'' @ route_name @ ''.dead'',
          rd_topo_delayed_key = sqc_stream_prefix c @ ''.'' @ route_name @ ''.retry''\<rparr>)"

definition rabbitmq_route_registry_queue_name :: "rabbitmq_queue_config \<Rightarrow> string" where
  "rabbitmq_route_registry_queue_name c = rqc_queue_prefix c @ ''.__routes''"

definition redis_route_registry_key :: "redis_queue_config \<Rightarrow> string" where
  "redis_route_registry_key c = sqc_stream_prefix c @ ''.__routes''"

section \<open>The catalog of declared routes\<close>

record 't route_catalog =
  ca_declared_routes :: "(route, 't) btree_map"
  ca_route_order :: "route list"

definition new_catalog :: "'t route_catalog" where
  "new_catalog = \<lparr>ca_declared_routes = [], ca_route_order = []\<rparr>"

definition get_or_insert_with :: "string \<Rightarrow> string \<Rightarrow> 't \<Rightarrow> 't route_catalog \<Rightarrow> 't \<times> 't route_catalog" where
  "get_or_insert_with queue lane built c =
     (let key = (queue, lane)
      in case map_of (ca_declared_routes c) key of
           Some topology \<Rightarrow> (topology, c)
         | None \<Rightarrow> (built, c\<lparr>ca_declared_routes := bt_insert key built (ca_declared_routes c),
                            ca_route_order := ca_route_order c @ [key]\<rparr>))"

definition catalog_get :: "route \<Rightarrow> 't route_catalog \<Rightarrow> 't option" where
  "catalog_get r c = map_of (ca_declared_routes c) r"

definition catalog_topologies :: "'t route_catalog \<Rightarrow> 't list" where
  "catalog_topologies c = hm_values (ca_declared_routes c)"

definition ordered_routes :: "route_binding list \<Rightarrow> 't route_catalog \<Rightarrow> route list" where
  "ordered_routes bindings c =
     filter (\<lambda>r. bindings = [] \<or> list_ex (\<lambda>b. rb_queue b = fst r \<and> rb_lane b = snd r) bindings)
       (ca_route_order c)"

definition catalog_rotate :: "route \<Rightarrow> 't route_catalog \<Rightarrow> 't route_catalog" where
  "catalog_rotate r c =
     (if r \<in> set (ca_route_order c)
      then c\<lparr>ca_route_order := remove1 r (ca_route_order c) @ [r]\<rparr> else c)"

definition register_route :: "string \<Rightarrow> string \<Rightarrow> 't \<Rightarrow> 't route_catalog \<Rightarrow> 't route_catalog" where
  "register_route queue lane topology c =
     (let r = (queue, lane);
          c = (case map_of (ca_declared_routes c) r of
                 Some _ \<Rightarrow> c
               | None \<Rightarrow> c\<lparr>ca_declared_routes := bt_insert r topology (ca_declared_routes c)\<rparr>)
      in if r \<in> set (ca_route_order c) then c
         else c\<lparr>ca_route_order := ca_route_order c @ [r]\<rparr>)"

section \<open>Replay of a dead letter\<close>

record ('t, 'd) dead_letter_replay =
  dy_topology :: 't
  dy_stored :: 'd
  dy_record :: dead_letter_record

text \<open>The trait object \<^theory_text>\<open>BrokerDeadLetterStore\<close> and the publication of a replay.\<close>

record ('t, 'd, 'w) replay_ops =
  ry_find :: "string \<Rightarrow> 'w \<Rightarrow> ('t, 'd) dead_letter_replay option app_result \<times> 'w"
  ry_publish :: "'t \<Rightarrow> dead_letter_record \<Rightarrow> 'w \<Rightarrow> unit app_result \<times> 'w"
  ry_remove :: "('t, 'd) dead_letter_replay \<Rightarrow> 'w \<Rightarrow> unit app_result \<times> 'w"

definition replay_dead_letter_with_store ::
    "('t, 'd, 'w) replay_ops \<Rightarrow> system_time \<Rightarrow> string \<Rightarrow> string \<Rightarrow> 'w \<times> metrics \<Rightarrow>
       queue_receipt app_result \<times> 'w \<times> metrics" where
  "replay_dead_letter_with_store ops now broker delivery_id wm =
     (case wm of (w, m) \<Rightarrow>
      case ry_find ops delivery_id w of
        (Inl err, w) \<Rightarrow> (Inl err, w, m)
      | (Inr None, w) \<Rightarrow> (Inl (dead_letter_not_found delivery_id), w,
          observe_broker_operation_failure now broker ''*'' ''*'' ''replay'' m)
      | (Inr (Some replay), w) \<Rightarrow>
          (let receipt = build_replay_receipt (dy_record replay);
               failed = observe_broker_operation_failure now broker (qr_queue receipt)
                 (qr_lane receipt) ''replay'' m
           in case ry_publish ops (dy_topology replay) (dy_record replay) w of
                (Inl err, w) \<Rightarrow> (Inl err, w, failed)
              | (Inr _, w) \<Rightarrow>
                  (case ry_remove ops replay w of
                     (Inl err, w) \<Rightarrow> (Inl err, w, failed)
                   | (Inr _, w) \<Rightarrow>
                       (Inr receipt, w,
                        observe_broker_replay broker (qr_queue receipt) (qr_lane receipt) m))))"

section \<open>Facts\<close>

text \<open>A catalog lists every declared route once, in key order and in polling order.\<close>

definition catalog_inv :: "'t route_catalog \<Rightarrow> bool" where
  "catalog_inv c \<longleftrightarrow>
     sorted_wrt (<) (hm_keys (ca_declared_routes c)) \<and> distinct (ca_route_order c) \<and>
     set (ca_route_order c) = set (hm_keys (ca_declared_routes c))"

lemma catalog_inv_new: "catalog_inv new_catalog"
  by (simp add: catalog_inv_def new_catalog_def)

lemma catalog_inv_get_or_insert: "catalog_inv c \<Longrightarrow> catalog_inv (snd (get_or_insert_with q l t c))"
  by (auto simp: catalog_inv_def get_or_insert_with_def Let_def map_of_eq_None_iff split: option.splits)

lemma catalog_inv_rotate: "catalog_inv c \<Longrightarrow> catalog_inv (catalog_rotate r c)"
  by (auto simp: catalog_inv_def catalog_rotate_def)

lemma catalog_inv_register: "catalog_inv c \<Longrightarrow> catalog_inv (register_route q l t c)"
proof (cases "map_of (ca_declared_routes c) (q, l)")
  case None
  moreover assume "catalog_inv c"
  moreover have "(q, l) \<notin> fst ` set (ca_declared_routes c)"
    using None by (simp add: map_of_eq_None_iff)
  ultimately show ?thesis by (auto simp: catalog_inv_def register_route_def Let_def)
next
  case (Some t')
  moreover assume "catalog_inv c"
  moreover have "(q, l) \<in> fst ` set (ca_declared_routes c)" using Some by (rule key_known)
  ultimately show ?thesis by (simp add: catalog_inv_def register_route_def Let_def)
qed

text \<open>The sanitizers keep clean names and are idempotent.\<close>

lemma replace_chars_id:
  assumes "\<And>c. keep c \<Longrightarrow> byte c < 128"
  shows "list_all keep s \<Longrightarrow> replace_chars keep s = s"
proof -
  assume k: "list_all keep s"
  then have "chars s = map (\<lambda>c. [c]) s"
    by (intro chars_ascii) (auto simp: list_all_iff assms)
  with k show ?thesis
    unfolding replace_chars_def by (induction s) (auto simp: list_all_iff)
qed

lemma replace_chars_keeps:
  "keep (CHR ''_'') \<Longrightarrow> list_all keep (replace_chars keep s)"
  by (auto simp: replace_chars_def list_all_iff split: list.splits if_splits)

lemma segment_ascii: "segment_char c \<Longrightarrow> byte c < 128"
  by (auto simp: segment_char_def ascii_alphanumeric_def byte_def)

lemma sanitize_segment_idem: "sanitize_segment (sanitize_segment s) = sanitize_segment s"
  unfolding sanitize_segment_def
  by (rule replace_chars_id [OF segment_ascii]) (simp_all add: replace_chars_keeps segment_char_def)

end
