(* ===== verification/Rust_Trim.thy ===== *)
theory Rust_Trim
  imports Rust_Strings
begin

text \<open>
  Texts that trimming leaves as they are, and texts that are not blank: what parsers of trimmed
  parts need. A plain character is ASCII and no white space; next to it no other white-space
  character of several bytes can begin or end.
\<close>

definition plain :: "char \<Rightarrow> bool" where
  "plain c \<longleftrightarrow> byte c < 128 \<and> \<not> ws1 c"

lemma ws_len_plain [simp]: "plain c \<Longrightarrow> ws_len (c # s) = 0"
  by (cases s; cases "tl s") (auto simp: plain_def ws2_def ws3_def)

lemma rws_len_plain [simp]: "plain c \<Longrightarrow> rws_len (c # s) = 0"
  by (cases s; cases "tl s") (auto simp: plain_def ws2_def ws3_def)

lemma ws_len_before_plain:
  assumes "ws_len a = 0" "a \<noteq> []" "plain c"
  shows "ws_len (a @ c # b) = 0"
proof -
  consider x where "a = [x]" | x y where "a = [x, y]" | x y z r where "a = x # y # z # r"
    using assms(2) by (metis list.exhaust)
  then show ?thesis
    using assms by cases (cases b; auto simp: plain_def ws2_def ws3_def split: if_splits)+
qed

lemma rws_len_before_plain:
  assumes "rws_len a = 0" "a \<noteq> []" "plain c"
  shows "rws_len (a @ c # b) = 0"
proof -
  consider x where "a = [x]" | x y where "a = [x, y]" | x y z r where "a = x # y # z # r"
    using assms(2) by (metis list.exhaust)
  then show ?thesis
    using assms by cases (cases b; auto simp: plain_def ws2_def ws3_def split: if_splits)+
qed

section \<open>Trimmed texts\<close>

definition trimmed :: "string \<Rightarrow> bool" where
  "trimmed s \<longleftrightarrow> s \<noteq> [] \<and> ws_len s = 0 \<and> rws_len (rev s) = 0"

lemma trim_trimmed [simp]: "trimmed s \<Longrightarrow> trim s = s"
  by (simp add: trimmed_def trim_id)

lemma trimmed_not_blank [simp]: "trimmed s \<Longrightarrow> \<not> blank s"
  by (simp add: blank_def) (simp add: trimmed_def)

lemma trimmed_not_Nil [simp]: "\<not> trimmed []"
  by (simp add: trimmed_def)

lemma trimmed_join: "trimmed a \<Longrightarrow> plain c \<Longrightarrow> trimmed b \<Longrightarrow> trimmed (a @ c # b)"
  by (simp add: trimmed_def ws_len_before_plain rws_len_before_plain)

lemma skip_ws_shorter: "w s \<noteq> 0 \<Longrightarrow> s \<noteq> [] \<Longrightarrow> length (skip_ws w s) < length s"
proof -
  assume a: "w s \<noteq> 0" "s \<noteq> []"
  obtain k where "skip_ws w (drop (w s) s) = drop k (drop (w s) s)" using skip_ws_suffix by blast
  then have "length (skip_ws w s) = length s - w s - k"
    using a by (subst skip_ws.simps) simp
  moreover have "0 < length s" using a by simp
  ultimately show ?thesis using a(1) by linarith
qed

text \<open>These are exactly the fixed points of trimming.\<close>

lemma trimmed_iff: "trimmed s \<longleftrightarrow> s \<noteq> [] \<and> trim s = s"
proof
  assume s: "s \<noteq> [] \<and> trim s = s"
  have "length (trim_start s) = length s"
  proof -
    obtain k j where "trim_end (trim_start s) = take k (trim_start s)" and j: "trim_start s = drop j s"
      using trim_end_prefix skip_ws_suffix unfolding trim_start_def by meson
    then have "length s \<le> length (trim_start s)" using s by (metis length_take min.cobounded1 trim_def)
    with j show ?thesis by simp
  qed
  then have w: "ws_len s = 0" using skip_ws_shorter [of ws_len s] s by (force simp: trim_start_def)
  then have "trim_end s = s" using s by (simp add: trim_def trim_start_def skip_ws_idem)
  then have "length (skip_ws rws_len (rev s)) = length s" by (metis length_rev trim_end_def)
  then have "rws_len (rev s) = 0" using skip_ws_shorter [of rws_len "rev s"] s by force
  with w s show "trimmed s" by (simp add: trimmed_def)
qed (auto simp: trimmed_def trim_id)

lemma ws_len_take: "ws_len s = 0 \<Longrightarrow> ws_len (take k s) = 0"
proof -
  assume w: "ws_len s = 0"
  consider "take k s = []" | x where "take k s = [x]" | x y where "take k s = [x, y]"
    | x y z r where "take k s = x # y # z # r" by (metis list.exhaust)
  then show ?thesis
    using w append_take_drop_id [of k s]
    by cases (cases "drop k s"; cases "tl (drop k s)"; force split: if_splits)+
qed

lemma trim_trimmed_or_Nil: "trim s = [] \<or> trimmed (trim s)"
proof -
  have "ws_len (trim_start s) = 0"
    using skip_ws_stop [of ws_len s] by (auto simp: trim_start_def)
  moreover obtain k where "trim s = take k (trim_start s)"
    using trim_end_prefix unfolding trim_def by blast
  ultimately have "ws_len (trim s) = 0" by (simp add: ws_len_take)
  then show ?thesis using trim_end_rws [of "trim_start s"] by (auto simp: trimmed_def trim_def)
qed

lemma trim_idem [simp]: "trim (trim s) = trim s"
  using trim_trimmed_or_Nil [of s] by auto

lemma set_trim_subset: "set (trim s) \<subseteq> set s"
proof -
  obtain k j where "trim_end (trim_start s) = take k (trim_start s)" and "trim_start s = drop j s"
    using trim_end_prefix skip_ws_suffix unfolding trim_start_def by meson
  then show ?thesis unfolding trim_def by (metis set_drop_subset set_take_subset subset_trans)
qed

section \<open>Texts that are not blank\<close>

lemma rws_len_stops_at_plain: "plain c \<Longrightarrow> rws_len (s @ c # t) \<le> length s"
proof -
  assume c: "plain c"
  consider "s = []" | x where "s = [x]" | x y where "s = [x, y]" | x y z r where "s = x # y # z # r"
    by (metis list.exhaust)
  then show ?thesis
    by cases (use c in \<open>cases t; auto simp: plain_def ws2_def ws3_def\<close>)+
qed

lemma skip_rws_keeps_plain: "plain c \<Longrightarrow> c \<in> set s \<Longrightarrow> c \<in> set (skip_ws rws_len s)"
proof (induction rws_len s rule: skip_ws.induct)
  case (1 s)
  from 1(3) obtain a b where s: "s = a @ c # b" by (metis split_list)
  show ?case
  proof (cases "rws_len s = 0 \<or> s = []")
    case True
    then show ?thesis using 1(3) by (simp add: skip_ws.simps [of rws_len s])
  next
    case False
    have "rws_len s \<le> length a" using rws_len_stops_at_plain [OF 1(2), of a b] s by simp
    then have "c \<in> set (drop (rws_len s) s)" by (simp add: s)
    with False 1 show ?thesis by (simp add: skip_ws.simps [of rws_len s])
  qed
qed

text \<open>A text that starts with a plain character is not blank.\<close>

lemma plain_not_blank: "plain c \<Longrightarrow> \<not> blank (c # s)"
proof
  assume c: "plain c" and "blank (c # s)"
  then have "skip_ws rws_len (rev (c # s)) = []"
    by (simp add: blank_def trim_def trim_start_def skip_ws_idem trim_end_def)
  moreover have "c \<in> set (skip_ws rws_len (rev (c # s)))" by (rule skip_rws_keeps_plain [OF c]) simp
  ultimately show False by simp
qed

end
