(* ===== verification/Config_Props.thy ===== *)
theory Config_Props
  imports Config Rust_Trim
begin

text \<open>
  The worker groups of the configuration: printing and reading back.
\<close>

definition show_binding :: "route_binding_config \<Rightarrow> string" where
  "show_binding b = rbc_queue b @ CHR '':'' # rbc_lane b"

definition show_group :: "worker_group_config \<Rightarrow> string" where
  "show_group g = wgc_name g @ CHR ''='' # join '','' (map show_binding (wgc_bindings g))"

definition show_groups :: "worker_group_config list \<Rightarrow> string" where
  "show_groups gs = join '';'' (map show_group gs)"

text \<open>Groups that the syntax can express.\<close>

definition binding_ok :: "route_binding_config \<Rightarrow> bool" where
  "binding_ok b \<longleftrightarrow> trimmed (rbc_queue b) \<and> trimmed (rbc_lane b) \<and>
     set '':,;'' \<inter> set (rbc_queue b) = {} \<and> set '',;'' \<inter> set (rbc_lane b) = {}"

definition group_ok :: "worker_group_config \<Rightarrow> bool" where
  "group_ok g \<longleftrightarrow> trim (wgc_name g) = wgc_name g \<and> set ''=;'' \<inter> set (wgc_name g) = {} \<and>
     wgc_bindings g \<noteq> [] \<and> list_all binding_ok (wgc_bindings g)"

lemma plain_separators [simp]: "plain (CHR '':'')" "plain (CHR '','')" "plain (CHR '';'')" "plain (CHR ''='')"
  by code_simp+

section \<open>Lists with a separator\<close>

lemma trimmed_items_join:
  assumes "xs \<noteq> []" and "list_all (\<lambda>x. trimmed x \<and> c \<notin> set x) xs"
  shows "trimmed_items c (join [c] xs) = xs"
proof -
  have "split_on c (join [c] xs) = xs"
    using assms by (induction "[c]" xs rule: join.induct) (auto simp: split_on_no_sep split_on_append)
  moreover have "map trim xs = xs" "filter (\<lambda>x. x \<noteq> []) xs = xs"
    using assms(2) by (induction xs) auto
  ultimately show ?thesis by (simp add: trimmed_items_def)
qed

lemma trimmed_join_list: "xs \<noteq> [] \<Longrightarrow> list_all trimmed xs \<Longrightarrow> plain c \<Longrightarrow> trimmed (join [c] xs)"
  by (induction "[c]" xs rule: join.induct) (auto simp: trimmed_join)

lemma set_join: "set (join sep xs) \<subseteq> set sep \<union> \<Union> (set ` set xs)"
  by (induction sep xs rule: join.induct) auto

lemma trimmed_items_parts:
  "x \<in> set (trimmed_items c s) \<Longrightarrow> trimmed x \<and> c \<notin> set x \<and> set x \<subseteq> set s"
proof -
  assume "x \<in> set (trimmed_items c s)"
  then obtain t where t: "t \<in> set (split_on c s)" "x = trim t" "x \<noteq> []" by (auto simp: trimmed_items_def)
  have "set t \<subseteq> set s"
    using t(1) by (induction c s arbitrary: t rule: split_on.induct)
      (fastforce split: if_splits list.splits)+
  then show ?thesis
    using t trim_trimmed_or_Nil [of t] split_on_parts [OF t(1)] set_trim_subset [of t] by auto
qed

section \<open>Printing and reading\<close>

lemma parse_show_binding: "binding_ok b \<Longrightarrow> parse_route_binding (show_binding b) = Inr b"
  by (simp add: parse_route_binding_def show_binding_def binding_ok_def split_once_append)

lemma show_binding_ok: "binding_ok b \<Longrightarrow> trimmed (show_binding b) \<and> CHR '','' \<notin> set (show_binding b) \<and>
    CHR '';'' \<notin> set (show_binding b)"
  by (auto simp: show_binding_def binding_ok_def trimmed_join)

lemma parse_show_group:
  assumes "group_ok g"
  shows "parse_worker_group (show_group g) = Inr g"
proof -
  let ?bs = "map show_binding (wgc_bindings g)"
  have "list_all (\<lambda>x. trimmed x \<and> CHR '','' \<notin> set x) ?bs"
    using assms show_binding_ok by (auto simp: group_ok_def list_all_iff)
  then have "trimmed_items (CHR '','') (join '','' ?bs) = ?bs"
    using assms by (intro trimmed_items_join) (auto simp: group_ok_def)
  moreover have "collect_results (map parse_route_binding ?bs) = Inr (wgc_bindings g)"
    using assms by (auto simp: collect_results_Inr group_ok_def list_all_iff parse_show_binding)
  ultimately show ?thesis
    using assms by (simp add: parse_worker_group_def show_group_def split_once_append group_ok_def)
qed

lemma show_group_ok:
  assumes "group_ok g"
  shows "trimmed (show_group g) \<and> CHR '';'' \<notin> set (show_group g)"
proof -
  let ?bs = "map show_binding (wgc_bindings g)"
  have bs: "list_all trimmed ?bs" "\<forall>b \<in> set ?bs. CHR '';'' \<notin> set b"
    using assms show_binding_ok by (auto simp: group_ok_def list_all_iff)
  have join: "trimmed (join '','' ?bs)"
    using assms bs(1) by (intro trimmed_join_list) (auto simp: group_ok_def)
  have "CHR '';'' \<notin> set (join '','' ?bs)" using bs(2) set_join [of "'',''" ?bs] by auto
  moreover have "trimmed (show_group g)"
  proof (cases "wgc_name g = []")
    case True
    then show ?thesis using join rws_len_before_plain [of "rev (join '','' ?bs)" "CHR ''=''" "[]"]
      by (simp add: show_group_def trimmed_def)
  next
    case False
    then have "trimmed (wgc_name g)" using assms by (simp add: group_ok_def trimmed_iff)
    then show ?thesis using join by (simp add: show_group_def trimmed_join)
  qed
  ultimately show ?thesis using assms by (auto simp: show_group_def group_ok_def)
qed

lemma read_show_groups:
  assumes "gs \<noteq> []" and "list_all group_ok gs"
  shows "worker_groups_from_env (Some (show_groups gs)) = Inr gs"
proof -
  let ?ss = "map show_group gs"
  have ss: "list_all (\<lambda>x. trimmed x \<and> CHR '';'' \<notin> set x) ?ss" "list_all trimmed ?ss"
    using assms show_group_ok by (auto simp: list_all_iff)
  have "trimmed (show_groups gs)"
    unfolding show_groups_def using assms(1) ss(2) by (intro trimmed_join_list) auto
  moreover have "trimmed_items (CHR '';'') (show_groups gs) = ?ss"
    unfolding show_groups_def using assms(1) ss(1) by (intro trimmed_items_join) auto
  moreover have "collect_results (map parse_worker_group ?ss) = Inr gs"
    using assms(2) by (auto simp: collect_results_Inr list_all_iff parse_show_group)
  ultimately show ?thesis
    using assms(1) by (cases "show_groups gs = []") (simp_all add: worker_groups_from_env_def)
qed

text \<open>What reading gives can always be printed.\<close>

lemma parsed_binding_ok:
  assumes "parse_route_binding v = Inr b" and "CHR '','' \<notin> set v" "CHR '';'' \<notin> set v"
  shows "binding_ok b"
proof -
  obtain q l where s: "split_once (CHR '':'') v = Some (q, l)" and nb: "\<not> blank q" "\<not> blank l"
    and b: "b = \<lparr>rbc_queue = trim q, rbc_lane = trim l\<rparr>"
    using assms(1) by (auto simp: parse_route_binding_def and_then_Inr_iff ok_or_def
        split: option.splits if_splits)
  have v: "v = q @ CHR '':'' # l" and q: "CHR '':'' \<notin> set q" using s by (simp_all add: split_once_Some)
  have "trimmed (trim q)" "trimmed (trim l)"
    using nb trim_trimmed_or_Nil by (auto simp: blank_def)
  then show ?thesis
    using q assms(2,3) set_trim_subset [of q] set_trim_subset [of l]
    by (auto simp: binding_ok_def b v)
qed

lemma parsed_group_ok:
  assumes "parse_worker_group v = Inr g" and "CHR '';'' \<notin> set v"
  shows "group_ok g"
proof -
  obtain nm bs rs where s: "split_once (CHR ''='') v = Some (nm, rs)"
    and c: "collect_results (map parse_route_binding (trimmed_items (CHR '','') rs)) = Inr bs"
    and g: "bs \<noteq> []" "g = \<lparr>wgc_name = trim nm, wgc_bindings = bs\<rparr>"
    using assms(1) by (auto simp: parse_worker_group_def and_then_Inr_iff ok_or_def
        split: option.splits if_splits)
  have v: "v = nm @ CHR ''='' # rs" and nm: "CHR ''='' \<notin> set nm" using s by (simp_all add: split_once_Some)
  have "binding_ok b" if "b \<in> set bs" for b
  proof -
    have "map parse_route_binding (trimmed_items (CHR '','') rs) = map Inr bs"
      using c by (simp add: collect_results_Inr)
    then have "Inr b \<in> parse_route_binding ` set (trimmed_items (CHR '','') rs)"
      using that by (metis image_eqI list.set_map)
    then obtain x where x: "x \<in> set (trimmed_items (CHR '','') rs)" "parse_route_binding x = Inr b" by auto
    then show ?thesis
      using trimmed_items_parts [OF x(1)] assms(2) v by (intro parsed_binding_ok [OF x(2)]) auto
  qed
  then show ?thesis
    using g nm assms(2) v set_trim_subset [of nm] by (auto simp: group_ok_def list_all_iff)
qed

lemma parsed_groups_ok:
  assumes "worker_groups_from_env v = Inr gs"
  shows "gs \<noteq> [] \<and> list_all group_ok gs"
proof (cases "case v of None \<Rightarrow> None | Some s \<Rightarrow> (if trim s = [] then None else Some (trim s))")
  case None
  have "list_all group_ok default_worker_groups_config" by code_simp
  moreover have "default_worker_groups_config \<noteq> []" by (simp add: default_worker_groups_config_def)
  ultimately show ?thesis using assms None by (simp add: worker_groups_from_env_def)
next
  case (Some s)
  then have c: "collect_results (map parse_worker_group (trimmed_items (CHR '';'') s)) = Inr gs" and "gs \<noteq> []"
    using assms by (auto simp: worker_groups_from_env_def and_then_Inr_iff split: if_splits)
  moreover have "group_ok g" if "g \<in> set gs" for g
  proof -
    have "map parse_worker_group (trimmed_items (CHR '';'') s) = map Inr gs"
      using c by (simp add: collect_results_Inr)
    then have "Inr g \<in> parse_worker_group ` set (trimmed_items (CHR '';'') s)"
      using that by (metis image_eqI list.set_map)
    then obtain x where x: "x \<in> set (trimmed_items (CHR '';'') s)" "parse_worker_group x = Inr g" by auto
    then show ?thesis using trimmed_items_parts [OF x(1)] parsed_group_ok [OF x(2)] by blast
  qed
  ultimately show ?thesis by (simp add: list_all_iff)
qed

text \<open>C24: What the worker-group variable is read as is never empty, each group has a binding and every
  name is trimmed, and printing it and reading the text back gives the same groups; conversely every
  list of groups that the syntax can express is read back from its text.\<close>

theorem worker_groups_round_trip:
  "(case worker_groups_from_env v of
      Inl _ \<Rightarrow> True
    | Inr gs \<Rightarrow> gs \<noteq> [] \<and> list_all group_ok gs \<and>
        worker_groups_from_env (Some (show_groups gs)) = Inr gs) \<and>
   (if gs' \<noteq> [] \<and> list_all group_ok gs' then worker_groups_from_env (Some (show_groups gs')) = Inr gs' else True)"
  using parsed_groups_ok [of v] read_show_groups by (simp split: sum.split)

end
