(* ===== verification/Job_Types.thy ===== *)
theory Job_Types
  imports Runtime_Types
begin

text \<open>
  The data of the job platform (crates/nexus-jobs/src/model, handlers/descriptor.rs,
  handlers/contract.rs, domains/oj.rs): jobs, their events and snapshots, the description of a
  handler and what a handler answers. A field carries a prefix for its struct. The JSON value of
  a payload is only carried along: its type is left open.
\<close>

section \<open>Jobs (model/job.rs, model/payload.rs)\<close>

typedecl json_value

datatype job_id = JobId (job_id_0: string)
datatype job_namespace = JobNamespace (job_namespace_0: string)

record job_type =
  jt_namespace :: string
  jt_name :: string
  jt_version :: u16

record job_origin =
  jo_source_domain :: string
  jo_source_entity_id :: string
  jo_submitted_by :: "string option"

record job_route =
  jr_queue :: string
  jr_lane :: string

record job_retry_policy =
  jp_max_attempts :: u32
  jp_retry_delay_ms :: u64

record job_timeout_policy =
  jm_execution_timeout_ms :: "u64 option"
  jm_lease_timeout_ms :: "u64 option"

definition default_timeout_policy :: job_timeout_policy where
  "default_timeout_policy = \<lparr>jm_execution_timeout_ms = None, jm_lease_timeout_ms = None\<rparr>"

record job_dispatch =
  jd_route :: job_route
  jd_retry_policy :: job_retry_policy
  jd_timeout_policy :: job_timeout_policy

record job_json_payload =
  jj_schema :: string
  jj_value :: json_value

record oj_judge_job_payload =
  oq_submission_id :: submission_id
  oq_problem_id :: problem_id
  oq_user_id :: user_id
  oq_language :: string
  oq_judge_mode :: runtime_judge_mode
  oq_sandbox_kind :: runtime_sandbox_kind
  oq_source_code :: string
  oq_limits :: runtime_limits
  oq_testcases :: "runtime_testcase list"
  oq_judge_config :: "runtime_judge_config option"

datatype job_payload = JpOjJudge oj_judge_job_payload | JpJson job_json_payload

record job_definition =
  jb_job_id :: job_id
  jb_job_type :: job_type
  jb_namespace :: job_namespace
  jb_origin :: job_origin
  jb_dispatch :: job_dispatch
  jb_payload :: job_payload
  jb_labels :: "(string, string) btree_map"

record job_receipt =
  jc_job_id :: string
  jc_queue :: string
  jc_lane :: string
  jc_handler :: "string option"
  jc_execution_contract :: "string option"

section \<open>Status and events (model/status.rs, model/events.rs, model/result.rs)\<close>

datatype job_status =
    JsCreated | JsEnqueued | JsLeased | JsRunning | JsSucceeded | JsRetrying
  | JsDeadLettered | JsFailed | JsCancelled

fun job_status_from :: "task_lifecycle_status \<Rightarrow> job_status" where
  "job_status_from LcQueued = JsEnqueued"
| "job_status_from LcRetrying = JsRetrying"
| "job_status_from LcPreparing = JsRunning"
| "job_status_from LcPrepared = JsRunning"
| "job_status_from LcCompiling = JsRunning"
| "job_status_from LcRunning = JsRunning"
| "job_status_from LcCompleted = JsSucceeded"
| "job_status_from LcFailed = JsFailed"
| "job_status_from LcDeadLettered = JsDeadLettered"

datatype job_event_source = JobPlatform | JobRuntime

record job_event_metadata =
  em_queue :: "string option"
  em_lane :: "string option"
  em_source_domain :: "string option"
  em_source_entity_id :: "string option"
  em_handler :: "string option"
  em_execution_contract :: "string option"

record job_event =
  je_job_id :: string
  je_status :: job_status
  je_source :: job_event_source
  je_message :: string
  je_attempt :: "u32 option"
  je_occurred_at_ms :: u64
  je_error :: "string option"
  je_metadata :: "job_event_metadata option"

datatype job_failure_disposition = JfRetrying | JfDeadLettered | JfFailed

record job_failure =
  jf_reason :: string
  jf_disposition :: job_failure_disposition

record job_result =
  jx_status :: job_status
  jx_failure :: "job_failure option"

section \<open>Handlers (handlers/descriptor.rs, handlers/contract.rs)\<close>

datatype job_execution_contract = RuntimeTaskContract

record job_handler_capabilities =
  hc_validates_payload :: bool
  hc_requires_runtime_worker :: bool
  hc_supports_dry_run :: bool
  hc_emits_result_payload :: bool

record job_handler_descriptor =
  hd_job_type :: job_type
  hd_description :: string
  hd_execution_contract :: job_execution_contract
  hd_supports_replay :: bool
  hd_idempotent_submission :: bool
  hd_capabilities :: job_handler_capabilities

definition handler_key :: "string \<Rightarrow> string \<Rightarrow> u16 \<Rightarrow> string" where
  "handler_key namespace nm version = namespace @ '':'' @ nm @ '':v'' @ show_word version"

definition descriptor_key :: "job_handler_descriptor \<Rightarrow> string" where
  "descriptor_key d = jt_namespace (hd_job_type d) @ '':'' @ jt_name (hd_job_type d) @ '':v'' @
     show_word (jt_version (hd_job_type d))"

record job_execution_context =
  jk_job_id :: string
  jk_namespace :: string
  jk_route :: job_route
  jk_retry_policy :: job_retry_policy
  jk_timeout_policy :: job_timeout_policy
  jk_origin :: job_origin
  jk_labels :: "(string, string) btree_map"
  jk_submitted_at_ms :: u64

definition context_from_job :: "job_definition \<Rightarrow> u64 \<Rightarrow> job_execution_context" where
  "context_from_job job submitted_at_ms =
     \<lparr>jk_job_id = job_id_0 (jb_job_id job), jk_namespace = job_namespace_0 (jb_namespace job),
      jk_route = jd_route (jb_dispatch job), jk_retry_policy = jd_retry_policy (jb_dispatch job),
      jk_timeout_policy = jd_timeout_policy (jb_dispatch job), jk_origin = jb_origin job,
      jk_labels = jb_labels job, jk_submitted_at_ms = submitted_at_ms\<rparr>"

record job_dispatch_plan =
  pl_runtime_task :: runtime_task
  pl_handler_descriptor :: job_handler_descriptor
  pl_execution_contract :: job_execution_contract

definition plan_runtime_task :: "runtime_task \<Rightarrow> job_handler_descriptor \<Rightarrow> job_dispatch_plan" where
  "plan_runtime_task task d =
     \<lparr>pl_runtime_task = task, pl_handler_descriptor = d,
      pl_execution_contract = hd_execution_contract d\<rparr>"

record job_handler_failure =
  hf_code :: string
  hf_reason :: string
  hf_retryable :: bool

definition failure_rejected :: "string \<Rightarrow> string \<Rightarrow> job_handler_failure" where
  "failure_rejected code reason = \<lparr>hf_code = code, hf_reason = reason, hf_retryable = False\<rparr>"

definition failure_temporary :: "string \<Rightarrow> string \<Rightarrow> job_handler_failure" where
  "failure_temporary code reason = \<lparr>hf_code = code, hf_reason = reason, hf_retryable = True\<rparr>"

datatype job_handler_result = Dispatch job_dispatch_plan | Rejected job_handler_failure

text \<open>The trait object \<^theory_text>\<open>JobHandler\<close>: a record of its two methods.\<close>

record job_handler =
  jh_descriptor :: job_handler_descriptor
  jh_prepare_dispatch :: "job_definition \<Rightarrow> job_execution_context \<Rightarrow> job_handler_result app_result"

section \<open>Snapshots (model/management.rs)\<close>

record submission_failure =
  sf_message :: string
  sf_occurred_at_ms :: u64

record job_snapshot =
  js_job_id :: string
  js_job_type :: job_type
  js_origin :: job_origin
  js_dispatch :: job_dispatch
  js_status :: job_status
  js_message :: string
  js_error :: "string option"
  js_handler :: "job_handler_descriptor option"
  js_latest_submission_failure :: "submission_failure option"
  js_history :: "job_event list"

record job_management_summary =
  jg_total_jobs :: nat
  jg_queued :: nat
  jg_running :: nat
  jg_succeeded :: nat
  jg_retrying :: nat
  jg_dead_lettered :: nat
  jg_failed :: nat
  jg_submission_rejected :: nat

record job_management_view =
  jv_jobs :: "job_snapshot list"
  jv_summary :: job_management_summary

section \<open>The oj domain of the job platform (domains/oj.rs)\<close>

definition oj_job_namespace :: string where "oj_job_namespace = ''oj''"
definition oj_job_source_domain :: string where "oj_job_source_domain = ''oj''"
definition oj_judge_job_name :: string where "oj_judge_job_name = ''judge_submission''"

definition oj_judge_handler_descriptor :: job_handler_descriptor where
  "oj_judge_handler_descriptor =
     \<lparr>hd_job_type = \<lparr>jt_namespace = oj_job_namespace, jt_name = oj_judge_job_name, jt_version = 1\<rparr>,
      hd_description = ''OJ submission judge job executed by runtime task worker'',
      hd_execution_contract = RuntimeTaskContract, hd_supports_replay = True,
      hd_idempotent_submission = False,
      hd_capabilities = \<lparr>hc_validates_payload = True, hc_requires_runtime_worker = True,
        hc_supports_dry_run = False, hc_emits_result_payload = False\<rparr>\<rparr>"

record oj_judge_job_input =
  ij_job_id :: string
  ij_source_entity_id :: string
  ij_submission_id :: submission_id
  ij_problem_id :: problem_id
  ij_user_id :: user_id
  ij_language :: string
  ij_judge_mode :: runtime_judge_mode
  ij_sandbox_kind :: runtime_sandbox_kind
  ij_source_code :: string
  ij_limits :: runtime_limits
  ij_testcases :: "runtime_testcase list"
  ij_judge_config :: "runtime_judge_config option"
  ij_route :: job_route
  ij_retry_policy :: job_retry_policy

definition build_oj_judge_job :: "oj_judge_job_input \<Rightarrow> job_definition" where
  "build_oj_judge_job i =
     \<lparr>jb_job_id = JobId (ij_job_id i),
      jb_job_type = \<lparr>jt_namespace = oj_job_namespace, jt_name = oj_judge_job_name, jt_version = 1\<rparr>,
      jb_namespace = JobNamespace oj_job_namespace,
      jb_origin = \<lparr>jo_source_domain = oj_job_source_domain,
        jo_source_entity_id = ij_source_entity_id i,
        jo_submitted_by = Some (user_id_0 (ij_user_id i))\<rparr>,
      jb_dispatch = \<lparr>jd_route = ij_route i, jd_retry_policy = ij_retry_policy i,
        jd_timeout_policy = default_timeout_policy\<rparr>,
      jb_payload = JpOjJudge
        \<lparr>oq_submission_id = ij_submission_id i, oq_problem_id = ij_problem_id i,
         oq_user_id = ij_user_id i, oq_language = ij_language i, oq_judge_mode = ij_judge_mode i,
         oq_sandbox_kind = ij_sandbox_kind i, oq_source_code = ij_source_code i,
         oq_limits = ij_limits i, oq_testcases = ij_testcases i,
         oq_judge_config = ij_judge_config i\<rparr>,
      jb_labels = []\<rparr>"

text \<open>The copies of the judge configuration in the job's own types.\<close>

record oj_judge_validator_config =
  ov_ignore_whitespace :: bool
  ov_ignore_case :: bool
  ov_is_unordered :: bool
  ov_is_token_mode :: bool
  ov_is_float :: bool
  ov_float_epsilon :: f64

record oj_judge_function_parameter =
  ofp_name :: string
  ofp_ty :: string

record oj_judge_function_signature =
  ofs_function_name :: string
  ofs_return_type :: string
  ofs_params :: "oj_judge_function_parameter list"

record oj_judge_spj_config =
  osp_language :: string
  osp_source_code :: string

definition validator_config_from :: "runtime_validator_config \<Rightarrow> oj_judge_validator_config" where
  "validator_config_from v =
     \<lparr>ov_ignore_whitespace = vc_ignore_whitespace v, ov_ignore_case = vc_ignore_case v,
      ov_is_unordered = vc_is_unordered v, ov_is_token_mode = vc_is_token_mode v,
      ov_is_float = vc_is_float v, ov_float_epsilon = vc_float_epsilon v\<rparr>"

definition function_signature_from :: "runtime_function_signature \<Rightarrow> oj_judge_function_signature" where
  "function_signature_from v =
     \<lparr>ofs_function_name = fs_function_name v, ofs_return_type = fs_return_type v,
      ofs_params = map (\<lambda>p. \<lparr>ofp_name = fp_name p, ofp_ty = fp_ty p\<rparr>) (fs_params v)\<rparr>"

definition spj_config_from :: "runtime_spj_config \<Rightarrow> oj_judge_spj_config" where
  "spj_config_from v = \<lparr>osp_language = spj_language v, osp_source_code = spj_source_code v\<rparr>"

end
