(* ===== verification/Jobs.thy ===== *)
theory Jobs
  imports Job_Types Task_Service
begin

text \<open>
  The operations of the job platform (crates/nexus-jobs/src): the handler registry, the stores,
  the validator, the mapping of a job to a runtime task, the submission and the queries. Its
  parts share the task service, the stores and the event history of one process: the state is
  the job world, and a part that the code holds as a trait object is a record of operations on it.
\<close>

section \<open>Registry (handlers/registry.rs)\<close>

record job_registry =
  jr_descriptors :: "(string, job_handler_descriptor) hash_map"
  jr_handlers :: "(string, job_handler) hash_map"

definition empty_registry :: job_registry where
  "empty_registry = \<lparr>jr_descriptors = [], jr_handlers = []\<rparr>"

definition register_descriptor :: "job_handler_descriptor \<Rightarrow> job_registry \<Rightarrow> job_registry" where
  "register_descriptor d g =
     g\<lparr>jr_descriptors := hm_insert
         (handler_key (jt_namespace (hd_job_type d)) (jt_name (hd_job_type d)) (jt_version (hd_job_type d)))
         d (jr_descriptors g)\<rparr>"

definition register_handler :: "job_handler \<Rightarrow> job_registry \<Rightarrow> job_registry" where
  "register_handler h g =
     (let d = jh_descriptor h;
          key = handler_key (jt_namespace (hd_job_type d)) (jt_name (hd_job_type d))
            (jt_version (hd_job_type d));
          g = register_descriptor d g
      in g\<lparr>jr_handlers := hm_insert key h (jr_handlers g)\<rparr>)"

definition resolve_descriptor ::
    "job_registry \<Rightarrow> string \<Rightarrow> string \<Rightarrow> u16 \<Rightarrow> job_handler_descriptor option" where
  "resolve_descriptor g namespace nm version =
     map_of (jr_descriptors g) (handler_key namespace nm version)"

definition resolve_handler :: "job_registry \<Rightarrow> string \<Rightarrow> string \<Rightarrow> u16 \<Rightarrow> job_handler option" where
  "resolve_handler g namespace nm version =
     map_of (jr_handlers g) (handler_key namespace nm version)"

definition registry_list :: "job_registry \<Rightarrow> job_handler_descriptor list" where
  "registry_list g = hm_values (jr_descriptors g)"

section \<open>Stores (registry/memory.rs, registry/events.rs)\<close>

type_synonym job_store = "(string, job_definition) hash_map"
type_synonym job_event_store = "(string, job_event list) hash_map"

definition store_save :: "job_definition \<Rightarrow> job_store \<Rightarrow> job_store" where
  "store_save job m = hm_insert (job_id_0 (jb_job_id job)) job m"

definition store_get :: "string \<Rightarrow> job_store \<Rightarrow> job_definition option" where
  "store_get job_id m = map_of m job_id"

definition store_list :: "job_store \<Rightarrow> job_definition list" where
  "store_list m = hm_values m"

definition event_append :: "job_event \<Rightarrow> job_event_store \<Rightarrow> job_event_store" where
  "event_append ev m =
     hm_insert (je_job_id ev) (unwrap_or (map_of m (je_job_id ev)) [] @ [ev]) m"

definition event_list :: "string \<Rightarrow> job_event_store \<Rightarrow> job_event list" where
  "event_list job_id m = unwrap_or (map_of m job_id) []"

section \<open>Jobs as runtime tasks (runtime/mapper.rs, domains/oj.rs)\<close>

definition map_job_to_runtime_task :: "job_definition \<Rightarrow> runtime_task app_result" where
  "map_job_to_runtime_task job =
     and_then
       (case jb_payload job of
          JpOjJudge p \<Rightarrow> Inr (PayloadOjJudge
            \<lparr>oj_submission_id = oq_submission_id p, oj_problem_id = oq_problem_id p,
             oj_user_id = oq_user_id p, oj_language = oq_language p,
             oj_judge_mode = oq_judge_mode p, oj_sandbox_kind = oq_sandbox_kind p,
             oj_source_code = oq_source_code p, oj_limits = oq_limits p,
             oj_testcases = oq_testcases p, oj_judge_config = oq_judge_config p\<rparr>)
        | JpJson p \<Rightarrow> Inl (BadRequest (''job payload schema '' @ jj_schema p @
            '' is not yet mappable to runtime tasks'')))
       (\<lambda>payload. and_then
         (case jb_payload job of
            JpOjJudge _ \<Rightarrow> Inr RtOjJudge
          | JpJson _ \<Rightarrow> Inl (BadRequest ''json jobs are not yet executable by runtime''))
         (\<lambda>task_type. Inr
           \<lparr>rt_task_id = job_id_0 (jb_job_id job), rt_task_type = task_type,
            rt_source_domain = jo_source_domain (jb_origin job),
            rt_source_entity_id = jo_source_entity_id (jb_origin job),
            rt_queue = jr_queue (jd_route (jb_dispatch job)),
            rt_lane = jr_lane (jd_route (jb_dispatch job)),
            rt_retry_policy =
              \<lparr>rp_max_attempts = jp_max_attempts (jd_retry_policy (jb_dispatch job)),
               rp_retry_delay_ms = jp_retry_delay_ms (jd_retry_policy (jb_dispatch job))\<rparr>,
            rt_payload = payload\<rparr>))"

definition oj_prepare_dispatch ::
    "job_definition \<Rightarrow> job_execution_context \<Rightarrow> job_handler_result app_result" where
  "oj_prepare_dispatch job context =
     (case jb_payload job of
        JpJson _ \<Rightarrow> Inl (BadRequest ''oj judge handler can only dispatch oj_judge payloads'')
      | JpOjJudge _ \<Rightarrow>
          and_then (map_job_to_runtime_task job) (\<lambda>task.
            Inr (Dispatch (plan_runtime_task task oj_judge_handler_descriptor))))"

definition oj_judge_job_handler :: job_handler where
  "oj_judge_job_handler =
     \<lparr>jh_descriptor = oj_judge_handler_descriptor, jh_prepare_dispatch = oj_prepare_dispatch\<rparr>"

section \<open>Validation (api/validator.rs)\<close>

definition validate_job :: "job_registry \<Rightarrow> job_definition \<Rightarrow> unit app_result" where
  "validate_job g job =
     (if blank (job_id_0 (jb_job_id job))
      then Inl (BadRequest ''job_id must not be empty'')
      else if blank (jt_namespace (jb_job_type job)) \<or> blank (jt_name (jb_job_type job))
      then Inl (BadRequest ''job_type namespace/name must not be empty'')
      else if blank (job_namespace_0 (jb_namespace job))
      then Inl (BadRequest ''job namespace must not be empty'')
      else if blank (jo_source_domain (jb_origin job)) \<or> blank (jo_source_entity_id (jb_origin job))
      then Inl (BadRequest ''job origin must include source_domain and source_entity_id'')
      else if blank (jr_queue (jd_route (jb_dispatch job))) \<or> blank (jr_lane (jd_route (jb_dispatch job)))
      then Inl (BadRequest ''job route queue/lane must not be empty'')
      else if jp_max_attempts (jd_retry_policy (jb_dispatch job)) = 0
      then Inl (BadRequest ''job retry policy max_attempts must be greater than zero'')
      else if resolve_descriptor g (jt_namespace (jb_job_type job)) (jt_name (jb_job_type job))
             (jt_version (jb_job_type job)) = None
      then Inl (BadRequest (''no registered job handler for '' @
             handler_key (jt_namespace (jb_job_type job)) (jt_name (jb_job_type job))
               (jt_version (jb_job_type job))))
      else case jb_payload job of
             JpOjJudge p \<Rightarrow>
               (if blank (oq_source_code p)
                then Inl (BadRequest ''oj job source_code must not be empty'') else Inr ())
           | JpJson p \<Rightarrow>
               (if blank (jj_schema p)
                then Inl (BadRequest ''json job schema must not be empty'') else Inr ()))"

section \<open>Submission (runtime/submitter.rs, api/service.rs)\<close>

definition map_handler_failure :: "string \<Rightarrow> job_handler_failure \<Rightarrow> app_error" where
  "map_handler_failure key failure =
     (let message = ''job handler '' @ key @ '' rejected dispatch ['' @ hf_code failure @ '']: '' @
            hf_reason failure
      in if hf_retryable failure then InvalidConfig message else BadRequest message)"

fun format_execution_contract :: "job_execution_contract \<Rightarrow> string" where
  "format_execution_contract RuntimeTaskContract = ''runtime_task''"

definition submit_to_runtime ::
    "('q, 'obs) service_parts \<Rightarrow> job_registry \<Rightarrow> system_time \<Rightarrow> system_time \<Rightarrow> job_definition \<Rightarrow>
       ('q, 'obs) task_service \<Rightarrow> job_receipt app_result \<times> ('q, 'obs) task_service" where
  "submit_to_runtime e g now later job s =
     (let route = jd_route (jb_dispatch job)
      in case resolve_handler g (jt_namespace (jb_job_type job)) (jt_name (jb_job_type job))
                (jt_version (jb_job_type job)) of
           None \<Rightarrow> (Inl (BadRequest (''no executable job handler for '' @
             handler_key (jt_namespace (jb_job_type job)) (jt_name (jb_job_type job))
               (jt_version (jb_job_type job)))), s)
         | Some h \<Rightarrow>
             (case jh_prepare_dispatch h job (context_from_job job (epoch_ms now)) of
                Inl err \<Rightarrow> (Inl err, s)
              | Inr (Rejected failure) \<Rightarrow>
                  (Inl (map_handler_failure (descriptor_key (jh_descriptor h)) failure), s)
              | Inr (Dispatch plan) \<Rightarrow>
                  st_then (schedule e later (pl_runtime_task plan) s) (\<lambda>_ s.
                    (Inr \<lparr>jc_job_id = job_id_0 (jb_job_id job), jc_queue = jr_queue route,
                          jc_lane = jr_lane route,
                          jc_handler = Some (descriptor_key (jh_descriptor h)),
                          jc_execution_contract = Some (format_execution_contract
                            (hd_execution_contract (jh_descriptor h)))\<rparr>, s))))"

text \<open>The four trait objects of \<^theory_text>\<open>JobPlatformService\<close>, over one world.\<close>

record 'w job_parts =
  jw_validate :: "job_definition \<Rightarrow> unit app_result"
  jw_submit :: "job_definition \<Rightarrow> 'w \<Rightarrow> job_receipt app_result \<times> 'w"
  jw_save :: "job_definition \<Rightarrow> 'w \<Rightarrow> 'w"
  jw_append :: "job_event \<Rightarrow> 'w \<Rightarrow> 'w"

definition build_dispatch_message :: "job_receipt \<Rightarrow> string" where
  "build_dispatch_message r = (case (jc_handler r, jc_execution_contract r) of
     (Some h, Some c) \<Rightarrow> ''job accepted by job platform and dispatched to runtime via '' @ h @
        '' ('' @ c @ '')''
   | (Some h, None) \<Rightarrow> ''job accepted by job platform and dispatched to runtime via '' @ h
   | _ \<Rightarrow> ''job accepted by job platform and dispatched to runtime'')"

definition rejected_event :: "system_time \<Rightarrow> job_definition \<Rightarrow> app_error \<Rightarrow> job_event" where
  "rejected_event now job err =
     \<lparr>je_job_id = job_id_0 (jb_job_id job), je_status = JsFailed, je_source = JobPlatform,
      je_message = ''job submission rejected before runtime dispatch'', je_attempt = Some 1,
      je_occurred_at_ms = epoch_ms now, je_error = Some (app_error_to_string err),
      je_metadata = Some
        \<lparr>em_queue = Some (jr_queue (jd_route (jb_dispatch job))),
         em_lane = Some (jr_lane (jd_route (jb_dispatch job))),
         em_source_domain = Some (jo_source_domain (jb_origin job)),
         em_source_entity_id = Some (jo_source_entity_id (jb_origin job)),
         em_handler = None, em_execution_contract = None\<rparr>\<rparr>"

definition enqueued_event :: "system_time \<Rightarrow> job_definition \<Rightarrow> job_receipt \<Rightarrow> job_event" where
  "enqueued_event now job r =
     \<lparr>je_job_id = jc_job_id r, je_status = JsEnqueued, je_source = JobPlatform,
      je_message = build_dispatch_message r, je_attempt = Some 1,
      je_occurred_at_ms = epoch_ms now, je_error = None,
      je_metadata = Some
        \<lparr>em_queue = Some (jc_queue r), em_lane = Some (jc_lane r),
         em_source_domain = Some (jo_source_domain (jb_origin job)),
         em_source_entity_id = Some (jo_source_entity_id (jb_origin job)),
         em_handler = jc_handler r, em_execution_contract = jc_execution_contract r\<rparr>\<rparr>"

definition submit_job ::
    "'w job_parts \<Rightarrow> system_time \<Rightarrow> job_definition \<Rightarrow> 'w \<Rightarrow> job_receipt app_result \<times> 'w" where
  "submit_job p now job w =
     (case jw_validate p job of
        Inl err \<Rightarrow> (Inl err, w)
      | Inr _ \<Rightarrow>
          (case jw_submit p job (jw_save p job w) of
             (Inl err, w) \<Rightarrow> (Inl err, jw_append p (rejected_event now job err) w)
           | (Inr r, w) \<Rightarrow> (Inr r, jw_append p (enqueued_event now job r) w)))"

section \<open>The observer (runtime/observer.rs)\<close>

definition runtime_job_event :: "system_time \<Rightarrow> task_event \<Rightarrow> job_event" where
  "runtime_job_event now ev =
     \<lparr>je_job_id = te_task_id ev, je_status = job_status_from (te_status ev),
      je_source = JobRuntime, je_message = te_message ev, je_attempt = Some (te_attempt ev),
      je_occurred_at_ms = epoch_ms now, je_error = None,
      je_metadata = Some
        \<lparr>em_queue = Some (te_queue ev), em_lane = Some (te_lane ev),
         em_source_domain = Some (te_source_domain ev), em_source_entity_id = None,
         em_handler = None, em_execution_contract = None\<rparr>\<rparr>"

definition job_on_event ::
    "system_time \<Rightarrow> task_event \<Rightarrow> job_event_store \<Rightarrow> unit app_result \<times> job_event_store" where
  "job_on_event now ev m = (Inr (), event_append (runtime_job_event now ev) m)"

end
