(* ===== verification/Job_Queries.thy ===== *)
theory Job_Queries
  imports Jobs
begin

text \<open>
  The queries of the job platform (crates/nexus-jobs/src/api/query.rs) and its HTTP handlers
  (router.rs). A query only reads: its state is what the runtime service, the two stores and the
  registry hold when it runs.
\<close>

record ('q, 'obs) job_query =
  jq_runtime :: "('q, 'obs) task_service"
  jq_definitions :: job_store
  jq_events :: job_event_store
  jq_registry :: job_registry

record job_query_filter =
  jl_namespace :: "string option"
  jl_source_domain :: "string option"
  jl_queue :: "string option"
  jl_lane :: "string option"
  jl_status :: "job_status option"
  jl_limit :: "nat option"
  jl_offset :: "nat option"

definition default_job_filter :: job_query_filter where
  "default_job_filter =
     \<lparr>jl_namespace = None, jl_source_domain = None, jl_queue = None, jl_lane = None,
      jl_status = None, jl_limit = None, jl_offset = None\<rparr>"

section \<open>Snapshots\<close>

definition latest_submission_failure :: "job_event list \<Rightarrow> submission_failure option" where
  "latest_submission_failure history =
     map_option (\<lambda>ev. \<lparr>sf_message = unwrap_or (je_error ev) (je_message ev),
                      sf_occurred_at_ms = je_occurred_at_ms ev\<rparr>)
       (find (\<lambda>ev. je_source ev = JobPlatform \<and> je_status ev = JsFailed \<and> je_error ev \<noteq> None)
         (rev history))"

definition build_job_snapshot ::
    "job_definition \<Rightarrow> task_snapshot \<Rightarrow> job_event list \<Rightarrow> job_registry \<Rightarrow> job_snapshot" where
  "build_job_snapshot d sn history g =
     \<lparr>js_job_id = job_id_0 (jb_job_id d), js_job_type = jb_job_type d, js_origin = jb_origin d,
      js_dispatch = jb_dispatch d, js_status = job_status_from (sn_status sn),
      js_message = sn_message sn, js_error = sn_error sn,
      js_handler = resolve_descriptor g (jt_namespace (jb_job_type d)) (jt_name (jb_job_type d))
        (jt_version (jb_job_type d)),
      js_latest_submission_failure = latest_submission_failure history, js_history = history\<rparr>"

definition build_job_snapshot_without_runtime ::
    "job_definition \<Rightarrow> job_event list \<Rightarrow> job_registry \<Rightarrow> job_snapshot option" where
  "build_job_snapshot_without_runtime d history g =
     (case history of
        [] \<Rightarrow> None
      | _ \<Rightarrow> (let latest = last history
             in Some
               \<lparr>js_job_id = job_id_0 (jb_job_id d), js_job_type = jb_job_type d,
                js_origin = jb_origin d, js_dispatch = jb_dispatch d,
                js_status = je_status latest, js_message = je_message latest,
                js_error = je_error latest,
                js_handler = resolve_descriptor g (jt_namespace (jb_job_type d))
                  (jt_name (jb_job_type d)) (jt_version (jb_job_type d)),
                js_latest_submission_failure = latest_submission_failure history,
                js_history = history\<rparr>))"

definition matches_job_filter :: "job_snapshot \<Rightarrow> job_query_filter \<Rightarrow> bool" where
  "matches_job_filter s f \<longleftrightarrow>
     map_or_true (jl_namespace f) (\<lambda>v. jt_namespace (js_job_type s) = v) \<and>
     map_or_true (jl_source_domain f) (\<lambda>v. jo_source_domain (js_origin s) = v) \<and>
     map_or_true (jl_queue f) (\<lambda>v. jr_queue (jd_route (js_dispatch s)) = v) \<and>
     map_or_true (jl_lane f) (\<lambda>v. jr_lane (jd_route (js_dispatch s)) = v) \<and>
     map_or_true (jl_status f) (\<lambda>v. js_status s = v)"

definition paginate_jobs :: "'a list \<Rightarrow> job_query_filter \<Rightarrow> 'a list" where
  "paginate_jobs items f = take (unwrap_or (jl_limit f) 50) (drop (unwrap_or (jl_offset f) 0) items)"

text \<open>One job's snapshot: absent when the runtime does not know the job and it has no events.\<close>

definition job_snapshot_of ::
    "('q, 'obs) job_query \<Rightarrow> job_definition \<Rightarrow> job_snapshot option app_result" where
  "job_snapshot_of q d =
     (let history = event_list (job_id_0 (jb_job_id d)) (jq_events q)
      in case get_task (job_id_0 (jb_job_id d)) (jq_runtime q) of
           Inr sn \<Rightarrow> Inr (Some (build_job_snapshot d sn history (jq_registry q)))
         | Inl (NotFound _) \<Rightarrow> Inr (build_job_snapshot_without_runtime d history (jq_registry q))
         | Inl err \<Rightarrow> Inl err)"

fun collect_jobs ::
    "('q, 'obs) job_query \<Rightarrow> job_query_filter \<Rightarrow> job_definition list \<Rightarrow> job_snapshot list app_result" where
  "collect_jobs q f [] = Inr []"
| "collect_jobs q f (d # ds) =
     and_then (job_snapshot_of q d) (\<lambda>snap.
     and_then (collect_jobs q f ds) (\<lambda>jobs.
       Inr (case snap of
              Some s \<Rightarrow> (if matches_job_filter s f then s # jobs else jobs)
            | None \<Rightarrow> jobs)))"

definition collect_matching_jobs ::
    "('q, 'obs) job_query \<Rightarrow> job_query_filter \<Rightarrow> job_snapshot list app_result" where
  "collect_matching_jobs q f = collect_jobs q f (store_list (jq_definitions q))"

section \<open>Queries\<close>

definition get_job :: "string \<Rightarrow> ('q, 'obs) job_query \<Rightarrow> job_snapshot app_result" where
  "get_job job_id q =
     and_then (ok_or (store_get job_id (jq_definitions q))
                (NotFound (''job not found: '' @ job_id))) (\<lambda>d.
       let history = event_list job_id (jq_events q)
       in case get_task job_id (jq_runtime q) of
            Inr sn \<Rightarrow> Inr (build_job_snapshot d sn history (jq_registry q))
          | Inl (NotFound _) \<Rightarrow>
              ok_or (build_job_snapshot_without_runtime d history (jq_registry q))
                (NotFound (''job not found: '' @ job_id))
          | Inl err \<Rightarrow> Inl err)"

definition list_jobs :: "job_query_filter \<Rightarrow> ('q, 'obs) job_query \<Rightarrow> job_snapshot list app_result" where
  "list_jobs f q =
     and_then (collect_matching_jobs q f) (\<lambda>jobs. Inr (paginate_jobs (sort_key js_job_id jobs) f))"

definition get_job_history :: "string \<Rightarrow> ('q, 'obs) job_query \<Rightarrow> job_event list app_result" where
  "get_job_history job_id q =
     and_then (ok_or (store_get job_id (jq_definitions q))
                (NotFound (''job not found: '' @ job_id)))
       (\<lambda>_. Inr (event_list job_id (jq_events q)))"

text \<open>One turn of the counting loop.\<close>

definition count_job :: "job_snapshot \<Rightarrow> job_management_summary \<Rightarrow> job_management_summary" where
  "count_job job s = (case js_status job of
     JsCreated \<Rightarrow> s\<lparr>jg_queued := jg_queued s + 1\<rparr>
   | JsEnqueued \<Rightarrow> s\<lparr>jg_queued := jg_queued s + 1\<rparr>
   | JsLeased \<Rightarrow> s\<lparr>jg_queued := jg_queued s + 1\<rparr>
   | JsRunning \<Rightarrow> s\<lparr>jg_running := jg_running s + 1\<rparr>
   | JsSucceeded \<Rightarrow> s\<lparr>jg_succeeded := jg_succeeded s + 1\<rparr>
   | JsRetrying \<Rightarrow> s\<lparr>jg_retrying := jg_retrying s + 1\<rparr>
   | JsDeadLettered \<Rightarrow> s\<lparr>jg_dead_lettered := jg_dead_lettered s + 1\<rparr>
   | _ \<Rightarrow>
       (let s = s\<lparr>jg_failed := jg_failed s + 1\<rparr>
        in if js_latest_submission_failure job \<noteq> None
           then s\<lparr>jg_submission_rejected := jg_submission_rejected s + 1\<rparr> else s))"

definition new_summary :: "nat \<Rightarrow> job_management_summary" where
  "new_summary n =
     \<lparr>jg_total_jobs = n, jg_queued = 0, jg_running = 0, jg_succeeded = 0, jg_retrying = 0,
      jg_dead_lettered = 0, jg_failed = 0, jg_submission_rejected = 0\<rparr>"

definition job_management_view_of ::
    "job_query_filter \<Rightarrow> ('q, 'obs) job_query \<Rightarrow> job_management_view app_result" where
  "job_management_view_of f q =
     and_then (collect_matching_jobs q f) (\<lambda>all_jobs.
       Inr \<lparr>jv_jobs = paginate_jobs all_jobs f,
            jv_summary = fold count_job all_jobs (new_summary (length all_jobs))\<rparr>)"

section \<open>Handlers (router.rs)\<close>

definition jobs_list_handlers :: "('q, 'obs) job_query \<Rightarrow> job_handler_descriptor list" where
  "jobs_list_handlers q = registry_list (jq_registry q)"

definition jobs_get_job :: "string \<Rightarrow> ('q, 'obs) job_query \<Rightarrow> job_snapshot app_result" where
  "jobs_get_job job_id q = get_job job_id q"

definition jobs_list_jobs :: "job_query_filter \<Rightarrow> ('q, 'obs) job_query \<Rightarrow> job_snapshot list app_result" where
  "jobs_list_jobs f q = list_jobs f q"

definition jobs_get_job_history :: "string \<Rightarrow> ('q, 'obs) job_query \<Rightarrow> job_event list app_result" where
  "jobs_get_job_history job_id q = get_job_history job_id q"

definition jobs_get_job_management ::
    "job_query_filter \<Rightarrow> ('q, 'obs) job_query \<Rightarrow> job_management_view app_result" where
  "jobs_get_job_management f q = job_management_view_of f q"

end
