(* ===== verification/Job_Props.thy ===== *)
theory Job_Props
  imports Job_Queries Service_Runs
begin

text \<open>
  The job platform's interfaces as locales, what they give for a submission, and the properties
  of the handler registry and of the queries.
\<close>

section \<open>The stores\<close>

locale definition_store =
  fixes save :: "job_definition \<Rightarrow> 'd \<Rightarrow> 'd" and get :: "string \<Rightarrow> 'd \<Rightarrow> job_definition option"
    and listing :: "'d \<Rightarrow> job_definition list" and ok :: "'d \<Rightarrow> bool"
  assumes get_save: "get k (save job d) = (if k = job_id_0 (jb_job_id job) then Some job else get k d)"
    and ok_save: "ok d \<Longrightarrow> ok (save job d)"
    and listing_get: "ok d \<Longrightarrow> job \<in> set (listing d) \<longleftrightarrow> get (job_id_0 (jb_job_id job)) d = Some job"
    and listing_ids: "ok d \<Longrightarrow> distinct (map (job_id_0 \<circ> jb_job_id) (listing d))"
begin

lemma save_again [simp]: "get (job_id_0 (jb_job_id job)) (save job d) = Some job"
  by (simp add: get_save)

lemma listed_once:
  assumes "ok d" and "get (job_id_0 (jb_job_id job)) d = Some job"
  shows "filter (\<lambda>j. (job_id_0 \<circ> jb_job_id) j = (job_id_0 \<circ> jb_job_id) job) (listing d) = [job]"
  by (rule filter_by_key [OF listing_ids [OF assms(1)]]) (simp add: listing_get assms)

end

locale event_store =
  fixes append :: "job_event \<Rightarrow> 'e \<Rightarrow> 'e" and listing :: "string \<Rightarrow> 'e \<Rightarrow> job_event list"
  assumes listing_append:
    "listing k (append ev e) = (if k = je_job_id ev then listing k e @ [ev] else listing k e)"
begin

lemma listing_appends:
  "listing k (fold append evs e) = listing k e @ filter (\<lambda>ev. je_job_id ev = k) evs"
  by (induction evs arbitrary: e) (simp_all add: listing_append)

end

definition store_ok :: "job_store \<Rightarrow> bool" where
  "store_ok m \<longleftrightarrow> distinct (hm_keys m) \<and> (\<forall>(k, job) \<in> set m. k = job_id_0 (jb_job_id job))"

interpretation ms: definition_store store_save store_get store_list store_ok
proof
  fix m :: job_store and job
  assume ok: "store_ok m"
  then show "store_ok (store_save job m)"
    by (auto simp: store_ok_def store_save_def dest!: hm_insert_entries)
  have keys: "map (job_id_0 \<circ> jb_job_id) (store_list m) = hm_keys m"
    using ok by (auto simp: store_ok_def store_list_def)
  with ok show "distinct (map (job_id_0 \<circ> jb_job_id) (store_list m))" by (simp add: store_ok_def)
  show "job \<in> set (store_list m) \<longleftrightarrow> store_get (job_id_0 (jb_job_id job)) m = Some job"
    using ok by (force simp: store_ok_def store_list_def store_get_def dest: map_of_SomeD)
qed (simp add: store_get_def store_save_def)

interpretation me: event_store event_append event_list
  by unfold_locales (simp add: event_append_def event_list_def)

section \<open>Submission\<close>

locale job_platform =
  definition_store "jw_save p" get listing ok + events: event_store "jw_append p" events
  for p :: "'w job_parts" and get :: "string \<Rightarrow> 'w \<Rightarrow> job_definition option"
    and listing :: "'w \<Rightarrow> job_definition list" and ok :: "'w \<Rightarrow> bool"
    and events :: "string \<Rightarrow> 'w \<Rightarrow> job_event list" +
  assumes events_save: "events k (jw_save p job w) = events k w"
    and get_append: "get k (jw_append p ev w) = get k w"
    and submit_frame: "jw_submit p job w = (r, w') \<Longrightarrow> get k w' = get k w \<and> events k w' = events k w"
    and submit_receipt: "jw_submit p job w = (Inr rc, w') \<Longrightarrow> jc_job_id rc = job_id_0 (jb_job_id job)"
begin

text \<open>A job that is not valid leaves no trace; a valid one is stored and gets one event.\<close>

lemma submit_invalid: "jw_validate p job = Inl err \<Longrightarrow> submit_job p now job w = (Inl err, w)"
  by (simp add: submit_job_def)

lemma submit_valid:
  assumes v: "jw_validate p job = Inr u" and s: "submit_job p now job w = (r, w')"
  shows "get k w' = (if k = job_id_0 (jb_job_id job) then Some job else get k w)"
    and "events k w' = (if k = job_id_0 (jb_job_id job)
      then events k w @ [case r of Inl err \<Rightarrow> rejected_event now job err | Inr rc \<Rightarrow> enqueued_event now job rc]
      else events k w)"
    and "\<exists>w2. jw_submit p job (jw_save p job w) = (r, w2) \<and>
      w' = jw_append p (case r of Inl err \<Rightarrow> rejected_event now job err | Inr rc \<Rightarrow> enqueued_event now job rc) w2"
proof -
  obtain r2 w2 where w2: "jw_submit p job (jw_save p job w) = (r2, w2)" by fastforce
  have r: "r2 = r" and w': "w' = jw_append p (case r of Inl err \<Rightarrow> rejected_event now job err
      | Inr rc \<Rightarrow> enqueued_event now job rc) w2"
    using s v w2 by (auto simp: submit_job_def split: sum.splits)
  have id: "je_job_id (case r of Inl err \<Rightarrow> rejected_event now job err | Inr rc \<Rightarrow> enqueued_event now job rc)
      = job_id_0 (jb_job_id job)"
    using w2 r submit_receipt by (cases r) (auto simp: rejected_event_def enqueued_event_def)
  show "get k w' = (if k = job_id_0 (jb_job_id job) then Some job else get k w)"
    using submit_frame [OF w2] by (simp add: w' get_append get_save)
  show "events k w' = (if k = job_id_0 (jb_job_id job)
      then events k w @ [case r of Inl err \<Rightarrow> rejected_event now job err | Inr rc \<Rightarrow> enqueued_event now job rc]
      else events k w)"
    using submit_frame [OF w2] by (simp add: w' events.listing_append id events_save)
  show "\<exists>w2. jw_submit p job (jw_save p job w) = (r, w2) \<and>
      w' = jw_append p (case r of Inl err \<Rightarrow> rejected_event now job err | Inr rc \<Rightarrow> enqueued_event now job rc) w2"
    using w2 r w' by blast
qed

end

section \<open>The registry resolves by type\<close>

lemma append_sep_inject:
  fixes c :: char
  assumes "c \<notin> set a" "c \<notin> set b"
  shows "a @ c # x = b @ c # y \<longleftrightarrow> a = b \<and> x = y"
proof
  assume "a @ c # x = b @ c # y"
  then have "Some (a, x) = Some (b, y)"
    unfolding split_once_append [OF assms(1), symmetric] split_once_append [OF assms(2), symmetric]
    by (rule arg_cong)
  then show "a = b \<and> x = y" by simp
qed simp

lemma byte_colon: "byte (CHR '':'') = 58"
  by code_simp

lemma show_word_no_colon: "CHR '':'' \<notin> set (show_word (w :: u16))"
proof
  assume "CHR '':'' \<in> set (show_word w)"
  then have "CHR '':'' \<in> set (show_nat (unat w))" by (simp add: show_word_def)
  then obtain d where d: "d < 10" "CHR '':'' = digit d" by (auto dest: set_show_nat)
  then have "byte (CHR '':'') = 48 + d" by simp
  with d(1) show False by (simp add: byte_colon)
qed

lemma handler_key_inject:
  assumes "CHR '':'' \<notin> set ns" "CHR '':'' \<notin> set ns'"
  shows "handler_key ns nm v = handler_key ns' nm' v' \<longleftrightarrow> ns = ns' \<and> nm = nm' \<and> v = v'"
proof -
  have tail: "rev (t @ '':v'' @ show_word w) = (rev (show_word w) @ ''v'') @ CHR '':'' # rev t" for t and w :: u16
    by simp
  have "nm @ '':v'' @ show_word v = nm' @ '':v'' @ show_word v' \<longleftrightarrow>
      rev (nm @ '':v'' @ show_word v) = rev (nm' @ '':v'' @ show_word v')" by (rule rev_is_rev_conv [symmetric])
  also have "\<dots> \<longleftrightarrow> rev (show_word v) @ ''v'' = rev (show_word v') @ ''v'' \<and> rev nm = rev nm'"
    unfolding tail by (rule append_sep_inject) (simp_all add: show_word_no_colon)
  finally have "nm @ '':v'' @ show_word v = nm' @ '':v'' @ show_word v' \<longleftrightarrow> nm = nm' \<and> v = v'" by auto
  then show ?thesis
    unfolding handler_key_def using append_sep_inject [OF assms] by simp
qed

text \<open>The registry resolves a job type to the handler and the description that were registered
  last for it, and to what it held before for every other type, as long as no namespace contains a
  colon; with a colon two types share a key, and the second registration takes over the first.\<close>

theorem handlers_resolve_by_type:
  "(if CHR '':'' \<in> set ns \<or> CHR '':'' \<in> set (jt_namespace (hd_job_type (jh_descriptor h))) then True
    else if hd_job_type (jh_descriptor h) = \<lparr>jt_namespace = ns, jt_name = nm, jt_version = v\<rparr>
    then resolve_handler (register_handler h g) ns nm v = Some h \<and>
         resolve_descriptor (register_handler h g) ns nm v = Some (jh_descriptor h)
    else resolve_handler (register_handler h g) ns nm v = resolve_handler g ns nm v \<and>
         resolve_descriptor (register_handler h g) ns nm v = resolve_descriptor g ns nm v) \<and>
   handler_key ''a'' ''b:c'' v = handler_key ''a:b'' ''c'' v"
proof -
  obtain ns' nm' v' where t: "hd_job_type (jh_descriptor h) = \<lparr>jt_namespace = ns', jt_name = nm', jt_version = v'\<rparr>"
    by (cases "hd_job_type (jh_descriptor h)") simp
  have "handler_key ''a'' ''b:c'' v = handler_key ''a:b'' ''c'' v" by (simp add: handler_key_def)
  moreover have "CHR '':'' \<notin> set ns \<and> CHR '':'' \<notin> set ns' \<Longrightarrow>
      handler_key ns nm v = handler_key ns' nm' v' \<longleftrightarrow> ns = ns' \<and> nm = nm' \<and> v = v'"
    using handler_key_inject by blast
  ultimately show ?thesis
    by (simp add: resolve_handler_def resolve_descriptor_def register_handler_def register_descriptor_def
        Let_def t)
qed

section \<open>Pages and totals\<close>

definition job_page :: "job_query_filter \<Rightarrow> nat \<Rightarrow> nat \<Rightarrow> job_query_filter" where
  "job_page f n k = f\<lparr>jl_limit := Some n, jl_offset := Some (k * n)\<rparr>"

lemma matches_job_page [simp]: "matches_job_filter s (job_page f n k) = matches_job_filter s f"
  by (simp add: matches_job_filter_def job_page_def)

lemma collect_job_page [simp]: "collect_jobs q (job_page f n k) ds = collect_jobs q f ds"
  by (induction ds) (simp_all cong: option.case_cong)

lemma list_jobs_page:
  "collect_matching_jobs q f = Inr jobs \<Longrightarrow>
     list_jobs (job_page f n k) q = Inr (take n (drop (k * n) (sort_key js_job_id jobs)))"
  by (simp add: list_jobs_def collect_matching_jobs_def paginate_jobs_def job_page_def [of f n k])
    (simp flip: job_page_def)

text \<open>How often a status is counted.\<close>

definition with_status :: "job_status list \<Rightarrow> job_snapshot list \<Rightarrow> nat" where
  "with_status ss jobs = length (filter (\<lambda>j. js_status j \<in> set ss) jobs)"

lemma with_status_Cons [simp]:
  "with_status ss (j # js) = (if js_status j \<in> set ss then Suc (with_status ss js) else with_status ss js)"
  "with_status ss [] = 0"
  by (simp_all add: with_status_def)

lemma fold_count_job:
  "fold count_job jobs s =
     \<lparr>jg_total_jobs = jg_total_jobs s,
      jg_queued = jg_queued s + with_status [JsCreated, JsEnqueued, JsLeased] jobs,
      jg_running = jg_running s + with_status [JsRunning] jobs,
      jg_succeeded = jg_succeeded s + with_status [JsSucceeded] jobs,
      jg_retrying = jg_retrying s + with_status [JsRetrying] jobs,
      jg_dead_lettered = jg_dead_lettered s + with_status [JsDeadLettered] jobs,
      jg_failed = jg_failed s + with_status [JsFailed, JsCancelled] jobs,
      jg_submission_rejected = jg_submission_rejected s +
        with_status [JsFailed, JsCancelled] (filter (\<lambda>j. js_latest_submission_failure j \<noteq> None) jobs)\<rparr>"
proof (induction jobs arbitrary: s)
  case (Cons j jobs)
  then show ?case by (cases s; cases "js_status j") (simp_all add: count_job_def Let_def)
qed simp

lemma job_snapshot_id: "job_snapshot_of q d = Inr (Some s) \<Longrightarrow> js_job_id s = job_id_0 (jb_job_id d)"
  by (auto simp: job_snapshot_of_def Let_def build_job_snapshot_def build_job_snapshot_without_runtime_def
      split: sum.splits app_error.splits list.splits)

lemma collect_jobs_Cons:
  assumes "collect_jobs q f (d # ds) = Inr js"
  obtains snap js' where "job_snapshot_of q d = Inr snap" and "collect_jobs q f ds = Inr js'"
    and "js = (case snap of Some s \<Rightarrow> (if matches_job_filter s f then s # js' else js') | None \<Rightarrow> js')"
  using assms by (auto simp: and_then_Inr_iff)

lemma collected_iff:
  "collect_jobs q f ds = Inr js \<Longrightarrow>
     s \<in> set js \<longleftrightarrow> matches_job_filter s f \<and> (\<exists>d \<in> set ds. job_snapshot_of q d = Inr (Some s))"
proof (induction ds arbitrary: js)
  case (Cons d ds)
  obtain snap js' where "job_snapshot_of q d = Inr snap" "collect_jobs q f ds = Inr js'"
    and "js = (case snap of Some s \<Rightarrow> (if matches_job_filter s f then s # js' else js') | None \<Rightarrow> js')"
    by (rule collect_jobs_Cons [OF Cons.prems])
  then show ?case using Cons.IH [of js'] by (auto split: option.splits)
qed simp

lemma collected_distinct:
  "collect_jobs q f ds = Inr js \<Longrightarrow> distinct (map (job_id_0 \<circ> jb_job_id) ds) \<Longrightarrow> distinct (map js_job_id js)"
proof (induction ds arbitrary: js)
  case (Cons d ds)
  obtain snap js' where js': "job_snapshot_of q d = Inr snap" "collect_jobs q f ds = Inr js'"
    and js: "js = (case snap of Some s \<Rightarrow> (if matches_job_filter s f then s # js' else js') | None \<Rightarrow> js')"
    by (rule collect_jobs_Cons [OF Cons.prems(1)])
  have "job_id_0 (jb_job_id d) \<notin> js_job_id ` set js'"
    using Cons.prems(2) by (auto simp: collected_iff [OF js'(2)] image_iff dest!: job_snapshot_id)
  then show ?case
    using Cons.IH [OF js'(2)] Cons.prems(2) js'(1) by (auto simp: js dest: job_snapshot_id split: option.splits)
qed simp

lemma get_job_iff:
  assumes "store_ok (jq_definitions q)"
  shows "get_job (js_job_id s) q = Inr s \<longleftrightarrow>
    (\<exists>d \<in> set (store_list (jq_definitions q)). job_snapshot_of q d = Inr (Some s))"
proof -
  have id: "job_id_0 (jb_job_id d) = k" if "store_get k (jq_definitions q) = Some d" for k d
    using that assms by (auto simp: store_ok_def store_get_def dest: map_of_SomeD)
  have snap: "get_job k q = Inr s \<longleftrightarrow> job_snapshot_of q d = Inr (Some s)"
    if "store_get k (jq_definitions q) = Some d" for k d
    using id [OF that] that
    by (auto simp: get_job_def job_snapshot_of_def Let_def ok_or_def split: sum.splits app_error.splits option.splits)
  show ?thesis
  proof
    assume g: "get_job (js_job_id s) q = Inr s"
    then obtain d where d: "store_get (js_job_id s) (jq_definitions q) = Some d"
      by (auto simp: get_job_def ok_or_def and_then_Inr_iff split: option.splits)
    with g show "\<exists>d \<in> set (store_list (jq_definitions q)). job_snapshot_of q d = Inr (Some s)"
      using snap [OF d] ms.listing_get [OF assms, of d] id [OF d] by auto
  next
    assume "\<exists>d \<in> set (store_list (jq_definitions q)). job_snapshot_of q d = Inr (Some s)"
    then show "get_job (js_job_id s) q = Inr s"
      using snap ms.listing_get [OF assms] by (metis job_snapshot_id)
  qed
qed

text \<open>A client that reads the pages of the job list one after the other, with any page size above
  zero, gets one list, sorted by id, whose jobs match the filter; over a store that only its save
  operation has filled it has each job once, and a job is in it exactly when a query for its id shows
  it and it matches. The management view of the same filter counts exactly this list: by status, in
  total, and the rejected ones among the failed.\<close>

theorem job_pages_match_the_totals:
  "(case job_management_view_of f q of
      Inl err \<Rightarrow> list_jobs f q = Inl err
    | Inr v \<Rightarrow>
       (\<exists>jobs. let s = jv_summary v; n = Suc extra in
          map (\<lambda>k. list_jobs (job_page f n k) q) [0..<Suc (jg_total_jobs s div n)] =
            map (\<lambda>k. Inr (take n (drop (k * n) jobs))) [0..<Suc (jg_total_jobs s div n)] \<and>
          concat (map (\<lambda>k. take n (drop (k * n) jobs)) [0..<Suc (jg_total_jobs s div n)]) = jobs \<and>
          sorted (map js_job_id jobs) \<and>
          (list_all (\<lambda>j. matches_job_filter j f) jobs) \<and>
          (if store_ok (jq_definitions q)
           then distinct (map js_job_id jobs) \<and>
             (\<forall>j. j \<in> set jobs \<longleftrightarrow> get_job (js_job_id j) q = Inr j \<and> matches_job_filter j f)
           else True) \<and>
          jg_total_jobs s = length jobs \<and>
          jg_queued s = with_status [JsCreated, JsEnqueued, JsLeased] jobs \<and>
          jg_running s = with_status [JsRunning] jobs \<and>
          jg_succeeded s = with_status [JsSucceeded] jobs \<and>
          jg_retrying s = with_status [JsRetrying] jobs \<and>
          jg_dead_lettered s = with_status [JsDeadLettered] jobs \<and>
          jg_failed s = with_status [JsFailed, JsCancelled] jobs \<and>
          jg_queued s + jg_running s + jg_succeeded s + jg_retrying s + jg_dead_lettered s +
            jg_failed s = jg_total_jobs s \<and>
          jg_submission_rejected s \<le> jg_failed s))"
proof (cases "collect_matching_jobs q f")
  case (Inl err)
  then show ?thesis by (simp add: job_management_view_of_def list_jobs_def)
next
  case (Inr all)
  define jobs where "jobs = sort_key js_job_id all"
  have count: "with_status ss all = with_status ss jobs" for ss
    unfolding with_status_def jobs_def by (metis mset_filter mset_sort size_mset)
  have sum: "with_status [JsCreated, JsEnqueued, JsLeased] js + with_status [JsRunning] js +
      with_status [JsSucceeded] js + with_status [JsRetrying] js + with_status [JsDeadLettered] js +
      with_status [JsFailed, JsCancelled] js = length js" for js
    by (induction js) (auto intro: job_status.exhaust)
  have rejected: "with_status ss (filter p js) \<le> with_status ss js" for ss p js
    by (induction js) auto
  have "length jobs \<le> Suc (length jobs div Suc extra) * Suc extra" by (rule enough_slices)
  then have pages: "concat (map (\<lambda>k. take (Suc extra) (drop (k * Suc extra) jobs))
      [0..<Suc (length jobs div Suc extra)]) = jobs"
    unfolding concat_slices by simp
  have match: "collect_jobs q f ds = Inr js \<Longrightarrow> list_all (\<lambda>j. matches_job_filter j f) js" for ds js
    by (induction ds arbitrary: js) (auto simp: and_then_Inr_iff split: option.splits if_splits)
  have len: "length all = length jobs" by (simp add: jobs_def)
  have matching: "list_all (\<lambda>j. matches_job_filter j f) jobs"
    using match [of "store_list (jq_definitions q)" all] Inr
    by (simp add: collect_matching_jobs_def jobs_def list_all_iff)
  have exact: "if store_ok (jq_definitions q)
      then distinct (map js_job_id jobs) \<and>
        (\<forall>j. j \<in> set jobs \<longleftrightarrow> get_job (js_job_id j) q = Inr j \<and> matches_job_filter j f)
      else True"
    using Inr collected_distinct [OF Inr [unfolded collect_matching_jobs_def] ms.listing_ids]
    unfolding collect_matching_jobs_def jobs_def
    by (auto simp: distinct_map collected_iff get_job_iff)
  have lists: "list_jobs (job_page f (Suc extra) k) q = Inr (take (Suc extra) (drop (k * Suc extra) jobs))" for k
    unfolding jobs_def by (rule list_jobs_page [OF Inr])
  have view: "job_management_view_of f q =
      Inr \<lparr>jv_jobs = paginate_jobs all f, jv_summary = fold count_job all (new_summary (length jobs))\<rparr>"
    by (simp add: job_management_view_of_def Inr len)
  have sorted: "sorted (map js_job_id jobs)" by (simp add: jobs_def)
  show ?thesis
    unfolding view fold_count_job Let_def sum.case lists
    by (rule exI [of _ jobs])
      (simp add: new_summary_def count rejected [of _ _ all, unfolded count] matching pages sorted exact
        sum [of jobs, simplified] del: upt_Suc mult_Suc_right)
qed

end
