(* ===== verification/Oj_Domain.thy ===== *)
theory Oj_Domain
  imports Protocol
begin

text \<open>
  The data of the online judge (crates/nexus-oj/src/domain.rs) and its catalog of languages
  (language.rs). A field carries a prefix for its struct.
\<close>

section \<open>Problems (domain.rs)\<close>

datatype judge_mode = ModeAcm | ModeFunctional | ModeEasyJudge

definition judge_mode_from_path :: "string \<Rightarrow> judge_mode option" where
  "judge_mode_from_path value =
     (if value = ''acm'' then Some ModeAcm
      else if value = ''functional'' then Some ModeFunctional
      else if value = ''easy_judge'' then Some ModeEasyJudge
      else None)"

datatype sandbox_kind = KindNsjail | KindWasm | KindNsjailWasm

definition default_oj_sandbox_kind :: sandbox_kind where
  "default_oj_sandbox_kind = KindNsjail"

record problem_limits =
  li_time_limit_ms :: u64
  li_memory_limit_kb :: u64

record testcase =
  tt_case_no :: u32
  tt_input :: string
  tt_expected_output :: string
  tt_is_sample :: bool
  tt_score :: u32

datatype judge_method = MethodValidator | MethodSpj

record validator_config =
  vf_ignore_whitespace :: bool
  vf_ignore_case :: bool
  vf_is_unordered :: bool
  vf_is_token_mode :: bool
  vf_is_float :: bool
  vf_float_epsilon :: f64

record spj_config =
  sj_language :: string
  sj_source_code :: string

record function_parameter =
  pm_name :: string
  pm_ty :: string

record function_signature =
  fu_function_name :: string
  fu_return_type :: string
  fu_params :: "function_parameter list"

record judge_config =
  cf_judge_method :: judge_method
  cf_validator :: "validator_config option"
  cf_spj :: "spj_config option"
  cf_function_signature :: "function_signature option"

datatype easy_question_type = TrueFalse | SingleChoice | MultipleChoice

record easy_option =
  eq_key :: string
  eq_label :: string

datatype easy_answer = EaText string | EaOptions "string list"

record easy_problem_config =
  ez_question_type :: easy_question_type
  ez_options :: "easy_option list"
  ez_standard_answer :: easy_answer

record problem =
  pb_problem_id :: problem_id
  pb_title :: string
  pb_slug :: string
  pb_judge_mode :: judge_mode
  pb_sandbox_kind :: sandbox_kind
  pb_statement_md :: string
  pb_supported_languages :: "string list"
  pb_limits :: "(string, problem_limits) btree_map"
  pb_testcases :: "testcase list"
  pb_judge_config :: "judge_config option"
  pb_easy_config :: "easy_problem_config option"

record problem_summary =
  pu_problem_id :: problem_id
  pu_title :: string
  pu_slug :: string
  pu_judge_mode :: judge_mode

record problem_detail =
  pd_problem :: problem

section \<open>Submissions (domain.rs)\<close>

record submission_draft =
  sd_problem_id :: problem_id
  sd_user_id :: user_id
  sd_language :: string
  sd_source_code :: string

record easy_submission_draft =
  ed_problem_id :: problem_id
  ed_user_id :: user_id
  ed_answer :: easy_answer

datatype submission_status =
    SsPending | SsQueued | SsRunning | SsAccepted | SsWrongAnswer | SsCompileError
  | SsTimeLimitExceeded | SsMemoryLimitExceeded | SsOutputLimitExceeded
  | SsSecurityViolation | SsRuntimeError

record submission_record =
  sb_submission_id :: submission_id
  sb_problem_id :: problem_id
  sb_user_id :: user_id
  sb_language :: string
  sb_status :: submission_status
  sb_score :: u32
  sb_max_score :: u32
  sb_message :: "string option"

datatype submission_case_status =
    ScAccepted | ScWrongAnswer | ScTimeLimitExceeded | ScMemoryLimitExceeded
  | ScOutputLimitExceeded | ScSecurityViolation | ScRuntimeError

record submission_case_result =
  ur_case_no :: u32
  ur_status :: submission_case_status
  ur_score :: u32
  ur_time_used_ms :: u64
  ur_memory_used_kb :: u64
  ur_actual_output :: string
  ur_expected_output_snapshot :: string
  ur_message :: "string option"

record submission_result =
  su_submission_id :: submission_id
  su_overall_status :: submission_status
  su_compile_output :: "string option"
  su_runtime_output :: "string option"
  su_compile_time_ms :: u64
  su_judge_compile_time_ms :: u64
  su_run_time_ms :: u64
  su_time_used_ms :: u64
  su_memory_used_kb :: u64
  su_judge_summary :: "string option"
  su_case_results :: "submission_case_result list"

record submission_detail =
  sm_submission :: submission_record
  sm_source_code :: string
  sm_result :: "submission_result option"

section \<open>Languages (language.rs)\<close>

datatype language_key = LanguageKey (language_key_0: string)

datatype sandbox_profile = ProfileNsjail
datatype seccomp_policy = PolicyCppDefault | PolicyPythonDefault

record language_descriptor =
  ld_key :: string
  ld_display_name :: string
  ld_source_extension :: string
  ld_runtime_family :: string
  ld_time_multiplier :: u32
  ld_memory_multiplier :: u32
  ld_sandbox_profile :: sandbox_profile
  ld_seccomp_policy :: seccomp_policy
  ld_supported_modes :: "judge_mode list"

record code_template_request =
  ct_language :: string
  ct_judge_mode :: judge_mode
  ct_template :: string

text \<open>The trait object \<^theory_text>\<open>LanguageSpec\<close>: a record of its methods.\<close>

record oj_language_spec =
  lg_key :: string
  lg_display_name :: string
  lg_source_extension :: string
  lg_runtime_family :: string
  lg_time_multiplier :: u32
  lg_memory_multiplier :: u32
  lg_sandbox_profile :: sandbox_profile
  lg_seccomp_policy :: seccomp_policy
  lg_supported_modes :: "judge_mode list"
  lg_submission_template :: "judge_mode \<Rightarrow> string"

definition spec_descriptor :: "oj_language_spec \<Rightarrow> language_descriptor" where
  "spec_descriptor s =
     \<lparr>ld_key = lg_key s, ld_display_name = lg_display_name s,
      ld_source_extension = lg_source_extension s, ld_runtime_family = lg_runtime_family s,
      ld_time_multiplier = lg_time_multiplier s, ld_memory_multiplier = lg_memory_multiplier s,
      ld_sandbox_profile = lg_sandbox_profile s, ld_seccomp_policy = lg_seccomp_policy s,
      ld_supported_modes = lg_supported_modes s\<rparr>"

type_synonym oj_language_catalog = "(string, oj_language_spec) hash_map"

definition oj_catalog_new :: "oj_language_spec list \<Rightarrow> oj_language_catalog" where
  "oj_catalog_new specs = fold (\<lambda>spec. hm_insert (lg_key spec) spec) specs []"

definition catalog_descriptors :: "oj_language_catalog \<Rightarrow> language_descriptor list" where
  "catalog_descriptors c = sort_key ld_key (map spec_descriptor (hm_values c))"

definition template_for :: "oj_language_catalog \<Rightarrow> string \<Rightarrow> judge_mode \<Rightarrow> string option" where
  "template_for c language m = map_option (\<lambda>spec. lg_submission_template spec m) (map_of c language)"

text \<open>Lines, each ended by a line feed.\<close>

definition text_lines :: "string list \<Rightarrow> string" where
  "text_lines ls = concat (map (\<lambda>l. l @ [CHR 0x0A]) ls)"

definition cpp_submission_template :: "judge_mode \<Rightarrow> string" where
  "cpp_submission_template m = (case m of
     ModeAcm \<Rightarrow> text_lines [
        ''#include <bits/stdc++.h>'',
        ''using namespace std;'',
        [],
        ''int main() {'',
        ''    ios::sync_with_stdio(false);'',
        ''    cin.tie(nullptr);'',
        [],
        ''    return 0;'',
        ''}'']
   | ModeFunctional \<Rightarrow> text_lines [
        ''#include <bits/stdc++.h>'',
        ''using namespace std;'',
        [],
        ''class Solution {'',
        ''public:'',
        ''    int solve() {'',
        ''        return 0;'',
        ''    }'',
        ''};'']
   | ModeEasyJudge \<Rightarrow> [])"

definition cpp_language :: oj_language_spec where
  "cpp_language =
     \<lparr>lg_key = ''cpp'', lg_display_name = ''C++'', lg_source_extension = ''cpp'',
      lg_runtime_family = ''native'', lg_time_multiplier = 1, lg_memory_multiplier = 1,
      lg_sandbox_profile = ProfileNsjail, lg_seccomp_policy = PolicyCppDefault,
      lg_supported_modes = [ModeAcm, ModeFunctional],
      lg_submission_template = cpp_submission_template\<rparr>"

definition python_submission_template :: "judge_mode \<Rightarrow> string" where
  "python_submission_template m = (case m of
     ModeAcm \<Rightarrow> text_lines [
        ''def main() -> None:'',
        ''    pass'',
        [],
        [],
        (''if __name__ == '' @ [CHR 0x22] @ ''__main__'' @ [CHR 0x22] @ '':''),
        ''    main()'']
   | ModeFunctional \<Rightarrow> text_lines [
        ''class Solution:'',
        ''    def solve(self) -> int:'',
        ''        return 0'']
   | ModeEasyJudge \<Rightarrow> [])"

definition python_language :: oj_language_spec where
  "python_language =
     \<lparr>lg_key = ''python'', lg_display_name = ''Python 3'', lg_source_extension = ''py'',
      lg_runtime_family = ''python'', lg_time_multiplier = 2, lg_memory_multiplier = 2,
      lg_sandbox_profile = ProfileNsjail, lg_seccomp_policy = PolicyPythonDefault,
      lg_supported_modes = [ModeAcm, ModeFunctional],
      lg_submission_template = python_submission_template\<rparr>"

definition rust_submission_template :: "judge_mode \<Rightarrow> string" where
  "rust_submission_template m = (case m of
     ModeAcm \<Rightarrow> text_lines [
        ''use std::io::{self, Read};'',
        [],
        ''fn main() {'',
        ''    let mut input = String::new();'',
        ''    io::stdin().read_to_string(&mut input).unwrap();'',
        ''}'']
   | ModeFunctional \<Rightarrow> text_lines [
        ''struct Solution;'',
        [],
        ''impl Solution {'',
        ''    fn solve(&self) -> i32 {'',
        ''        0'',
        ''    }'',
        ''}'']
   | ModeEasyJudge \<Rightarrow> [])"

definition rust_language :: oj_language_spec where
  "rust_language =
     \<lparr>lg_key = ''rust'', lg_display_name = ''Rust'', lg_source_extension = ''rs'',
      lg_runtime_family = ''native'', lg_time_multiplier = 1, lg_memory_multiplier = 1,
      lg_sandbox_profile = ProfileNsjail, lg_seccomp_policy = PolicyCppDefault,
      lg_supported_modes = [ModeAcm, ModeFunctional],
      lg_submission_template = rust_submission_template\<rparr>"

definition build_default_oj_catalog :: oj_language_catalog where
  "build_default_oj_catalog = oj_catalog_new [cpp_language, python_language, rust_language]"

end
