(* ===== verification/Oj_Projection.thy ===== *)
theory Oj_Projection
  imports Oj_Domain Runtime_Types Rust_Chars
begin

text \<open>
  What the online judge computes without a store (crates/nexus-oj/src/application.rs): the
  validation of a problem, the values it hands to the runtime, the projection of a runtime event
  to the state of a submission, and the judgement of an easy answer.
\<close>

section \<open>Validation\<close>

definition validate_validator_config ::
    "validator_config option \<Rightarrow> spj_config option \<Rightarrow> unit app_result" where
  "validate_validator_config config spj =
     (if spj \<noteq> None then Inl (BadRequest ''validator judge_method must not define spj config'')
      else case config of
        None \<Rightarrow> Inr ()
      | Some c \<Rightarrow>
          (if f64_lt (vf_float_epsilon c) (Fin 0)
           then Inl (BadRequest ''validator float_epsilon cannot be negative'') else Inr ()))"

definition validate_spj_config :: "spj_config option \<Rightarrow> unit app_result" where
  "validate_spj_config config = (case config of
     None \<Rightarrow> Inl (BadRequest ''spj judge_method requires spj config'')
   | Some c \<Rightarrow>
       (if blank (sj_language c) then Inl (BadRequest ''spj language cannot be empty'')
        else if blank (sj_source_code c) then Inl (BadRequest ''spj source_code cannot be empty'')
        else Inr ()))"

definition validate_judge_config :: "problem \<Rightarrow> unit app_result" where
  "validate_judge_config p = (case pb_judge_config p of
     None \<Rightarrow> Inr ()
   | Some config \<Rightarrow>
       (case cf_judge_method config of
          MethodValidator \<Rightarrow> validate_validator_config (cf_validator config) (cf_spj config)
        | MethodSpj \<Rightarrow> validate_spj_config (cf_spj config)))"

text \<open>The checks that hold for the wasm sandboxes only.\<close>

definition validate_wasm_problem :: "problem \<Rightarrow> unit app_result" where
  "validate_wasm_problem p =
     (if pb_judge_mode p = ModeEasyJudge
      then Inl (BadRequest ''easy_judge problems do not support wasm sandbox'')
      else case find (\<lambda>l. \<not> (l = ''cpp'' \<or> l = ''rust'')) (pb_supported_languages p) of
        Some l \<Rightarrow> Inl (BadRequest (''wasm sandbox currently supports only cpp/rust, found: '' @ l))
      | None \<Rightarrow>
          (if is_some_and (pb_judge_config p) (\<lambda>c. cf_judge_method c = MethodSpj)
           then Inl (BadRequest ''wasm sandbox currently supports validator-based judging only'')
           else Inr ()))"

definition validate_problem :: "problem \<Rightarrow> unit app_result" where
  "validate_problem p =
     (if blank (problem_id_0 (pb_problem_id p))
      then Inl (BadRequest ''problem_id cannot be empty'')
      else if blank (pb_title p) then Inl (BadRequest ''title cannot be empty'')
      else if blank (pb_slug p) then Inl (BadRequest ''slug cannot be empty'')
      else if pb_judge_mode p \<noteq> ModeEasyJudge \<and> pb_supported_languages p = []
      then Inl (BadRequest ''supported_languages cannot be empty'')
      else if pb_limits p = [] \<and> pb_judge_mode p \<noteq> ModeEasyJudge
      then Inl (BadRequest ''limits cannot be empty'')
      else if pb_judge_mode p = ModeEasyJudge \<and> pb_easy_config p = None
      then Inl (BadRequest ''easy_judge problem requires easy_config'')
      else and_then
        (if pb_sandbox_kind p = KindWasm \<or> pb_sandbox_kind p = KindNsjailWasm
         then validate_wasm_problem p else Inr ()) (\<lambda>_.
      if pb_judge_mode p \<noteq> ModeEasyJudge \<and> pb_testcases p = []
      then Inl (BadRequest ''non-easy problems require at least one testcase'')
      else validate_judge_config p))"

section \<open>Values for the runtime\<close>

definition map_runtime_judge_mode :: "judge_mode \<Rightarrow> runtime_judge_mode app_result" where
  "map_runtime_judge_mode m = (case m of
     ModeAcm \<Rightarrow> Inr RtAcm
   | ModeFunctional \<Rightarrow> Inr RtFunctional
   | ModeEasyJudge \<Rightarrow> Inl (BadRequest ''easy_judge does not map to runtime judge mode''))"

definition map_runtime_sandbox_kind :: "sandbox_kind \<Rightarrow> runtime_sandbox_kind" where
  "map_runtime_sandbox_kind k = (case k of
     KindNsjail \<Rightarrow> RtNsjail | KindWasm \<Rightarrow> RtWasm | KindNsjailWasm \<Rightarrow> RtNsjailWasm)"

definition derive_runtime_lane :: "problem \<Rightarrow> string \<Rightarrow> string" where
  "derive_runtime_lane p language =
     (if pb_judge_mode p = ModeFunctional then ''heavy''
      else if is_some_and (pb_judge_config p) (\<lambda>c. cf_judge_method c = MethodSpj) then ''special''
      else if language = ''python'' then ''normal''
      else ''fast'')"

definition map_runtime_judge_config :: "judge_config \<Rightarrow> runtime_judge_config" where
  "map_runtime_judge_config c =
     \<lparr>jc_judge_method = (case cf_judge_method c of
        MethodValidator \<Rightarrow> RtValidator | MethodSpj \<Rightarrow> RtSpj),
      jc_validator = map_option (\<lambda>v.
        \<lparr>vc_ignore_whitespace = vf_ignore_whitespace v, vc_ignore_case = vf_ignore_case v,
         vc_is_unordered = vf_is_unordered v, vc_is_token_mode = vf_is_token_mode v,
         vc_is_float = vf_is_float v, vc_float_epsilon = vf_float_epsilon v\<rparr>) (cf_validator c),
      jc_spj = map_option (\<lambda>s. \<lparr>spj_language = sj_language s, spj_source_code = sj_source_code s\<rparr>)
        (cf_spj c),
      jc_function_signature = map_option (\<lambda>f.
        \<lparr>fs_function_name = fu_function_name f, fs_return_type = fu_return_type f,
         fs_params = map (\<lambda>p. \<lparr>fp_name = pm_name p, fp_ty = pm_ty p\<rparr>) (fu_params f)\<rparr>)
        (cf_function_signature c)\<rparr>"

section \<open>The projection of an event\<close>

text \<open>Sums of \<^typ>\<open>u32\<close> and \<^typ>\<open>u64\<close> wrap in a release build.\<close>

definition total_score :: "execution_outcome option \<Rightarrow> u32" where
  "total_score out = (case out of None \<Rightarrow> 0 | Some o1 \<Rightarrow> sum_list (map co_score (eo_cases o1)))"

definition accepted_score :: "execution_outcome option \<Rightarrow> u32" where
  "accepted_score out = (case out of None \<Rightarrow> 0 | Some o1 \<Rightarrow>
     sum_list (map co_score (filter (\<lambda>c. co_status c = CsAccepted) (eo_cases o1))))"

definition map_compile_failure_status :: "failure_kind option \<Rightarrow> submission_status" where
  "map_compile_failure_status k = (case k of
     Some FkTimeLimitExceeded \<Rightarrow> SsTimeLimitExceeded
   | Some FkMemoryLimitExceeded \<Rightarrow> SsMemoryLimitExceeded
   | Some FkOutputLimitExceeded \<Rightarrow> SsOutputLimitExceeded
   | Some FkSecurityViolation \<Rightarrow> SsSecurityViolation
   | _ \<Rightarrow> SsCompileError)"

fun map_submission_case_failure_status :: "case_final_status \<Rightarrow> submission_status" where
  "map_submission_case_failure_status CsAccepted = SsAccepted"
| "map_submission_case_failure_status CsWrongAnswer = SsWrongAnswer"
| "map_submission_case_failure_status CsTimeLimitExceeded = SsTimeLimitExceeded"
| "map_submission_case_failure_status CsMemoryLimitExceeded = SsMemoryLimitExceeded"
| "map_submission_case_failure_status CsOutputLimitExceeded = SsOutputLimitExceeded"
| "map_submission_case_failure_status CsSecurityViolation = SsSecurityViolation"
| "map_submission_case_failure_status CsRuntimeError = SsRuntimeError"

text \<open>A text, or the fallback where it is empty.\<close>

definition or_message :: "string \<Rightarrow> string \<Rightarrow> string" where
  "or_message text fallback = (if text = [] then fallback else text)"

definition failed_compile :: "stage_outcome option \<Rightarrow> string \<Rightarrow> (submission_status \<times> string) option" where
  "failed_compile stage fallback = (case stage of
     None \<Rightarrow> None
   | Some st \<Rightarrow>
       (if so_status st = StFailed
        then Some (map_compile_failure_status (so_failure_kind st),
                   or_message (so_stderr_excerpt st) fallback)
        else None))"

definition classify_failure :: "execution_outcome option \<Rightarrow> string \<Rightarrow> submission_status \<times> string" where
  "classify_failure out fallback = (case out of
     None \<Rightarrow> (SsRuntimeError, fallback)
   | Some o1 \<Rightarrow>
       (case failed_compile (eo_judge_compile o1) fallback of
          Some r \<Rightarrow> r
        | None \<Rightarrow>
       (case failed_compile (eo_compile o1) fallback of
          Some r \<Rightarrow> r
        | None \<Rightarrow>
       (if list_ex (\<lambda>c. co_status c = CsWrongAnswer) (eo_cases o1)
        then (SsWrongAnswer, ''wrong answer'')
        else case find (\<lambda>c. co_status c \<noteq> CsAccepted) (eo_cases o1) of
          Some c \<Rightarrow> (map_submission_case_failure_status (co_status c),
                    or_message (co_stderr_excerpt c) fallback)
        | None \<Rightarrow> (SsRuntimeError, fallback)))))"

definition derive_submission_projection ::
    "task_event \<Rightarrow> submission_status \<times> u32 \<times> u32 \<times> string option" where
  "derive_submission_projection ev = (case te_status ev of
     LcRunning \<Rightarrow> (SsRunning, 0, 0, Some (te_message ev))
   | LcCompleted \<Rightarrow>
       (SsAccepted, accepted_score (te_outcome ev), total_score (te_outcome ev), Some ''accepted'')
   | LcFailed \<Rightarrow>
       (case classify_failure (te_outcome ev) (te_message ev) of (status, message) \<Rightarrow>
          (status, accepted_score (te_outcome ev), total_score (te_outcome ev), Some message))
   | LcDeadLettered \<Rightarrow>
       (SsRuntimeError, accepted_score (te_outcome ev), total_score (te_outcome ev),
        Some (te_message ev))
   | _ \<Rightarrow> (SsQueued, 0, 0, Some (te_message ev)))"

fun map_case_status :: "case_final_status \<Rightarrow> submission_case_status" where
  "map_case_status CsAccepted = ScAccepted"
| "map_case_status CsWrongAnswer = ScWrongAnswer"
| "map_case_status CsTimeLimitExceeded = ScTimeLimitExceeded"
| "map_case_status CsMemoryLimitExceeded = ScMemoryLimitExceeded"
| "map_case_status CsOutputLimitExceeded = ScOutputLimitExceeded"
| "map_case_status CsSecurityViolation = ScSecurityViolation"
| "map_case_status CsRuntimeError = ScRuntimeError"

definition total_case_time :: "execution_outcome \<Rightarrow> u64" where
  "total_case_time out = sum_list (map (\<lambda>c. ucast (co_duration_ms c)) (eo_cases out))"

definition total_compile_time :: "execution_outcome \<Rightarrow> u64" where
  "total_compile_time out =
     (case eo_compile out of None \<Rightarrow> 0 | Some st \<Rightarrow> ucast (so_duration_ms st))"

definition total_judge_compile_time :: "execution_outcome \<Rightarrow> u64" where
  "total_judge_compile_time out =
     (case eo_judge_compile out of None \<Rightarrow> 0 | Some st \<Rightarrow> ucast (so_duration_ms st))"

definition total_case_memory :: "execution_outcome \<Rightarrow> u64" where
  "total_case_memory out = foldr max (map co_memory_used_kb (eo_cases out)) 0"

definition non_empty :: "string \<Rightarrow> string option" where
  "non_empty s = (if s = [] then None else Some s)"

definition case_result_of :: "case_outcome \<Rightarrow> submission_case_result" where
  "case_result_of c =
     \<lparr>ur_case_no = co_case_no c, ur_status = map_case_status (co_status c), ur_score = co_score c,
      ur_time_used_ms = ucast (co_duration_ms c), ur_memory_used_kb = co_memory_used_kb c,
      ur_actual_output = co_stdout_excerpt c, ur_expected_output_snapshot = [],
      ur_message = non_empty (co_stderr_excerpt c)\<rparr>"

fun first_output :: "case_outcome list \<Rightarrow> string option" where
  "first_output [] = None"
| "first_output (c # cs) =
     (if co_stderr_excerpt c \<noteq> [] then Some (co_stderr_excerpt c)
      else if co_stdout_excerpt c \<noteq> [] then Some (co_stdout_excerpt c)
      else first_output cs)"

definition build_runtime_submission_result :: "submission_record \<Rightarrow> task_event \<Rightarrow> submission_result" where
  "build_runtime_submission_result sub ev =
     (let out = te_outcome ev; zero_or = (\<lambda>f. case out of None \<Rightarrow> 0 | Some o1 \<Rightarrow> f o1)
      in \<lparr>su_submission_id = sb_submission_id sub, su_overall_status = sb_status sub,
          su_compile_output = (case out of None \<Rightarrow> None | Some o1 \<Rightarrow>
            (case (case eo_judge_compile o1 of Some st \<Rightarrow> Some st | None \<Rightarrow> eo_compile o1) of
               None \<Rightarrow> None | Some st \<Rightarrow> non_empty (so_stderr_excerpt st))),
          su_runtime_output = (case out of None \<Rightarrow> None | Some o1 \<Rightarrow> first_output (eo_cases o1)),
          su_compile_time_ms = zero_or total_compile_time,
          su_judge_compile_time_ms = zero_or total_judge_compile_time,
          su_run_time_ms = zero_or total_case_time, su_time_used_ms = zero_or total_case_time,
          su_memory_used_kb = zero_or total_case_memory,
          su_judge_summary = (case sb_message sub of Some m \<Rightarrow> Some m | None \<Rightarrow> Some (te_message ev)),
          su_case_results = (case out of None \<Rightarrow> [] | Some o1 \<Rightarrow> map case_result_of (eo_cases o1))\<rparr>)"

section \<open>Easy answers\<close>

text \<open>
  \<^theory_text>\<open>str::to_uppercase\<close> is the parameter \<open>upper\<close>.
\<close>

record easy_judge_evaluation =
  ev_status :: submission_status
  ev_score :: u32
  ev_max_score :: u32
  ev_message :: "string option"

definition normalize_easy_answer :: "(string \<Rightarrow> string) \<Rightarrow> easy_answer \<Rightarrow> string" where
  "normalize_easy_answer upper answer = (case answer of
     EaText text \<Rightarrow> upper (trim text)
   | EaOptions values \<Rightarrow> upper (trim (concat values)))"

definition normalize_multi_answer :: "(string \<Rightarrow> string) \<Rightarrow> easy_answer \<Rightarrow> string list app_result" where
  "normalize_multi_answer upper answer =
     (let values = (case answer of
            EaText text \<Rightarrow> filter (\<lambda>ch. ws_len ch = 0) (chars text)
          | EaOptions items \<Rightarrow> items);
          values = sort_dedup (filter (\<lambda>item. item \<noteq> []) (map (\<lambda>item. upper (trim item)) values))
      in if values = [] then Inl (BadRequest ''multiple_choice answer cannot be empty'')
         else Inr values)"

definition judge_easy_answer ::
    "(string \<Rightarrow> string) \<Rightarrow> easy_problem_config \<Rightarrow> easy_answer \<Rightarrow> easy_judge_evaluation app_result" where
  "judge_easy_answer upper config answer =
     and_then
       (case ez_question_type config of
          MultipleChoice \<Rightarrow>
            and_then (normalize_multi_answer upper answer) (\<lambda>a.
            and_then (normalize_multi_answer upper (ez_standard_answer config)) (\<lambda>b. Inr (a = b)))
        | _ \<Rightarrow> Inr (normalize_easy_answer upper answer =
                   normalize_easy_answer upper (ez_standard_answer config)))
       (\<lambda>accepted. Inr
         (if accepted
          then \<lparr>ev_status = SsAccepted, ev_score = 100, ev_max_score = 100,
                ev_message = Some ''accepted''\<rparr>
          else \<lparr>ev_status = SsWrongAnswer, ev_score = 0, ev_max_score = 100,
                ev_message = Some ''wrong_answer''\<rparr>))"

end
