(* ===== verification/Oj_Service.thy ===== *)
theory Oj_Service
  imports Oj_Projection Jobs
begin

text \<open>
  The online judge over its repositories (crates/nexus-oj/src/repository.rs, application.rs,
  lib.rs): the in-memory repositories, the service and the HTTP handlers. A repository is a trait
  object, a record of operations on a state of its own. A clock reading is a parameter of the
  operation that makes it; the JSON of an answer is the printer's, a parameter.
\<close>

section \<open>Repositories\<close>

record 'p problem_repository_ops =
  po_list_summaries :: "'p \<Rightarrow> problem_summary list app_result"
  po_find_detail :: "string \<Rightarrow> 'p \<Rightarrow> problem_detail option app_result"
  po_save :: "problem \<Rightarrow> 'p \<Rightarrow> unit app_result \<times> 'p"

record 's submission_repository_ops =
  ro_validate_submission :: "submission_draft \<Rightarrow> 's \<Rightarrow> unit app_result"
  ro_list_submissions :: "'s \<Rightarrow> submission_record list app_result"
  ro_find_submission :: "string \<Rightarrow> 's \<Rightarrow> submission_detail option app_result"
  ro_create_submission :: "system_time \<Rightarrow> submission_draft \<Rightarrow> 's \<Rightarrow> submission_record app_result \<times> 's"
  ro_apply_runtime_event :: "task_event \<Rightarrow> 's \<Rightarrow> unit app_result \<times> 's"
  ro_create_direct_submission ::
    "system_time \<Rightarrow> easy_submission_draft \<Rightarrow> submission_status \<Rightarrow> u32 \<Rightarrow> u32 \<Rightarrow> string option \<Rightarrow> string \<Rightarrow>
       's \<Rightarrow> submission_record app_result \<times> 's"

text \<open>The in-memory problems: a vector in which the first entry with an id counts.\<close>

type_synonym mem_problems = "problem list"

definition seeded_problems :: mem_problems where
  "seeded_problems =
     [\<lparr>pb_problem_id = ProblemId ''two-sum'',
       pb_title = [CHR 0xE4, CHR 0xB8, CHR 0xA4, CHR 0xE6, CHR 0x95, CHR 0xB0, CHR 0xE4, CHR 0xB9,
         CHR 0x8B, CHR 0xE5, CHR 0x92, CHR 0x8C],
       pb_slug = ''two-sum'', pb_judge_mode = ModeAcm, pb_sandbox_kind = KindNsjail,
       pb_statement_md = [CHR 0xE7, CHR 0xBB, CHR 0x99, CHR 0xE5, CHR 0xAE, CHR 0x9A, CHR 0xE4,
         CHR 0xB8, CHR 0x80, CHR 0xE4, CHR 0xB8, CHR 0xAA, CHR 0xE6, CHR 0x95, CHR 0xB4, CHR 0xE6,
         CHR 0x95, CHR 0xB0, CHR 0xE6, CHR 0x95, CHR 0xB0, CHR 0xE7, CHR 0xBB, CHR 0x84, CHR 0xEF,
         CHR 0xBC, CHR 0x8C, CHR 0xE8, CHR 0xBE, CHR 0x93, CHR 0xE5, CHR 0x87, CHR 0xBA, CHR 0xE4,
         CHR 0xB8, CHR 0xA4, CHR 0xE6, CHR 0x95, CHR 0xB0, CHR 0xE4, CHR 0xB9, CHR 0x8B, CHR 0xE5,
         CHR 0x92, CHR 0x8C, CHR 0xE3, CHR 0x80, CHR 0x82],
       pb_supported_languages = [''cpp'', ''python'', ''rust''],
       pb_limits =
         bt_insert ''rust'' \<lparr>li_time_limit_ms = 1000, li_memory_limit_kb = 50 * 1024\<rparr>
           (bt_insert ''python'' \<lparr>li_time_limit_ms = 2000, li_memory_limit_kb = 100 * 1024\<rparr>
             (bt_insert ''cpp'' \<lparr>li_time_limit_ms = 1000, li_memory_limit_kb = 50 * 1024\<rparr> [])),
       pb_testcases = [\<lparr>tt_case_no = 1, tt_input = ''1 2'' @ [CHR 0x0A],
         tt_expected_output = ''3'' @ [CHR 0x0A], tt_is_sample = True, tt_score = 100\<rparr>],
       pb_judge_config = None, pb_easy_config = None\<rparr>]"

definition problems_list_summaries :: "mem_problems \<Rightarrow> problem_summary list app_result" where
  "problems_list_summaries ps =
     Inr (map (\<lambda>p. \<lparr>pu_problem_id = pb_problem_id p, pu_title = pb_title p, pu_slug = pb_slug p,
                    pu_judge_mode = pb_judge_mode p\<rparr>) ps)"

definition problems_find_detail :: "string \<Rightarrow> mem_problems \<Rightarrow> problem_detail option app_result" where
  "problems_find_detail problem_id ps =
     Inr (map_option (\<lambda>p. \<lparr>pd_problem = p\<rparr>)
           (find (\<lambda>p. problem_id_0 (pb_problem_id p) = problem_id) ps))"

text \<open>\<^theory_text>\<open>*existing = problem\<close> at the first entry with the id, else a push.\<close>

fun save_problem_in :: "problem \<Rightarrow> mem_problems \<Rightarrow> mem_problems" where
  "save_problem_in p [] = [p]"
| "save_problem_in p (x # ps) =
     (if pb_problem_id x = pb_problem_id p then p # ps else x # save_problem_in p ps)"

definition problems_save :: "problem \<Rightarrow> mem_problems \<Rightarrow> unit app_result \<times> mem_problems" where
  "problems_save p ps = (Inr (), save_problem_in p ps)"

definition memory_problem_ops :: "mem_problems problem_repository_ops" where
  "memory_problem_ops =
     \<lparr>po_list_summaries = problems_list_summaries, po_find_detail = problems_find_detail,
      po_save = problems_save\<rparr>"

text \<open>The in-memory submissions.\<close>

type_synonym mem_submissions = "submission_detail list"

definition submissions_validate :: "submission_draft \<Rightarrow> mem_submissions \<Rightarrow> unit app_result" where
  "submissions_validate draft ss =
     (if blank (sd_source_code draft)
      then Inl (BadRequest ''submission source code cannot be empty'') else Inr ())"

text \<open>The id: \<^theory_text>\<open>sub-\<close> and the milliseconds since the epoch; a clock before it is an error.\<close>

definition new_submission_id :: "system_time \<Rightarrow> submission_id app_result" where
  "new_submission_id now =
     (if 0 \<le> now then Inr (SubmissionId (''sub-'' @ show_nat (nat (now div 10 ^ 6))))
      else Inl Internal)"

definition submissions_create ::
    "system_time \<Rightarrow> submission_draft \<Rightarrow> mem_submissions \<Rightarrow> submission_record app_result \<times> mem_submissions" where
  "submissions_create now draft ss =
     st_then (new_submission_id now, ss) (\<lambda>sid ss.
       let sub = \<lparr>sb_submission_id = sid, sb_problem_id = sd_problem_id draft,
             sb_user_id = sd_user_id draft, sb_language = sd_language draft, sb_status = SsPending,
             sb_score = 0, sb_max_score = 0, sb_message = None\<rparr>
       in (Inr sub, ss @ [\<lparr>sm_submission = sub, sm_source_code = sd_source_code draft,
                            sm_result = None\<rparr>]))"

definition apply_event :: "task_event \<Rightarrow> submission_detail \<Rightarrow> submission_detail" where
  "apply_event ev d =
     (case derive_submission_projection ev of (status, score, max_score, message) \<Rightarrow>
       let sub = (sm_submission d)
             \<lparr>sb_status := status, sb_score := score, sb_max_score := max_score, sb_message := message\<rparr>
       in d\<lparr>sm_submission := sub, sm_result := Some (build_runtime_submission_result sub ev)\<rparr>)"

fun update_first :: "('a \<Rightarrow> bool) \<Rightarrow> ('a \<Rightarrow> 'a) \<Rightarrow> 'a list \<Rightarrow> 'a list" where
  "update_first p f [] = []"
| "update_first p f (x # xs) = (if p x then f x # xs else x # update_first p f xs)"

definition submissions_apply_event :: "task_event \<Rightarrow> mem_submissions \<Rightarrow> unit app_result \<times> mem_submissions" where
  "submissions_apply_event ev ss = (case te_submission_id ev of
     None \<Rightarrow> (Inr (), ss)
   | Some sid \<Rightarrow> (Inr (), update_first
       (\<lambda>d. submission_id_0 (sb_submission_id (sm_submission d)) = sid) (apply_event ev) ss))"

definition submissions_list :: "mem_submissions \<Rightarrow> submission_record list app_result" where
  "submissions_list ss = Inr (map sm_submission ss)"

definition submissions_find :: "string \<Rightarrow> mem_submissions \<Rightarrow> submission_detail option app_result" where
  "submissions_find submission_id ss =
     Inr (find (\<lambda>d. submission_id_0 (sb_submission_id (sm_submission d)) = submission_id) ss)"

definition submissions_create_direct ::
    "system_time \<Rightarrow> easy_submission_draft \<Rightarrow> submission_status \<Rightarrow> u32 \<Rightarrow> u32 \<Rightarrow> string option \<Rightarrow> string \<Rightarrow>
       mem_submissions \<Rightarrow> submission_record app_result \<times> mem_submissions" where
  "submissions_create_direct now draft status score max_score message stored_answer ss =
     st_then (new_submission_id now, ss) (\<lambda>sid ss.
       let sub = \<lparr>sb_submission_id = sid, sb_problem_id = ed_problem_id draft,
             sb_user_id = ed_user_id draft, sb_language = ''easy_judge'', sb_status = status,
             sb_score = score, sb_max_score = max_score, sb_message = message\<rparr>
       in (Inr sub, ss @ [\<lparr>sm_submission = sub, sm_source_code = stored_answer,
             sm_result = Some
               \<lparr>su_submission_id = sid, su_overall_status = status, su_compile_output = None,
                su_runtime_output = message, su_compile_time_ms = 0, su_judge_compile_time_ms = 0,
                su_run_time_ms = 0, su_time_used_ms = 0, su_memory_used_kb = 0,
                su_judge_summary = message, su_case_results = []\<rparr>\<rparr>]))"

definition memory_submission_ops :: "mem_submissions submission_repository_ops" where
  "memory_submission_ops =
     \<lparr>ro_validate_submission = submissions_validate, ro_list_submissions = submissions_list,
      ro_find_submission = submissions_find, ro_create_submission = submissions_create,
      ro_apply_runtime_event = submissions_apply_event,
      ro_create_direct_submission = submissions_create_direct\<rparr>"

section \<open>The service\<close>

record ('p, 's) oj_parts =
  oi_problems :: "'p problem_repository_ops"
  oi_submissions :: "'s submission_repository_ops"
  oi_upper :: "string \<Rightarrow> string"
  oi_answer_json :: "easy_answer \<Rightarrow> string + string"

record ('p, 's) oj_state =
  os_problems :: 'p
  os_submissions :: 's

definition list_problem_summaries ::
    "('p, 's) oj_parts \<Rightarrow> ('p, 's) oj_state \<Rightarrow> problem_summary list app_result" where
  "list_problem_summaries o1 s = po_list_summaries (oi_problems o1) (os_problems s)"

definition get_problem_detail ::
    "('p, 's) oj_parts \<Rightarrow> string \<Rightarrow> ('p, 's) oj_state \<Rightarrow> problem_detail app_result" where
  "get_problem_detail o1 problem_id s =
     and_then (po_find_detail (oi_problems o1) problem_id (os_problems s)) (\<lambda>d.
       ok_or d (NotFound (''problem not found: '' @ problem_id)))"

definition save_problem ::
    "('p, 's) oj_parts \<Rightarrow> problem \<Rightarrow> ('p, 's) oj_state \<Rightarrow> unit app_result \<times> ('p, 's) oj_state" where
  "save_problem o1 p s =
     st_then (validate_problem p, s) (\<lambda>_ s.
       case po_save (oi_problems o1) p (os_problems s) of (r, ps) \<Rightarrow> (r, s\<lparr>os_problems := ps\<rparr>))"

definition oj_validate_submission ::
    "('p, 's) oj_parts \<Rightarrow> submission_draft \<Rightarrow> ('p, 's) oj_state \<Rightarrow> unit app_result" where
  "oj_validate_submission o1 draft s =
     ro_validate_submission (oi_submissions o1) draft (os_submissions s)"

text \<open>What \<^theory_text>\<open>create_submission\<close> checks before it stores the draft.\<close>

definition check_draft ::
    "('p, 's) oj_parts \<Rightarrow> submission_draft \<Rightarrow> ('p, 's) oj_state \<Rightarrow> unit app_result" where
  "check_draft o1 draft s =
     and_then (get_problem_detail o1 (problem_id_0 (sd_problem_id draft)) s) (\<lambda>d.
     let p = pd_problem d
     in and_then (validate_problem p) (\<lambda>_.
     if pb_judge_mode p = ModeEasyJudge
     then Inl (BadRequest ''easy_judge problems must use /api/v1/oj/easy-judge/submissions'')
     else if \<not> list_ex (\<lambda>l. l = sd_language draft) (pb_supported_languages p)
     then Inl (BadRequest (''language '' @ sd_language draft @ '' is not supported for problem '' @
            problem_id_0 (pb_problem_id p)))
     else if map_of (pb_limits p) (sd_language draft) = None
     then Inl (BadRequest (''language '' @ sd_language draft @ '' is not configured for problem '' @
            problem_id_0 (pb_problem_id p)))
     else ro_validate_submission (oi_submissions o1) draft (os_submissions s)))"

definition create_submission ::
    "('p, 's) oj_parts \<Rightarrow> system_time \<Rightarrow> submission_draft \<Rightarrow> ('p, 's) oj_state \<Rightarrow>
       submission_record app_result \<times> ('p, 's) oj_state" where
  "create_submission o1 now draft s =
     st_then (check_draft o1 draft s, s) (\<lambda>_ s.
       case ro_create_submission (oi_submissions o1) now draft (os_submissions s) of
         (r, ss) \<Rightarrow> (r, s\<lparr>os_submissions := ss\<rparr>))"

definition list_submissions ::
    "('p, 's) oj_parts \<Rightarrow> ('p, 's) oj_state \<Rightarrow> submission_record list app_result" where
  "list_submissions o1 s = ro_list_submissions (oi_submissions o1) (os_submissions s)"

definition get_submission_detail ::
    "('p, 's) oj_parts \<Rightarrow> string \<Rightarrow> ('p, 's) oj_state \<Rightarrow> submission_detail app_result" where
  "get_submission_detail o1 submission_id s =
     and_then (ro_find_submission (oi_submissions o1) submission_id (os_submissions s)) (\<lambda>d.
       ok_or d (NotFound (''submission not found: '' @ submission_id)))"

definition job_of_submission ::
    "problem \<Rightarrow> submission_detail \<Rightarrow> problem_limits \<Rightarrow> runtime_judge_mode \<Rightarrow> job_definition" where
  "job_of_submission p d limits m =
     (let sub = sm_submission d
      in build_oj_judge_job
        \<lparr>ij_job_id = ''task-'' @ submission_id_0 (sb_submission_id sub),
         ij_source_entity_id = submission_id_0 (sb_submission_id sub),
         ij_submission_id = sb_submission_id sub, ij_problem_id = pb_problem_id p,
         ij_user_id = sb_user_id sub, ij_language = sb_language sub, ij_judge_mode = m,
         ij_sandbox_kind = map_runtime_sandbox_kind (pb_sandbox_kind p),
         ij_source_code = sm_source_code d,
         ij_limits = \<lparr>lim_time_limit_ms = li_time_limit_ms limits,
           lim_memory_limit_kb = li_memory_limit_kb limits\<rparr>,
         ij_testcases = map (\<lambda>t. \<lparr>tc_case_no = tt_case_no t, tc_input = tt_input t,
           tc_expected_output = tt_expected_output t, tc_score = tt_score t\<rparr>) (pb_testcases p),
         ij_judge_config = map_option map_runtime_judge_config (pb_judge_config p),
         ij_route = \<lparr>jr_queue = ''oj_judge'', jr_lane = derive_runtime_lane p (sb_language sub)\<rparr>,
         ij_retry_policy = \<lparr>jp_max_attempts = 3, jp_retry_delay_ms = 1000\<rparr>\<rparr>)"

definition build_job_definition ::
    "('p, 's) oj_parts \<Rightarrow> string \<Rightarrow> ('p, 's) oj_state \<Rightarrow> job_definition app_result" where
  "build_job_definition o1 submission_id s =
     and_then (get_submission_detail o1 submission_id s) (\<lambda>d.
     and_then (get_problem_detail o1 (problem_id_0 (sb_problem_id (sm_submission d))) s) (\<lambda>pd.
     let p = pd_problem pd; language = sb_language (sm_submission d)
     in and_then (validate_problem p) (\<lambda>_.
     if pb_judge_mode p = ModeEasyJudge
     then Inl (BadRequest ''easy_judge submissions do not produce runtime tasks'')
     else and_then (ok_or (map_of (pb_limits p) language)
       (BadRequest (''language '' @ language @ '' is not configured for problem '' @
          problem_id_0 (pb_problem_id p)))) (\<lambda>limits.
     and_then (map_runtime_judge_mode (pb_judge_mode p)) (\<lambda>m.
     Inr (job_of_submission p d limits m))))))"

definition build_runtime_task ::
    "('p, 's) oj_parts \<Rightarrow> string \<Rightarrow> ('p, 's) oj_state \<Rightarrow> runtime_task app_result" where
  "build_runtime_task o1 submission_id s =
     and_then (build_job_definition o1 submission_id s) map_job_to_runtime_task"

definition judge_easy_submission ::
    "('p, 's) oj_parts \<Rightarrow> system_time \<Rightarrow> easy_submission_draft \<Rightarrow> ('p, 's) oj_state \<Rightarrow>
       submission_record app_result \<times> ('p, 's) oj_state" where
  "judge_easy_submission o1 now draft s =
     st_then (get_problem_detail o1 (problem_id_0 (ed_problem_id draft)) s, s) (\<lambda>d s.
     let p = pd_problem d
     in if pb_judge_mode p \<noteq> ModeEasyJudge
        then (Inl (BadRequest ''problem is not an easy_judge problem''), s)
        else
     st_then (ok_or (pb_easy_config p) (BadRequest ''easy_config is missing''), s) (\<lambda>config s.
     st_then (judge_easy_answer (oi_upper o1) config (ed_answer draft), s) (\<lambda>result s.
     st_then (case oi_answer_json o1 (ed_answer draft) of
         Inl err \<Rightarrow> Inl (BadRequest err) | Inr text \<Rightarrow> Inr text, s) (\<lambda>stored s.
     case ro_create_direct_submission (oi_submissions o1) now draft (ev_status result)
            (ev_score result) (ev_max_score result) (ev_message result) stored (os_submissions s) of
       (r, ss) \<Rightarrow> (r, s\<lparr>os_submissions := ss\<rparr>)))))"

definition oj_apply_runtime_event ::
    "('p, 's) oj_parts \<Rightarrow> task_event \<Rightarrow> ('p, 's) oj_state \<Rightarrow> unit app_result \<times> ('p, 's) oj_state" where
  "oj_apply_runtime_event o1 ev s =
     (case ro_apply_runtime_event (oi_submissions o1) ev (os_submissions s) of
        (r, ss) \<Rightarrow> (r, s\<lparr>os_submissions := ss\<rparr>))"

section \<open>Handlers (lib.rs)\<close>

definition list_judge_modes :: "judge_mode list" where
  "list_judge_modes = [ModeAcm, ModeFunctional, ModeEasyJudge]"

definition list_languages :: "oj_language_catalog \<Rightarrow> language_descriptor list" where
  "list_languages c = catalog_descriptors c"

definition get_template ::
    "oj_language_catalog \<Rightarrow> string \<Rightarrow> string \<Rightarrow> code_template_request app_result" where
  "get_template c language m =
     and_then (ok_or (judge_mode_from_path m) (BadRequest (''unsupported judge mode: '' @ m))) (\<lambda>mode.
     and_then (ok_or (template_for c language mode)
       (NotFound (''language not found: '' @ language))) (\<lambda>template.
     Inr \<lparr>ct_language = language, ct_judge_mode = mode, ct_template = template\<rparr>))"

definition create_problem ::
    "('p, 's) oj_parts \<Rightarrow> problem \<Rightarrow> ('p, 's) oj_state \<Rightarrow> problem_detail app_result \<times> ('p, 's) oj_state" where
  "create_problem o1 p s = st_then (save_problem o1 p s) (\<lambda>_ s. (Inr \<lparr>pd_problem = p\<rparr>, s))"

definition update_problem ::
    "('p, 's) oj_parts \<Rightarrow> string \<Rightarrow> problem \<Rightarrow> ('p, 's) oj_state \<Rightarrow>
       problem_detail app_result \<times> ('p, 's) oj_state" where
  "update_problem o1 problem_id p s =
     (if problem_id_0 (pb_problem_id p) \<noteq> problem_id
      then (Inl (BadRequest ''path problem_id does not match body problem_id''), s)
      else st_then (save_problem o1 p s) (\<lambda>_ s. (Inr \<lparr>pd_problem = p\<rparr>, s)))"

text \<open>
  The submission of a program. The repositories are a part of a world they share with the job
  platform and the runtime, read and replaced by \<open>oj_of\<close> and \<open>with_oj\<close>; the platform, where the
  handler has one, is a function on this world.
\<close>

definition submit_program ::
    "('p, 's) oj_parts \<Rightarrow> ('w \<Rightarrow> ('p, 's) oj_state) \<Rightarrow> (('p, 's) oj_state \<Rightarrow> 'w \<Rightarrow> 'w) \<Rightarrow>
       (job_definition \<Rightarrow> 'w \<Rightarrow> job_receipt app_result \<times> 'w) option \<Rightarrow> system_time \<Rightarrow>
       submission_draft \<Rightarrow> 'w \<Rightarrow> submission_record app_result \<times> 'w" where
  "submit_program o1 oj_of with_oj platform now draft w =
     (case create_submission o1 now draft (oj_of w) of (r, s) \<Rightarrow>
        st_then (r, with_oj s w) (\<lambda>sub w.
        case platform of
          None \<Rightarrow> (Inr sub, w)
        | Some submit \<Rightarrow>
            st_then (build_job_definition o1 (submission_id_0 (sb_submission_id sub)) (oj_of w), w)
              (\<lambda>job w.
            st_then (submit job w) (\<lambda>_ w. (Inr sub, w)))))"

definition get_runtime_task ::
    "('p, 's) oj_parts \<Rightarrow> string \<Rightarrow> ('p, 's) oj_state \<Rightarrow> runtime_task app_result" where
  "get_runtime_task o1 submission_id s = build_runtime_task o1 submission_id s"

definition create_easy_submission ::
    "('p, 's) oj_parts \<Rightarrow> system_time \<Rightarrow> easy_submission_draft \<Rightarrow> ('p, 's) oj_state \<Rightarrow>
       submission_record app_result \<times> ('p, 's) oj_state" where
  "create_easy_submission o1 now draft s = judge_easy_submission o1 now draft s"

end
