(* ===== verification/Gateway.thy ===== *)
theory Gateway
  imports Oj_Service Job_Queries Runtime_Router Config
begin

text \<open>
  The gateway (crates/nexus-gateway/src/lib.rs): it builds the services from the configuration,
  shows the runtime nodes and passes runtime events on to the online judge and the job platform.
  Redis is outside: what the node registry holds is a parameter, and a published event is a
  message handed over. The gateway's world holds everything its services share.
\<close>

section \<open>The configuration's choices\<close>

definition map_runtime_seccomp_mode :: "config_seccomp_mode \<Rightarrow> seccomp_mode" where
  "map_runtime_seccomp_mode m = (case m of CfgLog \<Rightarrow> SmLog | CfgKill \<Rightarrow> SmKill)"

definition map_runtime_syscall_flavor :: "config_syscall_flavor \<Rightarrow> syscall_flavor" where
  "map_runtime_syscall_flavor m = (case m of
     CfgFlavorAuto \<Rightarrow> FlAuto | CfgGeneric \<Rightarrow> FlGeneric | CfgDebianUbuntu \<Rightarrow> FlDebianUbuntu
   | CfgArch \<Rightarrow> FlArch | CfgRhelLike \<Rightarrow> FlRhelLike)"

definition map_runtime_syscall_arch :: "config_syscall_arch \<Rightarrow> syscall_arch" where
  "map_runtime_syscall_arch a = (case a of
     CfgArchAuto \<Rightarrow> ArAuto | CfgX86_64 \<Rightarrow> ArX86_64 | CfgAarch64 \<Rightarrow> ArAarch64 | CfgOther \<Rightarrow> ArOther)"

definition map_runtime_worker_groups :: "worker_group_config list \<Rightarrow> worker_group list" where
  "map_runtime_worker_groups gs =
     map (\<lambda>g. \<lparr>wg_name = wgc_name g,
               wg_bindings = map (\<lambda>b. RouteBinding (rbc_queue b) (rbc_lane b)) (wgc_bindings g)\<rparr>) gs"

definition runtime_broker_status ::
    "string \<Rightarrow> required_capabilities \<Rightarrow> enhanced_capabilities \<Rightarrow> broker_observability_status" where
  "runtime_broker_status broker req enh = from_capability_profile broker req enh"

text \<open>The status that goes with the queue of each backend.\<close>

definition broker_status_from_config :: "runtime_config \<Rightarrow> broker_observability_status" where
  "broker_status_from_config c =
     (let status = (\<lambda>p. runtime_broker_status (cp_broker p) (cp_required p) (cp_enhanced p))
      in case cg_broker_backend c of
           BackendMemory \<Rightarrow> status memory_broker_capabilities
         | BackendRabbitMq \<Rightarrow> status rabbitmq_broker_capabilities
         | BackendNats \<Rightarrow>
             with_ack_wait_ms (Some (nt_ack_wait_ms (cg_nats c))) (status nats_broker_capabilities)
         | BackendRedisStreams \<Rightarrow>
             with_pending_reclaim_idle_ms (Some (rs_pending_reclaim_idle_ms (cg_redis_streams c)))
               (status redis_streams_broker_capabilities))"

section \<open>The node registry\<close>

record node_query =
  nq_queue :: "string option"
  nq_lane :: "string option"
  nq_group :: "string option"
  nq_status :: "node_health_status option"

definition default_node_query :: node_query where
  "default_node_query = \<lparr>nq_queue = None, nq_lane = None, nq_group = None, nq_status = None\<rparr>"

record route_coverage =
  rv_queue :: string
  rv_lane :: string
  rv_node_count :: nat
  rv_worker_group_count :: nat

record group_coverage =
  gv_name :: string
  gv_node_count :: nat
  gv_binding_count :: nat

record node_registry_summary =
  nr_total_nodes :: nat
  nr_total_worker_groups :: nat
  nr_healthy_nodes :: nat
  nr_stale_nodes :: nat
  nr_routes :: "route_coverage list"
  nr_groups :: "group_coverage list"

definition node_stale_after_ms :: u64 where "node_stale_after_ms = 20000"

definition matches_group_query :: "worker_group \<Rightarrow> node_query \<Rightarrow> bool" where
  "matches_group_query g q \<longleftrightarrow>
     map_or_true (nq_group q) (\<lambda>v. v = wg_name g) \<and>
     (if nq_queue q = None \<and> nq_lane q = None then True
      else list_ex (\<lambda>b. map_or_true (nq_queue q) (\<lambda>v. v = rb_queue b) \<and>
             map_or_true (nq_lane q) (\<lambda>v. v = rb_lane b)) (wg_bindings g))"

definition matches_node_query :: "node_status \<Rightarrow> node_query \<Rightarrow> bool" where
  "matches_node_query n q \<longleftrightarrow>
     map_or_true (nq_status q) (\<lambda>v. v = ns_node_status n) \<and>
     list_ex (\<lambda>g. matches_group_query g q) (ns_worker_groups n)"

definition filter_runtime_nodes :: "node_status list \<Rightarrow> node_query \<Rightarrow> node_status list" where
  "filter_runtime_nodes ns q = filter (\<lambda>n. matches_node_query n q) ns"

definition annotate_runtime_node_health :: "node_status list \<Rightarrow> u64 \<Rightarrow> node_status list" where
  "annotate_runtime_node_health ns now_ms =
     map (\<lambda>n. n\<lparr>ns_node_status :=
       (if node_stale_after_ms < saturating_sub now_ms (ns_last_heartbeat_ms n)
        then NodeStale else NodeHealthy)\<rparr>) ns"

text \<open>The four maps that the summary fills; a \<^theory_text>\<open>BTreeSet\<close> is a sorted list without duplicates.\<close>

record summary_maps =
  mm_route_nodes :: "(route, string list) btree_map"
  mm_route_groups :: "(route, nat) btree_map"
  mm_group_nodes :: "(string, string list) btree_map"
  mm_group_bindings :: "(string, nat) btree_map"

definition empty_maps :: summary_maps where
  "empty_maps = \<lparr>mm_route_nodes = [], mm_route_groups = [], mm_group_nodes = [], mm_group_bindings = []\<rparr>"

definition entry_insert ::
    "'k::linorder \<Rightarrow> 'v::linorder \<Rightarrow> ('k, 'v list) btree_map \<Rightarrow> ('k, 'v list) btree_map" where
  "entry_insert k v m = bt_insert k (sort_dedup (v # unwrap_or (map_of m k) [])) m"

definition add_binding :: "string \<Rightarrow> route_binding \<Rightarrow> summary_maps \<Rightarrow> summary_maps" where
  "add_binding node_id b m =
     m\<lparr>mm_route_nodes := entry_insert (route_of b) node_id (mm_route_nodes m),
       mm_route_groups := bt_insert (route_of b)
         (unwrap_or (map_of (mm_route_groups m) (route_of b)) 0 + 1) (mm_route_groups m)\<rparr>"

definition add_group :: "string \<Rightarrow> worker_group \<Rightarrow> summary_maps \<Rightarrow> summary_maps" where
  "add_group node_id g m =
     fold (add_binding node_id) (wg_bindings g)
       (m\<lparr>mm_group_nodes := entry_insert (wg_name g) node_id (mm_group_nodes m),
          mm_group_bindings := bt_insert (wg_name g) (length (wg_bindings g)) (mm_group_bindings m)\<rparr>)"

definition add_node :: "node_status \<Rightarrow> summary_maps \<Rightarrow> summary_maps" where
  "add_node n m = fold (add_group (ns_node_id n)) (ns_worker_groups n) m"

definition summarize_runtime_nodes :: "node_status list \<Rightarrow> node_registry_summary" where
  "summarize_runtime_nodes ns =
     (let m = fold add_node ns empty_maps
      in \<lparr>nr_total_nodes = length ns,
          nr_total_worker_groups = sum_list (map (\<lambda>n. length (ns_worker_groups n)) ns),
          nr_healthy_nodes = length (filter (\<lambda>n. ns_node_status n = NodeHealthy) ns),
          nr_stale_nodes = length (filter (\<lambda>n. ns_node_status n = NodeStale) ns),
          nr_routes = map (\<lambda>((queue, lane), node_ids).
            \<lparr>rv_queue = queue, rv_lane = lane, rv_node_count = length node_ids,
             rv_worker_group_count = unwrap_or (map_of (mm_route_groups m) (queue, lane)) 0\<rparr>)
            (mm_route_nodes m),
          nr_groups = map (\<lambda>(nm, node_ids).
            \<lparr>gv_name = nm, gv_node_count = length node_ids,
             gv_binding_count = unwrap_or (map_of (mm_group_bindings m) nm) 0\<rparr>)
            (mm_group_nodes m)\<rparr>)"

text \<open>The handlers; \<open>fetched\<close> is what the registry in Redis answers, if there is one.\<close>

definition list_runtime_nodes ::
    "node_status list app_result option \<Rightarrow> system_time \<Rightarrow> node_query \<Rightarrow> node_status list" where
  "list_runtime_nodes fetched now q = (case fetched of
     None \<Rightarrow> []
   | Some r \<Rightarrow>
       (let ns = (case r of Inl _ \<Rightarrow> [] | Inr ns \<Rightarrow> ns)
        in sort_key ns_node_id
             (filter_runtime_nodes (annotate_runtime_node_health ns (epoch_ms now)) q)))"

definition list_runtime_node_summary ::
    "node_status list app_result option \<Rightarrow> system_time \<Rightarrow> node_query \<Rightarrow> node_registry_summary" where
  "list_runtime_node_summary fetched now q = (case fetched of
     None \<Rightarrow> \<lparr>nr_total_nodes = 0, nr_total_worker_groups = 0, nr_healthy_nodes = 0,
             nr_stale_nodes = 0, nr_routes = [], nr_groups = []\<rparr>
   | Some r \<Rightarrow>
       (let ns = (case r of Inl _ \<Rightarrow> [] | Inr ns \<Rightarrow> ns)
        in summarize_runtime_nodes
             (filter_runtime_nodes (annotate_runtime_node_health ns (epoch_ms now)) q)))"

section \<open>Observers\<close>

record ('p, 's) gateway_obs =
  go_oj :: "('p, 's) oj_state"
  go_job_events :: job_event_store
  go_published :: "(string \<times> task_event) list"

definition gateway_on_event ::
    "('p, 's) oj_parts \<Rightarrow> bool \<Rightarrow> task_event \<Rightarrow> ('p, 's) gateway_obs \<Rightarrow>
       unit app_result \<times> ('p, 's) gateway_obs" where
  "gateway_on_event o1 redis ev s =
     (case oj_apply_runtime_event o1 ev (go_oj s) of (r, oj) \<Rightarrow>
        st_then (r, s\<lparr>go_oj := oj\<rparr>) (\<lambda>_ s.
          (Inr (), case te_submission_id ev of
             None \<Rightarrow> s
           | Some sid \<Rightarrow>
               (if redis then s\<lparr>go_published := go_published s @ [(''submission_updates:'' @ sid, ev)]\<rparr>
                else s))))"

text \<open>
  The job platform's observer reads the clock. The event store grows with every event, so a
  reading that depends on the event and the state is any sequence of readings.
\<close>

definition jobs_on_event ::
    "(task_event \<Rightarrow> ('p, 's) gateway_obs \<Rightarrow> system_time) \<Rightarrow> task_event \<Rightarrow> ('p, 's) gateway_obs \<Rightarrow>
       unit app_result \<times> ('p, 's) gateway_obs" where
  "jobs_on_event clock ev s =
     (case job_on_event (clock ev s) ev (go_job_events s) of (r, m) \<Rightarrow> (r, s\<lparr>go_job_events := m\<rparr>))"

fun composite_on_event ::
    "(task_event \<Rightarrow> 'o \<Rightarrow> unit app_result \<times> 'o) list \<Rightarrow> task_event \<Rightarrow> 'o \<Rightarrow> unit app_result \<times> 'o" where
  "composite_on_event [] ev s = (Inr (), s)"
| "composite_on_event (f # fs) ev s = st_then (f ev s) (\<lambda>_ s. composite_on_event fs ev s)"

definition gateway_observer ::
    "('p, 's) oj_parts \<Rightarrow> bool \<Rightarrow> (task_event \<Rightarrow> ('p, 's) gateway_obs \<Rightarrow> system_time) \<Rightarrow>
       task_event \<Rightarrow> ('p, 's) gateway_obs \<Rightarrow> unit app_result \<times> ('p, 's) gateway_obs" where
  "gateway_observer o1 redis clock =
     composite_on_event [gateway_on_event o1 redis, jobs_on_event clock]"

section \<open>The gateway's world\<close>

record ('q, 'p, 's) gateway =
  gw_runtime :: "('q, ('p, 's) gateway_obs) task_service"
  gw_definitions :: job_store

definition gateway_registry :: job_registry where
  "gateway_registry = register_handler oj_judge_job_handler empty_registry"

definition gateway_oj :: "('q, 'p, 's) gateway \<Rightarrow> ('p, 's) oj_state" where
  "gateway_oj w = go_oj (sv_observer (gw_runtime w))"

definition with_gateway_obs ::
    "(('p, 's) gateway_obs \<Rightarrow> ('p, 's) gateway_obs) \<Rightarrow> ('q, 'p, 's) gateway \<Rightarrow> ('q, 'p, 's) gateway" where
  "with_gateway_obs f w =
     w\<lparr>gw_runtime := (gw_runtime w)\<lparr>sv_observer := f (sv_observer (gw_runtime w))\<rparr>\<rparr>"

definition with_gateway_oj :: "('p, 's) oj_state \<Rightarrow> ('q, 'p, 's) gateway \<Rightarrow> ('q, 'p, 's) gateway" where
  "with_gateway_oj s = with_gateway_obs (\<lambda>ob. ob\<lparr>go_oj := s\<rparr>)"

definition on_runtime ::
    "(('q, ('p, 's) gateway_obs) task_service \<Rightarrow> 'r \<times> ('q, ('p, 's) gateway_obs) task_service) \<Rightarrow>
       ('q, 'p, 's) gateway \<Rightarrow> 'r \<times> ('q, 'p, 's) gateway" where
  "on_runtime f w = (case f (gw_runtime w) of (r, s) \<Rightarrow> (r, w\<lparr>gw_runtime := s\<rparr>))"

text \<open>\<^theory_text>\<open>build_gateway_services\<close> with a queue and repositories that are already connected.\<close>

definition build_gateway_services ::
    "runtime_config \<Rightarrow> system_time \<Rightarrow> 'q \<Rightarrow> ('p, 's) oj_state \<Rightarrow> files \<Rightarrow> ('q, 'p, 's) gateway" where
  "build_gateway_services c now q oj fs =
     \<lparr>gw_runtime = with_queue_and_broker now q (broker_status_from_config c)
        \<lparr>go_oj = oj, go_job_events = [], go_published = []\<rparr> fs,
      gw_definitions = []\<rparr>"

definition gateway_job_parts ::
    "('q, ('p, 's) gateway_obs) service_parts \<Rightarrow> system_time \<Rightarrow> system_time \<Rightarrow> ('q, 'p, 's) gateway job_parts" where
  "gateway_job_parts e now later =
     \<lparr>jw_validate = validate_job gateway_registry,
      jw_submit = (\<lambda>job. on_runtime (submit_to_runtime e gateway_registry now later job)),
      jw_save = (\<lambda>job w. w\<lparr>gw_definitions := store_save job (gw_definitions w)\<rparr>),
      jw_append = (\<lambda>ev. with_gateway_obs (\<lambda>ob. ob\<lparr>go_job_events := event_append ev (go_job_events ob)\<rparr>))\<rparr>"

definition gateway_query :: "('q, 'p, 's) gateway \<Rightarrow> ('q, ('p, 's) gateway_obs) job_query" where
  "gateway_query w =
     \<lparr>jq_runtime = gw_runtime w, jq_definitions = gw_definitions w,
      jq_events = go_job_events (sv_observer (gw_runtime w)), jq_registry = gateway_registry\<rparr>"

text \<open>The clock readings of one request, in the order of the code.\<close>

record request_clock =
  rk_create :: system_time
  rk_context :: system_time
  rk_schedule :: system_time
  rk_event :: system_time

definition gateway_submit ::
    "('p, 's) oj_parts \<Rightarrow> ('q, ('p, 's) gateway_obs) service_parts \<Rightarrow> request_clock \<Rightarrow> submission_draft \<Rightarrow>
       ('q, 'p, 's) gateway \<Rightarrow> submission_record app_result \<times> ('q, 'p, 's) gateway" where
  "gateway_submit o1 e t draft =
     submit_program o1 gateway_oj with_gateway_oj
       (Some (submit_job (gateway_job_parts e (rk_context t) (rk_schedule t)) (rk_event t)))
       (rk_create t) draft"

end
