(* ===== verification/Gateway_Props.thy ===== *)
theory Gateway_Props
  imports Gateway Job_Props
begin

text \<open>
  The services of the gateway together: the job platform on the gateway's world, and the runs of
  the online judge, the platform and the task service over the in-memory parts.
\<close>

section \<open>The job platform on the gateway's world\<close>

lemma with_gateway_obs_simps [simp]:
  "gw_definitions (with_gateway_obs f w) = gw_definitions w"
  "sv_observer (gw_runtime (with_gateway_obs f w)) = f (sv_observer (gw_runtime w))"
  "sv_queue (gw_runtime (with_gateway_obs f w)) = sv_queue (gw_runtime w)"
  "sv_snapshots (gw_runtime (with_gateway_obs f w)) = sv_snapshots (gw_runtime w)"
  "sv_spawned (gw_runtime (with_gateway_obs f w)) = sv_spawned (gw_runtime w)"
  by (simp_all add: with_gateway_obs_def)

lemma gateway_job_parts_simps [simp]:
  "jw_validate (gateway_job_parts e now later) = validate_job gateway_registry"
  "jw_submit (gateway_job_parts e now later) job =
     on_runtime (submit_to_runtime e gateway_registry now later job)"
  "jw_save (gateway_job_parts e now later) job w = w\<lparr>gw_definitions := store_save job (gw_definitions w)\<rparr>"
  "jw_append (gateway_job_parts e now later) ev =
     with_gateway_obs (\<lambda>ob. ob\<lparr>go_job_events := event_append ev (go_job_events ob)\<rparr>)"
  by (simp_all add: gateway_job_parts_def)

definition job_known :: "string \<Rightarrow> ('q, 'p, 's) gateway \<Rightarrow> job_definition option" where
  "job_known k w = store_get k (gw_definitions w)"

definition job_events :: "string \<Rightarrow> ('q, 'p, 's) gateway \<Rightarrow> job_event list" where
  "job_events k w = event_list k (go_job_events (sv_observer (gw_runtime w)))"

lemma schedule_observer [simp]: "sv_observer (snd (schedule e now task s)) = sv_observer s"
  by (simp add: schedule_def update_snapshot_def Let_def split: prod.splits sum.splits)

lemma submit_to_runtime_observer:
  "submit_to_runtime e g now later job s = (r, s') \<Longrightarrow> sv_observer s' = sv_observer s"
  unfolding submit_to_runtime_def Let_def st_then_def
  by (auto split: option.splits sum.splits job_handler_result.splits prod.splits)
    (metis schedule_observer snd_conv)+

lemma submit_to_runtime_receipt:
  "submit_to_runtime e g now later job s = (Inr rc, s') \<Longrightarrow> jc_job_id rc = job_id_0 (jb_job_id job)"
  unfolding submit_to_runtime_def Let_def st_then_def
  by (auto split: option.splits sum.splits job_handler_result.splits prod.splits)

interpretation gw: job_platform "gateway_job_parts e now later" job_known
  "\<lambda>w. store_list (gw_definitions w)" "\<lambda>w. store_ok (gw_definitions w)" job_events for e now later
proof
  fix k w job and ev :: job_event
  show "job_known k (jw_save (gateway_job_parts e now later) job w) =
      (if k = job_id_0 (jb_job_id job) then Some job else job_known k w)"
    by (simp add: job_known_def ms.get_save)
  show "job_events k (jw_append (gateway_job_parts e now later) ev w) =
      (if k = je_job_id ev then job_events k w @ [ev] else job_events k w)"
    by (simp add: job_events_def me.listing_append)
  show "job_events k (jw_save (gateway_job_parts e now later) job w) = job_events k w"
    by (simp add: job_events_def)
  show "job_known k (jw_append (gateway_job_parts e now later) ev w) = job_known k w"
    by (simp add: job_known_def)
next
  fix job w r w' k assume "jw_submit (gateway_job_parts e now later) job w = (r, w')"
  then show "job_known k w' = job_known k w \<and> job_events k w' = job_events k w"
    by (auto simp: job_known_def job_events_def on_runtime_def submit_to_runtime_observer split: prod.splits)
next
  fix job w rc w' assume "jw_submit (gateway_job_parts e now later) job w = (Inr rc, w')"
  then show "jc_job_id rc = job_id_0 (jb_job_id job)"
    by (auto simp: on_runtime_def submit_to_runtime_receipt split: prod.splits)
qed (simp_all add: ms.ok_save ms.listing_get ms.listing_ids job_known_def)

section \<open>A submitted job\<close>

text \<open>The one handler of the gateway.\<close>

lemma gateway_registry_resolves:
  "resolve_descriptor gateway_registry ns nm v =
     (if handler_key ns nm v = handler_key ''oj'' ''judge_submission'' 1
      then Some oj_judge_handler_descriptor else None)"
  "resolve_handler gateway_registry ns nm v =
     (if handler_key ns nm v = handler_key ''oj'' ''judge_submission'' 1
      then Some oj_judge_job_handler else None)"
  by (simp_all add: resolve_descriptor_def resolve_handler_def gateway_registry_def empty_registry_def
      register_handler_def register_descriptor_def Let_def oj_judge_job_handler_def
      oj_judge_handler_descriptor_def oj_job_namespace_def oj_judge_job_name_def)

lemma valid_job_resolves:
  "validate_job gateway_registry job = Inr u \<Longrightarrow>
     resolve_handler gateway_registry (jt_namespace (jb_job_type job)) (jt_name (jb_job_type job))
       (jt_version (jb_job_type job)) = Some oj_judge_job_handler"
  unfolding validate_job_def gateway_registry_resolves by (simp split: if_splits)

lemma map_job_Inr_iff:
  "(\<exists>task. map_job_to_runtime_task job = Inr task) \<longleftrightarrow> (\<exists>p. jb_payload job = JpOjJudge p)"
  by (cases "jb_payload job") (simp_all add: map_job_to_runtime_task_def)

lemma mapped_task_id:
  "map_job_to_runtime_task job = Inr task \<Longrightarrow> rt_task_id task = job_id_0 (jb_job_id job)"
  by (cases "jb_payload job") (auto simp: map_job_to_runtime_task_def)

lemma submit_valid_to_runtime:
  assumes "validate_job gateway_registry job = Inr u"
  shows "submit_to_runtime e gateway_registry now later job s =
    (case map_job_to_runtime_task job of
       Inl _ \<Rightarrow> (Inl (BadRequest ''oj judge handler can only dispatch oj_judge payloads''), s)
     | Inr task \<Rightarrow> st_then (schedule e later task s) (\<lambda>_ s.
         (Inr \<lparr>jc_job_id = job_id_0 (jb_job_id job), jc_queue = jr_queue (jd_route (jb_dispatch job)),
               jc_lane = jr_lane (jd_route (jb_dispatch job)),
               jc_handler = Some ''oj:judge_submission:v1'',
               jc_execution_contract = Some ''runtime_task''\<rparr>, s)))"
proof -
  have "show_nat 1 = ''1''" by (simp add: show_nat.simps digit_def char_of_def bit_0)
  then have key: "descriptor_key oj_judge_handler_descriptor = ''oj:judge_submission:v1''"
    by (simp add: descriptor_key_def oj_judge_handler_descriptor_def oj_job_namespace_def
        oj_judge_job_name_def show_word_def)
  have c: "format_execution_contract (hd_execution_contract oj_judge_handler_descriptor) = ''runtime_task''"
    by (simp add: oj_judge_handler_descriptor_def)
  show ?thesis
    unfolding submit_to_runtime_def Let_def valid_job_resolves [OF assms]
    by (cases "jb_payload job")
      (simp_all add: oj_judge_job_handler_def oj_prepare_dispatch_def map_job_to_runtime_task_def
        plan_runtime_task_def key c)
qed

text \<open>Scheduling on the in-memory queue always succeeds.\<close>

lemma schedule_memory:
  assumes inv: "queue_inv (sv_queue s)" and ops: "se_ops e = memory_queue_ops"
    and s': "schedule e now task s = (r, s')"
  shows "(\<exists>receipt. r = Inr receipt) \<and> queue_inv (sv_queue s') \<and>
    wait_of (sv_queue s') = add_mset (task, 1) (wait_of (sv_queue s)) \<and>
    leased_of (sv_queue s') = leased_of (sv_queue s) \<and>
    mq_dead_letters (sv_queue s') = mq_dead_letters (sv_queue s) \<and>
    get_task (rt_task_id task) s' =
      Inr (snapshot_of task LcQueued ''runtime task queued'' None None None)"
proof -
  obtain r2 q where q: "op_enqueue memory_queue_ops now task (sv_queue s) = (r2, q)" by fastforce
  have "queue_inv q" using mq.call_inv [OF inv, of "CallEnqueue now task"] q by simp
  then show ?thesis
    using mq.enqueue_law [OF inv q] s' q
    by (auto simp: schedule_def ops update_snapshot_def get_task_def snapshot_of_def Let_def)
qed

lemma submit_valid_outcome:
  assumes v: "validate_job gateway_registry job = Inr u" and inv: "queue_inv (sv_queue s)"
    and ops: "se_ops e = memory_queue_ops"
    and s2: "submit_to_runtime e gateway_registry now later job s = (r, s2)"
  shows "case map_job_to_runtime_task job of
       Inl _ \<Rightarrow> (\<exists>err. r = Inl err) \<and> s2 = s
     | Inr task \<Rightarrow> (\<exists>rc. r = Inr rc) \<and> queue_inv (sv_queue s2) \<and>
         wait_of (sv_queue s2) = add_mset (task, 1) (wait_of (sv_queue s)) \<and>
         get_task (job_id_0 (jb_job_id job)) s2 =
           Inr (snapshot_of task LcQueued ''runtime task queued'' None None None)"
proof (cases "map_job_to_runtime_task job")
  case (Inl err)
  then show ?thesis using s2 unfolding submit_valid_to_runtime [OF v] by auto
next
  case (Inr task)
  obtain r3 s3 where s3: "schedule e later task s = (r3, s3)" by fastforce
  show ?thesis
    using s2 Inr schedule_memory [OF inv ops s3] mapped_task_id [OF Inr]
    unfolding submit_valid_to_runtime [OF v] by (auto simp: s3)
qed

text \<open>C22: A job given to the platform is either refused, and then no trace of it is left, or it is
  stored with exactly one new event in its history. A job the runtime can execute is then queued
  once, as its first attempt, and the platform shows it as enqueued; of any other job nothing
  reaches the queue and its event tells the rejection.\<close>

theorem submitted_job_is_queued_once:
  "let w0 = w\<lparr>gw_runtime := (gw_runtime w)\<lparr>sv_queue := calls memory_queue_ops cs (default_mem_queue m)\<rparr>\<rparr>;
       e0 = e\<lparr>se_ops := memory_queue_ops\<rparr>; k = job_id_0 (jb_job_id job);
       (r, w') = submit_job (gateway_job_parts e0 now later) t job w0
   in case validate_job gateway_registry job of
        Inl err \<Rightarrow> r = Inl err \<and> w' = w0
      | Inr _ \<Rightarrow>
          job_known k w' = Some job \<and>
          (case map_job_to_runtime_task job of
             Inl _ \<Rightarrow> (\<exists>err. r = Inl err \<and> job_events k w' = job_events k w0 @ [rejected_event t job err]) \<and>
               sv_queue (gw_runtime w') = sv_queue (gw_runtime w0)
           | Inr task \<Rightarrow>
               (\<exists>rc. r = Inr rc \<and> job_events k w' = job_events k w0 @ [enqueued_event t job rc]) \<and>
               wait_of (sv_queue (gw_runtime w')) =
                 add_mset (task, 1) (wait_of (sv_queue (gw_runtime w0))) \<and>
               (case get_job k (gateway_query w') of
                  Inl _ \<Rightarrow> False | Inr snap \<Rightarrow> js_status snap = JsEnqueued))"
proof -
  define w0 where "w0 = w\<lparr>gw_runtime := (gw_runtime w)\<lparr>sv_queue := calls memory_queue_ops cs (default_mem_queue m)\<rparr>\<rparr>"
  define e0 where "e0 = e\<lparr>se_ops := memory_queue_ops\<rparr>"
  define k where "k = job_id_0 (jb_job_id job)"
  obtain r w' where s: "submit_job (gateway_job_parts e0 now later) t job w0 = (r, w')" by fastforce
  have inv: "queue_inv (sv_queue (gw_runtime w0))" unfolding w0_def by (simp add: calls_inv)
  show ?thesis
  proof (cases "validate_job gateway_registry job")
    case (Inl err)
    then show ?thesis using s gw.submit_invalid [of e0 now later job err t w0]
      unfolding w0_def e0_def k_def Let_def by simp
  next
    case (Inr u)
    then have ok: "jw_validate (gateway_job_parts e0 now later) job = Inr ()" by simp
    note valid = gw.submit_valid [OF ok s]
    have known: "job_known k w' = Some job" using valid(1) [of k] by (simp add: k_def)
    have events: "job_events k w' = job_events k w0 @
        [case r of Inl err \<Rightarrow> rejected_event t job err | Inr rc \<Rightarrow> enqueued_event t job rc]"
      using valid(2) [of k] by (simp add: k_def)
    obtain s2 where s2: "submit_to_runtime e0 gateway_registry now later job (gw_runtime w0) = (r, s2)"
      and q: "sv_queue (gw_runtime w') = sv_queue s2"
      and sn: "sv_snapshots (gw_runtime w') = sv_snapshots s2"
      using valid(3) by (auto simp: on_runtime_def split: prod.splits)
    have ops: "se_ops e0 = memory_queue_ops" by (simp add: e0_def)
    note outcome = submit_valid_outcome [OF \<open>validate_job gateway_registry job = Inr u\<close> inv ops s2]
    have "get_task k (gw_runtime w') = get_task k s2" by (simp add: get_task_def sn)
    then have job: "get_task k s2 = Inr sn' \<Longrightarrow> get_job k (gateway_query w') =
        Inr (build_job_snapshot job sn' (event_list k (go_job_events (sv_observer (gw_runtime w')))) gateway_registry)" for sn'
      using known by (simp add: get_job_def gateway_query_def job_known_def)
    have "case map_job_to_runtime_task job of
           Inl _ \<Rightarrow> (\<exists>err. r = Inl err \<and> job_events k w' = job_events k w0 @ [rejected_event t job err]) \<and>
             sv_queue (gw_runtime w') = sv_queue (gw_runtime w0)
         | Inr task \<Rightarrow>
             (\<exists>rc. r = Inr rc \<and> job_events k w' = job_events k w0 @ [enqueued_event t job rc]) \<and>
             wait_of (sv_queue (gw_runtime w')) =
               add_mset (task, 1) (wait_of (sv_queue (gw_runtime w0))) \<and>
             (case get_job k (gateway_query w') of
                Inl _ \<Rightarrow> False | Inr snap \<Rightarrow> js_status snap = JsEnqueued)"
      using outcome events job q unfolding k_def
      by (cases "map_job_to_runtime_task job") (auto simp: build_job_snapshot_def snapshot_of_def)
    then show ?thesis
      unfolding w0_def [symmetric] e0_def [symmetric] k_def [symmetric] Let_def s
      by (simp add: Inr known)
  qed
qed

end
