(* ===== verification/Gateway_Runs.thy ===== *)
theory Gateway_Runs
  imports Gateway_Props Runtime_Router
begin

text \<open>
  Runs of the whole gateway over its in-memory parts: every task that the queue holds, waiting,
  leased or dead, is the job of a stored submission or was posted to the runtime's own interface.
\<close>

section \<open>What the observer keeps\<close>

locale kept_by_events =
  fixes P :: "'obs \<Rightarrow> bool" and e :: "('q, 'obs) service_parts"
  assumes kept: "P ob \<Longrightarrow> P (snd (se_on_event e ev ob))"
begin

lemma report_keeps: "P (sv_observer s) \<Longrightarrow> P (sv_observer (report e task n sn s))"
  by (simp add: report_def observe_event_def update_snapshot_def kept)

lemma failure_keeps:
  "P (sv_observer s) \<Longrightarrow> P (sv_observer (handle_delivery_failure e now task n k a err s))"
  unfolding handle_delivery_failure_def Let_def by (auto split: prod.splits intro!: report_keeps)

lemma run_prepared_keeps: "P (sv_observer s) \<Longrightarrow> P (sv_observer (snd (run_prepared e i d a s)))"
  unfolding run_prepared_def Let_def
  by (auto split: prod.splits option.splits sum.splits intro!: failure_keeps report_keeps)

lemma serve_keeps: "P (sv_observer s) \<Longrightarrow> P (sv_observer (snd (serve_delivery e i d s)))"
  unfolding serve_delivery_def Let_def
  by (auto split: prod.splits sum.splits intro!: failure_keeps run_prepared_keeps report_keeps)

lemma round_keeps: "P (sv_observer s) \<Longrightarrow> P (sv_observer (snd (worker_round e i bs s)))"
  unfolding worker_round_def by (auto split: prod.splits option.splits intro!: serve_keeps)

lemma spawned_keeps: "P (sv_observer s) \<Longrightarrow> P (sv_observer (deliver_spawned e n s))"
  by (simp add: deliver_spawned_def observe_event_def kept)

end

section \<open>What identifies a submission\<close>

text \<open>The parts of a stored submission that no event changes.\<close>

record submission_key =
  sk_id :: string
  sk_problem_id :: problem_id
  sk_user_id :: user_id
  sk_language :: string
  sk_source_code :: string

definition submission_key :: "submission_detail \<Rightarrow> submission_key" where
  "submission_key d =
     (let sub = sm_submission d
      in \<lparr>sk_id = submission_id_0 (sb_submission_id sub), sk_problem_id = sb_problem_id sub,
          sk_user_id = sb_user_id sub, sk_language = sb_language sub,
          sk_source_code = sm_source_code d\<rparr>)"

definition submission_keys :: "mem_submissions \<Rightarrow> submission_key list" where
  "submission_keys ss = map submission_key ss"

lemma submission_key_event [simp]: "submission_key (apply_event ev d) = submission_key d"
  by (simp add: submission_key_def apply_event_def Let_def split: prod.splits)

lemma update_first_key: "submission_keys (update_first p (apply_event ev) ss) = submission_keys ss"
  by (induction ss) (simp_all add: submission_keys_def)

lemma submissions_apply_keys [simp]:
  "submission_keys (snd (submissions_apply_event ev ss)) = submission_keys ss"
  by (simp add: submissions_apply_event_def update_first_key split: option.splits)

lemma find_map: "find p (map f xs) = map_option f (find (p \<circ> f) xs)"
  by (induction xs) simp_all

lemma submissions_find_key:
  "submissions_find sid ss = Inr (Some d) \<Longrightarrow>
     find (\<lambda>k. sk_id k = sid) (submission_keys ss) = Some (submission_key d)"
  by (simp add: submissions_find_def submission_keys_def find_map o_def submission_key_def Let_def)

lemma find_append: "find p (xs @ ys) = (case find p xs of Some x \<Rightarrow> Some x | None \<Rightarrow> find p ys)"
  by (induction xs) simp_all

text \<open>A task that belongs to a stored submission.\<close>

definition task_of_submission :: "submission_key list \<Rightarrow> runtime_task \<Rightarrow> bool" where
  "task_of_submission ks t \<longleftrightarrow>
     (case (find (\<lambda>k. sk_id k = rt_source_entity_id t) ks, rt_payload t) of
        (Some k, PayloadOjJudge p) \<Rightarrow>
          rt_task_id t = ''task-'' @ sk_id k \<and> oj_submission_id p = SubmissionId (sk_id k) \<and>
          oj_user_id p = sk_user_id k \<and> oj_language p = sk_language k \<and>
          oj_source_code p = sk_source_code k
      | _ \<Rightarrow> False)"

lemma task_of_submission_append: "task_of_submission ks t \<Longrightarrow> task_of_submission (ks @ ks') t"
  by (simp add: task_of_submission_def find_append split: option.splits runtime_task_payload.splits)

definition memory_oj ::
    "(string \<Rightarrow> string) \<Rightarrow> (easy_answer \<Rightarrow> string + string) \<Rightarrow> (mem_problems, mem_submissions) oj_parts" where
  "memory_oj upper answer_json =
     \<lparr>oi_problems = memory_problem_ops, oi_submissions = memory_submission_ops, oi_upper = upper,
      oi_answer_json = answer_json\<rparr>"

lemma memory_oj_simps [simp]:
  "oi_problems (memory_oj upper js) = memory_problem_ops"
  "oi_submissions (memory_oj upper js) = memory_submission_ops"
  "po_save memory_problem_ops = problems_save"
  "po_find_detail memory_problem_ops = problems_find_detail"
  "ro_find_submission memory_submission_ops = submissions_find"
  "ro_validate_submission memory_submission_ops = submissions_validate"
  "ro_create_submission memory_submission_ops = submissions_create"
  "ro_apply_runtime_event memory_submission_ops = submissions_apply_event"
  "ro_create_direct_submission memory_submission_ops = submissions_create_direct"
  by (simp_all add: memory_oj_def memory_problem_ops_def memory_submission_ops_def)

lemma built_job_submission:
  assumes "build_job_definition (memory_oj upper js) sid s = Inr job"
  obtains d p limits m where "submissions_find sid (os_submissions s) = Inr (Some d)"
    and "job = job_of_submission p d limits m"
  using assms by (auto simp: build_job_definition_def get_submission_detail_def and_then_Inr_iff ok_or_def
      Let_def split: option.splits if_splits)

lemma built_job_is_of_submission:
  assumes "build_job_definition (memory_oj upper js) sid s = Inr job"
    and "map_job_to_runtime_task job = Inr task"
  shows "task_of_submission (submission_keys (os_submissions s)) task"
proof -
  obtain d p limits m where d: "submissions_find sid (os_submissions s) = Inr (Some d)"
    and job: "job = job_of_submission p d limits m"
    by (rule built_job_submission [OF assms(1)])
  have "find (\<lambda>k. sk_id k = sid) (submission_keys (os_submissions s)) = Some (submission_key d)"
    by (rule submissions_find_key [OF d])
  moreover from this have "sk_id (submission_key d) = sid"
    by (auto simp: find_Some_iff)
  ultimately show ?thesis using assms(2)
    by (auto simp: job job_of_submission_def build_oj_judge_job_def map_job_to_runtime_task_def
        task_of_submission_def submission_key_def Let_def)
qed

section \<open>Runs\<close>

type_synonym mem_gateway = "(mem_queue, mem_problems, mem_submissions) gateway"

abbreviation stored :: "mem_gateway \<Rightarrow> submission_key list" where
  "stored w \<equiv> submission_keys (os_submissions (gateway_oj w))"

definition gateway_parts ::
    "runtime_worker \<Rightarrow> (mem_problems, mem_submissions) oj_parts \<Rightarrow> bool \<Rightarrow>
       (task_event \<Rightarrow> (mem_problems, mem_submissions) gateway_obs \<Rightarrow> system_time) \<Rightarrow>
       (mem_queue, (mem_problems, mem_submissions) gateway_obs) service_parts" where
  "gateway_parts wk o1 redis clock = memory_parts wk (gateway_observer o1 redis clock)"

text \<open>
  The requests of the online judge's clients, tasks posted to \<open>/api/v1/runtime/tasks/schedule\<close>, the
  rounds of the worker groups, the spawned events and the replays of dead letters, in any order.
  The third argument collects the posted tasks.
\<close>

inductive gateway_run ::
    "(mem_problems, mem_submissions) oj_parts \<Rightarrow>
       (mem_queue, (mem_problems, mem_submissions) gateway_obs) service_parts \<Rightarrow>
       runtime_task list \<Rightarrow> mem_gateway \<Rightarrow> bool"
  for o1 e where
  new: "gateway_run o1 e [] (build_gateway_services c now (default_mem_queue m)
      \<lparr>os_problems = ps, os_submissions = []\<rparr> fs)"
| submit: "gateway_run o1 e ts w \<Longrightarrow> gateway_run o1 e ts (snd (gateway_submit o1 e t draft w))"
| easy: "gateway_run o1 e ts w \<Longrightarrow>
    gateway_run o1 e ts (with_gateway_oj (snd (create_easy_submission o1 now easy_draft (gateway_oj w))) w)"
| save: "gateway_run o1 e ts w \<Longrightarrow>
    gateway_run o1 e ts (with_gateway_oj (snd (create_problem o1 p (gateway_oj w))) w)"
| update: "gateway_run o1 e ts w \<Longrightarrow>
    gateway_run o1 e ts (with_gateway_oj (snd (update_problem o1 problem_id p (gateway_oj w))) w)"
| post: "gateway_run o1 e ts w \<Longrightarrow>
    gateway_run o1 e (task # ts) (snd (on_runtime (schedule_task e now task) w))"
| round: "gateway_run o1 e ts w \<Longrightarrow> gateway_run o1 e ts (snd (on_runtime (worker_round e i bs) w))"
| spawned: "gateway_run o1 e ts w \<Longrightarrow>
    gateway_run o1 e ts (w\<lparr>gw_runtime := deliver_spawned e n (gw_runtime w)\<rparr>)"
| replay: "gateway_run o1 e ts w \<Longrightarrow>
    gateway_run o1 e ts (snd (on_runtime (service_replay_dead_letter e now later k) w))"

definition gateway_inv :: "runtime_task list \<Rightarrow> mem_gateway \<Rightarrow> bool" where
  "gateway_inv ts w \<longleftrightarrow>
     queue_inv (sv_queue (gw_runtime w)) \<and>
     (\<forall>t \<in># queue_tasks (sv_queue (gw_runtime w)). task_of_submission (stored w) t \<or> t \<in> set ts)"

lemma gateway_invI:
  assumes "gateway_inv ts w"
    and "queue_inv (sv_queue (gw_runtime w'))"
    and "set_mset (queue_tasks (sv_queue (gw_runtime w'))) \<subseteq> set_mset (queue_tasks (sv_queue (gw_runtime w)))"
    and "stored w' = stored w @ ks"
  shows "gateway_inv ts w'"
proof -
  have "task_of_submission (stored w') t \<or> t \<in> set ts" if "t \<in># queue_tasks (sv_queue (gw_runtime w'))" for t
  proof -
    have "t \<in># queue_tasks (sv_queue (gw_runtime w))" using assms(3) that by (rule subsetD)
    then have "task_of_submission (stored w) t \<or> t \<in> set ts" using assms(1) by (simp add: gateway_inv_def)
    then show ?thesis unfolding assms(4) using task_of_submission_append by blast
  qed
  with assms(2) show ?thesis unfolding gateway_inv_def by simp
qed

lemma with_gateway_oj_simps [simp]:
  "gateway_oj (with_gateway_oj s w) = s"
  "gw_definitions (with_gateway_oj s w) = gw_definitions w"
  "sv_queue (gw_runtime (with_gateway_oj s w)) = sv_queue (gw_runtime w)"
  by (simp_all add: with_gateway_oj_def gateway_oj_def)

lemma gateway_inv_oj:
  assumes "gateway_inv ts w" and "submission_keys (os_submissions s) = stored w @ ks"
  shows "gateway_inv ts (with_gateway_oj s w)"
  by (rule gateway_invI [OF assms(1)]) (use assms in \<open>simp_all add: gateway_inv_def\<close>)

lemma submissions_create_keys:
  "\<exists>ks. submission_keys (snd (submissions_create now draft ss)) = submission_keys ss @ ks"
  by (cases "new_submission_id now") (auto simp: submissions_create_def submission_keys_def Let_def)

lemma create_submission_keys:
  "\<exists>ks. submission_keys (os_submissions (snd (create_submission (memory_oj up js) now draft s))) =
     submission_keys (os_submissions s) @ ks"
proof (cases "check_draft (memory_oj up js) draft s")
  case (Inr u)
  obtain r ss where "submissions_create now draft (os_submissions s) = (r, ss)" by fastforce
  then show ?thesis using submissions_create_keys [of now draft "os_submissions s"]
    by (simp add: create_submission_def Inr)
qed (simp add: create_submission_def)

lemma save_problem_keys [simp]:
  "os_submissions (snd (save_problem (memory_oj up js) p s)) = os_submissions s"
  by (cases "validate_problem p") (simp_all add: save_problem_def problems_save_def)

lemma easy_submission_keys:
  "\<exists>ks. submission_keys (os_submissions (snd (create_easy_submission (memory_oj up js) now draft s))) =
     submission_keys (os_submissions s) @ ks"
proof -
  have "\<exists>ks. submission_keys (snd (submissions_create_direct now draft st sc mx msg a ss)) =
      submission_keys ss @ ks" for st sc mx msg a ss
    by (cases "new_submission_id now")
      (auto simp: submissions_create_direct_def submission_keys_def Let_def)
  then have direct: "submissions_create_direct now draft st sc mx msg a ss = (r, ss') \<Longrightarrow>
      \<exists>ks. submission_keys ss' = submission_keys ss @ ks" for st sc mx msg a ss r ss'
    by (metis snd_conv)
  show ?thesis
    unfolding create_easy_submission_def judge_easy_submission_def Let_def st_then_def
    by (auto split: prod.splits sum.splits if_splits dest!: direct)
qed

section \<open>The invariant of all runs\<close>

lemma gateway_parts_ops [simp]: "se_ops (gateway_parts wk o1 redis clock) = memory_queue_ops"
  by (simp add: gateway_parts_def memory_parts_def)

lemma gateway_observer_keys:
  "submission_keys (os_submissions (go_oj (snd (gateway_observer (memory_oj up js) redis clock ev ob)))) =
     submission_keys (os_submissions (go_oj ob))"
proof -
  obtain r ss where ss: "submissions_apply_event ev (os_submissions (go_oj ob)) = (r, ss)" by fastforce
  then have "submission_keys ss = submission_keys (os_submissions (go_oj ob))"
    using submissions_apply_keys [of ev "os_submissions (go_oj ob)"] by simp
  then show ?thesis
    by (auto simp: gateway_observer_def gateway_on_event_def oj_apply_runtime_event_def ss st_then_def
        jobs_on_event_def job_on_event_def split: sum.splits option.splits)
qed

interpretation gk: kept_by_events "\<lambda>ob. submission_keys (os_submissions (go_oj ob)) = ks"
    "gateway_parts wk (memory_oj up js) redis clock" for ks wk up js redis clock
  by unfold_locales (simp add: gateway_parts_def memory_parts_def gateway_observer_keys)

lemma quiet_tasks:
  assumes qi: "queue_inv (sv_queue s)" and q: "quiet memory_queue_ops s s'"
  shows "queue_inv (sv_queue s') \<and>
    set_mset (queue_tasks (sv_queue s')) \<subseteq> set_mset (queue_tasks (sv_queue s))"
proof -
  from q obtain cs where "sv_queue s' = calls memory_queue_ops cs (sv_queue s)" "enqueued cs = {#}"
    unfolding quiet_def by blast
  then show ?thesis using mq.calls_bring_in [OF qi, of cs] queue_tasks_eq qi by auto
qed

lemma queue_call_tasks:
  assumes qi: "queue_inv q" and c: "q' = call memory_queue_ops c q"
  shows "queue_inv q' \<and> set_mset (queue_tasks q') \<subseteq> set_mset (queue_tasks q) \<union> set_mset (enqueued [c])"
proof -
  have qi': "queue_inv q'" unfolding c by (rule mq.call_inv [OF qi])
  then show ?thesis
    using mq.call_brings_in [OF qi, of _ c] queue_tasks_eq [OF qi] queue_tasks_eq [OF qi']
    unfolding c by auto
qed

lemma round_inv:
  assumes inv: "gateway_inv ts w"
  shows "gateway_inv ts (snd (on_runtime (worker_round (gateway_parts wk (memory_oj up js) redis clock) i bs) w))"
proof -
  let ?e = "gateway_parts wk (memory_oj up js) redis clock"
  obtain r s where s: "worker_round ?e i bs (gw_runtime w) = (r, s)" by fastforce
  have "quiet memory_queue_ops (gw_runtime w) s"
    using quiet_round [of ?e "gw_runtime w" i bs] s by simp
  then have "queue_inv (sv_queue s)"
    "set_mset (queue_tasks (sv_queue s)) \<subseteq> set_mset (queue_tasks (sv_queue (gw_runtime w)))"
    using quiet_tasks inv unfolding gateway_inv_def by blast+
  moreover have "submission_keys (os_submissions (go_oj (sv_observer s))) = stored w"
    using gk.round_keeps [where s = "gw_runtime w" and i = i and bs = bs] s
    by (simp add: gateway_oj_def) (metis snd_conv)
  ultimately show ?thesis
    by (intro gateway_invI [OF inv, where ks = "[]"]) (simp_all add: on_runtime_def s gateway_oj_def)
qed

lemma spawned_inv:
  assumes inv: "gateway_inv ts w"
  shows "gateway_inv ts (w\<lparr>gw_runtime :=
    deliver_spawned (gateway_parts wk (memory_oj up js) redis clock) n (gw_runtime w)\<rparr>)"
  using inv gk.spawned_keeps [where s = "gw_runtime w" and n = n, OF refl]
  by (intro gateway_invI [OF inv, where ks = "[]"])
    (simp_all add: gateway_inv_def gateway_oj_def deliver_spawned_def observe_event_def)

lemma replay_inv:
  assumes inv: "gateway_inv ts w" and ops: "se_ops e = memory_queue_ops"
  shows "gateway_inv ts (snd (on_runtime (service_replay_dead_letter e now later k) w))"
proof -
  let ?s = "gw_runtime w"
  obtain r s where s: "service_replay_dead_letter e now later k ?s = (r, s)" by fastforce
  have q: "sv_queue s = call memory_queue_ops (CallReplay now k) (sv_queue ?s)"
    and ob: "sv_observer s = sv_observer ?s"
    using s by (auto simp: service_replay_dead_letter_def ops split: prod.splits sum.splits)
  have "queue_inv (sv_queue s)"
    "set_mset (queue_tasks (sv_queue s)) \<subseteq> set_mset (queue_tasks (sv_queue ?s))"
    using queue_call_tasks [OF _ q] inv by (simp_all add: gateway_inv_def)
  then show ?thesis
    by (intro gateway_invI [OF inv, where ks = "[]"]) (simp_all add: on_runtime_def s gateway_oj_def ob)
qed

lemma schedule_tasks:
  assumes inv: "queue_inv (sv_queue s)" and ops: "se_ops e = memory_queue_ops"
  shows "queue_inv (sv_queue (snd (schedule e now task s))) \<and>
    set_mset (queue_tasks (sv_queue (snd (schedule e now task s)))) \<subseteq>
      insert task (set_mset (queue_tasks (sv_queue s)))"
proof -
  have "sv_queue (snd (schedule e now task s)) = call memory_queue_ops (CallEnqueue now task) (sv_queue s)"
    by (auto simp: schedule_def ops update_snapshot_def Let_def split: prod.splits sum.splits)
  from queue_call_tasks [OF inv this] show ?thesis by auto
qed

lemma post_inv:
  assumes inv: "gateway_inv ts w" and ops: "se_ops e = memory_queue_ops"
  shows "gateway_inv (task # ts) (snd (on_runtime (schedule_task e now task) w))"
proof -
  obtain r s where s: "schedule e now task (gw_runtime w) = (r, s)" by fastforce
  have "queue_inv (sv_queue s)"
    and tasks: "set_mset (queue_tasks (sv_queue s)) \<subseteq> insert task (set_mset (queue_tasks (sv_queue (gw_runtime w))))"
    using schedule_tasks [OF _ ops, of "gw_runtime w" now task] inv s by (simp_all add: gateway_inv_def)
  moreover have "sv_observer s = sv_observer (gw_runtime w)"
    using s by (auto simp: schedule_def update_snapshot_def Let_def split: prod.splits sum.splits)
  moreover have "task_of_submission (stored w) t \<or> t \<in> set (task # ts)" if "t \<in># queue_tasks (sv_queue s)" for t
    using tasks that inv by (auto simp: gateway_inv_def dest!: subsetD)
  ultimately show ?thesis
    by (simp add: gateway_inv_def on_runtime_def schedule_task_def s gateway_oj_def)
qed

lemma submit_to_runtime_tasks:
  assumes inv: "queue_inv (sv_queue s)" and ops: "se_ops e = memory_queue_ops"
    and v: "validate_job gateway_registry job = Inr u"
    and s2: "submit_to_runtime e gateway_registry now later job s = (r, s2)"
  shows "queue_inv (sv_queue s2) \<and> set_mset (queue_tasks (sv_queue s2)) \<subseteq>
    set_mset (queue_tasks (sv_queue s)) \<union> {t. map_job_to_runtime_task job = Inr t}"
proof (cases "map_job_to_runtime_task job")
  case (Inl err)
  then show ?thesis using s2 inv unfolding submit_valid_to_runtime [OF v] by simp
next
  case (Inr task)
  obtain r3 s3 where s3: "schedule e later task s = (r3, s3)" by fastforce
  have "s2 = s3" using s2 Inr s3 unfolding submit_valid_to_runtime [OF v]
    by (cases r3) auto
  then show ?thesis using schedule_tasks [OF inv ops, of later task] s3 Inr by auto
qed

lemma submit_job_stored [simp]:
  "stored (snd (submit_job (gateway_job_parts e now later) t0 job w)) = stored w"
proof (cases "validate_job gateway_registry job")
  case (Inl err)
  then show ?thesis using gw.submit_invalid [of e now later job err t0 w] by simp
next
  case (Inr u)
  then have ok: "jw_validate (gateway_job_parts e now later) job = Inr u" by simp
  obtain r w' where s: "submit_job (gateway_job_parts e now later) t0 job w = (r, w')" by fastforce
  obtain s2 where "submit_to_runtime e gateway_registry now later job (gw_runtime w) = (r, s2)"
    and "stored w' = submission_keys (os_submissions (go_oj (sv_observer s2)))"
    using gw.submit_valid(3) [OF ok s] by (auto simp: on_runtime_def gateway_oj_def split: prod.splits)
  then show ?thesis by (simp add: s submit_to_runtime_observer gateway_oj_def)
qed

lemma submit_job_inv:
  assumes inv: "gateway_inv ts w" and ops: "se_ops e = memory_queue_ops"
    and t: "\<And>task. map_job_to_runtime_task job = Inr task \<Longrightarrow> task_of_submission (stored w) task"
  shows "gateway_inv ts (snd (submit_job (gateway_job_parts e now later) t0 job w))"
proof (cases "validate_job gateway_registry job")
  case (Inl err)
  then show ?thesis using inv gw.submit_invalid [of e now later job err t0 w] by simp
next
  case (Inr u)
  obtain r w' where s: "submit_job (gateway_job_parts e now later) t0 job w = (r, w')" by fastforce
  have ok: "jw_validate (gateway_job_parts e now later) job = Inr u" using Inr by simp
  obtain s2 where s2: "submit_to_runtime e gateway_registry now later job (gw_runtime w) = (r, s2)"
    and q: "sv_queue (gw_runtime w') = sv_queue s2"
    using gw.submit_valid(3) [OF ok s] by (auto simp: on_runtime_def split: prod.splits)
  have "stored w' = stored w" using submit_job_stored [of e now later t0 job w] by (simp add: s)
  moreover have "queue_inv (sv_queue s2)" and "set_mset (queue_tasks (sv_queue s2)) \<subseteq>
      set_mset (queue_tasks (sv_queue (gw_runtime w))) \<union> {t. map_job_to_runtime_task job = Inr t}"
    using submit_to_runtime_tasks [OF _ ops Inr s2] inv by (simp_all add: gateway_inv_def)
  moreover have "\<forall>x \<in> set_mset (queue_tasks (sv_queue (gw_runtime w))). task_of_submission (stored w) x \<or> x \<in> set ts"
    using inv by (simp add: gateway_inv_def)
  ultimately show ?thesis
    unfolding gateway_inv_def s q snd_conv using t by (auto dest!: subsetD)
qed

lemma submit_inv:
  assumes inv: "gateway_inv ts w" and ops: "se_ops e = memory_queue_ops"
  shows "gateway_inv ts (snd (gateway_submit (memory_oj up js) e t draft w))"
proof -
  let ?o = "memory_oj up js"
  obtain r s where c: "create_submission ?o (rk_create t) draft (gateway_oj w) = (r, s)" by fastforce
  let ?w = "with_gateway_oj s w"
  obtain ks where "submission_keys (os_submissions s) = stored w @ ks"
    using create_submission_keys [of up js "rk_create t" draft "gateway_oj w"] c by auto
  then have inv1: "gateway_inv ts ?w" by (rule gateway_inv_oj [OF inv])
  show ?thesis
  proof (cases r)
    case (Inl err)
    then show ?thesis using inv1 by (simp add: gateway_submit_def submit_program_def c)
  next
    case (Inr sub)
    show ?thesis
    proof (cases "build_job_definition ?o (submission_id_0 (sb_submission_id sub)) s")
      case (Inl err)
      then show ?thesis using inv1 Inr by (simp add: gateway_submit_def submit_program_def c)
    next
      case job: (Inr job)
      have "gateway_inv ts (snd (submit_job (gateway_job_parts e (rk_context t) (rk_schedule t)) (rk_event t) job ?w))"
        by (rule submit_job_inv [OF inv1 ops]) (simp add: built_job_is_of_submission [OF job])
      then show ?thesis using Inr job
        by (cases "submit_job (gateway_job_parts e (rk_context t) (rk_schedule t)) (rk_event t) job ?w")
          (auto simp: gateway_submit_def submit_program_def c st_then_def split: sum.splits)
    qed
  qed
qed

text \<open>C21: In every run of the gateway over its in-memory parts (requests are single steps), whatever
  its clients submit and save, whatever tasks are posted to the runtime's own interface, and however
  the rounds of the workers, their events and the replays interleave, each task that the queue
  holds, waiting, leased or dead, is either the job of a stored submission (it carries its id, its
  user, its language and its source code) or one of the tasks that were posted to the runtime's
  interface.\<close>

theorem queued_tasks_are_submissions:
  assumes "gateway_run (memory_oj upper answer_json)
    (gateway_parts wk (memory_oj upper answer_json) redis clock) posted w"
  shows "queue_inv (sv_queue (gw_runtime w)) \<and>
    (\<forall>t \<in># queue_tasks (sv_queue (gw_runtime w)).
       task_of_submission (submission_keys (os_submissions (gateway_oj w))) t \<or> t \<in> set posted)"
proof -
  let ?o = "memory_oj upper answer_json" and ?e = "gateway_parts wk (memory_oj upper answer_json) redis clock"
  have "gateway_inv posted w"
    using assms
  proof (induction rule: gateway_run.induct)
    case (new c now m ps fs)
    have "queue_tasks (default_mem_queue m) = {#}" by (simp add: queue_tasks_def default_mem_queue_def)
    then show ?case
      by (simp add: gateway_inv_def build_gateway_services_def with_queue_and_broker_def queue_inv_default)
  next
    case (submit ts w t draft)
    show ?case by (rule submit_inv [OF submit.IH]) simp
  next
    case (easy ts w now draft)
    obtain ks where "submission_keys (os_submissions (snd (create_easy_submission ?o now draft (gateway_oj w)))) = stored w @ ks"
      using easy_submission_keys by blast
    then show ?case by (rule gateway_inv_oj [OF easy.IH])
  next
    case (save ts w p)
    show ?case
      by (rule gateway_inv_oj [OF save.IH, where ks = "[]"])
        (cases "save_problem ?o p (gateway_oj w)"; cases "fst (save_problem ?o p (gateway_oj w))";
         use save_problem_keys [of upper answer_json p "gateway_oj w"] in \<open>auto simp: create_problem_def\<close>)
  next
    case (update ts w problem_id p)
    show ?case
      by (rule gateway_inv_oj [OF update.IH, where ks = "[]"])
        (cases "save_problem ?o p (gateway_oj w)"; cases "fst (save_problem ?o p (gateway_oj w))";
         use save_problem_keys [of upper answer_json p "gateway_oj w"] in \<open>auto simp: update_problem_def\<close>)
  qed (simp_all add: post_inv round_inv spawned_inv replay_inv)
  then show ?thesis by (simp add: gateway_inv_def)
qed

definition sample_config :: runtime_config where
  "sample_config =
     \<lparr>cg_work_root = ''/work'', cg_nsjail_path = ''/usr/bin/nsjail'', cg_node_id = ''n'',
      cg_seccomp_mode = CfgLog, cg_syscall_flavor = CfgGeneric, cg_syscall_arch = CfgX86_64,
      cg_broker_backend = BackendMemory,
      cg_rabbitmq = \<lparr>rq_url = [], rq_exchange = [], rq_queue_prefix = []\<rparr>,
      cg_nats = \<lparr>nt_url = [], nt_stream_name = [], nt_subject_prefix = [], nt_consumer_prefix = [],
        nt_ack_wait_ms = 0\<rparr>,
      cg_redis_streams = \<lparr>rs_url = [], rs_stream_prefix = [], rs_consumer_group_prefix = [],
        rs_consumer_name_prefix = [], rs_pending_reclaim_idle_ms = 0\<rparr>,
      cg_worker_groups = default_worker_groups_config\<rparr>"

definition sample_draft :: submission_draft where
  "sample_draft = \<lparr>sd_problem_id = ProblemId ''two-sum'', sd_user_id = UserId ''u1'',
     sd_language = ''python'', sd_source_code = ''print(3)''\<rparr>"

definition sample_clock :: request_clock where
  "sample_clock = \<lparr>rk_create = 5000000, rk_context = 5000000, rk_schedule = 5000000, rk_event = 5000000\<rparr>"

definition sample_oj :: "(mem_problems, mem_submissions) oj_parts" where
  "sample_oj = memory_oj (\<lambda>s. s) (\<lambda>_. Inr ''A'')"

definition sample_gateway_parts ::
    "(mem_queue, (mem_problems, mem_submissions) gateway_obs) service_parts" where
  "sample_gateway_parts = gateway_parts sample_worker sample_oj False (\<lambda>_ _. 5000000)"

definition sample_gateway :: mem_gateway where
  "sample_gateway = build_gateway_services sample_config 0 (default_mem_queue empty_metrics)
     \<lparr>os_problems = seeded_problems, os_submissions = []\<rparr> []"

definition sample_submitted :: mem_gateway where
  "sample_submitted = snd (gateway_submit sample_oj sample_gateway_parts sample_clock sample_draft sample_gateway)"

lemma sample_submitted_waits: "size (queue_tasks (sv_queue (gw_runtime sample_submitted))) = 1"
  by code_simp

theorem queued_tasks_are_submissions_witness:
  "\<exists>t. queue_tasks (sv_queue (gw_runtime sample_submitted)) = {#t#} \<and>
     task_of_submission (submission_keys (os_submissions (gateway_oj sample_submitted))) t"
proof -
  have run: "gateway_run sample_oj sample_gateway_parts [] sample_submitted"
    unfolding sample_submitted_def sample_gateway_def
    by (intro gateway_run.submit gateway_run.new)
  obtain t where t: "queue_tasks (sv_queue (gw_runtime sample_submitted)) = {#t#}"
    using size_1_singleton_mset [OF sample_submitted_waits] by blast
  then show ?thesis
    using run queued_tasks_are_submissions [of "\<lambda>s. s" "\<lambda>_. Inr ''A''" sample_worker False "\<lambda>_ _. 5000000" "[]" sample_submitted]
    by (simp add: sample_oj_def sample_gateway_parts_def)
qed

end
