(* ===== verification/Oj_Props.thy ===== *)
theory Oj_Props
  imports Gateway_Runs Rust_Trim Prepare_Props
begin

text \<open>
  The online judge and what is behind it: which submissions the worker accepts, what a verdict
  tells of an execution, late events, and the judgement of easy answers.
\<close>

section \<open>From a draft to the worker\<close>

text \<open>
  What the worker asks of a problem, its limits and a language, and the online judge does not
  ensure: \<open>validate_oj_task\<close>, the default catalog with its sandboxes, and the languages of a
  special judge.
\<close>

definition catalog_runs :: "string \<Rightarrow> runtime_sandbox_kind \<Rightarrow> bool" where
  "catalog_runs language kind \<longleftrightarrow>
     language = ''cpp'' \<or> language = ''rust'' \<or> language = ''python'' \<and> kind = RtNsjail"

definition spj_language_known :: "string \<Rightarrow> bool" where
  "spj_language_known l \<longleftrightarrow> List.member [''python'', ''python3'', ''rust'', ''cpp'', ''c++''] l"

definition worker_ready :: "problem \<Rightarrow> string \<Rightarrow> bool" where
  "worker_ready p language \<longleftrightarrow>
     distinct (map tt_case_no (pb_testcases p)) \<and>
     is_some_and (map_of (pb_limits p) language)
       (\<lambda>l. 0 < li_time_limit_ms l \<and> 0 < li_memory_limit_kb l) \<and>
     (pb_judge_mode p = ModeFunctional \<longrightarrow>
        is_some_and (pb_judge_config p) (\<lambda>c. cf_function_signature c \<noteq> None)) \<and>
     catalog_runs language (map_runtime_sandbox_kind (pb_sandbox_kind p)) \<and>
     map_or_true (pb_judge_config p) (\<lambda>c. cf_judge_method c = MethodSpj \<longrightarrow>
       is_some_and (cf_spj c) (\<lambda>spj. spj_language_known (sj_language spj)))"

text \<open>A worker with the default catalog on a host that refuses no file and prints all JSON.\<close>

definition default_worker :: "runtime_worker \<Rightarrow> worker_host \<Rightarrow> runtime_worker" where
  "default_worker w h = w\<lparr>wk_catalog := build_default_runtime_catalog (wh_env h)\<rparr>"

definition willing_host :: "(json \<Rightarrow> string) \<Rightarrow> worker_host \<Rightarrow> worker_host" where
  "willing_host pretty h = h\<lparr>wh_io := \<lambda>_. None, wh_to_vec_pretty := \<lambda>j. Some (pretty j)\<rparr>"

lemma default_plan_iff:
  assumes "wk_catalog w = build_default_runtime_catalog e"
  shows "(\<exists>plan. build_task_plan w payload = Inr plan) \<longleftrightarrow>
    catalog_runs (oj_language payload) (oj_sandbox_kind payload)"
  by (cases "oj_sandbox_kind payload")
    (auto simp: build_task_plan_def assms default_catalog planner_def planner_build_plan_def
      planner_sandboxes_simps recipe_defs cpp_toolchain_def python_toolchain_def rust_toolchain_def
      catalog_runs_def and_then_Inr_iff ok_or_def Let_def)

lemma spj_spec_iff:
  "(\<exists>x. build_spj_execution_spec e spj = Inr x) \<longleftrightarrow> spj_language_known (spj_language spj)"
  by (auto simp: build_spj_execution_spec_def spj_language_known_def Let_def)

lemma build_spj_artifacts_Inr:
  "build_spj_artifacts w h wd c fs = (Inr s, fs') \<Longrightarrow> spj_ok (wh_env h) c"
  by (auto simp: build_spj_artifacts_def spj_ok_def is_some_and_iff st_then_Inr_iff ok_or_def
      split: option.splits if_splits)

text \<open>The worker's preparation succeeds exactly for these tasks.\<close>

lemma prepare_accepts_iff:
  assumes "rt_payload task = PayloadOjJudge payload"
  shows "isl (fst (prepare (default_worker w h) (willing_host pretty h) task fs)) \<longleftrightarrow>
    \<not> (validate_oj_task payload = Inr () \<and>
       catalog_runs (oj_language payload) (oj_sandbox_kind payload) \<and>
       spj_ok (wh_env h) (oj_judge_config payload))"
    (is "isl (fst ?r) \<longleftrightarrow> \<not> ?ok")
proof -
  have r: "?r = prepare_oj_task (default_worker w h) (willing_host pretty h) (rt_task_id task) payload fs"
    by (simp add: prepare_def assms)
  have catalog: "wk_catalog (default_worker w h) = build_default_runtime_catalog (wh_env h)"
    and host: "wh_io (willing_host pretty h) = (\<lambda>_. None)" "\<And>j. wh_to_vec_pretty (willing_host pretty h) j \<noteq> None"
      "wh_env (willing_host pretty h) = wh_env h"
    by (simp_all add: default_worker_def willing_host_def)
  have "?ok" if "fst ?r = Inr a" for a
  proof -
    obtain fs' where "?r = (Inr a, fs')" using \<open>fst ?r = Inr a\<close> by (cases ?r) simp
    from prepare_oj_task_Inr [OF this [unfolded r]] show ?ok
      by (metis build_spj_artifacts_Inr default_plan_iff [OF catalog] host(3))
  qed
  moreover have "\<exists>a. fst ?r = Inr a" if ok: ?ok
  proof -
    obtain plan where "build_task_plan (default_worker w h) payload = Inr plan"
      using ok default_plan_iff [OF catalog] by blast
    from prepare_oj_task_succeeds [OF host(1,2) _ this, of "rt_task_id task" fs] ok show ?thesis
      unfolding r host(3) by force
  qed
  ultimately show ?thesis by (cases "fst ?r") auto
qed

lemma plain_letters [simp]: "plain (CHR ''t'')" "plain (CHR ''s'')" "plain (CHR ''o'')" "plain (CHR ''h'')"
    "plain (CHR ''n'')" "plain (CHR ''f'')" "plain (CHR ''j'')"
  by code_simp+

lemma blank_start [simp]:
  "\<not> blank (CHR ''t'' # s)" "\<not> blank (CHR ''s'' # s)" "\<not> blank (CHR ''o'' # s)" "\<not> blank (CHR ''h'' # s)"
  "\<not> blank (CHR ''n'' # s)" "\<not> blank (CHR ''f'' # s)" "\<not> blank (CHR ''j'' # s)"
  by (simp_all add: plain_not_blank)

lemma create_submission_Inr:
  assumes "create_submission (memory_oj up js) now draft s = (Inr sub, s')"
  obtains p where "problems_find_detail (problem_id_0 (sd_problem_id draft)) (os_problems s) =
      Inr (Some \<lparr>pd_problem = p\<rparr>)"
    and "validate_problem p = Inr ()" "pb_judge_mode p \<noteq> ModeEasyJudge"
    and "map_of (pb_limits p) (sd_language draft) \<noteq> None" "\<not> blank (sd_source_code draft)"
    and "submissions_create now draft (os_submissions s) = (Inr sub, os_submissions s')"
    and "os_problems s' = os_problems s"
proof -
  obtain d where d: "get_problem_detail (memory_oj up js) (problem_id_0 (sd_problem_id draft)) s = Inr d"
    and v: "validate_problem (pd_problem d) = Inr ()" "pb_judge_mode (pd_problem d) \<noteq> ModeEasyJudge"
      "map_of (pb_limits (pd_problem d)) (sd_language draft) \<noteq> None"
      "submissions_validate draft (os_submissions s) = Inr ()"
    and c: "submissions_create now draft (os_submissions s) = (Inr sub, os_submissions s')"
      "os_problems s' = os_problems s"
    using assms by (auto simp: create_submission_def st_then_Inr_iff check_draft_def and_then_Inr_iff Let_def
        split: prod.splits if_splits)
  have "problems_find_detail (problem_id_0 (sd_problem_id draft)) (os_problems s) = Inr (Some d)"
    using d by (auto simp: get_problem_detail_def and_then_Inr_iff ok_or_def split: option.splits)
  moreover have "\<not> blank (sd_source_code draft)" using v(4) by (auto simp: submissions_validate_def split: if_splits)
  ultimately show ?thesis using v c that [of "pd_problem d"] by simp
qed

lemma created_submission:
  assumes "submissions_create now draft ss = (Inr sub, ss')"
  shows "ss' = ss @ [\<lparr>sm_submission = sub, sm_source_code = sd_source_code draft, sm_result = None\<rparr>]"
    and "sb_problem_id sub = sd_problem_id draft" "sb_language sub = sd_language draft"
    and "\<exists>x. submission_id_0 (sb_submission_id sub) = ''sub-'' @ x"
  using assms by (auto simp: submissions_create_def st_then_Inr_iff new_submission_id_def Let_def split: if_splits)

lemma wasm_validator:
  assumes "validate_problem p = Inr ()" "pb_sandbox_kind p \<noteq> KindNsjail"
  shows "map_or_true (pb_judge_config p) (\<lambda>c. cf_judge_method c = MethodValidator)"
proof -
  have k: "pb_sandbox_kind p = KindWasm \<or> pb_sandbox_kind p = KindNsjailWasm"
    using assms(2) by (cases "pb_sandbox_kind p") auto
  have "validate_wasm_problem p = Inr ()"
    using assms(1) k unfolding validate_problem_def by (auto simp: and_then_Inr_iff split: if_splits)
  then have "\<not> is_some_and (pb_judge_config p) (\<lambda>c. cf_judge_method c = MethodSpj)"
    by (auto simp: validate_wasm_problem_def split: if_splits option.splits)
  then show ?thesis
    by (cases "pb_judge_config p") (auto intro: judge_method.exhaust)
qed

lemma validate_problem_testcases:
  "validate_problem p = Inr () \<Longrightarrow> pb_judge_mode p \<noteq> ModeEasyJudge \<Longrightarrow> pb_testcases p \<noteq> []"
  unfolding validate_problem_def by (auto simp: and_then_Inr_iff split: if_splits)

text \<open>The job of a submission, validated by the platform and looked at by the worker.\<close>

lemma job_of_submission_valid:
  assumes "\<not> blank (sm_source_code d)" and "submission_id_0 (sb_submission_id (sm_submission d)) = ''sub-'' @ x"
  shows "validate_job gateway_registry (job_of_submission p d limits m) = Inr ()"
  using assms by (simp add: validate_job_def job_of_submission_def build_oj_judge_job_def Let_def
      gateway_registry_resolves oj_job_namespace_def oj_judge_job_name_def oj_job_source_domain_def
      derive_runtime_lane_def)

lemma job_task_of_submission:
  "map_job_to_runtime_task (job_of_submission p d limits m) = Inr
     \<lparr>rt_task_id = ''task-'' @ submission_id_0 (sb_submission_id (sm_submission d)),
      rt_task_type = RtOjJudge, rt_source_domain = ''oj'',
      rt_source_entity_id = submission_id_0 (sb_submission_id (sm_submission d)),
      rt_queue = ''oj_judge'', rt_lane = derive_runtime_lane p (sb_language (sm_submission d)),
      rt_retry_policy = \<lparr>rp_max_attempts = 3, rp_retry_delay_ms = 1000\<rparr>,
      rt_payload = PayloadOjJudge
        \<lparr>oj_submission_id = sb_submission_id (sm_submission d), oj_problem_id = pb_problem_id p,
         oj_user_id = sb_user_id (sm_submission d), oj_language = sb_language (sm_submission d),
         oj_judge_mode = m, oj_sandbox_kind = map_runtime_sandbox_kind (pb_sandbox_kind p),
         oj_source_code = sm_source_code d,
         oj_limits = \<lparr>lim_time_limit_ms = li_time_limit_ms limits,
           lim_memory_limit_kb = li_memory_limit_kb limits\<rparr>,
         oj_testcases = map (\<lambda>t. \<lparr>tc_case_no = tt_case_no t, tc_input = tt_input t,
           tc_expected_output = tt_expected_output t, tc_score = tt_score t\<rparr>) (pb_testcases p),
         oj_judge_config = map_option map_runtime_judge_config (pb_judge_config p)\<rparr>\<rparr>"
  by (simp add: job_of_submission_def build_oj_judge_job_def map_job_to_runtime_task_def Let_def
      oj_job_source_domain_def)

lemma problem_id_0_inject: "problem_id_0 a = problem_id_0 b \<longleftrightarrow> a = b"
  by (cases a; cases b) simp

lemma is_some_and_map [simp]: "is_some_and (map_option f x) P = is_some_and x (\<lambda>a. P (f a))"
  by (cases x) simp_all

lemma map_runtime_judge_config_simps [simp]:
  "jc_function_signature (map_runtime_judge_config c) = None \<longleftrightarrow> cf_function_signature c = None"
  "jc_judge_method (map_runtime_judge_config c) = RtSpj \<longleftrightarrow> cf_judge_method c = MethodSpj"
  by (simp_all add: map_runtime_judge_config_def split: judge_method.split)

text \<open>The worker's answer for the job of a problem that the online judge accepted.\<close>

lemma worker_accepts_iff:
  assumes v: "validate_problem p = Inr ()" and m: "map_runtime_judge_mode (pb_judge_mode p) = Inr m"
    and l: "map_of (pb_limits p) (sb_language (sm_submission d)) = Some limits"
    and s: "\<not> blank (sm_source_code d)"
    and t: "map_job_to_runtime_task (job_of_submission p d limits m) = Inr task"
  shows "(case rt_payload task of PayloadOjJudge payload \<Rightarrow>
    \<not> isl (fst (prepare (default_worker w h) (willing_host pretty h) task fs)) \<longleftrightarrow>
      worker_ready p (sb_language (sm_submission d)))"
proof -
  have easy: "pb_judge_mode p \<noteq> ModeEasyJudge" using m by (auto simp: map_runtime_judge_mode_def)
  note cases = validate_problem_testcases [OF v easy]
  have mode: "m = RtFunctional \<longleftrightarrow> pb_judge_mode p = ModeFunctional"
    using m by (cases "pb_judge_mode p") (auto simp: map_runtime_judge_mode_def)
  have wasm: "\<not> ((map_runtime_sandbox_kind (pb_sandbox_kind p) = RtWasm \<or>
        map_runtime_sandbox_kind (pb_sandbox_kind p) = RtNsjailWasm) \<and>
      is_some_and (pb_judge_config p) (\<lambda>c. cf_judge_method c = MethodSpj))"
    using wasm_validator [OF v]
    by (cases "pb_judge_config p"; cases "pb_sandbox_kind p") (auto simp: map_runtime_sandbox_kind_def)
  have spj: "spj_ok (wh_env h) (map_option map_runtime_judge_config (pb_judge_config p)) \<longleftrightarrow>
      map_or_true (pb_judge_config p) (\<lambda>c. cf_judge_method c = MethodSpj \<longrightarrow>
        is_some_and (cf_spj c) (\<lambda>spj. spj_language_known (sj_language spj)))"
    by (cases "pb_judge_config p")
      (auto simp: spj_ok_def spj_spec_iff map_runtime_judge_config_def split: judge_method.splits)
  obtain payload where pl: "rt_payload task = PayloadOjJudge payload" by (cases "rt_payload task")
  have "validate_oj_task payload = Inr () \<longleftrightarrow>
      distinct (map tt_case_no (pb_testcases p)) \<and> 0 < li_time_limit_ms limits \<and> 0 < li_memory_limit_kb limits \<and>
      (pb_judge_mode p = ModeFunctional \<longrightarrow>
        is_some_and (pb_judge_config p) (\<lambda>c. cf_function_signature c \<noteq> None))"
    using t s cases pl wasm unfolding job_task_of_submission
    by (auto simp del: not_None_eq simp: validates_iff mode blank_def word_neq_0_conv o_def)
  moreover have "oj_language payload = sb_language (sm_submission d)"
    "oj_sandbox_kind payload = map_runtime_sandbox_kind (pb_sandbox_kind p)"
    "oj_judge_config payload = map_option map_runtime_judge_config (pb_judge_config p)"
    using t pl unfolding job_task_of_submission by auto
  ultimately show ?thesis
    using spj prepare_accepts_iff [OF pl, of w h pretty fs] l
    unfolding worker_ready_def pl by auto
qed

lemma accepted_draft:
  assumes c: "create_submission (memory_oj up js) now draft s = (Inr sub, s')"
    and fresh: "\<not> list_ex (\<lambda>k. sk_id k = submission_id_0 (sb_submission_id sub)) (submission_keys (os_submissions s))"
  shows "(case build_job_definition (memory_oj up js) (submission_id_0 (sb_submission_id sub)) s' of
              Inl _ \<Rightarrow> False
            | Inr job \<Rightarrow>
                validate_job gateway_registry job = Inr () \<and>
                (case map_job_to_runtime_task job of
                   Inl _ \<Rightarrow> False
                 | Inr task \<Rightarrow>
                     (case rt_payload task of PayloadOjJudge payload \<Rightarrow>
                        oj_source_code payload = sd_source_code draft \<and>
                        oj_language payload = sd_language draft \<and>
                        (\<not> isl (fst (prepare (default_worker w h) (willing_host pretty h) task fs)) \<longleftrightarrow>
                           (case find (\<lambda>p. pb_problem_id p = sd_problem_id draft) (os_problems s) of
                              None \<Rightarrow> False | Some p \<Rightarrow> worker_ready p (sd_language draft))))))"
proof -
  from create_submission_Inr [OF c] obtain p where
    p: "problems_find_detail (problem_id_0 (sd_problem_id draft)) (os_problems s) = Inr (Some \<lparr>pd_problem = p\<rparr>)"
    and v: "validate_problem p = Inr ()" "pb_judge_mode p \<noteq> ModeEasyJudge"
    and l: "map_of (pb_limits p) (sd_language draft) \<noteq> None" and src: "\<not> blank (sd_source_code draft)"
    and sc: "submissions_create now draft (os_submissions s) = (Inr sub, os_submissions s')"
    and ps: "os_problems s' = os_problems s" by blast
  obtain limits where limits: "map_of (pb_limits p) (sd_language draft) = Some limits" using l by blast
  obtain m where m: "map_runtime_judge_mode (pb_judge_mode p) = Inr m"
    using v(2) by (cases "pb_judge_mode p") (auto simp: map_runtime_judge_mode_def)
  let ?sid = "submission_id_0 (sb_submission_id sub)"
  let ?d = "\<lparr>sm_submission = sub, sm_source_code = sd_source_code draft, sm_result = None\<rparr>"
  note sub = created_submission [OF sc]
  obtain x where x: "?sid = ''sub-'' @ x" using sub(4) by blast
  have found: "find (\<lambda>p. pb_problem_id p = sd_problem_id draft) (os_problems s) = Some p"
    using p by (auto simp: problems_find_detail_def problem_id_0_inject)
  have "find (\<lambda>d. submission_id_0 (sb_submission_id (sm_submission d)) = ?sid) (os_submissions s) = None"
    using fresh by (auto simp: find_None_iff list_ex_iff submission_keys_def submission_key_def Let_def)
  then have "submissions_find ?sid (os_submissions s') = Inr (Some ?d)"
    by (simp add: submissions_find_def sub(1) find_append)
  then have job: "build_job_definition (memory_oj up js) ?sid s' = Inr (job_of_submission p ?d limits m)"
    using p v limits m sub(2,3) ps
    by (simp add: build_job_definition_def get_submission_detail_def get_problem_detail_def)
  have ok: "validate_job gateway_registry (job_of_submission p ?d limits m) = Inr ()"
    using src x by (intro job_of_submission_valid) simp_all
  obtain task where t: "map_job_to_runtime_task (job_of_submission p ?d limits m) = Inr task"
    unfolding job_task_of_submission by blast
  have w: "case rt_payload task of PayloadOjJudge payload \<Rightarrow>
      \<not> isl (fst (prepare (default_worker w h) (willing_host pretty h) task fs)) \<longleftrightarrow>
        worker_ready p (sd_language draft)"
    using worker_accepts_iff [OF v(1) m _ _ t, where w = w and h = h and pretty = pretty and fs = fs] limits src sub(3)
    by (cases "rt_payload task") simp
  show ?thesis
    using job ok t w sub(3) unfolding job_task_of_submission by (auto simp: found t)
qed

text \<open>A taken id: the submission that has it is built again.\<close>

lemma taken_id:
  assumes c: "create_submission (memory_oj up js) now draft s = (Inr sub, s')"
    and taken: "list_ex (\<lambda>k. sk_id k = submission_id_0 (sb_submission_id sub)) (submission_keys (os_submissions s))"
    and job: "build_job_definition (memory_oj up js) (submission_id_0 (sb_submission_id sub)) s' = Inr job"
  shows "list_ex (\<lambda>k. sk_id k = submission_id_0 (sb_submission_id sub) \<and>
      (case jb_payload job of JpOjJudge q \<Rightarrow> oq_source_code q = sk_source_code k | JpJson _ \<Rightarrow> False))
      (submission_keys (os_submissions s))"
proof -
  let ?sid = "submission_id_0 (sb_submission_id sub)"
  from create_submission_Inr [OF c]
  have ss: "\<exists>d. os_submissions s' = os_submissions s @ [d]" by (metis created_submission(1))
  obtain d p limits m where d: "submissions_find ?sid (os_submissions s') = Inr (Some d)"
    and j: "job = job_of_submission p d limits m"
    by (rule built_job_submission [OF job])
  have "find (\<lambda>k. sk_id k = ?sid) (submission_keys (os_submissions s)) \<noteq> None"
    using taken by (auto simp: find_None_iff list_ex_iff)
  then have "find (\<lambda>k. sk_id k = ?sid) (submission_keys (os_submissions s)) = Some (submission_key d)"
    using submissions_find_key [OF d] ss by (auto simp: submission_keys_def find_append split: option.splits)
  then have "submission_key d \<in> set (submission_keys (os_submissions s))" "sk_id (submission_key d) = ?sid"
    by (auto simp: find_Some_iff in_set_conv_nth)
  moreover have "sm_source_code d = sk_source_code (submission_key d)" by (simp add: submission_key_def Let_def)
  ultimately show ?thesis
    unfolding list_ex_iff j job_of_submission_def build_oj_judge_job_def Let_def
    by (intro bexI [of _ "submission_key d"]) simp_all
qed

text \<open>C23: A draft that the online judge refuses leaves its state as it was. For a draft it accepts under
  an id that is not taken, the job built from the stored submission carries the draft's source and
  language, the job platform accepts it, and a worker with the default catalog, on a host that
  refuses no file, prepares its task exactly when the problem's test cases have distinct numbers,
  its limits are positive, a functional problem has a signature, the language is C++ or Rust, or
  Python in the native sandbox, and a special judge is in one of the worker's languages: conditions
  that the online judge does not ensure. Under an id that is taken, as by two drafts within one
  millisecond, a job that is built carries the source of a submission stored before.\<close>

theorem accepted_drafts_reach_the_worker:
  "(case create_submission (memory_oj up js) now draft s of
      (Inl _, s') \<Rightarrow> s' = s
    | (Inr sub, s') \<Rightarrow>
        (if list_ex (\<lambda>k. sk_id k = submission_id_0 (sb_submission_id sub)) (submission_keys (os_submissions s))
         then
           (case build_job_definition (memory_oj up js) (submission_id_0 (sb_submission_id sub)) s' of
              Inl _ \<Rightarrow> True
            | Inr job \<Rightarrow> list_ex (\<lambda>k. sk_id k = submission_id_0 (sb_submission_id sub) \<and>
                (case jb_payload job of JpOjJudge q \<Rightarrow> oq_source_code q = sk_source_code k | JpJson _ \<Rightarrow> False))
                (submission_keys (os_submissions s)))
         else
           (case build_job_definition (memory_oj up js) (submission_id_0 (sb_submission_id sub)) s' of
              Inl _ \<Rightarrow> False
            | Inr job \<Rightarrow>
                validate_job gateway_registry job = Inr () \<and>
                (case map_job_to_runtime_task job of
                   Inl _ \<Rightarrow> False
                 | Inr task \<Rightarrow>
                     (case rt_payload task of PayloadOjJudge payload \<Rightarrow>
                        oj_source_code payload = sd_source_code draft \<and>
                        oj_language payload = sd_language draft \<and>
                        (\<not> isl (fst (prepare (default_worker w h) (willing_host pretty h) task fs)) \<longleftrightarrow>
                           (case find (\<lambda>p. pb_problem_id p = sd_problem_id draft) (os_problems s) of
                              None \<Rightarrow> False | Some p \<Rightarrow> worker_ready p (sd_language draft))))))))"
proof (cases "create_submission (memory_oj up js) now draft s")
  case (Pair r s')
  show ?thesis
  proof (cases r)
    case (Inl err)
    have "s' = s" using Pair Inl
      by (auto simp: create_submission_def st_then_def submissions_create_def Let_def split: sum.splits prod.splits)
    then show ?thesis using Pair Inl by simp
  next
    case (Inr sub)
    with Pair have c: "create_submission (memory_oj up js) now draft s = (Inr sub, s')" by simp
    show ?thesis
      using accepted_draft [OF c] taken_id [OF c] unfolding c by (simp split: sum.split)
  qed
qed

end
