(* ===== verification/Verdicts.thy ===== *)
theory Verdicts
  imports Oj_Props Execute_Props
begin

text \<open>
  What a submission shows: the verdict of an execution, the effect of an event that is delivered
  late, and the judgement of easy answers.
\<close>

section \<open>The verdict of an execution\<close>

lemma map_compile_failure_not_accepted [simp]: "map_compile_failure_status k \<noteq> SsAccepted"
  by (cases k) (auto simp: map_compile_failure_status_def split: failure_kind.splits)

lemma map_case_failure_accepted_iff [simp]:
  "map_submission_case_failure_status c = SsAccepted \<longleftrightarrow> c = CsAccepted"
  by (cases c) simp_all

text \<open>The case that decides: the first that is not accepted is the last one.\<close>

lemma stops_at_failure_find:
  "stops_at_failure cs \<Longrightarrow> cs \<noteq> [] \<Longrightarrow> co_status (last cs) \<noteq> CsAccepted \<Longrightarrow>
     find (\<lambda>c. co_status c \<noteq> CsAccepted) cs = Some (last cs) \<and>
     filter (\<lambda>c. co_status c = CsAccepted) cs = butlast cs"
  by (induction cs rule: stops_at_failure.induct) auto

lemma wrong_answer_is_last:
  assumes "find (\<lambda>c. co_status c \<noteq> CsAccepted) cs = Some c" and "stops_at_failure cs" and "cs \<noteq> []"
    and "co_status (last cs) \<noteq> CsAccepted"
  shows "list_ex (\<lambda>c. co_status c = CsWrongAnswer) cs \<longleftrightarrow> co_status (last cs) = CsWrongAnswer"
  using assms(2-4) by (induction cs rule: stops_at_failure.induct) auto

lemma stage_scores:
  assumes "cases_of_stages cs stages"
  shows "map co_score cs = map ps_score (take (length cs) stages)"
proof -
  have "map snd (map (\<lambda>c. (co_case_no c, co_score c)) cs) =
      map snd (map (\<lambda>s. (run_case_no s, ps_score s)) (take (length cs) stages))"
    using assms by (simp add: cases_of_stages_def)
  then show ?thesis by (simp add: o_def)
qed

text \<open>A stage that was executed is not skipped, so that what did not succeed has failed.\<close>

lemma optional_stage_not_skipped:
  "execute_optional_stage h st fs = (Some (Inr (Some c)), fs') \<Longrightarrow> so_status c \<noteq> StSkipped"
  by (auto simp: execute_optional_stage_def run_then_Inr execute_stage_def stage_outcome_of_def Let_def
      split: option.splits if_splits prod.splits process_result.splits)

lemma executed_not_skipped:
  assumes "execute w env h a fs = (Some (Inr out), fs')"
  shows "\<not> is_some_and (eo_compile out) (\<lambda>c. so_status c = StSkipped)"
    and "\<not> is_some_and (eo_judge_compile out) (\<lambda>c. so_status c = StSkipped)"
  using assms
  by (cases "eo_compile out"; cases "eo_judge_compile out";
      auto simp: execute_def run_then_Inr split: if_splits dest: optional_stage_not_skipped)+

lemma failed_compile_iff:
  assumes "\<not> is_some_and stage (\<lambda>c. so_status c = StSkipped)"
  shows "stage_failed stage \<Longrightarrow> \<exists>k m. failed_compile stage fallback = Some (map_compile_failure_status k, m)"
    and "\<not> stage_failed stage \<Longrightarrow> failed_compile stage fallback = None"
proof -
  have "so_status c = StFailed \<longleftrightarrow> so_status c \<noteq> StSucceeded" if "stage = Some c" for c
    using assms that by (cases "so_status c") simp_all
  then show "stage_failed stage \<Longrightarrow> \<exists>k m. failed_compile stage fallback = Some (map_compile_failure_status k, m)"
    and "\<not> stage_failed stage \<Longrightarrow> failed_compile stage fallback = None"
    by (cases stage; auto simp: failed_compile_def stage_failed_def)+
qed

lemma failed_stage_projection:
  assumes "\<not> is_some_and (eo_compile out) (\<lambda>c. so_status c = StSkipped)"
    and "\<not> is_some_and (eo_judge_compile out) (\<lambda>c. so_status c = StSkipped)"
    and "stage_failed (eo_compile out) \<or> stage_failed (eo_judge_compile out)"
  shows "\<exists>k. fst (classify_failure (Some out) fallback) = map_compile_failure_status k"
  using failed_compile_iff [OF assms(1), of fallback] failed_compile_iff [OF assms(2), of fallback] assms(3)
  by (cases "stage_failed (eo_judge_compile out)") (auto simp: classify_failure_def)

lemma failed_case_projection:
  assumes "\<not> is_some_and (eo_compile out) (\<lambda>c. so_status c = StSkipped)"
    and "\<not> is_some_and (eo_judge_compile out) (\<lambda>c. so_status c = StSkipped)"
    and "\<not> stage_failed (eo_compile out)" and "\<not> stage_failed (eo_judge_compile out)"
    and shape: "stops_at_failure (eo_cases out)" "eo_cases out \<noteq> []" "co_status (last (eo_cases out)) \<noteq> CsAccepted"
  shows "fst (classify_failure (Some out) fallback) =
    map_submission_case_failure_status (co_status (last (eo_cases out)))"
proof -
  have none: "failed_compile (eo_compile out) fallback = None" "failed_compile (eo_judge_compile out) fallback = None"
    using failed_compile_iff(2) assms by auto
  have f: "find (\<lambda>c. co_status c \<noteq> CsAccepted) (eo_cases out) = Some (last (eo_cases out))"
    using stops_at_failure_find [OF shape] by simp
  show ?thesis
    using wrong_answer_is_last [OF f shape] by (simp add: classify_failure_def none f)
qed

lemma outcome_scores:
  assumes "cases_of_stages (eo_cases out) (pa_run_stages a)"
  shows "total_score (Some out) = sum_list (map ps_score (take (length (eo_cases out)) (pa_run_stages a)))"
    and "list_all (\<lambda>c. co_status c = CsAccepted) (eo_cases out) \<Longrightarrow>
      accepted_score (Some out) = total_score (Some out)"
    and "stops_at_failure (eo_cases out) \<Longrightarrow> eo_cases out \<noteq> [] \<Longrightarrow>
      co_status (last (eo_cases out)) \<noteq> CsAccepted \<Longrightarrow>
      accepted_score (Some out) =
        sum_list (map ps_score (take (length (eo_cases out) - 1) (pa_run_stages a)))"
proof -
  note scores = stage_scores [OF assms]
  show "total_score (Some out) = sum_list (map ps_score (take (length (eo_cases out)) (pa_run_stages a)))"
    by (simp add: total_score_def scores)
  show "accepted_score (Some out) = total_score (Some out)"
    if "list_all (\<lambda>c. co_status c = CsAccepted) (eo_cases out)"
    using that by (simp add: accepted_score_def total_score_def filter_id_conv list_all_iff)
  show "accepted_score (Some out) =
      sum_list (map ps_score (take (length (eo_cases out) - 1) (pa_run_stages a)))"
    if "stops_at_failure (eo_cases out)" "eo_cases out \<noteq> []" "co_status (last (eo_cases out)) \<noteq> CsAccepted"
  proof -
    have "length (eo_cases out) \<le> length (pa_run_stages a)"
      using arg_cong [OF scores, of length] by simp
    then have "map co_score (butlast (eo_cases out)) =
        map ps_score (take (length (eo_cases out) - 1) (pa_run_stages a))"
      using map_butlast [of co_score "eo_cases out"]
        map_butlast [of ps_score "take (length (eo_cases out)) (pa_run_stages a)"]
      by (simp add: scores butlast_take)
    then show ?thesis using stops_at_failure_find [OF that] by (simp add: accepted_score_def)
  qed
qed

text \<open>C25: What a submission shows after the final event of an execution: it is accepted exactly when the
  execution completed, and then its score is the sum of the scores of all run stages. After a failed
  compilation it shows the kind of that failure and no points; after a failed case the kind of that
  case and the points of the cases before it, but as its maximal score only the points of the cases
  that were run.\<close>

theorem verdict_tells_the_execution:
  "case fst (execute w env h a fs) of
     Some (Inr out) \<Rightarrow>
       (case derive_submission_projection
               (snapshot_event task attempt (final_snapshot task a out) (Some a) (Some out)) of
          (status, score, max_score, message) \<Rightarrow>
            (status = SsAccepted \<longleftrightarrow> eo_final_status out = LcCompleted) \<and>
            (if status = SsAccepted
             then score = sum_list (map ps_score (pa_run_stages a)) \<and> max_score = score
             else if eo_cases out = []
             then (\<exists>k. status = map_compile_failure_status k) \<and> score = 0 \<and> max_score = 0
             else status = map_submission_case_failure_status (co_status (last (eo_cases out))) \<and>
               score = sum_list (map ps_score (take (length (eo_cases out) - 1) (pa_run_stages a))) \<and>
               max_score = sum_list (map ps_score (take (length (eo_cases out)) (pa_run_stages a)))))
   | _ \<Rightarrow> True"
proof (cases "fst (execute w env h a fs)")
  case (Some r)
  show ?thesis
  proof (cases r)
    case (Inr out)
    with Some have "execute w env h a fs = (Some (Inr out), snd (execute w env h a fs))"
      by (metis prod.collapse)
    note shape = execute_shape [OF this] and run = executed_not_skipped [OF this]
    have projection: "derive_submission_projection
        (snapshot_event task attempt (final_snapshot task a out) (Some a) (Some out)) =
      (if eo_final_status out = LcCompleted
       then (SsAccepted, accepted_score (Some out), total_score (Some out), Some ''accepted'')
       else (fst (classify_failure (Some out) (final_message LcFailed)), accepted_score (Some out),
             total_score (Some out), Some (snd (classify_failure (Some out) (final_message LcFailed)))))"
      using shape by (auto simp: derive_submission_projection_def snapshot_event_def final_snapshot_def
          snapshot_of_def case_prod_beta)
    show ?thesis
      unfolding Some Inr option.case sum.case projection
      using outcome_scores [of out a] shape failed_stage_projection [OF run, of "final_message LcFailed"]
        failed_case_projection [OF run, of "final_message LcFailed"]
      by (auto split: if_splits dest: map_compile_failure_not_accepted [THEN notE, OF sym])
  qed (simp add: Some)
qed simp

section \<open>Late events\<close>

lemma spawned_kept [simp]:
  "sv_spawned (handle_delivery_failure e now task n k a err s) = sv_spawned s"
  "sv_spawned (snd (run_prepared e i d b s)) = sv_spawned s"
  by (auto simp: handle_delivery_failure_def run_prepared_def Let_def split: prod.splits option.splits sum.splits)

lemma round_spawned [simp]: "sv_spawned (snd (worker_round e i bs s)) = sv_spawned s"
  by (auto simp: worker_round_def serve_delivery_def Let_def split: prod.splits option.splits sum.splits)

lemma submitted_job_spawns:
  assumes "submit_job (gateway_job_parts e now later) t job w = (Inr rc, w')"
  shows "\<exists>task. map_job_to_runtime_task job = Inr task \<and>
    sv_spawned (gw_runtime w') = sv_spawned (gw_runtime w) @ [queued_event task]"
proof -
  have ok: "validate_job gateway_registry job = Inr ()"
    using assms by (auto simp: submit_job_def gateway_job_parts_def st_then_def split: sum.splits)
  let ?s = "gw_runtime w"
  obtain r s' where r: "submit_to_runtime e gateway_registry now later job ?s = (r, s')" by fastforce
  have r': "\<exists>rc. r = Inr rc" "sv_spawned (gw_runtime w') = sv_spawned s'"
    using assms ok r by (auto simp: submit_job_def gateway_job_parts_def st_then_def on_runtime_def
        Let_def split: sum.splits)
  then show ?thesis
    using r submit_valid_to_runtime [OF ok, of e now later ?s]
    by (auto simp: st_then_def schedule_def Let_def update_snapshot_def split: sum.splits prod.splits)
qed

lemma find_update_first:
  "(\<And>x. p (f x) = p x) \<Longrightarrow> find p (update_first p f xs) = map_option f (find p xs)"
  by (induction xs) simp_all

lemma found_after_event:
  assumes "submissions_find sid ss = Inr (Some d)" and "te_submission_id ev = Some sid"
  shows "submissions_find sid (snd (submissions_apply_event ev ss)) = Inr (Some (apply_event ev d))"
proof -
  have "submission_id_0 (sb_submission_id (sm_submission (apply_event ev x))) =
      submission_id_0 (sb_submission_id (sm_submission x))" for x
    by (simp add: apply_event_def Let_def split: prod.splits)
  then show ?thesis
    using assms by (simp add: submissions_find_def submissions_apply_event_def find_update_first)
qed

lemma observed_submissions:
  "os_submissions (go_oj (snd (gateway_observer (memory_oj up js) redis clock ev ob))) =
     snd (submissions_apply_event ev (os_submissions (go_oj ob)))"
  by (auto simp: gateway_observer_def gateway_on_event_def oj_apply_runtime_event_def st_then_def
      submissions_apply_event_def jobs_on_event_def job_on_event_def split: sum.splits option.splits prod.splits)

lemma round_kept:
  "sv_spawned (gw_runtime (snd (on_runtime (worker_round e i bs) w))) = sv_spawned (gw_runtime w)"
  "stored (snd (on_runtime (worker_round (gateway_parts wk (memory_oj up js) redis clock) i bs) w)) = stored w"
  using gk.round_keeps [where ks = "stored w"]
  by (auto simp: on_runtime_def gateway_oj_def split: prod.splits dest: arg_cong [where f = "sv_spawned \<circ> snd"])
    (metis round_spawned snd_conv)?

text \<open>A submission that was taken is stored, and its Queued event waits.\<close>

lemma submitted_waits:
  assumes "gateway_submit (memory_oj up js) (gateway_parts wk (memory_oj up js) redis clock) t draft w = (Inr sub, w1)"
  shows "\<exists>ev. sv_spawned (gw_runtime w1) = sv_spawned (gw_runtime w) @ [ev] \<and> te_status ev = LcQueued \<and>
      te_outcome ev = None \<and> te_submission_id ev = Some (submission_id_0 (sb_submission_id sub))"
    and "find (\<lambda>k. sk_id k = submission_id_0 (sb_submission_id sub)) (stored w1) \<noteq> None"
proof -
  let ?o = "memory_oj up js" and ?e = "gateway_parts wk (memory_oj up js) redis clock"
  let ?sid = "submission_id_0 (sb_submission_id sub)"
  obtain s where c: "create_submission ?o (rk_create t) draft (gateway_oj w) = (Inr sub, s)"
    using assms by (cases "create_submission ?o (rk_create t) draft (gateway_oj w)")
      (auto simp: gateway_submit_def submit_program_def st_then_def Let_def split: sum.splits prod.splits)
  let ?w0 = "with_gateway_oj s w"
  obtain job rc where job: "build_job_definition ?o ?sid s = Inr job"
    and sub: "submit_job (gateway_job_parts ?e (rk_context t) (rk_schedule t)) (rk_event t) job ?w0 = (Inr rc, w1)"
    using assms by (auto simp: gateway_submit_def submit_program_def st_then_def c Let_def
        split: sum.splits prod.splits)
  obtain task where task: "map_job_to_runtime_task job = Inr task"
    and sp: "sv_spawned (gw_runtime w1) = sv_spawned (gw_runtime ?w0) @ [queued_event task]"
    using submitted_job_spawns [OF sub] by blast
  obtain d p limits m where d: "submissions_find ?sid (os_submissions s) = Inr (Some d)"
    and j: "job = job_of_submission p d limits m"
    by (rule built_job_submission [OF job])
  note found = submissions_find_key [OF d]
  then have "sk_id (submission_key d) = ?sid" by (auto simp: find_Some_iff)
  then have "extract_submission_id task = Some ?sid"
    using task unfolding j job_task_of_submission
    by (auto simp: extract_submission_id_def submission_key_def Let_def)
  then show "\<exists>ev. sv_spawned (gw_runtime w1) = sv_spawned (gw_runtime w) @ [ev] \<and> te_status ev = LcQueued \<and>
      te_outcome ev = None \<and> te_submission_id ev = Some ?sid"
    using sp by (intro exI [of _ "queued_event task"]) (simp add: queued_event_def with_gateway_oj_def)
  have "stored w1 = submission_keys (os_submissions s)"
    using submit_job_stored [of ?e "rk_context t" "rk_schedule t" "rk_event t" job ?w0] by (simp add: sub)
  then show "find (\<lambda>k. sk_id k = ?sid) (stored w1) \<noteq> None" by (simp add: found)
qed

text \<open>C26: After a submission is taken, any rounds of the workers may run and may judge it; when the
  event that its scheduling spawned is delivered only then, the submission shows as queued again,
  without points and with a result that has no cases, whatever its verdict was.\<close>

theorem late_queued_event_resets:
  "let o1 = memory_oj up js; e = gateway_parts wk o1 redis clock
   in case gateway_submit o1 e t draft w of
        (Inl _, _) \<Rightarrow> True
      | (Inr sub, w1) \<Rightarrow>
          (let judged = fold (\<lambda>(i, bs) w. snd (on_runtime (worker_round e i bs) w)) rounds w1;
               late = judged\<lparr>gw_runtime :=
                 deliver_spawned e (length (sv_spawned (gw_runtime w))) (gw_runtime judged)\<rparr>
           in case submissions_find (submission_id_0 (sb_submission_id sub))
                     (os_submissions (gateway_oj late)) of
                Inr (Some d) \<Rightarrow>
                  sb_status (sm_submission d) = SsQueued \<and> sb_score (sm_submission d) = 0 \<and>
                  sb_max_score (sm_submission d) = 0 \<and>
                  map_option su_case_results (sm_result d) = Some []
              | _ \<Rightarrow> False)"
proof -
  let ?o = "memory_oj up js" and ?e = "gateway_parts wk (memory_oj up js) redis clock"
  obtain r w1 where sub: "gateway_submit ?o ?e t draft w = (r, w1)" by fastforce
  show ?thesis
  proof (cases r)
    case (Inr sub)
    let ?sid = "submission_id_0 (sb_submission_id sub)"
    define judged where "judged = fold (\<lambda>(i, bs) w. snd (on_runtime (worker_round ?e i bs) w)) rounds w1"
    note w = submitted_waits [OF sub [unfolded Inr]]
    obtain ev where ev: "sv_spawned (gw_runtime w1) = sv_spawned (gw_runtime w) @ [ev]" "te_status ev = LcQueued"
      "te_outcome ev = None" "te_submission_id ev = Some ?sid"
      using w(1) by blast
    have kept: "sv_spawned (gw_runtime judged) = sv_spawned (gw_runtime w1) \<and> stored judged = stored w1"
      unfolding judged_def by (induction rounds arbitrary: w1) (auto simp: round_kept)
    with w(2) have "find (\<lambda>k. sk_id k = ?sid) (stored judged) \<noteq> None" by simp
    then obtain d where d: "submissions_find ?sid (os_submissions (gateway_oj judged)) = Inr (Some d)"
      by (auto simp: submissions_find_def submission_keys_def find_map o_def submission_key_def Let_def)
    have "se_on_event ?e = gateway_observer ?o redis clock"
      by (simp add: gateway_parts_def memory_parts_def)
    then show ?thesis
      using found_after_event [OF d ev(4)] kept ev
      unfolding Let_def sub Inr prod.case sum.case judged_def [symmetric]
      by (simp add: deliver_spawned_def nth_append gateway_oj_def observe_event_def observed_submissions
          apply_event_def derive_submission_projection_def build_runtime_submission_result_def Let_def)
  qed (simp add: sub)
qed

section \<open>Easy answers\<close>

text \<open>The set of choices that an answer names, and when it is right.\<close>

definition choices :: "(string \<Rightarrow> string) \<Rightarrow> easy_answer \<Rightarrow> string set" where
  "choices up a = (\<lambda>s. up (trim s)) ` (case a of
       EaText text \<Rightarrow> {c \<in> set (chars text). ws_len c = 0} | EaOptions items \<Rightarrow> set items) - {[]}"

definition right_answer :: "(string \<Rightarrow> string) \<Rightarrow> easy_problem_config \<Rightarrow> easy_answer \<Rightarrow> bool" where
  "right_answer up c a \<longleftrightarrow>
     (if ez_question_type c = MultipleChoice
      then choices up a = choices up (ez_standard_answer c) \<and> choices up a \<noteq> {}
      else normalize_easy_answer up a = normalize_easy_answer up (ez_standard_answer c))"

lemma finite_choices [simp]: "finite (choices up a)"
  by (cases a) (simp_all add: choices_def)

lemma normalized_choices:
  "normalize_multi_answer up a =
     (if choices up a = {} then Inl (BadRequest ''multiple_choice answer cannot be empty'')
      else Inr (sorted_list_of_set (choices up a)))"
proof -
  define items where "items = filter (\<lambda>item. item \<noteq> []) (map (\<lambda>item. up (trim item)) (case a of
      EaText text \<Rightarrow> filter (\<lambda>ch. ws_len ch = 0) (chars text) | EaOptions items \<Rightarrow> items))"
  have "set items = choices up a" by (auto simp: items_def choices_def split: easy_answer.splits)
  moreover have "normalize_multi_answer up a =
      (if sort_dedup items = [] then Inl (BadRequest ''multiple_choice answer cannot be empty'')
       else Inr (sort_dedup items))"
    by (simp add: normalize_multi_answer_def items_def Let_def)
  moreover have "sort_dedup items = sorted_list_of_set (set items)"
    using sorted_sort_dedup [of items] sorted_list_of_set.idem_if_sorted_distinct [of "sort_dedup items"]
    by (simp add: strict_sorted_iff)
  ultimately show ?thesis by simp
qed

lemma memory_oj_parameters [simp]:
  "oi_upper (memory_oj up js) = up" "oi_answer_json (memory_oj up js) = js"
  by (simp_all add: memory_oj_def)

lemma judged_easy_answer:
  "judge_easy_answer up c a = Inr ev \<Longrightarrow>
     ev_status ev = (if right_answer up c a then SsAccepted else SsWrongAnswer) \<and>
     ev_score ev = (if right_answer up c a then 100 else 0) \<and> ev_max_score ev = 100"
  by (auto simp: judge_easy_answer_def normalized_choices right_answer_def and_then_Inr_iff
      split: easy_question_type.splits if_splits dest: sorted_list_of_set_inject)

text \<open>An easy submission that is refused leaves the state as it was. One that is taken is stored
  once, at the end, and has all or none of the 100 points: it is accepted exactly when a multiple
  choice names the same set of choices as the standard answer, in any order, with repetitions, case
  and surrounding blanks ignored, or when any other answer equals the standard answer up to case and
  surrounding blanks.\<close>

theorem easy_answers_are_judged_as_sets:
  "case create_easy_submission (memory_oj up js) now draft s of
     (Inl _, s') \<Rightarrow> s' = s
   | (Inr sub, s') \<Rightarrow>
       (\<exists>p c. problems_find_detail (problem_id_0 (ed_problem_id draft)) (os_problems s) =
            Inr (Some \<lparr>pd_problem = p\<rparr>) \<and> pb_judge_mode p = ModeEasyJudge \<and> pb_easy_config p = Some c \<and>
          sb_status sub = (if right_answer up c (ed_answer draft) then SsAccepted else SsWrongAnswer) \<and>
          sb_score sub = (if right_answer up c (ed_answer draft) then 100 else 0)) \<and>
       sb_max_score sub = 100 \<and> os_problems s' = os_problems s \<and>
       map sm_submission (os_submissions s') = map sm_submission (os_submissions s) @ [sub]"
proof (cases "create_easy_submission (memory_oj up js) now draft s")
  case (Pair r s')
  show ?thesis
  proof (cases r)
    case (Inl err)
    have "s' = s" using Pair Inl
      by (auto simp: create_easy_submission_def judge_easy_submission_def st_then_def Let_def
          submissions_create_direct_def split: sum.splits prod.splits if_splits)
    then show ?thesis using Pair Inl by simp
  next
    case (Inr sub)
    then obtain d c ev stored where d: "get_problem_detail (memory_oj up js) (problem_id_0 (ed_problem_id draft)) s = Inr d"
      and c: "pb_judge_mode (pd_problem d) = ModeEasyJudge" "pb_easy_config (pd_problem d) = Some c"
      and ev: "judge_easy_answer up c (ed_answer draft) = Inr ev"
      and st: "fst (submissions_create_direct now draft (ev_status ev) (ev_score ev) (ev_max_score ev)
          (ev_message ev) stored (os_submissions s)) = Inr sub"
      and s': "s' = s\<lparr>os_submissions := snd (submissions_create_direct now draft (ev_status ev) (ev_score ev)
          (ev_max_score ev) (ev_message ev) stored (os_submissions s))\<rparr>"
      using Pair by (auto simp: create_easy_submission_def judge_easy_submission_def st_then_Inr_iff Let_def
          ok_or_def case_prod_beta split: if_splits option.splits sum.splits)
    have "problems_find_detail (problem_id_0 (ed_problem_id draft)) (os_problems s) =
        Inr (Some \<lparr>pd_problem = pd_problem d\<rparr>)"
      using d by (cases d) (auto simp: get_problem_detail_def and_then_Inr_iff ok_or_def split: option.splits)
    then show ?thesis
      using c judged_easy_answer [OF ev] st Pair Inr
      by (cases "new_submission_id now") (auto simp: s' submissions_create_direct_def Let_def)
  qed
qed

end
