(* ===== verification/Broker_Client.thy ===== *)
theory Broker_Client
  imports Broker_Shared Rust_Trim
begin

text \<open>
  What the adapters over RabbitMQ, NATS and Redis have in common in the way they call their client
  libraries. A client library is not part of the program: each of its calls is a function on a
  state \<open>'w\<close> of everything outside the process, it answers a value or the text of its error, and
  the adapters take it as an argument. A call that may never come back is an option.
\<close>

section \<open>Calls of a client library\<close>

text \<open>\<^theory_text>\<open>map_err(|error| rabbitmq_error(format!("...: {error}")))\<close>, the same for the three brokers.\<close>

definition broker_error :: "string \<Rightarrow> string \<Rightarrow> app_error" where
  "broker_error message error = Database (message @ '': '' @ error)"

definition client_call :: "string \<Rightarrow> ('w \<Rightarrow> (string + 'a) \<times> 'w) \<Rightarrow> 'w \<Rightarrow> 'a app_result \<times> 'w" where
  "client_call message f w =
     (case f w of
        (Inl error, w) \<Rightarrow> (Inl (broker_error message error), w)
      | (Inr x, w) \<Rightarrow> (Inr x, w))"

lemma client_call_Inr_iff: "client_call message f w = (Inr x, w') \<longleftrightarrow> f w = (Inr x, w')"
  by (auto simp: client_call_def split: prod.splits sum.splits)

lemma client_call_Inl_iff:
  "client_call message f w = (Inl e, w') \<longleftrightarrow>
     (\<exists>error. f w = (Inl error, w') \<and> e = broker_error message error)"
  by (auto simp: client_call_def split: prod.splits sum.splits)

text \<open>\<^theory_text>\<open>serde_json::to_vec(..).map_err(|_| AppError::Internal)\<close>, and the same for reading.\<close>

definition json :: "'a option \<Rightarrow> 'a app_result" where
  "json x = ok_or x Internal"

lemma json_simps [simp]: "json None = Inl Internal" "json (Some x) = Inr x"
  by (simp_all add: json_def)

section \<open>Calls that may not return\<close>

definition may_then ::
    "(('e + 'a) \<times> 's) option \<Rightarrow> ('a \<Rightarrow> 's \<Rightarrow> (('e + 'b) \<times> 's) option) \<Rightarrow> (('e + 'b) \<times> 's) option" where
  "may_then r f =
     (case r of
        None \<Rightarrow> None
      | Some (Inl e, s) \<Rightarrow> Some (Inl e, s)
      | Some (Inr x, s) \<Rightarrow> f x s)"

lemma may_then_simps [simp]:
  "may_then None f = None"
  "may_then (Some (Inl e, s)) f = Some (Inl e, s)"
  "may_then (Some (Inr x, s)) f = f x s"
  by (simp_all add: may_then_def)

text \<open>A call that comes back.\<close>

definition returns :: "'a option \<Rightarrow> bool" where
  "returns r \<longleftrightarrow> r \<noteq> None"

lemma returns_simps [simp]: "returns (Some x)" "\<not> returns None"
  by (simp_all add: returns_def)

lemma returns_then: "returns r \<Longrightarrow> (\<And>x s. returns (f x s)) \<Longrightarrow> returns (may_then r f)"
  by (auto simp: may_then_def returns_def split: sum.splits prod.splits)

fun collect_may ::
    "('a \<Rightarrow> 's \<Rightarrow> (('e + 'b) \<times> 's) option) \<Rightarrow> 'a list \<Rightarrow> 's \<Rightarrow> (('e + 'b list) \<times> 's) option" where
  "collect_may f [] s = Some (Inr [], s)"
| "collect_may f (x # xs) s =
     may_then (f x s) (\<lambda>y s. may_then (collect_may f xs s) (\<lambda>ys s. Some (Inr (y # ys), s)))"

lemma returns_collect: "(\<And>x s. returns (f x s)) \<Longrightarrow> returns (collect_may f xs s)"
  by (induction xs arbitrary: s) (auto intro!: returns_then)

section \<open>Invariants\<close>

text \<open>
  A predicate on the state that an operation keeps whether it succeeds or not. The adapters are
  written with \<^const>\<open>st_then\<close> and \<^const>\<open>may_then\<close>, so their invariants follow operation by
  operation.
\<close>

definition keeps :: "('s \<Rightarrow> bool) \<Rightarrow> 'r \<times> 's \<Rightarrow> bool" where
  "keeps P r \<longleftrightarrow> P (snd r)"

lemma keeps_pair [simp]: "keeps P (r, s) \<longleftrightarrow> P s"
  by (simp add: keeps_def)

lemma keeps_st_then:
  "keeps P r \<Longrightarrow> (\<And>x s. P s \<Longrightarrow> keeps P (f x s)) \<Longrightarrow> keeps P (st_then r f)"
  by (cases r; cases "fst r") auto

lemma keeps_weaken_then:
  "keeps Q r \<Longrightarrow> (\<And>s. Q s \<Longrightarrow> P s) \<Longrightarrow> (\<And>x s. Q s \<Longrightarrow> keeps P (f x s)) \<Longrightarrow> keeps P (st_then r f)"
  by (cases r; cases "fst r") auto

lemma keeps_collect_st:
  "P s \<Longrightarrow> (\<And>x s. P s \<Longrightarrow> keeps P (f x s)) \<Longrightarrow> keeps P (collect_st f xs s)"
  by (induction xs arbitrary: s) (auto intro!: keeps_st_then)

definition may_keep :: "('s \<Rightarrow> bool) \<Rightarrow> ('r \<times> 's) option \<Rightarrow> bool" where
  "may_keep P r \<longleftrightarrow> (case r of None \<Rightarrow> True | Some y \<Rightarrow> keeps P y)"

lemma may_keep_simps [simp]: "may_keep P None" "may_keep P (Some y) = keeps P y"
  by (simp_all add: may_keep_def)

lemma may_keep_then:
  "may_keep P r \<Longrightarrow> (\<And>x s. P s \<Longrightarrow> may_keep P (f x s)) \<Longrightarrow> may_keep P (may_then r f)"
  by (auto simp: may_then_def split: option.splits prod.splits sum.splits)

lemma may_keep_collect:
  "P s \<Longrightarrow> (\<And>x s. P s \<Longrightarrow> may_keep P (f x s)) \<Longrightarrow> may_keep P (collect_may f xs s)"
  by (induction xs arbitrary: s) (auto intro!: may_keep_then)

section \<open>Leases\<close>

text \<open>How many of the leased deliveries are on the route.\<close>

definition leased_on :: "('l \<Rightarrow> task_delivery) \<Rightarrow> route \<Rightarrow> (string, 'l) hash_map \<Rightarrow> nat" where
  "leased_on delivery r leased =
     length (filter (\<lambda>l. rt_queue (dv_task (delivery l)) = fst r \<and> rt_lane (dv_task (delivery l)) = snd r)
       (hm_values leased))"

section \<open>Catalogs of one configuration\<close>

text \<open>
  A catalog whose routes have the topology that the configuration gives them, and the topologies it
  has. The operations of the catalog keep the first and add to the second.
\<close>

definition catalog_ok :: "(string \<Rightarrow> string \<Rightarrow> 't) \<Rightarrow> 't route_catalog \<Rightarrow> bool" where
  "catalog_ok build c \<longleftrightarrow> catalog_inv c \<and>
     (\<forall>q l t. catalog_get (q, l) c = Some t \<longrightarrow> t = build q l)"

definition declared :: "'t route_catalog \<Rightarrow> 't \<Rightarrow> bool" where
  "declared c t \<longleftrightarrow> (\<exists>q l. catalog_get (q, l) c = Some t)"

lemma declaredI: "catalog_get r c = Some t \<Longrightarrow> declared c t"
  by (cases r) (auto simp: declared_def)

lemma catalog_get_register:
  "catalog_get r (register_route q l t c) =
     (if r = (q, l) \<and> catalog_get (q, l) c = None then Some t else catalog_get r c)"
  by (auto simp: catalog_get_def register_route_def Let_def split: option.splits)

lemma catalog_get_or_insert:
  "catalog_get r (snd (get_or_insert_with q l t c)) =
     (if r = (q, l) \<and> catalog_get (q, l) c = None then Some t else catalog_get r c)"
  by (auto simp: catalog_get_def get_or_insert_with_def Let_def split: option.splits)

lemma catalog_get_rotate [simp]: "catalog_get r (catalog_rotate r' c) = catalog_get r c"
  by (simp add: catalog_get_def catalog_rotate_def)

lemma catalog_ok_new: "catalog_ok build new_catalog"
  by (simp add: catalog_ok_def catalog_inv_new) (simp add: catalog_get_def new_catalog_def)

lemma catalog_ok_register: "catalog_ok build c \<Longrightarrow> catalog_ok build (register_route q l (build q l) c)"
  by (auto simp: catalog_ok_def catalog_inv_register catalog_get_register)

lemma catalog_ok_or_insert:
  "catalog_ok build c \<Longrightarrow> catalog_ok build (snd (get_or_insert_with q l (build q l) c))"
  by (auto simp: catalog_ok_def catalog_inv_get_or_insert catalog_get_or_insert)

lemma catalog_ok_rotate: "catalog_ok build c \<Longrightarrow> catalog_ok build (catalog_rotate r c)"
  by (simp add: catalog_ok_def catalog_inv_rotate)

lemma declared_register: "declared c u \<Longrightarrow> declared (register_route q l t c) u"
  unfolding declared_def catalog_get_register by (metis option.distinct(1))

lemma declared_or_insert: "declared c u \<Longrightarrow> declared (snd (get_or_insert_with q l t c)) u"
  unfolding declared_def catalog_get_or_insert by (metis option.distinct(1))

lemma declared_rotate [simp]: "declared (catalog_rotate r c) u \<longleftrightarrow> declared c u"
  by (simp add: declared_def)

end
