(* ===== verification/Rabbitmq.thy ===== *)
theory Rabbitmq
  imports Broker_Client
begin

text \<open>
  The task queue over RabbitMQ (crates/nexus-runtime/src/broker/rabbitmq.rs): one queue, one retry
  queue and one dead letter queue for a route, a queue that lists the routes, publisher confirms,
  and the deliveries this process holds. The AMQP client is an argument: \<open>'k\<close> is a connection,
  \<open>'c\<close> a channel, \<open>'w\<close> the outside with the broker in it. Serialisation is an argument too.
\<close>

section \<open>The client\<close>

record basic_properties =
  bp_content_type :: string
  bp_delivery_mode :: nat
  bp_expiration :: "string option"

record amqp_message =
  am_delivery_tag :: u64
  am_data :: string

record route_registry_entry =
  rg_queue :: string
  rg_lane :: string

text \<open>
  \<open>ac_confirm\<close> waits for the broker's answer to the publication made last on the channel: whether
  the broker took the message. \<open>ac_inspect\<close> is a passive declaration and answers the number of
  messages; \<open>ac_now\<close> is the clock of the failure window.
\<close>

record ('k, 'c, 'w) amqp =
  ac_connect :: "string \<Rightarrow> 'w \<Rightarrow> (string + 'k) \<times> 'w"
  ac_create_channel :: "'k \<Rightarrow> 'w \<Rightarrow> (string + 'c) \<times> 'w"
  ac_confirm_select :: "'c \<Rightarrow> 'w \<Rightarrow> (string + unit) \<times> 'w"
  ac_connection_up :: "'k \<Rightarrow> 'w \<Rightarrow> bool"
  ac_channel_up :: "'c \<Rightarrow> 'w \<Rightarrow> bool"
  ac_exchange_declare :: "'c \<Rightarrow> string \<Rightarrow> 'w \<Rightarrow> (string + unit) \<times> 'w"
  ac_queue_declare :: "'c \<Rightarrow> string \<Rightarrow> (string \<times> string) list \<Rightarrow> 'w \<Rightarrow> (string + unit) \<times> 'w"
  ac_queue_bind :: "'c \<Rightarrow> string \<Rightarrow> string \<Rightarrow> string \<Rightarrow> 'w \<Rightarrow> (string + unit) \<times> 'w"
  ac_inspect :: "'c \<Rightarrow> string \<Rightarrow> 'w \<Rightarrow> (string + u32) \<times> 'w"
  ac_publish :: "'c \<Rightarrow> string \<Rightarrow> string \<Rightarrow> string \<Rightarrow> basic_properties \<Rightarrow> 'w \<Rightarrow> (string + unit) \<times> 'w"
  ac_confirm :: "'c \<Rightarrow> 'w \<Rightarrow> (string + bool) \<times> 'w"
  ac_get :: "'c \<Rightarrow> string \<Rightarrow> 'w \<Rightarrow> (string + amqp_message option) \<times> 'w"
  ac_ack :: "'c \<Rightarrow> u64 \<Rightarrow> 'w \<Rightarrow> (string + unit) \<times> 'w"
  ac_now :: "'w \<Rightarrow> system_time"
  rj_envelope :: "rabbitmq_envelope \<Rightarrow> string option"
  rj_parse_envelope :: "string \<Rightarrow> rabbitmq_envelope option"
  rj_record :: "dead_letter_record \<Rightarrow> string option"
  rj_parse_record :: "string \<Rightarrow> dead_letter_record option"
  rj_entry :: "route_registry_entry \<Rightarrow> string option"
  rj_parse_entry :: "string \<Rightarrow> route_registry_entry option"

section \<open>State\<close>

record ('k, 'c) rabbitmq_transport =
  tp_connection :: 'k
  tp_channel :: 'c

record rabbitmq_leased =
  rl_delivery_tag :: u64
  rl_topology :: rabbitmq_topology
  rl_delivery :: task_delivery

text \<open>The metrics of the process are those of the in-memory queue inside, as in the other queues.\<close>

record ('k, 'c, 'w) rabbitmq_adapter =
  ra_config :: rabbitmq_queue_config
  ra_broker_enabled :: bool
  ra_inner :: mem_queue
  ra_transport :: "('k, 'c) rabbitmq_transport option"
  ra_routes :: "rabbitmq_topology route_catalog"
  ra_leased :: "(string, rabbitmq_leased) hash_map"
  ra_broker :: 'w

definition rmq_observing ::
    "(metrics \<Rightarrow> metrics) \<Rightarrow> ('k, 'c, 'w) rabbitmq_adapter \<Rightarrow> ('k, 'c, 'w) rabbitmq_adapter" where
  "rmq_observing f a = a\<lparr>ra_inner := observing f (ra_inner a)\<rparr>"

definition rmq_failed ::
    "('k, 'c, 'w) amqp \<Rightarrow> string \<Rightarrow> string \<Rightarrow> string \<Rightarrow> ('k, 'c, 'w) rabbitmq_adapter \<Rightarrow>
       ('k, 'c, 'w) rabbitmq_adapter" where
  "rmq_failed p queue lane operation a =
     rmq_observing (observe_broker_operation_failure (ac_now p (ra_broker a)) ''rabbitmq'' queue lane
       operation) a"

text \<open>A call of the broker, a call of the in-memory queue, from the adapter.\<close>

definition rmq_lift ::
    "('w \<Rightarrow> 'a app_result \<times> 'w) \<Rightarrow> ('k, 'c, 'w) rabbitmq_adapter \<Rightarrow>
       'a app_result \<times> ('k, 'c, 'w) rabbitmq_adapter" where
  "rmq_lift f a = (case f (ra_broker a) of (r, w) \<Rightarrow> (r, a\<lparr>ra_broker := w\<rparr>))"

definition rmq_inner ::
    "(mem_queue \<Rightarrow> 'r \<times> mem_queue) \<Rightarrow> ('k, 'c, 'w) rabbitmq_adapter \<Rightarrow>
       'r \<times> ('k, 'c, 'w) rabbitmq_adapter" where
  "rmq_inner f a = (case f (ra_inner a) of (r, q) \<Rightarrow> (r, a\<lparr>ra_inner := q\<rparr>))"

section \<open>Connections\<close>

definition validate_rabbitmq_config :: "rabbitmq_queue_config \<Rightarrow> unit app_result" where
  "validate_rabbitmq_config c =
     (if \<not> (starts_with ''amqp://'' (rqc_url c) \<or> starts_with ''amqps://'' (rqc_url c))
      then Inl (InvalidConfig ''rabbitmq url must start with amqp:// or amqps://'')
      else if trim (rqc_exchange c) = []
      then Inl (InvalidConfig ''rabbitmq exchange cannot be empty'')
      else if trim (rqc_queue_prefix c) = []
      then Inl (InvalidConfig ''rabbitmq queue_prefix cannot be empty'')
      else Inr ())"

definition connect_transport ::
    "('k, 'c, 'w) amqp \<Rightarrow> rabbitmq_queue_config \<Rightarrow> 'w \<Rightarrow>
       ('k, 'c) rabbitmq_transport app_result \<times> 'w" where
  "connect_transport p config w =
     st_then (client_call ''failed to connect rabbitmq'' (ac_connect p (rqc_url config)) w) (\<lambda>k w.
     st_then (client_call ''failed to create rabbitmq channel'' (ac_create_channel p k) w) (\<lambda>c w.
     st_then (client_call ''failed to enable rabbitmq publisher confirms'' (ac_confirm_select p c) w)
       (\<lambda>_ w. (Inr \<lparr>tp_connection = k, tp_channel = c\<rparr>, w))))"

definition rmq_adapter ::
    "rabbitmq_queue_config \<Rightarrow> metrics \<Rightarrow> ('k, 'c) rabbitmq_transport option \<Rightarrow> 'w \<Rightarrow>
       ('k, 'c, 'w) rabbitmq_adapter" where
  "rmq_adapter config m transport w =
     \<lparr>ra_config = config, ra_broker_enabled = (transport \<noteq> None), ra_inner = default_mem_queue m,
      ra_transport = transport, ra_routes = new_catalog, ra_leased = [], ra_broker = w\<rparr>"

definition rmq_connect ::
    "('k, 'c, 'w) amqp \<Rightarrow> rabbitmq_queue_config \<Rightarrow> metrics \<Rightarrow> 'w \<Rightarrow>
       ('k, 'c, 'w) rabbitmq_adapter app_result \<times> 'w" where
  "rmq_connect p config m w =
     st_then (validate_rabbitmq_config config, w) (\<lambda>_ w.
     st_then (connect_transport p config w) (\<lambda>t w. (Inr (rmq_adapter config m (Some t) w), w)))"

definition is_connected ::
    "('k, 'c, 'w) amqp \<Rightarrow> ('k, 'c) rabbitmq_transport \<Rightarrow> 'w \<Rightarrow> bool" where
  "is_connected p t w \<longleftrightarrow> ac_connection_up p (tp_connection t) w \<and> ac_channel_up p (tp_channel t) w"

text \<open>A new connection knows nothing of the deliveries of the old one.\<close>

definition active_transport ::
    "('k, 'c, 'w) amqp \<Rightarrow> ('k, 'c, 'w) rabbitmq_adapter \<Rightarrow>
       ('k, 'c) rabbitmq_transport option app_result \<times> ('k, 'c, 'w) rabbitmq_adapter" where
  "active_transport p a =
     (if \<not> ra_broker_enabled a then (Inr None, a)
      else if (case ra_transport a of None \<Rightarrow> True | Some t \<Rightarrow> \<not> is_connected p t (ra_broker a))
      then st_then (rmq_lift (connect_transport p (ra_config a)) a) (\<lambda>t a.
             (Inr (Some t), a\<lparr>ra_transport := Some t, ra_leased := []\<rparr>))
      else (Inr (ra_transport a), a))"

definition invalidate_transport ::
    "('k, 'c, 'w) rabbitmq_adapter \<Rightarrow> ('k, 'c, 'w) rabbitmq_adapter" where
  "invalidate_transport a =
     (if ra_broker_enabled a then a\<lparr>ra_transport := None, ra_leased := []\<rparr> else a)"

definition with_transport_result ::
    "'a app_result \<times> ('k, 'c, 'w) rabbitmq_adapter \<Rightarrow> 'a app_result \<times> ('k, 'c, 'w) rabbitmq_adapter" where
  "with_transport_result r =
     (case r of
        (Inl e, a) \<Rightarrow> (Inl e, invalidate_transport a)
      | (Inr x, a) \<Rightarrow> (Inr x, a))"

text \<open>\<^theory_text>\<open>let Some(transport) = self.active_transport().await? else { return Ok(..) }\<close>.\<close>

definition with_active ::
    "('k, 'c, 'w) amqp \<Rightarrow> 'a app_result \<Rightarrow>
       (('k, 'c) rabbitmq_transport \<Rightarrow> ('k, 'c, 'w) rabbitmq_adapter \<Rightarrow>
          'a app_result \<times> ('k, 'c, 'w) rabbitmq_adapter) \<Rightarrow>
       ('k, 'c, 'w) rabbitmq_adapter \<Rightarrow> 'a app_result \<times> ('k, 'c, 'w) rabbitmq_adapter" where
  "with_active p otherwise f a =
     st_then (active_transport p a) (\<lambda>t a.
       case t of None \<Rightarrow> (otherwise, a) | Some t \<Rightarrow> f t a)"

text \<open>One call on a channel whose failure gives the transport up.\<close>

definition broker_call ::
    "string \<Rightarrow> ('w \<Rightarrow> (string + 'a) \<times> 'w) \<Rightarrow> ('k, 'c, 'w) rabbitmq_adapter \<Rightarrow>
       'a app_result \<times> ('k, 'c, 'w) rabbitmq_adapter" where
  "broker_call message f a = with_transport_result (rmq_lift (client_call message f) a)"

section \<open>Topology\<close>

definition ensure_topology_calls ::
    "('k, 'c, 'w) amqp \<Rightarrow> 'c \<Rightarrow> rabbitmq_topology \<Rightarrow> (string \<times> ('w \<Rightarrow> (string + unit) \<times> 'w)) list" where
  "ensure_topology_calls p c t =
     [(''failed to declare rabbitmq exchange '' @ rq_topo_exchange t,
         ac_exchange_declare p c (rq_topo_exchange t)),
      (''failed to declare rabbitmq retry exchange '' @ rq_topo_retry_exchange t,
         ac_exchange_declare p c (rq_topo_retry_exchange t)),
      (''failed to declare rabbitmq dead-letter exchange '' @ rq_topo_dead_letter_exchange t,
         ac_exchange_declare p c (rq_topo_dead_letter_exchange t)),
      (''failed to declare rabbitmq queue '' @ rq_topo_queue_name t,
         ac_queue_declare p c (rq_topo_queue_name t) []),
      (''failed to bind rabbitmq queue '' @ rq_topo_queue_name t,
         ac_queue_bind p c (rq_topo_queue_name t) (rq_topo_exchange t) (rq_topo_routing_key t)),
      (''failed to declare rabbitmq retry queue '' @ rq_topo_retry_queue_name t,
         ac_queue_declare p c (rq_topo_retry_queue_name t)
           [(''x-dead-letter-exchange'', rq_topo_exchange t),
            (''x-dead-letter-routing-key'', rq_topo_routing_key t)]),
      (''failed to bind rabbitmq retry queue '' @ rq_topo_retry_queue_name t,
         ac_queue_bind p c (rq_topo_retry_queue_name t) (rq_topo_retry_exchange t)
           (rq_topo_retry_routing_key t)),
      (''failed to declare rabbitmq dead-letter queue '' @ rq_topo_dead_letter_queue_name t,
         ac_queue_declare p c (rq_topo_dead_letter_queue_name t) []),
      (''failed to bind rabbitmq dead-letter queue '' @ rq_topo_dead_letter_queue_name t,
         ac_queue_bind p c (rq_topo_dead_letter_queue_name t) (rq_topo_dead_letter_exchange t)
           (rq_topo_dead_letter_routing_key t))]"

definition rmq_ensure_topology ::
    "('k, 'c, 'w) amqp \<Rightarrow> 'c \<Rightarrow> rabbitmq_topology \<Rightarrow> 'w \<Rightarrow> unit app_result \<times> 'w" where
  "rmq_ensure_topology p c t w =
     st_then (collect_st (\<lambda>(message, f). client_call message f) (ensure_topology_calls p c t) w)
       (\<lambda>_ w. (Inr (), w))"

definition rmq_ensure_route_topology ::
    "runtime_task \<Rightarrow> ('k, 'c, 'w) rabbitmq_adapter \<Rightarrow>
       rabbitmq_topology \<times> ('k, 'c, 'w) rabbitmq_adapter" where
  "rmq_ensure_route_topology task a =
     (case get_or_insert_with (rt_queue task) (rt_lane task)
             (build_route_topology (ra_config a) (rt_queue task) (rt_lane task)) (ra_routes a) of
        (topology, routes) \<Rightarrow> (topology, a\<lparr>ra_routes := routes\<rparr>))"

definition declare_topology ::
    "('k, 'c, 'w) amqp \<Rightarrow> ('k, 'c) rabbitmq_transport \<Rightarrow> rabbitmq_topology \<Rightarrow>
       ('k, 'c, 'w) rabbitmq_adapter \<Rightarrow> unit app_result \<times> ('k, 'c, 'w) rabbitmq_adapter" where
  "declare_topology p t topology a =
     with_transport_result (rmq_lift (rmq_ensure_topology p (tp_channel t) topology) a)"

section \<open>Publishing\<close>

definition json_message :: "u64 option \<Rightarrow> basic_properties" where
  "json_message expiration_ms =
     \<lparr>bp_content_type = ''application/json'', bp_delivery_mode = 2,
      bp_expiration = map_option show_word expiration_ms\<rparr>"

text \<open>The confirmation is awaited; what it says is not looked at.\<close>

definition publish_confirmed ::
    "('k, 'c, 'w) amqp \<Rightarrow> ('k, 'c) rabbitmq_transport \<Rightarrow> string \<Rightarrow> string \<Rightarrow> string \<Rightarrow> string \<Rightarrow> string \<Rightarrow>
       u64 option \<Rightarrow> ('k, 'c, 'w) rabbitmq_adapter \<Rightarrow> unit app_result \<times> ('k, 'c, 'w) rabbitmq_adapter" where
  "publish_confirmed p t failed unconfirmed exchange routing_key payload expiration_ms a =
     st_then (broker_call failed
       (ac_publish p (tp_channel t) exchange routing_key payload (json_message expiration_ms)) a) (\<lambda>_ a.
     st_then (broker_call unconfirmed (ac_confirm p (tp_channel t)) a) (\<lambda>_ a. (Inr (), a)))"

definition rmq_publish_envelope ::
    "('k, 'c, 'w) amqp \<Rightarrow> rabbitmq_topology \<Rightarrow> string \<Rightarrow> string \<Rightarrow> rabbitmq_envelope \<Rightarrow> u64 option \<Rightarrow>
       ('k, 'c, 'w) rabbitmq_adapter \<Rightarrow> unit app_result \<times> ('k, 'c, 'w) rabbitmq_adapter" where
  "rmq_publish_envelope p topology exchange routing_key envelope expiration_ms =
     with_active p (Inr ()) (\<lambda>t a.
       st_then (declare_topology p t topology a) (\<lambda>_ a.
       st_then (json (rj_envelope p envelope), a) (\<lambda>payload.
       publish_confirmed p t ''failed to publish runtime task''
         ''rabbitmq did not confirm runtime task publish'' exchange routing_key payload expiration_ms)))"

definition publish_raw_payload ::
    "('k, 'c, 'w) amqp \<Rightarrow> rabbitmq_topology \<Rightarrow> string \<Rightarrow> string \<Rightarrow> string \<Rightarrow> u64 option \<Rightarrow>
       ('k, 'c, 'w) rabbitmq_adapter \<Rightarrow> unit app_result \<times> ('k, 'c, 'w) rabbitmq_adapter" where
  "publish_raw_payload p topology exchange routing_key payload expiration_ms =
     with_active p (Inr ()) (\<lambda>t a.
       st_then (declare_topology p t topology a) (\<lambda>_.
       publish_confirmed p t ''failed to publish runtime task''
         ''rabbitmq did not confirm runtime task publish'' exchange routing_key payload expiration_ms))"

definition rmq_store_dead_letter ::
    "('k, 'c, 'w) amqp \<Rightarrow> rabbitmq_topology \<Rightarrow> dead_letter_record \<Rightarrow>
       ('k, 'c, 'w) rabbitmq_adapter \<Rightarrow> unit app_result \<times> ('k, 'c, 'w) rabbitmq_adapter" where
  "rmq_store_dead_letter p topology rec a =
     st_then (json (rj_record p rec), a) (\<lambda>payload.
       publish_raw_payload p topology (rq_topo_dead_letter_exchange topology)
         (rq_topo_dead_letter_routing_key topology) payload None)"

section \<open>Reserving and acknowledging\<close>

definition rmq_delivery :: "rabbitmq_envelope \<Rightarrow> u64 \<Rightarrow> task_delivery" where
  "rmq_delivery envelope tag =
     \<lparr>dv_delivery_id = ''rmq-'' @ rt_task_id (re_task envelope) @ ''-'' @ show_word tag,
      dv_attempt = re_attempt envelope, dv_leased_until = None,
      dv_last_error = re_last_error envelope, dv_task = re_task envelope\<rparr>"

fun rmq_reserve_routes ::
    "('k, 'c, 'w) amqp \<Rightarrow> ('k, 'c) rabbitmq_transport \<Rightarrow> route list \<Rightarrow> ('k, 'c, 'w) rabbitmq_adapter \<Rightarrow>
       task_delivery option app_result \<times> ('k, 'c, 'w) rabbitmq_adapter" where
  "rmq_reserve_routes p t [] a = (Inr None, a)"
| "rmq_reserve_routes p t (r # routes) a =
     (case catalog_get r (ra_routes a) of
        None \<Rightarrow> rmq_reserve_routes p t routes a
      | Some topology \<Rightarrow>
          st_then (broker_call (''failed to reserve runtime task from '' @ rq_topo_queue_name topology)
            (ac_get p (tp_channel t) (rq_topo_queue_name topology)) a) (\<lambda>message a.
          case message of
            None \<Rightarrow> rmq_reserve_routes p t routes a
          | Some message \<Rightarrow>
              st_then (json (rj_parse_envelope p (am_data message)),
                  a\<lparr>ra_routes := catalog_rotate r (ra_routes a)\<rparr>) (\<lambda>envelope a.
              let delivery = rmq_delivery envelope (am_delivery_tag message)
              in (Inr (Some delivery),
                  a\<lparr>ra_leased := hm_insert (dv_delivery_id delivery)
                      \<lparr>rl_delivery_tag = am_delivery_tag message, rl_topology = topology,
                       rl_delivery = delivery\<rparr> (ra_leased a)\<rparr>))))"

definition rmq_reserve_from_broker ::
    "('k, 'c, 'w) amqp \<Rightarrow> route_binding list \<Rightarrow> ('k, 'c, 'w) rabbitmq_adapter \<Rightarrow>
       task_delivery option app_result \<times> ('k, 'c, 'w) rabbitmq_adapter" where
  "rmq_reserve_from_broker p bindings =
     with_active p (Inr None) (\<lambda>t a.
       rmq_reserve_routes p t (ordered_routes bindings (ra_routes a)) a)"

definition ack_broker_delivery ::
    "('k, 'c, 'w) amqp \<Rightarrow> string \<Rightarrow> ('k, 'c, 'w) rabbitmq_adapter \<Rightarrow>
       unit app_result \<times> ('k, 'c, 'w) rabbitmq_adapter" where
  "ack_broker_delivery p delivery_id =
     with_active p (Inr ()) (\<lambda>t a.
       let leased = map_of (ra_leased a) delivery_id;
           a = a\<lparr>ra_leased := hm_remove delivery_id (ra_leased a)\<rparr>
       in case leased of
            None \<Rightarrow> (Inr (), a)
          | Some l \<Rightarrow>
              broker_call (''failed to ack rabbitmq delivery '' @ show_word (rl_delivery_tag l))
                (ac_ack p (tp_channel t) (rl_delivery_tag l)) a)"

section \<open>Reading a queue to its end\<close>

text \<open>
  \<^theory_text>\<open>loop { let Some(delivery) = basic_get(..)? else { break }; .. }\<close>: nothing bounds the number of
  rounds but the broker. The messages stay unacknowledged; a message that does not parse ends the
  call and leaves the ones before it unacknowledged as well.
\<close>

record 'r read_message =
  rm_delivery_tag :: u64
  rm_content :: 'r
  rm_payload :: string

partial_function (option) read_queue ::
    "('k, 'c, 'w) amqp \<Rightarrow> ('k, 'c) rabbitmq_transport \<Rightarrow> string \<Rightarrow> string \<Rightarrow> (string \<Rightarrow> 'r option) \<Rightarrow>
       'r read_message list \<Rightarrow> ('k, 'c, 'w) rabbitmq_adapter \<Rightarrow>
       ('r read_message list app_result \<times> ('k, 'c, 'w) rabbitmq_adapter) option" where
  "read_queue p t failed queue parse messages a =
     (case broker_call (failed @ queue) (ac_get p (tp_channel t) queue) a of
        (Inl e, a) \<Rightarrow> Some (Inl e, a)
      | (Inr None, a) \<Rightarrow> Some (Inr messages, a)
      | (Inr (Some m), a) \<Rightarrow>
          (case parse (am_data m) of
             None \<Rightarrow> Some (Inl Internal, a)
           | Some content \<Rightarrow>
               read_queue p t failed queue parse
                 (messages @ [\<lparr>rm_delivery_tag = am_delivery_tag m, rm_content = content,
                               rm_payload = am_data m\<rparr>]) a))"

definition may_active ::
    "('k, 'c, 'w) amqp \<Rightarrow> 'a app_result \<Rightarrow>
       (('k, 'c) rabbitmq_transport \<Rightarrow> ('k, 'c, 'w) rabbitmq_adapter \<Rightarrow>
          ('a app_result \<times> ('k, 'c, 'w) rabbitmq_adapter) option) \<Rightarrow>
       ('k, 'c, 'w) rabbitmq_adapter \<Rightarrow> ('a app_result \<times> ('k, 'c, 'w) rabbitmq_adapter) option" where
  "may_active p otherwise f a =
     may_then (Some (active_transport p a)) (\<lambda>t a.
       case t of None \<Rightarrow> Some (otherwise, a) | Some t \<Rightarrow> f t a)"

section \<open>Dead letters\<close>

definition drain_dead_letter_queue ::
    "('k, 'c, 'w) amqp \<Rightarrow> rabbitmq_topology \<Rightarrow> ('k, 'c, 'w) rabbitmq_adapter \<Rightarrow>
       (dead_letter_record read_message list app_result \<times> ('k, 'c, 'w) rabbitmq_adapter) option" where
  "drain_dead_letter_queue p topology =
     may_active p (Inr []) (\<lambda>t a.
       may_then (Some (declare_topology p t topology a)) (\<lambda>_.
         read_queue p t ''failed to reserve dead-letter record from ''
           (rq_topo_dead_letter_queue_name topology) (rj_parse_record p) []))"

definition restore_message ::
    "('k, 'c, 'w) amqp \<Rightarrow> ('k, 'c) rabbitmq_transport \<Rightarrow> rabbitmq_topology \<Rightarrow>
       dead_letter_record read_message \<Rightarrow> ('k, 'c, 'w) rabbitmq_adapter \<Rightarrow>
       unit app_result \<times> ('k, 'c, 'w) rabbitmq_adapter" where
  "restore_message p t topology m a =
     st_then (publish_raw_payload p topology (rq_topo_dead_letter_exchange topology)
       (rq_topo_dead_letter_routing_key topology) (rm_payload m) None a) (\<lambda>_.
     broker_call (''failed to ack rabbitmq dead-letter delivery '' @ show_word (rm_delivery_tag m))
       (ac_ack p (tp_channel t) (rm_delivery_tag m)))"

definition restore_dead_letter_queue ::
    "('k, 'c, 'w) amqp \<Rightarrow> rabbitmq_topology \<Rightarrow> dead_letter_record read_message list \<Rightarrow>
       ('k, 'c, 'w) rabbitmq_adapter \<Rightarrow> unit app_result \<times> ('k, 'c, 'w) rabbitmq_adapter" where
  "restore_dead_letter_queue p topology messages =
     with_active p (Inr ()) (\<lambda>t a.
       st_then (collect_st (restore_message p t topology) messages a) (\<lambda>_ a. (Inr (), a)))"

section \<open>The registry of routes\<close>

definition declare_registry ::
    "('k, 'c, 'w) amqp \<Rightarrow> ('k, 'c) rabbitmq_transport \<Rightarrow> ('k, 'c, 'w) rabbitmq_adapter \<Rightarrow>
       unit app_result \<times> ('k, 'c, 'w) rabbitmq_adapter" where
  "declare_registry p t a =
     (let queue_name = rabbitmq_route_registry_queue_name (ra_config a)
      in broker_call (''failed to declare rabbitmq route registry queue '' @ queue_name)
           (ac_queue_declare p (tp_channel t) queue_name []) a)"

definition rmq_persist_route_registry ::
    "('k, 'c, 'w) amqp \<Rightarrow> rabbitmq_topology \<Rightarrow> ('k, 'c, 'w) rabbitmq_adapter \<Rightarrow>
       unit app_result \<times> ('k, 'c, 'w) rabbitmq_adapter" where
  "rmq_persist_route_registry p topology =
     with_active p (Inr ()) (\<lambda>t a.
       st_then (declare_registry p t a) (\<lambda>_ a.
       st_then (json (rj_entry p \<lparr>rg_queue = rq_topo_queue topology, rg_lane = rq_topo_lane topology\<rparr>), a)
         (\<lambda>payload a.
       publish_confirmed p t ''failed to publish rabbitmq route registry entry''
         ''rabbitmq did not confirm route registry publish'' []
         (rabbitmq_route_registry_queue_name (ra_config a)) payload None a)))"

text \<open>The entries are read to the end, the routes registered once each, the entries put back.\<close>

fun register_entries ::
    "('k, 'c, 'w) amqp \<Rightarrow> ('k, 'c) rabbitmq_transport \<Rightarrow> route_registry_entry list \<Rightarrow>
       route_registry_entry list \<Rightarrow> ('k, 'c, 'w) rabbitmq_adapter \<Rightarrow>
       unit app_result \<times> ('k, 'c, 'w) rabbitmq_adapter" where
  "register_entries p t seen [] a = (Inr (), a)"
| "register_entries p t seen (entry # entries) a =
     (if entry \<in> set seen then register_entries p t seen entries a
      else
        let topology = build_route_topology (ra_config a) (rg_queue entry) (rg_lane entry)
        in st_then (declare_topology p t topology a) (\<lambda>_ a.
             register_entries p t (entry # seen) entries
               (a\<lparr>ra_routes := register_route (rg_queue entry) (rg_lane entry) topology (ra_routes a)\<rparr>)))"

definition restore_entry ::
    "('k, 'c, 'w) amqp \<Rightarrow> ('k, 'c) rabbitmq_transport \<Rightarrow> route_registry_entry read_message \<Rightarrow>
       ('k, 'c, 'w) rabbitmq_adapter \<Rightarrow> unit app_result \<times> ('k, 'c, 'w) rabbitmq_adapter" where
  "restore_entry p t m a =
     st_then (publish_confirmed p t ''failed to restore rabbitmq route registry entry''
       ''rabbitmq did not confirm route registry restore publish'' []
       (rabbitmq_route_registry_queue_name (ra_config a)) (rm_payload m) None a) (\<lambda>_.
     broker_call (''failed to ack rabbitmq route registry entry '' @ show_word (rm_delivery_tag m))
       (ac_ack p (tp_channel t) (rm_delivery_tag m)))"

definition rmq_load_routes ::
    "('k, 'c, 'w) amqp \<Rightarrow> ('k, 'c, 'w) rabbitmq_adapter \<Rightarrow>
       (unit app_result \<times> ('k, 'c, 'w) rabbitmq_adapter) option" where
  "rmq_load_routes p =
     may_active p (Inr ()) (\<lambda>t a.
       may_then (Some (declare_registry p t a)) (\<lambda>_ a.
       may_then (read_queue p t ''failed to read rabbitmq route registry queue ''
           (rabbitmq_route_registry_queue_name (ra_config a)) (rj_parse_entry p) [] a) (\<lambda>entries a.
       Some (st_then (register_entries p t [] (map rm_content entries) a) (\<lambda>_ a.
         st_then (collect_st (restore_entry p t) entries a) (\<lambda>_ a. (Inr (), a)))))))"

section \<open>The dead letter store\<close>

definition rmq_load_dead_letters ::
    "('k, 'c, 'w) amqp \<Rightarrow> ('k, 'c, 'w) rabbitmq_adapter \<Rightarrow>
       (dead_letter_record list app_result \<times> ('k, 'c, 'w) rabbitmq_adapter) option" where
  "rmq_load_dead_letters p a =
     may_then (rmq_load_routes p a) (\<lambda>_ a.
     may_then (collect_may (\<lambda>topology a.
         may_then (drain_dead_letter_queue p topology a) (\<lambda>messages a.
         Some (st_then (restore_dead_letter_queue p topology messages a) (\<lambda>_ a.
           (Inr (map rm_content messages), a)))))
       (catalog_topologies (ra_routes a)) a) (\<lambda>records a.
     Some (Inr (concat records), a)))"

text \<open>The first message with the id is the target, all others remain.\<close>

fun split_target ::
    "string \<Rightarrow> dead_letter_record read_message list \<Rightarrow>
       dead_letter_record read_message option \<times> dead_letter_record read_message list" where
  "split_target delivery_id [] = (None, [])"
| "split_target delivery_id (m # ms) =
     (if dr_delivery_id (rm_content m) = delivery_id then (Some m, ms)
      else map_prod id ((#) m) (split_target delivery_id ms))"

type_synonym rabbitmq_stored = "dead_letter_record read_message \<times> dead_letter_record read_message list"

fun find_in_topologies ::
    "('k, 'c, 'w) amqp \<Rightarrow> string \<Rightarrow> rabbitmq_topology list \<Rightarrow> ('k, 'c, 'w) rabbitmq_adapter \<Rightarrow>
       ((rabbitmq_topology, rabbitmq_stored) dead_letter_replay option app_result \<times>
          ('k, 'c, 'w) rabbitmq_adapter) option" where
  "find_in_topologies p delivery_id [] a = Some (Inr None, a)"
| "find_in_topologies p delivery_id (topology # topologies) a =
     may_then (drain_dead_letter_queue p topology a) (\<lambda>drained a.
     if drained = [] then find_in_topologies p delivery_id topologies a
     else case split_target delivery_id drained of
            (None, remaining) \<Rightarrow>
              may_then (Some (restore_dead_letter_queue p topology remaining a)) (\<lambda>_.
              find_in_topologies p delivery_id topologies)
          | (Some target, remaining) \<Rightarrow>
              Some (Inr (Some \<lparr>dy_topology = topology, dy_stored = (target, remaining),
                               dy_record = rm_content target\<rparr>), a))"

definition rmq_find_dead_letter ::
    "('k, 'c, 'w) amqp \<Rightarrow> string \<Rightarrow> ('k, 'c, 'w) rabbitmq_adapter \<Rightarrow>
       ((rabbitmq_topology, rabbitmq_stored) dead_letter_replay option app_result \<times>
          ('k, 'c, 'w) rabbitmq_adapter) option" where
  "rmq_find_dead_letter p delivery_id a =
     may_then (rmq_load_routes p a) (\<lambda>_ a.
     find_in_topologies p delivery_id (catalog_topologies (ra_routes a)) a)"

definition finalize_replayed_dead_letter ::
    "('k, 'c, 'w) amqp \<Rightarrow> (rabbitmq_topology, rabbitmq_stored) dead_letter_replay \<Rightarrow>
       ('k, 'c, 'w) rabbitmq_adapter \<Rightarrow> unit app_result \<times> ('k, 'c, 'w) rabbitmq_adapter" where
  "finalize_replayed_dead_letter p replay =
     (case dy_stored replay of (target, remaining) \<Rightarrow>
       with_active p (Inl Internal) (\<lambda>t a.
         st_then (broker_call (''failed to ack replayed rabbitmq dead-letter delivery '' @
             show_word (rm_delivery_tag target))
           (ac_ack p (tp_channel t) (rm_delivery_tag target)) a) (\<lambda>_.
         restore_dead_letter_queue p (dy_topology replay) remaining)))"

section \<open>The adapter\<close>

text \<open>The operations of \<^theory_text>\<open>BrokerAdapter\<close>; without a broker they are those of the inner queue.\<close>

definition rmq_enqueue ::
    "('k, 'c, 'w) amqp \<Rightarrow> system_time \<Rightarrow> runtime_task \<Rightarrow> ('k, 'c, 'w) rabbitmq_adapter \<Rightarrow>
       unit app_result \<times> ('k, 'c, 'w) rabbitmq_adapter" where
  "rmq_enqueue p now task a =
     (case rmq_ensure_route_topology task a of (topology, a) \<Rightarrow>
      if \<not> ra_broker_enabled a then rmq_inner (enqueue now task) a
      else
        st_then (rmq_persist_route_registry p topology a) (\<lambda>_ a.
        case rmq_publish_envelope p topology (rq_topo_exchange topology) (rq_topo_routing_key topology)
               \<lparr>re_task = task, re_attempt = 1, re_last_error = None\<rparr> None a of
          (Inr _, a) \<Rightarrow> (Inr (), rmq_observing (observe_broker_operation ''rabbitmq'' (rt_queue task)
             (rt_lane task) ''enqueue'') a)
        | (Inl e, a) \<Rightarrow> (Inl e, rmq_failed p (rt_queue task) (rt_lane task) ''enqueue'' a)))"

definition rmq_reserve ::
    "('k, 'c, 'w) amqp \<Rightarrow> system_time \<Rightarrow> system_time \<Rightarrow> route_binding list \<Rightarrow>
       ('k, 'c, 'w) rabbitmq_adapter \<Rightarrow> task_delivery option \<times> ('k, 'c, 'w) rabbitmq_adapter" where
  "rmq_reserve p now later bindings a =
     (if \<not> ra_broker_enabled a then rmq_inner (reserve now later bindings) a
      else case rmq_reserve_from_broker p bindings a of
             (Inr (Some d), a) \<Rightarrow>
               (Some d, rmq_observing (observe_broker_operation ''rabbitmq'' (rt_queue (dv_task d))
                  (rt_lane (dv_task d)) ''reserve'') a)
           | (Inr None, a) \<Rightarrow> (None, a)
           | (Inl _, a) \<Rightarrow> (None, rmq_failed p ''*'' ''*'' ''reserve'' a))"

definition rmq_ack ::
    "('k, 'c, 'w) amqp \<Rightarrow> string \<Rightarrow> ('k, 'c, 'w) rabbitmq_adapter \<Rightarrow>
       unit app_result \<times> ('k, 'c, 'w) rabbitmq_adapter" where
  "rmq_ack p delivery_id a =
     (if \<not> ra_broker_enabled a then rmq_inner (ack delivery_id) a
      else
        let leased = map_of (ra_leased a) delivery_id
        in case ack_broker_delivery p delivery_id a of
             (Inr _, a) \<Rightarrow>
               (Inr (),
                case leased of
                  None \<Rightarrow> a
                | Some l \<Rightarrow>
                    rmq_observing (observe_broker_operation ''rabbitmq'' (rt_queue (dv_task (rl_delivery l)))
                      (rt_lane (dv_task (rl_delivery l))) ''ack'') a)
           | (Inl e, a) \<Rightarrow> (Inl e, rmq_failed p ''*'' ''*'' ''ack'' a))"

text \<open>\<^theory_text>\<open>map_err(|error| { observe_broker_operation_failure(..); error })\<close>.\<close>

definition rmq_or_failed ::
    "('k, 'c, 'w) amqp \<Rightarrow> runtime_task \<Rightarrow> string \<Rightarrow> 'a app_result \<times> ('k, 'c, 'w) rabbitmq_adapter \<Rightarrow>
       'a app_result \<times> ('k, 'c, 'w) rabbitmq_adapter" where
  "rmq_or_failed p task operation r =
     (case r of
        (Inl e, a) \<Rightarrow> (Inl e, rmq_failed p (rt_queue task) (rt_lane task) operation a)
      | (Inr x, a) \<Rightarrow> (Inr x, a))"

definition rmq_retry ::
    "('k, 'c, 'w) amqp \<Rightarrow> system_time \<Rightarrow> string \<Rightarrow> string \<Rightarrow> u64 \<Rightarrow> ('k, 'c, 'w) rabbitmq_adapter \<Rightarrow>
       retry_disposition app_result \<times> ('k, 'c, 'w) rabbitmq_adapter" where
  "rmq_retry p now delivery_id error delay_ms a =
     (if \<not> ra_broker_enabled a then rmq_inner (retry now delivery_id error delay_ms) a
      else case map_of (ra_leased a) delivery_id of
        None \<Rightarrow> (Inl Internal, rmq_failed p ''*'' ''*'' ''retry'' a)
      | Some l \<Rightarrow>
          let a = a\<lparr>ra_leased := hm_remove delivery_id (ra_leased a)\<rparr>;
              d = rl_delivery l; task = dv_task d; topology = rl_topology l
          in if rp_max_attempts (rt_retry_policy task) \<le> dv_attempt d then
               let rec = build_dead_letter_record now d error;
                   a = rmq_observing (observe_broker_dead_letter ''rabbitmq'' (rt_queue task) (rt_lane task)
                         ''retry_exhausted'')
                       (rmq_observing (observe_broker_retry ''rabbitmq'' (rt_queue task) (rt_lane task)
                         ''dead_lettered'') a)
               in st_then (rmq_or_failed p task ''retry'' (rmq_store_dead_letter p topology rec a)) (\<lambda>_ a.
                  st_then (rmq_or_failed p task ''retry''
                    (ack_broker_delivery p (dv_delivery_id d) a)) (\<lambda>_ a.
                  (Inr RdDeadLettered, a)))
             else
               st_then (rmq_or_failed p task ''retry''
                 (rmq_publish_envelope p topology (rq_topo_retry_exchange topology)
                    (rq_topo_retry_routing_key topology)
                    \<lparr>re_task = task, re_attempt = dv_attempt d + 1, re_last_error = Some error\<rparr>
                    (Some delay_ms) a)) (\<lambda>_ a.
               st_then (rmq_or_failed p task ''retry''
                 (ack_broker_delivery p (dv_delivery_id d) a)) (\<lambda>_ a.
               (Inr RdRequeued,
                rmq_observing (observe_broker_retry ''rabbitmq'' (rt_queue task) (rt_lane task)
                  ''requeued'') a))))"

definition rmq_reject ::
    "('k, 'c, 'w) amqp \<Rightarrow> system_time \<Rightarrow> string \<Rightarrow> string \<Rightarrow> ('k, 'c, 'w) rabbitmq_adapter \<Rightarrow>
       unit app_result \<times> ('k, 'c, 'w) rabbitmq_adapter" where
  "rmq_reject p now delivery_id error a =
     (if \<not> ra_broker_enabled a then rmq_inner (reject now delivery_id error) a
      else case map_of (ra_leased a) delivery_id of
        None \<Rightarrow> (Inr (), a)
      | Some l \<Rightarrow>
          let a = a\<lparr>ra_leased := hm_remove delivery_id (ra_leased a)\<rparr>;
              d = rl_delivery l; task = dv_task d;
              rec = build_dead_letter_record now d error;
              a = rmq_observing (observe_broker_dead_letter ''rabbitmq'' (rt_queue task) (rt_lane task)
                    ''rejected'') a
          in st_then (rmq_or_failed p task ''reject'' (rmq_store_dead_letter p (rl_topology l) rec a)) (\<lambda>_ a.
             rmq_or_failed p task ''reject'' (ack_broker_delivery p (dv_delivery_id d) a)))"

section \<open>Statistics under the lock of the leases\<close>

text \<open>
  The leases are behind an asynchronous mutex that its holder cannot take again: a call that awaits
  the lock while it has the guard never returns. The other operations take the lock for one
  expression and drop the guard with it, so the definitions above leave it out; \<open>stats\<close> keeps the
  guard while it inspects the queues. The state is whether the guard is held, and the adapter.
\<close>

type_synonym ('k, 'c, 'w) locked_adapter = "bool \<times> ('k, 'c, 'w) rabbitmq_adapter"

definition lock_leases :: "('k, 'c, 'w) locked_adapter \<Rightarrow> ('k, 'c, 'w) locked_adapter option" where
  "lock_leases s = (if fst s then None else Some (True, snd s))"

definition unlock_leases :: "('k, 'c, 'w) locked_adapter \<Rightarrow> ('k, 'c, 'w) locked_adapter" where
  "unlock_leases s = (False, snd s)"

text \<open>\<open>self.leased.lock().await.clear()\<close>.\<close>

definition clear_leases :: "('k, 'c, 'w) locked_adapter \<Rightarrow> ('k, 'c, 'w) locked_adapter option" where
  "clear_leases s =
     (case lock_leases s of
        None \<Rightarrow> None
      | Some (held, a) \<Rightarrow> Some (unlock_leases (held, a\<lparr>ra_leased := []\<rparr>)))"

definition locked_invalidate_transport ::
    "('k, 'c, 'w) locked_adapter \<Rightarrow> ('k, 'c, 'w) locked_adapter option" where
  "locked_invalidate_transport s =
     (case s of (held, a) \<Rightarrow>
        if \<not> ra_broker_enabled a then Some s
        else clear_leases (held, a\<lparr>ra_transport := None\<rparr>))"

definition locked_transport_result ::
    "'a app_result \<Rightarrow> ('k, 'c, 'w) locked_adapter \<Rightarrow>
       ('a app_result \<times> ('k, 'c, 'w) locked_adapter) option" where
  "locked_transport_result result s =
     (case result of
        Inr x \<Rightarrow> Some (Inr x, s)
      | Inl e \<Rightarrow>
          (case locked_invalidate_transport s of None \<Rightarrow> None | Some s \<Rightarrow> Some (Inl e, s)))"

text \<open>With the lock free they are the operations above.\<close>

lemma free_invalidate_transport:
  "locked_invalidate_transport (False, a) = Some (False, invalidate_transport a)"
  by (simp add: locked_invalidate_transport_def invalidate_transport_def clear_leases_def
      lock_leases_def unlock_leases_def)

lemma free_transport_result:
  "locked_transport_result result (False, a) =
     (case with_transport_result (result, a) of (r, b) \<Rightarrow> Some (r, False, b))"
  by (simp add: locked_transport_result_def with_transport_result_def free_invalidate_transport
      split: sum.splits)

definition inspect_queue ::
    "string \<Rightarrow> ('w \<Rightarrow> (string + u32) \<times> 'w) \<Rightarrow> ('k, 'c, 'w) locked_adapter \<Rightarrow>
       (u32 app_result \<times> ('k, 'c, 'w) locked_adapter) option" where
  "inspect_queue message f s =
     (case s of (held, a) \<Rightarrow>
        (case rmq_lift (client_call message f) a of (result, a) \<Rightarrow>
           locked_transport_result result (held, a)))"

definition rmq_route_stats ::
    "('k, 'c, 'w) amqp \<Rightarrow> ('k, 'c) rabbitmq_transport \<Rightarrow> rabbitmq_topology \<Rightarrow>
       ('k, 'c, 'w) locked_adapter \<Rightarrow> (queue_stats app_result \<times> ('k, 'c, 'w) locked_adapter) option" where
  "rmq_route_stats p t topology s =
     may_then (inspect_queue (''failed to inspect rabbitmq queue '' @ rq_topo_queue_name topology)
       (ac_inspect p (tp_channel t) (rq_topo_queue_name topology)) s) (\<lambda>queued s.
     may_then (inspect_queue
       (''failed to inspect rabbitmq dead-letter queue '' @ rq_topo_dead_letter_queue_name topology)
       (ac_inspect p (tp_channel t) (rq_topo_dead_letter_queue_name topology)) s) (\<lambda>dead s.
     Some (Inr
       \<lparr>qs_queue = rq_topo_queue topology, qs_lane = rq_topo_lane topology, qs_queued = unat queued,
        qs_leased = leased_on rl_delivery (rq_topo_queue topology, rq_topo_lane topology) (ra_leased (snd s)),
        qs_dead_lettered = unat dead\<rparr>, s)))"

text \<open>The guard is taken before the first inspection and dropped on return, also by \<open>?\<close>.\<close>

definition rmq_collect_stats ::
    "('k, 'c, 'w) amqp \<Rightarrow> ('k, 'c) rabbitmq_transport \<Rightarrow> ('k, 'c, 'w) rabbitmq_adapter \<Rightarrow>
       (queue_stats list app_result \<times> ('k, 'c, 'w) rabbitmq_adapter) option" where
  "rmq_collect_stats p t a =
     (case lock_leases (False, a) of
        None \<Rightarrow> None
      | Some s \<Rightarrow>
          (case collect_may (rmq_route_stats p t) (catalog_topologies (ra_routes a)) s of
             None \<Rightarrow> None
           | Some (r, s) \<Rightarrow> Some (r, snd (unlock_leases s))))"

definition rmq_stats ::
    "('k, 'c, 'w) amqp \<Rightarrow> ('k, 'c, 'w) rabbitmq_adapter \<Rightarrow>
       (queue_stats list app_result \<times> ('k, 'c, 'w) rabbitmq_adapter) option" where
  "rmq_stats p a =
     (if \<not> ra_broker_enabled a then Some (rmq_inner (\<lambda>q. (stats q, q)) a)
      else may_active p (Inr []) (\<lambda>t a.
        may_then (rmq_load_routes p a) (\<lambda>_ a. rmq_collect_stats p t a)) a)"

definition rmq_dead_letters ::
    "('k, 'c, 'w) amqp \<Rightarrow> ('k, 'c, 'w) rabbitmq_adapter \<Rightarrow>
       (dead_letter_record list app_result \<times> ('k, 'c, 'w) rabbitmq_adapter) option" where
  "rmq_dead_letters p a =
     (if \<not> ra_broker_enabled a then Some (rmq_inner (\<lambda>q. (dead_letters q, q)) a)
      else rmq_load_dead_letters p a)"

definition rmq_replay_dead_letter ::
    "('k, 'c, 'w) amqp \<Rightarrow> system_time \<Rightarrow> string \<Rightarrow> ('k, 'c, 'w) rabbitmq_adapter \<Rightarrow>
       (queue_receipt app_result \<times> ('k, 'c, 'w) rabbitmq_adapter) option" where
  "rmq_replay_dead_letter p now delivery_id a =
     (if \<not> ra_broker_enabled a then Some (rmq_inner (replay_dead_letter now delivery_id) a)
      else case rmq_find_dead_letter p delivery_id a of
        None \<Rightarrow> None
      | Some found \<Rightarrow>
          Some (case replay_dead_letter_with_store
              \<lparr>ry_find = \<lambda>_ _. found,
               ry_publish = \<lambda>topology rec. rmq_publish_envelope p topology (rq_topo_exchange topology)
                 (rq_topo_routing_key topology) (build_rabbitmq_replay_envelope rec) None,
               ry_remove = finalize_replayed_dead_letter p\<rparr>
              now ''rabbitmq'' delivery_id (a, mq_metrics (ra_inner a)) of
            (r, a, m) \<Rightarrow> (r, rmq_observing (\<lambda>_. m) a)))"

end
