(* ===== verification/Rabbitmq_Props.thy ===== *)
theory Rabbitmq_Props
  imports Rabbitmq Task_Queue
begin

text \<open>
  Properties of the RabbitMQ adapter, for every client library and every broker: what its calls
  keep, that the calls that read a queue to its end return when the broker runs out of messages,
  when the statistics never return, and which deliveries are never acknowledged.
\<close>

section \<open>What the calls of the broker leave alone\<close>

text \<open>
  A property of the adapter that neither a call of the broker nor a lost connection nor a metric
  touches is kept by everything the adapter publishes and reads.
\<close>

locale rmq_frame =
  fixes P :: "('k, 'c, 'w) rabbitmq_adapter \<Rightarrow> bool"
  assumes on_broker: "P a \<Longrightarrow> P (a\<lparr>ra_broker := w\<rparr>)"
    and on_reset: "P a \<Longrightarrow> P (a\<lparr>ra_transport := t, ra_leased := []\<rparr>)"
    and on_observing: "P a \<Longrightarrow> P (rmq_observing f a)"
begin

lemma lift_keeps: "P a \<Longrightarrow> keeps P (rmq_lift f a)"
  by (simp add: rmq_lift_def on_broker split: prod.splits)

lemma failed_keeps: "P a \<Longrightarrow> P (rmq_failed p q l operation a)"
  by (simp add: rmq_failed_def on_observing)

lemma or_failed_keeps: "keeps P r \<Longrightarrow> keeps P (rmq_or_failed p task operation r)"
  by (auto simp: rmq_or_failed_def keeps_def failed_keeps split: prod.splits sum.splits)

lemma invalidate_keeps: "P a \<Longrightarrow> P (invalidate_transport a)"
  by (simp add: invalidate_transport_def on_reset)

lemma with_transport_result_keeps: "keeps P r \<Longrightarrow> keeps P (with_transport_result r)"
  by (auto simp: with_transport_result_def keeps_def invalidate_keeps split: prod.splits sum.splits)

lemma broker_call_keeps: "P a \<Longrightarrow> keeps P (broker_call message f a)"
  unfolding broker_call_def by (intro with_transport_result_keeps lift_keeps)

lemma active_keeps: "P a \<Longrightarrow> keeps P (active_transport p a)"
  unfolding active_transport_def by (auto intro!: keeps_st_then lift_keeps on_reset)

lemma with_active_keeps:
  "P a \<Longrightarrow> (\<And>t a. P a \<Longrightarrow> keeps P (f t a)) \<Longrightarrow> keeps P (with_active p otherwise f a)"
  unfolding with_active_def by (rule keeps_st_then) (auto simp: active_keeps split: option.splits)

lemma may_active_keeps:
  "P a \<Longrightarrow> (\<And>t a. P a \<Longrightarrow> may_keep P (f t a)) \<Longrightarrow> may_keep P (may_active p otherwise f a)"
  unfolding may_active_def by (rule may_keep_then) (auto simp: active_keeps split: option.splits)

lemma declare_keeps: "P a \<Longrightarrow> keeps P (declare_topology p t topology a)"
  unfolding declare_topology_def by (intro with_transport_result_keeps lift_keeps)

lemma publish_confirmed_keeps: "P a \<Longrightarrow> keeps P (publish_confirmed p t m1 m2 x k d ms a)"
  unfolding publish_confirmed_def by (intro keeps_st_then broker_call_keeps) simp_all

lemma publish_envelope_keeps: "P a \<Longrightarrow> keeps P (rmq_publish_envelope p topology x k env ms a)"
  unfolding rmq_publish_envelope_def
  by (intro with_active_keeps keeps_st_then declare_keeps publish_confirmed_keeps) simp_all

lemma publish_raw_keeps: "P a \<Longrightarrow> keeps P (publish_raw_payload p topology x k d ms a)"
  unfolding publish_raw_payload_def
  by (intro with_active_keeps keeps_st_then declare_keeps publish_confirmed_keeps)

lemma store_keeps: "P a \<Longrightarrow> keeps P (rmq_store_dead_letter p topology rec a)"
  unfolding rmq_store_dead_letter_def by (intro keeps_st_then publish_raw_keeps) simp_all

lemma read_queue_keeps:
  assumes "read_queue p t m q parse ms a = Some y"
  shows "P a \<longrightarrow> keeps P y"
proof (rule read_queue.raw_induct [OF _ assms,
      where P = "\<lambda>p t m q parse ms a y. P a \<longrightarrow> keeps P y"])
  fix read :: "('k, 'c, 'w) amqp \<Rightarrow> ('k, 'c) rabbitmq_transport \<Rightarrow> string \<Rightarrow> string \<Rightarrow>
      (string \<Rightarrow> 'r option) \<Rightarrow> 'r read_message list \<Rightarrow> ('k, 'c, 'w) rabbitmq_adapter \<Rightarrow> _ option"
    and p t m q parse ms a y
  assume IH: "\<And>p t m q parse ms a y. read p t m q parse ms a = Some y \<Longrightarrow> P a \<longrightarrow> keeps P y"
    and eq: "(case broker_call (m @ q) (ac_get p (tp_channel t) q) a of
      (Inl e, a) \<Rightarrow> Some (Inl e, a)
    | (Inr None, a) \<Rightarrow> Some (Inr ms, a)
    | (Inr (Some d), a) \<Rightarrow>
        (case parse (am_data d) of
           None \<Rightarrow> Some (Inl Internal, a)
         | Some content \<Rightarrow> read p t m q parse (ms @ [\<lparr>rm_delivery_tag = am_delivery_tag d,
             rm_content = content, rm_payload = am_data d\<rparr>]) a)) = Some y"
  show "P a \<longrightarrow> keeps P y"
    using eq broker_call_keeps [of a "m @ q" "ac_get p (tp_channel t) q"]
    by (auto dest!: IH split: prod.splits sum.splits option.splits)
qed

lemma read_queue_may_keep: "P a \<Longrightarrow> may_keep P (read_queue p t m q parse ms a)"
  by (auto simp: may_keep_def split: option.splits dest: read_queue_keeps)

lemma drain_keeps: "P a \<Longrightarrow> may_keep P (drain_dead_letter_queue p topology a)"
  unfolding drain_dead_letter_queue_def
  by (intro may_active_keeps may_keep_then read_queue_may_keep) (simp_all add: declare_keeps)

lemma restore_keeps: "P a \<Longrightarrow> keeps P (restore_dead_letter_queue p topology ms a)"
  unfolding restore_dead_letter_queue_def restore_message_def
  by (intro with_active_keeps keeps_st_then keeps_collect_st publish_raw_keeps broker_call_keeps)
    simp_all

lemma declare_registry_keeps: "P a \<Longrightarrow> keeps P (declare_registry p t a)"
  by (simp add: declare_registry_def Let_def broker_call_keeps)

lemma persist_keeps: "P a \<Longrightarrow> keeps P (rmq_persist_route_registry p topology a)"
  unfolding rmq_persist_route_registry_def
  by (intro with_active_keeps keeps_st_then declare_registry_keeps publish_confirmed_keeps) simp_all

lemma restore_entry_keeps: "P a \<Longrightarrow> keeps P (restore_entry p t m a)"
  unfolding restore_entry_def by (intro keeps_st_then publish_confirmed_keeps broker_call_keeps)

lemma finalize_keeps: "P a \<Longrightarrow> keeps P (finalize_replayed_dead_letter p replay a)"
  unfolding finalize_replayed_dead_letter_def
  by (auto split: prod.splits intro!: with_active_keeps keeps_st_then broker_call_keeps restore_keeps)

end

text \<open>What registering the routes of other processes leaves alone as well.\<close>

locale rmq_routes_frame = rmq_frame +
  assumes on_register: "P a \<Longrightarrow>
    P (a\<lparr>ra_routes := register_route q l (build_route_topology (ra_config a) q l) (ra_routes a)\<rparr>)"
begin

lemma register_keeps: "P a \<Longrightarrow> keeps P (register_entries p t seen entries a)"
proof (induction p t seen entries a rule: register_entries.induct)
  case (2 p t seen entry entries a)
  show ?case
  proof (cases "entry \<in> set seen")
    case True
    then show ?thesis using 2 by simp
  next
    case False
    let ?topology = "build_route_topology (ra_config a) (rg_queue entry) (rg_lane entry)"
    have "keeps P (declare_topology p t ?topology a)" using 2 by (intro declare_keeps) simp
    moreover have "ra_config (snd (declare_topology p t ?topology a)) = ra_config a"
      by (simp add: declare_topology_def with_transport_result_def rmq_lift_def invalidate_transport_def
          split: prod.splits sum.splits)
    ultimately have "keeps P (register_entries p t (entry # seen) entries (b\<lparr>ra_routes :=
        register_route (rg_queue entry) (rg_lane entry) ?topology (ra_routes b)\<rparr>))"
      if "declare_topology p t ?topology a = (Inr (), b)" for b
      using that 2(2) [OF False] on_register [of b "rg_queue entry" "rg_lane entry"] by auto
    then show ?thesis
      using False \<open>keeps P (declare_topology p t ?topology a)\<close>
      by (cases "declare_topology p t ?topology a"; cases "fst (declare_topology p t ?topology a)")
        (auto simp: Let_def)
  qed
qed simp

lemma load_routes_keeps: "P a \<Longrightarrow> may_keep P (rmq_load_routes p a)"
  unfolding rmq_load_routes_def
  by (intro may_active_keeps may_keep_then read_queue_may_keep)
    (auto intro!: keeps_st_then keeps_collect_st register_keeps restore_entry_keeps declare_registry_keeps)

lemma load_dead_letters_keeps: "P a \<Longrightarrow> may_keep P (rmq_load_dead_letters p a)"
  unfolding rmq_load_dead_letters_def
  by (intro may_keep_then load_routes_keeps may_keep_collect drain_keeps)
    (auto intro!: keeps_st_then restore_keeps)

lemma find_in_topologies_keeps: "P a \<Longrightarrow> may_keep P (find_in_topologies p k ts a)"
proof (induction ts arbitrary: a)
  case (Cons t ts)
  then show ?case
    by (auto intro!: may_keep_then drain_keeps simp: restore_keeps split: prod.splits option.splits)
qed simp

lemma find_keeps: "P a \<Longrightarrow> may_keep P (rmq_find_dead_letter p k a)"
  unfolding rmq_find_dead_letter_def by (intro may_keep_then load_routes_keeps find_in_topologies_keeps)

lemma inspect_keeps:
  assumes "P (snd s)"
  shows "may_keep (P \<circ> snd) (inspect_queue m f s)"
proof -
  obtain held a where s: "s = (held, a)" by fastforce
  obtain r b where r: "rmq_lift (client_call m f) a = (r, b)" by fastforce
  have b: "P b" using lift_keeps [of a "client_call m f"] assms s r by (simp add: keeps_def)
  show ?thesis
    using b on_reset [OF b]
    by (simp add: inspect_queue_def s r locked_transport_result_def locked_invalidate_transport_def
        clear_leases_def lock_leases_def unlock_leases_def split: sum.split)
qed

lemma route_stats_keeps: "(P \<circ> snd) s \<Longrightarrow> may_keep (P \<circ> snd) (rmq_route_stats p t topology s)"
  unfolding rmq_route_stats_def by (intro may_keep_then inspect_keeps) simp_all

lemma collect_stats_keeps: "P a \<Longrightarrow> may_keep P (rmq_collect_stats p t a)"
proof -
  assume "P a"
  then have "may_keep (P \<circ> snd) (collect_may (rmq_route_stats p t) (catalog_topologies (ra_routes a)) (True, a))"
    by (intro may_keep_collect route_stats_keeps) simp_all
  then show ?thesis
    by (auto simp: rmq_collect_stats_def lock_leases_def unlock_leases_def may_keep_def keeps_def
        split: option.splits)
qed

lemma stats_keeps: "P a \<Longrightarrow> ra_broker_enabled a \<Longrightarrow> may_keep P (rmq_stats p a)"
  unfolding rmq_stats_def
  by (simp add: may_active_keeps may_keep_then load_routes_keeps collect_stats_keeps)

lemma dead_letters_keeps: "P a \<Longrightarrow> ra_broker_enabled a \<Longrightarrow> may_keep P (rmq_dead_letters p a)"
  by (simp add: rmq_dead_letters_def load_dead_letters_keeps)

end

section \<open>Well-formed adapters\<close>

text \<open>
  A connected adapter: the catalog lists its routes once, each with the topology its configuration
  gives it, and a delivery is leased once, under its own id, on a route of the catalog.
\<close>

definition rmq_lease_ok :: "rabbitmq_topology route_catalog \<Rightarrow> string \<Rightarrow> rabbitmq_leased \<Rightarrow> bool" where
  "rmq_lease_ok routes k l \<longleftrightarrow>
     (\<exists>env. rl_delivery l = rmq_delivery env (rl_delivery_tag l)) \<and>
     dv_delivery_id (rl_delivery l) = k \<and> declared routes (rl_topology l)"

definition rmq_inv :: "rabbitmq_queue_config \<Rightarrow> ('k, 'c, 'w) rabbitmq_adapter \<Rightarrow> bool" where
  "rmq_inv config a \<longleftrightarrow>
     ra_broker_enabled a \<and> ra_config a = config \<and>
     catalog_ok (build_route_topology config) (ra_routes a) \<and>
     distinct (hm_keys (ra_leased a)) \<and>
     (\<forall>k l. map_of (ra_leased a) k = Some l \<longrightarrow> rmq_lease_ok (ra_routes a) k l)"

lemma rmq_observing_simps [simp]:
  "ra_config (rmq_observing f a) = ra_config a"
  "ra_broker_enabled (rmq_observing f a) = ra_broker_enabled a"
  "ra_transport (rmq_observing f a) = ra_transport a"
  "ra_routes (rmq_observing f a) = ra_routes a"
  "ra_leased (rmq_observing f a) = ra_leased a"
  "ra_broker (rmq_observing f a) = ra_broker a"
  by (simp_all add: rmq_observing_def)

interpretation adapter: rmq_routes_frame "rmq_inv config"
  by unfold_locales
    (auto simp: rmq_inv_def catalog_ok_register rmq_lease_ok_def declared_register)

text \<open>Dropping a lease, and what the five operations of a worker and a client do.\<close>

lemma inv_unlease: "rmq_inv config a \<Longrightarrow> rmq_inv config (a\<lparr>ra_leased := hm_remove k (ra_leased a)\<rparr>)"
  by (simp add: rmq_inv_def)

lemma inv_ensure_route:
  "rmq_inv config a \<Longrightarrow> rmq_inv config (snd (rmq_ensure_route_topology task a))"
  unfolding rmq_inv_def rmq_ensure_route_topology_def
  by (auto simp: rmq_lease_ok_def dest: catalog_ok_or_insert declared_or_insert
      split: prod.splits) (metis catalog_ok_or_insert declared_or_insert snd_conv)+

lemma inv_lease:
  "rmq_inv config a \<Longrightarrow> catalog_get r (ra_routes a) = Some t \<Longrightarrow>
     rmq_inv config (a\<lparr>ra_leased := hm_insert (dv_delivery_id (rmq_delivery env tag))
       \<lparr>rl_delivery_tag = tag, rl_topology = t, rl_delivery = rmq_delivery env tag\<rparr> (ra_leased a)\<rparr>)"
  by (auto simp: rmq_inv_def rmq_lease_ok_def intro: declaredI)

lemma inv_rotate:
  "rmq_inv config a \<Longrightarrow> rmq_inv config (a\<lparr>ra_routes := catalog_rotate r (ra_routes a)\<rparr>)"
  by (auto simp: rmq_inv_def catalog_ok_rotate rmq_lease_ok_def)

lemma broker_call_routes [simp]: "ra_routes (snd (broker_call m f a)) = ra_routes a"
  by (simp add: broker_call_def with_transport_result_def rmq_lift_def invalidate_transport_def
      split: prod.splits sum.splits)

lemma inv_reserve_routes:
  "rmq_inv config a \<Longrightarrow> keeps (rmq_inv config) (rmq_reserve_routes p t rs a)"
proof (induction p t rs a rule: rmq_reserve_routes.induct)
  case (2 p t r routes a)
  show ?case
  proof (cases "catalog_get r (ra_routes a)")
    case None
    then show ?thesis using 2 by simp
  next
    case (Some topology)
    let ?call = "broker_call (''failed to reserve runtime task from '' @ rq_topo_queue_name topology)
      (ac_get p (tp_channel t) (rq_topo_queue_name topology)) a"
    obtain x b where call: "?call = (x, b)" by fastforce
    have inv: "rmq_inv config b"
      using adapter.broker_call_keeps [OF "2.prems"] call by (metis keeps_pair)
    have "catalog_get r (ra_routes b) = Some topology"
      using Some broker_call_routes call by (metis snd_conv)
    then have lease: "keeps (rmq_inv config)
        (st_then (json env, b\<lparr>ra_routes := catalog_rotate r (ra_routes b)\<rparr>) (\<lambda>envelope a.
           let delivery = rmq_delivery envelope tag
           in (Inr (Some delivery), a\<lparr>ra_leased := hm_insert (dv_delivery_id delivery)
               \<lparr>rl_delivery_tag = tag, rl_topology = topology, rl_delivery = delivery\<rparr>
               (ra_leased a)\<rparr>)))" for env tag
      using inv_lease [OF inv_rotate [OF inv], where r = r and t = topology] inv_rotate [OF inv]
      by (cases env) (simp_all add: Let_def)
    show ?thesis
    proof (cases x)
      case (Inl e)
      then show ?thesis using Some call inv by simp
    next
      case (Inr message)
      then show ?thesis
        using Some call inv lease "2.IH" (2) [OF Some]
        by (cases message) simp_all
    qed
  qed
qed simp

lemma inv_enqueue: "rmq_inv config a \<Longrightarrow> keeps (rmq_inv config) (rmq_enqueue p now task a)"
proof -
  assume "rmq_inv config a"
  then have inv: "rmq_inv config (snd (rmq_ensure_route_topology task a))" by (rule inv_ensure_route)
  obtain topology b where b: "rmq_ensure_route_topology task a = (topology, b)" by fastforce
  with inv have inv: "rmq_inv config b" and "ra_broker_enabled b" by (simp_all add: rmq_inv_def)
  then show ?thesis
    unfolding rmq_enqueue_def b
    by (auto intro!: keeps_st_then adapter.persist_keeps simp: adapter.on_observing adapter.failed_keeps
        split: prod.splits sum.splits)
      (metis adapter.publish_envelope_keeps adapter.on_observing adapter.failed_keeps keeps_pair)+
qed

lemma inv_reserve: "rmq_inv config a \<Longrightarrow> keeps (rmq_inv config) (rmq_reserve p now later bs a)"
proof -
  assume inv: "rmq_inv config a"
  then have "keeps (rmq_inv config) (rmq_reserve_from_broker p bs a)"
    unfolding rmq_reserve_from_broker_def
    by (intro adapter.with_active_keeps inv_reserve_routes)
  moreover have "ra_broker_enabled a" using inv by (simp add: rmq_inv_def)
  ultimately show ?thesis
    by (auto simp: rmq_reserve_def adapter.on_observing adapter.failed_keeps
        split: prod.splits sum.splits option.splits)
qed

lemma inv_ack_broker: "rmq_inv config a \<Longrightarrow> keeps (rmq_inv config) (ack_broker_delivery p k a)"
  unfolding ack_broker_delivery_def
  by (rule adapter.with_active_keeps)
    (auto simp: Let_def inv_unlease intro!: adapter.broker_call_keeps split: option.splits)

lemma inv_ack: "rmq_inv config a \<Longrightarrow> keeps (rmq_inv config) (rmq_ack p k a)"
  using inv_ack_broker [of config a p k]
  by (auto simp: rmq_ack_def rmq_inv_def [of config a] Let_def adapter.on_observing adapter.failed_keeps
      split: prod.splits sum.splits option.splits)

lemma inv_retry: "rmq_inv config a \<Longrightarrow> keeps (rmq_inv config) (rmq_retry p now k e ms a)"
proof -
  assume inv: "rmq_inv config a"
  then have "ra_broker_enabled a" by (simp add: rmq_inv_def)
  with inv inv_unlease [OF inv] show ?thesis
    unfolding rmq_retry_def Let_def
    by (auto split: option.splits intro!: keeps_st_then adapter.or_failed_keeps adapter.store_keeps
        adapter.publish_envelope_keeps inv_ack_broker adapter.on_observing adapter.failed_keeps)
qed

lemma inv_reject: "rmq_inv config a \<Longrightarrow> keeps (rmq_inv config) (rmq_reject p now k e a)"
proof -
  assume inv: "rmq_inv config a"
  then have "ra_broker_enabled a" by (simp add: rmq_inv_def)
  with inv inv_unlease [OF inv] show ?thesis
    unfolding rmq_reject_def Let_def
    by (auto split: option.splits intro!: keeps_st_then adapter.or_failed_keeps adapter.store_keeps
        inv_ack_broker adapter.on_observing)
qed

lemma replay_with_store_keeps:
  assumes "replay_dead_letter_with_store ops now broker k (a, m) = (r, b, n)"
    and "keeps P (ry_find ops k a)"
    and "\<And>t rec a. P a \<Longrightarrow> keeps P (ry_publish ops t rec a)"
    and "\<And>replay a. P a \<Longrightarrow> keeps P (ry_remove ops replay a)"
  shows "P b"
  using assms
  by (auto simp: replay_dead_letter_with_store_def Let_def split: prod.splits sum.splits option.splits)
    (metis keeps_pair)+

lemma inv_replay: "rmq_inv config a \<Longrightarrow> may_keep (rmq_inv config) (rmq_replay_dead_letter p now k a)"
proof -
  assume inv: "rmq_inv config a"
  then have "ra_broker_enabled a" by (simp add: rmq_inv_def)
  moreover have "keeps (rmq_inv config) found" if "rmq_find_dead_letter p k a = Some found" for found
    using adapter.find_keeps [OF inv, of p k] that by simp
  ultimately show ?thesis
    by (auto simp: rmq_replay_dead_letter_def split: option.splits prod.splits
        intro!: adapter.on_observing elim!: replay_with_store_keeps adapter.publish_envelope_keeps
          adapter.finalize_keeps)
qed

section \<open>Runs\<close>

text \<open>
  An adapter from its connection on: its own operations, as far as they return, and anything that
  happens outside between them.
\<close>

inductive rmq_run ::
    "('k, 'c, 'w) amqp \<Rightarrow> rabbitmq_queue_config \<Rightarrow> ('k, 'c, 'w) rabbitmq_adapter \<Rightarrow> bool"
    for p config where
  connected: "rmq_connect p config m w = (Inr a, w') \<Longrightarrow> rmq_run p config a"
| outside: "rmq_run p config a \<Longrightarrow> rmq_run p config (a\<lparr>ra_broker := w\<rparr>)"
| enqueue: "rmq_run p config a \<Longrightarrow> rmq_run p config (snd (rmq_enqueue p now task a))"
| reserve: "rmq_run p config a \<Longrightarrow> rmq_run p config (snd (rmq_reserve p now later bs a))"
| ack: "rmq_run p config a \<Longrightarrow> rmq_run p config (snd (rmq_ack p k a))"
| retry: "rmq_run p config a \<Longrightarrow> rmq_run p config (snd (rmq_retry p now k e ms a))"
| reject: "rmq_run p config a \<Longrightarrow> rmq_run p config (snd (rmq_reject p now k e a))"
| stats: "rmq_run p config a \<Longrightarrow> rmq_stats p a = Some (r, b) \<Longrightarrow> rmq_run p config b"
| dead_letters: "rmq_run p config a \<Longrightarrow> rmq_dead_letters p a = Some (r', b) \<Longrightarrow> rmq_run p config b"
| replay: "rmq_run p config a \<Longrightarrow> rmq_replay_dead_letter p now k a = Some (r'', b) \<Longrightarrow> rmq_run p config b"

lemma connect_inv: "rmq_connect p config m w = (Inr a, w') \<Longrightarrow> rmq_inv config a"
  by (auto simp: rmq_connect_def st_then_Inr_iff rmq_adapter_def rmq_inv_def catalog_ok_new)

lemma run_inv: "rmq_run p config a \<Longrightarrow> rmq_inv config a"
proof (induction rule: rmq_run.induct)
  case (stats a r b)
  then show ?case using adapter.stats_keeps [of config a p] by (simp add: rmq_inv_def)
next
  case (dead_letters a r b)
  then show ?case using adapter.dead_letters_keeps [of config a p] by (simp add: rmq_inv_def)
next
  case (replay a now k r b)
  then show ?case using inv_replay [of config a p now k] by simp
next
  case (outside a w)
  then show ?case by (simp add: adapter.on_broker)
qed (use inv_enqueue inv_reserve inv_ack inv_retry inv_reject in
      \<open>auto simp: connect_inv keeps_def\<close>)

section \<open>Deliveries that are never acknowledged\<close>

text \<open>Publishing does not acknowledge, and without the lease \<open>ack_broker_delivery\<close> does not either.\<close>

lemma ac_ack_update:
  "connect_transport (p\<lparr>ac_ack := f\<rparr>) = connect_transport p"
  "is_connected (p\<lparr>ac_ack := f\<rparr>) = is_connected p"
  "rmq_ensure_topology (p\<lparr>ac_ack := f\<rparr>) = rmq_ensure_topology p"
  by (intro ext; simp add: connect_transport_def is_connected_def rmq_ensure_topology_def
      ensure_topology_calls_def)+

lemma codec_update:
  "rj_envelope (p\<lparr>ac_ack := f\<rparr>) = rj_envelope p" "rj_record (p\<lparr>ac_ack := f\<rparr>) = rj_record p"
  by simp_all

lemma active_update: "active_transport (p\<lparr>ac_ack := f\<rparr>) = active_transport p"
  by (rule ext) (unfold active_transport_def ac_ack_update, rule refl)

lemma publish_confirmed_update: "publish_confirmed (p\<lparr>ac_ack := f\<rparr>) = publish_confirmed p"
  by (intro ext) (simp add: publish_confirmed_def)

lemma publish_envelope_update: "rmq_publish_envelope (p\<lparr>ac_ack := f\<rparr>) = rmq_publish_envelope p"
  by (intro ext, unfold rmq_publish_envelope_def with_active_def declare_topology_def
      publish_confirmed_update active_update ac_ack_update codec_update) simp

lemma publish_raw_update: "publish_raw_payload (p\<lparr>ac_ack := f\<rparr>) = publish_raw_payload p"
  by (intro ext, unfold publish_raw_payload_def with_active_def declare_topology_def
      publish_confirmed_update active_update ac_ack_update codec_update) simp

lemma store_update: "rmq_store_dead_letter (p\<lparr>ac_ack := f\<rparr>) = rmq_store_dead_letter p"
  by (intro ext, unfold rmq_store_dead_letter_def publish_raw_update codec_update) simp

lemmas publish_update = publish_envelope_update store_update

lemma failed_update:
  "rmq_failed (p\<lparr>ac_ack := f\<rparr>) = rmq_failed p"
  "rmq_or_failed (p\<lparr>ac_ack := f\<rparr>) = rmq_or_failed p"
  by (intro ext; simp add: rmq_failed_def rmq_or_failed_def cong: sum.case_cong)+

lemma ack_without_lease:
  assumes "map_of (ra_leased a) k = None"
  shows "ack_broker_delivery (p\<lparr>ac_ack := f\<rparr>) k a = ack_broker_delivery p k a"
proof -
  have "map_of (ra_leased b) k = None" if "active_transport p a = (Inr t, b)" for t b
    using that assms
    by (auto simp: active_transport_def st_then_Inr_iff rmq_lift_def split: if_splits prod.splits)
  then show ?thesis
    by (cases "active_transport p a"; cases "fst (active_transport p a)")
      (auto simp: ack_broker_delivery_def with_active_def Let_def active_update split: option.splits)
qed

interpretation unleased: rmq_frame "\<lambda>a. map_of (ra_leased a) k = None"
  by unfold_locales simp_all

lemma then_ack_without_lease:
  assumes "keeps (\<lambda>a. map_of (ra_leased a) k = None) r"
  shows "st_then r (\<lambda>_ a. st_then (rmq_or_failed p task m (ack_broker_delivery (p\<lparr>ac_ack := f\<rparr>) k a)) g) =
    st_then r (\<lambda>_ a. st_then (rmq_or_failed p task m (ack_broker_delivery p k a)) g)"
    and "st_then r (\<lambda>_ a. rmq_or_failed p task m (ack_broker_delivery (p\<lparr>ac_ack := f\<rparr>) k a)) =
    st_then r (\<lambda>_ a. rmq_or_failed p task m (ack_broker_delivery p k a))"
  using assms by (cases r; cases "fst r"; simp add: ack_without_lease)+

lemma inv_lease_id:
  assumes "rmq_inv config a" and "map_of (ra_leased a) k = Some l"
  shows "dv_delivery_id (rl_delivery l) = k"
    and "map_of (ra_leased (a\<lparr>ra_leased := hm_remove k (ra_leased a)\<rparr>)) k = None"
  using assms by (auto simp: rmq_inv_def rmq_lease_ok_def)

lemma retry_without_ack:
  assumes "rmq_inv config a"
  shows "rmq_retry (p\<lparr>ac_ack := f\<rparr>) now k e ms a = rmq_retry p now k e ms a"
proof (cases "map_of (ra_leased a) k")
  case None
  then show ?thesis by (simp add: rmq_retry_def failed_update)
next
  case (Some l)
  note id = inv_lease_id [OF assms Some]
  show ?thesis
    unfolding rmq_retry_def Let_def Some option.case id(1)
    by (simp only: publish_update failed_update ac_ack_update active_update)
      (simp add: then_ack_without_lease unleased.or_failed_keeps unleased.store_keeps
        unleased.publish_envelope_keeps id(2) [simplified])
qed

lemma reject_without_ack:
  assumes "rmq_inv config a"
  shows "rmq_reject (p\<lparr>ac_ack := f\<rparr>) now k e a = rmq_reject p now k e a"
proof (cases "map_of (ra_leased a) k")
  case None
  then show ?thesis by (simp add: rmq_reject_def)
next
  case (Some l)
  note id = inv_lease_id [OF assms Some]
  show ?thesis
    unfolding rmq_reject_def Let_def Some option.case id(1)
    by (simp only: publish_update failed_update ac_ack_update active_update)
      (simp add: then_ack_without_lease unleased.or_failed_keeps unleased.store_keeps
        id(2) [simplified])
qed

section \<open>Calls that return\<close>

text \<open>
  What a broker does with a read: a message that is handed out is no longer ready, so a measure of
  the ready messages of the queue falls.
\<close>

definition reads_shrink :: "('k, 'c, 'w) amqp \<Rightarrow> (string \<Rightarrow> 'w \<Rightarrow> nat) \<Rightarrow> bool" where
  "reads_shrink p ready \<longleftrightarrow>
     (\<forall>c q w m w'. ac_get p c q w = (Inr (Some m), w') \<longrightarrow> ready q w' < ready q w)"

lemma reads_shrinkD:
  "reads_shrink p ready \<Longrightarrow> broker_call msg (ac_get p c q) a = (Inr (Some m), b) \<Longrightarrow>
     ready q (ra_broker b) < ready q (ra_broker a)"
  by (auto simp: reads_shrink_def broker_call_def with_transport_result_def rmq_lift_def
      client_call_Inr_iff split: prod.splits sum.splits)

lemma returns_read_queue:
  assumes "reads_shrink p ready"
  shows "returns (read_queue p t msg q parse ms a)"
proof (induction "ready q (ra_broker a)" arbitrary: ms a rule: less_induct)
  case less
  obtain x b where call: "broker_call (msg @ q) (ac_get p (tp_channel t) q) a = (x, b)" by fastforce
  then have "returns (read_queue p t msg q parse ms' b)" if "x = Inr (Some m)" for m ms'
    using that less reads_shrinkD [OF assms] by blast
  then show ?case
    by (subst read_queue.simps) (auto simp: call split: sum.splits option.splits)
qed

lemma returns_may_active: "(\<And>t a. returns (f t a)) \<Longrightarrow> returns (may_active p otherwise f a)"
  unfolding may_active_def by (rule returns_then) (simp_all split: option.splits)

lemma returns_drain: "reads_shrink p ready \<Longrightarrow> returns (drain_dead_letter_queue p topology a)"
  unfolding drain_dead_letter_queue_def
  by (intro returns_may_active returns_then returns_read_queue) simp_all

lemma returns_load_routes: "reads_shrink p ready \<Longrightarrow> returns (rmq_load_routes p a)"
  unfolding rmq_load_routes_def
  by (intro returns_may_active returns_then returns_read_queue) simp_all

lemma returns_find: "reads_shrink p ready \<Longrightarrow> returns (rmq_find_dead_letter p k a)"
proof -
  assume shrink: "reads_shrink p ready"
  have "returns (find_in_topologies p k ts b)" for ts b
    by (induction ts arbitrary: b)
      (auto intro!: returns_then returns_drain [OF shrink] split: prod.splits option.splits)
  then show ?thesis
    unfolding rmq_find_dead_letter_def by (intro returns_then returns_load_routes [OF shrink])
qed

text \<open>C30: Reading and replaying dead letters always returns, whatever fails in between, as long as a
  read takes a message off the queue: the loops that read a queue to its end have no other bound.\<close>

theorem dead_letter_calls_return:
  assumes "reads_shrink p ready"
  shows "returns (rmq_dead_letters p a) \<and> returns (rmq_replay_dead_letter p now k a)"
proof -
  have "returns (rmq_load_dead_letters p a)"
    unfolding rmq_load_dead_letters_def
    by (intro returns_then returns_load_routes [OF assms] returns_collect returns_drain [OF assms]) simp_all
  then show ?thesis
    using returns_find [OF assms, of k a]
    by (auto simp: rmq_dead_letters_def rmq_replay_dead_letter_def returns_def split: option.splits)
qed

text \<open>The queues that the statistics inspect, and whether one of the inspections fails.\<close>

fun inspection_fails :: "('k, 'c, 'w) amqp \<Rightarrow> 'c \<Rightarrow> string list \<Rightarrow> 'w \<Rightarrow> bool" where
  "inspection_fails p c [] w = False"
| "inspection_fails p c (q # qs) w =
     (case ac_inspect p c q w of
        (Inl _, _) \<Rightarrow> True
      | (Inr _, w) \<Rightarrow> inspection_fails p c qs w)"

definition inspected_queues :: "rabbitmq_topology list \<Rightarrow> string list" where
  "inspected_queues ts =
     concat (map (\<lambda>t. [rq_topo_queue_name t, rq_topo_dead_letter_queue_name t]) ts)"

text \<open>An inspection under the guard: a failure waits for the lock.\<close>

lemma inspect_under_guard:
  "ra_broker_enabled a \<Longrightarrow> inspect_queue m f (True, a) =
     (case f (ra_broker a) of
        (Inl _, _) \<Rightarrow> None
      | (Inr n, w) \<Rightarrow> Some (Inr n, True, a\<lparr>ra_broker := w\<rparr>))"
  by (simp add: inspect_queue_def rmq_lift_def client_call_def locked_transport_result_def
      locked_invalidate_transport_def clear_leases_def lock_leases_def split: prod.splits sum.splits)

lemma route_stats_enabled:
  "ra_broker_enabled a \<Longrightarrow> rmq_route_stats p t topology (True, a) =
     (case ac_inspect p (tp_channel t) (rq_topo_queue_name topology) (ra_broker a) of
        (Inl _, _) \<Rightarrow> None
      | (Inr queued, w) \<Rightarrow>
          (case ac_inspect p (tp_channel t) (rq_topo_dead_letter_queue_name topology) w of
             (Inl _, _) \<Rightarrow> None
           | (Inr dead, w) \<Rightarrow> Some (Inr
               \<lparr>qs_queue = rq_topo_queue topology, qs_lane = rq_topo_lane topology,
                qs_queued = unat queued,
                qs_leased = leased_on rl_delivery (rq_topo_queue topology, rq_topo_lane topology) (ra_leased a),
                qs_dead_lettered = unat dead\<rparr>, True, a\<lparr>ra_broker := w\<rparr>)))"
  by (simp add: rmq_route_stats_def inspect_under_guard split: prod.splits sum.splits)

lemma may_then_None:
  "may_then r f = None \<longleftrightarrow> r = None \<or> (\<exists>x s. r = Some (Inr x, s) \<and> f x s = None)"
  by (auto simp: may_then_def split: option.splits prod.splits sum.splits)

lemma route_inspections_hang:
  "ra_broker_enabled a \<Longrightarrow>
     collect_may (rmq_route_stats p t) ts (True, a) = None \<longleftrightarrow>
     inspection_fails p (tp_channel t) (inspected_queues ts) (ra_broker a)"
proof (induction ts arbitrary: a)
  case (Cons topology ts)
  have "collect_may (rmq_route_stats p t) ts (True, a\<lparr>ra_broker := w\<rparr>) = None \<longleftrightarrow>
      inspection_fails p (tp_channel t) (inspected_queues ts) w" for w
    using Cons.IH [of "a\<lparr>ra_broker := w\<rparr>"] Cons.prems by simp
  then show ?case
    by (simp add: route_stats_enabled [OF Cons.prems] may_then_None inspected_queues_def ex_bool_eq
        split: prod.splits sum.splits)
qed (simp add: inspected_queues_def)

lemma collect_stats_hangs:
  "ra_broker_enabled a \<Longrightarrow> rmq_collect_stats p t a = None \<longleftrightarrow>
     inspection_fails p (tp_channel t) (inspected_queues (catalog_topologies (ra_routes a))) (ra_broker a)"
  by (subst route_inspections_hang [symmetric])
    (simp_all add: rmq_collect_stats_def lock_leases_def split: option.split)

interpretation enabled: rmq_routes_frame ra_broker_enabled
  by unfold_locales simp_all

text \<open>C29: When reads take messages off the queues, the statistics return except in one case: the
  broker is enabled, the adapter has a transport and loaded its routes, and the inspection of one of
  the queues fails. The failure gives the transport up, which clears the leases under their lock;
  the call holds that lock itself since before the first inspection, so it never returns.\<close>

theorem stats_wait_for_themselves:
  assumes "reads_shrink p ready"
  shows "rmq_stats p a = None \<longleftrightarrow> ra_broker_enabled a \<and>
    (\<exists>t b c. active_transport p a = (Inr (Some t), b) \<and> rmq_load_routes p b = Some (Inr (), c) \<and>
       inspection_fails p (tp_channel t) (inspected_queues (catalog_topologies (ra_routes c)))
         (ra_broker c))"
proof (cases "ra_broker_enabled a")
  case True
  have returned: "rmq_load_routes p b \<noteq> None" for b
    using returns_load_routes [OF assms, of b] by (simp add: returns_def)
  have enabled: "ra_broker_enabled c"
    if "active_transport p a = (Inr (Some t), b)" "rmq_load_routes p b = Some (Inr (), c)" for t b c
    using that enabled.active_keeps [OF True, of p] enabled.load_routes_keeps [of b p] by simp
  have hangs: "rmq_collect_stats p t c = None \<longleftrightarrow>
      inspection_fails p (tp_channel t) (inspected_queues (catalog_topologies (ra_routes c))) (ra_broker c)"
    if "active_transport p a = (Inr (Some t), b)" "rmq_load_routes p b = Some (Inr (), c)" for t b c
    by (rule collect_stats_hangs [OF enabled [OF that]])
  have "rmq_stats p a = None \<longleftrightarrow> (\<exists>t b c. active_transport p a = (Inr (Some t), b) \<and>
      rmq_load_routes p b = Some (Inr (), c) \<and>
      rmq_collect_stats p t c = None)"
    using True by (auto simp: rmq_stats_def may_active_def may_then_None returned split: option.splits)
  also have "\<dots> \<longleftrightarrow> (\<exists>t b c. active_transport p a = (Inr (Some t), b) \<and>
      rmq_load_routes p b = Some (Inr (), c) \<and>
      inspection_fails p (tp_channel t) (inspected_queues (catalog_topologies (ra_routes c)))
        (ra_broker c))"
    using hangs by (intro ex_cong1 conj_cong) auto
  finally show ?thesis using True by blast
qed (simp add: rmq_stats_def)

end
