(* ===== verification/Rabbitmq_Runs.thy ===== *)
theory Rabbitmq_Runs
  imports Rabbitmq_Props Queue_Props
begin

text \<open>
  Runs of the RabbitMQ adapter: its well-formedness, the deliveries that a retry or a rejection
  leaves unacknowledged, and a small broker on which the runs of the witnesses take place.
\<close>

section \<open>A small broker\<close>

text \<open>
  Queues of payloads, bindings, the unacknowledged messages by their tags, and whether the
  connection is up. A new connection gives the unacknowledged messages back; a broker may be told
  to fail its inspections.
\<close>

record small_broker =
  sb_queues :: "(string, string list) hash_map"
  sb_bindings :: "(string \<times> string, string) hash_map"
  sb_unacked :: "(u64, string \<times> string) hash_map"
  sb_next_tag :: u64
  sb_up :: bool
  sb_inspects :: bool

definition empty_broker :: small_broker where
  "empty_broker = \<lparr>sb_queues = [], sb_bindings = [], sb_unacked = [], sb_next_tag = 1, sb_up = True,
     sb_inspects = True\<rparr>"

definition sb_queue :: "string \<Rightarrow> small_broker \<Rightarrow> string list" where
  "sb_queue q w = (case map_of (sb_queues w) q of None \<Rightarrow> [] | Some ms \<Rightarrow> ms)"

definition sb_set :: "string \<Rightarrow> string list \<Rightarrow> small_broker \<Rightarrow> small_broker" where
  "sb_set q ms w = w\<lparr>sb_queues := hm_insert q ms (sb_queues w)\<rparr>"

definition sb_reconnect :: "small_broker \<Rightarrow> small_broker" where
  "sb_reconnect w =
     (fold (\<lambda>(_, q, m) w. sb_set q (m # sb_queue q w) w) (sb_unacked w) w)\<lparr>sb_unacked := [], sb_up := True\<rparr>"

definition sb_publish :: "string \<Rightarrow> string \<Rightarrow> string \<Rightarrow> small_broker \<Rightarrow> small_broker" where
  "sb_publish x k payload w =
     (let q = (if x = [] then k else case map_of (sb_bindings w) (x, k) of None \<Rightarrow> [] | Some q \<Rightarrow> q)
      in sb_set q (sb_queue q w @ [payload]) w)"

definition sb_get :: "string \<Rightarrow> small_broker \<Rightarrow> amqp_message option \<times> small_broker" where
  "sb_get q w =
     (case sb_queue q w of
        [] \<Rightarrow> (None, w)
      | m # ms \<Rightarrow>
          (Some \<lparr>am_delivery_tag = sb_next_tag w, am_data = m\<rparr>,
           (sb_set q ms w)\<lparr>sb_unacked := hm_insert (sb_next_tag w) (q, m) (sb_unacked w),
                          sb_next_tag := sb_next_tag w + 1\<rparr>))"

text \<open>The payload of a task is its attempt, one or more; all tasks are the sample task.\<close>

definition small_amqp :: "(unit, unit, small_broker) amqp" where
  "small_amqp =
     \<lparr>ac_connect = \<lambda>_ w. (Inr (), sb_reconnect w), ac_create_channel = \<lambda>_ w. (Inr (), w),
      ac_confirm_select = \<lambda>_ w. (Inr (), w), ac_connection_up = \<lambda>_ w. sb_up w, ac_channel_up = \<lambda>_ _. True,
      ac_exchange_declare = \<lambda>_ _ w. (Inr (), w), ac_queue_declare = \<lambda>_ _ _ w. (Inr (), w),
      ac_queue_bind = \<lambda>_ q x k w. (Inr (), w\<lparr>sb_bindings := hm_insert (x, k) q (sb_bindings w)\<rparr>),
      ac_inspect = \<lambda>_ q w. (if sb_inspects w then Inr (of_nat (length (sb_queue q w))) else Inl ''gone'', w),
      ac_publish = \<lambda>_ x k payload _ w. (Inr (), sb_publish x k payload w),
      ac_confirm = \<lambda>_ w. (Inr True, w),
      ac_get = \<lambda>_ q w. map_prod Inr id (sb_get q w),
      ac_ack = \<lambda>_ tag w. (Inr (), w\<lparr>sb_unacked := hm_remove tag (sb_unacked w)\<rparr>),
      ac_now = \<lambda>_. 0,
      rj_envelope = \<lambda>env. Some (if re_attempt env = 1 then ''first'' else ''second''),
      rj_parse_envelope = \<lambda>s. Some \<lparr>re_task = sample_task ''t'' ''fast'' 3,
        re_attempt = (if s = ''first'' then 1 else 2), re_last_error = None\<rparr>,
      rj_record = \<lambda>_. Some ''r'', rj_parse_record = \<lambda>_. None,
      rj_entry = \<lambda>_. Some ''e'',
      rj_parse_entry = \<lambda>_. Some \<lparr>rg_queue = ''oj_judge'', rg_lane = ''fast''\<rparr>\<rparr>"

definition small_config :: rabbitmq_queue_config where
  "small_config = \<lparr>rqc_url = ''amqp://b'', rqc_exchange = ''x'', rqc_queue_prefix = ''p''\<rparr>"

definition small_adapter :: "(unit, unit, small_broker) rabbitmq_adapter" where
  "small_adapter = rmq_adapter small_config empty_metrics
     (Some \<lparr>tp_connection = (), tp_channel = ()\<rparr>) empty_broker"

lemma small_connected: "rmq_run small_amqp small_config small_adapter"
proof -
  have "rmq_connect small_amqp small_config empty_metrics empty_broker = (Inr small_adapter, empty_broker)"
    by code_simp
  then show ?thesis by (rule rmq_run.connected)
qed

lemma small_reads_shrink: "reads_shrink small_amqp (\<lambda>q w. length (sb_queue q w))"
  by (auto simp: reads_shrink_def small_amqp_def sb_get_def sb_queue_def sb_set_def split: list.splits)

text \<open>One task, reserved.\<close>

definition small_reserved :: "(unit, unit, small_broker) rabbitmq_adapter" where
  "small_reserved =
     snd (rmq_reserve small_amqp 0 0 [] (snd (rmq_enqueue small_amqp 0 (sample_task ''t'' ''fast'' 3)
       small_adapter)))"

lemma small_reserved_run: "rmq_run small_amqp small_config small_reserved"
  unfolding small_reserved_def by (intro rmq_run.reserve rmq_run.enqueue small_connected)

section \<open>Properties\<close>

text \<open>C31: Whatever the client library and the broker do, an adapter stays well formed: its catalog
  lists every route once with the topology of its configuration, and every lease is kept once, under
  the id of its delivery, on a route of the catalog.\<close>

theorem rabbitmq_adapters_are_well_formed:
  assumes "rmq_run p config a"
  shows "rmq_inv config a"
  using assms by (rule run_inv)

theorem rabbitmq_adapters_are_well_formed_witness: "rmq_inv small_config small_reserved"
  by (rule rabbitmq_adapters_are_well_formed [OF small_reserved_run])

text \<open>C28: A retry and a rejection never acknowledge the delivery they answer: they do the same for
  every acknowledgement the client library could make, since both drop the lease before they look
  it up again. The broker delivers the message again when the connection is lost.\<close>

theorem retried_deliveries_stay_unacknowledged:
  assumes "rmq_run p config a"
  shows "rmq_retry (p\<lparr>ac_ack := f\<rparr>) now k e ms a = rmq_retry p now k e ms a \<and>
    rmq_reject (p\<lparr>ac_ack := f\<rparr>) now k e a = rmq_reject p now k e a"
  using retry_without_ack reject_without_ack run_inv [OF assms] by blast

text \<open>On the small broker: the retry is published and the delivery stays unacknowledged.\<close>

definition small_retried :: "retry_disposition app_result \<times> (unit, unit, small_broker) rabbitmq_adapter" where
  "small_retried = rmq_retry small_amqp 0 ''rmq-t-1'' ''boom'' 1000 small_reserved"

lemma small_retried_broker:
  "fst small_retried = Inr RdRequeued \<and>
   sb_unacked (ra_broker (snd small_retried)) = [(1, ''p.oj_judge.fast'', ''first'')] \<and>
   sb_queue ''p.oj_judge.fast.retry'' (ra_broker (snd small_retried)) = [''second'']"
  by code_simp

theorem retried_deliveries_stay_unacknowledged_witness:
  "rmq_retry (small_amqp\<lparr>ac_ack := \<lambda>_ _ w. (Inl ''refused'', w)\<rparr>) 0 ''rmq-t-1'' ''boom'' 1000 small_reserved =
     small_retried \<and> fst small_retried = Inr RdRequeued \<and>
   sb_unacked (ra_broker (snd small_retried)) = [(1, ''p.oj_judge.fast'', ''first'')]"
  using retried_deliveries_stay_unacknowledged [OF small_reserved_run] small_retried_broker
  by (simp add: small_retried_def)

theorem dead_letter_calls_return_witness:
  "returns (rmq_dead_letters small_amqp small_reserved) \<and>
   returns (rmq_replay_dead_letter small_amqp 0 ''rmq-t-1'' small_reserved)"
  by (rule dead_letter_calls_return [OF small_reads_shrink])

text \<open>An adapter that knows one route, and a broker without messages that fails its inspections.\<close>

definition small_failing :: "(unit, unit, small_broker) rabbitmq_adapter" where
  "small_failing = small_adapter
     \<lparr>ra_routes := register_route ''q'' ''l'' (build_route_topology small_config ''q'' ''l'') new_catalog,
      ra_broker := empty_broker\<lparr>sb_inspects := False\<rparr>\<rparr>"

lemma small_failing_simps:
  "active_transport small_amqp small_failing =
     (Inr (Some \<lparr>tp_connection = (), tp_channel = ()\<rparr>), small_failing)"
  "inspection_fails small_amqp () (inspected_queues (catalog_topologies (ra_routes small_failing)))
     (ra_broker small_failing)"
  "ra_broker_enabled small_failing"
  by code_simp+

lemma small_failing_reads:
  "read_queue small_amqp t m q parse [] small_failing = Some (Inr [], small_failing)"
  by (subst read_queue.simps)
    (simp add: broker_call_def with_transport_result_def rmq_lift_def client_call_def small_amqp_def
      sb_get_def sb_queue_def small_failing_def empty_broker_def)

lemma small_failing_loads: "rmq_load_routes small_amqp small_failing = Some (Inr (), small_failing)"
proof -
  have "declare_registry small_amqp t small_failing = (Inr (), small_failing)" for t
    by (simp add: declare_registry_def broker_call_def with_transport_result_def rmq_lift_def
        client_call_def small_amqp_def)
  then show ?thesis
    by (simp add: rmq_load_routes_def may_active_def small_failing_simps small_failing_reads)
qed

theorem stats_wait_for_themselves_witness: "rmq_stats small_amqp small_failing = None"
  using stats_wait_for_themselves [OF small_reads_shrink, of small_failing]
    small_failing_simps small_failing_loads
  by (metis rabbitmq_transport.select_convs(2))

end
