(* ===== verification/Redis_Streams.thy ===== *)
theory Redis_Streams
  imports Broker_Client Task_Queue
begin

text \<open>
  The task queue over Redis streams (crates/nexus-runtime/src/broker/redis.rs): a stream with a
  consumer group for a route, a sorted set of retries that are not due yet, a stream of dead
  letters, and a set that lists the routes. The client library is an argument: \<open>'h\<close> is a handle of
  it (client, connection) and \<open>'w\<close> the outside; so is serialisation.
\<close>

section \<open>The client\<close>

datatype redis_error = BusyGroup | RedisFailed string

record redis_message =
  rm_id :: string
  rm_payload_field :: "string option"

record redis_group =
  rg_name :: string
  rg_pending :: nat
  rg_lag :: "nat option"

record redis_envelope =
  se_task :: runtime_task
  se_attempt :: u32
  se_last_error :: "string option"

record redis_delayed_envelope =
  sd_token :: string
  sd_envelope :: redis_envelope

record redis_registry_entry =
  sg_queue :: string
  sg_lane :: string

text \<open>
  One field for a command; a stream entry has the one field \<^theory_text>\<open>payload\<close>. \<open>dc_xreadgroup\<close> asks for
  one new message within 200 milliseconds and answers the messages of each stream, \<open>dc_xautoclaim\<close>
  for one that was idle for the time given and answers the ids of deleted entries too.
\<close>

record ('h, 'w) redis =
  dc_open :: "string \<Rightarrow> string + 'h"
  dc_connection :: "'h \<Rightarrow> 'w \<Rightarrow> (string + 'h) \<times> 'w"
  dc_xgroup_create_mkstream :: "'h \<Rightarrow> string \<Rightarrow> string \<Rightarrow> 'w \<Rightarrow> (redis_error + unit) \<times> 'w"
  dc_xadd :: "'h \<Rightarrow> string \<Rightarrow> string \<Rightarrow> 'w \<Rightarrow> (string + string) \<times> 'w"
  dc_sadd :: "'h \<Rightarrow> string \<Rightarrow> string \<Rightarrow> 'w \<Rightarrow> (string + nat) \<times> 'w"
  dc_smembers :: "'h \<Rightarrow> string \<Rightarrow> 'w \<Rightarrow> (string + string list) \<times> 'w"
  dc_zrangebyscore :: "'h \<Rightarrow> string \<Rightarrow> int \<Rightarrow> nat \<Rightarrow> 'w \<Rightarrow> (string + string list) \<times> 'w"
  dc_zrem :: "'h \<Rightarrow> string \<Rightarrow> string \<Rightarrow> 'w \<Rightarrow> (string + nat) \<times> 'w"
  dc_zadd :: "'h \<Rightarrow> string \<Rightarrow> string \<Rightarrow> int \<Rightarrow> 'w \<Rightarrow> (string + nat) \<times> 'w"
  dc_zcard :: "'h \<Rightarrow> string \<Rightarrow> 'w \<Rightarrow> (string + nat) \<times> 'w"
  dc_xreadgroup :: "'h \<Rightarrow> string \<Rightarrow> string \<Rightarrow> string \<Rightarrow> 'w \<Rightarrow> (string + redis_message list list) \<times> 'w"
  dc_xautoclaim :: "'h \<Rightarrow> string \<Rightarrow> string \<Rightarrow> string \<Rightarrow> u64 \<Rightarrow> 'w \<Rightarrow>
    (string + string list \<times> redis_message list) \<times> 'w"
  dc_xack :: "'h \<Rightarrow> string \<Rightarrow> string \<Rightarrow> string \<Rightarrow> 'w \<Rightarrow> (string + nat) \<times> 'w"
  dc_xdel :: "'h \<Rightarrow> string \<Rightarrow> string \<Rightarrow> 'w \<Rightarrow> (string + nat) \<times> 'w"
  dc_xrange_all :: "'h \<Rightarrow> string \<Rightarrow> 'w \<Rightarrow> (string + redis_message list) \<times> 'w"
  dc_xinfo_groups :: "'h \<Rightarrow> string \<Rightarrow> 'w \<Rightarrow> (string + redis_group list) \<times> 'w"
  dc_xlen :: "'h \<Rightarrow> string \<Rightarrow> 'w \<Rightarrow> (string + nat) \<times> 'w"
  dc_now :: "'w \<Rightarrow> system_time"
  dc_ulid :: "'w \<Rightarrow> string \<times> 'w"
  dj_envelope :: "redis_envelope \<Rightarrow> string option"
  dj_parse_envelope :: "string \<Rightarrow> redis_envelope option"
  dj_delayed :: "redis_delayed_envelope \<Rightarrow> string option"
  dj_parse_delayed :: "string \<Rightarrow> redis_delayed_envelope option"
  dj_record :: "dead_letter_record \<Rightarrow> string option"
  dj_parse_record :: "string \<Rightarrow> dead_letter_record option"
  dj_entry :: "redis_registry_entry \<Rightarrow> string option"
  dj_parse_entry :: "string \<Rightarrow> redis_registry_entry option"

section \<open>State\<close>

record 'h redis_transport =
  dt_client :: 'h
  dt_consumer_name :: string

record redis_leased =
  sl_entry_id :: string
  sl_topology :: redis_topology
  sl_delivery :: task_delivery

text \<open>The metrics of the process are those of the in-memory queue inside, as in the other queues.\<close>

record ('h, 'w) redis_adapter =
  sa_config :: redis_queue_config
  sa_inner :: mem_queue
  sa_transport :: "'h redis_transport option"
  sa_routes :: "redis_topology route_catalog"
  sa_leased :: "(string, redis_leased) hash_map"
  sa_broker :: 'w

abbreviation redis_name :: string where
  "redis_name \<equiv> ''redis_streams''"

definition redis_observing :: "(metrics \<Rightarrow> metrics) \<Rightarrow> ('h, 'w) redis_adapter \<Rightarrow> ('h, 'w) redis_adapter" where
  "redis_observing f a = a\<lparr>sa_inner := observing f (sa_inner a)\<rparr>"

definition redis_failed ::
    "('h, 'w) redis \<Rightarrow> string \<Rightarrow> string \<Rightarrow> string \<Rightarrow> ('h, 'w) redis_adapter \<Rightarrow> ('h, 'w) redis_adapter" where
  "redis_failed p queue lane operation a =
     redis_observing (observe_broker_operation_failure (dc_now p (sa_broker a)) redis_name queue lane
       operation) a"

definition redis_inner ::
    "(mem_queue \<Rightarrow> 'r \<times> mem_queue) \<Rightarrow> ('h, 'w) redis_adapter \<Rightarrow> 'r \<times> ('h, 'w) redis_adapter" where
  "redis_inner f a = (case f (sa_inner a) of (r, q) \<Rightarrow> (r, a\<lparr>sa_inner := q\<rparr>))"

definition redis_call ::
    "string \<Rightarrow> ('w \<Rightarrow> (string + 'a) \<times> 'w) \<Rightarrow> ('h, 'w) redis_adapter \<Rightarrow> 'a app_result \<times> ('h, 'w) redis_adapter" where
  "redis_call message f a =
     (case client_call message f (sa_broker a) of (r, w) \<Rightarrow> (r, a\<lparr>sa_broker := w\<rparr>))"

definition redis_now_ms :: "('h, 'w) redis \<Rightarrow> ('h, 'w) redis_adapter \<Rightarrow> u64" where
  "redis_now_ms p a = epoch_ms (dc_now p (sa_broker a))"

text \<open>\<^theory_text>\<open>let Some(transport) = &self.transport else { return Ok(..) }\<close>.\<close>

definition with_redis ::
    "'a \<Rightarrow> ('h redis_transport \<Rightarrow> ('h, 'w) redis_adapter \<Rightarrow> 'a app_result \<times> ('h, 'w) redis_adapter) \<Rightarrow>
       ('h, 'w) redis_adapter \<Rightarrow> 'a app_result \<times> ('h, 'w) redis_adapter" where
  "with_redis otherwise f a = (case sa_transport a of None \<Rightarrow> (Inr otherwise, a) | Some t \<Rightarrow> f t a)"

section \<open>Connection and topology\<close>

definition validate_redis_streams_config :: "redis_queue_config \<Rightarrow> unit app_result" where
  "validate_redis_streams_config c =
     (if \<not> starts_with ''redis://'' (sqc_url c) \<and> \<not> starts_with ''rediss://'' (sqc_url c)
      then Inl (InvalidConfig ''redis streams url must start with redis:// or rediss://'')
      else if trim (sqc_stream_prefix c) = []
      then Inl (InvalidConfig ''redis streams stream_prefix cannot be empty'')
      else if trim (sqc_consumer_group_prefix c) = []
      then Inl (InvalidConfig ''redis streams consumer_group_prefix cannot be empty'')
      else if trim (sqc_consumer_name_prefix c) = []
      then Inl (InvalidConfig ''redis streams consumer_name_prefix cannot be empty'')
      else Inr ())"

definition redis_connect ::
    "('h, 'w) redis \<Rightarrow> redis_queue_config \<Rightarrow> metrics \<Rightarrow> 'w \<Rightarrow> ('h, 'w) redis_adapter app_result \<times> 'w" where
  "redis_connect p config m w =
     st_then (validate_redis_streams_config config, w) (\<lambda>_ w.
     st_then (client_call ''failed to open redis client'' (\<lambda>w. (dc_open p (sqc_url config), w)) w) (\<lambda>client w.
     case dc_ulid p w of (ulid, w) \<Rightarrow>
       (Inr
         \<lparr>sa_config = config, sa_inner = default_mem_queue m,
          sa_transport = Some \<lparr>dt_client = client,
            dt_consumer_name = sanitize_consumer_name (sqc_consumer_name_prefix config) @ ''-'' @ ulid\<rparr>,
          sa_routes = new_catalog, sa_leased = [], sa_broker = w\<rparr>, w)))"

definition redis_connection ::
    "('h, 'w) redis \<Rightarrow> 'h redis_transport \<Rightarrow> ('h, 'w) redis_adapter \<Rightarrow> 'h app_result \<times> ('h, 'w) redis_adapter" where
  "redis_connection p t = redis_call ''failed to connect to redis'' (dc_connection p (dt_client t))"

text \<open>A group that exists already is no error.\<close>

definition redis_ensure_topology ::
    "('h, 'w) redis \<Rightarrow> 'h redis_transport \<Rightarrow> redis_topology \<Rightarrow> ('h, 'w) redis_adapter \<Rightarrow>
       unit app_result \<times> ('h, 'w) redis_adapter" where
  "redis_ensure_topology p t topology a =
     st_then (redis_connection p t a) (\<lambda>conn a.
     case dc_xgroup_create_mkstream p conn (rd_topo_stream_key topology) (rd_topo_consumer_group topology)
            (sa_broker a) of
       (Inl (RedisFailed error), w) \<Rightarrow>
         (Inl (broker_error (''failed to create redis consumer group '' @ rd_topo_consumer_group topology @
            '' on '' @ rd_topo_stream_key topology) error), a\<lparr>sa_broker := w\<rparr>)
     | (_, w) \<Rightarrow> (Inr (), a\<lparr>sa_broker := w\<rparr>))"

definition redis_ensure_route_topology ::
    "runtime_task \<Rightarrow> ('h, 'w) redis_adapter \<Rightarrow> redis_topology \<times> ('h, 'w) redis_adapter" where
  "redis_ensure_route_topology task a =
     (case get_or_insert_with (rt_queue task) (rt_lane task)
             (build_redis_route_topology (sa_config a) (rt_queue task) (rt_lane task)) (sa_routes a) of
        (topology, routes) \<Rightarrow> (topology, a\<lparr>sa_routes := routes\<rparr>))"

section \<open>Publishing\<close>

definition redis_publish_envelope ::
    "('h, 'w) redis \<Rightarrow> redis_topology \<Rightarrow> redis_envelope \<Rightarrow> ('h, 'w) redis_adapter \<Rightarrow>
       unit app_result \<times> ('h, 'w) redis_adapter" where
  "redis_publish_envelope p topology envelope =
     with_redis () (\<lambda>t a.
       st_then (redis_ensure_topology p t topology a) (\<lambda>_ a.
       st_then (json (dj_envelope p envelope), a) (\<lambda>payload a.
       st_then (redis_connection p t a) (\<lambda>conn a.
       st_then (redis_call (''failed to publish runtime task to redis stream '' @ rd_topo_stream_key topology)
         (dc_xadd p conn (rd_topo_stream_key topology) payload) a) (\<lambda>_ a. (Inr (), a))))))"

definition redis_persist_route_registry ::
    "('h, 'w) redis \<Rightarrow> redis_topology \<Rightarrow> ('h, 'w) redis_adapter \<Rightarrow> unit app_result \<times> ('h, 'w) redis_adapter" where
  "redis_persist_route_registry p topology =
     with_redis () (\<lambda>t a.
       st_then (redis_connection p t a) (\<lambda>conn a.
       st_then (json (dj_entry p \<lparr>sg_queue = rd_topo_queue topology, sg_lane = rd_topo_lane topology\<rparr>), a)
         (\<lambda>payload a.
       st_then (redis_call ''failed to persist redis route registry''
         (dc_sadd p conn (redis_route_registry_key (sa_config a)) payload) a) (\<lambda>_ a. (Inr (), a)))))"

definition redis_register_entry ::
    "('h, 'w) redis \<Rightarrow> 'h redis_transport \<Rightarrow> string \<Rightarrow> ('h, 'w) redis_adapter \<Rightarrow>
       unit app_result \<times> ('h, 'w) redis_adapter" where
  "redis_register_entry p t payload a =
     st_then (json (dj_parse_entry p payload), a) (\<lambda>entry a.
     let topology = build_redis_route_topology (sa_config a) (sg_queue entry) (sg_lane entry)
     in st_then (redis_ensure_topology p t topology a) (\<lambda>_ a.
        (Inr (), a\<lparr>sa_routes := register_route (sg_queue entry) (sg_lane entry) topology (sa_routes a)\<rparr>)))"

definition redis_load_routes ::
    "('h, 'w) redis \<Rightarrow> ('h, 'w) redis_adapter \<Rightarrow> unit app_result \<times> ('h, 'w) redis_adapter" where
  "redis_load_routes p =
     with_redis () (\<lambda>t a.
       st_then (redis_connection p t a) (\<lambda>conn a.
       st_then (redis_call ''failed to load redis route registry''
         (dc_smembers p conn (redis_route_registry_key (sa_config a))) a) (\<lambda>entries a.
       st_then (collect_st (redis_register_entry p t) entries a) (\<lambda>_ a. (Inr (), a)))))"

section \<open>Retries that are not due yet\<close>

text \<open>A retry that another process has removed is skipped; the others are removed, then published.\<close>

definition promote_retry ::
    "('h, 'w) redis \<Rightarrow> 'h \<Rightarrow> redis_topology \<Rightarrow> string \<Rightarrow> ('h, 'w) redis_adapter \<Rightarrow>
       unit app_result \<times> ('h, 'w) redis_adapter" where
  "promote_retry p conn topology payload a =
     st_then (redis_call (''failed to remove delayed redis retry from '' @ rd_topo_delayed_key topology)
       (dc_zrem p conn (rd_topo_delayed_key topology) payload) a) (\<lambda>removed a.
     if removed = 0 then (Inr (), a)
     else st_then (json (dj_parse_delayed p payload), a) (\<lambda>delayed.
            redis_publish_envelope p topology (sd_envelope delayed)))"

definition promote_due_retries ::
    "('h, 'w) redis \<Rightarrow> redis_topology \<Rightarrow> ('h, 'w) redis_adapter \<Rightarrow> unit app_result \<times> ('h, 'w) redis_adapter" where
  "promote_due_retries p topology =
     with_redis () (\<lambda>t a.
       st_then (redis_connection p t a) (\<lambda>conn a.
       st_then (redis_call (''failed to load delayed redis retries from '' @ rd_topo_delayed_key topology)
         (dc_zrangebyscore p conn (rd_topo_delayed_key topology) (sint (redis_now_ms p a)) 32) a)
         (\<lambda>payloads a.
       st_then (collect_st (promote_retry p conn topology) payloads a) (\<lambda>_ a. (Inr (), a)))))"

definition publish_delayed_retry ::
    "('h, 'w) redis \<Rightarrow> redis_topology \<Rightarrow> redis_envelope \<Rightarrow> u64 \<Rightarrow> ('h, 'w) redis_adapter \<Rightarrow>
       unit app_result \<times> ('h, 'w) redis_adapter" where
  "publish_delayed_retry p topology envelope delay_ms =
     with_redis () (\<lambda>t a.
       st_then (redis_connection p t a) (\<lambda>conn a.
       case dc_ulid p (sa_broker a) of (token, w) \<Rightarrow>
       st_then (json (dj_delayed p \<lparr>sd_token = token, sd_envelope = envelope\<rparr>), a\<lparr>sa_broker := w\<rparr>)
         (\<lambda>payload a.
       st_then (redis_call (''failed to schedule delayed redis retry in '' @ rd_topo_delayed_key topology)
         (dc_zadd p conn (rd_topo_delayed_key topology) payload (sint (redis_now_ms p a + delay_ms))) a)
         (\<lambda>_ a. (Inr (), a)))))"

section \<open>Reserving and acknowledging\<close>

definition redis_delivery :: "redis_queue_config \<Rightarrow> u64 \<Rightarrow> redis_envelope \<Rightarrow> string \<Rightarrow> task_delivery" where
  "redis_delivery config now envelope entry_id =
     \<lparr>dv_delivery_id = ''redis-'' @ rt_task_id (se_task envelope) @ ''-'' @ entry_id,
      dv_attempt = se_attempt envelope,
      dv_leased_until = Some (now + sqc_pending_reclaim_idle_ms config),
      dv_last_error = se_last_error envelope, dv_task = se_task envelope\<rparr>"

text \<open>What a message of the stream becomes, new or reclaimed.\<close>

definition redis_lease ::
    "('h, 'w) redis \<Rightarrow> (task_delivery \<Rightarrow> metrics \<Rightarrow> metrics) \<Rightarrow> redis_topology \<Rightarrow> redis_message \<Rightarrow>
       ('h, 'w) redis_adapter \<Rightarrow> task_delivery option app_result \<times> ('h, 'w) redis_adapter" where
  "redis_lease p observe topology message a =
     st_then (ok_or (rm_payload_field message) Internal, a) (\<lambda>payload a.
     st_then (json (dj_parse_envelope p payload), a) (\<lambda>envelope a.
     let d = redis_delivery (sa_config a) (redis_now_ms p a) envelope (rm_id message);
         a = redis_observing (observe d) a
     in (Inr (Some d),
         a\<lparr>sa_leased := hm_insert (dv_delivery_id d)
             \<lparr>sl_entry_id = rm_id message, sl_topology = topology, sl_delivery = d\<rparr> (sa_leased a)\<rparr>)))"

definition reclaim_stale_delivery ::
    "('h, 'w) redis \<Rightarrow> redis_topology \<Rightarrow> ('h, 'w) redis_adapter \<Rightarrow>
       task_delivery option app_result \<times> ('h, 'w) redis_adapter" where
  "reclaim_stale_delivery p topology =
     with_redis None (\<lambda>t a.
       st_then (redis_connection p t a) (\<lambda>conn a.
       let queue = rd_topo_queue topology; lane = rd_topo_lane topology
       in case redis_call (''failed to reclaim stale redis delivery from '' @ rd_topo_stream_key topology)
              (dc_xautoclaim p conn (rd_topo_stream_key topology) (rd_topo_consumer_group topology)
                 (dt_consumer_name t) (sqc_pending_reclaim_idle_ms (sa_config a))) a of
            (Inl e, a) \<Rightarrow> (Inl e, redis_failed p queue lane ''reclaim'' a)
          | (Inr (deleted, claimed), a) \<Rightarrow>
              let a = (if deleted = [] then a
                       else redis_observing (observe_broker_reclaim_orphan_cleanup redis_name queue lane
                              (of_nat (length deleted))) a)
              in case claimed of
                   [] \<Rightarrow> (Inr None, a)
                 | message # _ \<Rightarrow>
                     redis_lease p (\<lambda>d. observe_broker_reclaim redis_name (rt_queue (dv_task d))
                       (rt_lane (dv_task d))) topology message a))"

fun first_message :: "redis_message list list \<Rightarrow> redis_message option" where
  "first_message ((m # _) # _) = Some m"
| "first_message _ = None"

fun redis_reserve_routes ::
    "('h, 'w) redis \<Rightarrow> 'h redis_transport \<Rightarrow> route list \<Rightarrow> ('h, 'w) redis_adapter \<Rightarrow>
       task_delivery option app_result \<times> ('h, 'w) redis_adapter" where
  "redis_reserve_routes p t [] a = (Inr None, a)"
| "redis_reserve_routes p t (r # routes) a =
     (case catalog_get r (sa_routes a) of
        None \<Rightarrow> redis_reserve_routes p t routes a
      | Some topology \<Rightarrow>
          st_then (redis_ensure_topology p t topology a) (\<lambda>_ a.
          st_then (promote_due_retries p topology a) (\<lambda>_ a.
          st_then (reclaim_stale_delivery p topology a) (\<lambda>reclaimed a.
          case reclaimed of
            Some d \<Rightarrow> (Inr (Some d), a\<lparr>sa_routes := catalog_rotate r (sa_routes a)\<rparr>)
          | None \<Rightarrow>
              st_then (redis_connection p t a) (\<lambda>conn a.
              st_then (redis_call (''failed to reserve runtime task from redis stream '' @
                  rd_topo_stream_key topology)
                (dc_xreadgroup p conn (rd_topo_stream_key topology) (rd_topo_consumer_group topology)
                   (dt_consumer_name t)) a) (\<lambda>reply a.
              case first_message reply of
                None \<Rightarrow> redis_reserve_routes p t routes a
              | Some message \<Rightarrow>
                  redis_lease p (\<lambda>_ m. m) topology message
                    (a\<lparr>sa_routes := catalog_rotate r (sa_routes a)\<rparr>)))))))"

definition redis_reserve_from_broker ::
    "('h, 'w) redis \<Rightarrow> route_binding list \<Rightarrow> ('h, 'w) redis_adapter \<Rightarrow>
       task_delivery option app_result \<times> ('h, 'w) redis_adapter" where
  "redis_reserve_from_broker p bindings a =
     st_then (redis_load_routes p a) (\<lambda>_ a.
     with_redis None (\<lambda>t. redis_reserve_routes p t (ordered_routes bindings (sa_routes a))) a)"

definition redis_ack_entry ::
    "('h, 'w) redis \<Rightarrow> redis_topology \<Rightarrow> string \<Rightarrow> ('h, 'w) redis_adapter \<Rightarrow>
       unit app_result \<times> ('h, 'w) redis_adapter" where
  "redis_ack_entry p topology entry_id =
     with_redis () (\<lambda>t a.
       st_then (redis_connection p t a) (\<lambda>conn a.
       st_then (redis_call (''failed to ack redis stream entry '' @ entry_id)
         (dc_xack p conn (rd_topo_stream_key topology) (rd_topo_consumer_group topology) entry_id) a) (\<lambda>_ a.
       st_then (redis_call (''failed to delete acked redis stream entry '' @ entry_id)
         (dc_xdel p conn (rd_topo_stream_key topology) entry_id) a) (\<lambda>_ a. (Inr (), a)))))"

section \<open>Dead letters\<close>

definition redis_store_dead_letter ::
    "('h, 'w) redis \<Rightarrow> redis_topology \<Rightarrow> dead_letter_record \<Rightarrow> ('h, 'w) redis_adapter \<Rightarrow>
       unit app_result \<times> ('h, 'w) redis_adapter" where
  "redis_store_dead_letter p topology rec =
     with_redis () (\<lambda>t a.
       st_then (json (dj_record p rec), a) (\<lambda>payload a.
       st_then (redis_connection p t a) (\<lambda>conn a.
       st_then (redis_call (''failed to publish dead-letter record to redis stream '' @
           rd_topo_dead_letter_stream_key topology)
         (dc_xadd p conn (rd_topo_dead_letter_stream_key topology) payload) a) (\<lambda>_ a. (Inr (), a)))))"

definition redis_read_dead_letters ::
    "('h, 'w) redis \<Rightarrow> 'h redis_transport \<Rightarrow> redis_topology \<Rightarrow> ('h, 'w) redis_adapter \<Rightarrow>
       redis_message list app_result \<times> ('h, 'w) redis_adapter" where
  "redis_read_dead_letters p t topology a =
     st_then (redis_connection p t a) (\<lambda>conn.
       redis_call (''failed to read redis dead-letter stream '' @ rd_topo_dead_letter_stream_key topology)
         (dc_xrange_all p conn (rd_topo_dead_letter_stream_key topology)))"

definition redis_record :: "('h, 'w) redis \<Rightarrow> redis_message \<Rightarrow> dead_letter_record app_result" where
  "redis_record p message =
     and_then (ok_or (rm_payload_field message) Internal) (\<lambda>payload. json (dj_parse_record p payload))"

definition redis_load_dead_letters ::
    "('h, 'w) redis \<Rightarrow> ('h, 'w) redis_adapter \<Rightarrow> dead_letter_record list app_result \<times> ('h, 'w) redis_adapter" where
  "redis_load_dead_letters p a =
     st_then (redis_load_routes p a) (\<lambda>_.
     with_redis [] (\<lambda>t a.
       st_then (collect_st (\<lambda>topology a.
           st_then (redis_read_dead_letters p t topology a) (\<lambda>messages a.
           (collect_results (map (redis_record p) messages), a)))
         (catalog_topologies (sa_routes a)) a) (\<lambda>records a. (Inr (concat records), a))))"

text \<open>The first message of the stream whose record has the id; an unreadable one before it is an error.\<close>

fun find_record ::
    "('h, 'w) redis \<Rightarrow> string \<Rightarrow> redis_message list \<Rightarrow> (string \<times> dead_letter_record) option app_result" where
  "find_record p delivery_id [] = Inr None"
| "find_record p delivery_id (m # ms) =
     and_then (redis_record p m) (\<lambda>rec.
       if dr_delivery_id rec = delivery_id then Inr (Some (rm_id m, rec)) else find_record p delivery_id ms)"

fun redis_find_in_topologies ::
    "('h, 'w) redis \<Rightarrow> 'h redis_transport \<Rightarrow> string \<Rightarrow> redis_topology list \<Rightarrow> ('h, 'w) redis_adapter \<Rightarrow>
       (redis_topology, string) dead_letter_replay option app_result \<times> ('h, 'w) redis_adapter" where
  "redis_find_in_topologies p t delivery_id [] a = (Inr None, a)"
| "redis_find_in_topologies p t delivery_id (topology # topologies) a =
     st_then (redis_read_dead_letters p t topology a) (\<lambda>messages a.
     st_then (find_record p delivery_id messages, a) (\<lambda>found a.
     case found of
       None \<Rightarrow> redis_find_in_topologies p t delivery_id topologies a
     | Some (entry_id, rec) \<Rightarrow>
         (Inr (Some \<lparr>dy_topology = topology, dy_stored = entry_id, dy_record = rec\<rparr>), a)))"

definition redis_find_dead_letter ::
    "('h, 'w) redis \<Rightarrow> string \<Rightarrow> ('h, 'w) redis_adapter \<Rightarrow>
       (redis_topology, string) dead_letter_replay option app_result \<times> ('h, 'w) redis_adapter" where
  "redis_find_dead_letter p delivery_id a =
     st_then (redis_load_routes p a) (\<lambda>_.
     with_redis None (\<lambda>t a.
       redis_find_in_topologies p t delivery_id (catalog_topologies (sa_routes a)) a))"

definition redis_remove_replayed ::
    "('h, 'w) redis \<Rightarrow> (redis_topology, string) dead_letter_replay \<Rightarrow> ('h, 'w) redis_adapter \<Rightarrow>
       unit app_result \<times> ('h, 'w) redis_adapter" where
  "redis_remove_replayed p replay =
     with_redis () (\<lambda>t a.
       st_then (redis_connection p t a) (\<lambda>conn a.
       st_then (redis_call (''failed to delete replayed redis dead-letter entry '' @ dy_stored replay)
         (dc_xdel p conn (rd_topo_dead_letter_stream_key (dy_topology replay)) (dy_stored replay)) a)
         (\<lambda>_ a. (Inr (), a))))"

section \<open>The adapter\<close>

text \<open>The operations of \<^theory_text>\<open>BrokerAdapter\<close>; without a transport they are those of the inner queue.\<close>

definition redis_enqueue ::
    "('h, 'w) redis \<Rightarrow> system_time \<Rightarrow> runtime_task \<Rightarrow> ('h, 'w) redis_adapter \<Rightarrow>
       unit app_result \<times> ('h, 'w) redis_adapter" where
  "redis_enqueue p now task a =
     (case redis_ensure_route_topology task a of (topology, a) \<Rightarrow>
      if sa_transport a = None then redis_inner (enqueue now task) a
      else
        st_then (redis_persist_route_registry p topology a) (\<lambda>_ a.
        case redis_publish_envelope p topology
               \<lparr>se_task = task, se_attempt = 1, se_last_error = None\<rparr> a of
          (Inr _, a) \<Rightarrow> (Inr (), redis_observing (observe_broker_operation redis_name (rt_queue task)
             (rt_lane task) ''enqueue'') a)
        | (Inl e, a) \<Rightarrow> (Inl e, redis_failed p (rt_queue task) (rt_lane task) ''enqueue'' a)))"

definition redis_reserve ::
    "('h, 'w) redis \<Rightarrow> system_time \<Rightarrow> system_time \<Rightarrow> route_binding list \<Rightarrow> ('h, 'w) redis_adapter \<Rightarrow>
       task_delivery option \<times> ('h, 'w) redis_adapter" where
  "redis_reserve p now later bindings a =
     (if sa_transport a = None then redis_inner (reserve now later bindings) a
      else case redis_reserve_from_broker p bindings a of
             (Inr (Some d), a) \<Rightarrow>
               (Some d, redis_observing (observe_broker_operation redis_name (rt_queue (dv_task d))
                  (rt_lane (dv_task d)) ''reserve'') a)
           | (Inr None, a) \<Rightarrow> (None, a)
           | (Inl _, a) \<Rightarrow> (None, redis_failed p ''*'' ''*'' ''reserve'' a))"

definition redis_or_failed ::
    "('h, 'w) redis \<Rightarrow> runtime_task \<Rightarrow> string \<Rightarrow> 'a app_result \<times> ('h, 'w) redis_adapter \<Rightarrow>
       'a app_result \<times> ('h, 'w) redis_adapter" where
  "redis_or_failed p task operation r =
     (case r of
        (Inl e, a) \<Rightarrow> (Inl e, redis_failed p (rt_queue task) (rt_lane task) operation a)
      | (Inr x, a) \<Rightarrow> (Inr x, a))"

definition redis_ack ::
    "('h, 'w) redis \<Rightarrow> string \<Rightarrow> ('h, 'w) redis_adapter \<Rightarrow> unit app_result \<times> ('h, 'w) redis_adapter" where
  "redis_ack p delivery_id a =
     (if sa_transport a = None then redis_inner (ack delivery_id) a
      else
        let leased = map_of (sa_leased a) delivery_id;
            a = a\<lparr>sa_leased := hm_remove delivery_id (sa_leased a)\<rparr>
        in case leased of
             None \<Rightarrow> (Inr (), a)
           | Some l \<Rightarrow>
               let task = dv_task (sl_delivery l)
               in st_then (redis_or_failed p task ''ack''
                    (redis_ack_entry p (sl_topology l) (sl_entry_id l) a)) (\<lambda>_ a.
                  (Inr (), redis_observing (observe_broker_operation redis_name (rt_queue task)
                     (rt_lane task) ''ack'') a)))"

definition redis_retry ::
    "('h, 'w) redis \<Rightarrow> system_time \<Rightarrow> string \<Rightarrow> string \<Rightarrow> u64 \<Rightarrow> ('h, 'w) redis_adapter \<Rightarrow>
       retry_disposition app_result \<times> ('h, 'w) redis_adapter" where
  "redis_retry p now delivery_id error delay_ms a =
     (if sa_transport a = None then redis_inner (retry now delivery_id error delay_ms) a
      else case map_of (sa_leased a) delivery_id of
        None \<Rightarrow> (Inl Internal, redis_failed p ''*'' ''*'' ''retry'' a)
      | Some l \<Rightarrow>
          let a = a\<lparr>sa_leased := hm_remove delivery_id (sa_leased a)\<rparr>;
              d = sl_delivery l; task = dv_task d; topology = sl_topology l
          in if rp_max_attempts (rt_retry_policy task) \<le> dv_attempt d then
               let a = redis_observing (observe_broker_dead_letter redis_name (rt_queue task) (rt_lane task)
                         ''retry_exhausted'')
                       (redis_observing (observe_broker_retry redis_name (rt_queue task) (rt_lane task)
                         ''dead_lettered'') a)
               in st_then (redis_or_failed p task ''retry''
                    (redis_store_dead_letter p topology (build_dead_letter_record now d error) a)) (\<lambda>_ a.
                  st_then (redis_or_failed p task ''retry''
                    (redis_ack_entry p topology (sl_entry_id l) a)) (\<lambda>_ a.
                  (Inr RdDeadLettered, a)))
             else
               let envelope = \<lparr>se_task = task, se_attempt = dv_attempt d + 1, se_last_error = Some error\<rparr>
               in st_then (redis_or_failed p task ''retry''
                    (if delay_ms = 0 then redis_publish_envelope p topology envelope a
                     else publish_delayed_retry p topology envelope delay_ms a)) (\<lambda>_ a.
                  st_then (redis_or_failed p task ''retry''
                    (redis_ack_entry p topology (sl_entry_id l) a)) (\<lambda>_ a.
                  (Inr RdRequeued,
                   redis_observing (observe_broker_retry redis_name (rt_queue task) (rt_lane task)
                     ''requeued'') a))))"

definition redis_reject ::
    "('h, 'w) redis \<Rightarrow> system_time \<Rightarrow> string \<Rightarrow> string \<Rightarrow> ('h, 'w) redis_adapter \<Rightarrow>
       unit app_result \<times> ('h, 'w) redis_adapter" where
  "redis_reject p now delivery_id error a =
     (if sa_transport a = None then redis_inner (reject now delivery_id error) a
      else
        let leased = map_of (sa_leased a) delivery_id;
            a = a\<lparr>sa_leased := hm_remove delivery_id (sa_leased a)\<rparr>
        in case leased of
             None \<Rightarrow> (Inr (), a)
           | Some l \<Rightarrow>
               let d = sl_delivery l; task = dv_task d;
                   a = redis_observing (observe_broker_dead_letter redis_name (rt_queue task) (rt_lane task)
                         ''rejected'') a
               in st_then (redis_or_failed p task ''reject''
                    (redis_store_dead_letter p (sl_topology l) (build_dead_letter_record now d error) a)) (\<lambda>_ a.
                  redis_or_failed p task ''reject''
                    (redis_ack_entry p (sl_topology l) (sl_entry_id l) a)))"

text \<open>
  The waiting tasks of a route are what the group has not read yet, or the entries less the pending
  ones when the server does not tell, and the delayed ones. A count that fails is zero for the dead
  letters and the delayed retries.
\<close>

definition or_zero :: "(string + nat) \<times> 'w \<Rightarrow> nat \<times> 'w" where
  "or_zero r = (case r of (Inl _, w) \<Rightarrow> (0, w) | (Inr n, w) \<Rightarrow> (n, w))"

definition redis_route_stats ::
    "('h, 'w) redis \<Rightarrow> 'h redis_transport \<Rightarrow> redis_topology \<Rightarrow> ('h, 'w) redis_adapter \<Rightarrow>
       queue_stats app_result \<times> ('h, 'w) redis_adapter" where
  "redis_route_stats p t topology a =
     st_then (redis_ensure_topology p t topology a) (\<lambda>_ a.
     st_then (promote_due_retries p topology a) (\<lambda>_ a.
     st_then (redis_connection p t a) (\<lambda>conn a.
     st_then (redis_call (''failed to inspect redis stream groups for '' @ rd_topo_stream_key topology)
       (dc_xinfo_groups p conn (rd_topo_stream_key topology)) a) (\<lambda>groups a.
     st_then (redis_call (''failed to inspect redis stream length for '' @ rd_topo_stream_key topology)
       (dc_xlen p conn (rd_topo_stream_key topology)) a) (\<lambda>stream_len a.
     case or_zero (dc_xlen p conn (rd_topo_dead_letter_stream_key topology) (sa_broker a)) of
       (dead_lettered, w) \<Rightarrow>
     case or_zero (dc_zcard p conn (rd_topo_delayed_key topology) w) of
       (delayed, w) \<Rightarrow>
     let group = find (\<lambda>g. rg_name g = rd_topo_consumer_group topology) groups;
         leased = (case group of None \<Rightarrow> 0 | Some g \<Rightarrow> rg_pending g);
         queued = unwrap_or (case group of None \<Rightarrow> None | Some g \<Rightarrow> rg_lag g) (stream_len - leased) + delayed
     in (Inr
          \<lparr>qs_queue = rd_topo_queue topology, qs_lane = rd_topo_lane topology, qs_queued = queued,
           qs_leased = leased, qs_dead_lettered = dead_lettered\<rparr>, a\<lparr>sa_broker := w\<rparr>))))))"

definition redis_stats ::
    "('h, 'w) redis \<Rightarrow> ('h, 'w) redis_adapter \<Rightarrow> queue_stats list app_result \<times> ('h, 'w) redis_adapter" where
  "redis_stats p a =
     (if sa_transport a = None then redis_inner (\<lambda>q. (stats q, q)) a
      else st_then (redis_load_routes p a) (\<lambda>_.
        with_redis [] (\<lambda>t a. collect_st (redis_route_stats p t) (catalog_topologies (sa_routes a)) a)))"

definition redis_dead_letters ::
    "('h, 'w) redis \<Rightarrow> ('h, 'w) redis_adapter \<Rightarrow> dead_letter_record list app_result \<times> ('h, 'w) redis_adapter" where
  "redis_dead_letters p a =
     (if sa_transport a = None then redis_inner (\<lambda>q. (dead_letters q, q)) a
      else redis_load_dead_letters p a)"

definition build_redis_replay_envelope :: "dead_letter_record \<Rightarrow> redis_envelope" where
  "build_redis_replay_envelope rec =
     \<lparr>se_task = dr_task rec, se_attempt = 1,
      se_last_error = Some (''replayed from dead letter: '' @ dr_error rec)\<rparr>"

definition redis_replay_dead_letter ::
    "('h, 'w) redis \<Rightarrow> system_time \<Rightarrow> string \<Rightarrow> ('h, 'w) redis_adapter \<Rightarrow>
       queue_receipt app_result \<times> ('h, 'w) redis_adapter" where
  "redis_replay_dead_letter p now delivery_id a =
     (if sa_transport a = None then redis_inner (replay_dead_letter now delivery_id) a
      else case replay_dead_letter_with_store
          \<lparr>ry_find = redis_find_dead_letter p,
           ry_publish = \<lambda>topology rec. redis_publish_envelope p topology (build_redis_replay_envelope rec),
           ry_remove = redis_remove_replayed p\<rparr>
          now redis_name delivery_id (a, mq_metrics (sa_inner a)) of
        (r, a, m) \<Rightarrow> (r, redis_observing (\<lambda>_. m) a))"

definition redis_queue_ops :: "('h, 'w) redis \<Rightarrow> ('h, 'w) redis_adapter task_queue_ops" where
  "redis_queue_ops p =
     \<lparr>op_enqueue = redis_enqueue p, op_reserve = redis_reserve p, op_ack = redis_ack p,
      op_retry = redis_retry p, op_reject = redis_reject p, op_stats = redis_stats p,
      op_dead_letters = redis_dead_letters p, op_replay_dead_letter = redis_replay_dead_letter p\<rparr>"

end
