(* ===== verification/Nats.thy ===== *)
theory Nats
  imports Broker_Client Task_Queue
begin

text \<open>
  The task queue over NATS JetStream (crates/nexus-runtime/src/broker/nats.rs): a work stream with
  a durable consumer for a route, a stream of dead letters read by sequence number, and the
  messages this process holds with their ackers. The client library is an argument: \<open>'h\<close> is a
  handle of it (connection, stream, consumer, batch of messages, publication, acker) and \<open>'w\<close> the
  outside.
\<close>

section \<open>The client\<close>

datatype retention_policy = RetentionWorkQueue | RetentionLimits

record stream_config =
  sc_name :: string
  sc_subjects :: "string list"
  sc_retention :: retention_policy
  sc_allow_direct :: bool

record consumer_config =
  cc_durable_name :: string
  cc_ack_wait_ms :: u64
  cc_filter_subject :: string
  cc_inactive_threshold_s :: nat

text \<open>A message with its metadata: stream sequence, and how often it was delivered (an \<^theory_text>\<open>i64\<close>).\<close>

record 'h nats_message =
  nm_info :: "string + u64 \<times> int"
  nm_payload :: string
  nm_acker :: 'h

datatype raw_error = NoMessageFound | RawFailed string

record stream_state =
  ss_messages :: u64
  ss_first_sequence :: u64
  ss_last_sequence :: u64

text \<open>
  \<open>nc_fetch\<close> asks for at most one message within 200 milliseconds, \<open>nc_next\<close> takes it; \<open>nc_nak\<close>
  gives it back for delivery after a delay. \<open>nc_now\<close> reads the clock.
\<close>

record ('h, 'w) nats =
  nc_connect :: "string \<Rightarrow> 'w \<Rightarrow> (string + 'h) \<times> 'w"
  nc_stream :: "'h \<Rightarrow> stream_config \<Rightarrow> 'w \<Rightarrow> (string + 'h) \<times> 'w"
  nc_consumer :: "'h \<Rightarrow> consumer_config \<Rightarrow> 'w \<Rightarrow> (string + 'h) \<times> 'w"
  nc_publish :: "'h \<Rightarrow> string \<Rightarrow> string \<Rightarrow> 'w \<Rightarrow> (string + 'h) \<times> 'w"
  nc_confirm :: "'h \<Rightarrow> 'w \<Rightarrow> (string + unit) \<times> 'w"
  nc_fetch :: "'h \<Rightarrow> 'w \<Rightarrow> (string + 'h) \<times> 'w"
  nc_next :: "'h \<Rightarrow> 'w \<Rightarrow> (string + 'h nats_message option) \<times> 'w"
  nc_ack :: "'h \<Rightarrow> 'w \<Rightarrow> (string + unit) \<times> 'w"
  nc_nak :: "'h \<Rightarrow> u64 \<Rightarrow> 'w \<Rightarrow> (string + unit) \<times> 'w"
  nc_stream_state :: "'h \<Rightarrow> 'w \<Rightarrow> (string + stream_state) \<times> 'w"
  nc_raw_message :: "'h \<Rightarrow> u64 \<Rightarrow> 'w \<Rightarrow> (raw_error + string) \<times> 'w"
  nc_delete :: "'h \<Rightarrow> u64 \<Rightarrow> 'w \<Rightarrow> (string + unit) \<times> 'w"
  nc_pending :: "'h \<Rightarrow> 'w \<Rightarrow> (string + u64) \<times> 'w"
  nc_now :: "'w \<Rightarrow> system_time"
  nj_envelope :: "nats_envelope \<Rightarrow> string option"
  nj_parse_envelope :: "string \<Rightarrow> nats_envelope option"
  nj_record :: "dead_letter_record \<Rightarrow> string option"
  nj_parse_record :: "string \<Rightarrow> dead_letter_record option"

section \<open>State\<close>

record 'h nats_transport =
  nt_jetstream :: 'h
  nt_work_stream :: 'h
  nt_dead_letter_stream :: 'h
  nt_ack_wait_ms :: u64

record 'h nats_leased =
  nl_acker :: 'h
  nl_delivery :: task_delivery

record ('h, 'w) nats_adapter =
  na_config :: nats_queue_config
  na_transport :: "'h nats_transport"
  na_routes :: "nats_topology route_catalog"
  na_leased :: "(string, 'h nats_leased) hash_map"
  na_metrics :: metrics
  na_broker :: 'w

definition nats_observing :: "(metrics \<Rightarrow> metrics) \<Rightarrow> ('h, 'w) nats_adapter \<Rightarrow> ('h, 'w) nats_adapter" where
  "nats_observing f a = a\<lparr>na_metrics := f (na_metrics a)\<rparr>"

definition nats_failed ::
    "('h, 'w) nats \<Rightarrow> string \<Rightarrow> string \<Rightarrow> string \<Rightarrow> ('h, 'w) nats_adapter \<Rightarrow> ('h, 'w) nats_adapter" where
  "nats_failed p queue lane operation a =
     nats_observing (observe_broker_operation_failure (nc_now p (na_broker a)) ''nats'' queue lane
       operation) a"

definition nats_call ::
    "string \<Rightarrow> ('w \<Rightarrow> (string + 'a) \<times> 'w) \<Rightarrow> ('h, 'w) nats_adapter \<Rightarrow> 'a app_result \<times> ('h, 'w) nats_adapter" where
  "nats_call message f a =
     (case client_call message f (na_broker a) of (r, w) \<Rightarrow> (r, a\<lparr>na_broker := w\<rparr>))"

definition nats_now_ms :: "('h, 'w) nats \<Rightarrow> ('h, 'w) nats_adapter \<Rightarrow> u64" where
  "nats_now_ms p a = epoch_ms (nc_now p (na_broker a))"

section \<open>Connection and topology\<close>

definition validate_nats_config :: "nats_queue_config \<Rightarrow> unit app_result" where
  "validate_nats_config c =
     (if \<not> list_ex (\<lambda>scheme. starts_with scheme (nqc_url c)) [''nats://'', ''tls://'', ''ws://'', ''wss://'']
      then Inl (InvalidConfig ''nats url must start with nats://, tls://, ws://, or wss://'')
      else if trim (nqc_stream_name c) = []
      then Inl (InvalidConfig ''nats stream_name cannot be empty'')
      else if trim (nqc_subject_prefix c) = []
      then Inl (InvalidConfig ''nats subject_prefix cannot be empty'')
      else if trim (nqc_consumer_prefix c) = []
      then Inl (InvalidConfig ''nats consumer_prefix cannot be empty'')
      else Inr ())"

definition work_stream_config :: "nats_queue_config \<Rightarrow> stream_config" where
  "work_stream_config c =
     \<lparr>sc_name = nqc_stream_name c, sc_subjects = [nqc_subject_prefix c @ ''.>''],
      sc_retention = RetentionWorkQueue, sc_allow_direct = False\<rparr>"

definition dead_letter_stream_config :: "nats_queue_config \<Rightarrow> stream_config" where
  "dead_letter_stream_config c =
     \<lparr>sc_name = nats_dead_letter_stream_name c,
      sc_subjects = [nats_dead_letter_subject_prefix c @ ''.>''],
      sc_retention = RetentionLimits, sc_allow_direct = True\<rparr>"

definition nats_adapter_of ::
    "nats_queue_config \<Rightarrow> 'h nats_transport \<Rightarrow> metrics \<Rightarrow> 'w \<Rightarrow> ('h, 'w) nats_adapter" where
  "nats_adapter_of config transport m w =
     \<lparr>na_config = config, na_transport = transport, na_routes = new_catalog, na_leased = [],
      na_metrics = m, na_broker = w\<rparr>"

definition nats_connect ::
    "('h, 'w) nats \<Rightarrow> nats_queue_config \<Rightarrow> metrics \<Rightarrow> 'w \<Rightarrow> ('h, 'w) nats_adapter app_result \<times> 'w" where
  "nats_connect p config m w =
     st_then (validate_nats_config config, w) (\<lambda>_ w.
     st_then (client_call ''failed to connect nats'' (nc_connect p (nqc_url config)) w) (\<lambda>client w.
     st_then (client_call ''failed to create nats stream''
       (nc_stream p client (work_stream_config config)) w) (\<lambda>work w.
     st_then (client_call (''failed to create nats dead-letter stream '' @ nats_dead_letter_stream_name config)
       (nc_stream p client (dead_letter_stream_config config)) w) (\<lambda>dead w.
     (Inr (nats_adapter_of config
        \<lparr>nt_jetstream = client, nt_work_stream = work, nt_dead_letter_stream = dead,
         nt_ack_wait_ms = nqc_ack_wait_ms config\<rparr> m w), w)))))"

definition nats_consumer_config :: "u64 \<Rightarrow> nats_topology \<Rightarrow> consumer_config" where
  "nats_consumer_config ack_wait_ms t =
     \<lparr>cc_durable_name = nt_topo_consumer_name t, cc_ack_wait_ms = ack_wait_ms,
      cc_filter_subject = nt_topo_subject t, cc_inactive_threshold_s = 60 * 60\<rparr>"

definition nats_consumer ::
    "('h, 'w) nats \<Rightarrow> nats_topology \<Rightarrow> ('h, 'w) nats_adapter \<Rightarrow> 'h app_result \<times> ('h, 'w) nats_adapter" where
  "nats_consumer p t a =
     nats_call (''failed to create nats consumer '' @ nt_topo_consumer_name t)
       (nc_consumer p (nt_work_stream (na_transport a))
          (nats_consumer_config (nt_ack_wait_ms (na_transport a)) t)) a"

definition nats_ensure_topology ::
    "('h, 'w) nats \<Rightarrow> nats_topology \<Rightarrow> ('h, 'w) nats_adapter \<Rightarrow> unit app_result \<times> ('h, 'w) nats_adapter" where
  "nats_ensure_topology p t a = st_then (nats_consumer p t a) (\<lambda>_ a. (Inr (), a))"

definition nats_ensure_route_topology ::
    "runtime_task \<Rightarrow> ('h, 'w) nats_adapter \<Rightarrow> nats_topology \<times> ('h, 'w) nats_adapter" where
  "nats_ensure_route_topology task a =
     (case get_or_insert_with (rt_queue task) (rt_lane task)
             (build_nats_route_topology (na_config a) (rt_queue task) (rt_lane task)) (na_routes a) of
        (topology, routes) \<Rightarrow> (topology, a\<lparr>na_routes := routes\<rparr>))"

section \<open>Publishing\<close>

definition nats_publish_confirmed ::
    "('h, 'w) nats \<Rightarrow> string \<Rightarrow> string \<Rightarrow> string \<Rightarrow> string \<Rightarrow> ('h, 'w) nats_adapter \<Rightarrow>
       unit app_result \<times> ('h, 'w) nats_adapter" where
  "nats_publish_confirmed p failed unconfirmed subject payload a =
     st_then (nats_call failed (nc_publish p (nt_jetstream (na_transport a)) subject payload) a) (\<lambda>ack a.
     st_then (nats_call unconfirmed (nc_confirm p ack) a) (\<lambda>_ a. (Inr (), a)))"

definition nats_publish_envelope ::
    "('h, 'w) nats \<Rightarrow> nats_topology \<Rightarrow> nats_envelope \<Rightarrow> ('h, 'w) nats_adapter \<Rightarrow>
       unit app_result \<times> ('h, 'w) nats_adapter" where
  "nats_publish_envelope p topology envelope a =
     st_then (nats_ensure_topology p topology a) (\<lambda>_ a.
     st_then (json (nj_envelope p envelope), a) (\<lambda>payload.
     nats_publish_confirmed p ''failed to publish runtime task to nats''
       ''nats did not confirm runtime task publish'' (nt_topo_subject topology) payload))"

definition nats_store_dead_letter ::
    "('h, 'w) nats \<Rightarrow> nats_topology \<Rightarrow> dead_letter_record \<Rightarrow> ('h, 'w) nats_adapter \<Rightarrow>
       unit app_result \<times> ('h, 'w) nats_adapter" where
  "nats_store_dead_letter p topology rec a =
     st_then (json (nj_record p rec), a) (\<lambda>payload.
     nats_publish_confirmed p ''failed to publish dead-letter record to nats''
       ''nats did not confirm dead-letter record publish'' (nt_topo_dead_letter_subject topology) payload)"

section \<open>Dead letters\<close>

text \<open>The messages of the stream from the first to the last sequence number; gaps are skipped.\<close>

fun load_sequences ::
    "('h, 'w) nats \<Rightarrow> u64 list \<Rightarrow> ('h, 'w) nats_adapter \<Rightarrow>
       (u64 \<times> dead_letter_record) list app_result \<times> ('h, 'w) nats_adapter" where
  "load_sequences p [] a = (Inr [], a)"
| "load_sequences p (sequence # rest) a =
     (case nc_raw_message p (nt_dead_letter_stream (na_transport a)) sequence (na_broker a) of
        (Inl NoMessageFound, w) \<Rightarrow> load_sequences p rest (a\<lparr>na_broker := w\<rparr>)
      | (Inl (RawFailed error), w) \<Rightarrow>
          (Inl (broker_error (''failed to load nats dead-letter message '' @ show_word sequence) error),
           a\<lparr>na_broker := w\<rparr>)
      | (Inr payload, w) \<Rightarrow>
          st_then (json (nj_parse_record p payload), a\<lparr>na_broker := w\<rparr>) (\<lambda>rec a.
          st_then (load_sequences p rest a) (\<lambda>records a. (Inr ((sequence, rec) # records), a))))"

definition inclusive_range :: "u64 \<Rightarrow> u64 \<Rightarrow> u64 list" where
  "inclusive_range low high = map of_nat [unat low..<Suc (unat high)]"

definition nats_load_dead_letters ::
    "('h, 'w) nats \<Rightarrow> ('h, 'w) nats_adapter \<Rightarrow>
       (u64 \<times> dead_letter_record) list app_result \<times> ('h, 'w) nats_adapter" where
  "nats_load_dead_letters p a =
     st_then (nats_call ''failed to inspect nats dead-letter stream''
       (nc_stream_state p (nt_dead_letter_stream (na_transport a))) a) (\<lambda>st a.
     if ss_messages st = 0 then (Inr [], a)
     else load_sequences p (inclusive_range (ss_first_sequence st) (ss_last_sequence st)) a)"

definition nats_find_dead_letter ::
    "('h, 'w) nats \<Rightarrow> string \<Rightarrow> ('h, 'w) nats_adapter \<Rightarrow>
       (nats_topology, u64) dead_letter_replay option app_result \<times> ('h, 'w) nats_adapter" where
  "nats_find_dead_letter p delivery_id a =
     st_then (nats_load_dead_letters p a) (\<lambda>records a.
     case find (\<lambda>(_, rec). dr_delivery_id rec = delivery_id) records of
       None \<Rightarrow> (Inr None, a)
     | Some (sequence, rec) \<Rightarrow>
         (case nats_ensure_route_topology (dr_task rec) a of
            (topology, a) \<Rightarrow>
              (Inr (Some \<lparr>dy_topology = topology, dy_stored = sequence, dy_record = rec\<rparr>), a)))"

definition remove_replayed_sequence ::
    "('h, 'w) nats \<Rightarrow> (nats_topology, u64) dead_letter_replay \<Rightarrow> ('h, 'w) nats_adapter \<Rightarrow>
       unit app_result \<times> ('h, 'w) nats_adapter" where
  "remove_replayed_sequence p replay a =
     nats_call (''failed to delete replayed nats dead-letter message '' @ show_word (dy_stored replay))
       (nc_delete p (nt_dead_letter_stream (na_transport a)) (dy_stored replay)) a"

section \<open>Reserving\<close>

definition nats_delivery ::
    "nats_queue_config \<Rightarrow> u64 \<Rightarrow> nats_envelope \<Rightarrow> u64 \<Rightarrow> int \<Rightarrow> task_delivery" where
  "nats_delivery config now envelope sequence delivered =
     \<lparr>dv_delivery_id = ''nats-'' @ rt_task_id (ne_task envelope) @ ''-'' @ show_word sequence,
      dv_attempt = word_of_int delivered, dv_leased_until = Some (now + nqc_ack_wait_ms config),
      dv_last_error = ne_last_error envelope, dv_task = ne_task envelope\<rparr>"

definition nats_lease ::
    "('h, 'w) nats \<Rightarrow> 'h nats_message \<Rightarrow> ('h, 'w) nats_adapter \<Rightarrow>
       task_delivery option app_result \<times> ('h, 'w) nats_adapter" where
  "nats_lease p message a =
     st_then (case nm_info message of
         Inl error \<Rightarrow> (Inl (broker_error ''failed to decode nats message metadata'' error), a)
       | Inr info \<Rightarrow> (Inr info, a)) (\<lambda>(sequence, delivered) a.
     st_then (json (nj_parse_envelope p (nm_payload message)), a) (\<lambda>envelope a.
     let d = nats_delivery (na_config a) (nats_now_ms p a) envelope sequence delivered;
         a = (if 1 < dv_attempt d
              then nats_observing (observe_broker_reclaim ''nats'' (rt_queue (dv_task d))
                     (rt_lane (dv_task d))) a
              else a)
     in (Inr (Some d),
         a\<lparr>na_leased := hm_insert (dv_delivery_id d)
             \<lparr>nl_acker = nm_acker message, nl_delivery = d\<rparr> (na_leased a)\<rparr>)))"

fun nats_reserve_routes ::
    "('h, 'w) nats \<Rightarrow> route list \<Rightarrow> ('h, 'w) nats_adapter \<Rightarrow>
       task_delivery option app_result \<times> ('h, 'w) nats_adapter" where
  "nats_reserve_routes p [] a = (Inr None, a)"
| "nats_reserve_routes p (r # routes) a =
     (case catalog_get r (na_routes a) of
        None \<Rightarrow> nats_reserve_routes p routes a
      | Some topology \<Rightarrow>
          st_then (nats_ensure_topology p topology a) (\<lambda>_ a.
          st_then (nats_consumer p topology a) (\<lambda>consumer a.
          st_then (nats_call ''failed to fetch runtime task from nats'' (nc_fetch p consumer) a) (\<lambda>batch a.
          st_then (nats_call ''failed to receive nats message'' (nc_next p batch) a) (\<lambda>message a.
          case message of
            None \<Rightarrow> nats_reserve_routes p routes a
          | Some message \<Rightarrow> nats_lease p message (a\<lparr>na_routes := catalog_rotate r (na_routes a)\<rparr>))))))"

section \<open>The adapter\<close>

definition nats_enqueue ::
    "('h, 'w) nats \<Rightarrow> runtime_task \<Rightarrow> ('h, 'w) nats_adapter \<Rightarrow> unit app_result \<times> ('h, 'w) nats_adapter" where
  "nats_enqueue p task a =
     (case nats_ensure_route_topology task a of (topology, a) \<Rightarrow>
      case nats_publish_envelope p topology \<lparr>ne_task = task, ne_last_error = None\<rparr> a of
        (Inr _, a) \<Rightarrow> (Inr (), nats_observing (observe_broker_operation ''nats'' (rt_queue task)
           (rt_lane task) ''enqueue'') a)
      | (Inl e, a) \<Rightarrow> (Inl e, nats_failed p (rt_queue task) (rt_lane task) ''enqueue'' a))"

definition nats_reserve ::
    "('h, 'w) nats \<Rightarrow> route_binding list \<Rightarrow> ('h, 'w) nats_adapter \<Rightarrow>
       task_delivery option \<times> ('h, 'w) nats_adapter" where
  "nats_reserve p bindings a =
     (case nats_reserve_routes p (ordered_routes bindings (na_routes a)) a of
        (Inr (Some d), a) \<Rightarrow>
          (Some d, nats_observing (observe_broker_operation ''nats'' (rt_queue (dv_task d))
             (rt_lane (dv_task d)) ''reserve'') a)
      | (Inr None, a) \<Rightarrow> (None, a)
      | (Inl _, a) \<Rightarrow> (None, nats_failed p ''*'' ''*'' ''reserve'' a))"

definition nats_or_failed ::
    "('h, 'w) nats \<Rightarrow> runtime_task \<Rightarrow> string \<Rightarrow> 'a app_result \<times> ('h, 'w) nats_adapter \<Rightarrow>
       'a app_result \<times> ('h, 'w) nats_adapter" where
  "nats_or_failed p task operation r =
     (case r of
        (Inl e, a) \<Rightarrow> (Inl e, nats_failed p (rt_queue task) (rt_lane task) operation a)
      | (Inr x, a) \<Rightarrow> (Inr x, a))"

definition nats_ack ::
    "('h, 'w) nats \<Rightarrow> string \<Rightarrow> ('h, 'w) nats_adapter \<Rightarrow> unit app_result \<times> ('h, 'w) nats_adapter" where
  "nats_ack p delivery_id a =
     (let leased = map_of (na_leased a) delivery_id;
          a = a\<lparr>na_leased := hm_remove delivery_id (na_leased a)\<rparr>
      in case leased of
           None \<Rightarrow> (Inr (), a)
         | Some l \<Rightarrow>
             let task = dv_task (nl_delivery l)
             in st_then (nats_or_failed p task ''ack''
                  (nats_call (''failed to ack nats delivery '' @ delivery_id) (nc_ack p (nl_acker l)) a)) (\<lambda>_ a.
                (Inr (), nats_observing (observe_broker_operation ''nats'' (rt_queue task) (rt_lane task)
                   ''ack'') a)))"

definition nats_retry ::
    "('h, 'w) nats \<Rightarrow> system_time \<Rightarrow> string \<Rightarrow> string \<Rightarrow> u64 \<Rightarrow> ('h, 'w) nats_adapter \<Rightarrow>
       retry_disposition app_result \<times> ('h, 'w) nats_adapter" where
  "nats_retry p now delivery_id error delay_ms a =
     (case map_of (na_leased a) delivery_id of
        None \<Rightarrow> (Inl Internal, nats_failed p ''*'' ''*'' ''retry'' a)
      | Some l \<Rightarrow>
          let a = a\<lparr>na_leased := hm_remove delivery_id (na_leased a)\<rparr>;
              d = nl_delivery l; task = dv_task d
          in if rp_max_attempts (rt_retry_policy task) \<le> dv_attempt d then
               (case nats_ensure_route_topology task a of
                  (topology, a) \<Rightarrow>
                    let a = nats_observing (observe_broker_dead_letter ''nats'' (rt_queue task) (rt_lane task)
                              ''retry_exhausted'')
                            (nats_observing (observe_broker_retry ''nats'' (rt_queue task) (rt_lane task)
                              ''dead_lettered'') a)
                    in st_then (nats_or_failed p task ''retry''
                         (nats_store_dead_letter p topology (build_dead_letter_record now d error) a)) (\<lambda>_ a.
                       st_then (nats_or_failed p task ''retry''
                         (nats_call (''failed to ack dead-lettered nats delivery '' @ delivery_id)
                            (nc_ack p (nl_acker l)) a)) (\<lambda>_ a.
                       (Inr RdDeadLettered, a))))
             else
               st_then (nats_or_failed p task ''retry''
                 (nats_call (''failed to retry nats delivery '' @ delivery_id)
                    (nc_nak p (nl_acker l) delay_ms) a)) (\<lambda>_ a.
               (Inr RdRequeued,
                nats_observing (observe_broker_retry ''nats'' (rt_queue task) (rt_lane task) ''requeued'') a)))"

definition nats_reject ::
    "('h, 'w) nats \<Rightarrow> system_time \<Rightarrow> string \<Rightarrow> string \<Rightarrow> ('h, 'w) nats_adapter \<Rightarrow>
       unit app_result \<times> ('h, 'w) nats_adapter" where
  "nats_reject p now delivery_id error a =
     (let leased = map_of (na_leased a) delivery_id;
          a = a\<lparr>na_leased := hm_remove delivery_id (na_leased a)\<rparr>
      in case leased of
           None \<Rightarrow> (Inr (), a)
         | Some l \<Rightarrow>
             let d = nl_delivery l; task = dv_task d
             in case nats_ensure_route_topology task a of
                  (topology, a) \<Rightarrow>
                    let a = nats_observing (observe_broker_dead_letter ''nats'' (rt_queue task) (rt_lane task)
                              ''rejected'') a
                    in st_then (nats_or_failed p task ''reject''
                         (nats_store_dead_letter p topology (build_dead_letter_record now d error) a)) (\<lambda>_ a.
                       nats_or_failed p task ''reject''
                         (nats_call (''failed to reject nats delivery '' @ delivery_id)
                            (nc_ack p (nl_acker l)) a)))"

definition nats_route_stats ::
    "('h, 'w) nats \<Rightarrow> (u64 \<times> dead_letter_record) list \<Rightarrow> nats_topology \<Rightarrow> ('h, 'w) nats_adapter \<Rightarrow>
       queue_stats app_result \<times> ('h, 'w) nats_adapter" where
  "nats_route_stats p dead t a =
     st_then (nats_consumer p t a) (\<lambda>consumer a.
     st_then (nats_call (''failed to inspect nats consumer '' @ nt_topo_consumer_name t)
       (nc_pending p consumer) a) (\<lambda>pending a.
     (Inr
       \<lparr>qs_queue = nt_topo_queue t, qs_lane = nt_topo_lane t, qs_queued = unat pending,
        qs_leased = leased_on nl_delivery (nt_topo_queue t, nt_topo_lane t) (na_leased a),
        qs_dead_lettered = length (filter (\<lambda>(_, rec). dr_queue rec = nt_topo_queue t \<and>
          dr_lane rec = nt_topo_lane t) dead)\<rparr>, a)))"

definition nats_stats ::
    "('h, 'w) nats \<Rightarrow> ('h, 'w) nats_adapter \<Rightarrow> queue_stats list app_result \<times> ('h, 'w) nats_adapter" where
  "nats_stats p a =
     (let routes = catalog_topologies (na_routes a)
      in st_then (nats_load_dead_letters p a) (\<lambda>dead. collect_st (nats_route_stats p dead) routes))"

definition nats_dead_letters ::
    "('h, 'w) nats \<Rightarrow> ('h, 'w) nats_adapter \<Rightarrow> dead_letter_record list app_result \<times> ('h, 'w) nats_adapter" where
  "nats_dead_letters p a = st_then (nats_load_dead_letters p a) (\<lambda>records a. (Inr (map snd records), a))"

definition nats_replay_dead_letter ::
    "('h, 'w) nats \<Rightarrow> system_time \<Rightarrow> string \<Rightarrow> ('h, 'w) nats_adapter \<Rightarrow>
       queue_receipt app_result \<times> ('h, 'w) nats_adapter" where
  "nats_replay_dead_letter p now delivery_id a =
     (case replay_dead_letter_with_store
         \<lparr>ry_find = nats_find_dead_letter p,
          ry_publish = \<lambda>topology rec. nats_publish_envelope p topology (build_nats_replay_envelope rec),
          ry_remove = remove_replayed_sequence p\<rparr>
         now ''nats'' delivery_id (a, na_metrics a) of
        (r, a, m) \<Rightarrow> (r, a\<lparr>na_metrics := m\<rparr>))"

definition nats_queue_ops :: "('h, 'w) nats \<Rightarrow> ('h, 'w) nats_adapter task_queue_ops" where
  "nats_queue_ops p =
     \<lparr>op_enqueue = \<lambda>_. nats_enqueue p, op_reserve = \<lambda>_ _. nats_reserve p, op_ack = nats_ack p,
      op_retry = nats_retry p, op_reject = nats_reject p, op_stats = nats_stats p,
      op_dead_letters = nats_dead_letters p, op_replay_dead_letter = nats_replay_dead_letter p\<rparr>"

end
