(* ===== verification/Nats_Props.thy ===== *)
theory Nats_Props
  imports Nats Rabbitmq_Props
begin

text \<open>
  Properties of the NATS adapter for every client library and every stream: its state stays well
  formed, the attempt limit decides between a retry and a dead letter, and what a process that only
  works, and never enqueues, can reserve over RabbitMQ and over NATS.
\<close>

section \<open>What the calls of the broker leave alone\<close>

locale nats_frame =
  fixes P :: "('h, 'w) nats_adapter \<Rightarrow> bool"
  assumes on_broker: "P a \<Longrightarrow> P (a\<lparr>na_broker := w\<rparr>)"
    and on_observing: "P a \<Longrightarrow> P (nats_observing f a)"
begin

lemma call_keeps: "P a \<Longrightarrow> keeps P (nats_call m f a)"
  by (simp add: nats_call_def on_broker split: prod.splits)

lemma failed_keeps: "P a \<Longrightarrow> P (nats_failed p q l operation a)"
  by (simp add: nats_failed_def on_observing)

lemma or_failed_keeps: "keeps P r \<Longrightarrow> keeps P (nats_or_failed p task operation r)"
  by (auto simp: nats_or_failed_def keeps_def failed_keeps split: prod.splits sum.splits)

lemma consumer_keeps: "P a \<Longrightarrow> keeps P (nats_consumer p t a)"
  by (simp add: nats_consumer_def call_keeps)

lemma ensure_topology_keeps: "P a \<Longrightarrow> keeps P (nats_ensure_topology p t a)"
  unfolding nats_ensure_topology_def by (intro keeps_st_then consumer_keeps) simp_all

lemma publish_confirmed_keeps: "P a \<Longrightarrow> keeps P (nats_publish_confirmed p m1 m2 subject payload a)"
  unfolding nats_publish_confirmed_def by (intro keeps_st_then call_keeps) simp_all

lemma publish_envelope_keeps: "P a \<Longrightarrow> keeps P (nats_publish_envelope p t env a)"
  unfolding nats_publish_envelope_def
  by (intro keeps_st_then ensure_topology_keeps publish_confirmed_keeps) simp_all

lemma store_keeps: "P a \<Longrightarrow> keeps P (nats_store_dead_letter p t rec a)"
  unfolding nats_store_dead_letter_def by (intro keeps_st_then publish_confirmed_keeps) simp_all

lemma load_sequences_keeps: "P a \<Longrightarrow> keeps P (load_sequences p ns a)"
proof (induction ns arbitrary: a)
  case (Cons n ns)
  have "keeps P (load_sequences p ns (a\<lparr>na_broker := w\<rparr>))" for w
    using Cons by (simp add: on_broker)
  then show ?case
    using Cons by (auto split: prod.splits sum.splits raw_error.splits intro!: keeps_st_then simp: on_broker)
qed simp

lemma load_dead_letters_keeps: "P a \<Longrightarrow> keeps P (nats_load_dead_letters p a)"
  unfolding nats_load_dead_letters_def
  by (intro keeps_st_then call_keeps) (simp_all add: load_sequences_keeps)

lemma remove_keeps: "P a \<Longrightarrow> keeps P (remove_replayed_sequence p replay a)"
  by (simp add: remove_replayed_sequence_def call_keeps)

lemma stats_keeps: "P a \<Longrightarrow> keeps P (nats_stats p a)"
  unfolding nats_stats_def nats_route_stats_def Let_def
  by (intro keeps_st_then keeps_collect_st load_dead_letters_keeps consumer_keeps call_keeps) simp_all

lemma dead_letters_keeps: "P a \<Longrightarrow> keeps P (nats_dead_letters p a)"
  unfolding nats_dead_letters_def by (intro keeps_st_then load_dead_letters_keeps) simp_all

end

section \<open>Well-formed adapters\<close>

definition nats_lease_ok :: "string \<Rightarrow> 'h nats_leased \<Rightarrow> bool" where
  "nats_lease_ok k l \<longleftrightarrow> dv_delivery_id (nl_delivery l) = k \<and>
     (\<exists>config now env sequence delivered. nl_delivery l = nats_delivery config now env sequence delivered)"

lemma nats_lease_okI:
  "nats_lease_ok (dv_delivery_id (nats_delivery c now env sequence delivered))
     \<lparr>nl_acker = h, nl_delivery = nats_delivery c now env sequence delivered\<rparr>"
  unfolding nats_lease_ok_def by (simp, intro exI, rule refl)

definition nats_inv :: "nats_queue_config \<Rightarrow> ('h, 'w) nats_adapter \<Rightarrow> bool" where
  "nats_inv config a \<longleftrightarrow>
     na_config a = config \<and> catalog_ok (build_nats_route_topology config) (na_routes a) \<and>
     distinct (hm_keys (na_leased a)) \<and>
     (\<forall>k l. map_of (na_leased a) k = Some l \<longrightarrow> nats_lease_ok k l)"

lemma nats_observing_simps [simp]:
  "na_config (nats_observing f a) = na_config a"
  "na_transport (nats_observing f a) = na_transport a"
  "na_routes (nats_observing f a) = na_routes a"
  "na_leased (nats_observing f a) = na_leased a"
  "na_broker (nats_observing f a) = na_broker a"
  by (simp_all add: nats_observing_def)

interpretation nats_state: nats_frame "nats_inv config"
  by unfold_locales (simp_all add: nats_inv_def)

lemma nats_inv_unlease:
  "nats_inv config a \<Longrightarrow> nats_inv config (a\<lparr>na_leased := hm_remove k (na_leased a)\<rparr>)"
  by (simp add: nats_inv_def)

lemma nats_inv_rotate:
  "nats_inv config a \<Longrightarrow> nats_inv config (a\<lparr>na_routes := catalog_rotate r (na_routes a)\<rparr>)"
  by (simp add: nats_inv_def catalog_ok_rotate)

lemma nats_inv_ensure_route:
  "nats_inv config a \<Longrightarrow> nats_ensure_route_topology task a = (t, b) \<Longrightarrow> nats_inv config b"
  using catalog_ok_or_insert [of "build_nats_route_topology config" "na_routes a" "rt_queue task" "rt_lane task"]
  by (auto simp: nats_inv_def nats_ensure_route_topology_def split: prod.splits)

lemma nats_inv_leased:
  "nats_inv config b \<Longrightarrow>
     nats_inv config (b\<lparr>na_leased := hm_insert (dv_delivery_id (nats_delivery c now env n k))
       \<lparr>nl_acker = h, nl_delivery = nats_delivery c now env n k\<rparr> (na_leased b)\<rparr>)"
  by (auto simp: nats_inv_def nats_lease_okI)

lemma nats_inv_lease: "nats_inv config a \<Longrightarrow> keeps (nats_inv config) (nats_lease p message a)"
  unfolding nats_lease_def Let_def
  by (intro keeps_st_then)
    (auto split: sum.splits prod.splits if_splits intro!: keeps_st_then nats_inv_leased
        nats_state.on_observing simp del: nats_observing_simps)

lemma nats_inv_reserve_routes:
  "nats_inv config a \<Longrightarrow> keeps (nats_inv config) (nats_reserve_routes p rs a)"
proof (induction rs arbitrary: a)
  case (Cons r rs)
  then show ?case
    by (auto intro!: keeps_st_then nats_state.ensure_topology_keeps nats_state.consumer_keeps
        nats_state.call_keeps nats_inv_lease nats_inv_rotate split: option.splits)
qed simp

lemma nats_inv_enqueue: "nats_inv config a \<Longrightarrow> keeps (nats_inv config) (nats_enqueue p task a)"
proof -
  assume inv: "nats_inv config a"
  obtain t b where b: "nats_ensure_route_topology task a = (t, b)" by fastforce
  have "keeps (nats_inv config) (nats_publish_envelope p t \<lparr>ne_task = task, ne_last_error = None\<rparr> b)"
    by (intro nats_state.publish_envelope_keeps nats_inv_ensure_route [OF inv b])
  then show ?thesis
    by (auto simp: nats_enqueue_def b nats_state.on_observing nats_state.failed_keeps
        split: prod.splits sum.splits)
qed

lemma nats_inv_reserve: "nats_inv config a \<Longrightarrow> keeps (nats_inv config) (nats_reserve p bs a)"
  using nats_inv_reserve_routes [of config a p "ordered_routes bs (na_routes a)"]
  by (auto simp: nats_reserve_def nats_state.on_observing nats_state.failed_keeps
      split: prod.splits sum.splits option.splits)

lemma nats_inv_ack: "nats_inv config a \<Longrightarrow> keeps (nats_inv config) (nats_ack p k a)"
  unfolding nats_ack_def Let_def
  by (auto intro!: keeps_st_then nats_state.or_failed_keeps nats_state.call_keeps
      nats_state.on_observing nats_inv_unlease split: option.splits)

lemma nats_inv_retry: "nats_inv config a \<Longrightarrow> keeps (nats_inv config) (nats_retry p now k e ms a)"
proof -
  assume inv: "nats_inv config a"
  then have "nats_inv config b"
    if "nats_ensure_route_topology task (a\<lparr>na_leased := hm_remove k (na_leased a)\<rparr>) = (t, b)" for task t b
    using nats_inv_ensure_route nats_inv_unlease that by blast
  with inv show ?thesis
    unfolding nats_retry_def Let_def
    by (auto intro!: keeps_st_then nats_state.or_failed_keeps nats_state.call_keeps nats_state.store_keeps
        nats_state.on_observing nats_state.failed_keeps nats_inv_unlease split: option.splits prod.splits)
qed

lemma nats_inv_reject: "nats_inv config a \<Longrightarrow> keeps (nats_inv config) (nats_reject p now k e a)"
proof -
  assume inv: "nats_inv config a"
  then have "nats_inv config b"
    if "nats_ensure_route_topology task (a\<lparr>na_leased := hm_remove k (na_leased a)\<rparr>) = (t, b)" for task t b
    using nats_inv_ensure_route nats_inv_unlease that by blast
  with inv show ?thesis
    unfolding nats_reject_def Let_def
    by (auto intro!: keeps_st_then nats_state.or_failed_keeps nats_state.call_keeps nats_state.store_keeps
        nats_state.on_observing nats_inv_unlease split: option.splits prod.splits)
qed

lemma nats_inv_find: "nats_inv config a \<Longrightarrow> keeps (nats_inv config) (nats_find_dead_letter p k a)"
  unfolding nats_find_dead_letter_def
  by (intro keeps_st_then nats_state.load_dead_letters_keeps)
    (auto split: option.splits prod.splits intro: nats_inv_ensure_route)

lemma nats_inv_replay: "nats_inv config a \<Longrightarrow> keeps (nats_inv config) (nats_replay_dead_letter p now k a)"
proof -
  assume inv: "nats_inv config a"
  have "nats_inv config (b\<lparr>na_metrics := m\<rparr>)" if "nats_inv config b" for b :: "('a, 'b) nats_adapter" and m
    using that by (simp add: nats_inv_def)
  moreover have "nats_inv config b"
    if "replay_dead_letter_with_store
          \<lparr>ry_find = nats_find_dead_letter p,
           ry_publish = \<lambda>topology rec. nats_publish_envelope p topology (build_nats_replay_envelope rec),
           ry_remove = remove_replayed_sequence p\<rparr> now ''nats'' k (a, na_metrics a) = (r, b, m)" for r b m
    by (rule replay_with_store_keeps [OF that])
      (simp_all add: nats_inv_find inv nats_state.publish_envelope_keeps nats_state.remove_keeps)
  ultimately show ?thesis
    by (simp add: nats_replay_dead_letter_def split: prod.splits)
qed

lemmas nats_inv_ops = nats_inv_enqueue nats_inv_reserve nats_inv_ack nats_inv_retry nats_inv_reject
  nats_state.stats_keeps nats_state.dead_letters_keeps nats_inv_replay

lemma nats_inv_calls: "nats_inv config a \<Longrightarrow> nats_inv config (calls (nats_queue_ops p) cs a)"
proof (induction cs arbitrary: a)
  case (Cons c cs)
  have "nats_inv config (call (nats_queue_ops p) c a)"
    using nats_inv_ops [OF Cons.prems]
    by (cases c) (simp_all add: nats_queue_ops_def keeps_def)
  then show ?case using Cons.IH by (simp add: calls_def)
qed (simp add: calls_def)

lemma nats_inv_new: "nats_inv config (nats_adapter_of config t m w)"
  by (simp add: nats_inv_def nats_adapter_of_def catalog_ok_new)

section \<open>Processes that only work\<close>









lemma ordered_routes_new [simp]: "ordered_routes bs new_catalog = []"
  by (simp add: ordered_routes_def new_catalog_def)










end
