(* ===== verification/Redis_Props.thy ===== *)
theory Redis_Props
  imports Redis_Streams Nats_Props
begin

text \<open>
  Properties of the Redis adapter for every client library and every server: its state stays well
  formed, a worker process learns the routes that other processes registered, and, for a server
  that does what the documentation of its commands says, settling a delivery never loses its task.
\<close>

section \<open>What the calls of the server leave alone\<close>

locale redis_frame =
  fixes P :: "('h, 'w) redis_adapter \<Rightarrow> bool"
  assumes on_broker: "P a \<Longrightarrow> P (a\<lparr>sa_broker := w\<rparr>)"
    and on_observing: "P a \<Longrightarrow> P (redis_observing f a)"
begin

lemma call_keeps: "P a \<Longrightarrow> keeps P (redis_call m f a)"
  by (simp add: redis_call_def on_broker split: prod.splits)

lemma connection_keeps: "P a \<Longrightarrow> keeps P (redis_connection p t a)"
  by (simp add: redis_connection_def call_keeps)

lemma failed_keeps: "P a \<Longrightarrow> P (redis_failed p q l operation a)"
  by (simp add: redis_failed_def on_observing)

lemma or_failed_keeps: "keeps P r \<Longrightarrow> keeps P (redis_or_failed p task operation r)"
  by (auto simp: redis_or_failed_def keeps_def failed_keeps split: prod.splits sum.splits)

lemma with_redis_keeps:
  "P a \<Longrightarrow> (\<And>t a. P a \<Longrightarrow> keeps P (f t a)) \<Longrightarrow> keeps P (with_redis otherwise f a)"
  by (simp add: with_redis_def split: option.splits)

lemma ensure_topology_keeps: "P a \<Longrightarrow> keeps P (redis_ensure_topology p t topology a)"
  unfolding redis_ensure_topology_def
  by (intro keeps_st_then connection_keeps)
    (auto simp: on_broker split: prod.splits sum.splits redis_error.splits)

lemma publish_envelope_keeps: "P a \<Longrightarrow> keeps P (redis_publish_envelope p topology env a)"
  unfolding redis_publish_envelope_def
  by (intro with_redis_keeps keeps_st_then ensure_topology_keeps connection_keeps call_keeps) simp_all

lemma persist_keeps: "P a \<Longrightarrow> keeps P (redis_persist_route_registry p topology a)"
  unfolding redis_persist_route_registry_def
  by (intro with_redis_keeps keeps_st_then connection_keeps call_keeps) simp_all

lemma promote_keeps: "P a \<Longrightarrow> keeps P (promote_due_retries p topology a)"
  unfolding promote_due_retries_def promote_retry_def
  by (intro with_redis_keeps keeps_st_then keeps_collect_st connection_keeps call_keeps)
    (auto intro!: keeps_st_then publish_envelope_keeps)

lemma publish_delayed_keeps: "P a \<Longrightarrow> keeps P (publish_delayed_retry p topology env ms a)"
  unfolding publish_delayed_retry_def
  by (intro with_redis_keeps keeps_st_then connection_keeps)
    (auto intro!: keeps_st_then call_keeps simp: on_broker split: prod.splits)

lemma ack_entry_keeps: "P a \<Longrightarrow> keeps P (redis_ack_entry p topology i a)"
  unfolding redis_ack_entry_def
  by (intro with_redis_keeps keeps_st_then connection_keeps call_keeps) simp_all

lemma store_keeps: "P a \<Longrightarrow> keeps P (redis_store_dead_letter p topology rec a)"
  unfolding redis_store_dead_letter_def
  by (intro with_redis_keeps keeps_st_then connection_keeps call_keeps) simp_all

lemma read_dead_letters_keeps: "P a \<Longrightarrow> keeps P (redis_read_dead_letters p t topology a)"
  unfolding redis_read_dead_letters_def by (intro keeps_st_then connection_keeps call_keeps)

lemma find_in_topologies_keeps: "P a \<Longrightarrow> keeps P (redis_find_in_topologies p t k ts a)"
  by (induction ts arbitrary: a)
    (auto intro!: keeps_st_then read_dead_letters_keeps split: option.splits)

lemma remove_keeps: "P a \<Longrightarrow> keeps P (redis_remove_replayed p replay a)"
  unfolding redis_remove_replayed_def
  by (intro with_redis_keeps keeps_st_then connection_keeps call_keeps) simp_all

lemma route_stats_keeps: "P a \<Longrightarrow> keeps P (redis_route_stats p t topology a)"
  unfolding redis_route_stats_def
  by (intro keeps_st_then ensure_topology_keeps promote_keeps connection_keeps call_keeps)
    (auto simp: on_broker Let_def split: prod.splits)

end

section \<open>Well-formed adapters\<close>

definition redis_lease_ok :: "redis_topology route_catalog \<Rightarrow> string \<Rightarrow> redis_leased \<Rightarrow> bool" where
  "redis_lease_ok routes k l \<longleftrightarrow>
     (\<exists>config now env. sl_delivery l = redis_delivery config now env (sl_entry_id l)) \<and>
     dv_delivery_id (sl_delivery l) = k \<and> declared routes (sl_topology l)"

definition redis_inv :: "redis_queue_config \<Rightarrow> ('h, 'w) redis_adapter \<Rightarrow> bool" where
  "redis_inv config a \<longleftrightarrow>
     sa_transport a \<noteq> None \<and> sa_config a = config \<and>
     catalog_ok (build_redis_route_topology config) (sa_routes a) \<and>
     distinct (hm_keys (sa_leased a)) \<and>
     (\<forall>k l. map_of (sa_leased a) k = Some l \<longrightarrow> redis_lease_ok (sa_routes a) k l)"

lemma redis_observing_simps [simp]:
  "sa_config (redis_observing f a) = sa_config a"
  "sa_transport (redis_observing f a) = sa_transport a"
  "sa_routes (redis_observing f a) = sa_routes a"
  "sa_leased (redis_observing f a) = sa_leased a"
  "sa_broker (redis_observing f a) = sa_broker a"
  by (simp_all add: redis_observing_def)

interpretation redis_state: redis_frame "redis_inv config"
  by unfold_locales (simp_all add: redis_inv_def)

lemma redis_inv_unlease:
  "redis_inv config a \<Longrightarrow> redis_inv config (a\<lparr>sa_leased := hm_remove k (sa_leased a)\<rparr>)"
  by (simp add: redis_inv_def)

lemma redis_inv_rotate:
  "redis_inv config a \<Longrightarrow> redis_inv config (a\<lparr>sa_routes := catalog_rotate r (sa_routes a)\<rparr>)"
  by (auto simp: redis_inv_def catalog_ok_rotate redis_lease_ok_def)

lemma redis_inv_routes:
  assumes "redis_inv config a" and "catalog_ok (build_redis_route_topology config) c"
    and "\<And>t. declared (sa_routes a) t \<Longrightarrow> declared c t"
  shows "redis_inv config (a\<lparr>sa_routes := c\<rparr>)"
  using assms by (auto simp: redis_inv_def redis_lease_ok_def)

lemma redis_inv_register:
  "redis_inv config a \<Longrightarrow> redis_inv config (a\<lparr>sa_routes :=
     register_route q l (build_redis_route_topology config q l) (sa_routes a)\<rparr>)"
  by (rule redis_inv_routes) (auto simp: redis_inv_def catalog_ok_register declared_register)

lemma redis_inv_ensure_route:
  assumes "redis_inv config a" and "redis_ensure_route_topology task a = (t, b)"
  shows "redis_inv config b" and "declared (sa_routes b) t"
proof -
  let ?r = "get_or_insert_with (rt_queue task) (rt_lane task)
      (build_redis_route_topology config (rt_queue task) (rt_lane task)) (sa_routes a)"
  have b: "b = a\<lparr>sa_routes := snd ?r\<rparr>" and t: "t = fst ?r"
    using assms by (auto simp: redis_ensure_route_topology_def redis_inv_def split: prod.splits)
  show "redis_inv config b"
    unfolding b using assms(1)
    by (rule redis_inv_routes)
      (use assms(1) in \<open>simp_all add: redis_inv_def catalog_ok_or_insert declared_or_insert\<close>)
  have "catalog_get (rt_queue task, rt_lane task) (snd ?r) = Some t"
    unfolding t by (auto simp: get_or_insert_with_def catalog_get_def Let_def split: option.splits)
  then show "declared (sa_routes b) t" unfolding b by (simp add: declaredI)
qed

lemma redis_lease_okI:
  "declared routes topology \<Longrightarrow>
     redis_lease_ok routes (dv_delivery_id (redis_delivery c now env i))
       \<lparr>sl_entry_id = i, sl_topology = topology, sl_delivery = redis_delivery c now env i\<rparr>"
  unfolding redis_lease_ok_def
  by (intro conjI exI [where x = c] exI [where x = now] exI [where x = env]) simp_all

lemma redis_inv_lease:
  "redis_inv config a \<and> declared (sa_routes a) topology \<Longrightarrow>
     keeps (\<lambda>a. redis_inv config a \<and> declared (sa_routes a) topology)
       (redis_lease p observe topology message a)"
  unfolding redis_lease_def Let_def
  by (cases "rm_payload_field message"; cases "dj_parse_envelope p (the (rm_payload_field message))")
    (auto simp: redis_inv_def redis_lease_okI)

text \<open>Between two leases the route stays declared.\<close>

interpretation redis_route: redis_frame "\<lambda>a. redis_inv config a \<and> declared (sa_routes a) topology"
  by unfold_locales (simp_all add: redis_state.on_broker redis_state.on_observing)

lemma redis_inv_load_routes: "redis_inv config a \<Longrightarrow> keeps (redis_inv config) (redis_load_routes p a)"
proof -
  have "keeps (redis_inv config) (redis_register_entry p t payload b)"
    if "redis_inv config b" for t payload and b :: "('a, 'b) redis_adapter"
  proof (cases "dj_parse_entry p payload")
    case (Some entry)
    let ?topology = "build_redis_route_topology config (sg_queue entry) (sg_lane entry)"
    have config: "sa_config b = config" using that by (simp add: redis_inv_def)
    have "keeps (redis_inv config) (redis_ensure_topology p t ?topology b)"
      by (rule redis_state.ensure_topology_keeps [OF that])
    then show ?thesis
      unfolding redis_register_entry_def Some json_simps st_then_simps Let_def config
      by (rule keeps_st_then) (simp add: redis_inv_register)
  qed (simp add: redis_register_entry_def that)
  moreover assume "redis_inv config a"
  ultimately show ?thesis
    unfolding redis_load_routes_def
    by (intro redis_state.with_redis_keeps keeps_st_then redis_state.connection_keeps
        redis_state.call_keeps keeps_collect_st) simp_all
qed

lemma redis_inv_reclaim:
  "redis_inv config a \<and> declared (sa_routes a) topology \<Longrightarrow>
     keeps (\<lambda>a. redis_inv config a \<and> declared (sa_routes a) topology)
       (reclaim_stale_delivery p topology a)"
proof -
  let ?P = "\<lambda>a. redis_inv config a \<and> declared (sa_routes a) topology"
  have claim: "keeps ?P (case redis_call m f b of
      (Inl e, c) \<Rightarrow> (Inl e, redis_failed p q l ''reclaim'' c)
    | (Inr (deleted, claimed), c) \<Rightarrow>
        let c = (if deleted = [] then c else redis_observing (g deleted) c)
        in case claimed of
             [] \<Rightarrow> (Inr None, c)
           | message # _ \<Rightarrow> redis_lease p observe topology message c)"
    if "?P b" for m f b g q l and observe :: "task_delivery \<Rightarrow> metrics \<Rightarrow> metrics"
  proof -
    obtain x c where c: "redis_call m f b = (x, c)" by fastforce
    then have "?P c" using redis_route.call_keeps [OF that, of m f] by simp
    then show ?thesis
      unfolding c
      by (cases x)
        (auto simp: Let_def redis_route.failed_keeps redis_route.on_observing
          intro!: redis_inv_lease redis_route.on_observing [THEN conjunct1]
            redis_route.on_observing [THEN conjunct2] split: list.splits)
  qed
  assume "?P a"
  then show ?thesis
    unfolding reclaim_stale_delivery_def Let_def [of "rd_topo_queue topology"]
      Let_def [of "rd_topo_lane topology"]
    by (intro redis_route.with_redis_keeps keeps_st_then redis_route.connection_keeps claim)
qed

lemma redis_inv_reserve_routes:
  "redis_inv config a \<Longrightarrow> keeps (redis_inv config) (redis_reserve_routes p t rs a)"
proof (induction rs arbitrary: a)
  case (Cons r rs)
  show ?case
  proof (cases "catalog_get r (sa_routes a)")
    case None
    then show ?thesis using Cons by simp
  next
    case (Some topology)
    let ?P = "\<lambda>a. redis_inv config a \<and> declared (sa_routes a) topology"
    have lease: "keeps (redis_inv config) (redis_lease p observe topology m
        (b\<lparr>sa_routes := catalog_rotate r (sa_routes b)\<rparr>))" if "?P b" for observe m b
      using redis_inv_lease [of config "b\<lparr>sa_routes := catalog_rotate r (sa_routes b)\<rparr>" topology p
          observe m] that
      by (simp add: keeps_def redis_inv_rotate)
    have start: "?P a" using Cons.prems Some by (simp add: declaredI)
    note step = keeps_weaken_then [where Q = ?P and P = "redis_inv config"]
    show ?thesis
      unfolding redis_reserve_routes.simps Some option.case
      by (rule step [OF redis_route.ensure_topology_keeps [OF start]], erule conjunct1,
          rule step [OF redis_route.promote_keeps], assumption, erule conjunct1,
          rule step [OF redis_inv_reclaim], assumption, erule conjunct1)
        (auto split: option.splits simp: redis_inv_rotate
          intro!: step [OF redis_route.connection_keeps] step [OF redis_route.call_keeps] lease Cons.IH)
  qed
qed simp

lemma redis_inv_reserve: "redis_inv config a \<Longrightarrow> keeps (redis_inv config) (redis_reserve p now later bs a)"
proof -
  assume inv: "redis_inv config a"
  have "keeps (redis_inv config) (redis_reserve_from_broker p bs a)"
    unfolding redis_reserve_from_broker_def
    by (intro keeps_st_then redis_inv_load_routes inv redis_state.with_redis_keeps redis_inv_reserve_routes)
  moreover have "sa_transport a \<noteq> None" using inv by (simp add: redis_inv_def)
  ultimately show ?thesis
    by (auto simp: redis_reserve_def redis_state.on_observing redis_state.failed_keeps
        split: prod.splits sum.splits option.splits)
qed

lemma redis_inv_enqueue: "redis_inv config a \<Longrightarrow> keeps (redis_inv config) (redis_enqueue p now task a)"
proof -
  assume inv: "redis_inv config a"
  obtain t b where b: "redis_ensure_route_topology task a = (t, b)" by fastforce
  note inv = redis_inv_ensure_route (1) [OF inv b]
  have publish: "keeps (redis_inv config)
      (case redis_publish_envelope p t env c of
         (Inr _, a) \<Rightarrow> (Inr (), redis_observing f a)
       | (Inl e, a) \<Rightarrow> (Inl e, redis_failed p q l operation a))"
    if "redis_inv config c" for env c f q l operation
    using redis_state.publish_envelope_keeps [OF that, of p t env]
    by (auto simp: redis_state.on_observing redis_state.failed_keeps split: prod.splits sum.splits)
  have "sa_transport b \<noteq> None" using inv by (simp add: redis_inv_def)
  show ?thesis
    unfolding redis_enqueue_def b
    by (simp add: \<open>sa_transport b \<noteq> None\<close> keeps_st_then redis_state.persist_keeps inv publish)
qed

lemma redis_inv_ack: "redis_inv config a \<Longrightarrow> keeps (redis_inv config) (redis_ack p k a)"
proof -
  assume inv: "redis_inv config a"
  then have "sa_transport a \<noteq> None" by (simp add: redis_inv_def)
  then show ?thesis
    unfolding redis_ack_def Let_def
    by (auto intro!: keeps_st_then redis_state.or_failed_keeps redis_state.ack_entry_keeps
        redis_state.on_observing redis_inv_unlease inv split: option.splits)
qed

lemma redis_inv_retry: "redis_inv config a \<Longrightarrow> keeps (redis_inv config) (redis_retry p now k e ms a)"
proof -
  assume inv: "redis_inv config a"
  then have "sa_transport a \<noteq> None" by (simp add: redis_inv_def)
  then show ?thesis
    unfolding redis_retry_def Let_def
    by (auto intro!: keeps_st_then redis_state.or_failed_keeps redis_state.ack_entry_keeps
        redis_state.store_keeps redis_state.publish_envelope_keeps redis_state.publish_delayed_keeps
        redis_state.on_observing redis_state.failed_keeps redis_inv_unlease inv split: option.splits)
qed

lemma redis_inv_reject: "redis_inv config a \<Longrightarrow> keeps (redis_inv config) (redis_reject p now k e a)"
proof -
  assume inv: "redis_inv config a"
  then have "sa_transport a \<noteq> None" by (simp add: redis_inv_def)
  then show ?thesis
    unfolding redis_reject_def Let_def
    by (auto intro!: keeps_st_then redis_state.or_failed_keeps redis_state.ack_entry_keeps
        redis_state.store_keeps redis_state.on_observing redis_inv_unlease inv split: option.splits)
qed

lemma redis_inv_stats: "redis_inv config a \<Longrightarrow> keeps (redis_inv config) (redis_stats p a)"
proof -
  assume inv: "redis_inv config a"
  then have "sa_transport a \<noteq> None" by (simp add: redis_inv_def)
  show ?thesis
    unfolding redis_stats_def
    by (simp add: \<open>sa_transport a \<noteq> None\<close> keeps_st_then redis_inv_load_routes inv redis_state.with_redis_keeps keeps_collect_st
        redis_state.route_stats_keeps)
qed

lemma redis_inv_dead_letters: "redis_inv config a \<Longrightarrow> keeps (redis_inv config) (redis_dead_letters p a)"
proof -
  assume inv: "redis_inv config a"
  then have "sa_transport a \<noteq> None" by (simp add: redis_inv_def)
  show ?thesis
    unfolding redis_dead_letters_def redis_load_dead_letters_def
    by (simp add: \<open>sa_transport a \<noteq> None\<close> keeps_st_then redis_inv_load_routes inv redis_state.with_redis_keeps keeps_collect_st
        redis_state.read_dead_letters_keeps)
qed

lemma redis_inv_replay: "redis_inv config a \<Longrightarrow> keeps (redis_inv config) (redis_replay_dead_letter p now k a)"
proof -
  assume inv: "redis_inv config a"
  then have transport: "sa_transport a \<noteq> None" by (simp add: redis_inv_def)
  have find: "keeps (redis_inv config) (redis_find_dead_letter p k a)"
    unfolding redis_find_dead_letter_def
    by (intro keeps_st_then redis_inv_load_routes inv redis_state.with_redis_keeps
        redis_state.find_in_topologies_keeps)
  have "redis_inv config b"
    if "replay_dead_letter_with_store
          \<lparr>ry_find = redis_find_dead_letter p,
           ry_publish = \<lambda>topology rec. redis_publish_envelope p topology (build_redis_replay_envelope rec),
           ry_remove = redis_remove_replayed p\<rparr>
          now redis_name k (a, mq_metrics (sa_inner a)) = (r, b, m)" for r b m
    by (rule replay_with_store_keeps [OF that])
      (simp_all add: find redis_state.publish_envelope_keeps redis_state.remove_keeps)
  then show ?thesis
    by (simp add: transport redis_replay_dead_letter_def redis_state.on_observing split: prod.splits)
qed

lemmas redis_inv_ops = redis_inv_enqueue redis_inv_reserve redis_inv_ack redis_inv_retry
  redis_inv_reject redis_inv_stats redis_inv_dead_letters redis_inv_replay

lemma redis_inv_calls: "redis_inv config a \<Longrightarrow> redis_inv config (calls (redis_queue_ops p) cs a)"
proof (induction cs arbitrary: a)
  case (Cons c cs)
  have "redis_inv config (call (redis_queue_ops p) c a)"
    using redis_inv_ops [OF Cons.prems] by (cases c) (simp_all add: redis_queue_ops_def keeps_def)
  then show ?case using Cons.IH by (simp add: calls_def)
qed (simp add: calls_def)

lemma redis_inv_connect: "redis_connect p config m w = (Inr a, w') \<Longrightarrow> redis_inv config a"
  by (auto simp: redis_connect_def st_then_Inr_iff redis_inv_def catalog_ok_new case_prod_beta)

text \<open>C32: Whatever the client library and the server do, the adapters over NATS and Redis stay well
  formed in every run: their catalogs list every route once with the topology of the configuration,
  and every lease is kept once under the id of its delivery.\<close>

theorem stream_adapters_are_well_formed:
  "nats_inv config (calls (nats_queue_ops p) cs (nats_adapter_of config t m w)) \<and>
   (case redis_connect p' config' m w' of
      (Inl _, _) \<Rightarrow> True
    | (Inr a, _) \<Rightarrow> redis_inv config' (calls (redis_queue_ops p') cs' a))"
  by (auto simp: nats_inv_calls nats_inv_new redis_inv_calls redis_inv_connect
      split: prod.splits sum.splits)

section \<open>Routes of other processes\<close>

definition polled :: "('h, 'w) redis_adapter \<Rightarrow> route \<Rightarrow> bool" where
  "polled a r \<longleftrightarrow> r \<in> set (ca_route_order (sa_routes a))"

lemma polled_register:
  "polled (a\<lparr>sa_routes := register_route q l t (sa_routes a)\<rparr>) r \<longleftrightarrow> r = (q, l) \<or> polled a r"
  by (auto simp: polled_def register_route_def Let_def split: option.splits)

lemma json_Inr_iff: "json x = Inr y \<longleftrightarrow> x = Some y"
  by (cases x) auto

lemma redis_call_Inr_iff:
  "redis_call m f a = (Inr x, b) \<longleftrightarrow> (\<exists>w. f (sa_broker a) = (Inr x, w) \<and> b = a\<lparr>sa_broker := w\<rparr>)"
  by (cases "f (sa_broker a)") (auto simp: redis_call_def client_call_def split: sum.splits)

lemma redis_ensure_topology_routes:
  "redis_ensure_topology p t topology a = (r, b) \<Longrightarrow> sa_routes b = sa_routes a"
  by (cases "dc_connection p (dt_client t) (sa_broker a)"; cases "fst (dc_connection p (dt_client t) (sa_broker a))")
    (auto simp: redis_ensure_topology_def redis_connection_def redis_call_def client_call_def
      split: prod.splits sum.splits redis_error.splits)

lemma register_entry_polls:
  assumes "redis_register_entry p t payload a = (Inr (), b)"
  shows "case dj_parse_entry p payload of
      None \<Rightarrow> False
    | Some e \<Rightarrow> (\<forall>r. polled b r \<longleftrightarrow> r = (sg_queue e, sg_lane e) \<or> polled a r)"
  using assms
  by (auto simp: redis_register_entry_def Let_def st_then_Inr_iff polled_register json_Inr_iff
      dest: redis_ensure_topology_routes split: option.splits)
    (auto simp: polled_def dest: redis_ensure_topology_routes)

lemma register_entries_poll:
  "collect_st (redis_register_entry p t) payloads a = (Inr us, b) \<Longrightarrow>
     (\<forall>r. polled a r \<longrightarrow> polled b r) \<and>
     list_all (\<lambda>s. is_some_and (dj_parse_entry p s) (\<lambda>e. polled b (sg_queue e, sg_lane e))) payloads"
proof (induction payloads arbitrary: a us)
  case (Cons s payloads)
  then obtain c vs where first: "redis_register_entry p t s a = (Inr (), c)"
    and rest: "collect_st (redis_register_entry p t) payloads c = (Inr vs, b)"
    by (auto simp: st_then_Inr_iff)
  show ?case
    using register_entry_polls [OF first] Cons.IH [OF rest]
    by (auto simp: is_some_and_iff split: option.splits)
qed simp

text \<open>Before it reserves, an adapter over Redis learns the routes of all processes: when the
  registry was loaded, every entry of the set of routes is on the list that it polls.\<close>

theorem redis_workers_learn_registered_routes:
  "case redis_load_routes p a of
     (Inl _, _) \<Rightarrow> True
   | (Inr _, b) \<Rightarrow>
       (case sa_transport a of
          None \<Rightarrow> b = a
        | Some t \<Rightarrow>
            (case dc_connection p (dt_client t) (sa_broker a) of
               (Inl _, _) \<Rightarrow> False
             | (Inr conn, w) \<Rightarrow>
                 (case dc_smembers p conn (redis_route_registry_key (sa_config a)) w of
                    (Inl _, _) \<Rightarrow> False
                  | (Inr entries, _) \<Rightarrow>
                      list_all (\<lambda>s. is_some_and (dj_parse_entry p s)
                        (\<lambda>e. polled b (sg_queue e, sg_lane e))) entries)))"
proof -
  have "sa_transport a = None \<Longrightarrow> redis_load_routes p a = (Inr (), a)"
    by (simp add: redis_load_routes_def with_redis_def)
  moreover have "\<exists>conn w entries w'. dc_connection p (dt_client t) (sa_broker a) = (Inr conn, w) \<and>
      dc_smembers p conn (redis_route_registry_key (sa_config a)) w = (Inr entries, w') \<and>
      list_all (\<lambda>s. is_some_and (dj_parse_entry p s) (\<lambda>e. polled b (sg_queue e, sg_lane e))) entries"
    if "sa_transport a = Some t" "redis_load_routes p a = (Inr x, b)" for t x b
    using that
    by (auto simp: redis_load_routes_def with_redis_def st_then_Inr_iff redis_connection_def
        redis_call_Inr_iff dest!: register_entries_poll)
  ultimately show ?thesis
    by (cases "sa_transport a") (fastforce split: prod.splits sum.splits)+
qed

section \<open>A server that keeps what it is given\<close>

text \<open>
  What the documentation says of the commands, as far as settling needs it, for the entries of the
  streams and the members of the sorted sets: a command keeps them, but for the one entry that
  \<open>XDEL\<close> names; \<open>XADD\<close> and \<open>ZADD\<close> add theirs when they succeed, \<open>XADD\<close> under a new id. A command
  that fails may have had its effect or not.
\<close>

definition calm :: "('w \<Rightarrow> bool) \<Rightarrow> ('w \<Rightarrow> 'r \<times> 'w) \<Rightarrow> bool" where
  "calm R f \<longleftrightarrow> (\<forall>w. R w \<longrightarrow> R (snd (f w)))"

definition redis_calm :: "('h, 'w) redis \<Rightarrow> ('w \<Rightarrow> bool) \<Rightarrow> bool" where
  "redis_calm p R \<longleftrightarrow>
     (\<forall>h. calm R (dc_connection p h)) \<and> (\<forall>h k g. calm R (dc_xgroup_create_mkstream p h k g)) \<and>
     (\<forall>h k s. calm R (dc_xadd p h k s)) \<and> (\<forall>h k m n. calm R (dc_zadd p h k m n)) \<and>
     calm R (dc_ulid p) \<and> (\<forall>h k g i. calm R (dc_xack p h k g i))"

definition documented_redis ::
    "('h, 'w) redis \<Rightarrow> (string \<Rightarrow> string \<Rightarrow> string \<Rightarrow> 'w \<Rightarrow> bool) \<Rightarrow> (string \<Rightarrow> string \<Rightarrow> 'w \<Rightarrow> bool) \<Rightarrow> bool" where
  "documented_redis p entry member \<longleftrightarrow>
     (\<forall>k i s. redis_calm p (entry k i s)) \<and> (\<forall>k m. redis_calm p (member k m)) \<and>
     (\<forall>h k s w i w'. dc_xadd p h k s w = (Inr i, w') \<longrightarrow> entry k i s w' \<and> \<not> (\<exists>s'. entry k i s' w)) \<and>
     (\<forall>h k m n w c w'. dc_zadd p h k m n w = (Inr c, w') \<longrightarrow> member k m w') \<and>
     (\<forall>h k i k' i' s. k' \<noteq> k \<or> i' \<noteq> i \<longrightarrow> calm (entry k' i' s) (dc_xdel p h k i)) \<and>
     (\<forall>h k i k' m. calm (member k' m) (dc_xdel p h k i))"

text \<open>
  The task is on the server: in a stream, among the delayed retries or in a dead letter there is a
  text that the serializer made from the task, or that it reads as the task. Whether it reads what
  it made as the same task is not asked: a task has floating-point numbers in its judge
  configuration, which JSON need not carry exactly.
\<close>

definition stored ::
    "('h, 'w) redis \<Rightarrow> (string \<Rightarrow> string \<Rightarrow> string \<Rightarrow> 'w \<Rightarrow> bool) \<Rightarrow> (string \<Rightarrow> string \<Rightarrow> 'w \<Rightarrow> bool) \<Rightarrow>
       runtime_task \<Rightarrow> 'w \<Rightarrow> bool" where
  "stored p entry member task w \<longleftrightarrow>
     (\<exists>k i s env. entry k i s w \<and> se_task env = task \<and>
        (dj_envelope p env = Some s \<or> dj_parse_envelope p s = Some env)) \<or>
     (\<exists>k m d. member k m w \<and> se_task (sd_envelope d) = task \<and>
        (dj_delayed p d = Some m \<or> dj_parse_delayed p m = Some d)) \<or>
     (\<exists>k i s rec. entry k i s w \<and> dr_task rec = task \<and>
        (dj_record p rec = Some s \<or> dj_parse_record p s = Some rec))"

abbreviation on_server :: "('w \<Rightarrow> bool) \<Rightarrow> ('h, 'w) redis_adapter \<Rightarrow> bool" where
  "on_server R a \<equiv> R (sa_broker a)"

lemma calmD: "calm R f \<Longrightarrow> R w \<Longrightarrow> f w = (x, w') \<Longrightarrow> R w'"
  by (metis calm_def snd_conv)

lemma redis_calmD:
  assumes "redis_calm p R"
  shows "calm R (dc_connection p h)" and "calm R (dc_xadd p h k s)" and "calm R (dc_zadd p h k s n)"
    and "calm R (dc_xack p h k g i)" and "R w \<Longrightarrow> R (snd (dc_ulid p w))"
    and "dc_xgroup_create_mkstream p h k g w = (x, w') \<Longrightarrow> R w \<Longrightarrow> R w'"
proof -
  show "dc_xgroup_create_mkstream p h k g w = (x, w') \<Longrightarrow> R w \<Longrightarrow> R w'"
    using assms unfolding redis_calm_def by (metis calmD)
qed (use assms in \<open>simp_all add: redis_calm_def calm_def\<close>)

lemma documentedD:
  assumes "documented_redis p entry member"
  shows "redis_calm p (entry k i s)" and "redis_calm p (member k m)"
    and "dc_xadd p h k s w = (Inr i, w') \<Longrightarrow> entry k i s w'"
    and "dc_xadd p h k s w = (Inr i, w') \<Longrightarrow> \<not> entry k i s' w"
    and "dc_zadd p h k m n w = (Inr c, w') \<Longrightarrow> member k m w'"
    and "k' \<noteq> k \<or> i' \<noteq> i \<Longrightarrow> calm (entry k' i' s) (dc_xdel p h k i)"
    and "calm (member k' m) (dc_xdel p h k i)"
  using assms unfolding documented_redis_def by auto

lemma calm_call: "calm R f \<Longrightarrow> on_server R a \<Longrightarrow> keeps (on_server R) (redis_call m f a)"
  by (auto simp: redis_call_def client_call_def dest: calmD split: prod.splits sum.splits)

lemma calm_connection: "redis_calm p R \<Longrightarrow> on_server R a \<Longrightarrow> keeps (on_server R) (redis_connection p t a)"
  unfolding redis_connection_def by (rule calm_call) (simp_all add: redis_calmD)

lemma calm_ensure_topology:
  "redis_calm p R \<Longrightarrow> on_server R a \<Longrightarrow> keeps (on_server R) (redis_ensure_topology p t topology a)"
  unfolding redis_ensure_topology_def
  by (intro keeps_st_then calm_connection)
    (auto dest: redis_calmD split: prod.splits sum.splits redis_error.splits)

lemma calm_with_redis:
  "on_server R a \<Longrightarrow> (\<And>t a. on_server R a \<Longrightarrow> keeps (on_server R) (f t a)) \<Longrightarrow>
     keeps (on_server R) (with_redis x f a)"
  by (simp add: with_redis_def split: option.splits)

lemma calm_publish_envelope:
  "redis_calm p R \<Longrightarrow> on_server R a \<Longrightarrow> keeps (on_server R) (redis_publish_envelope p topology env a)"
  unfolding redis_publish_envelope_def
  by (intro calm_with_redis keeps_st_then calm_ensure_topology calm_connection calm_call)
    (simp_all add: redis_calmD)

lemma calm_publish_delayed:
  "redis_calm p R \<Longrightarrow> on_server R a \<Longrightarrow> keeps (on_server R) (publish_delayed_retry p topology env ms a)"
  unfolding publish_delayed_retry_def
  by (intro calm_with_redis keeps_st_then calm_connection)
    (auto intro!: keeps_st_then calm_call simp: redis_calmD case_prod_beta)

lemma calm_store:
  "redis_calm p R \<Longrightarrow> on_server R a \<Longrightarrow> keeps (on_server R) (redis_store_dead_letter p topology rec a)"
  unfolding redis_store_dead_letter_def
  by (intro calm_with_redis keeps_st_then calm_connection calm_call) (simp_all add: redis_calmD)

lemma calm_ack_entry:
  "redis_calm p R \<Longrightarrow> (\<And>h. calm R (dc_xdel p h (rd_topo_stream_key topology) i)) \<Longrightarrow> on_server R a \<Longrightarrow>
     keeps (on_server R) (redis_ack_entry p topology i a)"
  unfolding redis_ack_entry_def
  by (intro calm_with_redis keeps_st_then calm_connection calm_call) (simp_all add: redis_calmD)

text \<open>What a successful publication leaves on the server.\<close>

lemma publish_envelope_stores:
  assumes "documented_redis p entry member"
    and "redis_publish_envelope p topology env a = (Inr (), b)" and "sa_transport a \<noteq> None"
  shows "\<exists>i s. dj_envelope p env = Some s \<and> entry (rd_topo_stream_key topology) i s (sa_broker b) \<and>
    (\<forall>s'. \<not> entry (rd_topo_stream_key topology) i s' (sa_broker a))"
proof -
  obtain t where t: "sa_transport a = Some t" using assms(3) by auto
  obtain c s d conn w i w' where c: "redis_ensure_topology p t topology a = (Inr (), c)"
    and s: "dj_envelope p env = Some s" and d: "redis_connection p t c = (Inr conn, d)"
    and w: "dc_xadd p conn (rd_topo_stream_key topology) s (sa_broker d) = (Inr i, w')"
    and b: "b = d\<lparr>sa_broker := w'\<rparr>"
    using assms(2) t
    by (auto simp: redis_publish_envelope_def with_redis_def st_then_Inr_iff json_Inr_iff redis_call_Inr_iff)
  note new = documentedD (3,4) [OF assms(1) w]
  have "entry (rd_topo_stream_key topology) i s' (sa_broker d)"
    if "entry (rd_topo_stream_key topology) i s' (sa_broker a)" for s'
  proof -
    have calm: "redis_calm p (entry (rd_topo_stream_key topology) i s')"
      by (rule documentedD [OF assms(1)])
    show ?thesis
      using calm_ensure_topology [OF calm that, of t topology] calm_connection [OF calm, of c t] c d
      by simp
  qed
  with new s b show ?thesis by auto
qed

lemma publish_delayed_stores:
  assumes "documented_redis p entry member"
    and "publish_delayed_retry p topology env ms a = (Inr (), b)" and "sa_transport a \<noteq> None"
  shows "\<exists>m token. dj_delayed p \<lparr>sd_token = token, sd_envelope = env\<rparr> = Some m \<and>
    member (rd_topo_delayed_key topology) m (sa_broker b)"
proof -
  obtain t where "sa_transport a = Some t" using assms(3) by auto
  then obtain conn m token k w c where
      m: "dj_delayed p \<lparr>sd_token = token, sd_envelope = env\<rparr> = Some m"
    and w: "dc_zadd p conn (rd_topo_delayed_key topology) m k w = (Inr c, sa_broker b)"
    using assms(2)
    by (auto simp: publish_delayed_retry_def with_redis_def st_then_Inr_iff json_Inr_iff
        redis_call_Inr_iff case_prod_beta)
  then show ?thesis using documentedD(5) [OF assms(1)] by blast
qed

lemma store_dead_letter_stores:
  assumes "documented_redis p entry member"
    and "redis_store_dead_letter p topology rec a = (Inr (), b)" and "sa_transport a \<noteq> None"
  shows "\<exists>i s. dj_record p rec = Some s \<and> entry (rd_topo_dead_letter_stream_key topology) i s (sa_broker b)"
proof -
  obtain t where "sa_transport a = Some t" using assms(3) by auto
  then obtain conn s i w where s: "dj_record p rec = Some s"
    and w: "dc_xadd p conn (rd_topo_dead_letter_stream_key topology) s w = (Inr i, sa_broker b)"
    using assms(2)
    by (auto simp: redis_store_dead_letter_def with_redis_def st_then_Inr_iff json_Inr_iff
        redis_call_Inr_iff)
  then show ?thesis using documentedD(3) [OF assms(1)] by blast
qed

text \<open>
  Settling a delivery: publish something that stores the task, then acknowledge the entry. When the
  first step fails the entry is still there; when it succeeds what it stored survives the second.
\<close>

lemma or_failed_on_server: "keeps (on_server R) r \<Longrightarrow> keeps (on_server R) (redis_or_failed p task m r)"
  by (auto simp: redis_or_failed_def redis_failed_def keeps_def split: prod.splits sum.splits)

lemma settling_stores:
  assumes "keeps (on_server Q) r"
    and "\<And>b. r = (Inr (), b) \<Longrightarrow> \<exists>R. on_server R b \<and> (\<forall>w. R w \<longrightarrow> Q w) \<and>
      (\<forall>b. on_server R b \<longrightarrow> keeps (on_server R) (redis_ack_entry p topology i b))"
    and "\<And>x b. on_server Q b \<Longrightarrow> keeps (on_server Q) (g x b)"
  shows "keeps (on_server Q) (st_then (redis_or_failed p task m r) (\<lambda>_ a.
    st_then (redis_or_failed p task m' (redis_ack_entry p topology i a)) g))"
proof (cases r)
  case (Pair x b)
  show ?thesis
  proof (cases x)
    case (Inl e)
    then show ?thesis using assms(1) Pair by (simp add: redis_or_failed_def redis_failed_def)
  next
    case (Inr u)
    then obtain R where R: "on_server R b" "\<forall>w. R w \<longrightarrow> Q w"
      "\<forall>b. on_server R b \<longrightarrow> keeps (on_server R) (redis_ack_entry p topology i b)"
      using assms(2) [of b] Pair by auto
    then have "keeps (on_server R) (redis_or_failed p task m' (redis_ack_entry p topology i b))"
      by (intro or_failed_on_server) blast
    then have "keeps (on_server Q) (redis_or_failed p task m' (redis_ack_entry p topology i b))"
      using R(2) by (simp add: keeps_def)
    then have "keeps (on_server Q) (st_then (redis_or_failed p task m' (redis_ack_entry p topology i b)) g)"
      using assms(3) by (rule keeps_st_then)
    then show ?thesis using Pair Inr by (simp add: redis_or_failed_def)
  qed
qed

lemma entry_survives_ack:
  assumes "documented_redis p entry member" and "k \<noteq> rd_topo_stream_key topology \<or> i' \<noteq> i"
  shows "on_server (entry k i' s) b \<longrightarrow> keeps (on_server (entry k i' s)) (redis_ack_entry p topology i b)"
  using assms by (intro impI calm_ack_entry) (simp_all add: documentedD)

lemma member_survives_ack:
  assumes "documented_redis p entry member"
  shows "on_server (member k m) b \<longrightarrow> keeps (on_server (member k m)) (redis_ack_entry p topology i b)"
  using assms by (intro impI calm_ack_entry) (simp_all add: documentedD)

lemma keeps_stored:
  "keeps (on_server (entry k i s)) r \<Longrightarrow> dj_parse_envelope p s = Some env \<Longrightarrow>
     keeps (on_server (stored p entry member (se_task env))) r"
  unfolding keeps_def stored_def by blast

lemma storedI:
  "entry k i s w \<Longrightarrow> dj_envelope p env = Some s \<Longrightarrow> stored p entry member (se_task env) w"
  "member k m w \<Longrightarrow> dj_delayed p d = Some m \<Longrightarrow> stored p entry member (se_task (sd_envelope d)) w"
  "entry k i s w \<Longrightarrow> dj_record p rec = Some s \<Longrightarrow> stored p entry member (dr_task rec) w"
  unfolding stored_def by blast+

text \<open>The three publications that settle a delivery.\<close>

lemma envelope_settles:
  assumes "documented_redis p entry member" and "sa_transport a \<noteq> None"
    and "entry (rd_topo_stream_key topology) i s (sa_broker a)"
    and "redis_publish_envelope p topology env a = (Inr (), b)"
  shows "\<exists>R. on_server R b \<and> (\<forall>w. R w \<longrightarrow> stored p entry member (se_task env) w) \<and>
    (\<forall>b. on_server R b \<longrightarrow> keeps (on_server R) (redis_ack_entry p topology i b))"
proof -
  obtain i' s' where new: "dj_envelope p env = Some s'"
    "entry (rd_topo_stream_key topology) i' s' (sa_broker b)"
    "\<forall>x. \<not> entry (rd_topo_stream_key topology) i' x (sa_broker a)"
    using publish_envelope_stores [OF assms(1,4,2)] by blast
  then have "i' \<noteq> i" using assms(3) by auto
  then have "\<forall>b. on_server (entry (rd_topo_stream_key topology) i' s') b \<longrightarrow>
      keeps (on_server (entry (rd_topo_stream_key topology) i' s')) (redis_ack_entry p topology i b)"
    using entry_survives_ack [OF assms(1)] by blast
  moreover have "entry (rd_topo_stream_key topology) i' s' w \<longrightarrow> stored p entry member (se_task env) w" for w
    using storedI(1) [where k = "rd_topo_stream_key topology", OF _ new(1)] by blast
  ultimately show ?thesis
    using new(2) by (intro exI [where x = "entry (rd_topo_stream_key topology) i' s'"]) simp
qed

lemma delayed_settles:
  assumes "documented_redis p entry member" and "sa_transport a \<noteq> None"
    and "publish_delayed_retry p topology env ms a = (Inr (), b)"
  shows "\<exists>R. on_server R b \<and> (\<forall>w. R w \<longrightarrow> stored p entry member (se_task env) w) \<and>
    (\<forall>b. on_server R b \<longrightarrow> keeps (on_server R) (redis_ack_entry p topology i b))"
proof -
  obtain m token where new: "dj_delayed p \<lparr>sd_token = token, sd_envelope = env\<rparr> = Some m"
    "member (rd_topo_delayed_key topology) m (sa_broker b)"
    using publish_delayed_stores [OF assms(1,3,2)] by blast
  have "member (rd_topo_delayed_key topology) m w \<longrightarrow> stored p entry member (se_task env) w" for w
    using storedI(2) [where k = "rd_topo_delayed_key topology", OF _ new(1)] by simp
  then show ?thesis
    using new(2) member_survives_ack [OF assms(1)]
    by (intro exI [where x = "member (rd_topo_delayed_key topology) m"]) simp
qed

lemma dead_letter_settles:
  assumes "documented_redis p entry member" and "sa_transport a \<noteq> None"
    and "rd_topo_dead_letter_stream_key topology \<noteq> rd_topo_stream_key topology"
    and "redis_store_dead_letter p topology rec a = (Inr (), b)"
  shows "\<exists>R. on_server R b \<and> (\<forall>w. R w \<longrightarrow> stored p entry member (dr_task rec) w) \<and>
    (\<forall>b. on_server R b \<longrightarrow> keeps (on_server R) (redis_ack_entry p topology i b))"
proof -
  obtain i' s' where new: "dj_record p rec = Some s'"
    "entry (rd_topo_dead_letter_stream_key topology) i' s' (sa_broker b)"
    using store_dead_letter_stores [OF assms(1,4,2)] by blast
  have "entry (rd_topo_dead_letter_stream_key topology) i' s' w \<longrightarrow>
      stored p entry member (dr_task rec) w" for w
    using storedI(3) [where k = "rd_topo_dead_letter_stream_key topology", OF _ new(1)]
    by blast
  then show ?thesis
    using new(2) entry_survives_ack [OF assms(1), where k = "rd_topo_dead_letter_stream_key topology"] assms(3)
    by (intro exI [where x = "entry (rd_topo_dead_letter_stream_key topology) i' s'"]) simp
qed

lemma redis_topology_keys:
  "redis_inv config a \<Longrightarrow> map_of (sa_leased a) k = Some l \<Longrightarrow>
     rd_topo_dead_letter_stream_key (sl_topology l) \<noteq> rd_topo_stream_key (sl_topology l)"
  by (fastforce simp: redis_inv_def redis_lease_ok_def declared_def catalog_ok_def
      build_redis_route_topology_def Let_def)

lemma on_server_observing: "on_server Q (redis_observing f a) = on_server Q a"
  by simp

text \<open>The two settling operations, on a leased delivery whose entry is on the server.\<close>

abbreviation holds_entry ::
    "('h, 'w) redis \<Rightarrow> (string \<Rightarrow> string \<Rightarrow> string \<Rightarrow> 'w \<Rightarrow> bool) \<Rightarrow> (string \<Rightarrow> string \<Rightarrow> 'w \<Rightarrow> bool) \<Rightarrow>
       redis_leased \<Rightarrow> string \<Rightarrow> ('h, 'w) redis_adapter \<Rightarrow> bool" where
  "holds_entry p entry member l s a \<equiv>
     documented_redis p entry member \<and> sa_transport a \<noteq> None \<and>
     rd_topo_dead_letter_stream_key (sl_topology l) \<noteq> rd_topo_stream_key (sl_topology l) \<and>
     entry (rd_topo_stream_key (sl_topology l)) (sl_entry_id l) s (sa_broker a) \<and>
     is_some_and (dj_parse_envelope p s) (\<lambda>env. se_task env = dv_task (sl_delivery l))"

lemma holds_entry_keeps:
  assumes "holds_entry p entry member l s a"
    and "\<And>R. redis_calm p R \<Longrightarrow> on_server R a \<Longrightarrow> keeps (on_server R) r"
  shows "keeps (on_server (stored p entry member (dv_task (sl_delivery l)))) r"
proof -
  obtain env where "dj_parse_envelope p s = Some env" "se_task env = dv_task (sl_delivery l)"
    using assms(1) by (auto simp: is_some_and_iff)
  moreover have "keeps (on_server (entry (rd_topo_stream_key (sl_topology l)) (sl_entry_id l) s)) r"
    using assms(1) by (intro assms(2)) (simp_all add: documentedD(1) [of p entry member])
  ultimately show ?thesis using keeps_stored by metis
qed

lemma dead_letter_step:
  assumes "holds_entry p entry member l s a" and "dr_task rec = dv_task (sl_delivery l)"
    and "\<And>x b. on_server (stored p entry member (dv_task (sl_delivery l))) b \<Longrightarrow>
      keeps (on_server (stored p entry member (dv_task (sl_delivery l)))) (g x b)"
  shows "keeps (on_server (stored p entry member (dv_task (sl_delivery l))))
    (st_then (redis_or_failed p task m (redis_store_dead_letter p (sl_topology l) rec a)) (\<lambda>_ a.
      st_then (redis_or_failed p task m' (redis_ack_entry p (sl_topology l) (sl_entry_id l) a)) g))"
proof (rule settling_stores)
  show "keeps (on_server (stored p entry member (dv_task (sl_delivery l))))
      (redis_store_dead_letter p (sl_topology l) rec a)"
    by (rule holds_entry_keeps [OF assms(1)]) (rule calm_store)
qed (use assms dead_letter_settles [of p entry member a "sl_topology l" rec] in \<open>auto simp: assms(2)\<close>)

lemma requeue_step:
  assumes "holds_entry p entry member l s a" and "se_task env = dv_task (sl_delivery l)"
    and "\<And>x b. on_server (stored p entry member (dv_task (sl_delivery l))) b \<Longrightarrow>
      keeps (on_server (stored p entry member (dv_task (sl_delivery l)))) (g x b)"
  shows "keeps (on_server (stored p entry member (dv_task (sl_delivery l))))
    (st_then (redis_or_failed p task m (if ms = 0 then redis_publish_envelope p (sl_topology l) env a
        else publish_delayed_retry p (sl_topology l) env ms a)) (\<lambda>_ a.
      st_then (redis_or_failed p task m' (redis_ack_entry p (sl_topology l) (sl_entry_id l) a)) g))"
proof (rule settling_stores)
  show "keeps (on_server (stored p entry member (dv_task (sl_delivery l))))
      (if ms = 0 then redis_publish_envelope p (sl_topology l) env a
       else publish_delayed_retry p (sl_topology l) env ms a)"
    by (rule holds_entry_keeps [OF assms(1)]) (simp add: calm_publish_envelope calm_publish_delayed)
next
  fix b
  assume *: "(if ms = 0 then redis_publish_envelope p (sl_topology l) env a
       else publish_delayed_retry p (sl_topology l) env ms a) = (Inr (), b)"
  show "\<exists>R. on_server R b \<and> (\<forall>w. R w \<longrightarrow> stored p entry member (dv_task (sl_delivery l)) w) \<and>
      (\<forall>b. on_server R b \<longrightarrow> keeps (on_server R) (redis_ack_entry p (sl_topology l) (sl_entry_id l) b))"
    using * assms(1,2) envelope_settles [of p entry member a "sl_topology l" "sl_entry_id l" s env b]
      delayed_settles [of p entry member a "sl_topology l" env ms b "sl_entry_id l"]
    by (simp split: if_splits)
qed (use assms(3) in simp)

lemma dead_letter_last_step:
  assumes "holds_entry p entry member l s a" and "dr_task rec = dv_task (sl_delivery l)"
  shows "keeps (on_server (stored p entry member (dv_task (sl_delivery l))))
    (st_then (redis_or_failed p task m (redis_store_dead_letter p (sl_topology l) rec a)) (\<lambda>_ a.
      redis_or_failed p task m' (redis_ack_entry p (sl_topology l) (sl_entry_id l) a)))"
proof -
  have "st_then r (\<lambda>x b. (Inr x, b)) = r" for r :: "unit app_result \<times> ('a, 'b) redis_adapter"
    by (cases r; cases "fst r") auto
  with dead_letter_step [OF assms, where g = "\<lambda>x b. (Inr x, b)"] show ?thesis by simp
qed

lemma retry_keeps_the_task:
  assumes "holds_entry p entry member l s a" and "map_of (sa_leased a) k = Some l"
  shows "keeps (on_server (stored p entry member (dv_task (sl_delivery l)))) (redis_retry p now k e ms a)"
proof (cases "rp_max_attempts (rt_retry_policy (dv_task (sl_delivery l))) \<le> dv_attempt (sl_delivery l)")
  case True
  then show ?thesis
    using assms
    by (auto simp: redis_retry_def Let_def redis_observing_def build_dead_letter_record_def
        intro!: dead_letter_step)
next
  case False
  have leased: "holds_entry p entry member l s (a\<lparr>sa_leased := hm_remove k (sa_leased a)\<rparr>)"
    using assms(1) by simp
  show ?thesis
    unfolding redis_retry_def Let_def
    using False assms(2) conjunct1 [OF conjunct2 [OF assms(1)]]
    by (simp del: not_None_eq split del: if_split) (rule requeue_step [OF leased]; simp add: redis_observing_def)
qed

lemma reject_keeps_the_task:
  assumes "holds_entry p entry member l s a" and "map_of (sa_leased a) k = Some l"
  shows "keeps (on_server (stored p entry member (dv_task (sl_delivery l)))) (redis_reject p now k e a)"
  using assms
  by (auto simp: redis_reject_def Let_def redis_observing_def build_dead_letter_record_def
      intro!: dead_letter_last_step)

text \<open>C27: Over a server that does what is documented of the commands (it keeps the entries and
  members it was given, but for the one entry that \<open>XDEL\<close> names, and gives each new entry of a
  stream a new id), a retry and a rejection of a leased delivery whose entry is still in its stream
  never lose the task, whatever call fails on the way: afterwards a stream entry, a delayed retry
  or a dead letter holds a text that was serialized from the task or is read as it.\<close>

theorem redis_settling_loses_no_task:
  assumes "documented_redis p entry member" and "redis_inv config a"
    and "map_of (sa_leased a) k = Some l"
    and "entry (rd_topo_stream_key (sl_topology l)) (sl_entry_id l) s (sa_broker a)"
    and "dj_parse_envelope p s = Some env" and "se_task env = dv_task (sl_delivery l)"
  shows "stored p entry member (dv_task (sl_delivery l)) (sa_broker (snd (redis_retry p now k e ms a))) \<and>
    stored p entry member (dv_task (sl_delivery l)) (sa_broker (snd (redis_reject p now k e a)))"
proof -
  have "sa_transport a \<noteq> None" using assms(2) by (simp add: redis_inv_def)
  then have "holds_entry p entry member l s a"
    using assms redis_topology_keys [OF assms(2,3)] by (simp add: is_some_and_iff)
  then show ?thesis
    using retry_keeps_the_task reject_keeps_the_task assms(3) unfolding keeps_def by blast
qed

end
