(* ===== verification/Redis_Runs.thy ===== *)
theory Redis_Runs
  imports Redis_Props Queue_Props
begin

text \<open>
  A small Redis server that keeps what it is given, and a run on it: a task is reserved, its retry
  is scheduled, and the retry is still there when the server cannot delete the old entry.
\<close>

section \<open>A small server\<close>

text \<open>The entries of the streams, the members of the sorted sets, and the ids read by a group.\<close>

record small_server =
  ss_entries :: "(string \<times> string \<times> string) list"
  ss_members :: "(string \<times> string) list"
  ss_pending :: "string list"
  ss_routes :: "string list"

definition empty_server :: small_server where
  "empty_server = \<lparr>ss_entries = [], ss_members = [], ss_pending = [], ss_routes = []\<rparr>"

definition ss_entry :: "string \<Rightarrow> string \<Rightarrow> string \<Rightarrow> small_server \<Rightarrow> bool" where
  "ss_entry k i s w \<longleftrightarrow> (k, i, s) \<in> set (ss_entries w)"

definition ss_member :: "string \<Rightarrow> string \<Rightarrow> small_server \<Rightarrow> bool" where
  "ss_member k m w \<longleftrightarrow> (k, m) \<in> set (ss_members w)"

text \<open>An id that is longer than those there are.\<close>

definition fresh_id :: "small_server \<Rightarrow> string" where
  "fresh_id w = replicate (Suc (sum_list (map (\<lambda>(_, i, _). length i) (ss_entries w)))) CHR ''1''"

definition ss_xadd :: "string \<Rightarrow> string \<Rightarrow> small_server \<Rightarrow> (string + string) \<times> small_server" where
  "ss_xadd k s w = (Inr (fresh_id w), w\<lparr>ss_entries := ss_entries w @ [(k, fresh_id w, s)]\<rparr>)"

definition ss_read :: "string \<Rightarrow> small_server \<Rightarrow> (string + redis_message list list) \<times> small_server" where
  "ss_read k w =
     (case filter (\<lambda>(k', i, _). k' = k \<and> i \<notin> set (ss_pending w)) (ss_entries w) of
        [] \<Rightarrow> (Inr [], w)
      | (_, i, s) # _ \<Rightarrow>
          (Inr [[\<lparr>rm_id = i, rm_payload_field = Some s\<rparr>]], w\<lparr>ss_pending := i # ss_pending w\<rparr>))"

abbreviation small_task :: runtime_task where
  "small_task \<equiv> sample_task ''t'' ''fast'' 3"

abbreviation first_try :: redis_envelope where
  "first_try \<equiv> \<lparr>se_task = small_task, se_attempt = 1, se_last_error = None\<rparr>"

abbreviation second_try :: redis_delayed_envelope where
  "second_try \<equiv> \<lparr>sd_token = ''u'',
     sd_envelope = \<lparr>se_task = small_task, se_attempt = 2, se_last_error = Some ''boom''\<rparr>\<rparr>"

text \<open>The serialiser knows these two envelopes; deleting an entry fails.\<close>

definition small_redis :: "(unit, small_server) redis" where
  "small_redis =
     \<lparr>dc_open = \<lambda>_. Inr (), dc_connection = \<lambda>_ w. (Inr (), w),
      dc_xgroup_create_mkstream = \<lambda>_ _ _ w. (Inl BusyGroup, w),
      dc_xadd = \<lambda>_. ss_xadd,
      dc_sadd = \<lambda>_ _ s w. (Inr 1, w\<lparr>ss_routes := List.insert s (ss_routes w)\<rparr>),
      dc_smembers = \<lambda>_ _ w. (Inr (ss_routes w), w),
      dc_zrangebyscore = \<lambda>_ _ _ _ w. (Inr [], w),
      dc_zrem = \<lambda>_ _ _ w. (Inr 0, w),
      dc_zadd = \<lambda>_ k m _ w. (Inr 1, w\<lparr>ss_members := (k, m) # ss_members w\<rparr>),
      dc_zcard = \<lambda>_ k w. (Inr (length (filter (\<lambda>(k', _). k' = k) (ss_members w))), w),
      dc_xreadgroup = \<lambda>_ k _ _. ss_read k,
      dc_xautoclaim = \<lambda>_ _ _ _ _ w. (Inr ([], []), w),
      dc_xack = \<lambda>_ _ _ _ w. (Inr 1, w),
      dc_xdel = \<lambda>_ _ _ w. (Inl ''readonly'', w),
      dc_xrange_all = \<lambda>_ k w. (Inr (map (\<lambda>(_, i, s). \<lparr>rm_id = i, rm_payload_field = Some s\<rparr>)
         (filter (\<lambda>(k', _, _). k' = k) (ss_entries w))), w),
      dc_xinfo_groups = \<lambda>_ _ w. (Inr [], w),
      dc_xlen = \<lambda>_ k w. (Inr (length (filter (\<lambda>(k', _, _). k' = k) (ss_entries w))), w),
      dc_now = \<lambda>_. 0, dc_ulid = \<lambda>w. (''u'', w),
      dj_envelope = \<lambda>e. if e = first_try then Some ''first'' else None,
      dj_parse_envelope = \<lambda>s. if s = ''first'' then Some first_try else None,
      dj_delayed = \<lambda>e. if e = second_try then Some ''second'' else None,
      dj_parse_delayed = \<lambda>s. if s = ''second'' then Some second_try else None,
      dj_record = \<lambda>_. None, dj_parse_record = \<lambda>_. None,
      dj_entry = \<lambda>_. Some ''e'',
      dj_parse_entry = \<lambda>_. Some \<lparr>sg_queue = ''oj_judge'', sg_lane = ''fast''\<rparr>\<rparr>"

lemma fresh_id_is_new: "\<not> ss_entry k (fresh_id w) s w"
proof
  assume "ss_entry k (fresh_id w) s w"
  then have "length (fresh_id w) \<in> set (map (\<lambda>(_, i, _). length i) (ss_entries w))"
    by (force simp: ss_entry_def)
  then show False
    using member_le_sum_list [of "length (fresh_id w)" "map (\<lambda>(_, i, _). length i) (ss_entries w)"]
    by (simp add: fresh_id_def)
qed

lemma small_redis_keeps: "documented_redis small_redis ss_entry ss_member"
  unfolding documented_redis_def redis_calm_def calm_def
  by (auto simp: small_redis_def ss_xadd_def ss_member_def fresh_id_is_new)
    (auto simp: ss_entry_def)

section \<open>One task, reserved\<close>

definition small_redis_config :: redis_queue_config where
  "small_redis_config = \<lparr>sqc_url = ''redis://r'', sqc_stream_prefix = ''p'',
     sqc_consumer_group_prefix = ''g'', sqc_consumer_name_prefix = ''c'',
     sqc_pending_reclaim_idle_ms = 1000\<rparr>"

definition small_worker :: "(unit, small_server) redis_adapter app_result \<times> small_server" where
  "small_worker = redis_connect small_redis small_redis_config empty_metrics empty_server"

definition small_redis_reserved :: "(unit, small_server) redis_adapter" where
  "small_redis_reserved =
     (case small_worker of
        (Inr a, _) \<Rightarrow> calls (redis_queue_ops small_redis) [CallEnqueue 0 small_task, CallReserve 0 0 []] a
      | (Inl _, _) \<Rightarrow> undefined)"

definition small_lease :: redis_leased where
  "small_lease =
     \<lparr>sl_entry_id = ''1'', sl_topology = build_redis_route_topology small_redis_config ''oj_judge'' ''fast'',
      sl_delivery = \<lparr>dv_delivery_id = ''redis-t-1'', dv_attempt = 1, dv_leased_until = Some 1000,
        dv_last_error = None, dv_task = small_task\<rparr>\<rparr>"

lemma small_reserved_lease:
  "map_of (sa_leased small_redis_reserved) ''redis-t-1'' = Some small_lease"
  "ss_entry (rd_topo_stream_key (sl_topology small_lease)) (sl_entry_id small_lease) ''first''
     (sa_broker small_redis_reserved)"
  by code_simp+

lemma small_reserved_inv: "redis_inv small_redis_config small_redis_reserved"
proof -
  have "case small_worker of (Inl _, _) \<Rightarrow> False | (Inr _, _) \<Rightarrow> True"
    by code_simp
  then obtain a w where "small_worker = (Inr a, w)"
    by (auto split: prod.splits sum.splits)
  then show ?thesis
    using redis_inv_connect [of small_redis small_redis_config empty_metrics empty_server]
    by (simp add: small_redis_reserved_def small_worker_def redis_inv_calls)
qed

theorem redis_settling_loses_no_task_witness:
  "stored small_redis ss_entry ss_member small_task
     (sa_broker (snd (redis_retry small_redis 0 ''redis-t-1'' ''boom'' 1000 small_redis_reserved)))"
  using redis_settling_loses_no_task [OF small_redis_keeps small_reserved_inv small_reserved_lease,
      where env = first_try]
  by (simp add: small_redis_def small_lease_def)

end
