(* ===== verification/Alert_Relay.thy ===== *)
theory Alert_Relay
  imports Host Runtime_Types Rust_Trim
begin

text \<open>
  The alert relay (crates/nexus-alert-relay/src/main.rs): a small server that takes the payload
  of an alert manager, forwards it to the configured webhooks and keeps an audit log of what it
  forwarded. The log grows in one file up to a size; old files are pruned by age and number.

  The HTTP client and the serialiser are arguments. The audit log lives in one directory: its
  files by name, with contents and modification time; what the file system refuses is an argument
  of the operations. A base path without a file name (\<^theory_text>\<open>..\<close> or the root) is not modelled.
\<close>

section \<open>Configuration\<close>

record relay_config =
  rc_generic_webhook_url :: "string option"
  rc_feishu_webhook_url :: "string option"
  rc_wecom_webhook_url :: "string option"
  rc_dry_run_enabled :: bool
  rc_audit_log_path :: "string option"
  rc_audit_log_max_bytes :: u64
  rc_audit_log_max_files :: nat
  rc_audit_log_retention_days :: u64

definition env_var :: "(string \<Rightarrow> string option) \<Rightarrow> string \<Rightarrow> string option" where
  "env_var env key =
     (case env key of
        None \<Rightarrow> None
      | Some value \<Rightarrow> (let trimmed = trim value in if trimmed = [] then None else Some trimmed))"

definition env_bool :: "(string \<Rightarrow> string option) \<Rightarrow> string \<Rightarrow> bool \<Rightarrow> bool" where
  "env_bool env key fallback =
     unwrap_or (map_option (\<lambda>value. trim value \<in> {''1'', ''true'', ''TRUE'', ''yes'', ''on''}) (env key))
       fallback"

definition env_u64 :: "(string \<Rightarrow> string option) \<Rightarrow> string \<Rightarrow> u64 \<Rightarrow> u64" where
  "env_u64 env key fallback =
     unwrap_or (case env key of None \<Rightarrow> None | Some value \<Rightarrow> parse_word (trim value)) fallback"

definition env_usize :: "(string \<Rightarrow> string option) \<Rightarrow> string \<Rightarrow> nat \<Rightarrow> nat" where
  "env_usize env key fallback =
     unwrap_or (case env key of None \<Rightarrow> None | Some value \<Rightarrow> parse_unsigned (2 ^ 64) (trim value)) fallback"

definition relay_from_env :: "(string \<Rightarrow> string option) \<Rightarrow> relay_config" where
  "relay_from_env env =
     \<lparr>rc_generic_webhook_url = env_var env ''NEXUS_ALERT_WEBHOOK_URL'',
      rc_feishu_webhook_url = env_var env ''NEXUS_ALERT_FEISHU_WEBHOOK_URL'',
      rc_wecom_webhook_url = env_var env ''NEXUS_ALERT_WECOM_WEBHOOK_URL'',
      rc_dry_run_enabled = env_bool env ''NEXUS_ALERT_DRY_RUN'' True,
      rc_audit_log_path = env_var env ''NEXUS_ALERT_AUDIT_LOG_PATH'',
      rc_audit_log_max_bytes = env_u64 env ''NEXUS_ALERT_AUDIT_LOG_MAX_BYTES'' (10 * 1024 * 1024),
      rc_audit_log_max_files = env_usize env ''NEXUS_ALERT_AUDIT_LOG_MAX_FILES'' 7,
      rc_audit_log_retention_days = env_u64 env ''NEXUS_ALERT_AUDIT_LOG_RETENTION_DAYS'' 7\<rparr>"

record relay_status =
  rs_status :: string
  rs_dry_run_enabled :: bool
  rs_generic_webhook_configured :: bool
  rs_feishu_webhook_configured :: bool
  rs_wecom_webhook_configured :: bool
  rs_audit_log_path :: "string option"
  rs_audit_log_max_bytes :: u64
  rs_audit_log_max_files :: nat
  rs_audit_log_retention_days :: u64

definition alert_relay_status :: "relay_config \<Rightarrow> relay_status" where
  "alert_relay_status c =
     \<lparr>rs_status = ''ok'', rs_dry_run_enabled = rc_dry_run_enabled c,
      rs_generic_webhook_configured = (rc_generic_webhook_url c \<noteq> None),
      rs_feishu_webhook_configured = (rc_feishu_webhook_url c \<noteq> None),
      rs_wecom_webhook_configured = (rc_wecom_webhook_url c \<noteq> None),
      rs_audit_log_path = rc_audit_log_path c,
      rs_audit_log_max_bytes = rc_audit_log_max_bytes c,
      rs_audit_log_max_files = rc_audit_log_max_files c,
      rs_audit_log_retention_days = rc_audit_log_retention_days c\<rparr>"

section \<open>Alerts and their texts\<close>

text \<open>A JSON value; the members of an object in the order of their keys.\<close>

datatype jvalue =
    JvNull
  | JvBool bool
  | JvNumber string
  | JvString string
  | JvArray "jvalue list"
  | JvObject "(string \<times> jvalue) list"

fun jv_get :: "jvalue \<Rightarrow> string \<Rightarrow> jvalue option" where
  "jv_get (JvObject members) key = map_of members key"
| "jv_get _ key = None"

fun jv_as_str :: "jvalue \<Rightarrow> string option" where
  "jv_as_str (JvString s) = Some s"
| "jv_as_str _ = None"

record alert_payload =
  al_labels :: jvalue
  al_annotations :: jvalue

record alertmanager_payload =
  ap_status :: string
  ap_alerts :: "alert_payload list"

definition label :: "jvalue \<Rightarrow> string \<Rightarrow> string" where
  "label v key = unwrap_or (case jv_get v key of None \<Rightarrow> None | Some x \<Rightarrow> jv_as_str x) ''-''"

abbreviation newline :: string where
  "newline \<equiv> [CHR 0x0A]"

definition alert_line :: "alert_payload \<Rightarrow> string" where
  "alert_line alert =
     ''- '' @ label (al_labels alert) ''alertname'' @ '' severity='' @ label (al_labels alert) ''severity'' @
     '' broker='' @ label (al_labels alert) ''broker'' @ '' queue='' @ label (al_labels alert) ''queue'' @
     '' lane='' @ label (al_labels alert) ''lane'' @ '' '' @ label (al_annotations alert) ''summary''"

definition alert_text :: "alertmanager_payload \<Rightarrow> string" where
  "alert_text p =
     join newline
       ((''[Nexus Alert] status='' @ ap_status p @ '' count='' @ show_nat (length (ap_alerts p))) #
        map alert_line (ap_alerts p))"

definition backquoted :: "string \<Rightarrow> string" where
  "backquoted s = CHR ''`'' # s @ ''`''"

definition alert_markdown_lines :: "alert_payload \<Rightarrow> string list" where
  "alert_markdown_lines alert =
     [''- **'' @ label (al_labels alert) ''alertname'' @ ''**'',
      ''  - severity: '' @ backquoted (label (al_labels alert) ''severity''),
      ''  - broker: '' @ backquoted (label (al_labels alert) ''broker''),
      ''  - queue/lane: '' @ backquoted (label (al_labels alert) ''queue'') @ '' / '' @
        backquoted (label (al_labels alert) ''lane''),
      ''  - summary: '' @ label (al_annotations alert) ''summary'']"

definition alert_markdown :: "alertmanager_payload \<Rightarrow> string" where
  "alert_markdown p =
     join newline
       ([''**Nexus Alert**'', ''> status: '' @ backquoted (ap_status p),
         ''> count: '' @ backquoted (show_nat (length (ap_alerts p))), []] @
        concat (map alert_markdown_lines (ap_alerts p)))"

section \<open>Channels\<close>

datatype channel = ChDryRun | ChGeneric | ChFeishu | ChWecom

fun channel_name :: "channel \<Rightarrow> string" where
  "channel_name ChDryRun = ''dry-run''"
| "channel_name ChGeneric = ''generic''"
| "channel_name ChFeishu = ''feishu''"
| "channel_name ChWecom = ''wecom''"

fun webhook_url :: "relay_config \<Rightarrow> channel \<Rightarrow> string option" where
  "webhook_url c ChDryRun = None"
| "webhook_url c ChGeneric = rc_generic_webhook_url c"
| "webhook_url c ChFeishu = rc_feishu_webhook_url c"
| "webhook_url c ChWecom = rc_wecom_webhook_url c"

definition payload_json :: "alertmanager_payload \<Rightarrow> jvalue" where
  "payload_json p =
     JvObject
       [(''alerts'', JvArray (map (\<lambda>a. JvObject
           [(''annotations'', al_annotations a), (''labels'', al_labels a)]) (ap_alerts p))),
        (''status'', JvString (ap_status p))]"

fun webhook_body :: "channel \<Rightarrow> alertmanager_payload \<Rightarrow> jvalue" where
  "webhook_body ChDryRun p = payload_json p"
| "webhook_body ChGeneric p = payload_json p"
| "webhook_body ChFeishu p =
     JvObject [(''content'', JvObject [(''text'', JvString (alert_text p))]), (''msg_type'', JvString ''text'')]"
| "webhook_body ChWecom p =
     JvObject [(''markdown'', JvObject [(''content'', JvString (alert_markdown p))]),
               (''msgtype'', JvString ''markdown'')]"

section \<open>The audit log\<close>

record audit_record =
  ar_ts_ms :: int
  ar_channel :: string
  ar_status :: string
  ar_alert_count :: nat
  ar_text :: string
  ar_markdown :: string
  ar_payload :: alertmanager_payload

text \<open>Milliseconds since the epoch as an unbounded number (\<^theory_text>\<open>u128\<close>), zero before it.\<close>

definition now_millis :: "system_time \<Rightarrow> int" where
  "now_millis t = (if 0 \<le> t then t div 10 ^ 6 else 0)"

definition audit_record_of :: "system_time \<Rightarrow> channel \<Rightarrow> alertmanager_payload \<Rightarrow> audit_record" where
  "audit_record_of now ch p =
     \<lparr>ar_ts_ms = now_millis now, ar_channel = channel_name ch, ar_status = ap_status p,
      ar_alert_count = length (ap_alerts p), ar_text = alert_text p, ar_markdown = alert_markdown p,
      ar_payload = p\<rparr>"

text \<open>\<^theory_text>\<open>Path::file_name\<close>, \<^theory_text>\<open>file_stem\<close> and \<^theory_text>\<open>extension\<close>: the last dot splits, but not the first character.\<close>

definition path_file_name :: "string \<Rightarrow> string option" where
  "path_file_name p =
     (let name = snd (split_last (trim_right_comps (path_body p)))
      in if name = [] \<or> name = ''..'' then None else Some name)"

definition split_extension :: "string \<Rightarrow> string \<times> string option" where
  "split_extension name =
     (let after = rev (takeWhile (\<lambda>c. c \<noteq> CHR ''.'') (rev name));
          before = take (length name - length after - 1) name
      in if length after = length name \<or> before = [] then (name, None) else (before, Some after))"

record audit_file =
  af_content :: string
  af_modified :: system_time

type_synonym audit_dir = "(string, audit_file) hash_map"

text \<open>What the file system refuses: looking a file up, opening, writing, listing, removing.\<close>

record audit_io =
  ai_create_dir :: bool
  ai_metadata :: bool
  ai_open :: "string \<Rightarrow> bool"
  ai_written :: "string \<Rightarrow> nat"
  ai_read_dir :: bool
  ai_listed :: "string \<Rightarrow> bool"
  ai_modified :: "string \<Rightarrow> bool"
  ai_remove :: "string \<Rightarrow> bool"

definition rotated_name :: "string \<Rightarrow> system_time \<Rightarrow> string" where
  "rotated_name name now =
     (case split_extension name of
        (stem, Some extension) \<Rightarrow> stem @ ''-'' @ show_nat (nat (now_millis now)) @ ''.'' @ extension
      | (stem, None) \<Rightarrow> stem @ ''-'' @ show_nat (nat (now_millis now)))"

definition rotated_audit_log_name ::
    "audit_io \<Rightarrow> system_time \<Rightarrow> string \<Rightarrow> u64 \<Rightarrow> audit_dir \<Rightarrow> string" where
  "rotated_audit_log_name io now name max_bytes dir =
     (case map_of dir name of
        Some f \<Rightarrow>
          if \<not> ai_metadata io \<or> length (af_content f) < unat max_bytes then name
          else rotated_name name now
      | None \<Rightarrow> name)"

definition matches_rotated_audit_file :: "string \<Rightarrow> string \<Rightarrow> string option \<Rightarrow> bool" where
  "matches_rotated_audit_file name stem extension =
     (case split_extension name of
        (file_stem, actual) \<Rightarrow>
          starts_with (stem @ ''-'') file_stem \<and>
          (case (extension, actual) of
             (Some expected, Some actual) \<Rightarrow> actual = expected
           | (None, None) \<Rightarrow> True
           | _ \<Rightarrow> False))"

definition append_line :: "audit_io \<Rightarrow> system_time \<Rightarrow> string \<Rightarrow> string \<Rightarrow> audit_dir \<Rightarrow> audit_dir" where
  "append_line io now target line dir =
     (if \<not> ai_open io target then dir
      else
        let old = (case map_of dir target of None \<Rightarrow> [] | Some f \<Rightarrow> af_content f);
            text = take (ai_written io target) (line @ newline)
        in hm_insert target \<lparr>af_content = old @ text, af_modified = now\<rparr> dir)"

definition remove_files :: "audit_io \<Rightarrow> string list \<Rightarrow> audit_dir \<Rightarrow> audit_dir" where
  "remove_files io names dir = fold (\<lambda>n dir. if ai_remove io n then hm_remove n dir else dir) names dir"

text \<open>\<^theory_text>\<open>retention_days * 24 * 60 * 60\<close> is computed in 64 bits.\<close>

definition audit_cutoff :: "system_time \<Rightarrow> u64 \<Rightarrow> system_time" where
  "audit_cutoff now retention_days =
     (let t = now - secs (uint (retention_days * 24 * 60 * 60))
      in if - (2 ^ 63) \<le> t div 10 ^ 9 then t else 0)"

definition prune_rotated_audit_logs ::
    "audit_io \<Rightarrow> system_time \<Rightarrow> string \<Rightarrow> nat \<Rightarrow> u64 \<Rightarrow> audit_dir \<Rightarrow> audit_dir" where
  "prune_rotated_audit_logs io now name max_files retention_days dir =
     (if max_files = 0 \<and> retention_days = 0 \<or> \<not> ai_read_dir io then dir
      else
        let (stem, extension) = split_extension name;
            rotated = filter (\<lambda>n. ai_listed io n \<and> matches_rotated_audit_file n stem extension) (hm_keys dir);
            expired = filter (\<lambda>n. ai_modified io n \<and>
                        (case map_of dir n of None \<Rightarrow> False
                         | Some f \<Rightarrow> af_modified f < audit_cutoff now retention_days)) rotated;
            dir = (if retention_days = 0 then dir else remove_files io expired dir);
            rotated = (if retention_days = 0 then rotated
                       else filter (\<lambda>n. n \<in> set (hm_keys dir)) rotated)
        in if max_files = 0 \<or> length rotated \<le> max_files then dir
           else remove_files io (take (length rotated - max_files) (sort rotated)) dir)"

text \<open>Three readings of the clock: the record, the name of a new file, the age of the old ones.\<close>

definition write_audit_log ::
    "(audit_record \<Rightarrow> string option) \<Rightarrow> audit_io \<Rightarrow> system_time \<times> system_time \<times> system_time \<Rightarrow>
       relay_config \<Rightarrow> channel \<Rightarrow> alertmanager_payload \<Rightarrow> audit_dir \<Rightarrow> audit_dir" where
  "write_audit_log to_json io clocks c ch p dir =
     (case clocks of (t1, t2, t3) \<Rightarrow>
      case rc_audit_log_path c of
        None \<Rightarrow> dir
      | Some path \<Rightarrow>
          (case to_json (audit_record_of t1 ch p) of
             None \<Rightarrow> dir
           | Some line \<Rightarrow>
               (case path_parent path of
                  None \<Rightarrow> dir
                | Some parent \<Rightarrow>
                    if \<not> ai_create_dir io then dir
                    else (case path_file_name path of
                        None \<Rightarrow> dir
                      | Some name \<Rightarrow>
                          let target = rotated_audit_log_name io t2 name (rc_audit_log_max_bytes c) dir
                          in prune_rotated_audit_logs io t3 name (rc_audit_log_max_files c)
                               (rc_audit_log_retention_days c) (append_line io t2 target line dir)))))"

section \<open>Forwarding\<close>

text \<open>The HTTP client: the status of the answer, or the text of the error.\<close>

record 'w relay_parts =
  rp_send :: "string \<Rightarrow> jvalue \<Rightarrow> 'w \<Rightarrow> (string + u16) \<times> 'w"
  rp_json :: "audit_record \<Rightarrow> string option"
  rp_io :: audit_io
  rp_clock :: "channel \<Rightarrow> system_time \<times> system_time \<times> system_time"

record 'w relay =
  rl_dir :: audit_dir
  rl_net :: 'w

definition audit :: "'w relay_parts \<Rightarrow> relay_config \<Rightarrow> channel \<Rightarrow> alertmanager_payload \<Rightarrow> 'w relay \<Rightarrow> 'w relay" where
  "audit e c ch p s =
     s\<lparr>rl_dir := write_audit_log (rp_json e) (rp_io e) (rp_clock e ch) c ch p (rl_dir s)\<rparr>"

definition forward ::
    "'w relay_parts \<Rightarrow> relay_config \<Rightarrow> channel \<Rightarrow> alertmanager_payload \<Rightarrow> 'w relay \<Rightarrow>
       (string + unit) \<times> 'w relay" where
  "forward e c ch p s =
     (if ch = ChDryRun then (Inr (), audit e c ch p s)
      else case webhook_url c ch of
        None \<Rightarrow> (Inr (), if rc_dry_run_enabled c then audit e c ch p s else s)
      | Some url \<Rightarrow>
          (case rp_send e url (webhook_body ch p) (rl_net s) of
             (Inl err, w) \<Rightarrow> (Inl err, s\<lparr>rl_net := w\<rparr>)
           | (Inr status, w) \<Rightarrow> (Inr (), audit e c ch p (s\<lparr>rl_net := w\<rparr>))))"

text \<open>The answer of a handler: its status code, whether the payload was forwarded, the error.\<close>

type_synonym relay_answer = "nat \<times> bool \<times> string option"

fun respond_forward :: "string + unit \<Rightarrow> relay_answer" where
  "respond_forward (Inr _) = (200, True, None)"
| "respond_forward (Inl err) = (502, False, Some err)"

definition channel_webhook ::
    "'w relay_parts \<Rightarrow> relay_config \<Rightarrow> channel \<Rightarrow> alertmanager_payload \<Rightarrow> 'w relay \<Rightarrow>
       relay_answer \<times> 'w relay" where
  "channel_webhook e c ch p s = (case forward e c ch p s of (r, s) \<Rightarrow> (respond_forward r, s))"

fun fanout_channels ::
    "'w relay_parts \<Rightarrow> relay_config \<Rightarrow> channel list \<Rightarrow> alertmanager_payload \<Rightarrow> 'w relay \<Rightarrow>
       relay_answer \<times> 'w relay" where
  "fanout_channels e c [] p s = ((200, True, None), s)"
| "fanout_channels e c (ch # chs) p s =
     (case forward e c ch p s of
        (Inl _, s) \<Rightarrow> ((502, False, None), s)
      | (Inr _, s) \<Rightarrow> fanout_channels e c chs p s)"

definition fanout_alertmanager ::
    "'w relay_parts \<Rightarrow> relay_config \<Rightarrow> alertmanager_payload \<Rightarrow> 'w relay \<Rightarrow> relay_answer \<times> 'w relay" where
  "fanout_alertmanager e c p s = fanout_channels e c [ChGeneric, ChFeishu, ChWecom] p s"

end
