(* ===== verification/Alert_Relay_Props.thy ===== *)
theory Alert_Relay_Props
  imports Alert_Relay
begin

text \<open>
  The properties of the alert relay: what a fan-out sends, how far the audit log grows, and what
  becomes of its first file.
\<close>

section \<open>What is sent\<close>

text \<open>The reference: post the messages in order until one fails.\<close>

fun post_all ::
    "(string \<Rightarrow> jvalue \<Rightarrow> 'w \<Rightarrow> (string + u16) \<times> 'w) \<Rightarrow> (string \<times> jvalue) list \<Rightarrow> 'w \<Rightarrow> bool \<times> 'w" where
  "post_all send [] w = (True, w)"
| "post_all send ((url, body) # posts) w =
     (case send url body w of
        (Inl _, w) \<Rightarrow> (False, w)
      | (Inr _, w) \<Rightarrow> post_all send posts w)"

definition configured_posts :: "relay_config \<Rightarrow> alertmanager_payload \<Rightarrow> (string \<times> jvalue) list" where
  "configured_posts c p =
     concat (map (\<lambda>ch. case webhook_url c ch of None \<Rightarrow> [] | Some url \<Rightarrow> [(url, webhook_body ch p)])
       [ChGeneric, ChFeishu, ChWecom])"

lemma audit_net [simp]: "rl_net (audit e c ch p s) = rl_net s"
  by (simp add: audit_def)

lemma forward_net:
  assumes "ch \<noteq> ChDryRun"
  shows "(\<not> isl (fst (forward e c ch p s)), rl_net (snd (forward e c ch p s))) =
    (case webhook_url c ch of
       None \<Rightarrow> (True, rl_net s)
     | Some url \<Rightarrow> post_all (rp_send e) [(url, webhook_body ch p)] (rl_net s))"
  using assms by (auto simp: forward_def split: option.splits prod.splits sum.splits)

lemma post_all_append:
  "post_all send (ps @ qs) w = (case post_all send ps w of (ok, w) \<Rightarrow> if ok then post_all send qs w else (False, w))"
  by (induction ps arbitrary: w) (auto split: prod.splits sum.splits)

definition answers_posts :: "relay_answer \<times> 'w relay \<Rightarrow> bool \<times> 'w \<Rightarrow> bool" where
  "answers_posts r q \<longleftrightarrow>
     rl_net (snd r) = snd q \<and> fst r = (if fst q then (200, True, None) else (502, False, None))"

lemma fanout_channels_posts:
  "ChDryRun \<notin> set chs \<Longrightarrow>
     answers_posts (fanout_channels e c chs p s)
       (post_all (rp_send e)
         (concat (map (\<lambda>ch. case webhook_url c ch of None \<Rightarrow> [] | Some url \<Rightarrow> [(url, webhook_body ch p)]) chs))
         (rl_net s))"
proof (induction chs arbitrary: s)
  case (Cons ch chs)
  obtain r s' where f: "forward e c ch p s = (r, s')" by fastforce
  note net = forward_net [of ch e c p s]
  show ?case
    using Cons f net
    by (cases r) (auto simp: post_all_append answers_posts_def split: option.splits prod.splits sum.splits)
qed (simp add: answers_posts_def)

text \<open>C34: A fan-out is the reference over the configured webhooks: it posts the message of each in
  order up to the first that cannot be sent, answers 200 exactly when all were sent, whatever their
  answers say, and neither the dry-run switch nor the audit log changes what is sent.\<close>

theorem fanout_posts_until_one_fails:
  "rl_net (snd (fanout_alertmanager e c p s)) = snd (post_all (rp_send e) (configured_posts c p) (rl_net s)) \<and>
   fst (fanout_alertmanager e c p s) =
     (if fst (post_all (rp_send e) (configured_posts c p) (rl_net s)) then (200, True, None)
      else (502, False, None))"
  using fanout_channels_posts [of "[ChGeneric, ChFeishu, ChWecom]" e c p s]
  by (simp add: fanout_alertmanager_def configured_posts_def answers_posts_def)

section \<open>Names of audit files\<close>




text \<open>The files that pruning considers; the base file is not one of them.\<close>

definition rotated_files :: "string \<Rightarrow> audit_dir \<Rightarrow> string list" where
  "rotated_files name dir =
     filter (\<lambda>n. matches_rotated_audit_file n (fst (split_extension name)) (snd (split_extension name)))
       (hm_keys dir)"


section \<open>Pruning\<close>

lemma hm_remove_filter: "distinct (hm_keys m) \<Longrightarrow> hm_remove k m = filter (\<lambda>x. fst x \<noteq> k) m"
  by (induction k m rule: hm_remove.induct) (auto intro!: filter_True [symmetric])

lemma remove_files_filter:
  "distinct (hm_keys dir) \<Longrightarrow>
     remove_files io ns dir = filter (\<lambda>x. \<not> (fst x \<in> set ns \<and> ai_remove io (fst x))) dir"
proof (induction ns arbitrary: dir)
  case (Cons n ns)
  then show ?case
    by (auto simp: remove_files_def hm_remove_filter distinct_map_filter intro!: filter_cong)
qed (simp add: remove_files_def)

lemma hm_keys_filter: "hm_keys (filter (\<lambda>x. P (fst x)) m) = filter P (hm_keys m)"
  by (simp add: filter_map comp_def)


text \<open>Pruning removes some rotated files and nothing else.\<close>

definition pruned_to :: "string \<Rightarrow> audit_dir \<Rightarrow> audit_dir \<Rightarrow> bool" where
  "pruned_to name dir dir' \<longleftrightarrow>
     (\<exists>P. dir' = filter (\<lambda>x. P (fst x)) dir \<and> (\<forall>n. n \<notin> set (rotated_files name dir) \<longrightarrow> P n))"

lemma pruned_to_refl [simp]: "pruned_to name dir dir"
  unfolding pruned_to_def by (rule exI [where x = "\<lambda>_. True"]) simp


lemma pruned_to_distinct: "pruned_to name dir dir' \<Longrightarrow> distinct (hm_keys dir) \<Longrightarrow> distinct (hm_keys dir')"
  by (auto simp: pruned_to_def hm_keys_filter)

lemma pruned_to_remove:
  assumes "distinct (hm_keys dir)" and "pruned_to name dir dir'" and "set ns \<subseteq> set (rotated_files name dir)"
  shows "pruned_to name dir (remove_files io ns dir')"
proof -
  obtain P where P: "dir' = filter (\<lambda>x. P (fst x)) dir" "\<forall>n. n \<notin> set (rotated_files name dir) \<longrightarrow> P n"
    using assms(2) by (auto simp: pruned_to_def)
  have "remove_files io ns dir' =
      filter (\<lambda>x. (\<lambda>n. P n \<and> \<not> (n \<in> set ns \<and> ai_remove io n)) (fst x)) dir"
    using remove_files_filter [OF pruned_to_distinct [OF assms(2,1)]]
    by (simp add: P(1) conj_commute conj_left_commute)
  then show ?thesis
    unfolding pruned_to_def using P(2) assms(3)
    by (intro exI [where x = "\<lambda>n. P n \<and> \<not> (n \<in> set ns \<and> ai_remove io n)"]) auto
qed

text \<open>Pruning by steps: the expired files, then the oldest of the others.\<close>

definition drop_oldest :: "audit_io \<Rightarrow> nat \<Rightarrow> string list \<Rightarrow> audit_dir \<Rightarrow> audit_dir" where
  "drop_oldest io max_files rotated dir =
     (if max_files = 0 \<or> length rotated \<le> max_files then dir
      else remove_files io (take (length rotated - max_files) (sort rotated)) dir)"

definition drop_expired ::
    "audit_io \<Rightarrow> system_time \<Rightarrow> u64 \<Rightarrow> string list \<Rightarrow> audit_dir \<Rightarrow> audit_dir" where
  "drop_expired io now days rotated dir =
     (if days = 0 then dir
      else remove_files io
        (filter (\<lambda>n. ai_modified io n \<and>
           (case map_of dir n of None \<Rightarrow> False | Some f \<Rightarrow> af_modified f < audit_cutoff now days)) rotated) dir)"

lemma prune_steps:
  "prune_rotated_audit_logs io now name max_files days dir =
     (if max_files = 0 \<and> days = 0 \<or> \<not> ai_read_dir io then dir
      else
        let rotated = filter (ai_listed io) (rotated_files name dir);
            dir' = drop_expired io now days rotated dir
        in drop_oldest io max_files
             (if days = 0 then rotated else filter (\<lambda>n. n \<in> set (hm_keys dir')) rotated) dir')"
proof -
  have "filter (\<lambda>n. ai_listed io n \<and> matches_rotated_audit_file n (fst (split_extension name))
      (snd (split_extension name))) (hm_keys dir) = filter (ai_listed io) (rotated_files name dir)"
    by (simp add: rotated_files_def conj_commute)
  then show ?thesis
    unfolding prune_rotated_audit_logs_def Let_def case_prod_beta
    by (simp add: drop_expired_def drop_oldest_def)
qed

lemma drop_expired_prunes:
  "distinct (hm_keys dir) \<Longrightarrow> set rotated \<subseteq> set (rotated_files name dir) \<Longrightarrow>
     pruned_to name dir (drop_expired io now days rotated dir)"
  by (auto simp: drop_expired_def intro!: pruned_to_remove)

lemma drop_oldest_prunes:
  assumes "distinct (hm_keys dir)" and "pruned_to name dir dir'" and "set rotated \<subseteq> set (rotated_files name dir)"
  shows "pruned_to name dir (drop_oldest io max_files rotated dir')"
proof -
  have "set (take k (sort rotated)) \<subseteq> set (rotated_files name dir)" for k
    using set_take_subset [of k "sort rotated"] assms(3) by auto
  then show ?thesis
    using assms by (simp add: drop_oldest_def pruned_to_remove)
qed

lemma prune_prunes:
  assumes "distinct (hm_keys dir)"
  shows "pruned_to name dir (prune_rotated_audit_logs io now name max_files days dir)"
  unfolding prune_steps Let_def
  by (auto intro!: drop_oldest_prunes drop_expired_prunes assms)

text \<open>With a file system that lists and removes what it is asked to, the number of rotated files is
  at most the one configured.\<close>

lemma rotated_files_filter:
  "rotated_files name (filter (\<lambda>x. P (fst x)) dir) = filter P (rotated_files name dir)"
  by (simp add: rotated_files_def hm_keys_filter conj_commute)

lemma length_filter_notin_take:
  assumes "distinct xs"
  shows "length (filter (\<lambda>x. x \<notin> set (take k (sort xs))) xs) = length xs - k"
proof -
  have "length (filter (\<lambda>x. x \<notin> set (take k (sort xs))) xs) = card (set xs - set (take k (sort xs)))"
    using assms by (simp add: distinct_card [symmetric] set_diff_eq)
  also have "\<dots> = length xs - card (set (take k (sort xs)))"
    using assms set_take_subset [of k "sort xs"]
    by (simp add: card_Diff_subset distinct_card)
  also have "\<dots> = length xs - k"
    using assms distinct_card [of "take k (sort xs)"] by simp
  finally show ?thesis .
qed

definition cooperative :: "audit_io \<Rightarrow> bool" where
  "cooperative io \<longleftrightarrow> ai_read_dir io \<and> (\<forall>n. ai_listed io n \<and> ai_remove io n)"

lemma drop_oldest_bounds:
  assumes "cooperative io" and "distinct (hm_keys dir)" and "0 < max_files"
  shows "length (rotated_files name (drop_oldest io max_files (rotated_files name dir) dir)) \<le> max_files"
proof (cases "length (rotated_files name dir) \<le> max_files")
  case True
  then show ?thesis by (simp add: drop_oldest_def)
next
  case False
  let ?old = "take (length (rotated_files name dir) - max_files) (sort (rotated_files name dir))"
  have "distinct (rotated_files name dir)"
    unfolding rotated_files_def using assms(2) by (rule distinct_filter)
  moreover have "remove_files io ?old dir = filter (\<lambda>x. (\<lambda>n. n \<notin> set ?old) (fst x)) dir"
    using assms(1,2) by (simp add: remove_files_filter cooperative_def)
  ultimately have "length (rotated_files name (remove_files io ?old dir)) = max_files"
    using False rotated_files_filter [where P = "\<lambda>n. n \<notin> set ?old"] by (simp add: length_filter_notin_take)
  then show ?thesis using False assms(3) by (simp add: drop_oldest_def)
qed

lemma rotated_files_pruned:
  assumes "pruned_to name dir dir'"
  shows "rotated_files name dir' = filter (\<lambda>n. n \<in> set (hm_keys dir')) (rotated_files name dir)"
proof -
  obtain P where P: "dir' = filter (\<lambda>x. P (fst x)) dir"
    using assms by (auto simp: pruned_to_def)
  have "n \<in> set (hm_keys dir') \<longleftrightarrow> P n" if "n \<in> set (rotated_files name dir)" for n
    using that by (auto simp: P hm_keys_filter rotated_files_def simp del: set_map)
  then show ?thesis
    unfolding P rotated_files_filter by (auto intro!: filter_cong)
qed

lemma prune_bounds:
  assumes "cooperative io" and "distinct (hm_keys dir)" and "0 < max_files"
  shows "length (rotated_files name (prune_rotated_audit_logs io now name max_files days dir)) \<le> max_files"
proof -
  let ?dir = "drop_expired io now days (rotated_files name dir) dir"
  have listed: "filter (ai_listed io) (rotated_files name dir) = rotated_files name dir"
    using assms(1) by (simp add: cooperative_def)
  have pruned: "pruned_to name dir ?dir"
    using assms(2) by (simp add: drop_expired_prunes)
  have "(if days = 0 then rotated_files name dir
      else filter (\<lambda>n. n \<in> set (hm_keys ?dir)) (rotated_files name dir)) = rotated_files name ?dir"
    using rotated_files_pruned [OF pruned] by (cases "days = 0") (simp_all add: drop_expired_def)
  then have "prune_rotated_audit_logs io now name max_files days dir =
      drop_oldest io max_files (rotated_files name ?dir) ?dir"
    unfolding prune_steps Let_def listed using assms(1,3) by (simp add: cooperative_def)
  then show ?thesis
    using drop_oldest_bounds [OF assms(1) pruned_to_distinct [OF pruned assms(2)] assms(3)] by simp
qed

section \<open>The log over a run\<close>

text \<open>One record: the file system it meets, the clock, the channel and the payload.\<close>

type_synonym audit_step =
  "audit_io \<times> (system_time \<times> system_time \<times> system_time) \<times> channel \<times> alertmanager_payload"

fun audit_step :: "(audit_record \<Rightarrow> string option) \<Rightarrow> relay_config \<Rightarrow> audit_step \<Rightarrow> audit_dir \<Rightarrow> audit_dir" where
  "audit_step to_json c (io, clocks, ch, p) dir = write_audit_log to_json io clocks c ch p dir"

definition audit_base :: "relay_config \<Rightarrow> string option" where
  "audit_base c = (case rc_audit_log_path c of None \<Rightarrow> None | Some path \<Rightarrow> path_file_name path)"

definition writes_audit :: "(audit_record \<Rightarrow> string option) \<Rightarrow> relay_config \<Rightarrow> audit_step \<Rightarrow> bool" where
  "writes_audit to_json c st = (case st of (io, (t1, _, _), ch, p) \<Rightarrow>
     is_some_and (rc_audit_log_path c) (\<lambda>path. path_parent path \<noteq> None) \<and>
     to_json (audit_record_of t1 ch p) \<noteq> None \<and> ai_create_dir io)"

lemma distinct_append_line [simp]: "distinct (hm_keys dir) \<Longrightarrow> distinct (hm_keys (append_line io now n l dir))"
  by (simp add: append_line_def Let_def)


text \<open>A record is one line in the file chosen, then pruning.\<close>

lemma audit_step_cases:
  assumes "audit_base c = Some name"
  obtains (written) io t2 t3 line where "fst st = io" and "writes_audit to_json c st"
      and "audit_step to_json c st dir =
        prune_rotated_audit_logs io t3 name (rc_audit_log_max_files c) (rc_audit_log_retention_days c)
          (append_line io t2 (rotated_audit_log_name io t2 name (rc_audit_log_max_bytes c) dir) line dir)"
    | (skipped) "\<not> writes_audit to_json c st" and "audit_step to_json c st dir = dir"
proof -
  obtain io t1 t2 t3 ch p where fields: "st = (io, (t1, t2, t3), ch, p)" by (metis prod_cases3)
  show thesis
  proof (cases "writes_audit to_json c st")
    case True
    then show thesis
      using fields assms
      by (intro written [of io t3 t2 "the (to_json (audit_record_of t1 ch p))"])
        (auto simp: writes_audit_def write_audit_log_def audit_base_def is_some_and_iff)
  next
    case False
    then show thesis
      using fields assms
      by (intro skipped)
        (auto simp: writes_audit_def write_audit_log_def audit_base_def is_some_and_def split: option.splits)
  qed
qed

lemma audit_step_distinct:
  assumes "audit_base c = Some name" and "distinct (hm_keys dir)"
  shows "distinct (hm_keys (audit_step to_json c st dir))"
  using assms(1)
proof (cases rule: audit_step_cases [where st = st and dir = dir and to_json = to_json])
  case (written io t2 t3 line)
  then show ?thesis
    using pruned_to_distinct [OF prune_prunes] assms(2) by simp
qed (use assms in simp)

lemma audit_step_bounds:
  assumes "audit_base c = Some name" and "distinct (hm_keys dir)" and "0 < rc_audit_log_max_files c"
    and "cooperative (fst st)" and "writes_audit to_json c st"
  shows "length (rotated_files name (audit_step to_json c st dir)) \<le> rc_audit_log_max_files c"
  using assms(1)
proof (cases rule: audit_step_cases [where st = st and dir = dir and to_json = to_json])
  case (written io t2 t3 line)
  then show ?thesis using prune_bounds assms by simp
qed (use assms in simp)




lemma run_distinct:
  "audit_base c = Some name \<Longrightarrow> distinct (hm_keys dir) \<Longrightarrow>
     distinct (hm_keys (fold (audit_step to_json c) steps dir))"
  by (induction steps arbitrary: dir) (simp_all add: audit_step_distinct)

text \<open>C35: When the audit log is configured with a maximum of files that is not zero (zero turns
  pruning by number off), then after any run of it from an empty directory whose last step
  prints its record and makes the directory, and in which the listing of the directory and every
  removal succeed, no more rotated files are left than the maximum, whatever failed in the steps
  before. The path of the log must have a file name.\<close>

theorem audit_log_is_bounded:
  assumes "audit_base c = Some name" and "0 < rc_audit_log_max_files c"
    and "cooperative (fst st)" and "writes_audit to_json c st"
  shows "length (rotated_files name (fold (audit_step to_json c) (steps @ [st]) [])) \<le>
    rc_audit_log_max_files c"
  using audit_step_bounds [OF assms(1) run_distinct [OF assms(1)] assms(2-4)] by simp


section \<open>A small relay\<close>

definition plain_io :: audit_io where
  "plain_io = \<lparr>ai_create_dir = True, ai_metadata = True, ai_open = \<lambda>_. True, ai_written = \<lambda>_. 100,
     ai_read_dir = True, ai_listed = \<lambda>_. True, ai_modified = \<lambda>_. True, ai_remove = \<lambda>_. True\<rparr>"

definition small_relay :: relay_config where
  "small_relay = \<lparr>rc_generic_webhook_url = None, rc_feishu_webhook_url = None, rc_wecom_webhook_url = None,
     rc_dry_run_enabled = True, rc_audit_log_path = Some ''/logs/audit.log'', rc_audit_log_max_bytes = 4,
     rc_audit_log_max_files = 1, rc_audit_log_retention_days = 0\<rparr>"

definition small_step :: "nat \<Rightarrow> audit_step" where
  "small_step t = (plain_io, (int t * 10 ^ 6, int t * 10 ^ 6, int t * 10 ^ 6), ChDryRun,
     \<lparr>ap_status = ''firing'', ap_alerts = []\<rparr>)"

abbreviation small_json :: "audit_record \<Rightarrow> string option" where
  "small_json \<equiv> \<lambda>r. Some (ar_status r)"

lemma small_relay_simps:
  "audit_base small_relay = Some ''audit.log''"
  "cooperative (fst (small_step t))" "ai_metadata (fst (small_step t))"
  "0 < rc_audit_log_max_files small_relay"
proof -
  show "audit_base small_relay = Some ''audit.log''" by code_simp
qed (simp_all add: cooperative_def small_step_def plain_io_def small_relay_def)

lemma small_step_writes: "writes_audit small_json small_relay (small_step t)"
proof -
  have "path_parent ''/logs/audit.log'' \<noteq> None" by code_simp
  then show ?thesis by (simp add: writes_audit_def small_step_def small_relay_def plain_io_def)
qed

theorem audit_log_is_bounded_witness:
  "length (rotated_files ''audit.log''
     (fold (audit_step small_json small_relay) ([small_step 1, small_step 2] @ [small_step 3]) [])) \<le> 1"
  using audit_log_is_bounded [OF small_relay_simps(1,4) small_relay_simps(2) [where t = 3] small_step_writes,
      where steps = "[small_step 1, small_step 2]"]
  by (simp add: small_relay_def)


end
