(* ===== verification/Oj_Postgres.thy ===== *)
theory Oj_Postgres
  imports Oj_Service
begin

text \<open>
  The repositories over Postgres (crates/nexus-oj/src/infrastructure.rs): the statements with the
  values bound to them, the transactions, and what the rows that come back are read as. The database
  client is an argument: \<open>'t\<close> is an open transaction and \<open>'w\<close> the outside with the database in it.
  The texts of the statements are those of the source with one space for every white space.
\<close>

section \<open>The client\<close>

datatype sql_value =
    SqlNull
  | SqlText string
  | SqlInt "32 word"
  | SqlBigInt "64 word"
  | SqlBool bool
  | SqlJson string

type_synonym sql_row = "(string \<times> sql_value) list"

text \<open>
  A transaction that is dropped is rolled back. \<open>pg_column_error\<close> is the text of the error for a
  column that is missing or of another type. A JSON value is given by its text.
\<close>

record ('t, 'w) pg =
  pg_fetch_all :: "string \<Rightarrow> sql_value list \<Rightarrow> 'w \<Rightarrow> (string + sql_row list) \<times> 'w"
  pg_fetch_optional :: "string \<Rightarrow> sql_value list \<Rightarrow> 'w \<Rightarrow> (string + sql_row option) \<times> 'w"
  pg_fetch_scalar :: "string \<Rightarrow> sql_value list \<Rightarrow> 'w \<Rightarrow> (string + 64 word) \<times> 'w"
  pg_execute :: "string \<Rightarrow> sql_value list \<Rightarrow> 'w \<Rightarrow> (string + unit) \<times> 'w"
  pg_begin :: "'w \<Rightarrow> (string + 't) \<times> 'w"
  pg_tx_execute :: "'t \<Rightarrow> string \<Rightarrow> sql_value list \<Rightarrow> 'w \<Rightarrow> (string + unit) \<times> 'w"
  pg_commit :: "'t \<Rightarrow> 'w \<Rightarrow> (string + unit) \<times> 'w"
  pg_rollback :: "'t \<Rightarrow> 'w \<Rightarrow> 'w"
  pg_ulid :: "'w \<Rightarrow> string \<times> 'w"
  pg_column_error :: "string \<Rightarrow> string"
  pj_judge_config :: "judge_config \<Rightarrow> string + string"
  pj_parse_judge_config :: "string \<Rightarrow> string + judge_config"
  pj_easy_config :: "easy_problem_config \<Rightarrow> string + string"
  pj_parse_easy_config :: "string \<Rightarrow> string + easy_problem_config"
  pj_event :: "task_event \<Rightarrow> string + string"
  pj_parse_event :: "string \<Rightarrow> string + task_event"

text \<open>\<^theory_text>\<open>map_err(|err| AppError::Database(err.to_string()))\<close>.\<close>

definition db :: "string + 'a \<Rightarrow> 'a app_result" where
  "db r = (case r of Inl error \<Rightarrow> Inl (Database error) | Inr x \<Rightarrow> Inr x)"

lemma db_simps [simp]: "db (Inl e) = Inl (Database e)" "db (Inr x) = Inr x"
  by (simp_all add: db_def)

definition db_call :: "(string + 'a) \<times> 'w \<Rightarrow> 'a app_result \<times> 'w" where
  "db_call r = (case r of (x, w) \<Rightarrow> (db x, w))"

lemma db_call_Inr_iff: "db_call r = (Inr x, w) \<longleftrightarrow> r = (Inr x, w)"
  by (cases r; cases "fst r") (auto simp: db_call_def)

text \<open>\<^theory_text>\<open>row.try_get(name)\<close> for the types the rows are read as.\<close>

definition column :: "('t, 'w) pg \<Rightarrow> (sql_value \<Rightarrow> 'a option) \<Rightarrow> string \<Rightarrow> sql_row \<Rightarrow> 'a app_result" where
  "column p read name row =
     ok_or (case map_of row name of None \<Rightarrow> None | Some v \<Rightarrow> read v) (Database (pg_column_error p name))"

fun as_text :: "sql_value \<Rightarrow> string option" where
  "as_text (SqlText s) = Some s"
| "as_text _ = None"

fun as_int :: "sql_value \<Rightarrow> 32 word option" where
  "as_int (SqlInt n) = Some n"
| "as_int _ = None"

fun as_bigint :: "sql_value \<Rightarrow> 64 word option" where
  "as_bigint (SqlBigInt n) = Some n"
| "as_bigint _ = None"

fun as_bool :: "sql_value \<Rightarrow> bool option" where
  "as_bool (SqlBool b) = Some b"
| "as_bool _ = None"

fun as_json :: "sql_value \<Rightarrow> string option" where
  "as_json (SqlJson s) = Some s"
| "as_json _ = None"

fun as_option :: "(sql_value \<Rightarrow> 'a option) \<Rightarrow> sql_value \<Rightarrow> 'a option option" where
  "as_option read SqlNull = Some None"
| "as_option read v = map_option Some (read v)"

text \<open>\<^theory_text>\<open>.map(serde_json::from_value).transpose()\<close> and the same for writing.\<close>

definition transpose_json :: "('a \<Rightarrow> string + 'b) \<Rightarrow> 'a option \<Rightarrow> 'b option app_result" where
  "transpose_json f x =
     (case x of None \<Rightarrow> Inr None | Some a \<Rightarrow> and_then (db (f a)) (\<lambda>b. Inr (Some b)))"

definition json_column :: "('t, 'w) pg \<Rightarrow> (string \<Rightarrow> string + 'a) \<Rightarrow> string \<Rightarrow> sql_row \<Rightarrow> 'a option app_result" where
  "json_column p parse name row =
     and_then (column p (as_option as_json) name row) (transpose_json parse)"

definition nullable :: "('a \<Rightarrow> sql_value) \<Rightarrow> 'a option \<Rightarrow> sql_value" where
  "nullable f x = (case x of None \<Rightarrow> SqlNull | Some a \<Rightarrow> f a)"

section \<open>Stored words\<close>

definition parse_judge_mode :: "string \<Rightarrow> judge_mode app_result" where
  "parse_judge_mode v =
     (if v = ''acm'' then Inr ModeAcm
      else if v = ''functional'' then Inr ModeFunctional
      else if v = ''easy_judge'' then Inr ModeEasyJudge
      else Inl (BadRequest (''unsupported judge mode from storage: '' @ v)))"

fun format_judge_mode :: "judge_mode \<Rightarrow> string" where
  "format_judge_mode ModeAcm = ''acm''"
| "format_judge_mode ModeFunctional = ''functional''"
| "format_judge_mode ModeEasyJudge = ''easy_judge''"

definition parse_sandbox_kind :: "string \<Rightarrow> sandbox_kind app_result" where
  "parse_sandbox_kind v =
     (if v = ''nsjail'' then Inr KindNsjail
      else if v = ''wasm'' then Inr KindWasm
      else if v = ''nsjail_wasm'' then Inr KindNsjailWasm
      else Inl (BadRequest (''unsupported sandbox kind from storage: '' @ v)))"

fun format_sandbox_kind :: "sandbox_kind \<Rightarrow> string" where
  "format_sandbox_kind KindNsjail = ''nsjail''"
| "format_sandbox_kind KindWasm = ''wasm''"
| "format_sandbox_kind KindNsjailWasm = ''nsjail_wasm''"

fun format_submission_status :: "submission_status \<Rightarrow> string" where
  "format_submission_status SsPending = ''pending''"
| "format_submission_status SsQueued = ''queued''"
| "format_submission_status SsRunning = ''running''"
| "format_submission_status SsAccepted = ''accepted''"
| "format_submission_status SsWrongAnswer = ''wrong_answer''"
| "format_submission_status SsCompileError = ''compile_error''"
| "format_submission_status SsTimeLimitExceeded = ''time_limit_exceeded''"
| "format_submission_status SsMemoryLimitExceeded = ''memory_limit_exceeded''"
| "format_submission_status SsOutputLimitExceeded = ''output_limit_exceeded''"
| "format_submission_status SsSecurityViolation = ''security_violation''"
| "format_submission_status SsRuntimeError = ''runtime_error''"

definition parse_submission_status :: "string \<Rightarrow> submission_status app_result" where
  "parse_submission_status v =
     (if v = ''pending'' then Inr SsPending
      else if v = ''queued'' then Inr SsQueued
      else if v = ''running'' then Inr SsRunning
      else if v = ''accepted'' then Inr SsAccepted
      else if v = ''wrong_answer'' then Inr SsWrongAnswer
      else if v = ''compile_error'' then Inr SsCompileError
      else if v = ''time_limit_exceeded'' then Inr SsTimeLimitExceeded
      else if v = ''memory_limit_exceeded'' then Inr SsMemoryLimitExceeded
      else if v = ''output_limit_exceeded'' then Inr SsOutputLimitExceeded
      else if v = ''security_violation'' then Inr SsSecurityViolation
      else if v = ''runtime_error'' then Inr SsRuntimeError
      else Inl (BadRequest (''unsupported submission status from storage: '' @ v)))"

fun format_case_status :: "case_final_status \<Rightarrow> string" where
  "format_case_status CsAccepted = ''accepted''"
| "format_case_status CsWrongAnswer = ''wrong_answer''"
| "format_case_status CsTimeLimitExceeded = ''time_limit_exceeded''"
| "format_case_status CsMemoryLimitExceeded = ''memory_limit_exceeded''"
| "format_case_status CsOutputLimitExceeded = ''output_limit_exceeded''"
| "format_case_status CsSecurityViolation = ''security_violation''"
| "format_case_status CsRuntimeError = ''runtime_error''"

definition parse_submission_case_status :: "string \<Rightarrow> submission_case_status app_result" where
  "parse_submission_case_status v =
     (if v = ''accepted'' then Inr ScAccepted
      else if v = ''wrong_answer'' then Inr ScWrongAnswer
      else if v = ''time_limit_exceeded'' then Inr ScTimeLimitExceeded
      else if v = ''memory_limit_exceeded'' then Inr ScMemoryLimitExceeded
      else if v = ''output_limit_exceeded'' then Inr ScOutputLimitExceeded
      else if v = ''security_violation'' then Inr ScSecurityViolation
      else if v = ''runtime_error'' then Inr ScRuntimeError
      else Inl (BadRequest (''unsupported submission case status from storage: '' @ v)))"

section \<open>Statements\<close>

definition sql_list_problems :: string where
  "sql_list_problems =
     ''select problem_id, title, slug, judge_mode from oj.problems order by created_at desc''"

definition sql_find_problem :: string where
  "sql_find_problem =
     ''select problem_id, title, slug, judge_mode, sandbox_kind, statement_md, judge_config, easy_config '' @
     ''from oj.problems where problem_id = $1''"

definition sql_find_limits :: string where
  "sql_find_limits =
     ''select language, time_limit_ms, memory_limit_kb from oj.problem_limits '' @
     ''where problem_id = $1 order by language asc''"

definition sql_find_testcases :: string where
  "sql_find_testcases =
     ''select case_no, input_data, expected_output, is_sample, score from oj.problem_testcases '' @
     ''where problem_id = $1 order by case_no asc''"

definition sql_upsert_problem :: string where
  "sql_upsert_problem =
     ''insert into oj.problems ( problem_id, title, slug, judge_mode, sandbox_kind, statement_md, '' @
     ''judge_config, easy_config ) values ($1, $2, $3, $4, $5, $6, $7, $8) '' @
     ''on conflict (problem_id) do update set title = excluded.title, slug = excluded.slug, '' @
     ''judge_mode = excluded.judge_mode, sandbox_kind = excluded.sandbox_kind, '' @
     ''statement_md = excluded.statement_md, judge_config = excluded.judge_config, '' @
     ''easy_config = excluded.easy_config, updated_at = now()''"

definition sql_delete_limits :: string where
  "sql_delete_limits = ''delete from oj.problem_limits where problem_id = $1''"

definition sql_delete_testcases :: string where
  "sql_delete_testcases = ''delete from oj.problem_testcases where problem_id = $1''"

definition sql_insert_limits :: string where
  "sql_insert_limits =
     ''insert into oj.problem_limits (problem_id, language, time_limit_ms, memory_limit_kb) '' @
     ''values ($1, $2, $3, $4)''"

definition sql_insert_testcase :: string where
  "sql_insert_testcase =
     ''insert into oj.problem_testcases ( problem_id, case_no, input_data, expected_output, '' @
     ''is_sample, score ) values ($1, $2, $3, $4, $5, $6)''"

definition sql_count_problems :: string where
  "sql_count_problems = ''select count(1) from oj.problems where problem_id = $1''"

definition sql_list_submissions :: string where
  "sql_list_submissions =
     ''select submission_id, problem_id, user_id, language, status, score, max_score, result_message '' @
     ''from oj.submissions order by created_at desc''"

definition sql_find_submission :: string where
  "sql_find_submission =
     ''select submission_id, problem_id, user_id, language, status, score, max_score, result_message, '' @
     ''source_code, execution_summary from oj.submissions where submission_id = $1''"

definition sql_find_case_results :: string where
  "sql_find_case_results =
     ''select scr.case_no, scr.score, scr.status, scr.duration_ms, scr.memory_used_kb, '' @
     ''scr.stdout_excerpt, scr.stderr_excerpt, pt.expected_output '' @
     ''from oj.submission_case_results scr '' @
     ''join oj.submissions s on s.submission_id = scr.submission_id '' @
     ''left join oj.problem_testcases pt on pt.problem_id = s.problem_id and pt.case_no = scr.case_no '' @
     ''where scr.submission_id = $1 order by scr.case_no asc''"

definition sql_insert_submission :: string where
  "sql_insert_submission =
     ''insert into oj.submissions ( submission_id, problem_id, user_id, language, source_code, '' @
     ''status ) values ($1, $2, $3, $4, $5, $6)''"

definition sql_insert_direct :: string where
  "sql_insert_direct =
     ''insert into oj.submissions ( submission_id, problem_id, user_id, language, source_code, '' @
     ''status, score, max_score, result_message ) values ($1, $2, $3, $4, $5, $6, $7, $8, $9)''"

definition sql_update_submission :: string where
  "sql_update_submission =
     ''update oj.submissions set status = $2, score = $3, max_score = $4, result_message = $5, '' @
     ''execution_summary = $6, updated_at = now() where submission_id = $1''"

definition sql_delete_case_results :: string where
  "sql_delete_case_results = ''delete from oj.submission_case_results where submission_id = $1''"

definition sql_insert_case_result :: string where
  "sql_insert_case_result =
     ''insert into oj.submission_case_results ( submission_id, case_no, score, status, exit_code, '' @
     ''duration_ms, memory_used_kb, stdout_path, stderr_path, stdout_excerpt, stderr_excerpt ) '' @
     ''values ($1, $2, $3, $4, $5, $6, $7, $8, $9, $10, $11)''"

section \<open>Transactions\<close>

text \<open>The body runs in a transaction that is committed when it succeeds and dropped when it fails.\<close>

definition in_transaction ::
    "('t, 'w) pg \<Rightarrow> ('t \<Rightarrow> 'w \<Rightarrow> unit app_result \<times> 'w) \<Rightarrow> 'w \<Rightarrow> unit app_result \<times> 'w" where
  "in_transaction p body w =
     st_then (db_call (pg_begin p w)) (\<lambda>t w.
       case body t w of
         (Inl e, w) \<Rightarrow> (Inl e, pg_rollback p t w)
       | (Inr _, w) \<Rightarrow> db_call (pg_commit p t w))"

fun execute_all ::
    "('t, 'w) pg \<Rightarrow> 't \<Rightarrow> (string \<times> sql_value list) list \<Rightarrow> 'w \<Rightarrow> unit app_result \<times> 'w" where
  "execute_all p t [] w = (Inr (), w)"
| "execute_all p t ((sql, values) # rest) w =
     st_then (db_call (pg_tx_execute p t sql values w)) (\<lambda>_. execute_all p t rest)"

section \<open>Problems\<close>

definition map_problem_summary :: "('t, 'w) pg \<Rightarrow> sql_row \<Rightarrow> problem_summary app_result" where
  "map_problem_summary p row =
     and_then (column p as_text ''problem_id'' row) (\<lambda>problem_id.
     and_then (column p as_text ''title'' row) (\<lambda>title.
     and_then (column p as_text ''slug'' row) (\<lambda>slug.
     and_then (column p as_text ''judge_mode'' row) (\<lambda>mode.
     and_then (parse_judge_mode mode) (\<lambda>mode.
     Inr \<lparr>pu_problem_id = ProblemId problem_id, pu_title = title, pu_slug = slug, pu_judge_mode = mode\<rparr>)))))"

definition pg_list_summaries :: "('t, 'w) pg \<Rightarrow> 'w \<Rightarrow> problem_summary list app_result \<times> 'w" where
  "pg_list_summaries p w =
     st_then (db_call (pg_fetch_all p sql_list_problems [] w)) (\<lambda>rows w.
       (collect_results (map (map_problem_summary p) rows), w))"

definition map_limits_row :: "('t, 'w) pg \<Rightarrow> sql_row \<Rightarrow> (string \<times> problem_limits) app_result" where
  "map_limits_row p row =
     and_then (column p as_text ''language'' row) (\<lambda>language.
     and_then (column p as_bigint ''time_limit_ms'' row) (\<lambda>time.
     and_then (column p as_bigint ''memory_limit_kb'' row) (\<lambda>memory.
     Inr (language, \<lparr>li_time_limit_ms = time, li_memory_limit_kb = memory\<rparr>))))"

definition map_testcase_row :: "('t, 'w) pg \<Rightarrow> sql_row \<Rightarrow> testcase app_result" where
  "map_testcase_row p row =
     and_then (column p as_int ''case_no'' row) (\<lambda>case_no.
     and_then (column p as_text ''input_data'' row) (\<lambda>input.
     and_then (column p as_text ''expected_output'' row) (\<lambda>expected.
     and_then (column p as_bool ''is_sample'' row) (\<lambda>sample.
     and_then (column p as_int ''score'' row) (\<lambda>score.
     Inr \<lparr>tt_case_no = case_no, tt_input = input, tt_expected_output = expected, tt_is_sample = sample,
          tt_score = score\<rparr>)))))"

definition map_problem_row ::
    "('t, 'w) pg \<Rightarrow> string list \<Rightarrow> (string, problem_limits) btree_map \<Rightarrow> testcase list \<Rightarrow> sql_row \<Rightarrow>
       problem app_result" where
  "map_problem_row p languages limits testcases row =
     and_then (column p as_text ''problem_id'' row) (\<lambda>problem_id.
     and_then (column p as_text ''title'' row) (\<lambda>title.
     and_then (column p as_text ''slug'' row) (\<lambda>slug.
     and_then (column p as_text ''judge_mode'' row) (\<lambda>mode.
     and_then (parse_judge_mode mode) (\<lambda>mode.
     and_then (column p as_text ''sandbox_kind'' row) (\<lambda>kind.
     and_then (parse_sandbox_kind kind) (\<lambda>kind.
     and_then (column p as_text ''statement_md'' row) (\<lambda>statement.
     and_then (json_column p (pj_parse_judge_config p) ''judge_config'' row) (\<lambda>judge_config.
     and_then (json_column p (pj_parse_easy_config p) ''easy_config'' row) (\<lambda>easy_config.
     Inr \<lparr>pb_problem_id = ProblemId problem_id, pb_title = title, pb_slug = slug, pb_judge_mode = mode,
          pb_sandbox_kind = kind, pb_statement_md = statement, pb_supported_languages = languages,
          pb_limits = limits, pb_testcases = testcases, pb_judge_config = judge_config,
          pb_easy_config = easy_config\<rparr>))))))))))"

definition collect_limits :: "(string \<times> problem_limits) list \<Rightarrow> (string, problem_limits) btree_map" where
  "collect_limits entries = fold (\<lambda>(language, limits). bt_insert language limits) entries []"

definition pg_find_detail :: "('t, 'w) pg \<Rightarrow> string \<Rightarrow> 'w \<Rightarrow> problem_detail option app_result \<times> 'w" where
  "pg_find_detail p problem_id w =
     st_then (db_call (pg_fetch_optional p sql_find_problem [SqlText problem_id] w)) (\<lambda>problem_row w.
     case problem_row of
       None \<Rightarrow> (Inr None, w)
     | Some problem_row \<Rightarrow>
         st_then (db_call (pg_fetch_all p sql_find_limits [SqlText problem_id] w)) (\<lambda>limit_rows w.
         st_then (db_call (pg_fetch_all p sql_find_testcases [SqlText problem_id] w)) (\<lambda>testcase_rows w.
         (and_then (collect_results (map (map_limits_row p) limit_rows)) (\<lambda>limits.
          and_then (collect_results (map (map_testcase_row p) testcase_rows)) (\<lambda>testcases.
          and_then (map_problem_row p (map fst limits) (collect_limits limits) testcases problem_row)
            (\<lambda>problem. Inr (Some \<lparr>pd_problem = problem\<rparr>)))), w))))"

definition problem_values :: "('t, 'w) pg \<Rightarrow> problem \<Rightarrow> sql_value list app_result" where
  "problem_values p problem =
     and_then (transpose_json (pj_judge_config p) (pb_judge_config problem)) (\<lambda>judge_config.
     and_then (transpose_json (pj_easy_config p) (pb_easy_config problem)) (\<lambda>easy_config.
     Inr [SqlText (problem_id_0 (pb_problem_id problem)), SqlText (pb_title problem),
          SqlText (pb_slug problem), SqlText (format_judge_mode (pb_judge_mode problem)),
          SqlText (format_sandbox_kind (pb_sandbox_kind problem)), SqlText (pb_statement_md problem),
          nullable SqlJson judge_config, nullable SqlJson easy_config]))"

definition problem_statements :: "problem \<Rightarrow> sql_value list \<Rightarrow> (string \<times> sql_value list) list" where
  "problem_statements problem values =
     (let id = SqlText (problem_id_0 (pb_problem_id problem))
      in [(sql_upsert_problem, values), (sql_delete_limits, [id]), (sql_delete_testcases, [id])] @
         map (\<lambda>(language, limits). (sql_insert_limits,
           [id, SqlText language, SqlBigInt (li_time_limit_ms limits), SqlBigInt (li_memory_limit_kb limits)]))
           (pb_limits problem) @
         map (\<lambda>testcase. (sql_insert_testcase,
           [id, SqlInt (tt_case_no testcase), SqlText (tt_input testcase),
            SqlText (tt_expected_output testcase), SqlBool (tt_is_sample testcase),
            SqlInt (tt_score testcase)]))
           (pb_testcases problem))"

definition pg_save :: "('t, 'w) pg \<Rightarrow> problem \<Rightarrow> 'w \<Rightarrow> unit app_result \<times> 'w" where
  "pg_save p problem =
     in_transaction p (\<lambda>t w.
       st_then (problem_values p problem, w) (\<lambda>values.
         execute_all p t (problem_statements problem values)))"

definition pg_problem_ops :: "('t, 'w) pg \<Rightarrow> 'w problem_repository_ops" where
  "pg_problem_ops p =
     \<lparr>po_list_summaries = \<lambda>w. fst (pg_list_summaries p w),
      po_find_detail = \<lambda>problem_id w. fst (pg_find_detail p problem_id w), po_save = pg_save p\<rparr>"

section \<open>What a submission shows\<close>

definition extract_compile_output :: "task_event \<Rightarrow> string option" where
  "extract_compile_output ev =
     (case te_outcome ev of
        None \<Rightarrow> None
      | Some out \<Rightarrow>
          (case (case eo_judge_compile out of None \<Rightarrow> None | Some st \<Rightarrow> non_empty (so_stderr_excerpt st)) of
             Some s \<Rightarrow> Some s
           | None \<Rightarrow> (case eo_compile out of None \<Rightarrow> None | Some st \<Rightarrow> non_empty (so_stderr_excerpt st))))"

definition extract_runtime_output :: "task_event \<Rightarrow> string option" where
  "extract_runtime_output ev =
     (case te_outcome ev of None \<Rightarrow> None | Some out \<Rightarrow> first_output (eo_cases out))"

definition extract_compile_time_ms :: "task_event \<Rightarrow> u64" where
  "extract_compile_time_ms ev =
     (case te_outcome ev of
        None \<Rightarrow> 0
      | Some out \<Rightarrow> (case eo_compile out of None \<Rightarrow> 0 | Some st \<Rightarrow> ucast (so_duration_ms st)))"

definition extract_judge_compile_time_ms :: "task_event \<Rightarrow> u64" where
  "extract_judge_compile_time_ms ev =
     (case te_outcome ev of
        None \<Rightarrow> 0
      | Some out \<Rightarrow> (case eo_judge_compile out of None \<Rightarrow> 0 | Some st \<Rightarrow> ucast (so_duration_ms st)))"

definition total_case_duration_ms :: "task_event \<Rightarrow> u64" where
  "total_case_duration_ms ev =
     (case te_outcome ev of
        None \<Rightarrow> 0
      | Some out \<Rightarrow> sum_list (map (\<lambda>c. ucast (co_duration_ms c)) (eo_cases out)))"

fun first_case_output :: "submission_case_result list \<Rightarrow> string option" where
  "first_case_output [] = None"
| "first_case_output (c # cs) =
     (case ur_message c of
        Some m \<Rightarrow> Some m
      | None \<Rightarrow> if ur_actual_output c = [] then first_case_output cs else Some (ur_actual_output c))"

definition build_submission_result ::
    "submission_record \<Rightarrow> task_event option \<Rightarrow> submission_case_result list \<Rightarrow> submission_result" where
  "build_submission_result sub summary cases =
     (let time = (case summary of
            Some ev \<Rightarrow> total_case_duration_ms ev | None \<Rightarrow> sum_list (map ur_time_used_ms cases))
      in \<lparr>su_submission_id = sb_submission_id sub, su_overall_status = sb_status sub,
          su_compile_output = (case summary of None \<Rightarrow> None | Some ev \<Rightarrow> extract_compile_output ev),
          su_runtime_output =
            (case (case summary of None \<Rightarrow> None | Some ev \<Rightarrow> extract_runtime_output ev) of
               Some s \<Rightarrow> Some s | None \<Rightarrow> first_case_output cases),
          su_compile_time_ms = (case summary of None \<Rightarrow> 0 | Some ev \<Rightarrow> extract_compile_time_ms ev),
          su_judge_compile_time_ms = (case summary of None \<Rightarrow> 0 | Some ev \<Rightarrow> extract_judge_compile_time_ms ev),
          su_run_time_ms = time, su_time_used_ms = time,
          su_memory_used_kb = foldr max (map ur_memory_used_kb cases) 0,
          su_judge_summary = (case summary of Some ev \<Rightarrow> Some (te_message ev) | None \<Rightarrow> sb_message sub),
          su_case_results = cases\<rparr>)"

section \<open>Submissions\<close>

definition map_submission_record :: "('t, 'w) pg \<Rightarrow> sql_row \<Rightarrow> submission_record app_result" where
  "map_submission_record p row =
     and_then (column p as_text ''submission_id'' row) (\<lambda>submission_id.
     and_then (column p as_text ''problem_id'' row) (\<lambda>problem_id.
     and_then (column p as_text ''user_id'' row) (\<lambda>user_id.
     and_then (column p as_text ''language'' row) (\<lambda>language.
     and_then (column p as_text ''status'' row) (\<lambda>status.
     and_then (parse_submission_status status) (\<lambda>status.
     and_then (column p as_int ''score'' row) (\<lambda>score.
     and_then (column p as_int ''max_score'' row) (\<lambda>max_score.
     and_then (column p (as_option as_text) ''result_message'' row) (\<lambda>message.
     Inr \<lparr>sb_submission_id = SubmissionId submission_id, sb_problem_id = ProblemId problem_id,
          sb_user_id = UserId user_id, sb_language = language, sb_status = status, sb_score = score,
          sb_max_score = max_score, sb_message = message\<rparr>)))))))))"

text \<open>A memory column that cannot be read counts as zero.\<close>

definition map_submission_case_result :: "('t, 'w) pg \<Rightarrow> sql_row \<Rightarrow> submission_case_result app_result" where
  "map_submission_case_result p row =
     and_then (column p as_text ''stderr_excerpt'' row) (\<lambda>stderr.
     and_then (column p as_int ''case_no'' row) (\<lambda>case_no.
     and_then (column p as_text ''status'' row) (\<lambda>status.
     and_then (parse_submission_case_status status) (\<lambda>status.
     and_then (column p as_int ''score'' row) (\<lambda>score.
     and_then (column p as_bigint ''duration_ms'' row) (\<lambda>duration.
     let memory = (case column p as_bigint ''memory_used_kb'' row of Inl _ \<Rightarrow> 0 | Inr n \<Rightarrow> n)
     in and_then (column p as_text ''stdout_excerpt'' row) (\<lambda>stdout.
     and_then (column p (as_option as_text) ''expected_output'' row) (\<lambda>expected.
     Inr \<lparr>ur_case_no = case_no, ur_status = status, ur_score = score, ur_time_used_ms = duration,
          ur_memory_used_kb = memory, ur_actual_output = stdout,
          ur_expected_output_snapshot = unwrap_or expected [], ur_message = non_empty stderr\<rparr>))))))))"

definition pg_validate_submission :: "('t, 'w) pg \<Rightarrow> submission_draft \<Rightarrow> 'w \<Rightarrow> unit app_result \<times> 'w" where
  "pg_validate_submission p draft w =
     (if blank (sd_source_code draft)
      then (Inl (BadRequest ''submission source code cannot be empty''), w)
      else
        let problem_id = problem_id_0 (sd_problem_id draft)
        in st_then (db_call (pg_fetch_scalar p sql_count_problems [SqlText problem_id] w)) (\<lambda>count w.
             if count = 0 then (Inl (NotFound (''problem not found: '' @ problem_id)), w)
             else (Inr (), w)))"

definition pg_list_submissions :: "('t, 'w) pg \<Rightarrow> 'w \<Rightarrow> submission_record list app_result \<times> 'w" where
  "pg_list_submissions p w =
     st_then (db_call (pg_fetch_all p sql_list_submissions [] w)) (\<lambda>rows w.
       (collect_results (map (map_submission_record p) rows), w))"

definition pg_find_submission :: "('t, 'w) pg \<Rightarrow> string \<Rightarrow> 'w \<Rightarrow> submission_detail option app_result \<times> 'w" where
  "pg_find_submission p submission_id w =
     st_then (db_call (pg_fetch_optional p sql_find_submission [SqlText submission_id] w)) (\<lambda>row w.
     case row of
       None \<Rightarrow> (Inr None, w)
     | Some row \<Rightarrow>
         st_then (map_submission_record p row, w) (\<lambda>sub w.
         st_then (db_call (pg_fetch_all p sql_find_case_results [SqlText submission_id] w)) (\<lambda>case_rows w.
         (and_then (collect_results (map (map_submission_case_result p) case_rows)) (\<lambda>cases.
          and_then (json_column p (pj_parse_event p) ''execution_summary'' row) (\<lambda>summary.
          and_then (column p as_text ''source_code'' row) (\<lambda>source.
          Inr (Some \<lparr>sm_submission = sub, sm_source_code = source,
            sm_result = Some (build_submission_result sub summary cases)\<rparr>)))), w))))"

text \<open>The id is a ULID, whatever the clock says.\<close>

definition pg_create_submission ::
    "('t, 'w) pg \<Rightarrow> submission_draft \<Rightarrow> 'w \<Rightarrow> submission_record app_result \<times> 'w" where
  "pg_create_submission p draft w =
     (case pg_ulid p w of (ulid, w) \<Rightarrow>
      let submission_id = ''sub-'' @ ulid
      in st_then (db_call (pg_execute p sql_insert_submission
           [SqlText submission_id, SqlText (problem_id_0 (sd_problem_id draft)),
            SqlText (user_id_0 (sd_user_id draft)), SqlText (sd_language draft),
            SqlText (sd_source_code draft), SqlText ''pending''] w)) (\<lambda>_ w.
         (Inr \<lparr>sb_submission_id = SubmissionId submission_id, sb_problem_id = sd_problem_id draft,
               sb_user_id = sd_user_id draft, sb_language = sd_language draft, sb_status = SsPending,
               sb_score = 0, sb_max_score = 0, sb_message = None\<rparr>, w)))"

definition case_result_values :: "string \<Rightarrow> case_outcome \<Rightarrow> sql_value list" where
  "case_result_values submission_id c =
     [SqlText submission_id, SqlInt (co_case_no c), SqlInt (co_score c),
      SqlText (format_case_status (co_status c)), nullable (\<lambda>n. SqlInt (word_of_int n)) (co_exit_code c),
      SqlBigInt (ucast (co_duration_ms c)), SqlBigInt (co_memory_used_kb c), SqlText (co_stdout_path c),
      SqlText (co_stderr_path c), SqlText (co_stdout_excerpt c), SqlText (co_stderr_excerpt c)]"

definition event_statements :: "string \<Rightarrow> task_event \<Rightarrow> string \<Rightarrow> (string \<times> sql_value list) list" where
  "event_statements submission_id ev summary =
     (case derive_submission_projection ev of (status, score, max_score, message) \<Rightarrow>
        (sql_update_submission,
          [SqlText submission_id, SqlText (format_submission_status status), SqlInt score,
           SqlInt max_score, nullable SqlText message, SqlJson summary]) #
        (case te_outcome ev of
           None \<Rightarrow> []
         | Some out \<Rightarrow>
             (sql_delete_case_results, [SqlText submission_id]) #
             map (\<lambda>c. (sql_insert_case_result, case_result_values submission_id c)) (eo_cases out)))"

definition pg_apply_runtime_event :: "('t, 'w) pg \<Rightarrow> task_event \<Rightarrow> 'w \<Rightarrow> unit app_result \<times> 'w" where
  "pg_apply_runtime_event p ev w =
     (case te_submission_id ev of
        None \<Rightarrow> (Inr (), w)
      | Some submission_id \<Rightarrow>
          st_then (db (pj_event p ev), w) (\<lambda>summary.
            in_transaction p (\<lambda>t. execute_all p t (event_statements submission_id ev summary))))"

definition pg_create_direct_submission ::
    "('t, 'w) pg \<Rightarrow> easy_submission_draft \<Rightarrow> submission_status \<Rightarrow> u32 \<Rightarrow> u32 \<Rightarrow> string option \<Rightarrow> string \<Rightarrow> 'w \<Rightarrow>
       submission_record app_result \<times> 'w" where
  "pg_create_direct_submission p draft status score max_score message stored_answer w =
     (case pg_ulid p w of (ulid, w) \<Rightarrow>
      let submission_id = ''sub-'' @ ulid
      in st_then (db_call (pg_execute p sql_insert_direct
           [SqlText submission_id, SqlText (problem_id_0 (ed_problem_id draft)),
            SqlText (user_id_0 (ed_user_id draft)), SqlText ''easy_judge'', SqlText stored_answer,
            SqlText (format_submission_status status), SqlInt score, SqlInt max_score,
            nullable SqlText message] w)) (\<lambda>_ w.
         (Inr \<lparr>sb_submission_id = SubmissionId submission_id, sb_problem_id = ed_problem_id draft,
               sb_user_id = ed_user_id draft, sb_language = ''easy_judge'', sb_status = status,
               sb_score = score, sb_max_score = max_score, sb_message = message\<rparr>, w)))"

definition pg_submission_ops :: "('t, 'w) pg \<Rightarrow> 'w submission_repository_ops" where
  "pg_submission_ops p =
     \<lparr>ro_validate_submission = \<lambda>draft w. fst (pg_validate_submission p draft w),
      ro_list_submissions = \<lambda>w. fst (pg_list_submissions p w),
      ro_find_submission = \<lambda>submission_id w. fst (pg_find_submission p submission_id w),
      ro_create_submission = \<lambda>_. pg_create_submission p,
      ro_apply_runtime_event = pg_apply_runtime_event p,
      ro_create_direct_submission = \<lambda>_. pg_create_direct_submission p\<rparr>"

end
