(* ===== verification/Oj_Postgres_Props.thy ===== *)
theory Oj_Postgres_Props
  imports Oj_Postgres
begin

text \<open>
  What the repositories over Postgres promise when the database does what SQL says of their
  statements: writes are all or nothing, a saved problem comes back, and a submission shows the
  result of its last event as the repository in memory does.
\<close>

section \<open>Stored words\<close>

lemma parse_format_judge_mode [simp]: "parse_judge_mode (format_judge_mode m) = Inr m"
  by (cases m) (simp_all add: parse_judge_mode_def)

lemma parse_format_sandbox_kind [simp]: "parse_sandbox_kind (format_sandbox_kind k) = Inr k"
  by (cases k) (simp_all add: parse_sandbox_kind_def)

lemma parse_format_submission_status [simp]:
  "parse_submission_status (format_submission_status s) = Inr s"
  by (cases s) (simp_all add: parse_submission_status_def)

lemma parse_format_case_status [simp]:
  "parse_submission_case_status (format_case_status s) = Inr (map_case_status s)"
  by (cases s) (simp_all add: parse_submission_case_status_def)

section \<open>What SQL says of the statements\<close>

text \<open>
  Tables are lists of rows with named columns. A statement that writes gives the tables it leaves,
  or None when a primary key refuses it; a statement that reads gives its rows, in any order but for
  the columns it orders by.
\<close>

record tables =
  tb_problems :: "sql_row list"
  tb_limits :: "sql_row list"
  tb_testcases :: "sql_row list"
  tb_submissions :: "sql_row list"
  tb_case_results :: "sql_row list"

definition has :: "string \<Rightarrow> sql_value \<Rightarrow> sql_row \<Rightarrow> bool" where
  "has name v row \<longleftrightarrow> map_of row name = Some v"

definition insert_row :: "string list \<Rightarrow> sql_row \<Rightarrow> sql_row list \<Rightarrow> sql_row list option" where
  "insert_row keys row rows =
     (if list_ex (\<lambda>r. list_all (\<lambda>k. map_of r k = map_of row k) keys) rows then None else Some (rows @ [row]))"

definition problem_columns :: "string list" where
  "problem_columns = [''problem_id'', ''title'', ''slug'', ''judge_mode'', ''sandbox_kind'', ''statement_md'',
     ''judge_config'', ''easy_config'']"

definition limits_columns :: "string list" where
  "limits_columns = [''problem_id'', ''language'', ''time_limit_ms'', ''memory_limit_kb'']"

definition testcase_columns :: "string list" where
  "testcase_columns = [''problem_id'', ''case_no'', ''input_data'', ''expected_output'', ''is_sample'', ''score'']"

definition update_columns :: "string list" where
  "update_columns = [''submission_id'', ''status'', ''score'', ''max_score'', ''result_message'', ''execution_summary'']"

definition case_result_columns :: "string list" where
  "case_result_columns = [''submission_id'', ''case_no'', ''score'', ''status'', ''exit_code'', ''duration_ms'',
     ''memory_used_kb'', ''stdout_path'', ''stderr_path'', ''stdout_excerpt'', ''stderr_excerpt'']"

text \<open>The rows with the key take the new columns.\<close>

definition update_rows :: "string \<Rightarrow> sql_value \<Rightarrow> sql_row \<Rightarrow> sql_row list \<Rightarrow> sql_row list" where
  "update_rows key v new rows = map (\<lambda>r. if has key v r then new @ r else r) rows"

datatype written =
    UpsertProblem | DeleteLimits | DeleteTestcases | InsertLimits | InsertTestcase
  | UpdateSubmission | DeleteCaseResults | InsertCaseResult

definition statement_of :: "string \<Rightarrow> written option" where
  "statement_of sql = map_of
     [(sql_upsert_problem, UpsertProblem), (sql_delete_limits, DeleteLimits),
      (sql_delete_testcases, DeleteTestcases), (sql_insert_limits, InsertLimits),
      (sql_insert_testcase, InsertTestcase), (sql_update_submission, UpdateSubmission),
      (sql_delete_case_results, DeleteCaseResults), (sql_insert_case_result, InsertCaseResult)] sql"

fun write_tables :: "written \<Rightarrow> sql_value list \<Rightarrow> tables \<Rightarrow> tables option" where
  "write_tables UpsertProblem vs tb =
     (let row = zip problem_columns vs
      in Some (tb\<lparr>tb_problems :=
           (if list_ex (has ''problem_id'' (hd vs)) (tb_problems tb)
            then update_rows ''problem_id'' (hd vs) row (tb_problems tb)
            else tb_problems tb @ [row])\<rparr>))"
| "write_tables DeleteLimits vs tb =
     Some (tb\<lparr>tb_limits := filter (\<lambda>r. \<not> has ''problem_id'' (hd vs) r) (tb_limits tb)\<rparr>)"
| "write_tables DeleteTestcases vs tb =
     Some (tb\<lparr>tb_testcases := filter (\<lambda>r. \<not> has ''problem_id'' (hd vs) r) (tb_testcases tb)\<rparr>)"
| "write_tables InsertLimits vs tb =
     map_option (\<lambda>rows. tb\<lparr>tb_limits := rows\<rparr>)
       (insert_row [''problem_id'', ''language''] (zip limits_columns vs) (tb_limits tb))"
| "write_tables InsertTestcase vs tb =
     map_option (\<lambda>rows. tb\<lparr>tb_testcases := rows\<rparr>)
       (insert_row [''problem_id'', ''case_no''] (zip testcase_columns vs) (tb_testcases tb))"
| "write_tables UpdateSubmission vs tb =
     Some (tb\<lparr>tb_submissions :=
       update_rows ''submission_id'' (hd vs) (zip update_columns vs) (tb_submissions tb)\<rparr>)"
| "write_tables DeleteCaseResults vs tb =
     Some (tb\<lparr>tb_case_results := filter (\<lambda>r. \<not> has ''submission_id'' (hd vs) r) (tb_case_results tb)\<rparr>)"
| "write_tables InsertCaseResult vs tb =
     map_option (\<lambda>rows. tb\<lparr>tb_case_results := rows\<rparr>)
       (insert_row [''submission_id'', ''case_no''] (zip case_result_columns vs) (tb_case_results tb))"

definition run_statement :: "string \<times> sql_value list \<Rightarrow> tables \<Rightarrow> tables option" where
  "run_statement s tb =
     (case statement_of (fst s) of None \<Rightarrow> None | Some k \<Rightarrow> write_tables k (snd s) tb)"

fun run_statements :: "(string \<times> sql_value list) list \<Rightarrow> tables \<Rightarrow> tables option" where
  "run_statements [] tb = Some tb"
| "run_statements (s # ss) tb =
     (case run_statement s tb of None \<Rightarrow> None | Some tb \<Rightarrow> run_statements ss tb)"

text \<open>The case results with the expected output of the test case of the submission's problem.\<close>

definition expected_output_of :: "sql_value \<Rightarrow> sql_row \<Rightarrow> tables \<Rightarrow> sql_value" where
  "expected_output_of sid row tb =
     (case find (has ''submission_id'' sid) (tb_submissions tb) of
        None \<Rightarrow> SqlNull
      | Some s \<Rightarrow>
          (case find (\<lambda>t. map_of t ''problem_id'' = map_of s ''problem_id'' \<and>
                         map_of t ''case_no'' = map_of row ''case_no'') (tb_testcases tb) of
             None \<Rightarrow> SqlNull
           | Some t \<Rightarrow> (case map_of t ''expected_output'' of None \<Rightarrow> SqlNull | Some v \<Rightarrow> v)))"

definition case_rows :: "sql_value \<Rightarrow> tables \<Rightarrow> sql_row list" where
  "case_rows sid tb =
     map (\<lambda>r. (''expected_output'', expected_output_of sid r tb) # r)
       (filter (has ''submission_id'' sid) (tb_case_results tb))"

definition case_key :: "sql_row \<Rightarrow> int" where
  "case_key row = (case map_of row ''case_no'' of Some (SqlInt n) \<Rightarrow> sint n | _ \<Rightarrow> 0)"

definition documented_pg :: "('t, 'w) pg \<Rightarrow> ('w \<Rightarrow> tables) \<Rightarrow> ('t \<Rightarrow> 'w \<Rightarrow> tables) \<Rightarrow> bool" where
  "documented_pg p tables working \<longleftrightarrow>
     (\<forall>sql vs w r w'. pg_fetch_optional p sql vs w = (Inr r, w') \<longrightarrow>
        tables w' = tables w \<and>
        (sql = sql_find_problem \<longrightarrow> r = find (has ''problem_id'' (hd vs)) (tb_problems (tables w))) \<and>
        (sql = sql_find_submission \<longrightarrow> r = find (has ''submission_id'' (hd vs)) (tb_submissions (tables w)))) \<and>
     (\<forall>sql vs w rows w'. pg_fetch_all p sql vs w = (Inr rows, w') \<longrightarrow>
        tables w' = tables w \<and>
        (sql = sql_find_limits \<longrightarrow>
           mset rows = mset (filter (has ''problem_id'' (hd vs)) (tb_limits (tables w)))) \<and>
        (sql = sql_find_testcases \<longrightarrow>
           mset rows = mset (filter (has ''problem_id'' (hd vs)) (tb_testcases (tables w))) \<and>
           sorted (map case_key rows)) \<and>
        (sql = sql_find_case_results \<longrightarrow>
           mset rows = mset (case_rows (hd vs) (tables w)) \<and> sorted (map case_key rows))) \<and>
     (\<forall>w r w'. pg_begin p w = (r, w') \<longrightarrow>
        tables w' = tables w \<and> (\<forall>t. r = Inr t \<longrightarrow> working t w' = tables w)) \<and>
     (\<forall>t sql vs w r w'. pg_tx_execute p t sql vs w = (r, w') \<longrightarrow>
        tables w' = tables w \<and> (r = Inr () \<longrightarrow> run_statement (sql, vs) (working t w) = Some (working t w'))) \<and>
     (\<forall>t w. tables (pg_rollback p t w) = tables w) \<and>
     (\<forall>t w r w'. pg_commit p t w = (r, w') \<longrightarrow>
        tables w' = working t w \<or> r \<noteq> Inr () \<and> tables w' = tables w)"

lemma documented_pgD:
  assumes "documented_pg p tables working"
  shows "pg_fetch_optional p sql vs w = (Inr x, w') \<Longrightarrow> tables w' = tables w"
    and "pg_fetch_optional p sql_find_problem vs w = (Inr x, w') \<Longrightarrow>
      x = find (has ''problem_id'' (hd vs)) (tb_problems (tables w))"
    and "pg_fetch_optional p sql_find_submission vs w = (Inr x, w') \<Longrightarrow>
      x = find (has ''submission_id'' (hd vs)) (tb_submissions (tables w))"
    and "pg_fetch_all p sql vs w = (Inr rows, w') \<Longrightarrow> tables w' = tables w"
    and "pg_fetch_all p sql_find_limits vs w = (Inr rows, w') \<Longrightarrow>
      mset rows = mset (filter (has ''problem_id'' (hd vs)) (tb_limits (tables w)))"
    and "pg_fetch_all p sql_find_testcases vs w = (Inr rows, w') \<Longrightarrow>
      mset rows = mset (filter (has ''problem_id'' (hd vs)) (tb_testcases (tables w))) \<and>
      sorted (map case_key rows)"
    and "pg_fetch_all p sql_find_case_results vs w = (Inr rows, w') \<Longrightarrow>
      mset rows = mset (case_rows (hd vs) (tables w)) \<and> sorted (map case_key rows)"
    and "pg_begin p w = (r, w') \<Longrightarrow> tables w' = tables w"
    and "pg_begin p w = (Inr t, w') \<Longrightarrow> working t w' = tables w"
    and "pg_tx_execute p t sql vs w = (e, w') \<Longrightarrow> tables w' = tables w"
    and "pg_tx_execute p t sql vs w = (Inr (), w') \<Longrightarrow>
      run_statement (sql, vs) (working t w) = Some (working t w')"
    and "tables (pg_rollback p t w) = tables w"
    and "pg_commit p t w = (e, w') \<Longrightarrow> tables w' = working t w \<or> e \<noteq> Inr () \<and> tables w' = tables w"
  using assms unfolding documented_pg_def by auto

section \<open>Transactions\<close>

lemma execute_all_tables:
  assumes "documented_pg p tables working"
  shows "execute_all p t ss w = (r, w') \<Longrightarrow>
    tables w' = tables w \<and> (isl r \<or> run_statements ss (working t w) = Some (working t w'))"
proof (induction ss arbitrary: w)
  case (Cons s ss)
  obtain sql vs where s: "s = (sql, vs)" by fastforce
  obtain x w1 where x: "pg_tx_execute p t sql vs w = (x, w1)" by fastforce
  note step = documented_pgD(10,11) [OF assms]
  show ?case
  proof (cases x)
    case (Inl e)
    then show ?thesis using Cons.prems s x step(1) by (auto simp: db_call_def)
  next
    case (Inr u)
    then show ?thesis
      using Cons.IH [of w1] Cons.prems s x step(1) [OF x] step(2) [of t sql vs w w1]
      by (simp add: db_call_def)
  qed
qed simp

lemma in_transaction_tables:
  assumes "documented_pg p tables working"
    and "in_transaction p (\<lambda>t w. st_then (bound, w) (\<lambda>vs. execute_all p t (statements vs))) w = (r, w')"
  shows "(\<exists>vs tb. bound = Inr vs \<and> run_statements (statements vs) (tables w) = Some tb \<and> tables w' = tb) \<or>
    isl r \<and> tables w' = tables w"
proof -
  obtain x w1 where b: "pg_begin p w = (x, w1)" by fastforce
  show ?thesis
  proof (cases x)
    case (Inl e)
    then show ?thesis
      using assms(2) b documented_pgD(8) [OF assms(1) b] by (auto simp: in_transaction_def db_call_def)
  next
    case t: (Inr t)
    note begun = documented_pgD(8) [OF assms(1) b] documented_pgD(9) [OF assms(1) b [unfolded t]]
    show ?thesis
    proof (cases "st_then (bound, w1) (\<lambda>vs. execute_all p t (statements vs))")
      case body: (Pair y w2)
      then have kept: "tables w2 = tables w1"
        using execute_all_tables [OF assms(1)] by (cases "bound") auto
      show ?thesis
      proof (cases y)
        case (Inl e)
        then show ?thesis
          using assms(2) b t body begun kept documented_pgD(12) [OF assms(1)]
          by (auto simp: in_transaction_def db_call_def)
      next
        case (Inr u)
        then obtain vs where vs: "bound = Inr vs" "execute_all p t (statements vs) w1 = (Inr (), w2)"
          using body by (cases "bound") auto
        have ran: "run_statements (statements vs) (tables w) = Some (working t w2)"
          using execute_all_tables [OF assms(1) vs(2)] begun(2) by simp
        obtain z where z: "pg_commit p t w2 = (z, w')" "r = db z"
          using assms(2) b t body Inr by (cases "pg_commit p t w2") (auto simp: in_transaction_def db_call_def)
        then show ?thesis
          using documented_pgD(13) [OF assms(1) z(1)] vs(1) ran kept begun(1) by (cases z) auto
      qed
    qed
  qed
qed

lemma postgres_event_written:
  assumes "documented_pg p tables working" "te_submission_id ev = Some sid"
    and "pg_apply_runtime_event p ev w = (Inr (), w')"
  shows "\<exists>summary. pj_event p ev = Inr summary \<and>
    run_statements (event_statements sid ev summary) (tables w) = Some (tables w')"
proof (cases "pj_event p ev")
  case (Inr summary)
  then show ?thesis
    using assms in_transaction_tables [OF assms(1), where bound = "Inr summary" and
        statements = "event_statements sid ev"]
    by (fastforce simp: pg_apply_runtime_event_def)
qed (use assms in \<open>simp add: pg_apply_runtime_event_def\<close>)

text \<open>C38: Saving a problem and applying an event are all or nothing: whatever fails, the tables are
  afterwards either as they were or hold everything the operation writes, and the latter when it
  reports success.\<close>

theorem postgres_writes_are_atomic:
  assumes "documented_pg p tables working"
  shows "(case pg_save p problem w of (r, w') \<Rightarrow>
      (\<exists>vs tb. problem_values p problem = Inr vs \<and>
         run_statements (problem_statements problem vs) (tables w) = Some tb \<and> tables w' = tb) \<or>
      isl r \<and> tables w' = tables w) \<and>
    (case (te_submission_id ev, pg_apply_runtime_event p ev w) of
       (None, r, w') \<Rightarrow> r = Inr () \<and> w' = w
     | (Some sid, r, w') \<Rightarrow>
         (\<exists>summary tb. pj_event p ev = Inr summary \<and>
            run_statements (event_statements sid ev summary) (tables w) = Some tb \<and> tables w' = tb) \<or>
         isl r \<and> tables w' = tables w)"
proof -
  have "(\<exists>summary tb. pj_event p ev = Inr summary \<and>
      run_statements (event_statements sid ev summary) (tables w) = Some tb \<and> tables w' = tb) \<or>
      isl r \<and> tables w' = tables w"
    if "te_submission_id ev = Some sid" "pg_apply_runtime_event p ev w = (r, w')" for sid r w'
  proof (cases "pj_event p ev")
    case (Inr summary)
    then show ?thesis
      using that in_transaction_tables [OF assms, where bound = "Inr summary" and
          statements = "event_statements sid ev"]
      by (simp add: pg_apply_runtime_event_def)
  qed (use that in \<open>auto simp: pg_apply_runtime_event_def\<close>)
  then show ?thesis
    using in_transaction_tables [OF assms, where bound = "problem_values p problem" and
        statements = "problem_statements problem"]
    by (auto simp: pg_save_def pg_apply_runtime_event_def split: option.splits prod.splits)
qed

section \<open>Rows that are inserted one after the other\<close>

lemma statement_of_simps [simp]:
  "statement_of sql_upsert_problem = Some UpsertProblem"
  "statement_of sql_delete_limits = Some DeleteLimits"
  "statement_of sql_delete_testcases = Some DeleteTestcases"
  "statement_of sql_insert_limits = Some InsertLimits"
  "statement_of sql_insert_testcase = Some InsertTestcase"
  "statement_of sql_update_submission = Some UpdateSubmission"
  "statement_of sql_delete_case_results = Some DeleteCaseResults"
  "statement_of sql_insert_case_result = Some InsertCaseResult"
  by code_simp+

fun insert_rows :: "string list \<Rightarrow> sql_row list \<Rightarrow> sql_row list \<Rightarrow> sql_row list option" where
  "insert_rows keys [] rows = Some rows"
| "insert_rows keys (r # rs) rows =
     (case insert_row keys r rows of None \<Rightarrow> None | Some rows \<Rightarrow> insert_rows keys rs rows)"

lemma run_inserts:
  "run_statements (map (\<lambda>x. (sql_insert_limits, f x)) xs @ rest) tb =
     (case insert_rows [''problem_id'', ''language''] (map (\<lambda>x. zip limits_columns (f x)) xs) (tb_limits tb) of
        None \<Rightarrow> None | Some rows \<Rightarrow> run_statements rest (tb\<lparr>tb_limits := rows\<rparr>))"
  "run_statements (map (\<lambda>x. (sql_insert_testcase, g x)) ys) tb =
     map_option (\<lambda>rows. tb\<lparr>tb_testcases := rows\<rparr>)
       (insert_rows [''problem_id'', ''case_no''] (map (\<lambda>x. zip testcase_columns (g x)) ys) (tb_testcases tb))"
  "run_statements (map (\<lambda>x. (sql_insert_case_result, h x)) zs) tb =
     map_option (\<lambda>rows. tb\<lparr>tb_case_results := rows\<rparr>)
       (insert_rows [''submission_id'', ''case_no''] (map (\<lambda>x. zip case_result_columns (h x)) zs)
         (tb_case_results tb))"
proof (induction xs arbitrary: tb)
  case Nil
  case 1
  then show ?case by simp
next
  case Nil
  case 2
  show ?case
    by (induction ys arbitrary: tb) (simp_all add: run_statement_def split: option.splits)
next
  case Nil
  case 3
  show ?case
    by (induction zs arbitrary: tb) (simp_all add: run_statement_def split: option.splits)
next
  case (Cons x xs)
  {
    case 1
    then show ?case using Cons by (simp add: run_statement_def split: option.splits)
  next
    case 2
    then show ?case using Cons by simp
  next
    case 3
    then show ?case using Cons by simp
  }
qed

lemma insert_row_Some_iff:
  "insert_row keys r rows = Some rows' \<longleftrightarrow>
     rows' = rows @ [r] \<and> map (map_of r) keys \<notin> (\<lambda>r. map (map_of r) keys) ` set rows"
proof -
  have "list_ex (\<lambda>q. list_all (\<lambda>k. map_of q k = map_of r k) keys) rows \<longleftrightarrow>
      map (map_of r) keys \<in> (\<lambda>r. map (map_of r) keys) ` set rows"
    by (induction rows) (auto simp: list_all_iff)
  then show ?thesis by (auto simp: insert_row_def)
qed

lemma insert_rows_Some:
  "insert_rows keys rs rows = Some rows' \<Longrightarrow>
     rows' = rows @ rs \<and> distinct (map (\<lambda>r. map (map_of r) keys) rs)"
proof -
  have "insert_rows keys rs rows = Some rows' \<Longrightarrow>
      rows' = rows @ rs \<and> distinct (map (\<lambda>r. map (map_of r) keys) rs) \<and>
      (\<lambda>r. map (map_of r) keys) ` set rs \<inter> (\<lambda>r. map (map_of r) keys) ` set rows = {}"
  proof (induction rs arbitrary: rows)
    case (Cons r rs)
    then obtain rows1 where "insert_row keys r rows = Some rows1" "insert_rows keys rs rows1 = Some rows'"
      by (auto split: option.splits)
    then show ?case
      using Cons.IH [of rows1] by (auto simp: insert_row_Some_iff)
  qed simp
  then show "insert_rows keys rs rows = Some rows' \<Longrightarrow> ?thesis" by blast
qed

text \<open>A list that is a permutation of mapped values is the mapped list of a permutation.\<close>

lemma mset_map_eq:
  "mset ys = mset (map f xs) \<Longrightarrow> \<exists>zs. mset zs = mset xs \<and> ys = map f zs"
proof (induction ys arbitrary: xs)
  case (Cons y ys)
  have "y \<in> set (map f xs)" using mset_eq_setD [OF Cons.prems] by auto
  then obtain x where x: "x \<in> set xs" "y = f x" by auto
  obtain as bs where "xs = as @ x # bs" using split_list [OF x(1)] by blast
  then have m: "mset xs = add_mset x (mset (as @ bs))" by simp
  have "add_mset y (mset ys) = image_mset f (mset xs)" using Cons.prems by simp
  then have "mset ys = mset (map f (as @ bs))" using x(2) by (simp add: m)
  then obtain zs where "mset zs = mset (as @ bs)" "ys = map f zs"
    using Cons.IH [of "as @ bs"] by auto
  then have "mset (x # zs) = mset xs" "y # ys = map f (x # zs)"
    using x(2) m by (simp_all only: mset.simps list.map)
  then show ?case by (intro exI [of _ "x # zs"] conjI)
qed simp

section \<open>Problems\<close>

definition limits_row :: "string \<Rightarrow> string \<times> problem_limits \<Rightarrow> sql_row" where
  "limits_row pid entry = zip limits_columns
     [SqlText pid, SqlText (fst entry), SqlBigInt (li_time_limit_ms (snd entry)),
      SqlBigInt (li_memory_limit_kb (snd entry))]"

definition testcase_row :: "string \<Rightarrow> testcase \<Rightarrow> sql_row" where
  "testcase_row pid t = zip testcase_columns
     [SqlText pid, SqlInt (tt_case_no t), SqlText (tt_input t), SqlText (tt_expected_output t),
      SqlBool (tt_is_sample t), SqlInt (tt_score t)]"

lemma map_limits_row_simp [simp]: "map_limits_row p (limits_row pid e) = Inr e"
  by (cases e) (simp add: map_limits_row_def limits_row_def limits_columns_def column_def ok_or_def)

lemma map_testcase_row_simp [simp]: "map_testcase_row p (testcase_row pid t) = Inr t"
  by (simp add: map_testcase_row_def testcase_row_def testcase_columns_def column_def ok_or_def)

lemma has_id [simp]:
  "has ''problem_id'' (SqlText pid) (limits_row pid e)" "has ''problem_id'' (SqlText pid) (testcase_row pid t)"
  by (simp_all add: has_def limits_row_def limits_columns_def testcase_row_def testcase_columns_def)

lemma case_key_testcase [simp]: "case_key (testcase_row pid t) = sint (tt_case_no t)"
  by (simp add: case_key_def testcase_row_def testcase_columns_def)


text \<open>What a saved problem leaves in the tables.\<close>

lemma find_upserted:
  assumes "has k v new"
  shows "\<exists>ext. find (has k v)
    (if list_ex (has k v) rows then update_rows k v new rows else rows @ [new]) = Some (new @ ext)"
proof -
  have new: "has k v (new @ r)" for r
    using assms by (simp add: has_def map_add_Some_iff)
  have "find (has k v) (rows @ [new]) = Some (new @ [])" if "\<not> list_ex (has k v) rows"
    using that assms by (induction rows) auto
  moreover have "\<exists>ext. find (has k v) (update_rows k v new rows) = Some (new @ ext)"
    if "list_ex (has k v) rows"
    using that new by (induction rows) (auto simp: update_rows_def)
  ultimately show ?thesis by (auto simp del: append_Nil2)
qed

lemma filter_inserted:
  assumes "\<And>x. has k v (f x)"
  shows "filter (has k v) (filter (\<lambda>r. \<not> has k v r) rows @ map f xs) = map f xs"
  using assms by (simp add: filter_map comp_def)

lemma problem_statements_run:
  assumes "run_statements (problem_statements problem vs) tb = Some tb'"
  defines "pid \<equiv> problem_id_0 (pb_problem_id problem)"
  shows "tb_problems tb' = (let row = zip problem_columns vs in
      if list_ex (has ''problem_id'' (hd vs)) (tb_problems tb)
      then update_rows ''problem_id'' (hd vs) row (tb_problems tb) else tb_problems tb @ [row])"
    and "filter (has ''problem_id'' (SqlText pid)) (tb_limits tb') = map (limits_row pid) (pb_limits problem)"
    and "filter (has ''problem_id'' (SqlText pid)) (tb_testcases tb') =
      map (testcase_row pid) (pb_testcases problem)"
    and "distinct (map tt_case_no (pb_testcases problem))"
proof -
  have l: "map (\<lambda>x. zip limits_columns (case x of (language, limits) \<Rightarrow>
      [SqlText pid, SqlText language, SqlBigInt (li_time_limit_ms limits),
       SqlBigInt (li_memory_limit_kb limits)])) xs = map (limits_row pid) xs" for xs
    by (auto simp: limits_row_def)
  have t: "map (\<lambda>x. zip testcase_columns
      [SqlText pid, SqlInt (tt_case_no x), SqlText (tt_input x), SqlText (tt_expected_output x),
       SqlBool (tt_is_sample x), SqlInt (tt_score x)]) xs = map (testcase_row pid) xs" for xs
    by (auto simp: testcase_row_def)
  have split: "map (\<lambda>(language, limits). (sql_insert_limits, g language limits)) xs =
      map (\<lambda>x. (sql_insert_limits, case x of (language, limits) \<Rightarrow> g language limits)) xs"
    for g :: "string \<Rightarrow> problem_limits \<Rightarrow> sql_value list" and xs
    by auto
  obtain rows rows' where rows:
    "insert_rows [''problem_id'', ''language''] (map (limits_row pid) (pb_limits problem))
       (filter (\<lambda>r. \<not> has ''problem_id'' (SqlText pid) r) (tb_limits tb)) = Some rows"
    "insert_rows [''problem_id'', ''case_no''] (map (testcase_row pid) (pb_testcases problem))
       (filter (\<lambda>r. \<not> has ''problem_id'' (SqlText pid) r) (tb_testcases tb)) = Some rows'"
    and tb': "tb_limits tb' = rows" "tb_testcases tb' = rows'"
      "tb_problems tb' = (let row = zip problem_columns vs in
        if list_ex (has ''problem_id'' (hd vs)) (tb_problems tb)
        then update_rows ''problem_id'' (hd vs) row (tb_problems tb) else tb_problems tb @ [row])"
    using assms(1) unfolding problem_statements_def Let_def split
    by (auto simp: run_statement_def run_inserts l t pid_def [symmetric] Let_def
        simp del: list.map split: option.splits)
  note inserted = insert_rows_Some [OF rows(1)] insert_rows_Some [OF rows(2)]
  show "filter (has ''problem_id'' (SqlText pid)) (tb_limits tb') = map (limits_row pid) (pb_limits problem)"
    "filter (has ''problem_id'' (SqlText pid)) (tb_testcases tb') =
      map (testcase_row pid) (pb_testcases problem)"
    using inserted tb' by (simp_all add: filter_inserted)
  have "distinct (map (\<lambda>t. map (map_of (testcase_row pid t)) [''problem_id'', ''case_no'']) (pb_testcases problem))"
    using inserted by (simp add: comp_def)
  then show "distinct (map tt_case_no (pb_testcases problem))"
    by (simp add: testcase_row_def testcase_columns_def distinct_map inj_on_def)
  show "tb_problems tb' = (let row = zip problem_columns vs in
      if list_ex (has ''problem_id'' (hd vs)) (tb_problems tb)
      then update_rows ''problem_id'' (hd vs) row (tb_problems tb) else tb_problems tb @ [row])"
    by (rule tb'(3))
qed


definition faithful :: "('a \<Rightarrow> string + string) \<Rightarrow> (string \<Rightarrow> string + 'a) \<Rightarrow> bool" where
  "faithful write parse \<longleftrightarrow> (\<forall>x s. write x = Inr s \<longrightarrow> parse s = Inr x)"

lemma json_column_nullable:
  assumes "faithful write parse" "transpose_json write x = Inr s"
    and "map_of row name = Some (nullable SqlJson s)"
  shows "json_column p parse name row = Inr x"
proof (cases x)
  case None
  then show ?thesis
    using assms by (auto simp: transpose_json_def json_column_def column_def ok_or_def nullable_def)
next
  case (Some a)
  then obtain t where t: "write a = Inr t" "s = Some t"
    using assms(2) by (cases "write a") (auto simp: transpose_json_def)
  then have "parse t = Inr a" using assms(1) by (simp add: faithful_def)
  then show ?thesis
    using assms(3) t Some by (simp add: transpose_json_def json_column_def column_def ok_or_def nullable_def)
qed

text \<open>What the parser reads from what the serializer wrote for an optional value.\<close>

definition read_back ::
    "('a \<Rightarrow> string + string) \<Rightarrow> (string \<Rightarrow> string + 'a) \<Rightarrow> 'a option \<Rightarrow> 'a option \<Rightarrow> bool" where
  "read_back write parse x y \<longleftrightarrow>
     (case x of
        None \<Rightarrow> y = None
      | Some a \<Rightarrow>
          (case write a of
             Inl _ \<Rightarrow> False
           | Inr s \<Rightarrow> (case parse s of Inl _ \<Rightarrow> False | Inr b \<Rightarrow> y = Some b)))"

lemma json_column_reads_back:
  assumes "transpose_json write x = Inr s" and "map_of row name = Some (nullable SqlJson s)"
    and "json_column p parse name row = Inr y"
  shows "read_back write parse x y"
  using assms
  by (cases x) (auto simp: read_back_def transpose_json_def json_column_def column_def ok_or_def
      nullable_def and_then_def split: sum.splits)

lemma map_problem_row_values:
  assumes "problem_values p problem = Inr vs"
  shows "map_problem_row p languages limits testcases (zip problem_columns vs @ ext) = Inr problem' \<Longrightarrow>
      \<exists>judge easy. read_back (pj_judge_config p) (pj_parse_judge_config p) (pb_judge_config problem) judge \<and>
        read_back (pj_easy_config p) (pj_parse_easy_config p) (pb_easy_config problem) easy \<and>
        problem' = problem\<lparr>pb_supported_languages := languages, pb_limits := limits,
          pb_testcases := testcases, pb_judge_config := judge, pb_easy_config := easy\<rparr>"
    and "hd vs = SqlText (problem_id_0 (pb_problem_id problem))"
    and "has ''problem_id'' (hd vs) (zip problem_columns vs)"
proof -
  obtain j e where json: "transpose_json (pj_judge_config p) (pb_judge_config problem) = Inr j"
      "transpose_json (pj_easy_config p) (pb_easy_config problem) = Inr e"
    and vs: "vs = [SqlText (problem_id_0 (pb_problem_id problem)), SqlText (pb_title problem),
          SqlText (pb_slug problem), SqlText (format_judge_mode (pb_judge_mode problem)),
          SqlText (format_sandbox_kind (pb_sandbox_kind problem)), SqlText (pb_statement_md problem),
          nullable SqlJson j, nullable SqlJson e]"
    using assms(1) by (auto simp: problem_values_def and_then_Inr_iff)
  let ?row = "zip problem_columns vs @ ext"
  have cols: "map_of ?row ''judge_config'' = Some (nullable SqlJson j)"
    "map_of ?row ''easy_config'' = Some (nullable SqlJson e)"
    by (simp_all add: vs problem_columns_def)
  assume "map_problem_row p languages limits testcases ?row = Inr problem'"
  then obtain judge easy where
    read: "json_column p (pj_parse_judge_config p) ''judge_config'' ?row = Inr judge"
      "json_column p (pj_parse_easy_config p) ''easy_config'' ?row = Inr easy"
    and p': "problem' = problem\<lparr>pb_supported_languages := languages, pb_limits := limits,
          pb_testcases := testcases, pb_judge_config := judge, pb_easy_config := easy\<rparr>"
    by (auto simp: vs problem_columns_def map_problem_row_def column_def ok_or_def and_then_Inr_iff)
  show "\<exists>judge easy. read_back (pj_judge_config p) (pj_parse_judge_config p) (pb_judge_config problem) judge \<and>
        read_back (pj_easy_config p) (pj_parse_easy_config p) (pb_easy_config problem) easy \<and>
        problem' = problem\<lparr>pb_supported_languages := languages, pb_limits := limits,
          pb_testcases := testcases, pb_judge_config := judge, pb_easy_config := easy\<rparr>"
    using p' json_column_reads_back [OF json(1) cols(1) read(1)]
      json_column_reads_back [OF json(2) cols(2) read(2)] by blast
next
  show "hd vs = SqlText (problem_id_0 (pb_problem_id problem))"
    "has ''problem_id'' (hd vs) (zip problem_columns vs)"
    using assms(1) by (auto simp: problem_values_def and_then_Inr_iff has_def problem_columns_def)
qed

lemma collect_limits_permutation:
  assumes "sorted_wrt (<) (hm_keys limits)" "mset entries = mset limits"
  shows "collect_limits entries = limits"
proof -
  have "sorted_wrt (<) (hm_keys (fold (\<lambda>(k, v). bt_insert k v) es acc)) \<and>
      mset (fold (\<lambda>(k, v). bt_insert k v) es acc) = mset es + mset acc"
    if "sorted_wrt (<) (hm_keys acc)" "distinct (map fst (es @ acc))"
    for es acc :: "(string \<times> problem_limits) list"
    using that
  proof (induction es arbitrary: acc)
    case (Cons e es)
    obtain k v where e: "e = (k, v)" by fastforce
    have "mset (bt_insert k v acc) = add_mset (k, v) (mset acc)"
      using Cons.prems(2) by (intro mset_bt_insert_new) (auto simp: e)
    moreover from this have "mset (map fst (es @ bt_insert k v acc)) = mset (map fst ((e # es) @ acc))"
      by (simp add: e)
    then have "distinct (map fst (es @ bt_insert k v acc))"
      using Cons.prems(2) mset_eq_imp_distinct_iff by blast
    ultimately show ?case
      using Cons.IH [of "bt_insert k v acc"] sorted_bt_insert [OF Cons.prems(1)] e by simp
  qed simp
  from this [of "[]" entries]
  have c: "sorted_wrt (<) (hm_keys (collect_limits entries))" "mset (collect_limits entries) = mset limits"
    using assms mset_eq_imp_distinct_iff [of "map fst entries" "map fst limits"]
    by (auto simp: collect_limits_def strict_sorted_iff mset_map)
  then show ?thesis
    using assms(1) by (intro map_sorted_distinct_set_unique [of fst])
      (auto simp: strict_sorted_iff distinct_map dest: mset_eq_setD)
qed


lemma sorted_permutation:
  assumes "mset ys = mset xs" "sorted (map key ys)" "distinct (map key xs)"
  shows "ys = sort_key key xs"
  using assms by (intro sort_key_inj_key_eq [symmetric]) (auto simp: distinct_map)

definition detail_of ::
    "('t, 'w) pg \<Rightarrow> sql_row \<Rightarrow> sql_row list \<Rightarrow> sql_row list \<Rightarrow> problem_detail option app_result" where
  "detail_of p row limit_rows test_rows =
     and_then (collect_results (map (map_limits_row p) limit_rows)) (\<lambda>limits.
     and_then (collect_results (map (map_testcase_row p) test_rows)) (\<lambda>testcases.
     and_then (map_problem_row p (map fst limits) (collect_limits limits) testcases row)
       (\<lambda>problem. Inr (Some \<lparr>pd_problem = problem\<rparr>))))"

lemma pg_find_detail_Inr:
  assumes "pg_find_detail p pid w = (Inr found, w')"
    and "\<And>row w'. pg_fetch_optional p sql_find_problem [SqlText pid] w = (Inr row, w') \<Longrightarrow> row = Some r"
  obtains wa wb limit_rows test_rows where
    "pg_fetch_optional p sql_find_problem [SqlText pid] w = (Inr (Some r), wa)"
    "pg_fetch_all p sql_find_limits [SqlText pid] wa = (Inr limit_rows, wb)"
    "pg_fetch_all p sql_find_testcases [SqlText pid] wb = (Inr test_rows, w')"
    "detail_of p r limit_rows test_rows = Inr found"
proof -
  obtain row wa where row: "pg_fetch_optional p sql_find_problem [SqlText pid] w = (Inr row, wa)"
    using assms(1) by (auto simp only: pg_find_detail_def st_then_Inr_iff db_call_Inr_iff)
  note r = row [unfolded assms(2) [OF row]]
  have "st_then (db_call (pg_fetch_all p sql_find_limits [SqlText pid] wa)) (\<lambda>limit_rows w.
         st_then (db_call (pg_fetch_all p sql_find_testcases [SqlText pid] w)) (\<lambda>test_rows w.
         (detail_of p r limit_rows test_rows, w))) = (Inr found, w')"
    using assms(1) unfolding pg_find_detail_def detail_of_def by (simp add: r db_call_def)
  then show thesis
    using that [OF r] by (auto simp only: st_then_Inr_iff db_call_Inr_iff prod.inject)
qed

text \<open>C36: What is saved comes back, but for its list of languages: when the database does what SQL
  says, the map of limits is sorted as a \<open>BTreeMap\<close> is, a save succeeded and the find that follows
  it succeeds, the problem is found. It has every field it was saved with, except that its supported
  languages are those that have limits, in some order, whatever list it was saved with; that its
  test cases are in the order of their numbers; and that its judge and easy configurations are what
  the JSON parser reads from what the JSON printer wrote for them.\<close>

theorem saved_problems_come_back:
  assumes "documented_pg p tables working"
    and "sorted_wrt (<) (hm_keys (pb_limits problem))"
    and "pg_save p problem w = (Inr (), w1)"
    and "pg_find_detail p (problem_id_0 (pb_problem_id problem)) w1 = (Inr found, w2)"
  shows "\<exists>languages judge easy. mset languages = mset (hm_keys (pb_limits problem)) \<and>
    read_back (pj_judge_config p) (pj_parse_judge_config p) (pb_judge_config problem) judge \<and>
    read_back (pj_easy_config p) (pj_parse_easy_config p) (pb_easy_config problem) easy \<and>
    found = Some \<lparr>pd_problem = problem\<lparr>pb_supported_languages := languages,
      pb_testcases := sort_key (sint \<circ> tt_case_no) (pb_testcases problem),
      pb_judge_config := judge, pb_easy_config := easy\<rparr>\<rparr>"
proof -
  let ?pid = "problem_id_0 (pb_problem_id problem)"
  obtain vs where vs: "problem_values p problem = Inr vs"
    and ran: "run_statements (problem_statements problem vs) (tables w) = Some (tables w1)"
    using in_transaction_tables [OF assms(1) assms(3) [unfolded pg_save_def]] by auto
  note stored = problem_statements_run [OF ran] and row = map_problem_row_values [OF vs]
  obtain ext where up: "find (has ''problem_id'' (SqlText ?pid)) (tb_problems (tables w1)) =
      Some (zip problem_columns vs @ ext)"
    using find_upserted [OF row(3), of "tb_problems (tables w)"] stored(1) row(2) by (auto simp: Let_def)
  obtain wa wb limit_rows test_rows where calls:
    "pg_fetch_optional p sql_find_problem [SqlText ?pid] w1 = (Inr (Some (zip problem_columns vs @ ext)), wa)"
    "pg_fetch_all p sql_find_limits [SqlText ?pid] wa = (Inr limit_rows, wb)"
    "pg_fetch_all p sql_find_testcases [SqlText ?pid] wb = (Inr test_rows, w2)"
    and found: "detail_of p (zip problem_columns vs @ ext) limit_rows test_rows = Inr found"
    using assms(4) by (rule pg_find_detail_Inr) (auto dest: documented_pgD(2) [OF assms(1)] simp: up)
  have same: "tables wa = tables w1" "tables wb = tables w1"
    using documented_pgD(1) [OF assms(1) calls(1)] documented_pgD(4) [OF assms(1) calls(2)] by simp_all
  obtain entries where entries: "mset entries = mset (pb_limits problem)" "limit_rows = map (limits_row ?pid) entries"
    using documented_pgD(5) [OF assms(1) calls(2)] same stored(2)
      mset_map_eq [of limit_rows "limits_row ?pid" "pb_limits problem"] by auto
  obtain cases where cases: "mset cases = mset (pb_testcases problem)" "test_rows = map (testcase_row ?pid) cases"
    "sorted (map (sint \<circ> tt_case_no) cases)"
    using documented_pgD(6) [OF assms(1) calls(3)] same stored(3)
      mset_map_eq [of test_rows "testcase_row ?pid" "pb_testcases problem"]
    by (auto simp: comp_def)
  have "collect_results (map (map_limits_row p) limit_rows) = Inr entries"
    "collect_results (map (map_testcase_row p) test_rows) = Inr cases"
    by (simp_all add: collect_results_Inr entries cases comp_def)
  moreover have "collect_limits entries = pb_limits problem"
    using assms(2) entries(1) by (rule collect_limits_permutation)
  moreover have "cases = sort_key (sint \<circ> tt_case_no) (pb_testcases problem)"
    using cases stored(4) by (intro sorted_permutation) (auto simp: distinct_map inj_on_def dest!: signed_word_eqI)
  moreover have "mset (map fst entries) = mset (hm_keys (pb_limits problem))"
    by (simp add: entries)
  moreover obtain problem' where mapped:
    "map_problem_row p (map fst entries) (collect_limits entries) cases (zip problem_columns vs @ ext) = Inr problem'"
    and "found = Some \<lparr>pd_problem = problem'\<rparr>"
    using found calculation(1,2) by (auto simp: detail_of_def and_then_Inr_iff)
  moreover obtain judge easy where
    "read_back (pj_judge_config p) (pj_parse_judge_config p) (pb_judge_config problem) judge"
    "read_back (pj_easy_config p) (pj_parse_easy_config p) (pb_easy_config problem) easy"
    "problem' = problem\<lparr>pb_supported_languages := map fst entries, pb_limits := collect_limits entries,
       pb_testcases := cases, pb_judge_config := judge, pb_easy_config := easy\<rparr>"
    using row(1) [OF mapped] by blast
  ultimately show ?thesis
    by (intro exI [of _ "map fst entries"] exI [of _ judge] exI [of _ easy]) simp
qed


section \<open>Events\<close>

definition case_row :: "string \<Rightarrow> case_outcome \<Rightarrow> sql_row" where
  "case_row sid c = zip case_result_columns (case_result_values sid c)"

definition submission_values :: "string \<Rightarrow> task_event \<Rightarrow> string \<Rightarrow> sql_value list" where
  "submission_values sid ev summary =
     (case derive_submission_projection ev of (status, score, max_score, message) \<Rightarrow>
        [SqlText sid, SqlText (format_submission_status status), SqlInt score, SqlInt max_score,
         nullable SqlText message, SqlJson summary])"

lemma case_result_of_row:
  "map_submission_case_result p ((''expected_output'', nullable SqlText expected) # case_row sid c) =
     Inr ((case_result_of c)\<lparr>ur_expected_output_snapshot := unwrap_or expected []\<rparr>)"
  by (cases expected)
    (simp_all add: map_submission_case_result_def case_row_def case_result_columns_def
      case_result_values_def column_def ok_or_def nullable_def case_result_of_def)

lemma case_row_simps [simp]:
  "has ''submission_id'' (SqlText sid) (case_row sid c)"
  "case_key (case_row sid c) = sint (co_case_no c)"
  "case_key ((''expected_output'', v) # case_row sid c) = sint (co_case_no c)"
  by (simp_all add: has_def case_key_def case_row_def case_result_columns_def case_result_values_def)

lemma event_statements_run:
  assumes "run_statements (event_statements sid ev summary) tb = Some tb'"
  shows "tb_submissions tb' = update_rows ''submission_id'' (SqlText sid)
      (zip update_columns (submission_values sid ev summary)) (tb_submissions tb)"
    and "tb_testcases tb' = tb_testcases tb"
    and "te_outcome ev = Some out \<Longrightarrow>
      filter (has ''submission_id'' (SqlText sid)) (tb_case_results tb') = map (case_row sid) (eo_cases out) \<and>
      distinct (map co_case_no (eo_cases out))"
proof -
  obtain status score max_score message where proj:
    "derive_submission_projection ev = (status, score, max_score, message)"
    by (cases "derive_submission_projection ev") auto
  note run = assms [unfolded event_statements_def proj prod.case]
  show "tb_submissions tb' = update_rows ''submission_id'' (SqlText sid)
      (zip update_columns (submission_values sid ev summary)) (tb_submissions tb)"
    "tb_testcases tb' = tb_testcases tb"
    using run by (auto simp: run_statement_def run_inserts submission_values_def proj
        split: option.splits)
  assume "te_outcome ev = Some out"
  then have ins: "insert_rows [''submission_id'', ''case_no''] (map (case_row sid) (eo_cases out))
      (filter (\<lambda>r. \<not> has ''submission_id'' (SqlText sid) r) (tb_case_results tb)) =
      Some (tb_case_results tb')"
    using run by (auto simp: run_statement_def run_inserts case_row_def [abs_def] split: option.splits)
  have "distinct (map (\<lambda>c. map (map_of (case_row sid c)) [''submission_id'', ''case_no'']) (eo_cases out))"
    using insert_rows_Some [OF ins] by (simp add: comp_def)
  then have "distinct (map co_case_no (eo_cases out))"
    by (simp add: case_row_def case_result_columns_def case_result_values_def distinct_map inj_on_def)
  moreover have "filter (has ''submission_id'' (SqlText sid)) (tb_case_results tb') =
      map (case_row sid) (eo_cases out)"
    using insert_rows_Some [OF ins] by (simp only: filter_inserted case_row_simps)
  ultimately show "filter (has ''submission_id'' (SqlText sid)) (tb_case_results tb') =
      map (case_row sid) (eo_cases out) \<and> distinct (map co_case_no (eo_cases out))"
    by simp
qed


lemma find_updated:
  assumes "find (has k v) (update_rows k v new rows) = Some row" "has k v new"
  shows "\<exists>old. find (has k v) rows = Some old \<and> row = new @ old"
  using assms
proof (induction rows)
  case (Cons r rows)
  have "has k v (new @ r)" using assms(2) by (simp add: has_def map_add_Some_iff)
  then show ?case using Cons by (auto simp: update_rows_def split: if_splits)
qed (simp add: update_rows_def)

lemma pg_find_submission_Some:
  assumes "pg_find_submission p sid w = (Inr (Some d), w')"
  obtains row wa rows sub cases summary source where
    "pg_fetch_optional p sql_find_submission [SqlText sid] w = (Inr (Some row), wa)"
    "pg_fetch_all p sql_find_case_results [SqlText sid] wa = (Inr rows, w')"
    "map_submission_record p row = Inr sub"
    "collect_results (map (map_submission_case_result p) rows) = Inr cases"
    "json_column p (pj_parse_event p) ''execution_summary'' row = Inr summary"
    "column p as_text ''source_code'' row = Inr source"
    "d = \<lparr>sm_submission = sub, sm_source_code = source,
      sm_result = Some (build_submission_result sub summary cases)\<rparr>"
proof -
  obtain r wa where r: "pg_fetch_optional p sql_find_submission [SqlText sid] w = (Inr r, wa)"
    using assms by (auto simp only: pg_find_submission_def st_then_Inr_iff db_call_Inr_iff)
  then obtain row where row: "r = Some row"
    using assms by (cases r) (auto simp: pg_find_submission_def db_call_def)
  then obtain sub where sub: "map_submission_record p row = Inr sub"
    using assms r by (cases "map_submission_record p row") (auto simp: pg_find_submission_def db_call_def)
  have "st_then (db_call (pg_fetch_all p sql_find_case_results [SqlText sid] wa)) (\<lambda>case_rows w.
         (and_then (collect_results (map (map_submission_case_result p) case_rows)) (\<lambda>cases.
          and_then (json_column p (pj_parse_event p) ''execution_summary'' row) (\<lambda>summary.
          and_then (column p as_text ''source_code'' row) (\<lambda>source.
          Inr (Some \<lparr>sm_submission = sub, sm_source_code = source,
            sm_result = Some (build_submission_result sub summary cases)\<rparr>)))), w)) = (Inr (Some d), w')"
    using assms by (simp add: pg_find_submission_def r row sub db_call_def)
  then show thesis
    using that [OF r [unfolded row] _ sub]
    by (auto simp only: st_then_Inr_iff and_then_Inr_iff db_call_Inr_iff prod.inject sum.inject
        option.inject)
qed

lemma foldr_max_word: "foldr max xs (0 :: u64) = Max (insert 0 (set xs))"
  by (induction xs) (auto simp: insert_commute [of 0])

lemma first_output_None:
  "first_output cs = None \<longleftrightarrow> (\<forall>c \<in> set cs. co_stderr_excerpt c = [] \<and> co_stdout_excerpt c = [])"
  by (induction cs) auto

lemma first_case_output_None:
  "first_case_output rs = None \<longleftrightarrow> (\<forall>r \<in> set rs. ur_message r = None \<and> ur_actual_output r = [])"
  by (induction rs) (auto split: option.splits)

lemma map_of_results:
  assumes "map f xs = map Inr ys" "\<And>x y. x \<in> set xs \<Longrightarrow> f x = Inr y \<Longrightarrow> g y = h x"
  shows "map g ys = map h xs"
  using assms by (induction xs arbitrary: ys) auto

lemma case_result_without_expected:
  assumes "map_submission_case_result p ((''expected_output'', v) # case_row sid c) = Inr r"
  shows "r\<lparr>ur_expected_output_snapshot := []\<rparr> = case_result_of c"
proof -
  obtain expected where "v = nullable SqlText expected"
  proof (cases v)
    case (SqlText t)
    then show thesis using that [of "Some t"] by (simp add: nullable_def)
  next
    case SqlNull
    then show thesis using that [of None] by (simp add: nullable_def)
  qed (use assms in \<open>simp_all add: map_submission_case_result_def column_def ok_or_def and_then_Inr_iff\<close>)
  then show ?thesis
    using assms by (auto simp: case_result_of_row case_result_of_def)
qed


definition without_expected :: "submission_case_result \<Rightarrow> submission_case_result" where
  "without_expected r = r\<lparr>ur_expected_output_snapshot := []\<rparr>"

lemma stored_case_results:
  assumes "filter (has ''submission_id'' (SqlText sid)) (tb_case_results tb) = map (case_row sid) outcomes"
    and "distinct (map co_case_no outcomes)"
    and "mset rows = mset (case_rows (SqlText sid) tb)" "sorted (map case_key rows)"
    and "collect_results (map (map_submission_case_result p) rows) = Inr cases"
  shows "map without_expected cases = sort_key (sint \<circ> ur_case_no) (map case_result_of outcomes)"
proof -
  let ?row = "\<lambda>c. (''expected_output'', expected_output_of (SqlText sid) (case_row sid c) tb) # case_row sid c"
  have "mset rows = mset (map ?row outcomes)"
    using assms(1,3) by (simp add: case_rows_def comp_def)
  then obtain cs where cs: "mset cs = mset outcomes" "rows = map ?row cs"
    using mset_map_eq by blast
  have "map (map_submission_case_result p \<circ> ?row) cs = map Inr cases"
    using assms(5) by (simp add: cs collect_results_Inr)
  then have shown: "map without_expected cases = map case_result_of cs"
    by (rule map_of_results) (simp add: without_expected_def case_result_without_expected)
  have no: "ur_case_no (case_result_of c) = co_case_no c" for c by (simp add: case_result_of_def)
  have "map case_result_of cs = sort_key (sint \<circ> ur_case_no) (map case_result_of outcomes)"
  proof (rule sorted_permutation)
    show "mset (map case_result_of cs) = mset (map case_result_of outcomes)" by (simp add: cs)
    show "sorted (map (sint \<circ> ur_case_no) (map case_result_of cs))"
      using assms(4) by (simp add: cs comp_def no)
    show "distinct (map (sint \<circ> ur_case_no) (map case_result_of outcomes))"
      using assms(2) by (auto simp: distinct_map inj_on_def no dest!: signed_word_eqI)
  qed
  then show ?thesis by (simp add: shown)
qed

lemma stored_result:
  assumes "te_outcome ev = Some out"
    and "map without_expected cases = sort_key (sint \<circ> ur_case_no) (map case_result_of (eo_cases out))"
  shows "build_submission_result sub (Some ev) cases =
    (build_runtime_submission_result sub ev)\<lparr>su_compile_output := extract_compile_output ev,
      su_judge_summary := Some (te_message ev), su_case_results := cases\<rparr>"
proof -
  have same: "set (map without_expected cases) = set (map case_result_of (eo_cases out))"
    using assms(2) by simp
  have "ur_memory_used_kb ` without_expected ` set cases = co_memory_used_kb ` set (eo_cases out)"
    using arg_cong [OF same, of "image ur_memory_used_kb"] by (simp add: image_image case_result_of_def)
  then have memory: "foldr max (map ur_memory_used_kb cases) 0 = total_case_memory out"
    by (simp add: total_case_memory_def foldr_max_word without_expected_def image_image)
  have "first_case_output cases = None" if "first_output (eo_cases out) = None"
  proof -
    have "\<forall>r \<in> set (map case_result_of (eo_cases out)). ur_message r = None \<and> ur_actual_output r = []"
      using that by (auto simp: first_output_None case_result_of_def non_empty_def)
    then have "\<forall>r \<in> set cases. ur_message (without_expected r) = None \<and>
        ur_actual_output (without_expected r) = []"
      unfolding same [symmetric] by simp
    then show ?thesis by (simp add: first_case_output_None without_expected_def)
  qed
  then show ?thesis
    using assms(1) memory
    by (auto simp: build_submission_result_def build_runtime_submission_result_def Let_def
        extract_runtime_output_def extract_compile_time_ms_def extract_judge_compile_time_ms_def
        total_case_duration_ms_def total_case_time_def total_compile_time_def
        total_judge_compile_time_def split: option.splits)
qed


lemma updated_submission:
  assumes "map_submission_record p old = Inr sub" "has ''submission_id'' (SqlText sid) old"
    and "derive_submission_projection ev = (status, score, max_score, message)"
    and row_def: "row = zip update_columns (submission_values sid ev summary) @ old"
  shows "map_submission_record p row = Inr (sub\<lparr>sb_status := status, sb_score := score,
      sb_max_score := max_score, sb_message := message\<rparr>)"
    and "column p as_text ''source_code'' row = column p as_text ''source_code'' old"
    and "map_of row ''execution_summary'' = Some (SqlJson summary)"
proof -
  show "map_submission_record p row = Inr (sub\<lparr>sb_status := status, sb_score := score,
      sb_max_score := max_score, sb_message := message\<rparr>)"
    using assms(1,2) by (cases message)
      (auto simp: row_def map_submission_record_def submission_values_def assms(3) update_columns_def
        and_then_Inr_iff column_def ok_or_def has_def nullable_def)
  show "column p as_text ''source_code'' row = column p as_text ''source_code'' old"
    "map_of row ''execution_summary'' = Some (SqlJson summary)"
    by (simp_all add: row_def column_def submission_values_def assms(3) update_columns_def)
qed

lemma row_after_event:
  assumes "documented_pg p tables working"
    and "run_statements (event_statements sid ev summary) (tables w1) = Some (tables w2)"
    and "pg_fetch_optional p sql_find_submission [SqlText sid] w = (Inr (Some old), wa)"
    and "pg_fetch_optional p sql_find_submission [SqlText sid] w2 = (Inr (Some row), wb)"
    and "tables w1 = tables w"
  shows "row = zip update_columns (submission_values sid ev summary) @ old"
    and "has ''submission_id'' (SqlText sid) old"
proof -
  note written = event_statements_run(1) [OF assms(2)] and fetched = documented_pgD(3) [OF assms(1)]
  have old: "find (has ''submission_id'' (SqlText sid)) (tb_submissions (tables w)) = Some old"
    and row: "find (has ''submission_id'' (SqlText sid)) (tb_submissions (tables w2)) = Some row"
    using fetched [OF assms(3)] fetched [OF assms(4)] by simp_all
  have "has ''submission_id'' (SqlText sid) (zip update_columns (submission_values sid ev summary))"
    by (simp add: has_def submission_values_def update_columns_def split: prod.splits)
  then show "row = zip update_columns (submission_values sid ev summary) @ old"
    using find_updated [OF row [unfolded written]] old assms(5) by simp
  show "has ''submission_id'' (SqlText sid) old" using old by (auto simp: find_Some_iff)
qed

text \<open>C37: Postgres shows what memory shows: after an event with an outcome was applied, the submission
  is found as the repository in memory would have changed it (\<^const>\<open>apply_event\<close>), with the case
  results in the order of their numbers. Three things differ: the expected outputs are those of the test
  cases in the database, the judge summary is always the message of the event, and the compile
  output falls back to the compiler of the program when the one of the judge wrote nothing.\<close>

theorem postgres_shows_the_applied_event:
  assumes "documented_pg p tables working" "faithful (pj_event p) (pj_parse_event p)"
    and "te_submission_id ev = Some sid" "te_outcome ev = Some out"
    and "pg_find_submission p sid w = (Inr (Some before), w1)"
    and "pg_apply_runtime_event p ev w1 = (Inr (), w2)"
    and "pg_find_submission p sid w2 = (Inr (Some after), w3)"
  shows "\<exists>cases. map without_expected cases =
      sort_key (sint \<circ> ur_case_no) (map case_result_of (eo_cases out)) \<and>
    after = (apply_event ev before)
      \<lparr>sm_result := Some ((build_runtime_submission_result (sm_submission (apply_event ev before)) ev)
        \<lparr>su_compile_output := extract_compile_output ev, su_judge_summary := Some (te_message ev),
         su_case_results := cases\<rparr>)\<rparr>"
proof -
  obtain status score max_score message where proj:
    "derive_submission_projection ev = (status, score, max_score, message)"
    by (cases "derive_submission_projection ev") auto
  note fetched = documented_pgD(1,4,7) [OF assms(1)]
  obtain old wa rows0 where old:
      "pg_fetch_optional p sql_find_submission [SqlText sid] w = (Inr (Some old), wa)"
      "pg_fetch_all p sql_find_case_results [SqlText sid] wa = (Inr rows0, w1)"
    and sub: "map_submission_record p old = Inr (sm_submission before)"
    and source: "column p as_text ''source_code'' old = Inr (sm_source_code before)"
    by (rule pg_find_submission_Some [OF assms(5)]) simp
  have kept: "tables w1 = tables w" using fetched(1) [OF old(1)] fetched(2) [OF old(2)] by simp
  obtain summary where summary: "pj_event p ev = Inr summary"
    and ran: "run_statements (event_statements sid ev summary) (tables w1) = Some (tables w2)"
    using postgres_event_written [OF assms(1,3,6)] by blast
  obtain row wb rows sub' cases summary' source' where shown:
    "pg_fetch_optional p sql_find_submission [SqlText sid] w2 = (Inr (Some row), wb)"
    "pg_fetch_all p sql_find_case_results [SqlText sid] wb = (Inr rows, w3)"
    "map_submission_record p row = Inr sub'"
    "collect_results (map (map_submission_case_result p) rows) = Inr cases"
    "json_column p (pj_parse_event p) ''execution_summary'' row = Inr summary'"
    "column p as_text ''source_code'' row = Inr source'"
    "after = \<lparr>sm_submission = sub', sm_source_code = source',
      sm_result = Some (build_submission_result sub' summary' cases)\<rparr>"
    using assms(7) by (rule pg_find_submission_Some)
  note row = row_after_event [OF assms(1) ran old(1) shown(1) kept]
  note updated = updated_submission [OF sub row(2) proj row(1)]
  have "transpose_json (pj_event p) (Some ev) = Inr (Some summary)"
    by (simp add: transpose_json_def summary)
  then have "summary' = Some ev"
    using json_column_nullable [OF assms(2), of "Some ev" "Some summary" row "''execution_summary''" p]
      updated(3) shown(5) by (simp add: nullable_def)
  moreover have "map without_expected cases =
      sort_key (sint \<circ> ur_case_no) (map case_result_of (eo_cases out))"
    using event_statements_run(3) [OF ran assms(4)] fetched(3) [OF shown(2)] fetched(1) [OF shown(1)] shown(4)
    by (intro stored_case_results [where tb = "tables w2" and rows = rows]) auto
  moreover have "sub' = sm_submission (apply_event ev before)" "source' = sm_source_code before"
    using updated(1,2) shown(3,6) source by (simp_all add: apply_event_def proj Let_def)
  ultimately show ?thesis
    using stored_result [OF assms(4)] shown(7)
    by (intro exI [of _ cases]) (simp add: apply_event_def proj Let_def)
qed

end
