(* ===== verification/Oj_Postgres_Runs.thy ===== *)
theory Oj_Postgres_Runs
  imports Oj_Postgres_Props
begin

text \<open>
  A database of a few rows that does what SQL says, and the repositories on it: a problem is saved and
  found, and an event is applied to a submission.
\<close>

section \<open>A small database\<close>

definition small_problem :: problem where
  "small_problem =
     \<lparr>pb_problem_id = ProblemId ''sum'', pb_title = ''Sum'', pb_slug = ''sum'', pb_judge_mode = ModeAcm,
      pb_sandbox_kind = KindNsjail, pb_statement_md = ''Add.'', pb_supported_languages = [''rust''],
      pb_limits = [(''cpp'', \<lparr>li_time_limit_ms = 1000, li_memory_limit_kb = 65536\<rparr>),
                   (''rust'', \<lparr>li_time_limit_ms = 2000, li_memory_limit_kb = 65536\<rparr>)],
      pb_testcases =
        [\<lparr>tt_case_no = 2, tt_input = ''2 2'', tt_expected_output = ''4'', tt_is_sample = False, tt_score = 70\<rparr>,
         \<lparr>tt_case_no = 1, tt_input = ''1 1'', tt_expected_output = ''2'', tt_is_sample = True, tt_score = 30\<rparr>],
      pb_judge_config = None, pb_easy_config = None\<rparr>"

definition small_case :: "u32 \<Rightarrow> case_final_status \<Rightarrow> case_outcome" where
  "small_case n st =
     \<lparr>co_case_no = n, co_score = 50, co_status = st, co_exit_code = Some 0, co_duration_ms = 10,
      co_memory_used_kb = 128, co_stdout_path = ''out'', co_stderr_path = ''err'',
      co_stdout_excerpt = ''4'', co_stderr_excerpt = []\<rparr>"

definition small_outcome :: execution_outcome where
  "small_outcome =
     \<lparr>eo_compile = None, eo_judge_compile = None,
      eo_cases = [small_case 2 CsAccepted, small_case 1 CsWrongAnswer], eo_final_status = LcFailed\<rparr>"

definition small_event :: task_event where
  "small_event =
     \<lparr>te_task_id = ''t'', te_source_domain = ''oj'', te_queue = ''oj'', te_lane = ''fast'', te_attempt = 1,
      te_submission_id = Some ''sub-1'', te_problem_id = Some ''sum'', te_user_id = None,
      te_language = Some ''rust'', te_status = LcFailed, te_message = ''wrong'', te_execution_id = None,
      te_outcome = Some small_outcome\<rparr>"

text \<open>The serialisers know this event and no configuration.\<close>

definition small_pg :: "(unit, tables \<times> tables) pg" where
  "small_pg =
     \<lparr>pg_fetch_all = \<lambda>sql vs (c, k).
        (Inr (if sql = sql_find_limits then filter (has ''problem_id'' (hd vs)) (tb_limits c)
              else if sql = sql_find_testcases
              then sort_key case_key (filter (has ''problem_id'' (hd vs)) (tb_testcases c))
              else if sql = sql_find_case_results then sort_key case_key (case_rows (hd vs) c)
              else []), c, k),
      pg_fetch_optional = \<lambda>sql vs (c, k).
        (Inr (if sql = sql_find_problem then find (has ''problem_id'' (hd vs)) (tb_problems c)
              else find (has ''submission_id'' (hd vs)) (tb_submissions c)), c, k),
      pg_fetch_scalar = \<lambda>_ _ w. (Inr 0, w), pg_execute = \<lambda>_ _ w. (Inr (), w),
      pg_begin = \<lambda>(c, k). (Inr (), c, c),
      pg_tx_execute = \<lambda>_ sql vs (c, k).
        (case run_statement (sql, vs) k of
           None \<Rightarrow> (Inl ''duplicate key'', c, k) | Some k \<Rightarrow> (Inr (), c, k)),
      pg_commit = \<lambda>_ (c, k). (Inr (), k, k), pg_rollback = \<lambda>_ w. w,
      pg_ulid = \<lambda>w. (''1'', w), pg_column_error = \<lambda>name. name,
      pj_judge_config = \<lambda>_. Inl ''json'', pj_parse_judge_config = \<lambda>_. Inl ''json'',
      pj_easy_config = \<lambda>_. Inl ''json'', pj_parse_easy_config = \<lambda>_. Inl ''json'',
      pj_event = \<lambda>ev. if ev = small_event then Inr ''event'' else Inl ''json'',
      pj_parse_event = \<lambda>s. if s = ''event'' then Inr small_event else Inl ''json''\<rparr>"

definition small_tables :: tables where
  "small_tables =
     \<lparr>tb_problems = [], tb_limits = [], tb_testcases = [],
      tb_submissions =
        [[(''submission_id'', SqlText ''sub-1''), (''problem_id'', SqlText ''sum''),
          (''user_id'', SqlText ''u''), (''language'', SqlText ''rust''), (''source_code'', SqlText ''main''),
          (''status'', SqlText ''pending''), (''score'', SqlInt 0), (''max_score'', SqlInt 0),
          (''result_message'', SqlNull), (''execution_summary'', SqlNull)]],
      tb_case_results = []\<rparr>"

abbreviation small_db :: "tables \<times> tables" where
  "small_db \<equiv> (small_tables, small_tables)"

lemma statements_differ:
  "distinct [sql_find_problem, sql_find_submission]"
  "distinct [sql_find_limits, sql_find_testcases, sql_find_case_results]"
  by code_simp+

lemma small_pg_documented: "documented_pg small_pg fst (\<lambda>_. snd)"
  unfolding documented_pg_def using statements_differ
  by (intro conjI) (auto simp: small_pg_def split: option.splits if_splits)

lemma small_pg_faithful:
  "faithful (pj_judge_config small_pg) (pj_parse_judge_config small_pg)"
  "faithful (pj_easy_config small_pg) (pj_parse_easy_config small_pg)"
  "faithful (pj_event small_pg) (pj_parse_event small_pg)"
  by (simp_all add: faithful_def small_pg_def)


section \<open>Runs on it\<close>

definition saved_db :: "tables \<times> tables" where
  "saved_db = snd (pg_save small_pg small_problem small_db)"

definition judged_db :: "tables \<times> tables" where
  "judged_db = snd (pg_apply_runtime_event small_pg small_event saved_db)"

lemma saved: "pg_save small_pg small_problem small_db = (Inr (), saved_db)"
  by (rule prod_eqI) (code_simp, simp add: saved_db_def)

lemma found_problem: "pg_find_detail small_pg ''sum'' saved_db = (Inr (Some \<lparr>pd_problem = small_problem
    \<lparr>pb_supported_languages := [''cpp'', ''rust''], pb_testcases := rev (pb_testcases small_problem)\<rparr>\<rparr>), saved_db)"
  by code_simp

lemma judged:
  "pg_apply_runtime_event small_pg small_event saved_db = (Inr (), judged_db)"
  by (rule prod_eqI) (code_simp, simp add: judged_db_def)

definition shows_submission :: "tables \<times> tables \<Rightarrow> bool" where
  "shows_submission pool =
     (case pg_find_submission small_pg ''sub-1'' pool of (Inr (Some d), pool') \<Rightarrow> pool' = pool | _ \<Rightarrow> False)"

lemma shown_submission:
  assumes "shows_submission pool"
  obtains d where "pg_find_submission small_pg ''sub-1'' pool = (Inr (Some d), pool)"
  using assms by (auto simp: shows_submission_def split: prod.splits sum.splits option.splits)

lemma shown_before_and_after: "shows_submission saved_db" "shows_submission judged_db"
  by code_simp+

definition doubled_problem :: problem where
  "doubled_problem = small_problem\<lparr>pb_testcases := pb_testcases small_problem @ pb_testcases small_problem\<rparr>"

lemma doubled_cases_are_refused:
  "(case problem_values small_pg doubled_problem of
      Inl _ \<Rightarrow> False
    | Inr vs \<Rightarrow> run_statements (problem_statements doubled_problem vs) small_tables = None)"
  by code_simp

text \<open>Two test cases of one number: the save fails and the tables are as they were.\<close>

theorem postgres_writes_are_atomic_witness:
  "isl (fst (pg_save small_pg doubled_problem small_db)) \<and>
   fst (snd (pg_save small_pg doubled_problem small_db)) = small_tables"
  using postgres_writes_are_atomic [OF small_pg_documented, of doubled_problem small_db small_event]
    doubled_cases_are_refused
  by (auto split: prod.splits sum.splits)

theorem saved_problems_come_back_witness:
  "\<exists>languages judge easy. mset languages = {#''cpp'', ''rust''#} \<and>
    fst (pg_find_detail small_pg ''sum'' saved_db) = Inr (Some \<lparr>pd_problem = small_problem
      \<lparr>pb_supported_languages := languages,
       pb_testcases := sort_key (sint \<circ> tt_case_no) (pb_testcases small_problem),
       pb_judge_config := judge, pb_easy_config := easy\<rparr>\<rparr>)"
proof -
  have pid: "problem_id_0 (pb_problem_id small_problem) = ''sum''"
    and limits: "hm_keys (pb_limits small_problem) = [''cpp'', ''rust'']"
    by (simp_all add: small_problem_def)
  have "sorted_wrt (<) (hm_keys (pb_limits small_problem))" by code_simp
  from saved_problems_come_back [OF small_pg_documented this saved] show ?thesis
    unfolding pid limits found_problem by fastforce
qed

theorem postgres_shows_the_applied_event_witness:
  "\<exists>before after cases.
    pg_find_submission small_pg ''sub-1'' saved_db = (Inr (Some before), saved_db) \<and>
    pg_find_submission small_pg ''sub-1'' judged_db = (Inr (Some after), judged_db) \<and>
    map without_expected cases =
      map case_result_of [small_case 1 CsWrongAnswer, small_case 2 CsAccepted] \<and>
    after = (apply_event small_event before)
      \<lparr>sm_result := Some ((build_runtime_submission_result (sm_submission (apply_event small_event before)) small_event)
        \<lparr>su_compile_output := None, su_judge_summary := Some ''wrong'', su_case_results := cases\<rparr>)\<rparr>"
proof -
  obtain before where before: "pg_find_submission small_pg ''sub-1'' saved_db = (Inr (Some before), saved_db)"
    using shown_before_and_after(1) by (rule shown_submission)
  obtain after where after: "pg_find_submission small_pg ''sub-1'' judged_db = (Inr (Some after), judged_db)"
    using shown_before_and_after(2) by (rule shown_submission)
  have event: "te_submission_id small_event = Some ''sub-1''" "te_outcome small_event = Some small_outcome"
      "te_message small_event = ''wrong''" "extract_compile_output small_event = None"
    by (simp_all add: small_event_def extract_compile_output_def small_outcome_def)
  have "sort_key (sint \<circ> ur_case_no) (map case_result_of (eo_cases small_outcome)) =
      map case_result_of [small_case 1 CsWrongAnswer, small_case 2 CsAccepted]"
    by code_simp
  then show ?thesis
    using postgres_shows_the_applied_event
      [OF small_pg_documented small_pg_faithful(3) event(1,2) before judged after] before after event
    by auto
qed

end
