(* ===== verification/Auth.thy ===== *)
theory Auth
  imports Shared
begin

text \<open>
  Authentication (crates/nexus-auth): the bearer token of a request and the development service,
  which knows one token and one user. The headers of a request are given in their order, the names
  in lower case as the http library keeps them.
\<close>

datatype user_role = RoleAdmin | RoleUser

datatype user_status = UserActive | UserSuspended

record authenticated_user =
  au_user_id :: user_id
  au_username :: string
  au_display_name :: string
  au_role :: user_role
  au_status :: user_status

record dev_auth_service =
  da_expected_token :: string
  da_user :: authenticated_user

definition authenticate :: "dev_auth_service \<Rightarrow> string option \<Rightarrow> authenticated_user app_result" where
  "authenticate service bearer_token =
     (case bearer_token of
        None \<Rightarrow> Inl Unauthorized
      | Some token \<Rightarrow> if token = da_expected_token service then Inr (da_user service) else Inl Unauthorized)"

text \<open>\<^theory_text>\<open>HeaderValue::to_str\<close>: printable ASCII and tabulators only.\<close>

definition header_char :: "char \<Rightarrow> bool" where
  "header_char c = (let n = of_char c :: nat in 32 \<le> n \<and> n < 127 \<or> n = 9)"

definition header_to_str :: "string \<Rightarrow> string option" where
  "header_to_str v = (if list_all header_char v then Some v else None)"

definition extract_bearer_token :: "(string \<times> string) list \<Rightarrow> string option" where
  "extract_bearer_token headers =
     (case map_of headers ''authorization'' of
        None \<Rightarrow> None
      | Some value \<Rightarrow>
          (case header_to_str value of
             None \<Rightarrow> None
           | Some value \<Rightarrow> strip_prefix ''Bearer '' value))"

definition current_user :: "dev_auth_service \<Rightarrow> (string \<times> string) list \<Rightarrow> authenticated_user app_result" where
  "current_user service headers = authenticate service (extract_bearer_token headers)"

definition build_dev_auth_service :: dev_auth_service where
  "build_dev_auth_service =
     \<lparr>da_expected_token = ''dev-token'',
      da_user = \<lparr>au_user_id = UserId ''u-dev-admin'', au_username = ''dev_admin'',
        au_display_name = ''Dev Admin'', au_role = RoleAdmin, au_status = UserActive\<rparr>\<rparr>"

lemma header_to_str_Some: "header_to_str v = Some s \<longleftrightarrow> s = v \<and> list_all header_char v"
  by (auto simp: header_to_str_def)

lemma extract_bearer_token_Some:
  "extract_bearer_token headers = Some token \<longleftrightarrow>
     list_all header_char token \<and> map_of headers ''authorization'' = Some (''Bearer '' @ token)"
proof -
  have "list_all header_char ''Bearer ''" by code_simp
  then show ?thesis
    by (auto simp: extract_bearer_token_def header_to_str_def strip_prefix_Some
        split: option.splits if_splits)
qed

text \<open>A request is authenticated exactly when its first authorization header is \<^theory_text>\<open>Bearer\<close> with the
  expected token; every other request is refused in the same way.\<close>

theorem only_the_token_authenticates:
  "current_user service headers =
     (if list_all header_char (da_expected_token service) \<and>
         map_of headers ''authorization'' = Some (''Bearer '' @ da_expected_token service)
      then Inr (da_user service) else Inl Unauthorized)"
proof (cases "extract_bearer_token headers")
  case None
  then have "\<not> (list_all header_char (da_expected_token service) \<and>
      map_of headers ''authorization'' = Some (''Bearer '' @ da_expected_token service))"
    using extract_bearer_token_Some [of headers "da_expected_token service"] by simp
  then show ?thesis using None by (simp add: current_user_def authenticate_def)
next
  case (Some token)
  then show ?thesis
    using extract_bearer_token_Some [of headers token]
    by (auto simp: current_user_def authenticate_def)
qed

end
