(* ===== verification/Seccomp_Tool.thy ===== *)
theory Seccomp_Tool
  imports Seccomp
begin

text \<open>
  The command line tool that prints the seccomp profiles (crates/nexus-runtime/src/bin/
  seccomp_profiles.rs), from its arguments to what it prints. The pretty printer of JSON is an
  argument. \<^theory_text>\<open>println!\<close> of the text form is one line per field.
\<close>

record profile_debug_view =
  pv_flavor :: syscall_flavor
  pv_arch :: syscall_arch
  pv_groups :: "string list"
  pv_syscalls :: "string list"
  pv_normalized :: "string list"

definition default_policies :: "string list" where
  "default_policies =
     [''cpp_native_default'', ''rust_native_default'', ''python_default'', ''wasm_default'', ''compiler'']"

definition parse_runtime_syscall_flavor :: "host_platform \<Rightarrow> string \<Rightarrow> syscall_flavor" where
  "parse_runtime_syscall_flavor host v =
     (if v = ''auto'' then FlAuto
      else if v = ''generic'' then FlGeneric
      else if v = ''debian_ubuntu'' then FlDebianUbuntu
      else if v = ''arch'' then FlArch
      else if v = ''rhel_like'' then FlRhelLike
      else sy_flavor (debug_detected_runtime_syscall_profile host))"

definition parse_runtime_syscall_arch :: "host_platform \<Rightarrow> string \<Rightarrow> syscall_arch" where
  "parse_runtime_syscall_arch host v =
     (if v = ''auto'' then ArAuto
      else if v = ''x86_64'' then ArX86_64
      else if v = ''aarch64'' then ArAarch64
      else if v = ''other'' then ArOther
      else sy_arch (debug_detected_runtime_syscall_profile host))"

fun format_flavor :: "syscall_flavor \<Rightarrow> string" where
  "format_flavor FlAuto = ''auto''"
| "format_flavor FlGeneric = ''generic''"
| "format_flavor FlDebianUbuntu = ''debian_ubuntu''"
| "format_flavor FlArch = ''arch''"
| "format_flavor FlRhelLike = ''rhel_like''"

fun format_arch :: "syscall_arch \<Rightarrow> string" where
  "format_arch ArAuto = ''auto''"
| "format_arch ArX86_64 = ''x86_64''"
| "format_arch ArAarch64 = ''aarch64''"
| "format_arch ArOther = ''other''"

text \<open>\<^theory_text>\<open>args.iter().find_map(|arg| arg.strip_prefix(prefix))\<close>.\<close>

fun option_value :: "string \<Rightarrow> string list \<Rightarrow> string option" where
  "option_value prefix [] = None"
| "option_value prefix (arg # args) =
     (case strip_prefix prefix arg of Some v \<Rightarrow> Some v | None \<Rightarrow> option_value prefix args)"

definition tool_target :: "host_platform \<Rightarrow> string list \<Rightarrow> syscall_flavor \<times> syscall_arch" where
  "tool_target host args =
     (let detected = debug_detected_runtime_syscall_profile host;
          flavor = (case option_value ''--flavor='' args of
            None \<Rightarrow> sy_flavor detected | Some v \<Rightarrow> parse_runtime_syscall_flavor host v);
          arch = (case option_value ''--arch='' args of
            None \<Rightarrow> sy_arch detected | Some v \<Rightarrow> parse_runtime_syscall_arch host v)
      in (if flavor = FlAuto then sy_flavor detected else flavor,
          if arch = ArAuto then sy_arch detected else arch))"

definition tool_policies :: "string list \<Rightarrow> string list" where
  "tool_policies args =
     (let requested = filter (\<lambda>arg. arg \<noteq> ''--json'' \<and> \<not> starts_with ''--flavor='' arg \<and>
            \<not> starts_with ''--arch='' arg) args
      in if requested = [] \<or> requested = [''all''] then default_policies else requested)"

definition debug_view :: "host_platform \<Rightarrow> syscall_flavor \<times> syscall_arch \<Rightarrow> string \<Rightarrow> profile_debug_view" where
  "debug_view host target policy =
     (case target of (flavor, arch) \<Rightarrow>
        \<lparr>pv_flavor = flavor, pv_arch = arch, pv_groups = debug_seccomp_profile_group_names policy,
         pv_syscalls = debug_seccomp_profile_syscalls_for_target host policy flavor arch,
         pv_normalized = debug_seccomp_profile_normalized_syscalls_for_target host policy flavor arch\<rparr>)"

definition tool_views :: "host_platform \<Rightarrow> string list \<Rightarrow> (string, profile_debug_view) btree_map" where
  "tool_views host args =
     fold (\<lambda>policy. bt_insert policy (debug_view host (tool_target host args) policy)) (tool_policies args) []"

definition view_lines :: "string \<times> profile_debug_view \<Rightarrow> string list" where
  "view_lines entry =
     (case entry of (policy, view) \<Rightarrow>
        [''['' @ policy @ '']'',
         ''flavor:    '' @ format_flavor (pv_flavor view),
         ''arch:      '' @ format_arch (pv_arch view),
         ''groups:    '' @ join '' '' (pv_groups view),
         ''syscalls:  '' @ join '' '' (pv_syscalls view),
         ''normalized:'' @ join '' '' (pv_normalized view),
         []])"

definition seccomp_profiles_main ::
    "((string, profile_debug_view) btree_map \<Rightarrow> string) \<Rightarrow> host_platform \<Rightarrow> string list \<Rightarrow> string list" where
  "seccomp_profiles_main to_json host args =
     (let views = tool_views host args
      in if ''--json'' \<in> set args then [to_json views] else concat (map view_lines views))"

section \<open>What it prints\<close>

lemma fold_bt_insert_keys:
  "map_of (fold (\<lambda>k. bt_insert k (f k)) ks m) k = (if k \<in> set ks then Some (f k) else map_of m k)"
  "sorted_wrt (<) (hm_keys m) \<Longrightarrow> sorted_wrt (<) (hm_keys (fold (\<lambda>k. bt_insert k (f k)) ks m))"
  by (induction ks arbitrary: m) auto

lemma resolved_flavor: "resolve_runtime_syscall_flavor host FlAuto \<noteq> FlAuto"
  "resolve_runtime_syscall_arch host ArAuto \<noteq> ArAuto"
  by (auto simp: resolve_runtime_syscall_flavor_def resolve_runtime_syscall_arch_def
      detect_runtime_syscall_flavor_def detect_runtime_syscall_arch_def Let_def split: option.splits if_splits)

text \<open>Every requested policy is shown once, in alphabetical order, for a target that is resolved, with
  the calls the worker itself would allow on such a host.\<close>

theorem tool_shows_the_policies_of_the_worker:
  "sorted_wrt (<) (hm_keys (tool_views host args)) \<and>
   map_of (tool_views host args) policy =
     (if policy \<in> set (tool_policies args)
      then Some (debug_view host (tool_target host args) policy) else None) \<and>
   fst (tool_target host args) \<noteq> FlAuto \<and> snd (tool_target host args) \<noteq> ArAuto \<and>
   pv_syscalls (debug_view host (tool_target host args) policy) =
     seccomp_profile_syscalls (seccomp_profile_for_policy policy)
       \<lparr>sy_flavor = fst (tool_target host args), sy_arch = snd (tool_target host args)\<rparr>"
proof -
  have target: "fst (tool_target host args) \<noteq> FlAuto" "snd (tool_target host args) \<noteq> ArAuto"
    using resolved_flavor
    by (auto simp: tool_target_def Let_def debug_detected_runtime_syscall_profile_def
        resolve_runtime_syscall_profile_def)
  have "sorted_wrt (<) (hm_keys (tool_views host args))"
    unfolding tool_views_def by (rule fold_bt_insert_keys(2)) simp
  moreover have "map_of (tool_views host args) policy =
     (if policy \<in> set (tool_policies args)
      then Some (debug_view host (tool_target host args) policy) else None)"
    by (simp add: tool_views_def fold_bt_insert_keys(1))
  moreover have "pv_syscalls (debug_view host (tool_target host args) policy) =
     seccomp_profile_syscalls (seccomp_profile_for_policy policy)
       \<lparr>sy_flavor = fst (tool_target host args), sy_arch = snd (tool_target host args)\<rparr>"
    using target by (cases "tool_target host args")
      (auto simp: debug_view_def debug_seccomp_profile_syscalls_for_target_def
        resolve_runtime_syscall_profile_def resolve_runtime_syscall_flavor_def
        resolve_runtime_syscall_arch_def split: syscall_flavor.splits syscall_arch.splits)
  ultimately show ?thesis using target by simp
qed

end
