(* ===== verification/Node_Registry.thy ===== *)
theory Node_Registry
  imports Gateway
begin

text \<open>
  The registry of runtime nodes in Redis: the heartbeat that a process with workers sends
  (crates/nexus-app/src/main.rs), the gateway's reading of the registry, the publication of events
  and the CORS layer (crates/nexus-gateway/src/lib.rs). The Redis client and the JSON codecs are
  arguments; \<^theory_text>\<open>'k\<close> is an open connection.
\<close>

record ('k, 'w) node_redis =
  nr_connect :: "'w \<Rightarrow> (string + 'k) \<times> 'w"
  nr_keys :: "'k \<Rightarrow> string \<Rightarrow> 'w \<Rightarrow> (string + string list) \<times> 'w"
  nr_mget :: "'k \<Rightarrow> string list \<Rightarrow> 'w \<Rightarrow> (string + string option list) \<times> 'w"
  nr_pipe :: "'k \<Rightarrow> string list list \<Rightarrow> 'w \<Rightarrow> (string + unit) \<times> 'w"
  nr_publish :: "'k \<Rightarrow> string \<Rightarrow> string \<Rightarrow> 'w \<Rightarrow> (string + int) \<times> 'w"
  nj_node :: "node_status \<Rightarrow> string + string"
  nj_parse_node :: "string \<Rightarrow> string + node_status"
  nj_event :: "task_event \<Rightarrow> string + string"

text \<open>\<^theory_text>\<open>map_err(|_| AppError::Internal)\<close>.\<close>

definition internal_call :: "(string + 'a) \<times> 'w \<Rightarrow> 'a app_result \<times> 'w" where
  "internal_call r = (case r of (Inl _, w) \<Rightarrow> (Inl Internal, w) | (Inr x, w) \<Rightarrow> (Inr x, w))"

text \<open>A reply of MGET read as \<^theory_text>\<open>Vec<String>\<close>: a key that is not there makes the whole reply an error.\<close>

definition read_strings :: "string option list \<Rightarrow> string list app_result" where
  "read_strings values = ok_or (collect_options values) Internal"

section \<open>The gateway\<close>

definition fetch_runtime_nodes :: "('k, 'w) node_redis \<Rightarrow> 'w \<Rightarrow> node_status list app_result \<times> 'w" where
  "fetch_runtime_nodes p w =
     st_then (internal_call (nr_connect p w)) (\<lambda>k w.
     st_then (internal_call (nr_keys p k ''runtime_nodes:*'' w)) (\<lambda>keys w.
     if keys = [] then (Inr [], w)
     else
       st_then (internal_call (nr_mget p k keys w)) (\<lambda>reply w.
       (and_then (read_strings reply) (\<lambda>texts.
          Inr (concat (map (\<lambda>text. case nj_parse_node p text of Inl _ \<Rightarrow> [] | Inr node \<Rightarrow> [node]) texts))), w))))"

text \<open>The handlers with the client, if there is one.\<close>

definition show_runtime_nodes ::
    "('k, 'w) node_redis option \<Rightarrow> system_time \<Rightarrow> node_query \<Rightarrow> 'w \<Rightarrow> node_status list \<times> 'w" where
  "show_runtime_nodes client now q w =
     (case client of
        None \<Rightarrow> (list_runtime_nodes None now q, w)
      | Some p \<Rightarrow> (case fetch_runtime_nodes p w of (r, w) \<Rightarrow> (list_runtime_nodes (Some r) now q, w)))"

definition show_runtime_node_summary ::
    "('k, 'w) node_redis option \<Rightarrow> system_time \<Rightarrow> node_query \<Rightarrow> 'w \<Rightarrow> node_registry_summary \<times> 'w" where
  "show_runtime_node_summary client now q w =
     (case client of
        None \<Rightarrow> (list_runtime_node_summary None now q, w)
      | Some p \<Rightarrow> (case fetch_runtime_nodes p w of (r, w) \<Rightarrow> (list_runtime_node_summary (Some r) now q, w)))"

text \<open>Errors are logged only.\<close>

definition publish_runtime_event :: "('k, 'w) node_redis \<Rightarrow> string \<Rightarrow> task_event \<Rightarrow> 'w \<Rightarrow> 'w" where
  "publish_runtime_event p submission_id ev w =
     (case nj_event p ev of
        Inl _ \<Rightarrow> w
      | Inr payload \<Rightarrow>
          (case nr_connect p w of
             (Inl _, w) \<Rightarrow> w
           | (Inr k, w) \<Rightarrow> snd (nr_publish p k (''submission_updates:'' @ submission_id) payload w)))"

text \<open>\<^theory_text>\<open>origin.parse()\<close> to a header value is an argument.\<close>

datatype 'h cors_origins = AnyOrigin | OriginList "'h list"

record 'h cors_layer =
  co_allow_methods :: "string list"
  co_allow_any_header :: bool
  co_allow_origins :: "'h cors_origins"

definition build_cors_layer :: "(string \<Rightarrow> 'h option) \<Rightarrow> string list \<Rightarrow> 'h cors_layer option" where
  "build_cors_layer parse allowed_origins =
     (if allowed_origins = [] then None
      else
        let layer = (\<lambda>origins. \<lparr>co_allow_methods = [''GET'', ''POST'', ''PUT'', ''OPTIONS''],
              co_allow_any_header = True, co_allow_origins = origins\<rparr>)
        in if ''*'' \<in> set allowed_origins then Some (layer AnyOrigin)
           else map_option (\<lambda>origins. layer (OriginList origins)) (collect_options (map parse allowed_origins)))"

definition apply_cors_layer ::
    "(string \<Rightarrow> 'h option) \<Rightarrow> ('h cors_layer \<Rightarrow> 'r \<Rightarrow> 'r) \<Rightarrow> 'r \<Rightarrow> string list \<Rightarrow> 'r" where
  "apply_cors_layer parse layer router allowed_origins =
     (case build_cors_layer parse allowed_origins of None \<Rightarrow> router | Some l \<Rightarrow> layer l router)"

section \<open>The heartbeat\<close>

definition node_key :: "string \<Rightarrow> string" where
  "node_key node_id = ''runtime_nodes:'' @ node_id"

definition heartbeat_commands :: "string \<Rightarrow> string \<Rightarrow> string list list" where
  "heartbeat_commands key payload =
     [[''SET'', key, payload], [''EXPIRE'', key, ''30''], [''PUBLISH'', ''runtime_node_heartbeats'', payload]]"

text \<open>One turn of the loop; between two turns it sleeps ten seconds, whatever happened.\<close>

definition runtime_node_heartbeat ::
    "('k, 'w) node_redis \<Rightarrow> node_status \<Rightarrow> 'w \<Rightarrow> 'w" where
  "runtime_node_heartbeat p node w =
     (case nj_node p node of
        Inl _ \<Rightarrow> w
      | Inr payload \<Rightarrow>
          (case nr_connect p w of
             (Inl _, w) \<Rightarrow> w
           | (Inr k, w) \<Rightarrow> snd (nr_pipe p k (heartbeat_commands (node_key (ns_node_id node)) payload) w)))"

text \<open>The statuses that the service shows at the turns, and what happens in between.\<close>

fun runtime_node_heartbeats ::
    "('k, 'w) node_redis \<Rightarrow> (node_status \<times> ('w \<Rightarrow> 'w)) list \<Rightarrow> 'w \<Rightarrow> 'w" where
  "runtime_node_heartbeats p [] w = w"
| "runtime_node_heartbeats p ((node, sleep) # turns) w =
     runtime_node_heartbeats p turns (sleep (runtime_node_heartbeat p node w))"

section \<open>What Redis promises\<close>

text \<open>
  \<^theory_text>\<open>stored\<close> are the keys with their texts and the times at which they expire, \<^theory_text>\<open>time\<close> is the server's
  clock in milliseconds. A key is there until its time has come.
\<close>

definition alive :: "(string \<Rightarrow> (string \<times> int) option) \<Rightarrow> int \<Rightarrow> string \<Rightarrow> string option" where
  "alive keys t key = (case keys key of None \<Rightarrow> None | Some (text, expiry) \<Rightarrow> if t < expiry then Some text else None)"

definition documented_registry ::
    "('k, 'w) node_redis \<Rightarrow> ('w \<Rightarrow> string \<Rightarrow> (string \<times> int) option) \<Rightarrow> ('w \<Rightarrow> int) \<Rightarrow> bool" where
  "documented_registry p stored time \<longleftrightarrow>
     (\<forall>w r w'. nr_connect p w = (r, w') \<longrightarrow> stored w' = stored w \<and> time w \<le> time w') \<and>
     (\<forall>k pat w r w'. nr_keys p k pat w = (r, w') \<longrightarrow> stored w' = stored w \<and> time w \<le> time w' \<and>
        (\<forall>keys. pat = ''runtime_nodes:*'' \<and> r = Inr keys \<longrightarrow>
           set keys = {key. starts_with ''runtime_nodes:'' key \<and> alive (stored w) (time w') key \<noteq> None})) \<and>
     (\<forall>k keys w r w'. nr_mget p k keys w = (r, w') \<longrightarrow> stored w' = stored w \<and> time w \<le> time w' \<and>
        (\<forall>reply. r = Inr reply \<longrightarrow> reply = map (alive (stored w) (time w')) keys)) \<and>
     (\<forall>k key text w r w'. nr_pipe p k (heartbeat_commands key text) w = (r, w') \<longrightarrow> time w \<le> time w' \<and>
        (r = Inr () \<longrightarrow> (\<exists>t. time w \<le> t \<and> t \<le> time w' \<and> stored w' = (stored w)(key \<mapsto> (text, t + 30000)))))"

lemma documented_registryD:
  assumes "documented_registry p stored time"
  shows "nr_connect p w = (r, w') \<Longrightarrow> stored w' = stored w \<and> time w \<le> time w'"
    and "nr_keys p k pat w = (rk, w') \<Longrightarrow> stored w' = stored w \<and> time w \<le> time w'"
    and "nr_keys p k ''runtime_nodes:*'' w = (Inr keys, w') \<Longrightarrow>
      set keys = {key. starts_with ''runtime_nodes:'' key \<and> alive (stored w) (time w') key \<noteq> None}"
    and "nr_mget p k keys w = (rm, w') \<Longrightarrow> stored w' = stored w \<and> time w \<le> time w'"
    and "nr_mget p k keys w = (Inr reply, w') \<Longrightarrow> reply = map (alive (stored w) (time w')) keys"
    and "nr_pipe p k (heartbeat_commands key text) w = (Inr (), w') \<Longrightarrow>
      \<exists>t. time w \<le> t \<and> t \<le> time w' \<and> stored w' = (stored w)(key \<mapsto> (text, t + 30000))"
  using assms unfolding documented_registry_def by blast+

lemma alive_later: "t \<le> t' \<Longrightarrow> alive keys t' key = Some payload \<Longrightarrow> alive keys t key = Some payload"
  by (auto simp: alive_def split: option.splits if_splits)

lemma internal_call_Inr_iff: "internal_call r = (Inr x, w) \<longleftrightarrow> r = (Inr x, w)"
  by (cases r; cases "fst r") (auto simp: internal_call_def)

definition parsed_nodes :: "('k, 'w) node_redis \<Rightarrow> string list \<Rightarrow> node_status list" where
  "parsed_nodes p texts =
     concat (map (\<lambda>payload. case nj_parse_node p payload of Inl _ \<Rightarrow> [] | Inr node \<Rightarrow> [node]) texts)"

lemma set_parsed_nodes:
  "set (parsed_nodes p texts) = {node. \<exists>payload \<in> set texts. nj_parse_node p payload = Inr node}"
  by (auto simp: parsed_nodes_def split: sum.splits)

lemma fetch_runtime_nodes_Inr:
  assumes "fetch_runtime_nodes p w = (Inr nodes, w')"
  obtains k w1 keys w2 where "nr_connect p w = (Inr k, w1)"
    "nr_keys p k ''runtime_nodes:*'' w1 = (Inr keys, w2)"
    "if keys = [] then nodes = [] \<and> w' = w2
     else \<exists>texts. nr_mget p k keys w2 = (Inr (map Some texts), w') \<and> nodes = parsed_nodes p texts"
proof -
  obtain k w1 keys w2 where calls: "nr_connect p w = (Inr k, w1)"
    "nr_keys p k ''runtime_nodes:*'' w1 = (Inr keys, w2)"
    using assms by (auto simp only: fetch_runtime_nodes_def st_then_Inr_iff internal_call_Inr_iff)
  have "internal_call (Inr x, w) = (Inr x, w)" for x :: 'x and w :: 'y
    by (simp add: internal_call_def)
  then show thesis
    using assms that [OF calls] calls
    by (auto simp: fetch_runtime_nodes_def parsed_nodes_def read_strings_def ok_or_def collect_options_Some
        st_then_Inr_iff internal_call_Inr_iff and_then_Inr_iff split: option.splits if_splits)
qed

text \<open>The nodes that are fetched are those whose keys are alive when they are read. A key that expires
  while the registry is read makes the reading fail.\<close>

theorem fetched_nodes_exact:
  assumes "documented_registry p stored time" "fetch_runtime_nodes p w = (Inr nodes, w')"
  shows "\<exists>t. time w \<le> t \<and> t \<le> time w' \<and> set nodes = {node. \<exists>key payload.
    starts_with ''runtime_nodes:'' key \<and> alive (stored w) t key = Some payload \<and>
    nj_parse_node p payload = Inr node}"
proof -
  note D = documented_registryD [OF assms(1)]
  obtain k w1 keys w2 where calls: "nr_connect p w = (Inr k, w1)"
      "nr_keys p k ''runtime_nodes:*'' w1 = (Inr keys, w2)"
    and rest: "if keys = [] then nodes = [] \<and> w' = w2
     else \<exists>texts. nr_mget p k keys w2 = (Inr (map Some texts), w') \<and> nodes = parsed_nodes p texts"
    using assms(2) by (rule fetch_runtime_nodes_Inr)
  have start: "stored w1 = stored w" "time w \<le> time w1" "stored w2 = stored w" "time w1 \<le> time w2"
    using D(1) [OF calls(1)] D(2) [OF calls(2)] by simp_all
  have known: "set keys = {key. starts_with ''runtime_nodes:'' key \<and> alive (stored w) (time w2) key \<noteq> None}"
    using D(3) [OF calls(2)] start by simp
  show ?thesis
  proof (cases "keys = []")
    case True
    then show ?thesis using rest known start by (intro exI [of _ "time w2"]) auto
  next
    case False
    then obtain texts where texts: "nr_mget p k keys w2 = (Inr (map Some texts), w')"
      "nodes = parsed_nodes p texts"
      using rest by auto
    have all: "map (alive (stored w) (time w')) keys = map Some texts"
      using D(5) [OF texts(1)] start(3) by simp
    have later: "time w2 \<le> time w'" using D(4) [OF texts(1)] by simp
    have "payload \<in> set texts \<longleftrightarrow>
        (\<exists>key. starts_with ''runtime_nodes:'' key \<and> alive (stored w) (time w') key = Some payload)" for payload
    proof -
      have "payload \<in> set texts \<longleftrightarrow> Some payload \<in> alive (stored w) (time w') ` set keys"
        using arg_cong [OF all, of set] by auto
      then show ?thesis
        using known alive_later [OF later] by (auto simp: image_iff)
    qed
    then show ?thesis
      using start later texts(2) by (intro exI [of _ "time w'"]) (simp add: set_parsed_nodes, blast)
  qed
qed

text \<open>C39: After a heartbeat that Redis took, and as long as no command touched the node's own key since,
  a reading of the registry that succeeds and ends within thirty seconds of the heartbeat lists the
  node, whatever happened to the keys of other nodes. This asks that the server does what is
  documented of its commands, that the node has a worker group (the unfiltered listing leaves out
  nodes that have none), and that its printed status is read as it was. The node is listed healthy while the
  gateway's clock is at most twenty seconds past the time of the heartbeat, and stale after that;
  thirty seconds after the heartbeat its key is gone. A reading that fails lists nothing, see the
  expiry of another node's key between \<open>KEYS\<close> and \<open>MGET\<close>.\<close>

theorem heartbeat_lists_the_node:
  assumes "documented_registry p stored time"
    and "nj_node p node = Inr payload" "nj_parse_node p payload = Inr node" "ns_worker_groups node \<noteq> []"
    and "nr_connect p w = (Inr k, w0)"
    and "nr_pipe p k (heartbeat_commands (node_key (ns_node_id node)) payload) w0 = (Inr (), w1)"
    and "stored w2 (node_key (ns_node_id node)) = stored w1 (node_key (ns_node_id node))"
    and "fetch_runtime_nodes p w2 = (Inr nodes, w3)" "time w3 < time w + 30000"
  shows "runtime_node_heartbeat p node w = w1 \<and>
    node\<lparr>ns_node_status :=
        if node_stale_after_ms < saturating_sub (epoch_ms now) (ns_last_heartbeat_ms node)
        then NodeStale else NodeHealthy\<rparr>
      \<in> set (fst (show_runtime_nodes (Some p) now default_node_query w2)) \<and>
    (\<forall>t \<ge> time w1 + 30000. alive (stored w2) t (node_key (ns_node_id node)) = None)"
proof -
  note D = documented_registryD [OF assms(1)]
  obtain t where t: "time w \<le> t" "t \<le> time w1"
    "stored w2 (node_key (ns_node_id node)) = Some (payload, t + 30000)"
    using D(1) [OF assms(5)] D(6) [OF assms(6)] assms(7) by fastforce
  have "starts_with ''runtime_nodes:'' (node_key (ns_node_id node))"
    by (simp add: node_key_def starts_with_iff)
  moreover have "alive (stored w2) t' (node_key (ns_node_id node)) = Some payload" if "t' \<le> time w3" for t'
    using that t assms(9) by (simp add: alive_def)
  ultimately have "node \<in> set nodes"
    using fetched_nodes_exact [OF assms(1,8)] assms(3) by fastforce
  then have "node\<lparr>ns_node_status :=
        if node_stale_after_ms < saturating_sub (epoch_ms now) (ns_last_heartbeat_ms node)
        then NodeStale else NodeHealthy\<rparr> \<in> set (annotate_runtime_node_health nodes (epoch_ms now))"
    by (simp add: annotate_runtime_node_health_def image_iff) blast
  then have "node\<lparr>ns_node_status :=
        if node_stale_after_ms < saturating_sub (epoch_ms now) (ns_last_heartbeat_ms node)
        then NodeStale else NodeHealthy\<rparr>
      \<in> set (fst (show_runtime_nodes (Some p) now default_node_query w2))"
    using assms(4,8)
    by (auto simp: show_runtime_nodes_def list_runtime_nodes_def filter_runtime_nodes_def
        matches_node_query_def default_node_query_def matches_group_query_def neq_Nil_conv)
  moreover have "runtime_node_heartbeat p node w = w1"
    using assms(2,5,6) by (simp add: runtime_node_heartbeat_def)
  ultimately show ?thesis using t by (auto simp: alive_def)
qed


section \<open>A small registry\<close>

definition small_node :: node_status where
  "small_node =
     \<lparr>ns_node_id = ''n'', ns_started_at_ms = 0, ns_last_heartbeat_ms = 1000, ns_node_status = NodeHealthy,
      ns_worker_groups = [\<lparr>wg_name = ''g'', wg_bindings = []\<rparr>],
      ns_broker = from_capability_profile ''memory'' required_broker_capabilities
        (cp_enhanced memory_broker_capabilities)\<rparr>"

text \<open>A server that keeps one key at most and takes a millisecond for every call.\<close>

type_synonym small_redis = "(string \<times> string \<times> int) option \<times> int"

definition small_stored :: "small_redis \<Rightarrow> string \<Rightarrow> (string \<times> int) option" where
  "small_stored w = (case fst w of None \<Rightarrow> Map.empty | Some (key, entry) \<Rightarrow> [key \<mapsto> entry])"

definition small_registry :: "(unit, small_redis) node_redis" where
  "small_registry =
     \<lparr>nr_connect = \<lambda>(m, t). (Inr (), m, t + 1),
      nr_keys = \<lambda>_ _ (m, t). (Inr (case m of None \<Rightarrow> []
        | Some (key, payload, expiry) \<Rightarrow>
            if t + 1 < expiry \<and> starts_with ''runtime_nodes:'' key then [key] else []), m, t + 1),
      nr_mget = \<lambda>_ keys (m, t). (Inr (map (alive (small_stored (m, t)) (t + 1)) keys), m, t + 1),
      nr_pipe = \<lambda>_ cmds (m, t).
        (case cmds of
           [[_, key, payload], _, _] \<Rightarrow>
             (case m of
                None \<Rightarrow> (Inr (), Some (key, payload, t + 30000), t + 1)
              | Some (key', _) \<Rightarrow>
                  if key' = key then (Inr (), Some (key, payload, t + 30000), t + 1)
                  else (Inl ''OOM'', m, t + 1))
         | _ \<Rightarrow> (Inl ''ERR'', m, t + 1)),
      nr_publish = \<lambda>_ _ _ w. (Inr 0, w),
      nj_node = \<lambda>node. if node = small_node then Inr ''node'' else Inl ''json'',
      nj_parse_node = \<lambda>s. if s = ''node'' then Inr small_node else Inl ''json'',
      nj_event = \<lambda>_. Inl ''json''\<rparr>"

lemma small_registry_documented: "documented_registry small_registry small_stored snd"
  unfolding documented_registry_def
  by (intro conjI)
    (auto simp: small_registry_def small_stored_def alive_def heartbeat_commands_def fun_eq_iff
      split: option.splits if_splits intro!: exI [of _ "snd _"])

theorem heartbeat_lists_the_node_witness:
  "small_node\<lparr>ns_node_status := NodeStale\<rparr> \<in> set (fst (show_runtime_nodes (Some small_registry)
     22000000000 default_node_query (Some (''runtime_nodes:n'', ''node'', 30001), 22000)))"
proof -
  let ?w1 = "(Some (''runtime_nodes:n'', ''node'', 30001), 2) :: small_redis"
  let ?w2 = "(Some (''runtime_nodes:n'', ''node'', 30001), 22000) :: small_redis"
  let ?w3 = "(Some (''runtime_nodes:n'', ''node'', 30001), 22003) :: small_redis"
  have "nr_connect small_registry (None, 0) = (Inr (), None, 1)"
    "nr_pipe small_registry () (heartbeat_commands (node_key (ns_node_id small_node)) ''node'') (None, 1) =
      (Inr (), ?w1)"
    "small_stored ?w2 (node_key (ns_node_id small_node)) = small_stored ?w1 (node_key (ns_node_id small_node))"
    "nj_node small_registry small_node = Inr ''node''"
    "nj_parse_node small_registry ''node'' = Inr small_node" "ns_worker_groups small_node \<noteq> []"
    by (simp_all add: small_registry_def small_stored_def heartbeat_commands_def node_key_def small_node_def)
  moreover have "fetch_runtime_nodes small_registry ?w2 = (Inr [small_node], ?w3)" by code_simp
  moreover have "node_stale_after_ms < saturating_sub (epoch_ms 22000000000) (ns_last_heartbeat_ms small_node)"
    by code_simp
  ultimately show ?thesis
    using heartbeat_lists_the_node [OF small_registry_documented, of small_node "''node''" "(None, 0)" "()"
        "(None, 1)" ?w1 ?w2 "[small_node]" ?w3 22000000000]
    by simp
qed

end
