(* ===== verification/Metrics_Text.thy ===== *)
theory Metrics_Text
  imports Metrics Task_Service
begin

text \<open>
  The metrics page (render_prometheus_metrics of crates/nexus-runtime/src/metrics.rs): the families
  that the process registers, the gauges that are set anew on every request, and the counters of
  \<^theory_text>\<open>Metrics\<close>. The gauges of the library are signed 64-bit numbers; a family is a map from the
  values of its labels. The encoder of the library is an argument.
\<close>

section \<open>Families\<close>

datatype family_kind = GaugeFamily | CounterFamily

record metric_family =
  mf_kind :: family_kind
  mf_name :: string
  mf_help :: string
  mf_labels :: "string list"

definition broker_info :: metric_family where
  "broker_info = \<lparr>mf_kind = GaugeFamily, mf_name = ''nexus_runtime_broker_info'',
     mf_help = ''Runtime broker identity for the current node'', mf_labels = [''node_id'', ''broker'']\<rparr>"

definition worker_group_count :: metric_family where
  "worker_group_count = \<lparr>mf_kind = GaugeFamily, mf_name = ''nexus_runtime_worker_group_count'',
     mf_help = ''Configured runtime worker group count for the current node'', mf_labels = [''node_id'']\<rparr>"

definition queue_depth :: metric_family where
  "queue_depth = \<lparr>mf_kind = GaugeFamily, mf_name = ''nexus_runtime_queue_depth'',
     mf_help = ''Runtime broker queue depth by state'',
     mf_labels = [''node_id'', ''broker'', ''queue'', ''lane'', ''state'']\<rparr>"

definition broker_required_capability :: metric_family where
  "broker_required_capability = \<lparr>mf_kind = GaugeFamily, mf_name = ''nexus_runtime_broker_required_capability'',
     mf_help = ''Required broker capability availability'', mf_labels = [''node_id'', ''broker'', ''capability'']\<rparr>"

definition broker_enhanced_capability :: metric_family where
  "broker_enhanced_capability = \<lparr>mf_kind = GaugeFamily, mf_name = ''nexus_runtime_broker_enhanced_capability'',
     mf_help = ''Enhanced broker capability availability'', mf_labels = [''node_id'', ''broker'', ''capability'']\<rparr>"

definition broker_setting_ms :: metric_family where
  "broker_setting_ms = \<lparr>mf_kind = GaugeFamily, mf_name = ''nexus_runtime_broker_setting_milliseconds'',
     mf_help = ''Broker lease or reclaim timing settings in milliseconds'',
     mf_labels = [''node_id'', ''broker'', ''setting'']\<rparr>"

definition broker_reclaim_total :: metric_family where
  "broker_reclaim_total = \<lparr>mf_kind = CounterFamily, mf_name = ''nexus_runtime_broker_reclaim_total'',
     mf_help = ''Number of task leases reclaimed by the broker'', mf_labels = [''broker'', ''queue'', ''lane'']\<rparr>"

definition broker_reclaim_orphan_cleanup_total :: metric_family where
  "broker_reclaim_orphan_cleanup_total = \<lparr>mf_kind = CounterFamily,
     mf_name = ''nexus_runtime_broker_reclaim_orphan_cleanup_total'',
     mf_help = ''Number of orphaned pending entries cleaned during broker reclaim'',
     mf_labels = [''broker'', ''queue'', ''lane'']\<rparr>"

definition broker_retry_total :: metric_family where
  "broker_retry_total = \<lparr>mf_kind = CounterFamily, mf_name = ''nexus_runtime_broker_retry_total'',
     mf_help = ''Number of broker retry operations by disposition'',
     mf_labels = [''broker'', ''queue'', ''lane'', ''disposition'']\<rparr>"

definition broker_dead_letter_total :: metric_family where
  "broker_dead_letter_total = \<lparr>mf_kind = CounterFamily, mf_name = ''nexus_runtime_broker_dead_letter_total'',
     mf_help = ''Number of broker dead-letter operations by reason'',
     mf_labels = [''broker'', ''queue'', ''lane'', ''reason'']\<rparr>"

definition broker_replay_total :: metric_family where
  "broker_replay_total = \<lparr>mf_kind = CounterFamily, mf_name = ''nexus_runtime_broker_replay_total'',
     mf_help = ''Number of broker dead-letter replay operations'',
     mf_labels = [''broker'', ''queue'', ''lane'']\<rparr>"

definition broker_operation_total :: metric_family where
  "broker_operation_total = \<lparr>mf_kind = CounterFamily, mf_name = ''nexus_runtime_broker_operation_total'',
     mf_help = ''Number of successful broker operations'',
     mf_labels = [''broker'', ''queue'', ''lane'', ''operation'']\<rparr>"

definition broker_operation_failure_total :: metric_family where
  "broker_operation_failure_total = \<lparr>mf_kind = CounterFamily,
     mf_name = ''nexus_runtime_broker_operation_failure_total'',
     mf_help = ''Number of failed broker operations'',
     mf_labels = [''broker'', ''queue'', ''lane'', ''operation'']\<rparr>"

text \<open>What \<^theory_text>\<open>Lazy::force\<close> registers, in its order.\<close>

definition forced_families :: "metric_family list" where
  "forced_families =
     [broker_info, worker_group_count, queue_depth, broker_required_capability, broker_enhanced_capability,
      broker_setting_ms, broker_reclaim_total, broker_reclaim_orphan_cleanup_total, broker_retry_total,
      broker_dead_letter_total, broker_replay_total, broker_operation_total, broker_operation_failure_total]"

section \<open>Gauges\<close>

type_synonym gauges = "(string \<times> string list, 64 word) hash_map"

text \<open>\<^theory_text>\<open>family.with_label_values(labels).set(value)\<close> and \<^theory_text>\<open>family.reset()\<close>.\<close>

definition set_gauge :: "metric_family \<Rightarrow> string list \<Rightarrow> 64 word \<Rightarrow> gauges \<Rightarrow> gauges" where
  "set_gauge f labels v = hm_insert (mf_name f, labels) v"

definition reset_family :: "metric_family \<Rightarrow> gauges \<Rightarrow> gauges" where
  "reset_family f g = filter (\<lambda>((name, _), _). name \<noteq> mf_name f) g"

definition gauge :: "gauges \<Rightarrow> metric_family \<Rightarrow> string list \<Rightarrow> 64 word option" where
  "gauge g f labels = map_of g (mf_name f, labels)"

definition bool_to_gauge :: "bool \<Rightarrow> 64 word" where
  "bool_to_gauge v = (if v then 1 else 0)"

definition set_queue_depth_metric ::
    "string \<Rightarrow> string \<Rightarrow> string \<Rightarrow> string \<Rightarrow> string \<Rightarrow> nat \<Rightarrow> gauges \<Rightarrow> gauges" where
  "set_queue_depth_metric node_id broker queue lane state v =
     set_gauge queue_depth [node_id, broker, queue, lane, state] (of_nat v)"

definition set_required_capability_metrics ::
    "string \<Rightarrow> broker_observability_status \<Rightarrow> gauges \<Rightarrow> gauges" where
  "set_required_capability_metrics node_id status g =
     (let broker = bo_broker status; c = bo_required_capabilities status;
          put = (\<lambda>name v. set_gauge broker_required_capability [node_id, broker, name] (bool_to_gauge v))
      in put ''reject'' (rc_reject c) (put ''retry'' (rc_retry c) (put ''ack'' (rc_ack c)
           (put ''reserve'' (rc_reserve c) (put ''enqueue'' (rc_enqueue c) g)))))"

definition set_enhanced_capability_metrics ::
    "string \<Rightarrow> broker_observability_status \<Rightarrow> gauges \<Rightarrow> gauges" where
  "set_enhanced_capability_metrics node_id status g =
     (let broker = bo_broker status; c = bo_enhanced_capabilities status;
          put = (\<lambda>name v. set_gauge broker_enhanced_capability [node_id, broker, name] (bool_to_gauge v))
      in put ''crash_reclaim'' (ec_crash_reclaim c) (put ''route_fairness'' (ec_route_fairness c)
           (put ''dead_letter_replay'' (ec_dead_letter_replay c)
             (put ''dead_letter_store'' (ec_dead_letter_store c) (put ''stats'' (ec_stats c) g)))))"

definition set_stat_metrics :: "string \<Rightarrow> string \<Rightarrow> queue_stats \<Rightarrow> gauges \<Rightarrow> gauges" where
  "set_stat_metrics node_id broker stat g =
     (let put = set_queue_depth_metric node_id broker (qs_queue stat) (qs_lane stat)
      in put ''dead_lettered'' (qs_dead_lettered stat)
           (put ''leased'' (qs_leased stat) (put ''queued'' (qs_queued stat) g)))"

definition set_setting :: "string \<Rightarrow> string \<Rightarrow> string \<Rightarrow> u64 option \<Rightarrow> gauges \<Rightarrow> gauges" where
  "set_setting node_id broker name v g =
     (case v of None \<Rightarrow> g | Some n \<Rightarrow> set_gauge broker_setting_ms [node_id, broker, name] n g)"

section \<open>The page\<close>

text \<open>The gauges after a request, once the statistics have been read.\<close>

definition page_gauges :: "node_status \<Rightarrow> queue_stats list \<Rightarrow> gauges \<Rightarrow> gauges" where
  "page_gauges node stats g =
     (let status = ns_broker node; node_id = ns_node_id node; broker = bo_broker status;
          g = set_gauge broker_info [node_id, broker] 1 (reset_family broker_info g);
          g = set_gauge worker_group_count [node_id] (of_nat (length (ns_worker_groups node)))
                (reset_family worker_group_count g);
          g = fold (set_stat_metrics node_id broker) stats (reset_family queue_depth g);
          g = set_required_capability_metrics node_id status (reset_family broker_required_capability g);
          g = set_enhanced_capability_metrics node_id status (reset_family broker_enhanced_capability g);
          g = set_setting node_id broker ''ack_wait_ms'' (bo_ack_wait_ms status) (reset_family broker_setting_ms g)
      in set_setting node_id broker ''pending_reclaim_idle_ms'' (bo_pending_reclaim_idle_ms status) g)"

text \<open>
  The encoder gets the registered families with what they hold; its bytes, or None for an error. The
  last step is the check of the UTF-8.
\<close>

definition render_prometheus_metrics ::
    "('q, 'obs) service_parts \<Rightarrow> (metric_family list \<Rightarrow> gauges \<Rightarrow> metrics \<Rightarrow> string option) \<Rightarrow>
       (string \<Rightarrow> bool) \<Rightarrow> system_time \<Rightarrow> metrics \<Rightarrow> gauges \<times> ('q, 'obs) task_service \<Rightarrow>
       string app_result \<times> gauges \<times> ('q, 'obs) task_service" where
  "render_prometheus_metrics e encode utf8 now m s =
     (case s of (g, s) \<Rightarrow>
      let node = node_status_of now s
      in case queue_stats_of e s of
           (Inl error, s) \<Rightarrow> (Inl error, g, s)
         | (Inr stats, s) \<Rightarrow>
             let g = page_gauges node stats g
             in (case encode forced_families g m of
                   None \<Rightarrow> Inl Internal
                 | Some buffer \<Rightarrow> if utf8 buffer then Inr buffer else Inl Internal, g, s))"

section \<open>What the page tells\<close>

lemma family_names_differ: "distinct (map mf_name forced_families)"
  by code_simp

lemma gauge_set: "gauge (set_gauge f ls v g) f' ls' =
    (if mf_name f' = mf_name f \<and> ls' = ls then Some v else gauge g f' ls')"
  by (auto simp: gauge_def set_gauge_def)

lemma gauge_reset: "gauge (reset_family f g) f' ls = (if mf_name f' = mf_name f then None else gauge g f' ls)"
  by (induction g) (auto simp: gauge_def reset_family_def)

definition stat_value :: "string \<Rightarrow> queue_stats \<Rightarrow> nat option" where
  "stat_value state st =
     (if state = ''queued'' then Some (qs_queued st)
      else if state = ''leased'' then Some (qs_leased st)
      else if state = ''dead_lettered'' then Some (qs_dead_lettered st) else None)"

lemma gauge_stat:
  "gauge (set_stat_metrics n b st g) f [n', b', queue, lane, state] =
     (if mf_name f = mf_name queue_depth \<and> n' = n \<and> b' = b \<and> queue = qs_queue st \<and> lane = qs_lane st
      then (case stat_value state st of None \<Rightarrow> gauge g f [n', b', queue, lane, state] | Some k \<Rightarrow> Some (of_nat k))
      else gauge g f [n', b', queue, lane, state])"
  by (auto simp: set_stat_metrics_def set_queue_depth_metric_def gauge_set stat_value_def Let_def)

lemma gauge_stats:
  "gauge (fold (set_stat_metrics n b) stats g) queue_depth [n', b', queue, lane, state] =
     (case find (\<lambda>st. n' = n \<and> b' = b \<and> qs_queue st = queue \<and> qs_lane st = lane \<and> stat_value state st \<noteq> None)
        (rev stats) of
        None \<Rightarrow> gauge g queue_depth [n', b', queue, lane, state]
      | Some st \<Rightarrow> map_option of_nat (stat_value state st))"
proof (induction stats rule: rev_induct)
  case (snoc st stats)
  then show ?case by (auto simp: gauge_stat split: option.splits)
qed simp

lemma gauge_other_family:
  "mf_name f' \<noteq> mf_name broker_setting_ms \<Longrightarrow> gauge (set_setting n b name v g) f' ls = gauge g f' ls"
  "mf_name f' \<noteq> mf_name broker_required_capability \<Longrightarrow>
     gauge (set_required_capability_metrics n status g) f' ls = gauge g f' ls"
  "mf_name f' \<noteq> mf_name broker_enhanced_capability \<Longrightarrow>
     gauge (set_enhanced_capability_metrics n status g) f' ls = gauge g f' ls"
  by (auto simp: set_setting_def set_required_capability_metrics_def set_enhanced_capability_metrics_def
      gauge_set Let_def split: option.splits)

text \<open>The page shows the depth of a queue exactly when the statistics that were just read have it, for
  this node and its broker; nothing of an earlier request stays. Of two entries for a route the later
  one shows.\<close>

theorem page_shows_the_current_depths:
  "gauge (page_gauges node stats g) queue_depth [n, b, queue, lane, state] =
     (case find (\<lambda>st. n = ns_node_id node \<and> b = bo_broker (ns_broker node) \<and> qs_queue st = queue \<and>
          qs_lane st = lane \<and> stat_value state st \<noteq> None) (rev stats) of
        None \<Rightarrow> None
      | Some st \<Rightarrow> map_option of_nat (stat_value state st))"
proof -
  have names: "mf_name queue_depth \<noteq> mf_name broker_setting_ms"
    "mf_name queue_depth \<noteq> mf_name broker_required_capability"
    "mf_name queue_depth \<noteq> mf_name broker_enhanced_capability"
    by code_simp+
  then show ?thesis
    by (simp add: page_gauges_def Let_def gauge_other_family gauge_reset gauge_stats cong: option.case_cong)
qed

end
