(* ===== verification/Routes.thy ===== *)
theory Routes
  imports Rust_Strings
begin

text \<open>
  The route tables of the processes: build_router of nexus-auth, nexus-jobs, nexus-oj and
  nexus-runtime, the gateway's build_router_with_services, and the table of a process that only runs
  workers (nexus-app/src/main.rs). A segment that starts with a colon stands for any text.
\<close>

datatype http_method = GET | POST | PUT

type_synonym route_entry = "http_method \<times> string"

definition auth_routes :: "route_entry list" where
  "auth_routes = [(GET, ''/api/v1/auth/me'')]"

definition jobs_routes :: "route_entry list" where
  "jobs_routes =
     [(GET, ''/api/v1/jobs''), (GET, ''/api/v1/jobs/handlers''), (GET, ''/api/v1/jobs/management/overview''),
      (GET, ''/api/v1/jobs/:job_id/history''), (GET, ''/api/v1/jobs/:job_id'')]"

definition oj_routes :: "route_entry list" where
  "oj_routes =
     [(GET, ''/api/v1/oj/catalog/languages''), (GET, ''/api/v1/oj/catalog/judge-modes''),
      (GET, ''/api/v1/oj/catalog/templates/:language/:mode''),
      (GET, ''/api/v1/oj/problems''), (POST, ''/api/v1/oj/problems''),
      (GET, ''/api/v1/oj/problems/:problem_id''), (PUT, ''/api/v1/oj/problems/:problem_id''),
      (GET, ''/api/v1/oj/submissions''), (POST, ''/api/v1/oj/submissions''),
      (GET, ''/api/v1/oj/submissions/:submission_id''),
      (GET, ''/api/v1/oj/submissions/:submission_id/runtime-task''),
      (POST, ''/api/v1/oj/easy-judge/submissions'')]"

definition runtime_routes :: "route_entry list" where
  "runtime_routes =
     [(POST, ''/api/v1/runtime/tasks/simulate''), (POST, ''/api/v1/runtime/tasks/schedule''),
      (GET, ''/api/v1/runtime/tasks/:task_id''), (GET, ''/api/v1/runtime/node''),
      (GET, ''/api/v1/runtime/broker''), (GET, ''/api/v1/runtime/management/broker''),
      (GET, ''/api/v1/runtime/management/runbooks''), (GET, ''/api/v1/runtime/queues/stats''),
      (GET, ''/api/v1/runtime/worker-groups''), (GET, ''/api/v1/runtime/queues/dead-letters''),
      (GET, ''/api/v1/runtime/queues/replays''),
      (POST, ''/api/v1/runtime/queues/dead-letters/:delivery_id/replay'')]"

definition gateway_routes :: "bool \<Rightarrow> route_entry list" where
  "gateway_routes expose_runtime_api =
     [(GET, ''/healthz''), (GET, ''/api/v1/system/health''), (GET, ''/metrics''),
      (GET, ''/api/v1/runtime/nodes''), (GET, ''/api/v1/runtime/nodes/summary'')] @
     auth_routes @ jobs_routes @ oj_routes @ (if expose_runtime_api then runtime_routes else [])"

definition worker_routes :: "route_entry list" where
  "worker_routes =
     [(GET, ''/healthz''), (GET, ''/api/v1/system/health''), (GET, ''/metrics'')] @ runtime_routes"

section \<open>Starting\<close>

text \<open>
  The web framework panics when a table has a method and path twice, and when two paths name the
  parameter at one place differently. The flag tells whether the common part ends in a parameter.
\<close>

fun params_clash :: "bool \<Rightarrow> string \<Rightarrow> string \<Rightarrow> bool" where
  "params_clash inside (a # as) (b # bs) =
     (if a = b then params_clash (a \<noteq> CHR ''/'' \<and> (inside \<or> a = CHR '':'')) as bs else inside)"
| "params_clash inside [] (b # bs) = (inside \<and> b \<noteq> CHR ''/'')"
| "params_clash inside (a # as) [] = (inside \<and> a \<noteq> CHR ''/'')"
| "params_clash inside [] [] = False"

definition table_accepted :: "route_entry list \<Rightarrow> bool" where
  "table_accepted table \<longleftrightarrow> distinct table \<and>
     list_all (\<lambda>(_, a). list_all (\<lambda>(_, b). \<not> params_clash False a b) table) table"

text \<open>No process panics when its routers are built.\<close>

theorem route_tables_are_accepted:
  "table_accepted (gateway_routes expose) \<and> table_accepted worker_routes"
proof -
  have all: "table_accepted (gateway_routes True)" by code_simp
  have part: "table_accepted table" if "distinct table" "set table \<subseteq> set (gateway_routes True)" for table
    using all that unfolding table_accepted_def list_all_iff by blast
  have "table_accepted (gateway_routes False)"
    by (rule part) (use all in \<open>auto simp: table_accepted_def gateway_routes_def\<close>)
  moreover have "table_accepted worker_routes"
    by (rule part) (use all in \<open>auto simp: table_accepted_def gateway_routes_def worker_routes_def\<close>)
  ultimately show ?thesis using all by (cases expose) simp_all
qed

end
