(* ===== verification/App_Start.thy ===== *)
theory App_Start
  imports Node_Registry Metrics_Text Routes
begin

text \<open>
  The start of a process (crates/nexus-app/src/main.rs) and the connection of the pool
  (crates/nexus-storage/src/postgres.rs). The operating system, the web server, the Postgres driver
  and the building of queue and repositories are arguments: \<open>'pool\<close> is a connected pool, \<open>'l\<close> a
  bound listener. A server that is asked to shut down returns. What the process runs beside the
  server - workers and heartbeats - is given to the server's argument with the services.
\<close>

record ('pool, 'addr, 'l, 'q, 'p, 's, 'w) process =
  pr_pool_connect :: "postgres_config \<Rightarrow> 'w \<Rightarrow> (string + 'pool) \<times> 'w"
  pr_pool_query :: "'pool \<Rightarrow> string \<Rightarrow> 'w \<Rightarrow> (string + unit) \<times> 'w"
  pr_migrator :: "string \<Rightarrow> 'w \<Rightarrow> (string + string list) \<times> 'w"
  pr_migrate :: "'pool \<Rightarrow> string list \<Rightarrow> 'w \<Rightarrow> (string + unit) \<times> 'w"
  pr_bind :: "'addr \<Rightarrow> 'w \<Rightarrow> (string + 'l) \<times> 'w"
  pr_parts :: "'addr app_config \<Rightarrow> 'w \<Rightarrow> ('q \<times> ('p, 's) oj_state \<times> files) app_result \<times> 'w"
  pr_clock :: "'w \<Rightarrow> system_time \<times> 'w"
  pr_redis_opens :: "string \<Rightarrow> bool"
  pr_serve :: "'l \<Rightarrow> route_entry list \<Rightarrow> string list option \<Rightarrow> ('q, 'p, 's) gateway \<Rightarrow>
    worker_group list option \<Rightarrow> bool \<Rightarrow> 'w \<Rightarrow> (string + unit) \<times> 'w"

definition database_call :: "(string + 'a) \<times> 'w \<Rightarrow> 'a app_result \<times> 'w" where
  "database_call r = (case r of (Inl e, w) \<Rightarrow> (Inl (Database e), w) | (Inr x, w) \<Rightarrow> (Inr x, w))"

section \<open>The pool\<close>

definition pool_connect ::
    "('pool, 'addr, 'l, 'q, 'p, 's, 'w) process \<Rightarrow> postgres_config \<Rightarrow> 'w \<Rightarrow> 'pool app_result \<times> 'w" where
  "pool_connect p config w =
     st_then (validate_postgres config, w) (\<lambda>_ w. database_call (pr_pool_connect p config w))"

definition pool_ping ::
    "('pool, 'addr, 'l, 'q, 'p, 's, 'w) process \<Rightarrow> 'pool \<Rightarrow> 'w \<Rightarrow> unit app_result \<times> 'w" where
  "pool_ping p pool w = database_call (pr_pool_query p pool ''select 1'' w)"

definition pool_migrate ::
    "('pool, 'addr, 'l, 'q, 'p, 's, 'w) process \<Rightarrow> 'pool \<Rightarrow> string \<Rightarrow> 'w \<Rightarrow> unit app_result \<times> 'w" where
  "pool_migrate p pool path w =
     st_then (database_call (pr_migrator p path w)) (\<lambda>migrations w.
       database_call (pr_migrate p pool migrations w))"

section \<open>The process\<close>

definition migrate_first ::
    "('pool, 'addr, 'l, 'q, 'p, 's, 'w) process \<Rightarrow> string \<Rightarrow> 'addr app_config \<Rightarrow> 'w \<Rightarrow> unit app_result \<times> 'w" where
  "migrate_first p dir config w =
     (if ac_oj_repository config = RepositoryPostgres
      then st_then (pool_connect p (ac_postgres config) w) (\<lambda>pool w. pool_migrate p pool dir w)
      else (Inr (), w))"

definition bind_listener ::
    "('pool, 'addr, 'l, 'q, 'p, 's, 'w) process \<Rightarrow> 'addr app_config \<Rightarrow> 'w \<Rightarrow> 'l app_result \<times> 'w" where
  "bind_listener p config w = internal_call (pr_bind p (sc_bind_addr (ac_server config)) w)"

definition build_services ::
    "('pool, 'addr, 'l, 'q, 'p, 's, 'w) process \<Rightarrow> 'addr app_config \<Rightarrow> 'w \<Rightarrow> ('q, 'p, 's) gateway app_result \<times> 'w" where
  "build_services p config w =
     st_then (pr_parts p config w) (\<lambda>(q, oj, fs) w.
       case pr_clock p w of (now, w) \<Rightarrow> (Inr (build_gateway_services (ac_runtime config) now q oj fs), w))"

definition start_runtime :: "'addr app_config \<Rightarrow> ('q, 'p, 's) gateway \<Rightarrow> ('q, 'p, 's) gateway" where
  "start_runtime config g =
     g\<lparr>gw_runtime := start_background_workers (map_runtime_worker_groups (cg_worker_groups (ac_runtime config)))
        (register_node (cg_node_id (ac_runtime config)) (gw_runtime g))\<rparr>"

text \<open>The process serves: the listener, the routes, the origins for CORS (None: no such layer), the
  services, the workers that run and whether heartbeats are sent.\<close>

definition app_main ::
    "('pool, 'addr, 'l, 'q, 'p, 's, 'w) process \<Rightarrow> string \<Rightarrow> 'addr app_config app_result \<Rightarrow> 'w \<Rightarrow>
       unit app_result \<times> 'w" where
  "app_main p migrations_dir from_env w =
     st_then (from_env, w) (\<lambda>config w.
     st_then (migrate_first p migrations_dir config w) (\<lambda>_ w.
     st_then (bind_listener p config w) (\<lambda>listener w.
     st_then (build_services p config w) (\<lambda>g w.
     let groups = map_runtime_worker_groups (cg_worker_groups (ac_runtime config));
         origins = sc_cors_allowed_origins (ac_server config);
         redis = pr_redis_opens p (ac_redis_url config)
     in internal_call (case ac_process_role config of
          RoleEmbedded \<Rightarrow>
            pr_serve p listener (gateway_routes True) (Some origins) (start_runtime config g) (Some groups) redis w
        | RoleGateway \<Rightarrow> pr_serve p listener (gateway_routes False) (Some origins) g None False w
        | RoleRuntimeWorker \<Rightarrow>
            pr_serve p listener worker_routes None (start_runtime config g) (Some groups) redis w)))))"

text \<open>The page of the metrics, which gateway and worker serve alike.\<close>

definition runtime_metrics ::
    "('q, 'obs) service_parts \<Rightarrow> (metric_family list \<Rightarrow> gauges \<Rightarrow> metrics \<Rightarrow> string option) \<Rightarrow>
       (string \<Rightarrow> bool) \<Rightarrow> system_time \<Rightarrow> metrics \<Rightarrow> gauges \<times> ('q, 'obs) task_service \<Rightarrow>
       ((string \<times> string) \<times> string) app_result \<times> gauges \<times> ('q, 'obs) task_service" where
  "runtime_metrics e encode utf8 now m s =
     st_then (render_prometheus_metrics e encode utf8 now m s) (\<lambda>body s.
       (Inr ((''content-type'', ''text/plain; version=0.0.4''), body), s))"

definition healthz :: "string \<Rightarrow> health_status" where
  "healthz version = health_ok ''nexus-gateway'' version"

definition runtime_worker_healthz :: "string \<Rightarrow> health_status" where
  "runtime_worker_healthz version = health_ok ''nexus-runtime-worker'' version"

section \<open>What is served\<close>

text \<open>A process that serves has bound its address and, over Postgres, migrated the database before it
  built its services. It runs workers and offers the runtime's API unless it is a gateway; a gateway
  shows the default node without groups of its configuration.\<close>

theorem served_process:
  assumes "app_main p dir from_env w = (Inr (), w')"
  shows "\<exists>config w1 listener w2 g w3 routes origins groups redis.
    from_env = Inr config \<and> migrate_first p dir config w = (Inr (), w1) \<and>
    bind_listener p config w1 = (Inr listener, w2) \<and> build_services p config w2 = (Inr g, w3) \<and>
    pr_serve p listener routes origins
      (if groups = None then g else start_runtime config g) groups redis w3 = (Inr (), w') \<and>
    (groups = None \<longleftrightarrow> ac_process_role config = RoleGateway) \<and>
    (set runtime_routes \<subseteq> set routes \<longleftrightarrow> ac_process_role config \<noteq> RoleGateway) \<and>
    (ac_oj_repository config = RepositoryPostgres \<longrightarrow> validate_postgres (ac_postgres config) = Inr ())"
proof -
  obtain config u w1 listener w2 g w3 where steps0:
    "from_env = Inr config" "migrate_first p dir config w = (Inr u, w1)"
    "bind_listener p config w1 = (Inr listener, w2)" "build_services p config w2 = (Inr g, w3)"
    using assms by (auto simp only: app_main_def st_then_Inr_iff prod.inject)
  note steps = steps0 [unfolded unit_eq [of u]]
  have valid: "ac_oj_repository config = RepositoryPostgres \<longrightarrow> validate_postgres (ac_postgres config) = Inr ()"
    using steps(2) by (auto simp: migrate_first_def pool_connect_def st_then_Inr_iff split: if_splits)
  have exposed: "set runtime_routes \<subseteq> set (gateway_routes True)" "set runtime_routes \<subseteq> set worker_routes"
    by (auto simp: gateway_routes_def worker_routes_def)
  have hidden: "\<not> set runtime_routes \<subseteq> set (gateway_routes False)" by code_simp
  note served = assms [unfolded app_main_def steps st_then_simps Let_def, unfolded internal_call_Inr_iff]
  have result: ?thesis if "pr_serve p listener routes origins
      (if groups = None then g else start_runtime config g) groups redis w3 = (Inr (), w')"
    "groups = None \<longleftrightarrow> ac_process_role config = RoleGateway"
    "set runtime_routes \<subseteq> set routes \<longleftrightarrow> ac_process_role config \<noteq> RoleGateway"
    for routes origins groups redis
    using that steps valid by blast
  show ?thesis
  proof (cases "ac_process_role config")
    case RoleGateway
    then show ?thesis
      using served hidden by (intro result [of "gateway_routes False" _ None]) simp_all
  next
    case RoleEmbedded
    then show ?thesis
      using served exposed(1) by (intro result [of "gateway_routes True" _ "Some _"]) simp_all
  next
    case RoleRuntimeWorker
    then show ?thesis
      using served exposed(2) by (intro result [of worker_routes _ "Some _"]) simp_all
  qed
qed

end
