(* ===== verification/Spec2Isabelle.thy ===== *)
theory Spec2Isabelle
  imports Queue_Steps Runtime_Router Broker_Shared Config_Props Job_Props Verdicts
    Rabbitmq_Runs Redis_Runs Alert_Relay_Props Oj_Postgres_Runs
    Auth Seccomp_Tool App_Start
begin

text \<open>
  NexusCore is an online judge. A client submits a program to the gateway; the oj domain stores the
  submission and builds a job from it; the job platform validates the job and schedules it as a
  runtime task; a queue hands the task to a worker group; a worker lays out a work directory,
  compiles the program and runs it on each test case in a sandbox, judges the outputs and reports
  events, which update the submission and the history of the job. This development models that
  path, from the configuration to the verdict, as functions on explicit state, one theory per
  component in the order in which the code composes them.

  \<^bold>\<open>How the code's constructs appear.\<close> A struct is a record and an enum a datatype with the
  source's fields and constructors under a prefix; \<open>AppResult\<close> is a sum with the error on the
  left; a method on \<open>&self\<close> with interior state takes the state last and returns it changed; a
  trait object is a record of its operations, and code that is generic in it takes the record as an
  argument. Machine integers are words of their width with the wrap-around of a release build;
  \<open>usize\<close> counters are \<open>nat\<close>. A \<open>String\<close> is the list of its UTF-8 bytes. A
  \<open>HashMap\<close> is an association list in which an insertion keeps the place of a present key, a
  \<open>BTreeMap\<close> a sorted one. A panic of the worker is the result None or \<open>WorkerDied\<close>. Every reading
  of the clock is a parameter of the operation that reads it. Poisoned locks are not modelled: no
  code that holds a lock panics.

  \<^bold>\<open>Shared parts.\<close> Prelude: results, maps, sorted insertion, slices, saturating arithmetic.
  Rust_Strings, Rust_Chars, Rust_Trim: splitting, trimming, formatting and parsing as the standard
  library does them on UTF-8. Float64: the numbers that judge.rs compares, as an ordered field with
  NaN and infinities. Shared: crates/nexus-shared. Protocol: nexus-runtime/src/protocol.rs.

  \<^bold>\<open>The runtime (crates/nexus-runtime/src).\<close>
  \<^item> Judge: judge.rs. A text judged against itself, symmetry of the verdict, token multisets.
  \<^item> Runtime_Types: the values of executor.rs and the capability profiles of broker/mod.rs.
  \<^item> Metrics: the counters and the failure windows of metrics.rs; the report is exact.
  \<^item> Task_Queue states the queue interface as locales; Queue models InMemoryRuntimeTaskQueue,
    Queue_Inv its invariant, Memory_Queue interprets the locales on it, Queue_Stats its statistics,
    Queue_Props its behaviour over all runs: no task is lost if no two have the same id, a due route
    is served, a retry comes back after its delay and behind the tasks ahead of it. Queue_Steps splits the operations into their critical sections and looks
    at every interleaving: tasks with different ids are still conserved, but a route that is listed
    without a bucket makes every poll bound to it give up until the next task arrives on it.
  \<^item> Host, Planning: planning.rs, with the file system and the environment as parameters. Seccomp:
    the profiles of executor.rs and what they can never allow. Sandbox: the command lines.
  \<^item> Prepare, Execute: RuntimeWorker of executor.rs; a process is a parameter, a function from the
    command, its limits and the files it reads to an exit and the files it writes. Prepare_Props
    shows what a work directory holds and exactly which tasks are refused; Execute_Props that a
    program computing \<open>f\<close>, run on a prepared task, is judged case by case as the validator judges
    \<open>f\<close> of each input, and the limits of that: late programs, readable answers, excerpts that
    panic.
  \<^item> Task_Service: RuntimeTaskService of executor.rs. schedule spawns the Queued event: it waits in
    the state until \<open>deliver_spawned\<close>, a step of its own, hands it to the observer. Service_Props
    follows one worker round, Service_Runs every run of the service. Runtime_Router: router.rs.
  \<^item> Broker_Shared: what the RabbitMQ, NATS and Redis adapters share in broker/mod.rs.
    Broker_Client: how they call their client libraries, calls that may not return, and invariants
    that every step keeps. Rabbitmq, Nats and Redis_Streams model broker/rabbitmq.rs, nats.rs and
    redis.rs operation by operation. Rabbitmq_Props and Rabbitmq_Runs: the adapter stays well formed;
    the loops over dead letters end on a broker whose reads shrink its queues; a retry never
    acknowledges what it answers; statistics, which hold the lock of the leases, wait for it when an inspection fails. Nats_Props and
    Redis_Props: well-formedness in every run; an adapter that only reserves and settles polls no
    route over RabbitMQ and NATS, and the routes of all processes over Redis;
    over Redis a settled task is still on the server, whatever fails. Redis_Runs: a small server.

  \<^bold>\<open>Job platform (crates/nexus-jobs/src).\<close> Job_Types holds its data, Jobs the registry, the stores,
  validation, submission and the observer, Job_Queries the queries. Job_Props states the stores and
  the platform as locales and shows that handlers resolve by their type, that pages and totals of a
  management view agree, and what a submission leaves behind.

  \<^bold>\<open>Online judge (crates/nexus-oj/src).\<close> Oj_Domain: domain.rs and language.rs. Oj_Projection: the
  validation of problems and the projection of runtime events onto submissions of application.rs.
  Oj_Service: the service over any repositories, the repositories in memory, and the handlers of
  lib.rs. Oj_Postgres: the repositories of infrastructure.rs, statement by statement. Oj_Props relates it to the worker: which of the drafts it
  accepts the worker prepares. Verdicts
  shows what a submission tells of an execution, what a late event does to it, and how easy answers
  are judged. Oj_Postgres_Props says what SQL promises of the statements (\<open>documented_pg\<close>) and
  shows that writes are all or nothing, that a saved problem comes back, and how the submission that
  is shown after an event relates to the one in memory. Oj_Postgres_Runs: a small database.

  \<^bold>\<open>Configuration and gateway.\<close> Config: crates/nexus-config and the settings check of
  crates/nexus-storage; Config_Props: the worker group syntax loses nothing. Gateway: the services,
  observers and node registry views of crates/nexus-gateway. The world of the gateway is one record
  that all its services share. Gateway_Props: a submitted job is known and queued once.
  Gateway_Runs: runs of clients, worker rounds, spawned events and replays over the parts in
  memory, in which every task that waits, is leased or is dead belongs to a stored submission or was posted to
  the runtime API's own schedule endpoint, which accepts any task. They take one
  request as a step; Queue_Steps and the spawned events are where finer interleavings are looked at.

  \<^bold>\<open>Alert relay (crates/nexus-alert-relay).\<close> Alert_Relay: settings, messages, forwarding and the audit
  log of main.rs. Alert_Relay_Props: a fan-out is a reference that posts until one message fails, the
  number of rotated files is bounded, a full log file is never touched again.

  \<^bold>\<open>Processes.\<close> Auth: crates/nexus-auth. Node_Registry: the heartbeats of
  crates/nexus-app/src/main.rs, the gateway's reading of the registry in Redis, the publication of
  events and the CORS layer; a node stays listed for thirty seconds after a heartbeat. Metrics_Text:
  the metrics page, which shows the current queue depths and nothing stale. Routes: the route tables,
  which no router refuses. App_Start: main.rs and the pool of crates/nexus-storage; what a process in
  each role has done when it serves. Seccomp_Tool: the command line tool of nexus-runtime/src/bin.

  \<^bold>\<open>Fuel and bounds.\<close> All functions are total but one: the loops of the RabbitMQ adapter that read a
  queue to its end (\<open>read_queue\<close>) are a \<open>partial_function\<close> whose result None means that the call does
  not return, which is also the result of a call that waits for a lock it holds. The poll of the queue recurs on the list of routes,
  the excerpt of a text on its bytes, the parsers on their input; no fuel is used. Counters of the
  metrics and the sums of scores and times wrap at their widths as in the source.

  \<^bold>\<open>Parameters.\<close> Input and output errors, the environment, the parser of socket addresses, the
  system's \<open>uname\<close>, process behaviour, Unicode case conversion, JSON, ULIDs, clock readings and the
  clients of Postgres, RabbitMQ, NATS, Redis and HTTP are arguments; a client is a record of functions on a
  state of everything outside the process. Where a theorem needs something of them it says so as a hypothesis, and a
  witness instantiates it.

  \<^bold>\<open>Not modelled.\<close> The libraries themselves: the matching of requests and the layers of the web
  framework, the encoder of the metrics, the drivers and the JSON codecs. The constructors that
  connect a queue or the repositories before the services are built are parameters of App_Start; the
  connections themselves are in the models of the adapters. Telemetry sets up logging only. Log
  lines are left out everywhere.
\<close>

end
